(* ===== verification/Prelude.thy ===== *)
theory Prelude
  imports Main "HOL-Library.Char_ord" "HOL-Library.List_Lexorder" "HOL-Library.Sublist"
begin

text \<open>
  Shared vocabulary of the development: the error values of the plugin, the state-and-error
  monad in which every stateful Go function is written, a weakest-precondition calculus for it,
  and the string and slice functions of the Go standard library that the plugin calls
  (package strings, strconv and sort), on byte strings.

  A Go function that returns \<open>(T, error)\<close> and works on storage is a function of type
  \<open>('w, 't) io\<close>: it takes the world, returns either the error or the value, and always returns
  the world it leaves behind, since a Go error does not undo the writes made before it.
\<close>

named_theorems wp_simps
  \<open>equations that compute the weakest precondition of composed programs\<close>
named_theorems wp_intros
  \<open>introduction rules for the weakest precondition of storage and component operations\<close>

section \<open>Errors\<close>

text \<open>
  \<open>Errorf f args\<close> is \<open>fmt.Errorf\<close> with its format and its arguments (integers in decimal).
  The sentinel errors of the plugin that callers test with \<open>errors.Is\<close> have their own
  constructors. \<open>ErrStorage\<close>, \<open>ErrDecode\<close> and \<open>ErrContext\<close> are the failures that storage, the
  JSON decoder and a cancelled context report; \<open>ErrProvider c\<close> is an error of a destination
  provider whose class is \<open>c\<close>, \<open>ErrTransport\<close> an error of the network (a closed or refused connection,
  a timeout, a failed name lookup, an \<open>url.Error\<close>).
\<close>

datatype gerr =
    Errorf string "string list"
  | ErrStorage string
  | ErrDecode string
  | ErrContext string
  | ErrProvider string
  | ErrTransport string
  | ErrQueuedOperationClaimed string
  | ErrQueueCapacity int
  | ErrStorageSchema gerr
  | ErrBackendUUIDRequired
  | ErrSourcePathDoesNotExist
  | ErrCurrentSourceVersionUnavailable
  | ErrWrapped string gerr
  | ErrJoin gerr gerr

section \<open>The state-and-error monad\<close>

type_synonym ('w, 'a) io = "'w \<Rightarrow> (gerr + 'a) \<times> 'w"

definition retM :: "'a \<Rightarrow> ('w, 'a) io" where
  "retM a = (\<lambda>w. (Inr a, w))"

definition failM :: "gerr \<Rightarrow> ('w, 'a) io" where
  "failM e = (\<lambda>w. (Inl e, w))"

definition bindM :: "('w, 'a) io \<Rightarrow> ('a \<Rightarrow> ('w, 'b) io) \<Rightarrow> ('w, 'b) io" where
  "bindM m f = (\<lambda>w. case m w of (Inl e, w') \<Rightarrow> (Inl e, w') | (Inr a, w') \<Rightarrow> f a w')"

text \<open>\<open>liftE\<close> runs a pure fallible function; \<open>tryM\<close> hands the error to the caller as a value
  (a Go caller that inspects \<open>err\<close> instead of returning it).\<close>

definition liftE :: "gerr + 'a \<Rightarrow> ('w, 'a) io" where
  "liftE r = (\<lambda>w. (r, w))"

definition tryM :: "('w, 'a) io \<Rightarrow> ('w, gerr + 'a) io" where
  "tryM m = (\<lambda>w. case m w of (r, w') \<Rightarrow> (Inr r, w'))"

definition whenM :: "bool \<Rightarrow> ('w, unit) io \<Rightarrow> ('w, unit) io" where
  "whenM b m = (if b then m else retM ())"

text \<open>The loop \<open>for _, x := range xs { acc, err = f(acc, x); if err != nil { return err } }\<close>.\<close>

fun foldM :: "('b \<Rightarrow> 'a \<Rightarrow> ('w, 'b) io) \<Rightarrow> 'b \<Rightarrow> 'a list \<Rightarrow> ('w, 'b) io" where
  "foldM f acc [] = retM acc"
| "foldM f acc (x # xs) = bindM (f acc x) (\<lambda>acc'. foldM f acc' xs)"

text \<open>The same loop with \<open>break\<close> or an early \<open>return\<close> of a value.\<close>

datatype 'b flow = Continue 'b | Break 'b

fun flow_val :: "'b flow \<Rightarrow> 'b" where
  "flow_val (Continue b) = b"
| "flow_val (Break b) = b"

fun loopM :: "('b \<Rightarrow> 'a \<Rightarrow> ('w, 'b flow) io) \<Rightarrow> 'b \<Rightarrow> 'a list \<Rightarrow> ('w, 'b) io" where
  "loopM f acc [] = retM acc"
| "loopM f acc (x # xs) =
     bindM (f acc x) (\<lambda>r. case r of Continue acc' \<Rightarrow> loopM f acc' xs | Break acc' \<Rightarrow> retM acc')"

definition eachM :: "'a list \<Rightarrow> ('a \<Rightarrow> ('w, unit) io) \<Rightarrow> ('w, unit) io" where
  "eachM xs f = foldM (\<lambda>_ x. f x) () xs"

text \<open>Loops of pure fallible functions.\<close>

fun foldE :: "('b \<Rightarrow> 'a \<Rightarrow> gerr + 'b) \<Rightarrow> 'b \<Rightarrow> 'a list \<Rightarrow> gerr + 'b" where
  "foldE f acc [] = Inr acc"
| "foldE f acc (x # xs) = (case f acc x of Inl e \<Rightarrow> Inl e | Inr acc' \<Rightarrow> foldE f acc' xs)"

definition bindE :: "gerr + 'a \<Rightarrow> ('a \<Rightarrow> gerr + 'b) \<Rightarrow> gerr + 'b" where
  "bindE r f = (case r of Inl e \<Rightarrow> Inl e | Inr a \<Rightarrow> f a)"

lemma bindE_simps [simp]: "bindE (Inl e) f = Inl e" "bindE (Inr a) f = f a"
  by (simp_all add: bindE_def)

lemma bindE_Inr_iff: "bindE r f = Inr b \<longleftrightarrow> (\<exists>a. r = Inr a \<and> f a = Inr b)"
  by (cases r) auto

lemma bindM_simps [simp]:
  "bindM (retM a) f = f a"
  "bindM (failM e) f = failM e"
  "bindM (bindM m f) g = bindM m (\<lambda>a. bindM (f a) g)"
  by (auto simp: bindM_def retM_def failM_def fun_eq_iff split: prod.splits sum.splits)

subsection \<open>Weakest preconditions\<close>

text \<open>
  \<open>wp m Q E w\<close>: run from world \<open>w\<close>, program \<open>m\<close> ends either with a value and a world in
  \<open>Q\<close> or with an error and a world in \<open>E\<close>. Programs are total functions, so this is total
  correctness; the error postcondition \<open>E\<close> states what survives a failure.
\<close>

definition wp :: "('w, 'a) io \<Rightarrow> ('a \<Rightarrow> 'w \<Rightarrow> bool) \<Rightarrow> (gerr \<Rightarrow> 'w \<Rightarrow> bool) \<Rightarrow> 'w \<Rightarrow> bool" where
  "wp m Q E w = (case m w of (Inl e, w') \<Rightarrow> E e w' | (Inr a, w') \<Rightarrow> Q a w')"

lemma wp_retM [wp_simps, simp]: "wp (retM a) Q E w = Q a w"
  by (simp add: wp_def retM_def)

lemma wp_failM [wp_simps, simp]: "wp (failM e) Q E w = E e w"
  by (simp add: wp_def failM_def)

lemma wp_bindM [wp_simps, simp]: "wp (bindM m f) Q E w = wp m (\<lambda>a. wp (f a) Q E) E w"
  by (simp add: wp_def bindM_def split: prod.splits sum.splits)

lemma wp_liftE [wp_simps, simp]:
  "wp (liftE r) Q E w = (case r of Inl e \<Rightarrow> E e w | Inr a \<Rightarrow> Q a w)"
  by (simp add: wp_def liftE_def split: sum.splits)

lemma wp_tryM [wp_simps, simp]:
  "wp (tryM m) Q E w = wp m (\<lambda>a. Q (Inr a)) (\<lambda>e. Q (Inl e)) w"
  by (simp add: wp_def tryM_def split: prod.splits sum.splits)

lemma wp_whenM [wp_simps, simp]:
  "wp (whenM b m) Q E w = (if b then wp m Q E w else Q () w)"
  by (simp add: whenM_def)

lemma wp_if [wp_simps]:
  "wp (if b then m else n) Q E w = (if b then wp m Q E w else wp n Q E w)"
  by simp

lemma wp_case_option [wp_simps]:
  "wp (case x of None \<Rightarrow> m | Some y \<Rightarrow> f y) Q E w =
     (case x of None \<Rightarrow> wp m Q E w | Some y \<Rightarrow> wp (f y) Q E w)"
  by (simp split: option.splits)

lemma wp_case_sum [wp_simps]:
  "wp (case x of Inl a \<Rightarrow> f a | Inr b \<Rightarrow> g b) Q E w =
     (case x of Inl a \<Rightarrow> wp (f a) Q E w | Inr b \<Rightarrow> wp (g b) Q E w)"
  by (simp split: sum.splits)

lemma wp_case_prod [wp_simps]:
  "wp (case x of (a, b) \<Rightarrow> f a b) Q E w = (case x of (a, b) \<Rightarrow> wp (f a b) Q E w)"
  by (simp split: prod.splits)

lemma wp_mono:
  assumes "wp m Q E w" and "\<And>a w'. Q a w' \<Longrightarrow> Q' a w'" and "\<And>e w'. E e w' \<Longrightarrow> E' e w'"
  shows "wp m Q' E' w"
  using assms by (auto simp: wp_def split: prod.splits sum.splits)

lemma wp_conj:
  assumes "wp m Q E w" and "wp m Q' E' w"
  shows "wp m (\<lambda>a w'. Q a w' \<and> Q' a w') (\<lambda>e w'. E e w' \<and> E' e w') w"
  using assms by (auto simp: wp_def split: prod.splits sum.splits)

lemma wpD_Inr: "wp m Q E w \<Longrightarrow> m w = (Inr a, w') \<Longrightarrow> Q a w'"
  by (simp add: wp_def)

lemma wpD_Inl: "wp m Q E w \<Longrightarrow> m w = (Inl e, w') \<Longrightarrow> E e w'"
  by (simp add: wp_def)

lemma wp_snd: "wp m (\<lambda>_. P) (\<lambda>_. P) w \<longleftrightarrow> P (snd (m w))"
  by (simp add: wp_def split: prod.splits sum.splits)

text \<open>Loop rules: an invariant over the elements still to visit.\<close>

lemma wp_foldM:
  assumes "I acc xs w"
    and "\<And>b x ys w'. I b (x # ys) w' \<Longrightarrow> wp (f b x) (\<lambda>b'. I b' ys) E w'"
    and "\<And>b w'. I b [] w' \<Longrightarrow> Q b w'"
  shows "wp (foldM f acc xs) Q E w"
  using assms(1)
proof (induction xs arbitrary: acc w)
  case Nil
  then show ?case by (simp add: assms(3))
next
  case (Cons x xs)
  show ?case
    using wp_mono [OF assms(2) [OF Cons.prems] Cons.IH] by simp
qed

lemma wp_foldM_inv:
  assumes "P w" and "\<And>b x w'. P w' \<Longrightarrow> x \<in> set xs \<Longrightarrow> wp (f b x) (\<lambda>_. P) (\<lambda>_. P) w'"
  shows "wp (foldM f acc xs) (\<lambda>_. P) (\<lambda>_. P) w"
  by (rule wp_foldM [where I = "\<lambda>b ys w'. P w' \<and> set ys \<subseteq> set xs"])
    (auto simp: assms(1) elim!: wp_mono intro: assms(2) [THEN wp_mono])

lemma wp_loopM:
  assumes "I acc xs w"
    and "\<And>b x ys w'. I b (x # ys) w' \<Longrightarrow>
           wp (f b x) (\<lambda>r. case r of Continue b' \<Rightarrow> I b' ys | Break b' \<Rightarrow> Q b') E w'"
    and "\<And>b w'. I b [] w' \<Longrightarrow> Q b w'"
  shows "wp (loopM f acc xs) Q E w"
  using assms(1)
proof (induction xs arbitrary: acc w)
  case Nil
  then show ?case by (simp add: assms(3))
next
  case (Cons x xs)
  show ?case
    by (simp, rule wp_mono [OF assms(2) [OF Cons.prems]])
      (auto split: flow.splits intro: Cons.IH)
qed

lemma wp_loopM_inv:
  assumes "P w" and "\<And>b x w'. P w' \<Longrightarrow> x \<in> set xs \<Longrightarrow> wp (f b x) (\<lambda>_. P) (\<lambda>_. P) w'"
  shows "wp (loopM f acc xs) (\<lambda>_. P) (\<lambda>_. P) w"
proof (rule wp_loopM [where I = "\<lambda>b ys w'. P w' \<and> set ys \<subseteq> set xs"])
  fix b x ys w'
  assume "P w' \<and> set (x # ys) \<subseteq> set xs"
  then have "wp (f b x) (\<lambda>_. P) (\<lambda>_. P) w'" and "set ys \<subseteq> set xs"
    using assms(2) by auto
  then show "wp (f b x) (\<lambda>r. case r of Continue b' \<Rightarrow> (\<lambda>w'. P w' \<and> set ys \<subseteq> set xs) | Break b' \<Rightarrow> P)
      (\<lambda>_. P) w'"
    by (auto elim!: wp_mono split: flow.splits)
qed (use assms(1) in auto)

lemma wp_eachM:
  assumes "I xs w"
    and "\<And>x ys w'. I (x # ys) w' \<Longrightarrow> wp (f x) (\<lambda>_. I ys) E w'"
    and "\<And>w'. I [] w' \<Longrightarrow> Q () w'"
  shows "wp (eachM xs f) Q E w"
  unfolding eachM_def
  by (rule wp_foldM [where I = "\<lambda>_ ys. I ys"]) (use assms in auto)

lemma wp_eachM_inv:
  assumes "P w" and "\<And>x w'. P w' \<Longrightarrow> x \<in> set xs \<Longrightarrow> wp (f x) (\<lambda>_. P) (\<lambda>_. P) w'"
  shows "wp (eachM xs f) (\<lambda>_. P) (\<lambda>_. P) w"
  unfolding eachM_def by (rule wp_foldM_inv) (use assms in auto)

end
