(* ===== verification/Go_Strings.thy ===== *)
theory Go_Strings
  imports Prelude
begin

text \<open>
  The functions of the Go packages strings, strconv, hex and sort that the plugin calls, on byte
  strings (a \<open>char\<close> is a byte, as in a Go string). \<open>HasPrefix s p\<close> is \<open>prefix p s\<close>.
\<close>

section \<open>Package strings\<close>

abbreviation slash :: char where
  "slash \<equiv> CHR ''/''"

definition trimLeft :: "char \<Rightarrow> string \<Rightarrow> string" where
  "trimLeft c s = dropWhile (\<lambda>x. x = c) s"

definition trimRight :: "char \<Rightarrow> string \<Rightarrow> string" where
  "trimRight c s = rev (dropWhile (\<lambda>x. x = c) (rev s))"

definition trim :: "char \<Rightarrow> string \<Rightarrow> string" where
  "trim c s = trimRight c (trimLeft c s)"

definition trimSuffix :: "string \<Rightarrow> string \<Rightarrow> string" where
  "trimSuffix s suf = (if suffix suf s then take (length s - length suf) s else s)"

definition trimPrefix :: "string \<Rightarrow> string \<Rightarrow> string" where
  "trimPrefix s pre = (if prefix pre s then drop (length pre) s else s)"

text \<open>\<open>strings.Split(s, c)\<close> with a one-byte separator, and \<open>strings.Join\<close>.\<close>

fun splitOn :: "char \<Rightarrow> string \<Rightarrow> string list" where
  "splitOn c [] = [[]]"
| "splitOn c (x # xs) =
     (if x = c then [] # splitOn c xs
      else (case splitOn c xs of [] \<Rightarrow> [[x]] | y # ys \<Rightarrow> (x # y) # ys))"

fun joinWith :: "char \<Rightarrow> string list \<Rightarrow> string" where
  "joinWith c [] = []"
| "joinWith c [x] = x"
| "joinWith c (x # y # ys) = x @ c # joinWith c (y # ys)"

text \<open>\<open>strings.Cut(s, c)\<close>: what is before and after the first separator, if there is one.\<close>

definition cutAt :: "char \<Rightarrow> string \<Rightarrow> (string \<times> string) option" where
  "cutAt c s = (case dropWhile (\<lambda>x. x \<noteq> c) s of
      [] \<Rightarrow> None
    | _ # rest \<Rightarrow> Some (takeWhile (\<lambda>x. x \<noteq> c) s, rest))"

fun containsStr :: "string \<Rightarrow> string \<Rightarrow> bool" where
  "containsStr [] sub = (sub = [])"
| "containsStr (x # xs) sub = (prefix sub (x # xs) \<or> containsStr xs sub)"

text \<open>
  \<open>strings.NewReplacer(old1, new1, ...).Replace(s)\<close>: at each position the first pair (in argument
  order) whose old string starts there is replaced, without overlap. The old strings of the
  plugin are not empty. \<open>strings.ReplaceAll\<close> is the replacer of one pair.
\<close>

function replacer :: "(string \<times> string) list \<Rightarrow> string \<Rightarrow> string" where
  "replacer ps [] = []"
| "replacer ps (x # xs) =
     (case find (\<lambda>p. fst p \<noteq> [] \<and> prefix (fst p) (x # xs)) ps of
        Some (old, new) \<Rightarrow> new @ replacer ps (drop (length old - 1) xs)
      | None \<Rightarrow> x # replacer ps xs)"
  by pat_completeness auto
termination
  by (relation "measure (\<lambda>(ps, s). length s)") auto

definition replaceAll :: "string \<Rightarrow> string \<Rightarrow> string \<Rightarrow> string" where
  "replaceAll s old new = replacer [(old, new)] s"

text \<open>
  \<open>strings.TrimSpace\<close>: the UTF-8 encodings of the runes of \<open>unicode.IsSpace\<close> are stripped from both
  ends.
\<close>

definition spaceRunes :: "string list" where
  "spaceRunes =
     map (\<lambda>n. [char_of (n::nat)]) [9, 10, 11, 12, 13, 32] @
     map (map char_of)
       ([[194, 133], [194, 160], [225, 154, 128], [226, 128, 168], [226, 128, 169],
         [226, 128, 175], [226, 129, 159], [227, 128, 128]] @
        map (\<lambda>n. [226, 128, n]) [128, 129, 130, 131, 132, 133, 134, 135, 136, 137, 138 :: nat])"

function trimRunes :: "string list \<Rightarrow> string \<Rightarrow> string" where
  "trimRunes rs s =
     (case find (\<lambda>r. r \<noteq> [] \<and> prefix r s) rs of
        Some r \<Rightarrow> trimRunes rs (drop (length r) s)
      | None \<Rightarrow> s)"
  by pat_completeness auto
termination
proof (relation "measure (\<lambda>(rs, s). length s)", goal_cases)
  case (2 rs s r)
  then have "r \<noteq> []" and "prefix r s"
    by (auto simp: find_Some_iff)
  then show ?case
    by (auto simp: prefix_def)
qed simp

declare trimRunes.simps [simp del]

definition trimSpace :: "string \<Rightarrow> string" where
  "trimSpace s =
     rev (trimRunes (map rev spaceRunes) (rev (trimRunes spaceRunes s)))"

section \<open>Package strconv\<close>

definition isDigit :: "char \<Rightarrow> bool" where
  "isDigit c \<longleftrightarrow> 48 \<le> (of_char c :: nat) \<and> (of_char c :: nat) \<le> 57"

definition digitVal :: "char \<Rightarrow> nat" where
  "digitVal c = of_char c - 48"

definition digitChar :: "nat \<Rightarrow> char" where
  "digitChar d = char_of (48 + d)"

lemma of_char_digitChar: "d < 10 \<Longrightarrow> (of_char (digitChar d) :: nat) = 48 + d"
  by (simp add: digitChar_def of_char_of)

lemma digitChar_simps [simp]:
  "d < 10 \<Longrightarrow> isDigit (digitChar d)"
  "d < 10 \<Longrightarrow> digitVal (digitChar d) = d"
  by (simp_all add: isDigit_def digitVal_def of_char_digitChar)

lemma isDigit_not [simp]:
  "\<not> isDigit slash" "\<not> isDigit (CHR ''-'')" "\<not> isDigit (CHR ''+'')" "\<not> isDigit (CHR '':'')"
  "\<not> isDigit (CHR ''Z'')" "\<not> isDigit (CHR ''.'')" "\<not> isDigit (CHR '','')"
  by (simp_all add: isDigit_def)

fun natDigits :: "nat \<Rightarrow> string" where
  "natDigits n = (if n < 10 then [digitChar n] else natDigits (n div 10) @ [digitChar (n mod 10)])"

declare natDigits.simps [simp del]

definition itoa :: "int \<Rightarrow> string" where
  "itoa i = (if i < 0 then CHR ''-'' # natDigits (nat (- i)) else natDigits (nat i))"

definition digitsVal :: "string \<Rightarrow> nat" where
  "digitsVal s = foldl (\<lambda>a c. 10 * a + digitVal c) 0 s"

definition parseDigits :: "string \<Rightarrow> int option" where
  "parseDigits s = (if s \<noteq> [] \<and> list_all isDigit s then Some (int (digitsVal s)) else None)"

definition inInt64 :: "int \<Rightarrow> bool" where
  "inInt64 i \<longleftrightarrow> - (2 ^ 63) \<le> i \<and> i < 2 ^ 63"

text \<open>\<open>strconv.Atoi\<close>: an optional sign, decimal digits, the range of a 64-bit int.\<close>

definition atoi :: "string \<Rightarrow> int option" where
  "atoi s =
     (let n = (case s of
          [] \<Rightarrow> None
        | c # r \<Rightarrow>
            if c = CHR ''-'' then map_option uminus (parseDigits r)
            else if c = CHR ''+'' then parseDigits r
            else parseDigits s)
      in case n of Some i \<Rightarrow> if inInt64 i then Some i else None | None \<Rightarrow> None)"

text \<open>\<open>hex.EncodeToString\<close>.\<close>

definition hexDigit :: "nat \<Rightarrow> char" where
  "hexDigit d = (if d < 10 then digitChar d else char_of (87 + d))"

definition hexEncode :: "string \<Rightarrow> string" where
  "hexEncode s = concat (map (\<lambda>c. [hexDigit (of_char c div 16), hexDigit (of_char c mod 16)]) s)"

lemma hexDigit_not_slash: "d < 16 \<Longrightarrow> hexDigit d \<noteq> slash"
proof
  assume d: "d < 16" and "hexDigit d = slash"
  then have "(of_char (hexDigit d) :: nat) = 47" by simp
  then show False using d
    by (auto simp: hexDigit_def of_char_digitChar of_char_of split: if_splits)
qed

lemma of_char_bound: "(of_char c :: nat) < 256"
  by (cases c) (simp add: of_char_def horner_sum_simps split: if_splits)

lemma hexEncode_no_slash: "slash \<notin> set (hexEncode s)"
proof -
  have "hexDigit (of_char c div 16) \<noteq> slash \<and> hexDigit (of_char c mod 16) \<noteq> slash" for c :: char
    using of_char_bound [of c]
    by (intro conjI hexDigit_not_slash) (simp_all add: div_less_iff_less_mult)
  then show ?thesis by (auto simp: hexEncode_def dest: sym)
qed

lemma length_hexEncode [simp]: "length (hexEncode s) = 2 * length s"
  by (induction s) (simp_all add: hexEncode_def)

lemma natDigits_digits: "list_all isDigit (natDigits n)"
  by (induction n rule: natDigits.induct) (subst natDigits.simps, auto)

lemma natDigits_nonempty [simp]: "natDigits n \<noteq> []"
  by (subst natDigits.simps) simp

lemma digitsVal_natDigits: "digitsVal (natDigits n) = n"
proof (induction n rule: natDigits.induct)
  case (1 n)
  show ?case
    by (subst natDigits.simps) (use 1 in \<open>auto simp: digitsVal_def\<close>)
qed

lemma parseDigits_natDigits [simp]: "parseDigits (natDigits n) = Some (int n)"
  by (simp add: parseDigits_def natDigits_digits digitsVal_natDigits)

lemma atoi_itoa: "inInt64 i \<Longrightarrow> atoi (itoa i) = Some i"
proof (cases "i < 0")
  case True
  moreover assume "inInt64 i"
  ultimately show ?thesis
    by (simp add: atoi_def itoa_def)
next
  case False
  obtain c r where cr: "natDigits (nat i) = c # r"
    by (cases "natDigits (nat i)") auto
  with natDigits_digits [of "nat i"] have "isDigit c" by simp
  then have "c \<noteq> CHR ''-''" "c \<noteq> CHR ''+''" by auto
  moreover assume "inInt64 i"
  moreover have "parseDigits (c # r) = Some i"
    using False by (simp flip: cr)
  ultimately show ?thesis
    using False by (simp add: atoi_def itoa_def cr)
qed

lemma itoa_no_slash: "slash \<notin> set (itoa i)"
  using natDigits_digits [of "nat i"] natDigits_digits [of "nat (- i)"]
  by (auto simp: itoa_def list_all_iff)

lemma itoa_inj: "itoa i = itoa j \<longleftrightarrow> i = j"
proof
  assume eq: "itoa i = itoa j"
  have minus: "hd (natDigits n) \<noteq> CHR ''-''" for n
    using natDigits_digits [of n] by (cases "natDigits n") (auto simp: natDigits_nonempty)
  have "i < 0 \<longleftrightarrow> j < 0"
    using eq minus [of "nat i"] minus [of "nat j"]
    by (auto simp: itoa_def split: if_splits) (metis list.sel(1))+
  with eq have "natDigits (nat \<bar>i\<bar>) = natDigits (nat \<bar>j\<bar>)"
    by (auto simp: itoa_def split: if_splits)
  then have "nat \<bar>i\<bar> = nat \<bar>j\<bar>"
    by (metis digitsVal_natDigits)
  with \<open>i < 0 \<longleftrightarrow> j < 0\<close> show "i = j" by linarith
qed simp

section \<open>Splitting and joining\<close>

lemma splitOn_nonempty [simp]: "splitOn c s \<noteq> []"
  by (cases s) (auto split: list.splits)

lemma splitOn_no_sep: "p \<in> set (splitOn c s) \<Longrightarrow> c \<notin> set p"
  by (induction s arbitrary: p) (auto split: if_splits list.splits)

lemma joinWith_splitOn [simp]: "joinWith c (splitOn c s) = s"
proof (induction s)
  case (Cons x s)
  obtain y ys where "splitOn c s = y # ys"
    by (cases "splitOn c s") auto
  with Cons show ?case by (cases ys) auto
qed simp

lemma splitOn_no_sep_id: "c \<notin> set s \<Longrightarrow> splitOn c s = [s]"
  by (induction s) auto

lemma splitOn_append: "splitOn c (s @ c # t) = splitOn c s @ splitOn c t"
proof (induction s)
  case (Cons x s)
  obtain y ys where "splitOn c s = y # ys"
    by (cases "splitOn c s") auto
  with Cons show ?case by auto
qed simp

lemma joinWith_append:
  "xs \<noteq> [] \<Longrightarrow> ys \<noteq> [] \<Longrightarrow> joinWith c (xs @ ys) = joinWith c xs @ c # joinWith c ys"
proof (induction xs)
  case (Cons x xs)
  then show ?case by (cases xs; cases ys) auto
qed simp

lemma splitOn_joinWith:
  "ps \<noteq> [] \<Longrightarrow> \<forall>p \<in> set ps. c \<notin> set p \<Longrightarrow> splitOn c (joinWith c ps) = ps"
  by (induction c ps rule: joinWith.induct) (auto simp: splitOn_no_sep_id splitOn_append)

lemma splitOn_inj: "splitOn c s = splitOn c t \<longleftrightarrow> s = t"
  by (metis joinWith_splitOn)

text \<open>A last segment without separator splits off uniquely.\<close>

lemma append_sep_inj:
  assumes "c \<notin> set b" and "c \<notin> set d"
  shows "a @ c # b = a' @ c # d \<longleftrightarrow> a = a' \<and> b = d"
proof
  assume eq: "a @ c # b = a' @ c # d"
  have last_seg: "takeWhile (\<lambda>x. x \<noteq> c) (rev (u @ c # v)) = rev v" if "c \<notin> set v" for u v
    using that by (auto simp: takeWhile_append takeWhile_eq_all_conv)
  have "rev b = rev d"
    using last_seg [OF assms(1), of a] last_seg [OF assms(2), of a'] eq by simp
  with eq show "a = a' \<and> b = d" by simp
qed simp

lemma sep_first_inj:
  assumes "c \<notin> set a" and "c \<notin> set a'"
  shows "a @ c # b = a' @ c # d \<longleftrightarrow> a = a' \<and> b = d"
proof
  assume eq: "a @ c # b = a' @ c # d"
  have first_seg: "takeWhile (\<lambda>x. x \<noteq> c) (u @ c # v) = u" if "c \<notin> set u" for u v
    using that by (auto simp: takeWhile_append takeWhile_eq_all_conv)
  have "a = a'"
    using first_seg [OF assms(1), of b] first_seg [OF assms(2), of d] eq by simp
  with eq show "a = a' \<and> b = d" by simp
qed simp

lemma cutAt_append [simp]: "c \<notin> set a \<Longrightarrow> cutAt c (a @ c # b) = Some (a, b)"
  by (simp add: cutAt_def dropWhile_append takeWhile_append takeWhile_eq_all_conv
      dropWhile_eq_Nil_conv)

lemma cutAt_Some: "cutAt c s = Some (a, b) \<longleftrightarrow> s = a @ c # b \<and> c \<notin> set a"
proof
  assume "cutAt c s = Some (a, b)"
  then obtain x where drop: "dropWhile (\<lambda>x. x \<noteq> c) s = x # b" and a: "a = takeWhile (\<lambda>x. x \<noteq> c) s"
    by (auto simp: cutAt_def split: list.splits)
  from drop have "x = c"
    by (metis (mono_tags, lifting) hd_dropWhile list.distinct(1) list.sel(1))
  then show "s = a @ c # b \<and> c \<notin> set a"
    using a drop by (metis takeWhile_dropWhile_id set_takeWhileD)
qed auto

section \<open>Sorted unique string slices\<close>

definition uniqueSorted :: "string list \<Rightarrow> string list" where
  "uniqueSorted xs = remdups_adj (sort xs)"

lemma uniqueSorted_set [simp]: "set (uniqueSorted xs) = set xs"
  by (simp add: uniqueSorted_def)

lemma distinct_remdups_adj_sorted: "sorted xs \<Longrightarrow> distinct (remdups_adj xs)"
  by (induction xs rule: remdups_adj.induct) auto

lemma sorted_uniqueSorted: "sorted (uniqueSorted xs) \<and> distinct (uniqueSorted xs)"
  by (simp add: uniqueSorted_def distinct_remdups_adj_sorted)

lemma uniqueSorted_cong: "set xs = set ys \<Longrightarrow> uniqueSorted xs = uniqueSorted ys"
  by (metis sorted_uniqueSorted sorted_distinct_set_unique uniqueSorted_set)

end
