(* ===== verification/Storage_Records.thy ===== *)
theory Storage_Records
  imports Go_Strings
begin

text \<open>
  The stored data of the plugin (\<open>internal/backend/storage_records.go\<close>): the records, the storage
  keys they live under, the derived identifiers, and the source-path normalisation that every
  handler applies first. Object-name rendering of \<open>granularity.go\<close> is here too, since the name
  reservations of an association are rendered names.

  Go structs are records whose fields carry a two-letter prefix. A Go map is an association list
  with distinct keys; its list order is the (arbitrary) iteration order, and a nil map and an empty
  one are both the empty list. The zero value of a struct is a constant, and a struct literal that leaves fields out updates it.
\<close>

section \<open>Constants\<close>

definition storageSchemaKey :: string where "storageSchemaKey = ''schema/version''"
definition restoreEpochKey :: string where "restoreEpochKey = ''identity/restore-epoch''"
definition configPath :: string where "configPath = ''config''"
definition metadataStoragePrefix :: string where "metadataStoragePrefix = ''metadata/''"
definition versionStoragePrefix :: string where "versionStoragePrefix = ''data/''"
definition enqueueIntentStoragePrefix :: string where "enqueueIntentStoragePrefix = ''enqueue_intent/''"
definition destinationStoragePrefix :: string where "destinationStoragePrefix = ''destinations/''"
definition destinationSecretsPrefix :: string where "destinationSecretsPrefix = ''destinations_secrets/''"
definition associationStoragePrefix :: string where "associationStoragePrefix = ''associations/''"
definition associationByDestPrefix :: string where
  "associationByDestPrefix = ''associations_by_destination/''"
definition associationNamePrefix :: string where "associationNamePrefix = ''association_names/''"
definition outboxStoragePrefix :: string where "outboxStoragePrefix = ''outbox/''"
definition outboxByDueStoragePrefix :: string where "outboxByDueStoragePrefix = ''outbox_by_due/''"
definition outboxByPathStoragePrefix :: string where "outboxByPathStoragePrefix = ''outbox_by_path/''"
definition outboxByStateStoragePrefix :: string where
  "outboxByStateStoragePrefix = ''outbox_by_state/''"
definition statusStoragePrefix :: string where "statusStoragePrefix = ''status/''"

lemmas prefix_defs = storageSchemaKey_def restoreEpochKey_def configPath_def
  metadataStoragePrefix_def versionStoragePrefix_def enqueueIntentStoragePrefix_def
  destinationStoragePrefix_def destinationSecretsPrefix_def associationStoragePrefix_def
  associationByDestPrefix_def associationNamePrefix_def outboxStoragePrefix_def
  outboxByDueStoragePrefix_def outboxByPathStoragePrefix_def outboxByStateStoragePrefix_def
  statusStoragePrefix_def

definition outboxDueZeroTime :: string where "outboxDueZeroTime = ''0001-01-01T00:00:00Z''"
definition defaultQueueCapacity :: int where "defaultQueueCapacity = 1000"
definition defaultMaxVersions :: int where "defaultMaxVersions = 10"
definition defaultDeleteVersionAfter :: string where "defaultDeleteVersionAfter = ''0s''"

definition outboxStatePending :: string where "outboxStatePending = ''pending''"
definition outboxStateRetryWait :: string where "outboxStateRetryWait = ''retry_wait''"
definition outboxStateFailedTerminal :: string where "outboxStateFailedTerminal = ''failed_terminal''"
definition outboxStateCanceled :: string where "outboxStateCanceled = ''canceled''"

lemmas outbox_states = outboxStatePending_def outboxStateRetryWait_def
  outboxStateFailedTerminal_def outboxStateCanceled_def

definition syncGranularitySecretPath :: string where "syncGranularitySecretPath = ''secret-path''"
definition syncGranularitySecretKey :: string where "syncGranularitySecretKey = ''secret-key''"
definition syncObjectIDSecretPath :: string where
  "syncObjectIDSecretPath = syncGranularitySecretPath"
definition defaultAssociationFormat :: string where "defaultAssociationFormat = ''json''"
definition rawAssociationFormat :: string where "rawAssociationFormat = ''raw''"
definition destinationSensitiveNone :: string where "destinationSensitiveNone = ''none''"
definition defaultDataMapping :: string where "defaultDataMapping = ''payload''"
definition dataMappingSourceKeys :: string where "dataMappingSourceKeys = ''source-keys''"
definition defaultDataKeyTemplate :: string where "defaultDataKeyTemplate = ''{{ key }}''"
definition defaultNameTemplate :: string where "defaultNameTemplate = ''{{ path }}''"
definition defaultPerKeyNameTemplate :: string where
  "defaultPerKeyNameTemplate = ''{{ path }}/{{ key }}''"
definition deleteModeRetain :: string where "deleteModeRetain = ''retain''"
definition deleteModeDelete :: string where "deleteModeDelete = ''delete''"
definition deleteModeOrphan :: string where "deleteModeOrphan = ''orphan''"
definition defaultDeleteMode :: string where "defaultDeleteMode = deleteModeRetain"
definition outboxTriggerUser :: string where "outboxTriggerUser = ''user''"
definition outboxTriggerDriftRepair :: string where "outboxTriggerDriftRepair = ''drift-repair''"
definition currentStorageSchema :: int where "currentStorageSchema = 1"
definition minSupportedStorageSchema :: int where "minSupportedStorageSchema = 1"

text \<open>\<open>outbox.OperationType\<close>.\<close>

definition OperationTypeUpsert :: string where "OperationTypeUpsert = ''upsert''"
definition OperationTypeDelete :: string where "OperationTypeDelete = ''delete''"

section \<open>Values and records\<close>

text \<open>
  A Go \<open>interface{}\<close> value of a source payload or a request field. \<open>JFloat m e\<close> is the float
  \<open>m * 2 ^ e\<close>; \<open>JNumber\<close> is a \<open>json.Number\<close>, kept as its literal.
\<close>

datatype goval =
    JNull
  | JBool bool
  | JInt int
  | JFloat int int
  | JNumber string
  | JString string
  | JBytes string
  | JArray "goval list"
  | JObject "(string \<times> goval) list"

type_synonym secretPayload = "(string \<times> goval) list"

record storageSchemaRecord =
  ss_Version :: int
  ss_MinCompatibleVersion :: int
  ss_CreatedTime :: string
  ss_UpdatedTime :: string

record restoreEpochRecord =
  re_Epoch :: string
  re_CreatedTime :: string
  re_UpdatedTime :: string

record versionRecord =
  vr_Version :: int
  vr_CreatedTime :: string
  vr_Data :: secretPayload
  vr_DeletionTime :: string
  vr_Destroyed :: bool

record versionMetadata =
  vm_CreatedTime :: string
  vm_DeletionTime :: string
  vm_Destroyed :: bool

record metadataRecord =
  md_Generation :: string
  md_CurrentVersion :: int
  md_OldestVersion :: int
  md_MaxVersions :: int
  md_CASRequired :: bool
  md_DeleteVersionAfter :: string
  md_SourceSyncEnabled :: bool
  md_CustomMetadata :: "(string \<times> string) list"
  md_Versions :: "(string \<times> versionMetadata) list"
  md_UpdatedTime :: string

record destinationRecord =
  ds_Type :: string
  ds_Name :: string
  ds_Description :: string
  ds_Disabled :: bool
  ds_Config :: "(string \<times> string) list"
  ds_SensitiveConfigVersion :: string
  ds_AllowedSourcePathPrefixes :: "string list"
  ds_AllowedResolvedNamePrefixes :: "string list"
  ds_CreatedTime :: string
  ds_UpdatedTime :: string

record destinationSensitiveRecord =
  sn_Type :: string
  sn_Name :: string
  sn_Config :: "(string \<times> string) list"
  sn_CreatedTime :: string
  sn_UpdatedTime :: string

record associationRecord =
  as_ID :: string
  as_Path :: string
  as_DestinationType :: string
  as_DestinationName :: string
  as_DestinationRef :: string
  as_NameTemplate :: string
  as_ResolvedName :: string
  as_ReservationNames :: "string list"
  as_Granularity :: string
  as_Format :: string
  as_DataMapping :: string
  as_DataKeyTemplate :: string
  as_ProviderConfig :: "(string \<times> string) list"
  as_ProviderIdentity :: string
  as_DeleteMode :: string
  as_Enabled :: bool
  as_CreatedTime :: string
  as_UpdatedTime :: string

record enqueueIntentOperation =
  io_ID :: string
  io_Type :: string
  io_AssociationID :: string
  io_ObjectID :: string
  io_DestinationRef :: string
  io_NotBefore :: string
  io_IdempotencyKey :: string
  io_Trigger :: string

record enqueueIntentRecord =
  in_Path :: string
  in_Generation :: string
  in_Version :: int
  in_Operations :: "enqueueIntentOperation list"
  in_CancelOperationIDs :: "string list"
  in_CreatedTime :: string
  in_UpdatedTime :: string

record outboxRecord =
  ob_ID :: string
  ob_Type :: string
  ob_Path :: string
  ob_Version :: int
  ob_AssociationID :: string
  ob_ObjectID :: string
  ob_DestinationRef :: string
  ob_State :: string
  ob_Attempts :: int
  ob_NotBefore :: string
  ob_CreatedTime :: string
  ob_UpdatedTime :: string
  ob_IdempotencyKey :: string
  ob_Trigger :: string
  ob_ClaimOwner :: string
  ob_ClaimExpiresTime :: string
  ob_ClaimAttempt :: int

record statusRecord =
  st_Path :: string
  st_Version :: int
  st_AssociationID :: string
  st_ObjectID :: string
  st_DestinationRef :: string
  st_ResolvedName :: string
  st_State :: string
  st_PayloadSHA256 :: string
  st_RemoteVersion :: string
  st_Verification :: string
  st_LastOperationID :: string
  st_LastSuccessTime :: string
  st_LastReconcileTime :: string
  st_LastDriftDetectedTime :: string
  st_LastRepairTime :: string
  st_RepairCount :: int
  st_LastErrorClass :: string
  st_LastError :: string
  st_UpdatedTime :: string

text \<open>\<open>storedGlobalConfig\<close> of \<open>path_config.go\<close>: pointer fields are options. \<open>globalConfig\<close> is
  written as a stored configuration with every field set.\<close>

record storedGlobalConfig =
  sc_SecurityPosture :: "string option"
  sc_Disabled :: bool
  sc_RestoreGuard :: "bool option"
  sc_RestoreGuardAcknowledgedTime :: string
  sc_QueueCapacity :: "int option"
  sc_DriftRepair :: "string option"
  sc_DriftReconcileInterval :: "string option"
  sc_DriftReconcileBatch :: "int option"
  sc_EventDispatchEnabled :: "bool option"
  sc_EventDispatchMaxOperations :: "int option"
  sc_UpdatedTime :: string

text \<open>Zero values of the structs that the code builds with partial literals.\<close>

definition zeroOutboxRecord :: outboxRecord where
  "zeroOutboxRecord = \<lparr> ob_ID = [], ob_Type = [], ob_Path = [], ob_Version = 0, ob_AssociationID = [],
     ob_ObjectID = [], ob_DestinationRef = [], ob_State = [], ob_Attempts = 0, ob_NotBefore = [],
     ob_CreatedTime = [], ob_UpdatedTime = [], ob_IdempotencyKey = [], ob_Trigger = [],
     ob_ClaimOwner = [], ob_ClaimExpiresTime = [], ob_ClaimAttempt = 0 \<rparr>"

definition zeroStatusRecord :: statusRecord where
  "zeroStatusRecord = \<lparr> st_Path = [], st_Version = 0, st_AssociationID = [], st_ObjectID = [],
     st_DestinationRef = [], st_ResolvedName = [], st_State = [], st_PayloadSHA256 = [],
     st_RemoteVersion = [], st_Verification = [], st_LastOperationID = [], st_LastSuccessTime = [],
     st_LastReconcileTime = [], st_LastDriftDetectedTime = [], st_LastRepairTime = [],
     st_RepairCount = 0, st_LastErrorClass = [], st_LastError = [], st_UpdatedTime = [] \<rparr>"

text \<open>
  A storage entry is the JSON value of one of the stored Go types. Decoding an entry into another
  type fails; \<open>EGarbage\<close> is a value that decodes into none of them.
\<close>

datatype entry =
    ESchema storageSchemaRecord
  | EEpoch restoreEpochRecord
  | EConfig storedGlobalConfig
  | EMetadata metadataRecord
  | EVersion versionRecord
  | EIntent enqueueIntentRecord
  | EDestination destinationRecord
  | ESensitive destinationSensitiveRecord
  | EAssociation associationRecord
  | EOutbox outboxRecord
  | EStatus statusRecord
  | EString string
  | EGarbage

definition decodeMetadata :: "entry \<Rightarrow> gerr + metadataRecord" where
  "decodeMetadata e = (case e of EMetadata r \<Rightarrow> Inr r | _ \<Rightarrow> Inl (ErrDecode ''metadata''))"
definition decodeVersion :: "entry \<Rightarrow> gerr + versionRecord" where
  "decodeVersion e = (case e of EVersion r \<Rightarrow> Inr r | _ \<Rightarrow> Inl (ErrDecode ''version''))"
definition decodeIntent :: "entry \<Rightarrow> gerr + enqueueIntentRecord" where
  "decodeIntent e = (case e of EIntent r \<Rightarrow> Inr r | _ \<Rightarrow> Inl (ErrDecode ''intent''))"
definition decodeDestination :: "entry \<Rightarrow> gerr + destinationRecord" where
  "decodeDestination e = (case e of EDestination r \<Rightarrow> Inr r | _ \<Rightarrow> Inl (ErrDecode ''destination''))"
definition decodeSensitive :: "entry \<Rightarrow> gerr + destinationSensitiveRecord" where
  "decodeSensitive e = (case e of ESensitive r \<Rightarrow> Inr r | _ \<Rightarrow> Inl (ErrDecode ''sensitive''))"
definition decodeAssociation :: "entry \<Rightarrow> gerr + associationRecord" where
  "decodeAssociation e = (case e of EAssociation r \<Rightarrow> Inr r | _ \<Rightarrow> Inl (ErrDecode ''association''))"
definition decodeOutbox :: "entry \<Rightarrow> gerr + outboxRecord" where
  "decodeOutbox e = (case e of EOutbox r \<Rightarrow> Inr r | _ \<Rightarrow> Inl (ErrDecode ''outbox''))"
definition decodeStatus :: "entry \<Rightarrow> gerr + statusRecord" where
  "decodeStatus e = (case e of EStatus r \<Rightarrow> Inr r | _ \<Rightarrow> Inl (ErrDecode ''status''))"
definition decodeString :: "entry \<Rightarrow> gerr + string" where
  "decodeString e = (case e of EString r \<Rightarrow> Inr r | _ \<Rightarrow> Inl (ErrDecode ''string''))"
definition decodeSchema :: "entry \<Rightarrow> gerr + storageSchemaRecord" where
  "decodeSchema e = (case e of ESchema r \<Rightarrow> Inr r | _ \<Rightarrow> Inl (ErrDecode ''schema''))"
definition decodeEpoch :: "entry \<Rightarrow> gerr + restoreEpochRecord" where
  "decodeEpoch e = (case e of EEpoch r \<Rightarrow> Inr r | _ \<Rightarrow> Inl (ErrDecode ''epoch''))"
definition decodeConfig :: "entry \<Rightarrow> gerr + storedGlobalConfig" where
  "decodeConfig e = (case e of EConfig r \<Rightarrow> Inr r | _ \<Rightarrow> Inl (ErrDecode ''config''))"

lemmas decode_defs = decodeMetadata_def decodeVersion_def decodeIntent_def decodeDestination_def
  decodeSensitive_def decodeAssociation_def decodeOutbox_def decodeStatus_def decodeString_def
  decodeSchema_def decodeEpoch_def decodeConfig_def

lemma decode_Inr [simp]:
  "decodeMetadata e = Inr md \<longleftrightarrow> e = EMetadata md" "decodeVersion e = Inr vr \<longleftrightarrow> e = EVersion vr"
  "decodeIntent e = Inr it \<longleftrightarrow> e = EIntent it" "decodeDestination e = Inr ds \<longleftrightarrow> e = EDestination ds"
  "decodeSensitive e = Inr sn \<longleftrightarrow> e = ESensitive sn" "decodeAssociation e = Inr a \<longleftrightarrow> e = EAssociation a"
  "decodeOutbox e = Inr ob \<longleftrightarrow> e = EOutbox ob" "decodeStatus e = Inr st \<longleftrightarrow> e = EStatus st"
  "decodeString e = Inr s \<longleftrightarrow> e = EString s" "decodeSchema e = Inr ss \<longleftrightarrow> e = ESchema ss"
  "decodeEpoch e = Inr re \<longleftrightarrow> e = EEpoch re" "decodeConfig e = Inr sc \<longleftrightarrow> e = EConfig sc"
  by (auto simp: decode_defs split: entry.splits)

lemma decode_self [simp]:
  "decodeMetadata (EMetadata md) = Inr md" "decodeVersion (EVersion vr) = Inr vr"
  "decodeIntent (EIntent it) = Inr it" "decodeDestination (EDestination ds) = Inr ds"
  "decodeSensitive (ESensitive sn) = Inr sn" "decodeAssociation (EAssociation a) = Inr a"
  "decodeOutbox (EOutbox ob) = Inr ob" "decodeStatus (EStatus st) = Inr st"
  "decodeString (EString s) = Inr s" "decodeSchema (ESchema ss) = Inr ss"
  "decodeEpoch (EEpoch re) = Inr re" "decodeConfig (EConfig sc) = Inr sc"
  by simp_all

section \<open>Source paths\<close>

definition checkPathSegment :: "string \<Rightarrow> gerr + unit" where
  "checkPathSegment part =
     (if part = [] \<or> part = ''.'' \<or> part = ''..''
      then Inl (Errorf ''path contains invalid segment %q'' [part])
      else if part = ''versions''
      then Inl (Errorf ''path contains reserved segment %q'' [part])
      else Inr ())"

definition reservedLastSegments :: "string list" where
  "reservedLastSegments = [''plan'', ''disable'', ''enable'', ''sync'']"

definition normalizeSourcePath :: "string \<Rightarrow> gerr + string" where
  "normalizeSourcePath input =
     (let path = trim slash input
      in if path = [] then Inl (Errorf ''path must not be empty'' [])
         else let parts = splitOn slash path
              in case foldE (\<lambda>_ part. checkPathSegment part) () parts of
                   Inl e \<Rightarrow> Inl e
                 | Inr _ \<Rightarrow>
                     if last parts \<in> set reservedLastSegments
                     then Inl (Errorf ''path must not end with reserved segment %q'' [last parts])
                     else Inr (joinWith slash parts))"

section \<open>Storage keys\<close>

definition metadataStorageKey :: "string \<Rightarrow> string" where
  "metadataStorageKey path = metadataStoragePrefix @ path"

definition versionStorageKey :: "string \<Rightarrow> int \<Rightarrow> string" where
  "versionStorageKey path version = versionStoragePrefix @ path @ ''/versions/'' @ itoa version"

definition enqueueIntentStorageKey :: "string \<Rightarrow> int \<Rightarrow> string" where
  "enqueueIntentStorageKey path version = enqueueIntentStoragePrefix @ path @ ''/'' @ itoa version"

definition outboxByStateStorageKey :: "string \<Rightarrow> string \<Rightarrow> string" where
  "outboxByStateStorageKey state i = outboxByStateStoragePrefix @ state @ ''/'' @ i"

definition destinationRef :: "string \<Rightarrow> string \<Rightarrow> string" where
  "destinationRef destinationType name = destinationType @ ''/'' @ name"

definition destinationStorageKey :: "string \<Rightarrow> string \<Rightarrow> string" where
  "destinationStorageKey destinationType name =
     destinationStoragePrefix @ destinationRef destinationType name"

definition destinationSensitiveStorageKey :: "string \<Rightarrow> string \<Rightarrow> string" where
  "destinationSensitiveStorageKey destinationType name =
     destinationSecretsPrefix @ destinationRef destinationType name"

definition destinationSensitiveVersionStoragePrefix :: "string \<Rightarrow> string \<Rightarrow> string" where
  "destinationSensitiveVersionStoragePrefix destinationType name =
     destinationSensitiveStorageKey destinationType name @ ''/versions/''"

definition destinationSensitiveVersionStorageKey :: "string \<Rightarrow> string \<Rightarrow> string \<Rightarrow> string" where
  "destinationSensitiveVersionStorageKey destinationType name version =
     destinationSensitiveVersionStoragePrefix destinationType name @ version"

definition associationStorageKey :: "string \<Rightarrow> string \<Rightarrow> string" where
  "associationStorageKey path i = associationStoragePrefix @ path @ ''/'' @ i"

definition associationByDestinationStorageKey :: "string \<Rightarrow> string \<Rightarrow> string \<Rightarrow> string" where
  "associationByDestinationStorageKey destinationType name i =
     associationByDestPrefix @ destinationRef destinationType name @ ''/'' @ i"

definition outboxStorageKey :: "string \<Rightarrow> string" where
  "outboxStorageKey i = outboxStoragePrefix @ i"

definition outboxByPathStorageKey :: "string \<Rightarrow> string \<Rightarrow> string" where
  "outboxByPathStorageKey path i = outboxByPathStoragePrefix @ path @ ''/'' @ i"

definition outboxByDueStorageKey :: "string \<Rightarrow> string \<Rightarrow> string" where
  "outboxByDueStorageKey dueTime i = outboxByDueStoragePrefix @ dueTime @ ''/'' @ i"

definition statusStorageKey :: "string \<Rightarrow> string \<Rightarrow> string \<Rightarrow> string" where
  "statusStorageKey path associationID objectID =
     statusStoragePrefix @ path @ ''/'' @ associationID @ ''/'' @ objectID"

text \<open>\<open>sha\<close> is \<open>sha256.Sum256\<close>: the 32 bytes of the digest.\<close>

definition nameReservationID :: "(string \<Rightarrow> string) \<Rightarrow> string \<Rightarrow> string" where
  "nameReservationID sha resolvedName = hexEncode (take 12 (sha resolvedName))"

definition associationNameStorageKey :: "(string \<Rightarrow> string) \<Rightarrow> string \<Rightarrow> string \<Rightarrow> string \<Rightarrow> string" where
  "associationNameStorageKey sha dref resolvedName i =
     associationNamePrefix @ dref @ ''/'' @ nameReservationID sha resolvedName @ ''/'' @ i"

definition newAssociationID ::
    "(string \<Rightarrow> string) \<Rightarrow> string \<Rightarrow> string \<Rightarrow> string \<Rightarrow> string \<Rightarrow> string \<Rightarrow> string" where
  "newAssociationID sha path destinationType destinationName resolvedName granularity =
     (let raw = path @ '':'' @ destinationType @ '':'' @ destinationName @ '':'' @ resolvedName @ '':'' @
                granularity
      in ''assoc-'' @ hexEncode (take 16 (sha raw)))"

definition newOperationID ::
    "(string \<Rightarrow> string) \<Rightarrow> string \<Rightarrow> string \<Rightarrow> int \<Rightarrow> string \<Rightarrow> string \<Rightarrow> string \<Rightarrow> string" where
  "newOperationID sha generation path version associationID objectID operationType =
     (let raw = generation @ '':'' @ path @ '':'' @ itoa version @ '':'' @ associationID @ '':'' @
                objectID @ '':'' @ operationType
      in ''op-'' @ hexEncode (take 8 (sha raw)) @ ''-'' @ itoa version)"

definition newOperationIDWithSalt ::
    "(string \<Rightarrow> string) \<Rightarrow> string \<Rightarrow> string \<Rightarrow> int \<Rightarrow> string \<Rightarrow> string \<Rightarrow> string \<Rightarrow> string \<Rightarrow> string" where
  "newOperationIDWithSalt sha generation path version associationID objectID operationType salt =
     (let raw = generation @ '':'' @ path @ '':'' @ itoa version @ '':'' @ associationID @ '':'' @
                objectID @ '':'' @ operationType @ '':'' @ salt
      in ''op-'' @ hexEncode (take 8 (sha raw)) @ ''-'' @ itoa version)"

definition versionMetadataKey :: "int \<Rightarrow> string" where
  "versionMetadataKey version = itoa version"

section \<open>Object names and name reservations\<close>

definition renderAssociationObjectName ::
    "string \<Rightarrow> string \<Rightarrow> string \<Rightarrow> string \<Rightarrow> string \<Rightarrow> gerr + string" where
  "renderAssociationObjectName template path destinationType destinationName key =
     (let rendered = replacer [(''{{ path }}'', path), (''{{ key }}'', key),
                               (''{{ destination.type }}'', destinationType),
                               (''{{ destination.name }}'', destinationName)] template
      in if containsStr ''{{'' rendered \<or> containsStr ''}}'' rendered
         then Inl (Errorf ''unsupported name_template %q'' [template])
         else let trimmed = trim slash rendered
              in if trimmed = [] then Inl (Errorf ''resolved_name must not be empty'' [])
                 else Inr trimmed)"

definition secretKeyReservationObjectID :: string where
  "secretKeyReservationObjectID = ''${key}''"

definition secretKeyReservationName ::
    "string \<Rightarrow> string \<Rightarrow> string \<Rightarrow> string \<Rightarrow> gerr + string" where
  "secretKeyReservationName template path destinationType destinationName =
     renderAssociationObjectName template path destinationType destinationName
       secretKeyReservationObjectID"

definition associationReservationKey :: "string \<Rightarrow> string \<Rightarrow> string" where
  "associationReservationKey providerIdentity resolvedName =
     (if providerIdentity = [] then resolvedName
      else providerIdentity @ [CHR 0x00] @ resolvedName)"

definition rawReservationName :: "associationRecord \<Rightarrow> string" where
  "rawReservationName r =
     (if as_Granularity r = syncGranularitySecretKey
      then (case secretKeyReservationName (as_NameTemplate r) (as_Path r)
                   (as_DestinationType r) (as_DestinationName r) of
              Inr reservationName \<Rightarrow> reservationName
            | Inl _ \<Rightarrow> as_NameTemplate r)
      else as_ResolvedName r)"

definition reservationName :: "associationRecord \<Rightarrow> string" where
  "reservationName r = associationReservationKey (as_ProviderIdentity r) (rawReservationName r)"

definition reservationNames :: "associationRecord \<Rightarrow> string list" where
  "reservationNames r = uniqueSorted
     (reservationName r # map (associationReservationKey (as_ProviderIdentity r)) (as_ReservationNames r))"

end
