(* ===== verification/Go_Time.thy ===== *)
theory Go_Time
  imports Go_Strings "HOL-Library.Monad_Syntax"
begin

text \<open>
  What the plugin uses of the Go package time: instants, RFC 3339 formatting in UTC and the parser
  of \<open>time.Parse(time.RFC3339, s)\<close> with its leniencies (a one-digit hour, a fraction of a second
  with a dot or a comma, a numeric zone). An instant is the number of nanoseconds since the Unix
  epoch. The main facts: a formatted instant parses back to its whole second, the byte order of
  formatted instants is the order of the instants (which the due index of the outbox rests on),
  and no string that parses is a proper prefix of another one.
\<close>

type_synonym time = int
type_synonym duration = int

definition nanosecond :: duration where "nanosecond = 1"
definition second :: duration where "second = 1000000000"
definition minute :: duration where "minute = 60 * second"
definition hour :: duration where "hour = 60 * minute"

lemmas duration_defs = nanosecond_def second_def minute_def hour_def

section \<open>The proleptic Gregorian calendar\<close>

definition isLeap :: "int \<Rightarrow> bool" where
  "isLeap y \<longleftrightarrow> y mod 4 = 0 \<and> (y mod 100 \<noteq> 0 \<or> y mod 400 = 0)"

text \<open>Days from 1 January of year 1 to 1 January of year \<open>y\<close>.\<close>

definition daysBeforeYear :: "int \<Rightarrow> int" where
  "daysBeforeYear y = 365 * (y - 1) + (y - 1) div 4 - (y - 1) div 100 + (y - 1) div 400"

definition monthLengths :: "int \<Rightarrow> int list" where
  "monthLengths y = [31, if isLeap y then 29 else 28, 31, 30, 31, 30, 31, 31, 30, 31, 30, 31]"

text \<open>Year and day of the year, by the 400, 100, 4 and 1 year cycles.\<close>

definition yearDay :: "int \<Rightarrow> int \<times> int" where
  "yearDay d =
     (let a = d div 146097; r = d mod 146097;
          b0 = r div 36524; b = b0 - b0 div 4; r2 = r - 36524 * b;
          c = r2 div 1461; r3 = r2 - 1461 * c;
          e0 = r3 div 365; e = e0 - e0 div 4
      in (400 * a + 100 * b + 4 * c + e + 1, r3 - 365 * e))"

fun monthDay :: "int list \<Rightarrow> int \<Rightarrow> int \<Rightarrow> int \<times> int" where
  "monthDay [] m r = (m, r + 1)"
| "monthDay (l # ls) m r = (if r < l then (m, r + 1) else monthDay ls (m + 1) (r - l))"

definition civil :: "int \<Rightarrow> int \<times> int \<times> int" where
  "civil d = (let (y, yd) = yearDay d in (y, monthDay (monthLengths y) 1 yd))"

definition daysOf :: "int \<Rightarrow> int \<Rightarrow> int \<Rightarrow> int" where
  "daysOf y m d = daysBeforeYear y + sum_list (take (nat (m - 1)) (monthLengths y)) + d - 1"

lemma daysBeforeYear_cycles:
  assumes "0 \<le> b" "b \<le> 3" "0 \<le> c" "c \<le> 24" "0 \<le> e" "e \<le> 3"
  shows "daysBeforeYear (400 * a + 100 * b + 4 * c + e + 1) = 146097 * a + 36524 * b + 1461 * c + 365 * e"
proof -
  have "(400 * a + 100 * b + 4 * c + e) div 4 = 100 * a + 25 * b + c"
    and "(400 * a + 100 * b + 4 * c + e) div 100 = 4 * a + b"
    and "(400 * a + 100 * b + 4 * c + e) div 400 = a"
    using assms by linarith+
  then show ?thesis by (simp add: daysBeforeYear_def)
qed

lemma mod_shift: "(k * q + r) mod k = r mod k" for k :: int
  by simp

lemma mod_zero_range: "1 \<le> v \<Longrightarrow> v \<le> k \<Longrightarrow> v mod k = 0 \<longleftrightarrow> v = k" for k :: int
  by (cases "v = k") auto

lemma isLeap_cycles:
  assumes "0 \<le> b" "b \<le> 3" "0 \<le> c" "c \<le> 24" "0 \<le> e" "e \<le> 3"
  shows "isLeap (400 * a + 100 * b + 4 * c + e + 1) \<longleftrightarrow> e = 3 \<and> (c < 24 \<or> b = 3)"
proof -
  let ?y = "400 * a + 100 * b + 4 * c + e + 1"
  have "?y mod 4 = (e + 1) mod 4"
    using mod_shift [of 4 "100 * a + 25 * b + c" "e + 1"] by (simp add: algebra_simps)
  moreover have "?y mod 100 = (4 * c + e + 1) mod 100"
    using mod_shift [of 100 "4 * a + b" "4 * c + e + 1"] by (simp add: algebra_simps)
  moreover have "?y mod 400 = (100 * b + 4 * c + e + 1) mod 400"
    using mod_shift [of 400 a "100 * b + 4 * c + e + 1"] by (simp add: algebra_simps)
  moreover have "(e + 1) mod 4 = 0 \<longleftrightarrow> e + 1 = 4"
    and "(4 * c + e + 1) mod 100 = 0 \<longleftrightarrow> 4 * c + e + 1 = 100"
    and "(100 * b + 4 * c + e + 1) mod 400 = 0 \<longleftrightarrow> 100 * b + 4 * c + e + 1 = 400"
    using assms by (simp_all only: mod_zero_range)
  ultimately have "isLeap ?y \<longleftrightarrow> e + 1 = 4 \<and> (4 * c + e + 1 \<noteq> 100 \<or> 100 * b + 4 * c + e + 1 = 400)"
    by (simp only: isLeap_def simp_thms)
  also have "\<dots> \<longleftrightarrow> e = 3 \<and> (c < 24 \<or> b = 3)"
    using assms by linarith
  finally show ?thesis .
qed

text \<open>Four equal parts of length \<open>k\<close> and one unit more, which belongs to the fourth part.\<close>

lemma four_parts:
  fixes k r :: int
  assumes "0 < k" "0 \<le> r" "r < 4 * k + 1"
  defines "b \<equiv> r div k - r div k div 4"
  shows "0 \<le> b \<and> b \<le> 3 \<and> 0 \<le> r - k * b \<and> (r - k * b < k \<or> b = 3 \<and> r = 4 * k)"
proof -
  define q where "q = r div k"
  have lo: "k * q \<le> r" and hi: "r < k * q + k"
    using assms(1) by (simp_all add: q_def mult_div_mod_eq flip: minus_mod_eq_mult_div)
  have "0 \<le> q" using assms by (simp add: q_def pos_imp_zdiv_nonneg_iff)
  moreover have "q \<le> 4"
  proof (rule ccontr)
    assume "\<not> q \<le> 4"
    then have "k * 5 \<le> k * q" using assms(1) by simp
    with lo assms show False by simp
  qed
  ultimately consider "q = 0" | "q = 1" | "q = 2" | "q = 3" | "q = 4" by linarith
  then show ?thesis
    using lo hi assms(1-3) unfolding b_def q_def [symmetric] by cases auto
qed

definition yearLength :: "int \<Rightarrow> int" where
  "yearLength y = (if isLeap y then 366 else 365)"

lemma sum_monthLengths: "sum_list (monthLengths y) = yearLength y"
  by (simp add: monthLengths_def yearLength_def)

lemma yearDay_correct:
  assumes "yearDay d = (y, yd)"
  shows "d = daysBeforeYear y + yd \<and> 0 \<le> yd \<and> yd < yearLength y"
proof -
  define a where "a = d div 146097"
  define r where "r = d mod 146097"
  define b0 where "b0 = r div 36524"
  define b where "b = b0 - b0 div 4"
  define r2 where "r2 = r - 36524 * b"
  define c where "c = r2 div 1461"
  define r3 where "r3 = r2 - 1461 * c"
  define e0 where "e0 = r3 div 365"
  define e where "e = e0 - e0 div 4"
  have "yearDay d = (400 * a + 100 * b + 4 * c + e + 1, r3 - 365 * e)"
    unfolding yearDay_def Let_def e_def e0_def r3_def c_def r2_def b_def b0_def r_def a_def
    by (rule refl)
  then have y: "y = 400 * a + 100 * b + 4 * c + e + 1" and yd: "yd = r3 - 365 * e"
    using assms by simp_all
  have d: "d = 146097 * a + r" and r: "0 \<le> r" "r < 146097"
    by (simp_all add: a_def r_def)
  have b: "0 \<le> b" "b \<le> 3" and r2: "0 \<le> r2" "r2 < 36524 \<or> b = 3 \<and> r2 = 36524"
    using four_parts [of 36524 r] r unfolding b_def b0_def r2_def by auto
  have c: "0 \<le> c" "c \<le> 24"
    using r2 unfolding c_def by (auto simp: pos_imp_zdiv_nonneg_iff)
  have r3: "0 \<le> r3" "r3 < 1461" "c = 24 \<Longrightarrow> r3 < 1460 \<or> b = 3"
    using r2 by (auto simp: r3_def c_def minus_mult_div_eq_mod)
  have e: "0 \<le> e" "e \<le> 3" and yd': "0 \<le> r3 - 365 * e" "r3 - 365 * e < 365 \<or> e = 3 \<and> r3 = 1460"
    using four_parts [of 365 r3] r3 unfolding e_def e0_def by auto
  have "r3 - 365 * e < yearLength y"
    using yd' r3(3) isLeap_cycles [OF b c e, of a] b c by (auto simp: y yearLength_def)
  moreover have "d = daysBeforeYear y + (r3 - 365 * e)"
    by (simp add: y d daysBeforeYear_cycles [OF b c e, of a] r3_def r2_def)
  ultimately show ?thesis
    using yd'(1) by (simp add: yd)
qed

lemma leap_sum:
  fixes p4 :: int
  shows "p4 = q4 + u \<Longrightarrow> p100 = q100 + v \<Longrightarrow> p400 = q400 + w \<Longrightarrow>
    365 * y + p4 - p100 + p400 = 365 * y - 365 + q4 - q100 + q400 + (365 + u - v + w)"
  by linarith

lemma leap_length:
  "C \<longrightarrow> B \<Longrightarrow> B \<longrightarrow> A \<Longrightarrow>
   (if A \<and> (\<not> B \<or> C) then 366 else 365) =
     (365 :: int) + (if A then 1 else 0) - (if B then 1 else 0) + (if C then 1 else 0)"
  by (cases A; cases B; cases C) simp_all

lemma yearLength_step: "daysBeforeYear (y + 1) = daysBeforeYear y + yearLength y"
proof -
  have div_step: "y div k = (y - 1) div k + (if y mod k = 0 then 1 else 0)" if "0 < k" for k :: int
  proof (cases "y mod k = 0")
    case True
    then have "(y - 1) div k = y div k - 1"
      using that mult_div_mod_eq [of k y]
      by (intro int_div_pos_eq [where r = "k - 1"]) (auto simp: algebra_simps)
    with True show ?thesis by simp
  next
    case False
    then have "0 < y mod k" "y mod k < k"
      using that pos_mod_bound [of k y] pos_mod_sign [of k y] by linarith+
    then have "(y - 1) div k = y div k"
      using mult_div_mod_eq [of k y]
      by (intro int_div_pos_eq [where r = "y mod k - 1"]) (auto simp: algebra_simps)
    with False show ?thesis by simp
  qed
  have imps: "y mod 400 = 0 \<longrightarrow> y mod 100 = 0" "y mod 100 = 0 \<longrightarrow> y mod 4 = 0"
    using dvd_trans [of 100 400 y] dvd_trans [of 4 100 y] by (simp_all flip: dvd_eq_mod_eq_0)
  have succ: "daysBeforeYear (y + 1) = 365 * y + y div 4 - y div 100 + y div 400"
    by (simp add: daysBeforeYear_def)
  have this_year: "daysBeforeYear y = 365 * y - 365 + (y - 1) div 4 - (y - 1) div 100 + (y - 1) div 400"
    by (simp add: daysBeforeYear_def)
  have len: "yearLength y = 365 + (if y mod 4 = 0 then 1 else 0) - (if y mod 100 = 0 then 1 else 0)
      + (if y mod 400 = 0 then 1 else 0)"
    unfolding yearLength_def isLeap_def by (rule leap_length) (rule imps)+
  show ?thesis
    unfolding succ this_year len by (rule leap_sum) (rule div_step, simp)+
qed

lemma yearLength_pos: "0 < yearLength y"
  by (simp add: yearLength_def)

lemma daysBeforeYear_less: "y < z \<Longrightarrow> daysBeforeYear y + yearLength y \<le> daysBeforeYear z"
proof (induction "nat (z - y)" arbitrary: z)
  case (Suc n)
  show ?case
  proof (cases "z = y + 1")
    case True
    then show ?thesis by (simp add: yearLength_step)
  next
    case False
    with Suc have "daysBeforeYear y + yearLength y \<le> daysBeforeYear (z - 1)" by auto
    also have "\<dots> \<le> daysBeforeYear z"
      using yearLength_step [of "z - 1"] yearLength_pos [of "z - 1"] by simp
    finally show ?thesis .
  qed
qed simp

lemma monthDay_correct:
  assumes "monthDay ls m r = (m', d)" and "0 \<le> r" and "r < sum_list ls" and "\<forall>l \<in> set ls. 0 < l"
  shows "m \<le> m' \<and> m' < m + int (length ls) \<and> 1 \<le> d \<and> d \<le> ls ! nat (m' - m)
    \<and> sum_list (take (nat (m' - m)) ls) + d - 1 = r"
  using assms
proof (induction ls m r rule: monthDay.induct)
  case (2 l ls m r)
  show ?case
  proof (cases "r < l")
    case False
    with 2 have IH: "m + 1 \<le> m' \<and> m' < m + 1 + int (length ls) \<and> 1 \<le> d \<and> d \<le> ls ! nat (m' - (m + 1))
        \<and> sum_list (take (nat (m' - (m + 1))) ls) + d - 1 = r - l"
      by auto
    then have "nat (m' - m) = Suc (nat (m' - (m + 1)))" by auto
    with IH show ?thesis by auto
  qed (use 2 in auto)
qed auto

lemma monthLengths_props:
  "length (monthLengths y) = 12" "\<forall>l \<in> set (monthLengths y). 0 < l"
  "\<forall>l \<in> set (monthLengths y). l \<le> 31"
  by (auto simp: monthLengths_def)

lemma civil_correct:
  assumes "civil n = (y, m, d)"
  shows "1 \<le> m \<and> m \<le> 12 \<and> 1 \<le> d \<and> d \<le> monthLengths y ! nat (m - 1) \<and> d \<le> 31 \<and> daysOf y m d = n
    \<and> fst (yearDay n) = y"
proof -
  obtain yd where yd: "yearDay n = (y, yd)" and md: "monthDay (monthLengths y) 1 yd = (m, d)"
    using assms by (auto simp: civil_def split: prod.splits)
  note Y = yearDay_correct [OF yd]
  have M: "1 \<le> m \<and> m < 13 \<and> 1 \<le> d \<and> d \<le> monthLengths y ! nat (m - 1)
      \<and> sum_list (take (nat (m - 1)) (monthLengths y)) + d - 1 = yd"
    using monthDay_correct [OF md] Y monthLengths_props [of y] by (simp add: sum_monthLengths)
  then have "monthLengths y ! nat (m - 1) \<le> 31"
    using monthLengths_props [of y] by (auto intro: nth_mem)
  with M Y yd show ?thesis by (auto simp: daysOf_def)
qed

section \<open>Formatting\<close>

text \<open>Zero-padded decimal numbers; a number that needs more digits than the width gets them.\<close>

fun padDigits :: "nat \<Rightarrow> nat \<Rightarrow> string" where
  "padDigits 0 n = []"
| "padDigits (Suc w) n = padDigits w (n div 10) @ [digitChar (n mod 10)]"

definition padInt :: "nat \<Rightarrow> int \<Rightarrow> string" where
  "padInt w i =
     (let n = nat \<bar>i\<bar>; ds = (if n < 10 ^ w then padDigits w n else natDigits n)
      in if i < 0 then CHR ''-'' # ds else ds)"

definition unixToAbsDays :: int where "unixToAbsDays = 719162"

definition formatRFC3339 :: "time \<Rightarrow> string" where
  "formatRFC3339 t =
     (let s = t div second; n = s div 86400 + unixToAbsDays; r = s mod 86400;
          (y, m, d) = civil n
      in padInt 4 y @ CHR ''-'' # padInt 2 m @ CHR ''-'' # padInt 2 d @ CHR ''T'' #
         padInt 2 (r div 3600) @ CHR '':'' # padInt 2 (r mod 3600 div 60) @ CHR '':'' #
         padInt 2 (r mod 60) @ ''Z'')"

text \<open>Instants of the years 1 to 9999, whose format has a four-digit year.\<close>

definition timeInRange :: "time \<Rightarrow> bool" where
  "timeInRange t \<longleftrightarrow>
     0 \<le> t div second div 86400 + unixToAbsDays \<and>
     t div second div 86400 + unixToAbsDays < daysBeforeYear 10000"

lemma length_padDigits [simp]: "length (padDigits w n) = w"
  by (induction w arbitrary: n) auto

lemma padDigits_digits: "list_all isDigit (padDigits w n)"
  by (induction w arbitrary: n) auto

lemma padInt_small: "0 \<le> i \<Longrightarrow> i < 10 ^ w \<Longrightarrow> padInt w i = padDigits w (nat i)"
  by (simp add: padInt_def nat_less_iff)

lemma list_less_append:
  "length a = length b \<Longrightarrow> (a @ x < b @ y) \<longleftrightarrow> a < b \<or> a = b \<and> x < (y :: 'a :: linorder list)"
  by (induction a b rule: list_induct2) auto

lemma digitChar_less: "d < 10 \<Longrightarrow> e < 10 \<Longrightarrow> digitChar d < digitChar e \<longleftrightarrow> d < e"
  by (simp add: less_char_def of_char_digitChar)

lemma padDigits_less: "n < m \<Longrightarrow> m < 10 ^ w \<Longrightarrow> padDigits w n < padDigits w m"
proof (induction w arbitrary: n m)
  case (Suc w)
  show ?case
  proof (cases "n div 10 < m div 10")
    case True
    with Suc show ?thesis by (auto simp: list_less_append)
  next
    case False
    with Suc.prems have "n div 10 = m div 10"
      by (meson div_le_mono less_imp_le_nat le_antisym not_less)
    moreover from this Suc.prems have "n mod 10 < m mod 10"
      by (metis mult_div_mod_eq nat_add_left_cancel_less)
    ultimately show ?thesis by (simp add: list_less_append digitChar_less)
  qed
qed simp

lemma digitsVal_snoc [simp]: "digitsVal (s @ [c]) = 10 * digitsVal s + digitVal c"
  by (simp add: digitsVal_def)

lemma digitsVal_padDigits: "n < 10 ^ w \<Longrightarrow> digitsVal (padDigits w n) = n"
  by (induction w arbitrary: n) (auto simp: digitsVal_def less_mult_imp_div_less)


subsection \<open>The order of formatted instants\<close>

lemma sum_take_mono:
  assumes "\<forall>l \<in> set ls. 0 < (l :: int)" and "i < j" and "j \<le> length ls"
  shows "sum_list (take i ls) + ls ! i \<le> sum_list (take j ls)"
  using assms(2,3)
proof (induction j)
  case (Suc j)
  then have len: "j < length ls" by simp
  have "0 \<le> ls ! j" using assms(1) len by (simp add: less_imp_le)
  with Suc len show ?case
    by (cases "i = j") (auto simp: take_Suc_conv_app_nth)
qed simp

lemma civil_mono:
  assumes "n < n'" and C: "civil n = (y, m, d)" and C': "civil n' = (y', m', d')"
  shows "y < y' \<or> y = y' \<and> (m < m' \<or> m = m' \<and> d < d')"
proof -
  note D = civil_correct [OF C] and D' = civil_correct [OF C']
  obtain yd yd' where yd: "yearDay n = (y, yd)" "yearDay n' = (y', yd')"
    using D D' by (metis prod.collapse)
  note Y = yearDay_correct [OF yd(1)] and Y' = yearDay_correct [OF yd(2)]
  have "y \<le> y'"
    using daysBeforeYear_less [of y' y] assms(1) Y Y' by force
  moreover have "m < m' \<or> m = m' \<and> d < d'" if "y = y'"
  proof (cases m m' rule: linorder_cases)
    case equal
    with that D D' assms(1) show ?thesis by (simp add: daysOf_def)
  next
    case greater
    then have "sum_list (take (nat (m' - 1)) (monthLengths y)) + monthLengths y ! nat (m' - 1)
        \<le> sum_list (take (nat (m - 1)) (monthLengths y))"
      using D D' monthLengths_props [of y] by (intro sum_take_mono) auto
    with that D D' assms(1) show ?thesis by (simp add: daysOf_def)
  qed simp
  ultimately show ?thesis by linarith
qed

lemma padDigits_eq_iff:
  "n < 10 ^ w \<Longrightarrow> m < 10 ^ w \<Longrightarrow> padDigits w n = padDigits w m \<longleftrightarrow> n = m"
  by (metis digitsVal_padDigits)

lemma year_range:
  assumes "0 \<le> n" and "n < daysBeforeYear 10000" and "civil n = (y, m, d)"
  shows "1 \<le> y \<and> y < 10000"
proof -
  have Y: "n = daysBeforeYear y + snd (yearDay n) \<and> 0 \<le> snd (yearDay n)
      \<and> snd (yearDay n) < yearLength y"
    using civil_correct [OF assms(3)] by (intro yearDay_correct) (metis prod.collapse)
  have "daysBeforeYear 1 = 0" by (simp add: daysBeforeYear_def)
  then have "\<not> y < 1" using daysBeforeYear_less [of y 1] assms(1) Y by force
  moreover have "\<not> 10000 \<le> y"
    using daysBeforeYear_less [of 10000 y] yearLength_pos [of 10000] assms(2) Y
    by (cases "y = 10000") force+
  ultimately show ?thesis by simp
qed

lemma hms_bounds:
  assumes "0 \<le> r" and "r < (86400 :: int)"
  shows "0 \<le> r div 3600" "r div 3600 < 24" "0 \<le> r mod 3600 div 60" "r mod 3600 div 60 < 60"
    "0 \<le> r mod 60" "r mod 60 < 60"
proof -
  show "r div 3600 < 24" using zdiv_mono1 [of r 86399 3600] assms by simp
  show "r mod 3600 div 60 < 60"
    using zdiv_mono1 [of "r mod 3600" 3599 60] pos_mod_bound [of 3600 r] by simp
qed (use assms in \<open>simp_all add: pos_imp_zdiv_nonneg_iff\<close>)

lemma hms_split:
  fixes p :: int
  shows "p = 3600 * (p div 3600) + 60 * (p mod 3600 div 60) + p mod 60"
proof -
  have "p mod 3600 mod 60 = p mod 60"
    by (simp add: mod_mod_cancel)
  then show ?thesis
    using mult_div_mod_eq [of 3600 p] mult_div_mod_eq [of 60 "p mod 3600"] by linarith
qed

text \<open>The fields of a formatted instant in range.\<close>

lemma format_fields:
  assumes "timeInRange t"
  obtains y m d where "civil (t div second div 86400 + unixToAbsDays) = (y, m, d)"
    and "1 \<le> y" "y < 10000" "1 \<le> m" "m \<le> 12" "1 \<le> d" "d \<le> 31"
    and "formatRFC3339 t = padDigits 4 (nat y) @ CHR ''-'' # padDigits 2 (nat m) @ CHR ''-'' #
      padDigits 2 (nat d) @ CHR ''T'' # padDigits 2 (nat (t div second mod 86400 div 3600)) @ CHR '':'' #
      padDigits 2 (nat (t div second mod 86400 mod 3600 div 60)) @ CHR '':'' #
      padDigits 2 (nat (t div second mod 86400 mod 60)) @ ''Z''"
proof -
  obtain y m d where C: "civil (t div second div 86400 + unixToAbsDays) = (y, m, d)"
    by (metis prod_cases3)
  note Y = year_range [OF _ _ C] and D = civil_correct [OF C]
  have "0 \<le> t div second mod 86400" "t div second mod 86400 < 86400" by simp_all
  note hms = hms_bounds [OF this]
  define h where "h = t div second mod 86400 div 3600"
  define mi where "mi = t div second mod 86400 mod 3600 div 60"
  define se where "se = t div second mod 86400 mod 60"
  have yb: "1 \<le> y" "y < 10000"
    using Y assms by (simp_all only: timeInRange_def)
  have "formatRFC3339 t = padInt 4 y @ CHR ''-'' # padInt 2 m @ CHR ''-'' # padInt 2 d @ CHR ''T'' #
      padInt 2 h @ CHR '':'' # padInt 2 mi @ CHR '':'' # padInt 2 se @ ''Z''"
    unfolding formatRFC3339_def Let_def C h_def mi_def se_def by (simp only: prod.case)
  also have "\<dots> = padDigits 4 (nat y) @ CHR ''-'' # padDigits 2 (nat m) @ CHR ''-'' # padDigits 2 (nat d) @
      CHR ''T'' # padDigits 2 (nat h) @ CHR '':'' # padDigits 2 (nat mi) @ CHR '':'' # padDigits 2 (nat se) @ ''Z''"
    using yb D hms unfolding h_def [symmetric] mi_def [symmetric] se_def [symmetric]
    by (simp add: padInt_small)
  finally show thesis
    using that [OF C yb] D unfolding h_def mi_def se_def by blast
qed

lemma length_formatRFC3339: "timeInRange t \<Longrightarrow> length (formatRFC3339 t) = 20"
  by (erule format_fields) simp

lemma hms_lex:
  fixes h :: int
  assumes "3600 * h + 60 * i + j < 3600 * h' + 60 * i' + j'" and "0 \<le> i" "i < 60" "0 \<le> i'" "i' < 60"
    and "0 \<le> j" "j < 60" "0 \<le> j'" "j' < 60"
  shows "h < h' \<or> h = h' \<and> (i < i' \<or> i = i' \<and> j < j')"
proof -
  have "h \<le> h'" using assms by linarith
  moreover have "h = h' \<Longrightarrow> i \<le> i'" using assms by linarith
  ultimately show ?thesis using assms(1) by fastforce
qed

lemma clock_less:
  fixes h :: int
  assumes "h < h' \<or> h = h' \<and> (i < i' \<or> i = i' \<and> j < j')"
    and "0 \<le> h" "h' < 24" "0 \<le> i" "i' < 60" "0 \<le> j" "j' < 60"
  shows "padDigits 2 (nat h) @ c # padDigits 2 (nat i) @ c # padDigits 2 (nat j) @ z
    < padDigits 2 (nat h') @ c # padDigits 2 (nat i') @ c # padDigits 2 (nat j') @ z"
  using assms by (elim disjE conjE) (simp_all add: list_less_append padDigits_less)

lemma formatRFC3339_less:
  assumes "timeInRange t" and "timeInRange u" and "t div second < u div second"
  shows "formatRFC3339 t < formatRFC3339 u"
proof -
  define s where "s = t div second"
  define v where "v = u div second"
  have less: "s < v" using assms(3) by (simp add: s_def v_def)
  obtain y m d where F: "civil (s div 86400 + unixToAbsDays) = (y, m, d)" "1 \<le> y" "y < 10000"
      "1 \<le> m" "m \<le> 12" "1 \<le> d" "d \<le> 31"
    and f: "formatRFC3339 t = padDigits 4 (nat y) @ CHR ''-'' # padDigits 2 (nat m) @ CHR ''-'' #
      padDigits 2 (nat d) @ CHR ''T'' # padDigits 2 (nat (s mod 86400 div 3600)) @ CHR '':'' #
      padDigits 2 (nat (s mod 86400 mod 3600 div 60)) @ CHR '':'' #
      padDigits 2 (nat (s mod 86400 mod 60)) @ ''Z''"
    using format_fields [OF assms(1)] unfolding s_def by metis
  obtain y' m' d' where G: "civil (v div 86400 + unixToAbsDays) = (y', m', d')" "1 \<le> y'" "y' < 10000"
      "1 \<le> m'" "m' \<le> 12" "1 \<le> d'" "d' \<le> 31"
    and g: "formatRFC3339 u = padDigits 4 (nat y') @ CHR ''-'' # padDigits 2 (nat m') @ CHR ''-'' #
      padDigits 2 (nat d') @ CHR ''T'' # padDigits 2 (nat (v mod 86400 div 3600)) @ CHR '':'' #
      padDigits 2 (nat (v mod 86400 mod 3600 div 60)) @ CHR '':'' #
      padDigits 2 (nat (v mod 86400 mod 60)) @ ''Z''"
    using format_fields [OF assms(2)] unfolding v_def by metis
  have "s div 86400 \<le> v div 86400" using less by (simp add: zdiv_mono1)
  then consider "s div 86400 < v div 86400" | (day) "s div 86400 = v div 86400" by linarith
  then show ?thesis
  proof cases
    case 1
    then have "y < y' \<or> y = y' \<and> (m < m' \<or> m = m' \<and> d < d')"
      using civil_mono [OF _ F(1) G(1)] by simp
    then show ?thesis
      unfolding f g using F(2-7) G(2-7) by (elim disjE conjE) (simp_all add: list_less_append padDigits_less)
  next
    case day
    with F(1) G(1) have same: "y' = y" "m' = m" "d' = d" by (simp_all only: day prod.inject)
    define p where "p = s mod 86400"
    define q where "q = v mod 86400"
    have "p = s - 86400 * (s div 86400)" "q = v - 86400 * (v div 86400)"
      by (simp_all only: p_def q_def minus_mult_div_eq_mod)
    then have pq: "p < q" "0 \<le> p" "q < 86400"
      using less by (simp_all only: day p_def [symmetric] q_def [symmetric])
        (simp_all add: p_def q_def)
    have "p < 86400" "0 \<le> q" using pq by simp_all
    note P = hms_bounds [OF pq(2) this(1)] and Q = hms_bounds [OF this(2) pq(3)]
    have "3600 * (p div 3600) + 60 * (p mod 3600 div 60) + p mod 60
        < 3600 * (q div 3600) + 60 * (q mod 3600 div 60) + q mod 60"
      using pq(1) by (simp only: hms_split [symmetric])
    then have "p div 3600 < q div 3600 \<or> p div 3600 = q div 3600 \<and>
        (p mod 3600 div 60 < q mod 3600 div 60 \<or>
         p mod 3600 div 60 = q mod 3600 div 60 \<and> p mod 60 < q mod 60)"
      by (rule hms_lex) (rule P Q)+
    then have "padDigits 2 (nat (p div 3600)) @ CHR '':'' # padDigits 2 (nat (p mod 3600 div 60)) @ CHR '':'' #
        padDigits 2 (nat (p mod 60)) @ ''Z'' <
      padDigits 2 (nat (q div 3600)) @ CHR '':'' # padDigits 2 (nat (q mod 3600 div 60)) @ CHR '':'' #
        padDigits 2 (nat (q mod 60)) @ ''Z''"
      by (rule clock_less) (rule P Q)+
    then show ?thesis
      unfolding f g p_def [symmetric] q_def [symmetric] same
      by (simp only: list_less_append Cons_less_Cons simp_thms)
  qed
qed

corollary formatRFC3339_le_iff:
  assumes "timeInRange t" and "timeInRange u"
  shows "formatRFC3339 t \<le> formatRFC3339 u \<longleftrightarrow> t div second \<le> u div second"
proof (cases "t div second" "u div second" rule: linorder_cases)
  case equal
  then have "formatRFC3339 t = formatRFC3339 u" by (simp add: formatRFC3339_def)
  with equal show ?thesis by simp
qed (use formatRFC3339_less [OF assms] formatRFC3339_less [OF assms(2,1)] in
  \<open>auto simp: less_le_not_le\<close>)


section \<open>Parsing\<close>

text \<open>
  \<open>time.Parse(time.RFC3339, s)\<close>. Each scanner returns the number read and the rest of the string.
  \<open>getnum\<close> reads two digits, or one where the layout element is not zero-padded (the hour); a
  fraction of a second is accepted after the seconds; the zone is \<open>Z\<close> or \<open>+hh:mm\<close>/\<open>-hh:mm\<close>, with
  the generous range checks of the Go parser, and nothing may follow it.
\<close>

definition expect :: "char \<Rightarrow> string \<Rightarrow> string option" where
  "expect c s = (case s of x # r \<Rightarrow> if x = c then Some r else None | [] \<Rightarrow> None)"

definition getnum4 :: "string \<Rightarrow> (int \<times> string) option" where
  "getnum4 s = (case s of
      a # b # c # d # r \<Rightarrow>
        if list_all isDigit [a, b, c, d] then Some (int (digitsVal [a, b, c, d]), r) else None
    | _ \<Rightarrow> None)"

definition getnum2 :: "string \<Rightarrow> (int \<times> string) option" where
  "getnum2 s = (case s of
      a # b # r \<Rightarrow> if list_all isDigit [a, b] then Some (int (digitsVal [a, b]), r) else None
    | _ \<Rightarrow> None)"

definition getnum :: "string \<Rightarrow> (int \<times> string) option" where
  "getnum s = (case s of
      a # b # r \<Rightarrow>
        if isDigit a
        then if isDigit b then Some (int (digitsVal [a, b]), r) else Some (int (digitVal a), b # r)
        else None
    | [a] \<Rightarrow> if isDigit a then Some (int (digitVal a), []) else None
    | [] \<Rightarrow> None)"

definition inRange :: "int \<Rightarrow> int \<Rightarrow> int \<Rightarrow> unit option" where
  "inRange lo hi v = (if lo \<le> v \<and> v \<le> hi then Some () else None)"

text \<open>Nanoseconds of a fraction: its first nine digits, scaled.\<close>

definition parseFraction :: "string \<Rightarrow> int \<times> string" where
  "parseFraction s = (case s of
      p # d # r \<Rightarrow>
        if (p = CHR ''.'' \<or> p = CHR '','') \<and> isDigit d
        then (let ds = take 9 (takeWhile isDigit (d # r))
              in (int (digitsVal ds) * 10 ^ (9 - length ds), dropWhile isDigit (d # r)))
        else (0, s)
    | _ \<Rightarrow> (0, s))"

definition parseZone :: "string \<Rightarrow> int option" where
  "parseZone s =
     (if s = ''Z'' then Some 0
      else case s of
        sg # a # b # c # d # e # [] \<Rightarrow>
          if (sg = CHR ''+'' \<or> sg = CHR ''-'') \<and> c = CHR '':'' \<and> list_all isDigit [a, b, d, e] \<and>
             digitsVal [a, b] \<le> 24 \<and> digitsVal [d, e] \<le> 60
          then (let off = (int (digitsVal [a, b]) * 60 + int (digitsVal [d, e])) * 60
                in Some (if sg = CHR ''-'' then - off else off))
          else None
      | _ \<Rightarrow> None)"

definition scanRFC3339 ::
    "string \<Rightarrow> ((int \<times> int \<times> int) \<times> (int \<times> int \<times> int) \<times> string) option" where
  "scanRFC3339 s = do {
     (y, s) \<leftarrow> getnum4 s;
     s \<leftarrow> expect (CHR ''-'') s;
     (mo, s) \<leftarrow> getnum2 s;
     s \<leftarrow> expect (CHR ''-'') s;
     (d, s) \<leftarrow> getnum2 s;
     s \<leftarrow> expect (CHR ''T'') s;
     (h, s) \<leftarrow> getnum s;
     s \<leftarrow> expect (CHR '':'') s;
     (mi, s) \<leftarrow> getnum2 s;
     s \<leftarrow> expect (CHR '':'') s;
     (sec, s) \<leftarrow> getnum2 s;
     Some ((y, mo, d), (h, mi, sec), s) }"

definition parseRFC3339 :: "string \<Rightarrow> time option" where
  "parseRFC3339 s = (case scanRFC3339 s of
      None \<Rightarrow> None
    | Some ((y, mo, d), (h, mi, sec), s) \<Rightarrow>
        (let (ns, z) = parseFraction s
         in do {
           _ \<leftarrow> inRange 1 12 mo;
           _ \<leftarrow> inRange 0 23 h;
           _ \<leftarrow> inRange 0 59 mi;
           _ \<leftarrow> inRange 0 59 sec;
           off \<leftarrow> parseZone z;
           _ \<leftarrow> inRange 1 (monthLengths y ! nat (mo - 1)) d;
           Some ((((daysOf y mo d - unixToAbsDays) * 86400 + h * 3600 + mi * 60 + sec) - off) * second + ns)
         }))"

subsection \<open>A formatted instant parses back\<close>

lemma length_2_cases: "length xs = 2 \<Longrightarrow> \<exists>a b. xs = [a, b]"
  by (auto simp: length_Suc_conv numeral_2_eq_2)

lemma length_4_cases: "length xs = 4 \<Longrightarrow> \<exists>a b c d. xs = [a, b, c, d]"
  by (auto simp: length_Suc_conv numeral_eq_Suc)

lemma getnum_padDigits:
  "n < 100 \<Longrightarrow> getnum2 (padDigits 2 n @ r) = Some (int n, r)"
  "n < 100 \<Longrightarrow> getnum (padDigits 2 n @ r) = Some (int n, r)"
proof -
  obtain a b where ab: "padDigits 2 n = [a, b]"
    using length_2_cases [OF length_padDigits [of 2 n]] by blast
  moreover have "list_all isDigit [a, b]"
    using padDigits_digits [of 2 n] by (simp only: ab)
  moreover have "n < 100 \<Longrightarrow> digitsVal [a, b] = n"
    using digitsVal_padDigits [of n 2] by (simp add: ab)
  ultimately show "n < 100 \<Longrightarrow> getnum2 (padDigits 2 n @ r) = Some (int n, r)"
    and "n < 100 \<Longrightarrow> getnum (padDigits 2 n @ r) = Some (int n, r)"
    by (simp_all add: getnum2_def getnum_def)
qed

lemma getnum4_padDigits:
  assumes "n < 10000"
  shows "getnum4 (padDigits 4 n @ r) = Some (int n, r)"
proof -
  obtain a b c d where abcd: "padDigits 4 n = [a, b, c, d]"
    using length_4_cases [OF length_padDigits [of 4 n]] by blast
  moreover have "list_all isDigit [a, b, c, d]"
    using padDigits_digits [of 4 n] by (simp only: abcd)
  moreover have "digitsVal [a, b, c, d] = n"
    using digitsVal_padDigits [of n 4] assms by (simp add: abcd)
  ultimately show ?thesis
    by (simp add: getnum4_def)
qed

lemma parse_format:
  assumes "timeInRange t"
  shows "parseRFC3339 (formatRFC3339 t) = Some (t div second * second)"
proof -
  define s where "s = t div second"
  define r where "r = s mod 86400"
  define h where "h = r div 3600"
  define mi where "mi = r mod 3600 div 60"
  define se where "se = r mod 60"
  obtain y m d where C: "civil (s div 86400 + unixToAbsDays) = (y, m, d)"
    and ym: "1 \<le> y" "y < 10000" "1 \<le> m" "m \<le> 12" "1 \<le> d" "d \<le> 31"
    and f: "formatRFC3339 t = padDigits 4 (nat y) @ CHR ''-'' # padDigits 2 (nat m) @ CHR ''-'' #
      padDigits 2 (nat d) @ CHR ''T'' # padDigits 2 (nat h) @ CHR '':'' #
      padDigits 2 (nat mi) @ CHR '':'' # padDigits 2 (nat se) @ ''Z''"
    using format_fields [OF assms] unfolding s_def [symmetric] r_def [symmetric] h_def [symmetric]
      mi_def [symmetric] se_def [symmetric] by metis
  have "0 \<le> r" "r < 86400" by (simp_all add: r_def)
  note B = hms_bounds [OF this, folded h_def mi_def se_def]
  have scan: "scanRFC3339 (formatRFC3339 t) = Some ((y, m, d), (h, mi, se), ''Z'')"
    unfolding f scanRFC3339_def expect_def using ym B by (simp add: getnum_padDigits getnum4_padDigits)
  have "r = 3600 * h + 60 * mi + se"
    unfolding h_def mi_def se_def by (rule hms_split)
  moreover have "s = 86400 * (s div 86400) + r" by (simp add: r_def)
  ultimately have "s = (daysOf y m d - unixToAbsDays) * 86400 + h * 3600 + mi * 60 + se"
    using civil_correct [OF C] by simp
  with ym B civil_correct [OF C] show ?thesis
    unfolding parseRFC3339_def scan s_def [symmetric]
    by (simp add: parseFraction_def parseZone_def inRange_def)
qed

subsection \<open>No parsable string extends another\<close>

lemma expect_Some: "expect c s = Some r \<longleftrightarrow> s = c # r"
  by (auto simp: expect_def split: list.splits)

lemma getnum4_Some:
  "getnum4 s = Some (v, r) \<longleftrightarrow>
     (\<exists>a b c d. s = a # b # c # d # r \<and> list_all isDigit [a, b, c, d] \<and> v = int (digitsVal [a, b, c, d]))"
  by (auto simp: getnum4_def split: list.splits)

lemma getnum2_Some:
  "getnum2 s = Some (v, r) \<longleftrightarrow>
     (\<exists>a b. s = a # b # r \<and> list_all isDigit [a, b] \<and> v = int (digitsVal [a, b]))"
  by (auto simp: getnum2_def split: list.splits)

lemma getnum_colon:
  "getnum s = Some (v, CHR '':'' # r) \<longleftrightarrow>
     (\<exists>a b. s = a # b # CHR '':'' # r \<and> isDigit a \<and> isDigit b \<and> v = int (digitsVal [a, b])) \<or>
     (\<exists>a. s = a # CHR '':'' # r \<and> isDigit a \<and> v = int (digitVal a))"
  by (auto simp: getnum_def split: list.splits if_splits)

text \<open>What a scanned string looks like: its fixed part without a slash, then the rest.\<close>

lemma scan_shape:
  assumes "scanRFC3339 s = Some (ymd, hms, r)"
  obtains y s1 mo s2 d s3 h s4 mi s5 sec where
    "getnum4 s = Some (y, CHR ''-'' # s1)" "getnum2 s1 = Some (mo, CHR ''-'' # s2)"
    "getnum2 s2 = Some (d, CHR ''T'' # s3)" "getnum s3 = Some (h, CHR '':'' # s4)"
    "getnum2 s4 = Some (mi, CHR '':'' # s5)" "getnum2 s5 = Some (sec, r)"
    "ymd = (y, mo, d)" "hms = (h, mi, sec)"
proof -
  from assms obtain y r1 where 1: "getnum4 s = Some (y, r1)" by (auto simp: scanRFC3339_def Option.bind_eq_Some_conv)
  note A = assms [unfolded scanRFC3339_def 1 Option.bind.simps prod.case]
  from A obtain s1 where 2: "expect (CHR ''-'') r1 = Some s1" by (cases "expect (CHR ''-'') r1") simp_all
  note A = A [unfolded 2 Option.bind.simps]
  from A obtain mo r2 where 3: "getnum2 s1 = Some (mo, r2)" by (cases "getnum2 s1") auto
  note A = A [unfolded 3 Option.bind.simps prod.case]
  from A obtain s2 where 4: "expect (CHR ''-'') r2 = Some s2" by (cases "expect (CHR ''-'') r2") simp_all
  note A = A [unfolded 4 Option.bind.simps]
  from A obtain d r3 where 5: "getnum2 s2 = Some (d, r3)" by (cases "getnum2 s2") auto
  note A = A [unfolded 5 Option.bind.simps prod.case]
  from A obtain s3 where 6: "expect (CHR ''T'') r3 = Some s3" by (cases "expect (CHR ''T'') r3") simp_all
  note A = A [unfolded 6 Option.bind.simps]
  from A obtain h r4 where 7: "getnum s3 = Some (h, r4)" by (cases "getnum s3") auto
  note A = A [unfolded 7 Option.bind.simps prod.case]
  from A obtain s4 where 8: "expect (CHR '':'') r4 = Some s4" by (cases "expect (CHR '':'') r4") simp_all
  note A = A [unfolded 8 Option.bind.simps]
  from A obtain mi r5 where 9: "getnum2 s4 = Some (mi, r5)" by (cases "getnum2 s4") auto
  note A = A [unfolded 9 Option.bind.simps prod.case]
  from A obtain s5 where 10: "expect (CHR '':'') r5 = Some s5" by (cases "expect (CHR '':'') r5") simp_all
  note A = A [unfolded 10 Option.bind.simps]
  from A obtain sec r6 where 11: "getnum2 s5 = Some (sec, r6)" by (cases "getnum2 s5") auto
  note A = A [unfolded 11 Option.bind.simps prod.case]
  from A have 12: "ymd = (y, mo, d)" "hms = (h, mi, sec)" "r6 = r" by simp_all
  show thesis
    using that 1 3 5 7 9 11 12 2 [unfolded expect_Some] 4 [unfolded expect_Some] 6 [unfolded expect_Some]
      8 [unfolded expect_Some] 10 [unfolded expect_Some] by blast
qed

lemma scan_build:
  assumes "getnum4 s = Some (y, CHR ''-'' # s1)" "getnum2 s1 = Some (mo, CHR ''-'' # s2)"
    "getnum2 s2 = Some (d, CHR ''T'' # s3)" "getnum s3 = Some (h, CHR '':'' # s4)"
    "getnum2 s4 = Some (mi, CHR '':'' # s5)" "getnum2 s5 = Some (sec, r)"
  shows "scanRFC3339 s = Some ((y, mo, d), (h, mi, sec), r)"
  by (simp add: scanRFC3339_def assms expect_def)

lemma getnum_extend:
  "getnum4 s = Some (v, r) \<Longrightarrow> getnum4 (s @ x) = Some (v, r @ x)"
  "getnum2 s = Some (v, r) \<Longrightarrow> getnum2 (s @ x) = Some (v, r @ x)"
  "getnum s = Some (v, CHR '':'' # r) \<Longrightarrow> getnum (s @ x) = Some (v, CHR '':'' # r @ x)"
  by (auto simp: getnum4_Some getnum2_Some getnum_colon)

lemma getnum_no_slash:
  "getnum4 s = Some (v, r) \<Longrightarrow> slash \<notin> set r \<Longrightarrow> slash \<notin> set s"
  "getnum2 s = Some (v, r) \<Longrightarrow> slash \<notin> set r \<Longrightarrow> slash \<notin> set s"
  "getnum s = Some (v, CHR '':'' # r) \<Longrightarrow> slash \<notin> set r \<Longrightarrow> slash \<notin> set s"
  by (auto simp: getnum4_Some getnum2_Some getnum_colon)

lemma scan_extend:
  assumes "scanRFC3339 s = Some (ymd, hms, r)"
  shows "scanRFC3339 (s @ x) = Some (ymd, hms, r @ x)"
  using assms
proof (rule scan_shape)
  fix y s1 mo s2 d s3 h s4 mi s5 sec
  assume A: "getnum4 s = Some (y, CHR ''-'' # s1)" "getnum2 s1 = Some (mo, CHR ''-'' # s2)"
    "getnum2 s2 = Some (d, CHR ''T'' # s3)" "getnum s3 = Some (h, CHR '':'' # s4)"
    "getnum2 s4 = Some (mi, CHR '':'' # s5)" "getnum2 s5 = Some (sec, r)"
    and eq: "ymd = (y, mo, d)" "hms = (h, mi, sec)"
  show ?thesis
    unfolding eq
    by (rule scan_build)
      (use getnum_extend(1) [OF A(1), of x] getnum_extend(2) [OF A(2), of x] getnum_extend(2) [OF A(3), of x]
        getnum_extend(3) [OF A(4), of x] getnum_extend(2) [OF A(5), of x] getnum_extend(2) [OF A(6), of x]
       in \<open>simp_all\<close>)
qed

lemma not_slash_Cons: "c \<noteq> slash \<Longrightarrow> slash \<notin> set r \<Longrightarrow> slash \<notin> set (c # r)"
  by simp

lemma scan_no_slash:
  assumes "scanRFC3339 s = Some (ymd, hms, r)" and "slash \<notin> set r"
  shows "slash \<notin> set s"
  using assms(1)
proof (rule scan_shape)
  fix y s1 mo s2 d s3 h s4 mi s5 sec
  assume A: "getnum4 s = Some (y, CHR ''-'' # s1)" "getnum2 s1 = Some (mo, CHR ''-'' # s2)"
    "getnum2 s2 = Some (d, CHR ''T'' # s3)" "getnum s3 = Some (h, CHR '':'' # s4)"
    "getnum2 s4 = Some (mi, CHR '':'' # s5)" "getnum2 s5 = Some (sec, r)"
  have "slash \<notin> set s5" by (rule getnum_no_slash(2) [OF A(6) assms(2)])
  then have "slash \<notin> set s4" by (intro getnum_no_slash(2) [OF A(5)] not_slash_Cons) simp_all
  then have "slash \<notin> set s3" by (intro getnum_no_slash(3) [OF A(4)])
  then have "slash \<notin> set s2" by (intro getnum_no_slash(2) [OF A(3)] not_slash_Cons) simp_all
  then have "slash \<notin> set s1" by (intro getnum_no_slash(2) [OF A(2)] not_slash_Cons) simp_all
  then show ?thesis by (intro getnum_no_slash(1) [OF A(1)] not_slash_Cons) simp_all
qed

lemma parse_zone_cases:
  assumes "parseZone z = Some off"
  shows "z = ''Z'' \<or> (\<exists>sg a b d e. (sg = CHR ''+'' \<or> sg = CHR ''-'') \<and> list_all isDigit [a, b, d, e] \<and>
    z = [sg, a, b, CHR '':'', d, e])"
  using assms by (auto simp: parseZone_def split: if_splits list.splits)

lemma parse_prefix_free:
  assumes "parseRFC3339 s \<noteq> None" and "parseRFC3339 (s @ x) \<noteq> None"
  shows "x = []"
proof -
  obtain ymd hms r where scan: "scanRFC3339 s = Some (ymd, hms, r)"
    using assms(1) by (auto simp: parseRFC3339_def split: option.splits)
  have z: "\<exists>o1. parseZone (snd (parseFraction r)) = Some o1"
    using assms(1) scan by (auto simp: parseRFC3339_def Option.bind_eq_Some_conv split: prod.splits)
  have z': "\<exists>o2. parseZone (snd (parseFraction (r @ x))) = Some o2"
    using assms(2) scan_extend [OF scan, of x]
    by (auto simp: parseRFC3339_def Option.bind_eq_Some_conv split: prod.splits)
  have ext: "snd (parseFraction (r @ x)) = snd (parseFraction r) @ x"
  proof (cases "\<exists>p d q. r = p # d # q")
    case True
    then obtain p d q where r: "r = p # d # q" by blast
    have "snd (parseFraction r) \<noteq> []" "isDigit (hd (snd (parseFraction r))) = False"
      using z by (auto dest!: parse_zone_cases)
    then show ?thesis
      by (auto simp: r parseFraction_def Let_def dropWhile_append dropWhile_eq_Nil_conv)
  next
    case False
    then have "r = ''Z''"
      using z by (cases r; cases "tl r") (auto simp: parseFraction_def dest!: parse_zone_cases)
    then show ?thesis by (cases x) (auto simp: parseFraction_def)
  qed
  from z z' show ?thesis
    unfolding ext by (auto dest!: parse_zone_cases)
qed

lemma parse_no_slash:
  assumes "parseRFC3339 s \<noteq> None"
  shows "slash \<notin> set s"
proof -
  obtain ymd hms r where scan: "scanRFC3339 s = Some (ymd, hms, r)"
    using assms(1) by (auto simp: parseRFC3339_def split: option.splits)
  obtain off where z: "parseZone (snd (parseFraction r)) = Some off"
    using assms(1) scan by (auto simp: parseRFC3339_def Option.bind_eq_Some_conv split: prod.splits)
  have "slash \<notin> set (snd (parseFraction r))"
    using parse_zone_cases [OF z] by auto
  then have "slash \<notin> set r"
    by (auto simp: parseFraction_def Let_def split: list.splits if_splits)
      (metis isDigit_not(1) list.set_intros(1) set_takeWhileD takeWhile_dropWhile_id Un_iff set_append)+
  with scan show ?thesis by (rule scan_no_slash)
qed

end
