(* ===== verification/World.thy ===== *)
theory World
  imports Storage_Records Go_Time
begin

text \<open>
  What the plugin runs against: OpenBao's \<open>logical.Storage\<close>, transactions, the clock, the random
  source, the event signal and the destination providers. None of it is code of this repository, so
  it is a parameter: every handler takes a \<open>'w world\<close>, the operations on an abstract state
  \<open>'w\<close>. The locale \<open>bao_storage\<close> states the documented behaviour of the storage part, any
  operation being allowed to fail; \<open>memW\<close> is an executable instance with a fault schedule, on
  which the theorems of the development are exercised.
\<close>

section \<open>Provider requests\<close>

text \<open>The types of \<open>internal/providers/provider.go\<close>.\<close>

record capabilities =
  cp_SupportsValueReadback :: bool
  cp_SupportsMetadataReadback :: bool
  cp_SupportsPayloadHashMetadata :: bool
  cp_SupportsUpdateIfOwned :: bool
  cp_SupportsDeleteIfOwned :: bool
  cp_SupportsSecretPath :: bool
  cp_SupportsSecretKey :: bool
  cp_SupportsDataMap :: bool
  cp_MaxPayloadBytes :: int

record providerDestinationConfig =
  dc_Name :: string
  dc_Config :: "(string \<times> string) list"

record associationConfig =
  ac_Config :: "(string \<times> string) list"
  ac_Identity :: string

record runtimeIdentity =
  ri_MountUUID :: string
  ri_RestoreEpoch :: string

record upsertRequest =
  ur_Runtime :: runtimeIdentity
  ur_Association :: associationConfig
  ur_ResolvedName :: string
  ur_Format :: string
  ur_Payload :: string
  ur_PayloadSHA256 :: string
  ur_IdempotencyKey :: string
  ur_DataMap :: "(string \<times> string) list"
  ur_SourcePath :: string
  ur_SourceVersion :: int
  ur_AssociationID :: string
  ur_ObjectID :: string

record deleteRequest =
  dr_Runtime :: runtimeIdentity
  dr_Association :: associationConfig
  dr_ResolvedName :: string
  dr_IdempotencyKey :: string
  dr_DataMap :: bool
  dr_SourcePath :: string
  dr_SourceVersion :: int
  dr_AssociationID :: string
  dr_ObjectID :: string

record readStateRequest =
  rr_Runtime :: runtimeIdentity
  rr_Association :: associationConfig
  rr_ResolvedName :: string
  rr_PayloadSHA256 :: string
  rr_DataMap :: bool
  rr_SourcePath :: string
  rr_SourceVersion :: int
  rr_AssociationID :: string
  rr_ObjectID :: string

record remoteState =
  rs_Exists :: bool
  rs_OwnershipKnown :: bool
  rs_Owned :: bool
  rs_PayloadSHA256 :: string
  rs_SourceVersion :: int
  rs_RemoteVersion :: string
  rs_Verification :: string

record planRequest =
  pq_Runtime :: runtimeIdentity
  pq_Association :: associationConfig
  pq_ResolvedName :: string
  pq_Format :: string
  pq_PayloadSHA256 :: string
  pq_PayloadBytes :: int
  pq_DataMap :: bool
  pq_DataMapKeys :: "string list"
  pq_SourcePath :: string
  pq_SourceVersion :: int
  pq_AssociationID :: string
  pq_ObjectID :: string

record planResult =
  pr_Action :: string
  pr_Message :: string
  pr_ErrorClass :: string

record healthResult =
  hr_Healthy :: bool
  hr_Message :: string
  hr_ErrorClass :: string

record syncResult =
  sr_RemoteVersion :: string

section \<open>The world\<close>

text \<open>
  \<open>w_Collect\<close> is \<open>logical.CollectKeysWithPrefix\<close>. \<open>w_BeginTx\<close> and \<open>w_EndTx\<close> are what
  \<open>logical.WithTransaction\<close> does before and after its callback; \<open>w_EndTx\<close> gets the world at the
  beginning and the callback's error. \<open>w_Now\<close> is \<open>nowUTC()\<close>, \<open>w_Rand n\<close> reads \<open>n\<close> random bytes,
  \<open>w_CtxErr\<close> is \<open>ctx.Err()\<close>. A provider operation opens the runtime of the destination of that
  type and configuration and calls it; \<open>None\<close> is a nil result.
  \<open>w_ListPage p after limit\<close> lists a page of the children of \<open>p\<close>. \<open>w_FloatString m e\<close> is the decimal
  form \<open>encoding/json\<close> gives the float \<open>m * 2 ^ e\<close>. \<open>w_LocalMount\<close> and \<open>w_ReplicationState\<close> are what the
  system view answers, the replication states as their names.
\<close>

record 'w world =
  w_Get :: "string \<Rightarrow> ('w, entry option) io"
  w_Put :: "string \<Rightarrow> entry \<Rightarrow> ('w, unit) io"
  w_Delete :: "string \<Rightarrow> ('w, unit) io"
  w_List :: "string \<Rightarrow> ('w, string list) io"
  w_Collect :: "string \<Rightarrow> ('w, string list) io"
  w_ListPage :: "string \<Rightarrow> string \<Rightarrow> int \<Rightarrow> ('w, string list) io"
  w_Transactional :: bool
  w_BeginTx :: "('w, unit) io"
  w_EndTx :: "'w \<Rightarrow> gerr option \<Rightarrow> ('w, unit) io"
  w_CtxErr :: "('w, unit) io"
  w_Now :: "'w \<Rightarrow> time \<times> 'w"
  w_Rand :: "nat \<Rightarrow> ('w, string) io"
  w_Signal :: "'w \<Rightarrow> 'w"
  w_Sha256 :: "string \<Rightarrow> string"
  w_MountUUID :: string
  w_WorkerID :: string
  w_Provider :: "string \<Rightarrow> capabilities option"
  w_Upsert :: "string \<Rightarrow> providerDestinationConfig \<Rightarrow> upsertRequest \<Rightarrow> ('w, syncResult option) io"
  w_Delete_Remote :: "string \<Rightarrow> providerDestinationConfig \<Rightarrow> deleteRequest \<Rightarrow> ('w, syncResult option) io"
  w_ReadState :: "string \<Rightarrow> providerDestinationConfig \<Rightarrow> readStateRequest \<Rightarrow> ('w, remoteState option) io"
  w_Plan :: "string \<Rightarrow> providerDestinationConfig \<Rightarrow> planRequest \<Rightarrow> ('w, planResult option) io"
  w_Health :: "string \<Rightarrow> providerDestinationConfig \<Rightarrow> ('w, healthResult option) io"
  w_ValidateConfig :: "string \<Rightarrow> providerDestinationConfig \<Rightarrow> ('w, unit) io"
  w_NormalizeAssociation ::
    "string \<Rightarrow> providerDestinationConfig \<Rightarrow> associationConfig \<Rightarrow> ('w, associationConfig) io"
  w_FloatString :: "int \<Rightarrow> int \<Rightarrow> string"
  w_LocalMount :: bool
  w_ReplicationState :: "string list"

definition nowUTC :: "'w world \<Rightarrow> ('w, time) io" where
  "nowUTC W = (\<lambda>w. case w_Now W w of (t, w') \<Rightarrow> (Inr t, w'))"

definition signalEventDispatch :: "'w world \<Rightarrow> ('w, unit) io" where
  "signalEventDispatch W = (\<lambda>w. (Inr (), w_Signal W w))"

definition withTransaction :: "'w world \<Rightarrow> ('w, 'a) io \<Rightarrow> ('w, 'a) io" where
  "withTransaction W callback = (\<lambda>w.
     case w_BeginTx W w of
       (Inl e, w1) \<Rightarrow> (Inl e, w1)
     | (Inr _, w1) \<Rightarrow>
         (case callback w1 of
            (Inl e, w2) \<Rightarrow> (case w_EndTx W w1 (Some e) w2 of (_, w3) \<Rightarrow> (Inl e, w3))
          | (Inr a, w2) \<Rightarrow>
              (case w_EndTx W w1 None w2 of
                 (Inl e, w3) \<Rightarrow> (Inl e, w3)
               | (Inr _, w3) \<Rightarrow> (Inr a, w3))))"

text \<open>The read pattern of every record: \<open>Get\<close>, nil if there is no entry, else decode it.\<close>

definition getDecoded :: "'w world \<Rightarrow> string \<Rightarrow> (entry \<Rightarrow> gerr + 'r) \<Rightarrow> ('w, 'r option) io" where
  "getDecoded W key decode =
     bindM (w_Get W key) (\<lambda>e.
       case e of
         None \<Rightarrow> retM None
       | Some v \<Rightarrow> bindM (liftE (decode v)) (\<lambda>r. retM (Some r)))"

text \<open>\<open>newRuntimeID\<close> and \<open>bestEffortRuntimeID\<close> of \<open>runtime_state.go\<close>.\<close>

definition newRuntimeID :: "'w world \<Rightarrow> string \<Rightarrow> ('w, string) io" where
  "newRuntimeID W pre =
     bindM (w_Rand W 16) (\<lambda>raw. retM (pre @ ''-'' @ hexEncode raw))"

definition bestEffortRuntimeID :: "'w world \<Rightarrow> string \<Rightarrow> ('w, string) io" where
  "bestEffortRuntimeID W pre =
     bindM (tryM (newRuntimeID W pre)) (\<lambda>r.
       case r of Inr i \<Rightarrow> retM i | Inl _ \<Rightarrow> retM (pre @ ''-unavailable''))"

section \<open>Programs that keep an invariant\<close>

text \<open>
  \<open>keeps P m R\<close>: run in a world that satisfies \<open>P\<close>, \<open>m\<close> ends in one that satisfies \<open>P\<close>, whether it
  returns or fails, and a returned value satisfies \<open>R\<close>. The rules compose along the program text.
\<close>

definition keeps :: "('w \<Rightarrow> bool) \<Rightarrow> ('w, 'a) io \<Rightarrow> ('a \<Rightarrow> bool) \<Rightarrow> bool" where
  "keeps P m R \<longleftrightarrow> (\<forall>w. P w \<longrightarrow> wp m (\<lambda>a w'. P w' \<and> R a) (\<lambda>_. P) w)"

named_theorems keeps_intros \<open>invariant preservation, one rule per program construct or operation\<close>

lemma keepsD: "keeps P m R \<Longrightarrow> P w \<Longrightarrow> wp m (\<lambda>a w'. P w' \<and> R a) (\<lambda>_. P) w"
  by (simp add: keeps_def)

lemma keeps_snd: "keeps P m R \<Longrightarrow> P w \<Longrightarrow> P (snd (m w))"
  by (cases "m w"; cases "fst (m w)") (auto simp: keeps_def wp_def)

lemma keeps_value: "keeps P m R \<Longrightarrow> P w \<Longrightarrow> m w = (Inr a, w') \<Longrightarrow> R a"
  by (auto simp: keeps_def wp_def)

lemma keeps_weaken: "keeps P m R \<Longrightarrow> (\<And>a. R a \<Longrightarrow> S a) \<Longrightarrow> keeps P m S"
  unfolding keeps_def by (blast intro: wp_mono)

lemma keeps_any: "keeps P m R \<Longrightarrow> keeps P m (\<lambda>_. True)"
  by (erule keeps_weaken) simp

lemma keeps_retM: "R a \<Longrightarrow> keeps P (retM a) R"
  by (simp add: keeps_def)

lemma keeps_failM [keeps_intros]: "keeps P (failM e) R"
  by (simp add: keeps_def)

lemma keeps_bindM: "keeps P m R \<Longrightarrow> (\<And>a. R a \<Longrightarrow> keeps P (f a) S) \<Longrightarrow> keeps P (bindM m f) S"
  unfolding keeps_def by (auto elim!: wp_mono)

lemma keeps_liftE: "(\<And>a. r = Inr a \<Longrightarrow> R a) \<Longrightarrow> keeps P (liftE r) R"
  by (simp add: keeps_def split: sum.splits)

lemma keeps_tryM: "keeps P m R \<Longrightarrow> (\<And>a. R a \<Longrightarrow> S (Inr a)) \<Longrightarrow> (\<And>e. S (Inl e)) \<Longrightarrow> keeps P (tryM m) S"
  unfolding keeps_def by (auto elim!: wp_mono)

lemma keeps_whenM: "(b \<Longrightarrow> keeps P m R) \<Longrightarrow> R () \<Longrightarrow> keeps P (whenM b m) R"
  by (simp add: keeps_def)

lemma keeps_if: "(b \<Longrightarrow> keeps P m R) \<Longrightarrow> (\<not> b \<Longrightarrow> keeps P n R) \<Longrightarrow> keeps P (if b then m else n) R"
  by simp

lemma keeps_case_option:
  "(x = None \<Longrightarrow> keeps P m R) \<Longrightarrow> (\<And>y. x = Some y \<Longrightarrow> keeps P (f y) R) \<Longrightarrow>
   keeps P (case x of None \<Rightarrow> m | Some y \<Rightarrow> f y) R"
  by (simp split: option.splits)

lemma keeps_case_sum:
  "(\<And>a. x = Inl a \<Longrightarrow> keeps P (f a) R) \<Longrightarrow> (\<And>b. x = Inr b \<Longrightarrow> keeps P (g b) R) \<Longrightarrow>
   keeps P (case x of Inl a \<Rightarrow> f a | Inr b \<Rightarrow> g b) R"
  by (simp split: sum.splits)

lemma keeps_case_prod:
  "(\<And>a b. x = (a, b) \<Longrightarrow> keeps P (f a b) R) \<Longrightarrow> keeps P (case x of (a, b) \<Rightarrow> f a b) R"
  by (simp split: prod.splits)

lemma keeps_foldM:
  "R acc \<Longrightarrow> (\<And>b x. R b \<Longrightarrow> x \<in> set xs \<Longrightarrow> keeps P (f b x) R) \<Longrightarrow> keeps P (foldM f acc xs) R"
proof (induction xs arbitrary: acc)
  case (Cons x xs)
  show ?case by (simp, rule keeps_bindM [of _ _ R]) (use Cons in auto)
qed (simp add: keeps_retM)

lemma keeps_loopM:
  assumes "R acc" and "\<And>b x. R b \<Longrightarrow> x \<in> set xs \<Longrightarrow> keeps P (f b x) (\<lambda>r. R (flow_val r))"
  shows "keeps P (loopM f acc xs) R"
  using assms
proof (induction xs arbitrary: acc)
  case (Cons x xs)
  show ?case
    by (simp, rule keeps_bindM [of _ _ "\<lambda>r. R (flow_val r)"])
      (use Cons in \<open>auto split: flow.splits intro: keeps_retM\<close>)
qed (simp add: keeps_retM)

lemma keeps_eachM:
  "(\<And>x. x \<in> set xs \<Longrightarrow> keeps P (f x) (\<lambda>_. True)) \<Longrightarrow> keeps P (eachM xs f) (\<lambda>_. True)"
  unfolding eachM_def by (rule keeps_foldM) auto

lemmas keeps_control = keeps_bindM keeps_if keeps_case_option keeps_case_sum keeps_case_prod

section \<open>Storage\<close>

text \<open>
  \<open>List\<close> returns the immediate children of a prefix: the rest of a key up to and including its
  first slash.
\<close>

definition childOf :: "string \<Rightarrow> string \<Rightarrow> string option" where
  "childOf p k =
     (if prefix p k \<and> k \<noteq> p
      then (case cutAt slash (drop (length p) k) of
              None \<Rightarrow> Some (drop (length p) k)
            | Some (a, _) \<Rightarrow> Some (a @ [slash]))
      else None)"

definition children :: "string \<Rightarrow> (string \<Rightarrow> entry option) \<Rightarrow> string set" where
  "children p c = {x. \<exists>k. c k \<noteq> None \<and> childOf p k = Some x}"

text \<open>A child without a slash is a key.\<close>

lemma cutAt_None: "cutAt c s = None \<longleftrightarrow> c \<notin> set s"
proof
  assume "cutAt c s = None"
  then have "dropWhile (\<lambda>x. x \<noteq> c) s = []" by (auto simp: cutAt_def split: list.splits)
  then show "c \<notin> set s" by (auto simp: dropWhile_eq_Nil_conv)
next
  assume "c \<notin> set s"
  then have "dropWhile (\<lambda>x. x \<noteq> c) s = []" by (auto simp: dropWhile_eq_Nil_conv)
  then show "cutAt c s = None" by (simp only: cutAt_def list.case)
qed

lemma childOf_leaf:
  assumes "slash \<notin> set x"
  shows "childOf p k = Some x \<longleftrightarrow> k = p @ x \<and> x \<noteq> []"
proof (cases "prefix p k")
  case True
  then obtain r where k: "k = p @ r" by (auto simp: prefix_def)
  show ?thesis
  proof (cases "cutAt slash r")
    case None
    then show ?thesis by (auto simp: childOf_def k)
  next
    case (Some ab)
    then have "r \<noteq> x" using assms by (cases ab) (auto simp: cutAt_Some)
    moreover have "childOf p k \<noteq> Some x" using Some assms by (auto simp: childOf_def k split: prod.splits)
    ultimately show ?thesis by (simp add: k)
  qed
qed (auto simp: childOf_def)

lemma children_leaf: "slash \<notin> set x \<Longrightarrow> x \<in> children p c \<longleftrightarrow> x \<noteq> [] \<and> c (p @ x) \<noteq> None"
  by (auto simp: children_def childOf_leaf)

text \<open>
  The laws of storage. \<open>contents\<close> is what is stored. A read returns it and does not change it; a
  failed write has happened or not. Nothing is assumed about the provider operations.
\<close>

locale bao_storage =
  fixes W :: "'w world" and contents :: "'w \<Rightarrow> string \<Rightarrow> entry option"
  assumes get_law: "wp (w_Get W k) (\<lambda>r w'. r = contents w k \<and> contents w' = contents w)
      (\<lambda>_ w'. contents w' = contents w) w"
    and put_law: "wp (w_Put W k e) (\<lambda>_ w'. contents w' = (contents w)(k \<mapsto> e))
      (\<lambda>_ w'. contents w' = contents w \<or> contents w' = (contents w)(k \<mapsto> e)) w"
    and delete_law: "wp (w_Delete W k) (\<lambda>_ w'. contents w' = (contents w)(k := None))
      (\<lambda>_ w'. contents w' = contents w \<or> contents w' = (contents w)(k := None)) w"
    and list_law: "wp (w_List W p) (\<lambda>xs w'. set xs = children p (contents w) \<and> distinct xs \<and>
      contents w' = contents w) (\<lambda>_ w'. contents w' = contents w) w"
    and collect_law: "wp (w_Collect W p) (\<lambda>xs w'. set xs = {k. contents w k \<noteq> None \<and> prefix p k} \<and>
      distinct xs \<and> contents w' = contents w) (\<lambda>_ w'. contents w' = contents w) w"
    and list_page_law: "wp (w_ListPage W p after limit) (\<lambda>xs w'. contents w' = contents w \<and>
      (\<exists>ys. sorted ys \<and> distinct ys \<and> set ys = {x \<in> children p (contents w). after < x} \<and>
         xs = (if limit \<le> 0 then ys else take (nat limit) ys))) (\<lambda>_ w'. contents w' = contents w) w"
    and begin_law: "wp (w_BeginTx W) (\<lambda>_ w'. contents w' = contents w)
      (\<lambda>_ w'. contents w' = contents w) w"
    and commit_law: "wp (w_EndTx W h None) (\<lambda>_ w'. contents w' = contents w)
      (\<lambda>_ w'. contents w' = contents w \<or> contents w' = contents h) w"
    and rollback_law: "wp (w_EndTx W h (Some er)) (\<lambda>_ w'. contents w' = contents w \<or> contents w' = contents h)
      (\<lambda>_ w'. contents w' = contents w \<or> contents w' = contents h) w"
    and ctx_law: "wp (w_CtxErr W) (\<lambda>_ w'. contents w' = contents w) (\<lambda>_ w'. contents w' = contents w) w"
    and now_law: "contents (snd (w_Now W w)) = contents w"
    and rand_law: "wp (w_Rand W n) (\<lambda>raw w'. length raw = n \<and> contents w' = contents w)
      (\<lambda>_ w'. contents w' = contents w) w"
    and signal_law: "contents (w_Signal W w) = contents w"
begin

subsection \<open>Rules for one operation\<close>

lemma wp_Get [wp_intros]:
  assumes "\<And>w'. contents w' = contents w \<Longrightarrow> Q (contents w k) w'"
    and "\<And>e w'. contents w' = contents w \<Longrightarrow> E e w'"
  shows "wp (w_Get W k) Q E w"
  by (rule wp_mono [OF get_law]) (use assms in auto)

lemma wp_Put [wp_intros]:
  assumes "\<And>w'. contents w' = (contents w)(k \<mapsto> v) \<Longrightarrow> Q () w'"
    and "\<And>e w'. contents w' = contents w \<Longrightarrow> E e w'"
    and "\<And>e w'. contents w' = (contents w)(k \<mapsto> v) \<Longrightarrow> E e w'"
  shows "wp (w_Put W k v) Q E w"
  by (rule wp_mono [OF put_law]) (use assms in auto)

lemma wp_Delete [wp_intros]:
  assumes "\<And>w'. contents w' = (contents w)(k := None) \<Longrightarrow> Q () w'"
    and "\<And>e w'. contents w' = contents w \<Longrightarrow> E e w'"
    and "\<And>e w'. contents w' = (contents w)(k := None) \<Longrightarrow> E e w'"
  shows "wp (w_Delete W k) Q E w"
  by (rule wp_mono [OF delete_law]) (use assms in auto)

lemma wp_List [wp_intros]:
  assumes "\<And>xs w'. set xs = children p (contents w) \<Longrightarrow> distinct xs \<Longrightarrow> contents w' = contents w \<Longrightarrow> Q xs w'"
    and "\<And>e w'. contents w' = contents w \<Longrightarrow> E e w'"
  shows "wp (w_List W p) Q E w"
  by (rule wp_mono [OF list_law]) (use assms in auto)

lemma wp_Collect [wp_intros]:
  assumes "\<And>xs w'. set xs = {k. contents w k \<noteq> None \<and> prefix p k} \<Longrightarrow> distinct xs \<Longrightarrow>
      contents w' = contents w \<Longrightarrow> Q xs w'"
    and "\<And>e w'. contents w' = contents w \<Longrightarrow> E e w'"
  shows "wp (w_Collect W p) Q E w"
  by (rule wp_mono [OF collect_law]) (use assms in auto)

lemma wp_ListPage [wp_intros]:
  assumes "\<And>ys w'. sorted ys \<Longrightarrow> distinct ys \<Longrightarrow> set ys = {x \<in> children p (contents w). after < x} \<Longrightarrow>
      contents w' = contents w \<Longrightarrow> Q (if limit \<le> 0 then ys else take (nat limit) ys) w'"
    and "\<And>e w'. contents w' = contents w \<Longrightarrow> E e w'"
  shows "wp (w_ListPage W p after limit) Q E w"
proof (rule wp_mono [OF list_page_law])
  fix xs w'
  assume "contents w' = contents w \<and> (\<exists>ys. sorted ys \<and> distinct ys \<and>
    set ys = {x \<in> children p (contents w). after < x} \<and> xs = (if limit \<le> 0 then ys else take (nat limit) ys))"
  then obtain ys where ys: "sorted ys" "distinct ys" "set ys = {x \<in> children p (contents w). after < x}"
    "contents w' = contents w" "xs = (if limit \<le> 0 then ys else take (nat limit) ys)" by blast
  show "Q xs w'" unfolding ys(5) by (rule assms(1) [OF ys(1-4)])
qed (rule assms(2))

lemma wp_nowUTC [wp_intros]:
  assumes "\<And>t w'. contents w' = contents w \<Longrightarrow> Q t w'"
  shows "wp (nowUTC W) Q E w"
  using assms now_law [of w] by (auto simp: wp_def nowUTC_def split: prod.splits)

lemma wp_CtxErr [wp_intros]:
  assumes "\<And>w'. contents w' = contents w \<Longrightarrow> Q () w'" and "\<And>e w'. contents w' = contents w \<Longrightarrow> E e w'"
  shows "wp (w_CtxErr W) Q E w"
  by (rule wp_mono [OF ctx_law]) (use assms in auto)

lemma wp_signal [wp_intros]:
  assumes "\<And>w'. contents w' = contents w \<Longrightarrow> Q () w'"
  shows "wp (signalEventDispatch W) Q E w"
  using assms [OF signal_law] by (simp add: wp_def signalEventDispatch_def)

lemma wp_newRuntimeID [wp_intros]:
  assumes "\<And>i w'. contents w' = contents w \<Longrightarrow> slash \<notin> set pre \<longrightarrow> slash \<notin> set i \<Longrightarrow> i \<noteq> [] \<Longrightarrow> Q i w'"
    and "\<And>e w'. contents w' = contents w \<Longrightarrow> E e w'"
  shows "wp (newRuntimeID W pre) Q E w"
  unfolding newRuntimeID_def
  by (simp, rule wp_mono [OF rand_law]) (use assms hexEncode_no_slash in auto)

lemma wp_bestEffortRuntimeID [wp_intros]:
  assumes "\<And>i w'. contents w' = contents w \<Longrightarrow> slash \<notin> set pre \<longrightarrow> slash \<notin> set i \<Longrightarrow> i \<noteq> [] \<Longrightarrow> Q i w'"
  shows "wp (bestEffortRuntimeID W pre) Q E w"
  unfolding bestEffortRuntimeID_def
  by (simp, rule wp_newRuntimeID) (use assms in auto)

lemma wp_getDecoded [wp_intros]:
  assumes "\<And>w'. contents w' = contents w \<Longrightarrow> contents w key = None \<Longrightarrow> Q None w'"
    and "\<And>v r w'. contents w' = contents w \<Longrightarrow> contents w key = Some v \<Longrightarrow> decode v = Inr r \<Longrightarrow> Q (Some r) w'"
    and "\<And>e w'. contents w' = contents w \<Longrightarrow> E e w'"
  shows "wp (getDecoded W key decode) Q E w"
  unfolding getDecoded_def
  by (simp, rule wp_Get) (auto simp: wp_simps assms split: option.splits sum.splits)

lemma wp_withTransaction:
  assumes body: "\<And>w1. contents w1 = contents w \<Longrightarrow> wp m Q' E' w1"
    and commit: "\<And>a w2 w3. Q' a w2 \<Longrightarrow> contents w3 = contents w2 \<Longrightarrow> Q a w3"
    and begin_fail: "\<And>e w1. contents w1 = contents w \<Longrightarrow> E e w1"
    and commit_fail: "\<And>a w2 e w3. Q' a w2 \<Longrightarrow> contents w3 = contents w2 \<or> contents w3 = contents w \<Longrightarrow> E e w3"
    and rollback: "\<And>e w2 w3. E' e w2 \<Longrightarrow> contents w3 = contents w2 \<or> contents w3 = contents w \<Longrightarrow> E e w3"
  shows "wp (withTransaction W m) Q E w"
proof (cases "w_BeginTx W w")
  case (Pair r w1)
  have c1: "contents w1 = contents w"
    using begin_law [of w] Pair by (simp add: wp_def split: sum.splits)
  show ?thesis
  proof (cases r)
    case (Inl e)
    then show ?thesis using Pair begin_fail [OF c1] by (simp add: withTransaction_def wp_def)
  next
    case (Inr u)
    have b: "wp m Q' E' w1" by (rule body [OF c1])
    show ?thesis
    proof (cases "m w1")
      case (Pair s w2)
      show ?thesis
      proof (cases s)
        case (Inl e)
        have "E' e w2" using b Pair Inl by (simp add: wp_def)
        moreover have "contents (snd (w_EndTx W w1 (Some e) w2)) \<in> {contents w2, contents w}"
          using rollback_law [of w1 e w2] c1 by (auto simp: wp_def split: prod.splits sum.splits)
        ultimately show ?thesis
          using \<open>w_BeginTx W w = (r, w1)\<close> \<open>r = Inr u\<close> Pair Inl
          by (auto simp: withTransaction_def wp_def split: prod.splits intro: rollback)
      next
        case (Inr a)
        have "Q' a w2" using b Pair Inr by (simp add: wp_def)
        then show ?thesis
          using \<open>w_BeginTx W w = (r, w1)\<close> \<open>r = Inr u\<close> Pair Inr commit_law [of w1 w2] c1
          by (auto simp: withTransaction_def wp_def split: prod.splits sum.splits
              intro: commit commit_fail)
      qed
    qed
  qed
qed

subsection \<open>Rules for invariants of the contents\<close>

lemma keeps_read:
  "keeps (\<lambda>w. P (contents w)) (w_Get W k) (\<lambda>_. True)"
  "keeps (\<lambda>w. P (contents w)) (w_List W k) (\<lambda>_. True)"
  "keeps (\<lambda>w. P (contents w)) (w_Collect W k) (\<lambda>_. True)"
  "keeps (\<lambda>w. P (contents w)) (w_CtxErr W) (\<lambda>_. True)"
  "keeps (\<lambda>w. P (contents w)) (nowUTC W) (\<lambda>_. True)"
  "keeps (\<lambda>w. P (contents w)) (signalEventDispatch W) (\<lambda>_. True)"
  "keeps (\<lambda>w. P (contents w)) (newRuntimeID W pre) (\<lambda>_. True)"
  "keeps (\<lambda>w. P (contents w)) (bestEffortRuntimeID W pre) (\<lambda>_. True)"
  unfolding keeps_def by (auto intro!: wp_intros)

lemma keeps_ListPage: "keeps (\<lambda>w. P (contents w)) (w_ListPage W k after limit) (\<lambda>_. True)"
  unfolding keeps_def by (intro allI impI) (rule wp_ListPage; simp)

lemma keeps_withTransaction:
  assumes "keeps (\<lambda>w. P (contents w)) m R"
  shows "keeps (\<lambda>w. P (contents w)) (withTransaction W m) R"
  unfolding keeps_def
proof (intro allI impI)
  fix w assume P: "P (contents w)"
  show "wp (withTransaction W m) (\<lambda>a w'. P (contents w') \<and> R a) (\<lambda>_ w'. P (contents w')) w"
    by (rule wp_withTransaction [where Q' = "\<lambda>a w'. P (contents w') \<and> R a" and E' = "\<lambda>_ w'. P (contents w')"])
      (use P assms in \<open>auto simp: keeps_def\<close>)
qed

end

end
