(* ===== verification/Mem_World.thy ===== *)
theory Mem_World
  imports World "HOL-Library.AList"
begin

text \<open>
  An executable world: storage is an association list, a fault schedule makes chosen storage
  operations fail before or after they take effect, the clock advances by a second at each
  reading, and provider calls follow a script that may also write to storage (what other workers
  do meanwhile). It satisfies the laws of \<open>bao_storage\<close>, so the theorems of the development hold of
  it, and programs can be run in it.
\<close>

datatype fault = NoFault | FailBefore | FailAfter

datatype providerStep = ProviderStep "gerr + syncResult option" "(string \<times> entry option) list"

record mem =
  m_store :: "(string \<times> entry) list"
  m_faults :: "fault list"
  m_time :: time
  m_rand :: nat
  m_signals :: nat
  m_script :: "providerStep list"
  m_reads :: "(gerr + remoteState option) list"

definition emptyMem :: mem where
  "emptyMem = \<lparr> m_store = [], m_faults = [], m_time = 0, m_rand = 0, m_signals = 0, m_script = [],
     m_reads = [] \<rparr>"

definition memContents :: "mem \<Rightarrow> string \<Rightarrow> entry option" where
  "memContents w = map_of (m_store w)"

definition memOp :: "(mem \<Rightarrow> 'a \<times> mem) \<Rightarrow> (mem, 'a) io" where
  "memOp f w =
     (case m_faults w of
        [] \<Rightarrow> (case f w of (a, w') \<Rightarrow> (Inr a, w'))
      | x # xs \<Rightarrow>
          (let w0 = w \<lparr> m_faults := xs \<rparr>
           in case x of
                NoFault \<Rightarrow> (case f w0 of (a, w') \<Rightarrow> (Inr a, w'))
              | FailBefore \<Rightarrow> (Inl (ErrStorage ''not done''), w0)
              | FailAfter \<Rightarrow> (case f w0 of (_, w') \<Rightarrow> (Inl (ErrStorage ''done''), w'))))"

definition memGet :: "string \<Rightarrow> (mem, entry option) io" where
  "memGet k = memOp (\<lambda>w. (map_of (m_store w) k, w))"

definition memPut :: "string \<Rightarrow> entry \<Rightarrow> (mem, unit) io" where
  "memPut k e = memOp (\<lambda>w. ((), w \<lparr> m_store := AList.update k e (m_store w) \<rparr>))"

definition memDelete :: "string \<Rightarrow> (mem, unit) io" where
  "memDelete k = memOp (\<lambda>w. ((), w \<lparr> m_store := AList.delete k (m_store w) \<rparr>))"

definition memList :: "string \<Rightarrow> (mem, string list) io" where
  "memList p = memOp (\<lambda>w. (uniqueSorted (List.map_filter (childOf p) (map fst (m_store w))), w))"

definition memCollect :: "string \<Rightarrow> (mem, string list) io" where
  "memCollect p = memOp (\<lambda>w. (uniqueSorted (filter (prefix p) (map fst (m_store w))), w))"

definition memListPage :: "string \<Rightarrow> string \<Rightarrow> int \<Rightarrow> (mem, string list) io" where
  "memListPage p after limit = memOp (\<lambda>w.
     (let ys = filter (\<lambda>x. after < x) (uniqueSorted (List.map_filter (childOf p) (map fst (m_store w))))
      in (if limit \<le> 0 then ys else take (nat limit) ys, w)))"

definition memEndTx :: "bool \<Rightarrow> mem \<Rightarrow> gerr option \<Rightarrow> (mem, unit) io" where
  "memEndTx tx h er w =
     (case er of
        None \<Rightarrow> (if tx \<and> m_faults w \<noteq> []
                 then (Inl (ErrStorage ''commit failed''), w \<lparr> m_store := m_store h, m_faults := [] \<rparr>)
                 else (Inr (), w))
      | Some _ \<Rightarrow> (Inr (), if tx then w \<lparr> m_store := m_store h \<rparr> else w))"

definition memNow :: "mem \<Rightarrow> time \<times> mem" where
  "memNow w = (m_time w, w \<lparr> m_time := m_time w + second \<rparr>)"

definition memRand :: "nat \<Rightarrow> (mem, string) io" where
  "memRand n w = (Inr (replicate n (char_of (m_rand w))), w \<lparr> m_rand := m_rand w + 1 \<rparr>)"

definition memSignal :: "mem \<Rightarrow> mem" where
  "memSignal w = w \<lparr> m_signals := m_signals w + 1 \<rparr>"

definition applyWrites :: "(string \<times> entry option) list \<Rightarrow> mem \<Rightarrow> mem" where
  "applyWrites ws w = foldl (\<lambda>w (k, e). case e of
     None \<Rightarrow> w \<lparr> m_store := AList.delete k (m_store w) \<rparr>
   | Some v \<Rightarrow> w \<lparr> m_store := AList.update k v (m_store w) \<rparr>) w ws"

definition memProvider :: "(mem, syncResult option) io" where
  "memProvider w =
     (case m_script w of
        [] \<Rightarrow> (Inr (Some \<lparr> sr_RemoteVersion = ''1'' \<rparr>), w)
      | ProviderStep r ws # rest \<Rightarrow> (r, applyWrites ws (w \<lparr> m_script := rest \<rparr>)))"

definition memReadState :: "(mem, remoteState option) io" where
  "memReadState w =
     (case m_reads w of [] \<Rightarrow> (Inr None, w) | r # rs \<Rightarrow> (r, w \<lparr> m_reads := rs \<rparr>))"

definition memCapabilities :: capabilities where
  "memCapabilities = \<lparr> cp_SupportsValueReadback = True, cp_SupportsMetadataReadback = True,
     cp_SupportsPayloadHashMetadata = True, cp_SupportsUpdateIfOwned = True,
     cp_SupportsDeleteIfOwned = True, cp_SupportsSecretPath = True, cp_SupportsSecretKey = True,
     cp_SupportsDataMap = True, cp_MaxPayloadBytes = 65536 \<rparr>"

definition memSha256 :: "string \<Rightarrow> string" where
  "memSha256 s = take 32 (rev s @ replicate 32 (CHR 0x00))"

definition memW :: "bool \<Rightarrow> mem world" where
  "memW tx = \<lparr> w_Get = memGet, w_Put = memPut, w_Delete = memDelete, w_List = memList,
     w_Collect = memCollect, w_ListPage = memListPage, w_Transactional = tx, w_BeginTx = (\<lambda>w. (Inr (), w)),
     w_EndTx = memEndTx tx, w_CtxErr = (\<lambda>w. (Inr (), w)), w_Now = memNow, w_Rand = memRand,
     w_Signal = memSignal, w_Sha256 = memSha256, w_MountUUID = ''mount'', w_WorkerID = ''worker'',
     w_Provider = (\<lambda>t. if t = ''fake'' then Some memCapabilities else None),
     w_Upsert = (\<lambda>_ _ _. memProvider), w_Delete_Remote = (\<lambda>_ _ _. memProvider),
     w_ReadState = (\<lambda>_ _ _. memReadState), w_Plan = (\<lambda>_ _ _. retM None), w_Health = (\<lambda>_ _. retM None),
     w_ValidateConfig = (\<lambda>_ _. retM ()), w_NormalizeAssociation = (\<lambda>_ _ a. retM a),
     w_FloatString = (\<lambda>m e. itoa m), w_LocalMount = False, w_ReplicationState = [] \<rparr>"

lemma memW_simps [simp]:
  "w_Get (memW tx) = memGet" "w_Put (memW tx) = memPut" "w_Delete (memW tx) = memDelete"
  "w_List (memW tx) = memList" "w_Collect (memW tx) = memCollect" "w_Transactional (memW tx) = tx"
  "w_BeginTx (memW tx) = (\<lambda>w. (Inr (), w))" "w_EndTx (memW tx) = memEndTx tx"
  "w_CtxErr (memW tx) = (\<lambda>w. (Inr (), w))" "w_Now (memW tx) = memNow" "w_Rand (memW tx) = memRand"
  "w_Signal (memW tx) = memSignal" "w_Sha256 (memW tx) = memSha256"
  "w_MountUUID (memW tx) = ''mount''" "w_WorkerID (memW tx) = ''worker''"
  "w_Provider (memW tx) = (\<lambda>t. if t = ''fake'' then Some memCapabilities else None)"
  "w_Upsert (memW tx) = (\<lambda>_ _ _. memProvider)" "w_Delete_Remote (memW tx) = (\<lambda>_ _ _. memProvider)"
  "w_ReadState (memW tx) = (\<lambda>_ _ _. memReadState)" "w_ListPage (memW tx) = memListPage"
  "w_Plan (memW tx) = (\<lambda>_ _ _. retM None)" "w_Health (memW tx) = (\<lambda>_ _. retM None)"
  "w_ValidateConfig (memW tx) = (\<lambda>_ _. retM ())" "w_NormalizeAssociation (memW tx) = (\<lambda>_ _ a. retM a)"
  "w_FloatString (memW tx) = (\<lambda>m e. itoa m)" "w_LocalMount (memW tx) = False"
  "w_ReplicationState (memW tx) = []"
  by (simp_all add: memW_def)

lemma memContents_simps [simp]:
  "memContents (w \<lparr> m_faults := fs \<rparr>) = memContents w"
  "memContents (w \<lparr> m_time := t \<rparr>) = memContents w"
  "memContents (w \<lparr> m_rand := n \<rparr>) = memContents w"
  "memContents (w \<lparr> m_signals := n \<rparr>) = memContents w"
  "memContents (w \<lparr> m_store := AList.update k e (m_store w) \<rparr>) = (memContents w)(k \<mapsto> e)"
  "memContents (w \<lparr> m_store := AList.delete k (m_store w) \<rparr>) = (memContents w)(k := None)"
  "memContents (w \<lparr> m_store := m_store h \<rparr>) = memContents h"
  "memContents (w \<lparr> m_store := m_store h, m_faults := fs \<rparr>) = memContents h"
  by (auto simp: memContents_def update_conv' delete_conv' fun_eq_iff)

text \<open>A storage operation, with a fault or without.\<close>

lemma wp_memOp:
  assumes "\<And>fs. case f (w \<lparr> m_faults := fs \<rparr>) of (a, w') \<Rightarrow> Q a w' \<and> (\<forall>e. E e w')"
    and "\<And>e fs. E e (w \<lparr> m_faults := fs \<rparr>)"
  shows "wp (memOp f) Q E w"
proof -
  have "w \<lparr> m_faults := m_faults w \<rparr> = w" by simp
  then have "case f w of (a, w') \<Rightarrow> Q a w' \<and> (\<forall>e. E e w')" using assms(1) [of "m_faults w"] by simp
  then show ?thesis
    using assms(1) [of "tl (m_faults w)"] assms(2) [of _ "tl (m_faults w)"]
    by (auto simp: wp_def memOp_def Let_def split: list.splits fault.splits prod.splits)
qed

lemma memContents_None: "memContents w k = None \<longleftrightarrow> k \<notin> fst ` set (m_store w)"
  by (simp add: memContents_def map_of_eq_None_iff)

lemma children_mem:
  "set (List.map_filter (childOf p) (map fst (m_store w))) = children p (memContents w)"
  by (auto simp: children_def memContents_def List.map_filter_def map_of_eq_None_iff image_iff)
    force+

interpretation mem: bao_storage "memW tx" memContents for tx
proof (unfold_locales, goal_cases)
  case (1 k w)
  show ?case by (simp add: memGet_def) (rule wp_memOp; simp add: memContents_def)
next
  case (2 k e w)
  show ?case by (simp add: memPut_def) (rule wp_memOp; simp add: memContents_def update_conv')
next
  case (3 k w)
  show ?case by (simp add: memDelete_def) (rule wp_memOp; simp add: memContents_def delete_conv')
next
  case (4 p w)
  show ?case
    by (simp add: memList_def) (rule wp_memOp; simp add: children_mem sorted_uniqueSorted)
next
  case (5 p w)
  have "set (uniqueSorted (filter (prefix p) (map fst (m_store w)))) =
      {k. memContents w k \<noteq> None \<and> prefix p k}" for w
    by (auto simp: memContents_None)
  then show ?case
    by (simp add: memCollect_def) (rule wp_memOp; simp add: sorted_uniqueSorted)
next
  case (6 p after limit w)
  define ys where "ys = filter (\<lambda>x. after < x) (uniqueSorted (List.map_filter (childOf p) (map fst (m_store w))))"
  have "sorted ys" "distinct ys" "set ys = {x \<in> children p (memContents w). after < x}"
    using sorted_uniqueSorted children_mem [of p w] sorted_filter [of "\<lambda>x. x"] by (auto simp: ys_def)
  then show ?case
    by (simp add: memListPage_def Let_def ys_def [symmetric]) (rule wp_memOp; auto simp: ys_def [symmetric])
next
  case (7 w)
  show ?case by (simp add: wp_def)
next
  case (8 h w)
  show ?case by (simp add: wp_def memEndTx_def)
next
  case (9 h er w)
  show ?case by (simp add: wp_def memEndTx_def)
next
  case (10 w)
  show ?case by (simp add: wp_def)
next
  case (11 w)
  show ?case by (simp add: memNow_def)
next
  case (12 n w)
  show ?case by (simp add: wp_def memRand_def)
next
  case (13 w)
  show ?case by (simp add: memSignal_def)
qed

end
