(* ===== verification/Storage_Outbox.thy ===== *)
theory Storage_Outbox
  imports World "HOL-Library.Product_Lexorder"
begin

text \<open>
  The durable operation queue (\<open>internal/backend/storage_outbox.go\<close>, and the claim test of
  \<open>dispatcher.go\<close> that its deletions depend on). A queue record lives under \<open>outbox/<id>\<close>; three
  secondary indexes list its id by path, by state and by due time. Writers put new indexes before
  the record and delete stale ones after it, so an interrupted write leaves at most extra index
  entries, which the readers filter against the records. The invariant \<open>outbox_inv\<close> says so, and
  every operation keeps it whichever storage calls fail.
\<close>

section \<open>Records and index keys\<close>

definition isQueuedOutboxState :: "string \<Rightarrow> bool" where
  "isQueuedOutboxState state \<longleftrightarrow> state = outboxStatePending \<or> state = outboxStateRetryWait"

definition outboxDueIndexTime :: "outboxRecord \<Rightarrow> string" where
  "outboxDueIndexTime r =
     (if \<not> isQueuedOutboxState (ob_State r) then []
      else if parseRFC3339 (ob_NotBefore r) \<noteq> None then ob_NotBefore r
      else outboxDueZeroTime)"

definition outboxIndexKeys :: "outboxRecord \<Rightarrow> string list" where
  "outboxIndexKeys r =
     (if ob_Path r \<noteq> [] then [outboxByPathStorageKey (ob_Path r) (ob_ID r)] else []) @
     (if ob_State r \<noteq> [] then [outboxByStateStorageKey (ob_State r) (ob_ID r)] else []) @
     (if outboxDueIndexTime r \<noteq> []
      then [outboxByDueStorageKey (outboxDueIndexTime r) (ob_ID r)] else [])"

definition normalizeOutboxDefaults :: "outboxRecord \<Rightarrow> outboxRecord" where
  "normalizeOutboxDefaults r =
     (if ob_Trigger r = [] then r \<lparr> ob_Trigger := outboxTriggerUser \<rparr> else r)"

definition outboxTrigger :: "outboxRecord \<Rightarrow> string" where
  "outboxTrigger r = (if ob_Trigger r = [] then outboxTriggerUser else ob_Trigger r)"

definition isOutboxClaimActive :: "outboxRecord \<Rightarrow> time \<Rightarrow> bool" where
  "isOutboxClaimActive r now =
     (if ob_ClaimOwner r = [] \<or> ob_ClaimExpiresTime r = [] then False
      else case parseRFC3339 (ob_ClaimExpiresTime r) of
             None \<Rightarrow> False
           | Some expires \<Rightarrow> now < expires)"

section \<open>Reading and writing one record\<close>

definition getOutbox :: "'w world \<Rightarrow> string \<Rightarrow> ('w, outboxRecord option) io" where
  "getOutbox W i =
     bindM (getDecoded W (outboxStorageKey i) decodeOutbox) (\<lambda>r.
       retM (map_option normalizeOutboxDefaults r))"

definition putOutboxIndexes :: "'w world \<Rightarrow> outboxRecord \<Rightarrow> ('w, unit) io" where
  "putOutboxIndexes W r =
     eachM (outboxIndexKeys r) (\<lambda>key. w_Put W key (EString (ob_ID r)))"

definition deleteStaleOutboxIndexes :: "'w world \<Rightarrow> outboxRecord \<Rightarrow> outboxRecord \<Rightarrow> ('w, unit) io" where
  "deleteStaleOutboxIndexes W existing updated =
     eachM (outboxIndexKeys existing) (\<lambda>key.
       if key \<in> set (outboxIndexKeys updated) then retM () else w_Delete W key)"

definition putOutbox :: "'w world \<Rightarrow> outboxRecord \<Rightarrow> ('w, unit) io" where
  "putOutbox W r =
     bindM (getOutbox W (ob_ID r)) (\<lambda>existing.
     bindM (putOutboxIndexes W r) (\<lambda>_.
     bindM (w_Put W (outboxStorageKey (ob_ID r)) (EOutbox r)) (\<lambda>_.
       case existing of
         Some e \<Rightarrow> deleteStaleOutboxIndexes W e r
       | None \<Rightarrow> retM ())))"

definition deleteOutboxIndexes :: "'w world \<Rightarrow> outboxRecord \<Rightarrow> ('w, unit) io" where
  "deleteOutboxIndexes W r = eachM (outboxIndexKeys r) (w_Delete W)"

definition deleteOutbox :: "'w world \<Rightarrow> outboxRecord \<Rightarrow> ('w, unit) io" where
  "deleteOutbox W r =
     bindM (getOutbox W (ob_ID r)) (\<lambda>existing.
     bindM (w_Delete W (outboxStorageKey (ob_ID r))) (\<lambda>_.
     bindM (deleteOutboxIndexes W r) (\<lambda>_.
       case existing of
         Some e \<Rightarrow> deleteOutboxIndexes W e
       | None \<Rightarrow> retM ())))"

section \<open>Listing\<close>

definition filterOutboxIDs ::
    "'w world \<Rightarrow> string list \<Rightarrow> (outboxRecord \<Rightarrow> bool) \<Rightarrow> ('w, string list) io" where
  "filterOutboxIDs W ids matches =
     foldM (\<lambda>filtered i.
       bindM (getOutbox W i) (\<lambda>r.
         case r of
           None \<Rightarrow> retM filtered
         | Some rec \<Rightarrow> retM (if matches rec then filtered @ [i] else filtered))) [] ids"

definition listOutboxIDsForState :: "'w world \<Rightarrow> string \<Rightarrow> ('w, string list) io" where
  "listOutboxIDsForState W state =
     bindM (w_List W (outboxByStateStoragePrefix @ state @ ''/'')) (\<lambda>ids.
       filterOutboxIDs W ids (\<lambda>r. ob_State r = state))"

definition listOutboxIDsForStates :: "'w world \<Rightarrow> string list \<Rightarrow> ('w, string list) io" where
  "listOutboxIDsForStates W states =
     foldM (\<lambda>ids state.
       bindM (listOutboxIDsForState W state) (\<lambda>stateIDs. retM (ids @ stateIDs))) [] states"

definition listQueuedOutboxIDs :: "'w world \<Rightarrow> ('w, string list) io" where
  "listQueuedOutboxIDs W = listOutboxIDsForStates W [outboxStatePending, outboxStateRetryWait]"

text \<open>\<open>now.Format(timeFormatRFC3339)\<close> of a UTC instant is \<open>formatRFC3339\<close>.\<close>

definition listDueOutboxIDs :: "'w world \<Rightarrow> time \<Rightarrow> ('w, string list) io" where
  "listDueOutboxIDs W now =
     bindM (w_Collect W outboxByDueStoragePrefix) (\<lambda>keys.
       loopM (\<lambda>ids key.
         case cutAt slash (trimPrefix key outboxByDueStoragePrefix) of
           None \<Rightarrow> retM (Continue ids)
         | Some (dueTime, i) \<Rightarrow>
             if i = [] then retM (Continue ids)
             else if formatRFC3339 now < dueTime then retM (Break ids)
             else bindM (getOutbox W i) (\<lambda>r.
               case r of
                 None \<Rightarrow> retM (Continue ids)
               | Some rec \<Rightarrow>
                   retM (Continue (if outboxDueIndexTime rec \<noteq> dueTime then ids else ids @ [i]))))
         [] (sort keys))"

definition nextFutureOutboxDueTime :: "'w world \<Rightarrow> time \<Rightarrow> ('w, time option) io" where
  "nextFutureOutboxDueTime W now =
     bindM (w_Collect W outboxByDueStoragePrefix) (\<lambda>keys.
       loopM (\<lambda>next key.
         case cutAt slash (trimPrefix key outboxByDueStoragePrefix) of
           None \<Rightarrow> retM (Continue next)
         | Some (dueTime, i) \<Rightarrow>
             if i = [] \<or> dueTime \<le> formatRFC3339 now then retM (Continue next)
             else bindM (getOutbox W i) (\<lambda>r.
               case r of
                 None \<Rightarrow> retM (Continue next)
               | Some rec \<Rightarrow>
                   if outboxDueIndexTime rec \<noteq> dueTime then retM (Continue next)
                   else (case parseRFC3339 dueTime of
                           None \<Rightarrow> retM (Continue next)
                         | Some t \<Rightarrow> retM (Break (Some t)))))
         None (sort keys))"

definition listOutboxIDsForPath :: "'w world \<Rightarrow> string \<Rightarrow> ('w, string list) io" where
  "listOutboxIDsForPath W path =
     bindM (w_List W (outboxByPathStoragePrefix @ path @ ''/'')) (\<lambda>ids.
       filterOutboxIDs W ids (\<lambda>r. ob_Path r = path))"

definition filterQueuedOutboxIDs :: "'w world \<Rightarrow> string list \<Rightarrow> ('w, string list) io" where
  "filterQueuedOutboxIDs W ids =
     foldM (\<lambda>queued i.
       bindM (getOutbox W i) (\<lambda>r.
         case r of
           None \<Rightarrow> retM queued
         | Some rec \<Rightarrow> retM (if isQueuedOutboxState (ob_State rec) then queued @ [i] else queued))) [] ids"

definition listQueuedOutboxIDsForPath :: "'w world \<Rightarrow> string \<Rightarrow> ('w, string list) io" where
  "listQueuedOutboxIDsForPath W path =
     bindM (listOutboxIDsForPath W path) (\<lambda>ids. filterQueuedOutboxIDs W ids)"

section \<open>Bulk operations\<close>

definition deleteOutboxForAssociation :: "'w world \<Rightarrow> associationRecord \<Rightarrow> ('w, unit) io" where
  "deleteOutboxForAssociation W a =
     bindM (listOutboxIDsForPath W (as_Path a)) (\<lambda>ids.
       eachM ids (\<lambda>i.
         bindM (getOutbox W i) (\<lambda>r.
           case r of
             None \<Rightarrow> retM ()
           | Some rec \<Rightarrow>
               if ob_AssociationID rec \<noteq> as_ID a then retM ()
               else bindM (nowUTC W) (\<lambda>now.
                 if isOutboxClaimActive rec now
                 then failM (ErrQueuedOperationClaimed (ob_ID rec))
                 else deleteOutbox W rec))))"

definition cancelQueuedOutboxForAssociation :: "'w world \<Rightarrow> associationRecord \<Rightarrow> ('w, string list) io" where
  "cancelQueuedOutboxForAssociation W a =
     bindM (listQueuedOutboxIDsForPath W (as_Path a)) (\<lambda>ids.
       foldM (\<lambda>canceledIDs i.
         bindM (getOutbox W i) (\<lambda>r.
           case r of
             None \<Rightarrow> retM canceledIDs
           | Some rec \<Rightarrow>
               if ob_AssociationID rec \<noteq> as_ID a then retM canceledIDs
               else bindM (nowUTC W) (\<lambda>now.
                 if isOutboxClaimActive rec now
                 then failM (ErrQueuedOperationClaimed (ob_ID rec))
                 else bindM (deleteOutbox W rec) (\<lambda>_. retM (canceledIDs @ [ob_ID rec])))))
         [] ids)"

definition queuedUpsertIDsForPathVersion :: "'w world \<Rightarrow> string \<Rightarrow> int \<Rightarrow> ('w, string list) io" where
  "queuedUpsertIDsForPathVersion W path version =
     bindM (listQueuedOutboxIDsForPath W path) (\<lambda>ids.
       foldM (\<lambda>matchingIDs i.
         bindM (getOutbox W i) (\<lambda>r.
           case r of
             None \<Rightarrow> retM matchingIDs
           | Some rec \<Rightarrow>
               if ob_Version rec \<noteq> version \<or> ob_Type rec \<noteq> OperationTypeUpsert then retM matchingIDs
               else retM (matchingIDs @ [ob_ID rec])))
         [] ids)"

definition hasQueuedUpsertForAssociationObject ::
    "'w world \<Rightarrow> string \<Rightarrow> string \<Rightarrow> string \<Rightarrow> int \<Rightarrow> ('w, bool) io" where
  "hasQueuedUpsertForAssociationObject W path associationID objectID minVersion =
     bindM (listQueuedOutboxIDsForPath W path) (\<lambda>ids.
       loopM (\<lambda>found i.
         bindM (getOutbox W i) (\<lambda>r.
           case r of
             None \<Rightarrow> retM (Continue found)
           | Some rec \<Rightarrow>
               if ob_Type rec \<noteq> OperationTypeUpsert \<or> ob_AssociationID rec \<noteq> associationID \<or>
                  ob_ObjectID rec \<noteq> objectID
               then retM (Continue found)
               else if minVersion \<le> ob_Version rec then retM (Break True)
               else retM (Continue found)))
         False ids)"

definition hasQueuedUpsertForAssociationVersion ::
    "'w world \<Rightarrow> string \<Rightarrow> string \<Rightarrow> int \<Rightarrow> ('w, bool) io" where
  "hasQueuedUpsertForAssociationVersion W path associationID minVersion =
     bindM (listQueuedOutboxIDsForPath W path) (\<lambda>ids.
       loopM (\<lambda>found i.
         bindM (getOutbox W i) (\<lambda>r.
           case r of
             None \<Rightarrow> retM (Continue found)
           | Some rec \<Rightarrow>
               if ob_Type rec \<noteq> OperationTypeUpsert \<or> ob_AssociationID rec \<noteq> associationID
               then retM (Continue found)
               else if minVersion \<le> ob_Version rec then retM (Break True)
               else retM (Continue found)))
         False ids)"

definition cancelQueuedOutboxIDs :: "'w world \<Rightarrow> string list \<Rightarrow> ('w, unit) io" where
  "cancelQueuedOutboxIDs W ids =
     eachM ids (\<lambda>i.
       bindM (getOutbox W i) (\<lambda>r.
         case r of
           None \<Rightarrow> retM ()
         | Some rec \<Rightarrow>
             if \<not> isQueuedOutboxState (ob_State rec) then retM ()
             else bindM (nowUTC W) (\<lambda>now.
               if isOutboxClaimActive rec now
               then failM (ErrQueuedOperationClaimed (ob_ID rec))
               else deleteOutbox W rec)))"

definition ensureQueuedOutboxIDsUnclaimed :: "'w world \<Rightarrow> string list \<Rightarrow> ('w, unit) io" where
  "ensureQueuedOutboxIDsUnclaimed W ids =
     eachM ids (\<lambda>i.
       bindM (getOutbox W i) (\<lambda>r.
         case r of
           None \<Rightarrow> retM ()
         | Some rec \<Rightarrow>
             if \<not> isQueuedOutboxState (ob_State rec) then retM ()
             else bindM (nowUTC W) (\<lambda>now.
               if isOutboxClaimActive rec now
               then failM (ErrQueuedOperationClaimed (ob_ID rec))
               else retM ())))"

section \<open>Retention of terminal records\<close>

text \<open>Constants of \<open>path_queue.go\<close>; \<open>zeroTime\<close> is \<open>time.Time{}\<close>, the first instant of year 1.\<close>

definition defaultTerminalOutboxPruneLimit :: int where "defaultTerminalOutboxPruneLimit = 100"
definition defaultTerminalOutboxExcessLimit :: int where "defaultTerminalOutboxExcessLimit = 100"
definition maxRetainedTerminalOutboxRecords :: int where "maxRetainedTerminalOutboxRecords = 1000"
definition terminalOutboxRetention :: duration where "terminalOutboxRetention = 7 * 24 * hour"

definition zeroTime :: time where "zeroTime = - unixToAbsDays * 86400 * second"

definition terminalOutboxRetentionTime :: "outboxRecord \<Rightarrow> time" where
  "terminalOutboxRetentionTime r =
     (case parseRFC3339 (ob_UpdatedTime r) of
        Some t \<Rightarrow> t
      | None \<Rightarrow> (case parseRFC3339 (ob_CreatedTime r) of Some t \<Rightarrow> t | None \<Rightarrow> zeroTime))"

definition shouldPruneTerminalOutboxRecord ::
    "int \<Rightarrow> int \<Rightarrow> bool \<Rightarrow> int \<Rightarrow> int \<Rightarrow> int \<Rightarrow> int \<Rightarrow> bool" where
  "shouldPruneTerminalOutboxRecord index excess expired expiredSelected expiredLimit
       excessSelected excessLimit =
     (if index < excess then excessLimit \<le> 0 \<or> excessSelected < excessLimit
      else if \<not> expired then False
      else expiredLimit \<le> 0 \<or> expiredSelected < expiredLimit)"

text \<open>The selection loop: \<open>(candidates, expiredSelected, excessSelected)\<close> over \<open>(index, record)\<close>.\<close>

definition selectPruneCandidate ::
    "int \<Rightarrow> time \<Rightarrow> int \<Rightarrow> int \<Rightarrow> outboxRecord list \<times> int \<times> int \<Rightarrow> int \<times> outboxRecord \<Rightarrow>
     outboxRecord list \<times> int \<times> int" where
  "selectPruneCandidate excess cutoff expiredLimit excessLimit st ir =
     (case st of (candidates, expiredSelected, excessSelected) \<Rightarrow>
      case ir of (index, r) \<Rightarrow>
        let retentionTime = terminalOutboxRetentionTime r;
            expired = (retentionTime \<noteq> zeroTime \<and> \<not> cutoff < retentionTime)
        in if \<not> shouldPruneTerminalOutboxRecord index excess expired expiredSelected expiredLimit
                   excessSelected excessLimit
           then (candidates, expiredSelected, excessSelected)
           else if index < excess then (candidates @ [r], expiredSelected, excessSelected + 1)
           else if expired then (candidates @ [r], expiredSelected + 1, excessSelected)
           else (candidates @ [r], expiredSelected, excessSelected))"

definition terminalOutboxPruneCandidates ::
    "outboxRecord list \<Rightarrow> time \<Rightarrow> int \<Rightarrow> int \<Rightarrow> int \<Rightarrow> outboxRecord list" where
  "terminalOutboxPruneCandidates records now maxRecords expiredLimit excessLimit =
     (let sorted_records = sort_key (\<lambda>r. (terminalOutboxRetentionTime r, ob_ID r)) records;
          excess = max (int (length records) - maxRecords) 0;
          cutoff = now - terminalOutboxRetention
      in fst (foldl (selectPruneCandidate excess cutoff expiredLimit excessLimit) ([], 0, 0)
           (zip (map int [0..<length sorted_records]) sorted_records)))"

definition terminalOutboxRecords :: "'w world \<Rightarrow> ('w, outboxRecord list) io" where
  "terminalOutboxRecords W =
     bindM (w_List W (outboxByStateStoragePrefix @ outboxStateFailedTerminal @ ''/'')) (\<lambda>ids.
       foldM (\<lambda>records i.
         bindM (getOutbox W i) (\<lambda>r.
           case r of
             None \<Rightarrow> retM records
           | Some rec \<Rightarrow>
               retM (if ob_State rec = outboxStateFailedTerminal then records @ [rec] else records)))
         [] ids)"

definition pruneTerminalOutboxRecord :: "'w world \<Rightarrow> outboxRecord \<Rightarrow> ('w, bool) io" where
  "pruneTerminalOutboxRecord W expected =
     withTransaction W
       (bindM (getOutbox W (ob_ID expected)) (\<lambda>current.
          case current of
            None \<Rightarrow> retM False
          | Some c \<Rightarrow>
              if c \<noteq> expected \<or> ob_State c \<noteq> outboxStateFailedTerminal then retM False
              else bindM (nowUTC W) (\<lambda>now.
                if isOutboxClaimActive c now then retM False
                else bindM (deleteOutbox W c) (\<lambda>_. retM True))))"

definition pruneTerminalOutboxRecordsLimit ::
    "'w world \<Rightarrow> time \<Rightarrow> int \<Rightarrow> int \<Rightarrow> int \<Rightarrow> ('w, int) io" where
  "pruneTerminalOutboxRecordsLimit W now maxRecords expiredLimit excessLimit =
     bindM (terminalOutboxRecords W) (\<lambda>records.
       foldM (\<lambda>deleted r.
         bindM (w_CtxErr W) (\<lambda>_.
         bindM (pruneTerminalOutboxRecord W r) (\<lambda>pruned.
           retM (if pruned then deleted + 1 else deleted))))
         0 (terminalOutboxPruneCandidates records now maxRecords expiredLimit excessLimit))"

definition pruneTerminalOutboxRecords :: "'w world \<Rightarrow> time \<Rightarrow> ('w, unit) io" where
  "pruneTerminalOutboxRecords W now =
     bindM (pruneTerminalOutboxRecordsLimit W now maxRetainedTerminalOutboxRecords
              defaultTerminalOutboxPruneLimit defaultTerminalOutboxExcessLimit) (\<lambda>_. retM ())"

end
