(* ===== verification/Outbox_Store.thy ===== *)
theory Outbox_Store
  imports Storage_Outbox Mem_World
begin

text \<open>
  The queue as an abstract map from ids to records, and the laws of \<open>getOutbox\<close>, \<open>putOutbox\<close> and
  \<open>deleteOutbox\<close> over it. The locale \<open>queue_store\<close> is the interface that every other component
  uses; it is interpreted on the storage functions for every world that satisfies the storage
  laws. \<open>outbox_inv\<close> is the invariant of the stored keys.
\<close>

section \<open>Keys\<close>

definition isOutboxKey :: "string \<Rightarrow> bool" where
  "isOutboxKey k \<longleftrightarrow> prefix ''outbox'' k"

lemma isOutboxKey_simps [simp]:
  "isOutboxKey (outboxStorageKey i)" "isOutboxKey (outboxByPathStorageKey p i)"
  "isOutboxKey (outboxByStateStorageKey s i)" "isOutboxKey (outboxByDueStorageKey d i)"
  "\<not> isOutboxKey (metadataStorageKey p)" "\<not> isOutboxKey (versionStorageKey p v)"
  "\<not> isOutboxKey (enqueueIntentStorageKey p v)" "\<not> isOutboxKey (destinationStorageKey t n)"
  "\<not> isOutboxKey (destinationSensitiveStorageKey t n)"
  "\<not> isOutboxKey (destinationSensitiveVersionStorageKey t n sv)"
  "\<not> isOutboxKey (associationStorageKey p i)" "\<not> isOutboxKey (associationByDestinationStorageKey t n i)"
  "\<not> isOutboxKey (associationNameStorageKey sha d n i)" "\<not> isOutboxKey (statusStorageKey p a ob)"
  "\<not> isOutboxKey configPath" "\<not> isOutboxKey storageSchemaKey" "\<not> isOutboxKey restoreEpochKey"
  by (simp_all add: isOutboxKey_def outboxStorageKey_def outboxByPathStorageKey_def
      outboxByStateStorageKey_def outboxByDueStorageKey_def metadataStorageKey_def
      versionStorageKey_def enqueueIntentStorageKey_def destinationStorageKey_def
      destinationSensitiveStorageKey_def destinationSensitiveVersionStorageKey_def
      destinationSensitiveVersionStoragePrefix_def associationStorageKey_def
      associationByDestinationStorageKey_def associationNameStorageKey_def statusStorageKey_def
      prefix_defs)

lemma outbox_key_disjoint [simp]:
  "outboxStorageKey i \<noteq> outboxByPathStorageKey p j" "outboxByPathStorageKey p j \<noteq> outboxStorageKey i"
  "outboxStorageKey i \<noteq> outboxByStateStorageKey p j" "outboxByStateStorageKey p j \<noteq> outboxStorageKey i"
  "outboxStorageKey i \<noteq> outboxByDueStorageKey p j" "outboxByDueStorageKey p j \<noteq> outboxStorageKey i"
  "outboxByPathStorageKey p i \<noteq> outboxByStateStorageKey q j"
  "outboxByStateStorageKey q j \<noteq> outboxByPathStorageKey p i"
  "outboxByPathStorageKey p i \<noteq> outboxByDueStorageKey q j"
  "outboxByDueStorageKey q j \<noteq> outboxByPathStorageKey p i"
  "outboxByStateStorageKey p i \<noteq> outboxByDueStorageKey q j"
  "outboxByDueStorageKey q j \<noteq> outboxByStateStorageKey p i"
  by (simp_all add: outboxStorageKey_def outboxByPathStorageKey_def outboxByStateStorageKey_def
      outboxByDueStorageKey_def prefix_defs)

lemma outboxStorageKey_inj [simp]: "outboxStorageKey i = outboxStorageKey j \<longleftrightarrow> i = j"
  by (simp add: outboxStorageKey_def)

lemma due_prefix_iff [simp]:
  "\<not> prefix outboxByDueStoragePrefix (outboxStorageKey i)"
  "\<not> prefix outboxByDueStoragePrefix (outboxByPathStorageKey p i)"
  "\<not> prefix outboxByDueStoragePrefix (outboxByStateStorageKey p i)"
  "prefix outboxByDueStoragePrefix (outboxByDueStorageKey d i)"
  by (simp_all add: outboxStorageKey_def outboxByPathStorageKey_def outboxByStateStorageKey_def
      outboxByDueStorageKey_def prefix_defs)

lemma outbox_prefix_iff: "prefix outboxStoragePrefix k \<longleftrightarrow> (\<exists>i. k = outboxStorageKey i)"
  by (auto simp: prefix_def outboxStorageKey_def)

text \<open>Ids are single path segments, so the last segment of an index key is the id.\<close>

definition validID :: "string \<Rightarrow> bool" where
  "validID i \<longleftrightarrow> i \<noteq> [] \<and> slash \<notin> set i"

lemma index_key_inj:
  assumes "validID i" "validID j"
  shows "outboxByPathStorageKey p i = outboxByPathStorageKey q j \<longleftrightarrow> p = q \<and> i = j"
    and "outboxByStateStorageKey p i = outboxByStateStorageKey q j \<longleftrightarrow> p = q \<and> i = j"
    and "outboxByDueStorageKey p i = outboxByDueStorageKey q j \<longleftrightarrow> p = q \<and> i = j"
  using assms append_sep_inj [of slash i j p q]
  by (auto simp: validID_def outboxByPathStorageKey_def outboxByStateStorageKey_def
      outboxByDueStorageKey_def)

lemma parse_zero_time: "parseRFC3339 outboxDueZeroTime \<noteq> None"
  by code_simp

lemma due_time_parses: "outboxDueIndexTime r \<noteq> [] \<Longrightarrow> parseRFC3339 (outboxDueIndexTime r) \<noteq> None"
  using parse_zero_time by (auto simp: outboxDueIndexTime_def split: if_splits)

lemma parse_empty [simp]: "parseRFC3339 [] = None"
  by code_simp

lemma due_time_queued: "outboxDueIndexTime r \<noteq> [] \<longleftrightarrow> isQueuedOutboxState (ob_State r)"
  by (auto simp: outboxDueIndexTime_def outboxDueZeroTime_def)

lemma index_keys_iff:
  "k \<in> set (outboxIndexKeys r) \<longleftrightarrow>
     ob_Path r \<noteq> [] \<and> k = outboxByPathStorageKey (ob_Path r) (ob_ID r) \<or>
     ob_State r \<noteq> [] \<and> k = outboxByStateStorageKey (ob_State r) (ob_ID r) \<or>
     outboxDueIndexTime r \<noteq> [] \<and> k = outboxByDueStorageKey (outboxDueIndexTime r) (ob_ID r)"
  by (auto simp: outboxIndexKeys_def)

lemma index_keys_other:
  assumes "k \<in> set (outboxIndexKeys r)" and "k \<in> set (outboxIndexKeys s)"
    and "validID (ob_ID r)" and "validID (ob_ID s)"
  shows "ob_ID r = ob_ID s"
  using assms(1,2) unfolding index_keys_iff
  by (elim disjE conjE) (simp_all add: index_key_inj [OF assms(3,4)])

lemma index_keys_outbox [simp]:
  assumes "k \<in> set (outboxIndexKeys r)"
  shows "isOutboxKey k" and "k \<noteq> outboxStorageKey i" and "outboxStorageKey i \<noteq> k"
  using assms by (auto simp: index_keys_iff)

lemma normalize_simps [simp]:
  "ob_ID (normalizeOutboxDefaults r) = ob_ID r" "ob_State (normalizeOutboxDefaults r) = ob_State r"
  "ob_Path (normalizeOutboxDefaults r) = ob_Path r"
  "outboxDueIndexTime (normalizeOutboxDefaults r) = outboxDueIndexTime r"
  "outboxIndexKeys (normalizeOutboxDefaults r) = outboxIndexKeys r"
  "normalizeOutboxDefaults (normalizeOutboxDefaults r) = normalizeOutboxDefaults r"
  by (auto simp: normalizeOutboxDefaults_def outboxIndexKeys_def outboxDueIndexTime_def
      outboxTriggerUser_def)

section \<open>The queue and its invariant\<close>

definition queueOf :: "(string \<Rightarrow> entry option) \<Rightarrow> string \<Rightarrow> outboxRecord option" where
  "queueOf c i = (case c (outboxStorageKey i) of
      Some (EOutbox r) \<Rightarrow> Some (normalizeOutboxDefaults r)
    | _ \<Rightarrow> None)"

definition dueKeyWF :: "string \<Rightarrow> bool" where
  "dueKeyWF k \<longleftrightarrow> (\<exists>d i. k = outboxByDueStorageKey d i \<and> parseRFC3339 d \<noteq> None \<and> validID i)"

definition outbox_inv :: "(string \<Rightarrow> entry option) \<Rightarrow> bool" where
  "outbox_inv c \<longleftrightarrow>
     (\<forall>i e. c (outboxStorageKey i) = Some e \<longrightarrow>
        (\<exists>r. e = EOutbox r \<and> ob_ID r = i \<and> validID i \<and> (\<forall>k \<in> set (outboxIndexKeys r). c k \<noteq> None))) \<and>
     (\<forall>k. c k \<noteq> None \<and> prefix outboxByDueStoragePrefix k \<longrightarrow> dueKeyWF k)"

lemma outbox_inv_empty: "outbox_inv (\<lambda>_. None)"
  by (simp add: outbox_inv_def)

lemma outbox_inv_entry:
  assumes "outbox_inv c" and "c (outboxStorageKey i) = Some e"
  obtains r where "e = EOutbox r" "ob_ID r = i" "validID i" "\<forall>k \<in> set (outboxIndexKeys r). c k \<noteq> None"
  using assms unfolding outbox_inv_def by blast

lemma outbox_inv_due: "outbox_inv c \<Longrightarrow> c k \<noteq> None \<Longrightarrow> prefix outboxByDueStoragePrefix k \<Longrightarrow> dueKeyWF k"
  unfolding outbox_inv_def by blast

lemma queueOf_Some:
  assumes "outbox_inv c"
  shows "queueOf c i = Some r \<longleftrightarrow>
    (\<exists>r0. c (outboxStorageKey i) = Some (EOutbox r0) \<and> r = normalizeOutboxDefaults r0 \<and>
       ob_ID r0 = i \<and> validID i)"
  using assms by (auto simp: queueOf_def split: option.splits entry.splits elim: outbox_inv_entry)

lemma queueOf_None:
  "outbox_inv c \<Longrightarrow> queueOf c i = None \<longleftrightarrow> c (outboxStorageKey i) = None"
  by (auto simp: queueOf_def split: option.splits entry.splits elim: outbox_inv_entry)

lemma queue_record:
  assumes "outbox_inv c" and "queueOf c i = Some r"
  shows "ob_ID r = i" and "validID i" and "\<And>k. k \<in> set (outboxIndexKeys r) \<Longrightarrow> c k \<noteq> None"
    and "normalizeOutboxDefaults r = r" and "ob_Trigger r \<noteq> []"
proof -
  obtain r0 where r0: "c (outboxStorageKey i) = Some (EOutbox r0)" "r = normalizeOutboxDefaults r0"
    "ob_ID r0 = i" "validID i"
    using assms by (auto simp: queueOf_Some)
  then show "ob_ID r = i" "validID i" "normalizeOutboxDefaults r = r" by simp_all
  show "ob_Trigger r \<noteq> []" by (simp add: r0(2) normalizeOutboxDefaults_def outboxTriggerUser_def)
  show "c k \<noteq> None" if "k \<in> set (outboxIndexKeys r)" for k
    using outbox_inv_entry [OF assms(1) r0(1)] that r0(2) by auto
qed

lemma queueOf_cong: "(\<And>i. c (outboxStorageKey i) = d (outboxStorageKey i)) \<Longrightarrow> queueOf c = queueOf d"
  by (simp add: queueOf_def fun_eq_iff)

text \<open>The three elementary writes: an index entry, a record whose indexes exist, a stale index.\<close>

lemma inv_put_index:
  assumes inv: "outbox_inv c" and k: "k \<in> set (outboxIndexKeys r)" and wf: "validID (ob_ID r)"
  shows "outbox_inv (c(k \<mapsto> e))" and "queueOf (c(k \<mapsto> e)) = queueOf c"
proof -
  have "dueKeyWF k" if "prefix outboxByDueStoragePrefix k"
    using k that wf due_time_parses [of r]
    by (auto simp: index_keys_iff dueKeyWF_def)
  then show "outbox_inv (c(k \<mapsto> e))"
    using inv k unfolding outbox_inv_def by (auto simp: index_keys_outbox) blast+
  show "queueOf (c(k \<mapsto> e)) = queueOf c"
    using k by (intro queueOf_cong) (simp add: index_keys_outbox)
qed

lemma inv_put_record:
  assumes inv: "outbox_inv c" and wf: "validID (ob_ID r)"
    and keys: "\<forall>k \<in> set (outboxIndexKeys r). c k \<noteq> None"
  shows "outbox_inv (c(outboxStorageKey (ob_ID r) \<mapsto> EOutbox r))"
    and "queueOf (c(outboxStorageKey (ob_ID r) \<mapsto> EOutbox r)) =
      (queueOf c)(ob_ID r \<mapsto> normalizeOutboxDefaults r)"
  using assms by (auto simp: outbox_inv_def queueOf_def fun_eq_iff)

lemma inv_delete_record:
  assumes inv: "outbox_inv c"
  shows "outbox_inv (c(outboxStorageKey i := None))"
    and "queueOf (c(outboxStorageKey i := None)) = (queueOf c)(i := None)"
  using assms by (auto simp: outbox_inv_def queueOf_def fun_eq_iff index_keys_outbox)

lemma inv_delete_index:
  assumes inv: "outbox_inv c" and k: "k \<in> set (outboxIndexKeys e)" and wf: "validID (ob_ID e)"
    and unused: "\<And>r. queueOf c (ob_ID e) = Some r \<Longrightarrow> k \<notin> set (outboxIndexKeys r)"
  shows "outbox_inv (c(k := None))" and "queueOf (c(k := None)) = queueOf c"
proof -
  have "k \<notin> set (outboxIndexKeys r)" if r: "c (outboxStorageKey i) = Some (EOutbox r)" for i r
  proof
    assume kr: "k \<in> set (outboxIndexKeys r)"
    have "ob_ID r = i" "validID i" using outbox_inv_entry [OF inv r] by auto
    then have "i = ob_ID e" using index_keys_other [OF kr k] wf by simp
    then have "queueOf c (ob_ID e) = Some (normalizeOutboxDefaults r)" using r by (simp add: queueOf_def)
    from unused [OF this] kr show False by simp
  qed
  then show "outbox_inv (c(k := None))"
    using inv k unfolding outbox_inv_def by (auto simp: index_keys_outbox) metis
  show "queueOf (c(k := None)) = queueOf c"
    using k by (intro queueOf_cong) (simp add: index_keys_outbox)
qed

section \<open>The interface\<close>

definition same_other :: "(string \<Rightarrow> entry option) \<Rightarrow> (string \<Rightarrow> entry option) \<Rightarrow> bool" where
  "same_other c d \<longleftrightarrow> (\<forall>k. \<not> isOutboxKey k \<longrightarrow> d k = c k)"

lemma same_other_refl [simp]: "same_other c c"
  by (simp add: same_other_def)

lemma same_other_trans: "same_other c d \<Longrightarrow> same_other d e \<Longrightarrow> same_other c e"
  by (simp add: same_other_def)

lemma same_other_upd [simp]: "isOutboxKey k \<Longrightarrow> same_other c (c(k := v))"
  by (simp add: same_other_def)

lemma same_other_updI: "same_other c d \<Longrightarrow> isOutboxKey k \<Longrightarrow> same_other c (d(k := v))"
  by (simp add: same_other_def)

lemma same_otherD: "same_other c d \<Longrightarrow> \<not> isOutboxKey k \<Longrightarrow> d k = c k"
  by (simp add: same_other_def)

text \<open>
  What the rest of the plugin relies on. A failed \<open>put\<close> or \<open>del\<close> leaves the queue as it was or as
  it should have become, nothing in between; no call touches the keys of other components.
\<close>

locale queue_store =
  fixes contents :: "'w \<Rightarrow> string \<Rightarrow> entry option"
    and get :: "string \<Rightarrow> ('w, outboxRecord option) io"
    and put :: "outboxRecord \<Rightarrow> ('w, unit) io"
    and del :: "outboxRecord \<Rightarrow> ('w, unit) io"
  assumes get_law: "outbox_inv (contents w) \<Longrightarrow>
      wp (get i) (\<lambda>r w'. r = queueOf (contents w) i \<and> contents w' = contents w)
        (\<lambda>_ w'. contents w' = contents w) w"
    and put_law: "outbox_inv (contents w) \<Longrightarrow> validID (ob_ID r) \<Longrightarrow>
      wp (put r)
        (\<lambda>_ w'. outbox_inv (contents w') \<and> same_other (contents w) (contents w') \<and>
           queueOf (contents w') = (queueOf (contents w))(ob_ID r \<mapsto> normalizeOutboxDefaults r))
        (\<lambda>_ w'. outbox_inv (contents w') \<and> same_other (contents w) (contents w') \<and>
           (queueOf (contents w') = queueOf (contents w) \<or>
            queueOf (contents w') = (queueOf (contents w))(ob_ID r \<mapsto> normalizeOutboxDefaults r))) w"
    and del_law: "outbox_inv (contents w) \<Longrightarrow> validID (ob_ID r) \<Longrightarrow>
      wp (del r)
        (\<lambda>_ w'. outbox_inv (contents w') \<and> same_other (contents w) (contents w') \<and>
           queueOf (contents w') = (queueOf (contents w))(ob_ID r := None))
        (\<lambda>_ w'. outbox_inv (contents w') \<and> same_other (contents w) (contents w') \<and>
           (queueOf (contents w') = queueOf (contents w) \<or>
            queueOf (contents w') = (queueOf (contents w))(ob_ID r := None))) w"
begin

lemma wp_get [wp_intros]:
  assumes "outbox_inv (contents w)"
    and "\<And>w'. contents w' = contents w \<Longrightarrow> Q (queueOf (contents w) i) w'"
    and "\<And>e w'. contents w' = contents w \<Longrightarrow> E e w'"
  shows "wp (get i) Q E w"
  by (rule wp_mono [OF get_law [OF assms(1)]]) (use assms(2,3) in auto)

lemma wp_put [wp_intros]:
  assumes "outbox_inv (contents w)" and "validID (ob_ID r)"
    and "\<And>w'. outbox_inv (contents w') \<Longrightarrow> same_other (contents w) (contents w') \<Longrightarrow>
      queueOf (contents w') = (queueOf (contents w))(ob_ID r \<mapsto> normalizeOutboxDefaults r) \<Longrightarrow> Q () w'"
    and "\<And>e w'. outbox_inv (contents w') \<Longrightarrow> same_other (contents w) (contents w') \<Longrightarrow>
      queueOf (contents w') = queueOf (contents w) \<or>
      queueOf (contents w') = (queueOf (contents w))(ob_ID r \<mapsto> normalizeOutboxDefaults r) \<Longrightarrow> E e w'"
  shows "wp (put r) Q E w"
  by (rule wp_mono [OF put_law [OF assms(1,2)]]) (use assms(3,4) in auto)

lemma wp_del [wp_intros]:
  assumes "outbox_inv (contents w)" and "validID (ob_ID r)"
    and "\<And>w'. outbox_inv (contents w') \<Longrightarrow> same_other (contents w) (contents w') \<Longrightarrow>
      queueOf (contents w') = (queueOf (contents w))(ob_ID r := None) \<Longrightarrow> Q () w'"
    and "\<And>e w'. outbox_inv (contents w') \<Longrightarrow> same_other (contents w) (contents w') \<Longrightarrow>
      queueOf (contents w') = queueOf (contents w) \<or>
      queueOf (contents w') = (queueOf (contents w))(ob_ID r := None) \<Longrightarrow> E e w'"
  shows "wp (del r) Q E w"
  by (rule wp_mono [OF del_law [OF assms(1,2)]]) (use assms(3,4) in auto)

text \<open>A loop that reads the records of a list of ids and folds the ones that exist.\<close>

lemma wp_read_loop:
  assumes "outbox_inv (contents w)"
    and "\<And>w'. contents w' = contents w \<Longrightarrow>
      Q (foldl (\<lambda>acc i. case queueOf (contents w) i of None \<Rightarrow> acc | Some r \<Rightarrow> g acc i r) acc ids) w'"
    and "\<And>e w'. contents w' = contents w \<Longrightarrow> E e w'"
  shows "wp (foldM (\<lambda>acc i. bindM (get i) (\<lambda>r. case r of None \<Rightarrow> retM acc
      | Some r \<Rightarrow> retM (g acc i r))) acc ids) Q E w"
proof (rule wp_foldM [where I = "\<lambda>b ys w'. contents w' = contents w \<and>
    foldl (\<lambda>acc i. case queueOf (contents w) i of None \<Rightarrow> acc | Some r \<Rightarrow> g acc i r) b ys =
    foldl (\<lambda>acc i. case queueOf (contents w) i of None \<Rightarrow> acc | Some r \<Rightarrow> g acc i r) acc ids"])
  fix b x ys w'
  assume I: "contents w' = contents w \<and>
    foldl (\<lambda>acc i. case queueOf (contents w) i of None \<Rightarrow> acc | Some r \<Rightarrow> g acc i r) b (x # ys) =
    foldl (\<lambda>acc i. case queueOf (contents w) i of None \<Rightarrow> acc | Some r \<Rightarrow> g acc i r) acc ids"
  show "wp (bindM (get x) (\<lambda>r. case r of None \<Rightarrow> retM b | Some r \<Rightarrow> retM (g b x r)))
      (\<lambda>b' w'. contents w' = contents w \<and>
        foldl (\<lambda>acc i. case queueOf (contents w) i of None \<Rightarrow> acc | Some r \<Rightarrow> g acc i r) b' ys =
        foldl (\<lambda>acc i. case queueOf (contents w) i of None \<Rightarrow> acc | Some r \<Rightarrow> g acc i r) acc ids) E w'"
    by (simp, rule wp_get) (use I assms(1,3) in \<open>auto simp: wp_simps split: option.splits\<close>)
qed (use assms in auto)

lemma foldl_filter_ids:
  "foldl (\<lambda>acc i. case q i of None \<Rightarrow> acc | Some r \<Rightarrow> if m r then acc @ [i] else acc) acc ids =
     acc @ filter (\<lambda>i. \<exists>r. q i = Some r \<and> m r) ids"
  by (induction ids arbitrary: acc) (auto split: option.splits)

lemma wp_filter_loop:
  assumes "outbox_inv (contents w)"
    and "\<And>w'. contents w' = contents w \<Longrightarrow>
      Q (filter (\<lambda>i. \<exists>r. queueOf (contents w) i = Some r \<and> m r) ids) w'"
    and "\<And>e w'. contents w' = contents w \<Longrightarrow> E e w'"
  shows "wp (foldM (\<lambda>acc i. bindM (get i) (\<lambda>r. case r of None \<Rightarrow> retM acc
      | Some r \<Rightarrow> retM (if m r then acc @ [i] else acc))) [] ids) Q E w"
  by (rule wp_read_loop [where g = "\<lambda>acc i r. if m r then acc @ [i] else acc"])
    (use assms in \<open>simp_all add: foldl_filter_ids\<close>)

text \<open>Any operation keeps every property of the other components' keys.\<close>

lemma keeps_other:
  assumes "\<And>c d. same_other c d \<Longrightarrow> P c \<Longrightarrow> P d"
  shows "keeps (\<lambda>w. outbox_inv (contents w) \<and> P (contents w)) (get i)
      (\<lambda>r. case r of None \<Rightarrow> True | Some r \<Rightarrow> ob_ID r = i \<and> validID i)"
    and "validID (ob_ID r) \<Longrightarrow> keeps (\<lambda>w. outbox_inv (contents w) \<and> P (contents w)) (put r) (\<lambda>_. True)"
    and "validID (ob_ID r) \<Longrightarrow> keeps (\<lambda>w. outbox_inv (contents w) \<and> P (contents w)) (del r) (\<lambda>_. True)"
  unfolding keeps_def
  by (auto intro!: wp_get wp_put wp_del intro: assms dest: queue_record split: option.splits)

end

section \<open>The storage functions implement the interface\<close>

context bao_storage begin

lemma wp_getOutbox:
  assumes "outbox_inv (contents w)"
    and "\<And>w'. contents w' = contents w \<Longrightarrow> Q (queueOf (contents w) i) w'"
    and "\<And>e w'. contents w' = contents w \<Longrightarrow> E e w'"
  shows "wp (getOutbox W i) Q E w"
  unfolding getOutbox_def
  by (simp, rule wp_getDecoded) (use assms in \<open>auto simp: queueOf_def\<close>)

lemma wp_putOutboxIndexes:
  assumes "outbox_inv (contents w)" and "validID (ob_ID r)"
    and "\<And>w'. outbox_inv (contents w') \<Longrightarrow> queueOf (contents w') = queueOf (contents w) \<Longrightarrow>
      same_other (contents w) (contents w') \<Longrightarrow> \<forall>k \<in> set (outboxIndexKeys r). contents w' k \<noteq> None \<Longrightarrow> Q () w'"
    and "\<And>e w'. outbox_inv (contents w') \<Longrightarrow> queueOf (contents w') = queueOf (contents w) \<Longrightarrow>
      same_other (contents w) (contents w') \<Longrightarrow> E e w'"
  shows "wp (putOutboxIndexes W r) Q E w"
  unfolding putOutboxIndexes_def
proof (rule wp_eachM [where I = "\<lambda>ks w'. outbox_inv (contents w') \<and>
    queueOf (contents w') = queueOf (contents w) \<and> same_other (contents w) (contents w') \<and>
    set ks \<subseteq> set (outboxIndexKeys r) \<and>
    (\<forall>k \<in> set (outboxIndexKeys r) - set ks. contents w' k \<noteq> None)"])
  fix k ks w'
  assume I: "outbox_inv (contents w') \<and> queueOf (contents w') = queueOf (contents w) \<and>
    same_other (contents w) (contents w') \<and> set (k # ks) \<subseteq> set (outboxIndexKeys r) \<and>
    (\<forall>k \<in> set (outboxIndexKeys r) - set (k # ks). contents w' k \<noteq> None)"
  then have k: "k \<in> set (outboxIndexKeys r)" by simp
  show "wp (w_Put W k (EString (ob_ID r)))
      (\<lambda>_ w'. outbox_inv (contents w') \<and> queueOf (contents w') = queueOf (contents w) \<and>
        same_other (contents w) (contents w') \<and> set ks \<subseteq> set (outboxIndexKeys r) \<and>
        (\<forall>k \<in> set (outboxIndexKeys r) - set ks. contents w' k \<noteq> None)) E w'"
    by (rule wp_Put)
      (use I inv_put_index [OF _ k assms(2)] index_keys_outbox(1) [OF k]
       in \<open>auto simp: same_other_updI intro!: assms(4)\<close>)
qed (use assms in auto)

lemma wp_delete_indexes:
  assumes inv: "outbox_inv (contents w)" and wf: "validID (ob_ID e)"
    and unused: "\<And>r k. queueOf (contents w) (ob_ID e) = Some r \<Longrightarrow> k \<in> set (outboxIndexKeys e) \<Longrightarrow>
      \<not> skip k \<Longrightarrow> k \<notin> set (outboxIndexKeys r)"
    and Q: "\<And>w'. outbox_inv (contents w') \<Longrightarrow> queueOf (contents w') = queueOf (contents w) \<Longrightarrow>
      same_other (contents w) (contents w') \<Longrightarrow> Q () w'"
    and E: "\<And>er w'. outbox_inv (contents w') \<Longrightarrow> queueOf (contents w') = queueOf (contents w) \<Longrightarrow>
      same_other (contents w) (contents w') \<Longrightarrow> E er w'"
  shows "wp (eachM (outboxIndexKeys e) (\<lambda>k. if skip k then retM () else w_Delete W k)) Q E w"
proof (rule wp_eachM [where I = "\<lambda>ks w'. outbox_inv (contents w') \<and>
    queueOf (contents w') = queueOf (contents w) \<and> same_other (contents w) (contents w') \<and>
    set ks \<subseteq> set (outboxIndexKeys e)"])
  fix k ks w'
  assume I: "outbox_inv (contents w') \<and> queueOf (contents w') = queueOf (contents w) \<and>
    same_other (contents w) (contents w') \<and> set (k # ks) \<subseteq> set (outboxIndexKeys e)"
  then have k: "k \<in> set (outboxIndexKeys e)" by simp
  have del: "outbox_inv ((contents w')(k := None))" "queueOf ((contents w')(k := None)) = queueOf (contents w)"
    if "\<not> skip k"
    using inv_delete_index [OF _ k wf, of "contents w'"] I unused [OF _ k that] by auto
  show "wp (if skip k then retM () else w_Delete W k)
      (\<lambda>_ w'. outbox_inv (contents w') \<and> queueOf (contents w') = queueOf (contents w) \<and>
        same_other (contents w) (contents w') \<and> set ks \<subseteq> set (outboxIndexKeys e)) E w'"
  proof (cases "skip k")
    case True
    then show ?thesis using I by simp
  next
    case False
    show ?thesis
      using False
      by (simp, intro wp_Delete)
        (use I del [OF False] index_keys_outbox(1) [OF k] in \<open>auto simp: same_other_updI intro!: E\<close>)
  qed
qed (use assms in auto)

lemma wp_deleteOutboxIndexes:
  assumes "outbox_inv (contents w)" and "validID (ob_ID e)" and "queueOf (contents w) (ob_ID e) = None"
    and "\<And>w'. outbox_inv (contents w') \<Longrightarrow> queueOf (contents w') = queueOf (contents w) \<Longrightarrow>
      same_other (contents w) (contents w') \<Longrightarrow> Q () w'"
    and "\<And>er w'. outbox_inv (contents w') \<Longrightarrow> queueOf (contents w') = queueOf (contents w) \<Longrightarrow>
      same_other (contents w) (contents w') \<Longrightarrow> E er w'"
  shows "wp (deleteOutboxIndexes W e) Q E w"
  unfolding deleteOutboxIndexes_def
  using wp_delete_indexes [where skip = "\<lambda>_. False" and Q = Q and E = E, OF assms(1,2)] assms(3-5) by simp

lemma put_law_storage:
  assumes inv: "outbox_inv (contents w)" and wf: "validID (ob_ID r)"
  shows "wp (putOutbox W r)
        (\<lambda>_ w'. outbox_inv (contents w') \<and> same_other (contents w) (contents w') \<and>
           queueOf (contents w') = (queueOf (contents w))(ob_ID r \<mapsto> normalizeOutboxDefaults r))
        (\<lambda>_ w'. outbox_inv (contents w') \<and> same_other (contents w) (contents w') \<and>
           (queueOf (contents w') = queueOf (contents w) \<or>
            queueOf (contents w') = (queueOf (contents w))(ob_ID r \<mapsto> normalizeOutboxDefaults r))) w"
    (is "wp _ ?Q ?E w")
proof -
  let ?new = "(queueOf (contents w))(ob_ID r \<mapsto> normalizeOutboxDefaults r)"
  have stale: "wp (case ex of Some e \<Rightarrow> deleteStaleOutboxIndexes W e r | None \<Rightarrow> retM ()) ?Q ?E w3"
    if "outbox_inv (contents w3)" "same_other (contents w) (contents w3)" "queueOf (contents w3) = ?new"
      and ex: "ex = queueOf (contents w) (ob_ID r)" for ex w3
  proof (cases ex)
    case (Some e)
    then have e: "ob_ID e = ob_ID r" using queue_record [OF inv] ex by auto
    show ?thesis
      unfolding Some option.case deleteStaleOutboxIndexes_def
      by (rule wp_delete_indexes) (use that wf e in \<open>auto intro: same_other_trans\<close>)
  qed (use that in auto)
  have canonical: "wp (w_Put W (outboxStorageKey (ob_ID r)) (EOutbox r))
      (\<lambda>_. wp (case ex of Some e \<Rightarrow> deleteStaleOutboxIndexes W e r | None \<Rightarrow> retM ()) ?Q ?E) ?E w2"
    if i2: "outbox_inv (contents w2)" and q2: "queueOf (contents w2) = queueOf (contents w)"
      and s2: "same_other (contents w) (contents w2)"
      and k2: "\<forall>k \<in> set (outboxIndexKeys r). contents w2 k \<noteq> None"
      and ex: "ex = queueOf (contents w) (ob_ID r)" for ex w2
    by (rule wp_Put)
      (use inv_put_record [OF i2 wf k2] q2 s2 i2 ex in
       \<open>auto simp: same_other_updI intro!: stale\<close>)
  show ?thesis
    unfolding putOutbox_def wp_bindM
    by (rule wp_getOutbox [OF inv], rule wp_putOutboxIndexes)
      (use inv wf in \<open>auto intro!: canonical\<close>)
qed

lemma del_law_storage:
  assumes inv: "outbox_inv (contents w)" and wf: "validID (ob_ID r)"
  shows "wp (deleteOutbox W r)
        (\<lambda>_ w'. outbox_inv (contents w') \<and> same_other (contents w) (contents w') \<and>
           queueOf (contents w') = (queueOf (contents w))(ob_ID r := None))
        (\<lambda>_ w'. outbox_inv (contents w') \<and> same_other (contents w) (contents w') \<and>
           (queueOf (contents w') = queueOf (contents w) \<or>
            queueOf (contents w') = (queueOf (contents w))(ob_ID r := None))) w"
    (is "wp _ ?Q ?E w")
proof -
  let ?new = "(queueOf (contents w))(ob_ID r := None)"
  have rest: "wp (deleteOutboxIndexes W r)
      (\<lambda>_. wp (case ex of Some e \<Rightarrow> deleteOutboxIndexes W e | None \<Rightarrow> retM ()) ?Q ?E) ?E w2"
    if "outbox_inv (contents w2)" "same_other (contents w) (contents w2)" "queueOf (contents w2) = ?new"
      and ex: "ex = queueOf (contents w) (ob_ID r)" for ex w2
  proof (rule wp_deleteOutboxIndexes)
    fix w3
    assume w3: "outbox_inv (contents w3)" "queueOf (contents w3) = queueOf (contents w2)"
      "same_other (contents w2) (contents w3)"
    have s3: "same_other (contents w) (contents w3)" using that(2) w3(3) by (rule same_other_trans)
    show "wp (case ex of Some e \<Rightarrow> deleteOutboxIndexes W e | None \<Rightarrow> retM ()) ?Q ?E w3"
    proof (cases ex)
      case (Some e)
      then have e: "ob_ID e = ob_ID r" using queue_record [OF inv] ex by auto
      show ?thesis
        unfolding Some option.case
        by (rule wp_deleteOutboxIndexes)
          (use w3 s3 that wf e in \<open>auto intro: same_other_trans\<close>)
    qed (use w3 s3 that in auto)
  qed (use that wf in \<open>auto intro: same_other_trans\<close>)
  show ?thesis
    unfolding deleteOutbox_def wp_bindM
    by (rule wp_getOutbox [OF inv], rule wp_Delete)
      (use inv inv_delete_record [OF inv, of "ob_ID r"] in \<open>auto intro!: rest\<close>)
qed

end

sublocale bao_storage \<subseteq> queue: queue_store contents "getOutbox W" "putOutbox W" "deleteOutbox W"
proof
  show "wp (getOutbox W i) (\<lambda>r w'. r = queueOf (contents w) i \<and> contents w' = contents w)
      (\<lambda>_ w'. contents w' = contents w) w" if "outbox_inv (contents w)" for w i
    by (rule wp_getOutbox) (use that in auto)
qed (rule put_law_storage del_law_storage; assumption)+

interpretation mem_queue: queue_store memContents "getOutbox (memW tx)" "putOutbox (memW tx)"
  "deleteOutbox (memW tx)" for tx
  by (rule mem.queue.queue_store_axioms)

end
