(* ===== verification/Outbox_Queries.thy ===== *)
theory Outbox_Queries
  imports Outbox_Store
begin

text \<open>
  The listings of the queue are exact: under \<open>outbox_inv\<close> they return the ids of the records that
  satisfy their condition, once each, whatever stale index entries there are. The due listing is
  ordered by due time, which is the instant order of the stored times.
\<close>

definition queueIDs :: "(string \<Rightarrow> entry option) \<Rightarrow> (outboxRecord \<Rightarrow> bool) \<Rightarrow> string set" where
  "queueIDs c p = {i. \<exists>r. queueOf c i = Some r \<and> p r}"

lemma queueIDs_iff [simp]: "i \<in> queueIDs c p \<longleftrightarrow> (\<exists>r. queueOf c i = Some r \<and> p r)"
  by (simp add: queueIDs_def)

section \<open>By state and by path\<close>

lemma state_index_child:
  assumes "outbox_inv c" and "queueOf c i = Some r" and "ob_State r \<noteq> []"
  shows "i \<in> children (outboxByStateStoragePrefix @ ob_State r @ ''/'') c"
proof -
  note r = queue_record [OF assms(1,2)]
  have "c (outboxByStateStorageKey (ob_State r) i) \<noteq> None"
    using r(3) [of "outboxByStateStorageKey (ob_State r) i"] assms(3) r(1) by (simp add: index_keys_iff)
  then show ?thesis
    using r(2) by (simp add: children_leaf validID_def outboxByStateStorageKey_def)
qed

lemma path_index_child:
  assumes "outbox_inv c" and "queueOf c i = Some r" and "ob_Path r \<noteq> []"
  shows "i \<in> children (outboxByPathStoragePrefix @ ob_Path r @ ''/'') c"
proof -
  note r = queue_record [OF assms(1,2)]
  have "c (outboxByPathStorageKey (ob_Path r) i) \<noteq> None"
    using r(3) [of "outboxByPathStorageKey (ob_Path r) i"] assms(3) r(1) by (simp add: index_keys_iff)
  then show ?thesis
    using r(2) by (simp add: children_leaf validID_def outboxByPathStorageKey_def)
qed

text \<open>The queue without the queued records among \<open>D\<close>.\<close>

definition cancelFrom :: "(string \<Rightarrow> outboxRecord option) \<Rightarrow> string set \<Rightarrow> string \<Rightarrow> outboxRecord option" where
  "cancelFrom q D i = (case q i of
      None \<Rightarrow> None
    | Some r \<Rightarrow> if i \<in> D \<and> isQueuedOutboxState (ob_State r) then None else Some r)"

lemma cancelFrom_empty [simp]: "cancelFrom q {} = q"
  by (auto simp: cancelFrom_def fun_eq_iff split: option.splits)

lemma cancelFrom_Un: "cancelFrom q (D \<union> X) = cancelFrom (cancelFrom q D) X"
  by (auto simp: cancelFrom_def fun_eq_iff split: option.splits)

lemma cancelFrom_insert: "cancelFrom q (insert x D) = cancelFrom (cancelFrom q D) {x}"
  using cancelFrom_Un [of q D "{x}"] by simp

lemma cancelFrom_one:
  "q i = Some r \<Longrightarrow> isQueuedOutboxState (ob_State r) \<Longrightarrow> cancelFrom q {i} = q(i := None)"
  by (auto simp: cancelFrom_def fun_eq_iff split: option.splits)

lemma cancelFrom_none:
  "(\<And>r. q i = Some r \<Longrightarrow> \<not> isQueuedOutboxState (ob_State r)) \<Longrightarrow> cancelFrom q {i} = q"
  by (auto simp: cancelFrom_def fun_eq_iff split: option.splits)

context bao_storage begin

lemma wp_filterOutboxIDs:
  assumes "outbox_inv (contents w)"
    and "\<And>w'. contents w' = contents w \<Longrightarrow>
      Q (filter (\<lambda>i. \<exists>r. queueOf (contents w) i = Some r \<and> m r) ids) w'"
    and "\<And>e w'. contents w' = contents w \<Longrightarrow> E e w'"
  shows "wp (filterOutboxIDs W ids m) Q E w"
  unfolding filterOutboxIDs_def by (rule queue.wp_filter_loop) (use assms in auto)

lemma wp_filterQueuedOutboxIDs:
  assumes "outbox_inv (contents w)"
    and "\<And>w'. contents w' = contents w \<Longrightarrow>
      Q (filter (\<lambda>i. \<exists>r. queueOf (contents w) i = Some r \<and> isQueuedOutboxState (ob_State r)) ids) w'"
    and "\<And>e w'. contents w' = contents w \<Longrightarrow> E e w'"
  shows "wp (filterQueuedOutboxIDs W ids) Q E w"
  unfolding filterQueuedOutboxIDs_def by (rule queue.wp_filter_loop) (use assms in auto)

lemma wp_listOutboxIDsForState [wp_intros]:
  assumes inv: "outbox_inv (contents w)" and "state \<noteq> []"
    and Q: "\<And>ids w'. contents w' = contents w \<Longrightarrow> distinct ids \<Longrightarrow>
      set ids = queueIDs (contents w) (\<lambda>r. ob_State r = state) \<Longrightarrow> Q ids w'"
    and E: "\<And>e w'. contents w' = contents w \<Longrightarrow> E e w'"
  shows "wp (listOutboxIDsForState W state) Q E w"
  unfolding listOutboxIDsForState_def
  by (simp, rule wp_List, rule wp_filterOutboxIDs)
    (use inv assms(2) E state_index_child [OF inv] in \<open>auto intro!: Q\<close>)

lemma wp_listOutboxIDsForPath [wp_intros]:
  assumes inv: "outbox_inv (contents w)" and "path \<noteq> []"
    and Q: "\<And>ids w'. contents w' = contents w \<Longrightarrow> distinct ids \<Longrightarrow>
      set ids = queueIDs (contents w) (\<lambda>r. ob_Path r = path) \<Longrightarrow> Q ids w'"
    and E: "\<And>e w'. contents w' = contents w \<Longrightarrow> E e w'"
  shows "wp (listOutboxIDsForPath W path) Q E w"
  unfolding listOutboxIDsForPath_def
  by (simp, rule wp_List, rule wp_filterOutboxIDs)
    (use inv assms(2) E path_index_child [OF inv] in \<open>auto intro!: Q\<close>)

lemma wp_listQueuedOutboxIDsForPath [wp_intros]:
  assumes inv: "outbox_inv (contents w)" and "path \<noteq> []"
    and Q: "\<And>ids w'. contents w' = contents w \<Longrightarrow> distinct ids \<Longrightarrow>
      set ids = queueIDs (contents w) (\<lambda>r. ob_Path r = path \<and> isQueuedOutboxState (ob_State r)) \<Longrightarrow>
      Q ids w'"
    and E: "\<And>e w'. contents w' = contents w \<Longrightarrow> E e w'"
  shows "wp (listQueuedOutboxIDsForPath W path) Q E w"
  unfolding listQueuedOutboxIDsForPath_def
  by (simp, rule wp_listOutboxIDsForPath, rule inv, rule assms(2), rule wp_filterQueuedOutboxIDs)
    (use inv E in \<open>auto intro!: Q\<close>)

lemma wp_listQueuedOutboxIDs [wp_intros]:
  assumes inv: "outbox_inv (contents w)"
    and Q: "\<And>ids w'. contents w' = contents w \<Longrightarrow> distinct ids \<Longrightarrow>
      set ids = queueIDs (contents w) (\<lambda>r. isQueuedOutboxState (ob_State r)) \<Longrightarrow> Q ids w'"
    and E: "\<And>e w'. contents w' = contents w \<Longrightarrow> E e w'"
  shows "wp (listQueuedOutboxIDs W) Q E w"
  unfolding listQueuedOutboxIDs_def listOutboxIDsForStates_def foldM.simps wp_bindM wp_retM
  by (rule wp_listOutboxIDsForState, rule inv, simp add: outbox_states,
      rule wp_listOutboxIDsForState, simp add: inv, simp add: outbox_states)
    (use E in \<open>auto simp: isQueuedOutboxState_def outbox_states intro!: Q\<close>)

section \<open>Questions about the queued work of a path\<close>

lemma wp_queuedUpsertIDsForPathVersion [wp_intros]:
  assumes inv: "outbox_inv (contents w)" and "path \<noteq> []"
    and Q: "\<And>ids w'. contents w' = contents w \<Longrightarrow> distinct ids \<Longrightarrow>
      set ids = queueIDs (contents w) (\<lambda>r. ob_Path r = path \<and> isQueuedOutboxState (ob_State r) \<and>
        ob_Version r = version \<and> ob_Type r = OperationTypeUpsert) \<Longrightarrow> Q ids w'"
    and E: "\<And>e w'. contents w' = contents w \<Longrightarrow> E e w'"
  shows "wp (queuedUpsertIDsForPathVersion W path version) Q E w"
proof -
  let ?m = "\<lambda>r. \<not> (ob_Version r \<noteq> version \<or> ob_Type r \<noteq> OperationTypeUpsert)"
  have loop: "foldl (\<lambda>acc i. case queueOf (contents w) i of None \<Rightarrow> acc
        | Some r \<Rightarrow> if ?m r then acc @ [ob_ID r] else acc) acc ids =
      acc @ filter (\<lambda>i. \<exists>r. queueOf (contents w) i = Some r \<and> ?m r) ids" for acc ids
    by (induction ids arbitrary: acc) (auto split: option.splits dest: queue_record(1) [OF inv])
  have body: "(\<lambda>rec. if ob_Version rec \<noteq> version \<or> ob_Type rec \<noteq> OperationTypeUpsert then retM acc
        else retM (acc @ [ob_ID rec])) = (\<lambda>r. retM (if ?m r then acc @ [ob_ID r] else acc))" for acc
    by auto
  show ?thesis
    unfolding queuedUpsertIDsForPathVersion_def wp_bindM body
    by (rule wp_listQueuedOutboxIDsForPath, rule inv, rule assms(2), rule queue.wp_read_loop)
      (use inv E in \<open>auto simp: loop intro!: Q\<close>)
qed

lemma wp_search_loop:
  assumes inv: "outbox_inv (contents w)"
    and Q: "\<And>w'. contents w' = contents w \<Longrightarrow>
      Q (\<exists>i \<in> set ids. \<exists>r. queueOf (contents w) i = Some r \<and> m r) w'"
    and E: "\<And>e w'. contents w' = contents w \<Longrightarrow> E e w'"
    and body: "\<And>b r. f b r = retM (if m r then Break True else Continue b)"
  shows "wp (loopM (\<lambda>found i. bindM (getOutbox W i) (\<lambda>r. case r of None \<Rightarrow> retM (Continue found)
      | Some r \<Rightarrow> f found r)) False ids) Q E w"
proof (rule wp_loopM [where I = "\<lambda>b ys w'. contents w' = contents w \<and> \<not> b \<and>
    (\<exists>i \<in> set ys. \<exists>r. queueOf (contents w) i = Some r \<and> m r) =
    (\<exists>i \<in> set ids. \<exists>r. queueOf (contents w) i = Some r \<and> m r) \<and> set ys \<subseteq> set ids"])
  fix b x ys w'
  assume I: "contents w' = contents w \<and> \<not> b \<and>
    (\<exists>i \<in> set (x # ys). \<exists>r. queueOf (contents w) i = Some r \<and> m r) =
    (\<exists>i \<in> set ids. \<exists>r. queueOf (contents w) i = Some r \<and> m r) \<and> set (x # ys) \<subseteq> set ids"
  have found: "Q True w''" if "contents w'' = contents w" "queueOf (contents w) x = Some r" "m r" for w'' r
    using Q [OF that(1)] that(2,3) I by auto
  show "wp (bindM (getOutbox W x) (\<lambda>r. case r of None \<Rightarrow> retM (Continue b) | Some r \<Rightarrow> f b r))
      (\<lambda>r. case r of Continue b' \<Rightarrow> \<lambda>w'. contents w' = contents w \<and> \<not> b' \<and>
         (\<exists>i \<in> set ys. \<exists>r. queueOf (contents w) i = Some r \<and> m r) =
         (\<exists>i \<in> set ids. \<exists>r. queueOf (contents w) i = Some r \<and> m r) \<and> set ys \<subseteq> set ids
       | Break b' \<Rightarrow> Q b') E w'"
    unfolding wp_bindM
    by (rule queue.wp_get)
      (use I inv E in \<open>auto simp: wp_simps body split: option.splits intro!: found\<close>)
next
  fix b w'
  assume "contents w' = contents w \<and> \<not> b \<and>
    (\<exists>i \<in> set []. \<exists>r. queueOf (contents w) i = Some r \<and> m r) =
    (\<exists>i \<in> set ids. \<exists>r. queueOf (contents w) i = Some r \<and> m r) \<and> set [] \<subseteq> set ids"
  then have c: "contents w' = contents w" and
    b: "(\<exists>i \<in> set ids. \<exists>r. queueOf (contents w) i = Some r \<and> m r) = b" by auto
  from Q [OF c] show "Q b w'" unfolding b .
qed (use inv in auto)

lemma wp_hasQueuedUpsertForAssociationObject [wp_intros]:
  assumes inv: "outbox_inv (contents w)" and "path \<noteq> []"
    and Q: "\<And>w'. contents w' = contents w \<Longrightarrow>
      Q (\<exists>i r. queueOf (contents w) i = Some r \<and> ob_Path r = path \<and> isQueuedOutboxState (ob_State r) \<and>
        ob_Type r = OperationTypeUpsert \<and> ob_AssociationID r = a \<and> ob_ObjectID r = obj \<and>
        minVersion \<le> ob_Version r) w'"
    and E: "\<And>e w'. contents w' = contents w \<Longrightarrow> E e w'"
  shows "wp (hasQueuedUpsertForAssociationObject W path a obj minVersion) Q E w"
  unfolding hasQueuedUpsertForAssociationObject_def wp_bindM
proof (rule wp_listQueuedOutboxIDsForPath [OF inv assms(2) _ E])
  fix ids w1
  assume w1: "contents w1 = contents w" "set ids = queueIDs (contents w) (\<lambda>r. ob_Path r = path \<and>
    isQueuedOutboxState (ob_State r))"
  have eq: "(\<exists>i \<in> set ids. \<exists>r. queueOf (contents w) i = Some r \<and> ob_Type r = OperationTypeUpsert \<and>
      ob_AssociationID r = a \<and> ob_ObjectID r = obj \<and> minVersion \<le> ob_Version r) =
    (\<exists>i r. queueOf (contents w) i = Some r \<and> ob_Path r = path \<and> isQueuedOutboxState (ob_State r) \<and>
        ob_Type r = OperationTypeUpsert \<and> ob_AssociationID r = a \<and> ob_ObjectID r = obj \<and>
        minVersion \<le> ob_Version r)"
    unfolding w1 by auto blast
  show "wp (loopM (\<lambda>found i. bindM (getOutbox W i) (\<lambda>r. case r of None \<Rightarrow> retM (Continue found)
      | Some rec \<Rightarrow> if ob_Type rec \<noteq> OperationTypeUpsert \<or> ob_AssociationID rec \<noteq> a \<or> ob_ObjectID rec \<noteq> obj
          then retM (Continue found)
          else if minVersion \<le> ob_Version rec then retM (Break True) else retM (Continue found))) False ids)
    Q E w1"
    by (rule wp_search_loop [where m = "\<lambda>r. ob_Type r = OperationTypeUpsert \<and> ob_AssociationID r = a \<and>
          ob_ObjectID r = obj \<and> minVersion \<le> ob_Version r"])
      (use inv w1(1) Q E in \<open>simp_all add: eq\<close>)
qed

lemma wp_hasQueuedUpsertForAssociationVersion [wp_intros]:
  assumes inv: "outbox_inv (contents w)" and "path \<noteq> []"
    and Q: "\<And>w'. contents w' = contents w \<Longrightarrow>
      Q (\<exists>i r. queueOf (contents w) i = Some r \<and> ob_Path r = path \<and> isQueuedOutboxState (ob_State r) \<and>
        ob_Type r = OperationTypeUpsert \<and> ob_AssociationID r = a \<and> minVersion \<le> ob_Version r) w'"
    and E: "\<And>e w'. contents w' = contents w \<Longrightarrow> E e w'"
  shows "wp (hasQueuedUpsertForAssociationVersion W path a minVersion) Q E w"
  unfolding hasQueuedUpsertForAssociationVersion_def wp_bindM
proof (rule wp_listQueuedOutboxIDsForPath [OF inv assms(2) _ E])
  fix ids w1
  assume w1: "contents w1 = contents w" "set ids = queueIDs (contents w) (\<lambda>r. ob_Path r = path \<and>
    isQueuedOutboxState (ob_State r))"
  have eq: "(\<exists>i \<in> set ids. \<exists>r. queueOf (contents w) i = Some r \<and> ob_Type r = OperationTypeUpsert \<and>
      ob_AssociationID r = a \<and> minVersion \<le> ob_Version r) =
    (\<exists>i r. queueOf (contents w) i = Some r \<and> ob_Path r = path \<and> isQueuedOutboxState (ob_State r) \<and>
        ob_Type r = OperationTypeUpsert \<and> ob_AssociationID r = a \<and> minVersion \<le> ob_Version r)"
    unfolding w1 by auto blast
  show "wp (loopM (\<lambda>found i. bindM (getOutbox W i) (\<lambda>r. case r of None \<Rightarrow> retM (Continue found)
      | Some rec \<Rightarrow> if ob_Type rec \<noteq> OperationTypeUpsert \<or> ob_AssociationID rec \<noteq> a
          then retM (Continue found)
          else if minVersion \<le> ob_Version rec then retM (Break True) else retM (Continue found))) False ids)
    Q E w1"
    by (rule wp_search_loop [where m = "\<lambda>r. ob_Type r = OperationTypeUpsert \<and> ob_AssociationID r = a \<and>
          minVersion \<le> ob_Version r"])
      (use inv w1(1) Q E in \<open>simp_all add: eq\<close>)
qed

section \<open>The check before cancelling\<close>

lemma wp_ensureQueuedOutboxIDsUnclaimed [wp_intros]:
  assumes inv: "outbox_inv (contents w)"
    and Q: "\<And>w'. contents w' = contents w \<Longrightarrow> Q () w'"
    and E: "\<And>e w'. contents w' = contents w \<Longrightarrow> E e w'"
  shows "wp (ensureQueuedOutboxIDsUnclaimed W ids) Q E w"
  unfolding ensureQueuedOutboxIDsUnclaimed_def
proof (rule wp_eachM [where I = "\<lambda>_ w'. contents w' = contents w"])
  fix x ys w1
  assume w1: "contents w1 = contents w"
  show "wp (bindM (getOutbox W x) (\<lambda>r. case r of None \<Rightarrow> retM ()
      | Some rec \<Rightarrow> if \<not> isQueuedOutboxState (ob_State rec) then retM ()
          else bindM (nowUTC W) (\<lambda>now. if isOutboxClaimActive rec now
               then failM (ErrQueuedOperationClaimed (ob_ID rec)) else retM ())))
      (\<lambda>_ w'. contents w' = contents w) E w1"
    unfolding wp_bindM
    by (rule queue.wp_get)
      (use inv w1 E in \<open>auto simp: wp_simps split: option.splits intro!: wp_nowUTC\<close>)
qed (use Q in auto)

end

section \<open>Due work\<close>

lemma less_not_prefix_append:
  fixes xs ys :: "('a :: linorder) list"
  shows "xs < ys \<Longrightarrow> \<not> prefix xs ys \<Longrightarrow> xs @ u < ys @ v"
proof (induction xs arbitrary: ys)
  case (Cons x xs)
  then show ?case by (cases ys) auto
qed simp

lemma due_key_less:
  assumes "d < e" and "parseRFC3339 d \<noteq> None" and "parseRFC3339 e \<noteq> None"
  shows "outboxByDueStorageKey d i < outboxByDueStorageKey e j"
proof -
  have "\<not> prefix d e"
  proof
    assume "prefix d e"
    then obtain x where x: "e = d @ x" by (auto simp: prefix_def)
    then have "x = []" using parse_prefix_free assms(2,3) by blast
    with x assms(1) show False by simp
  qed
  from less_not_prefix_append [OF assms(1) this]
  show ?thesis by (simp add: outboxByDueStorageKey_def list_less_append)
qed

lemma due_key_le:
  assumes "outboxByDueStorageKey d i \<le> outboxByDueStorageKey e j"
    and "parseRFC3339 d \<noteq> None" and "parseRFC3339 e \<noteq> None"
  shows "d \<le> e" and "d = e \<Longrightarrow> i \<le> j"
proof -
  show "d \<le> e" using due_key_less [of e d j i] assms by (meson not_le)
  show "i \<le> j" if "d = e"
    using assms(1) unfolding that outboxByDueStorageKey_def not_less [symmetric]
    by (simp only: append_assoc [symmetric] list_less_append) simp
qed

lemma cut_due_key:
  assumes "parseRFC3339 d \<noteq> None"
  shows "cutAt slash (trimPrefix (outboxByDueStorageKey d i) outboxByDueStoragePrefix) = Some (d, i)"
  using parse_no_slash [OF assms] by (simp add: trimPrefix_def outboxByDueStorageKey_def)

lemma due_parse_queued: "parseRFC3339 (outboxDueIndexTime r) = Some t \<Longrightarrow> isQueuedOutboxState (ob_State r)"
  using due_time_queued [of r] by (cases "outboxDueIndexTime r = []") auto

text \<open>The due time and the id that a key of the due index names.\<close>

definition dueParts :: "string \<Rightarrow> string \<times> string" where
  "dueParts k = the (cutAt slash (trimPrefix k outboxByDueStoragePrefix))"

lemma dueParts_wf:
  assumes "dueKeyWF k"
  obtains d i where "dueParts k = (d, i)" "k = outboxByDueStorageKey d i" "parseRFC3339 d \<noteq> None"
    "validID i" "cutAt slash (trimPrefix k outboxByDueStoragePrefix) = Some (d, i)"
  using assms cut_due_key by (auto simp: dueKeyWF_def dueParts_def)

definition dueOf :: "(string \<Rightarrow> entry option) \<Rightarrow> string \<Rightarrow> string" where
  "dueOf c i = (case queueOf c i of None \<Rightarrow> [] | Some r \<Rightarrow> outboxDueIndexTime r)"

definition liveDueKey :: "(string \<Rightarrow> entry option) \<Rightarrow> string \<Rightarrow> bool" where
  "liveDueKey c k \<longleftrightarrow> (case dueParts k of (d, i) \<Rightarrow> \<exists>r. queueOf c i = Some r \<and> outboxDueIndexTime r = d)"

lemma dueOf_nonempty: "dueOf c i \<noteq> [] \<longleftrightarrow> (\<exists>r. queueOf c i = Some r \<and> isQueuedOutboxState (ob_State r))"
  by (auto simp: dueOf_def due_time_queued split: option.splits)

lemma liveDueKey_iff:
  assumes "dueKeyWF k"
  shows "liveDueKey c k \<longleftrightarrow> (\<exists>i. i \<in> queueIDs c (\<lambda>r. isQueuedOutboxState (ob_State r)) \<and>
    k = outboxByDueStorageKey (dueOf c i) i)"
  using assms
proof (rule dueParts_wf)
  fix d i
  assume k: "dueParts k = (d, i)" "k = outboxByDueStorageKey d i" "parseRFC3339 d \<noteq> None" "validID i"
  show ?thesis
  proof
    assume "liveDueKey c k"
    then obtain r where "queueOf c i = Some r" "outboxDueIndexTime r = d"
      using k(1) by (auto simp: liveDueKey_def)
    moreover from this have "isQueuedOutboxState (ob_State r)"
      using k(3) due_time_queued [of r] by auto
    ultimately show "\<exists>i. i \<in> queueIDs c (\<lambda>r. isQueuedOutboxState (ob_State r)) \<and>
        k = outboxByDueStorageKey (dueOf c i) i"
      using k(2) by (auto simp: dueOf_def intro!: exI [of _ i])
  next
    assume "\<exists>i. i \<in> queueIDs c (\<lambda>r. isQueuedOutboxState (ob_State r)) \<and>
        k = outboxByDueStorageKey (dueOf c i) i"
    then obtain j r where j: "queueOf c j = Some r" "isQueuedOutboxState (ob_State r)"
      "k = outboxByDueStorageKey (outboxDueIndexTime r) j"
      by (auto simp: dueOf_def)
    then have "dueParts k = (outboxDueIndexTime r, j)"
      using cut_due_key due_time_parses due_time_queued by (simp add: dueParts_def)
    then show "liveDueKey c k" using j(1) by (simp add: liveDueKey_def)
  qed
qed

text \<open>
  The pure content of the due scan: walk the sorted index up to the first later time and keep the
  ids whose records still have that due time.
\<close>

definition dueScan :: "(string \<Rightarrow> entry option) \<Rightarrow> string \<Rightarrow> string list \<Rightarrow> string list" where
  "dueScan c nowS keys =
     map (snd \<circ> dueParts) (filter (liveDueKey c) (takeWhile (\<lambda>k. fst (dueParts k) \<le> nowS) keys))"

definition dueIndex :: "(string \<Rightarrow> entry option) \<Rightarrow> string list \<Rightarrow> bool" where
  "dueIndex c keys \<longleftrightarrow> outbox_inv c \<and> set keys = {k. c k \<noteq> None \<and> prefix outboxByDueStoragePrefix k} \<and>
     distinct keys \<and> sorted keys"

lemma dueIndexD:
  assumes "dueIndex c keys"
  shows "outbox_inv c" "set keys = {k. c k \<noteq> None \<and> prefix outboxByDueStoragePrefix k}"
    "distinct keys" "sorted keys" "k \<in> set keys \<Longrightarrow> dueKeyWF k"
  using assms outbox_inv_due by (auto simp: dueIndex_def)

lemma due_takeWhile:
  assumes "dueIndex c keys"
  shows "takeWhile (\<lambda>k. fst (dueParts k) \<le> nowS) keys = filter (\<lambda>k. fst (dueParts k) \<le> nowS) keys"
proof -
  note keys_wf = dueIndexD(5) [OF assms] and keys = dueIndexD(2-4) [OF assms]
  have mono: "fst (dueParts k) \<le> fst (dueParts l)" if "k \<in> set keys" "l \<in> set keys" "k \<le> l" for k l
    using keys_wf [OF that(1)] keys_wf [OF that(2)] that(3)
    by (auto elim!: dueParts_wf dest: due_key_le(1))
  have "takeWhile (\<lambda>k. fst (dueParts k) \<le> nowS) ks = filter (\<lambda>k. fst (dueParts k) \<le> nowS) ks"
    if "sorted ks" "set ks \<subseteq> set keys" for ks
    using that
  proof (induction ks)
    case (Cons k ks)
    have "filter (\<lambda>k. fst (dueParts k) \<le> nowS) ks = []" if "\<not> fst (dueParts k) \<le> nowS"
      using that mono [of k] Cons.prems by (auto simp: filter_empty_conv intro: order_trans)
    then show ?case using Cons by simp
  qed simp
  then show ?thesis using keys(3) by simp
qed

lemma dueScan_set:
  assumes idx: "dueIndex c keys"
  shows "set (dueScan c nowS keys) =
     queueIDs c (\<lambda>r. isQueuedOutboxState (ob_State r) \<and> outboxDueIndexTime r \<le> nowS)"
proof (rule set_eqI)
  fix i
  note keys_wf = dueIndexD(5) [OF idx] and keys = dueIndexD(2-4) [OF idx] and inv = dueIndexD(1) [OF idx]
    and due_takeWhile = due_takeWhile [OF idx]
  have present: "outboxByDueStorageKey (outboxDueIndexTime r) i \<in> set keys"
    if "queueOf c i = Some r" "isQueuedOutboxState (ob_State r)" for r
    using queue_record(1,3) [OF inv that(1)] that(2) due_time_queued [of r]
    by (auto simp: keys(1) index_keys_iff)
  show "i \<in> set (dueScan c nowS keys) \<longleftrightarrow>
      i \<in> queueIDs c (\<lambda>r. isQueuedOutboxState (ob_State r) \<and> outboxDueIndexTime r \<le> nowS)"
  proof
    assume "i \<in> set (dueScan c nowS keys)"
    then obtain k where k: "k \<in> set keys" "liveDueKey c k" "fst (dueParts k) \<le> nowS" "i = snd (dueParts k)"
      by (auto simp: dueScan_def due_takeWhile)
    from keys_wf [OF k(1)] show "i \<in> queueIDs c (\<lambda>r. isQueuedOutboxState (ob_State r) \<and> outboxDueIndexTime r \<le> nowS)"
      using k(2-4) by (auto simp: liveDueKey_def elim!: dueParts_wf dest: due_parse_queued)
  next
    assume "i \<in> queueIDs c (\<lambda>r. isQueuedOutboxState (ob_State r) \<and> outboxDueIndexTime r \<le> nowS)"
    then obtain r where r: "queueOf c i = Some r" "isQueuedOutboxState (ob_State r)" "outboxDueIndexTime r \<le> nowS"
      by auto
    let ?k = "outboxByDueStorageKey (outboxDueIndexTime r) i"
    have "dueParts ?k = (outboxDueIndexTime r, i)"
      using r(2) cut_due_key due_time_parses due_time_queued by (simp add: dueParts_def)
    then show "i \<in> set (dueScan c nowS keys)"
      using present [OF r(1,2)] r by (force simp: dueScan_def due_takeWhile liveDueKey_def)
  qed
qed

lemma dueScan_sorted:
  assumes idx: "dueIndex c keys"
  shows "distinct (dueScan c nowS keys)" and "sorted (map (\<lambda>i. (dueOf c i, i)) (dueScan c nowS keys))"
proof -
  note keys_wf = dueIndexD(5) [OF idx] and keys = dueIndexD(2-4) [OF idx]
    and due_takeWhile = due_takeWhile [OF idx]
  let ?live = "filter (liveDueKey c) (filter (\<lambda>k. fst (dueParts k) \<le> nowS) keys)"
  have live: "dueParts k = (dueOf c (snd (dueParts k)), snd (dueParts k))" if "k \<in> set ?live" for k
    using that by (auto simp: liveDueKey_def dueOf_def split: option.splits)
  have inj: "k = outboxByDueStorageKey (dueOf c (snd (dueParts k))) (snd (dueParts k))" if "k \<in> set ?live" for k
    using live [OF that] keys_wf [of k] that by (auto elim!: dueParts_wf)
  have "inj_on (snd \<circ> dueParts) (set ?live)"
    by (rule inj_onI) (metis inj comp_apply)
  then show "distinct (dueScan c nowS keys)"
    using keys(2) by (simp add: dueScan_def due_takeWhile distinct_map)
  have mono: "dueParts k \<le> dueParts l" if "k \<in> set keys" "l \<in> set keys" "k \<le> l" for k l
    using keys_wf [OF that(1)] keys_wf [OF that(2)] that(3)
    by (auto elim!: dueParts_wf simp: less_eq_prod_def less_le dest: due_key_le)
  have "sorted (map dueParts ?live)"
    using keys(3) mono by (auto simp: sorted_map intro!: sorted_wrt_mono_rel [of _ "(\<le>)"] sorted_wrt_filter)
  moreover have "map (\<lambda>i. (dueOf c i, i)) (dueScan c nowS keys) = map dueParts ?live"
    using live by (auto simp: dueScan_def due_takeWhile)
  ultimately show "sorted (map (\<lambda>i. (dueOf c i, i)) (dueScan c nowS keys))" by simp
qed

lemma dueScan_Cons:
  assumes "dueParts k = (d, i)" and "d \<noteq> []"
  shows "dueScan c nowS (k # ks) =
    (if nowS < d then [] else (if dueOf c i = d \<and> d \<noteq> [] then [i] else []) @ dueScan c nowS ks)"
  using assms by (auto simp: dueScan_def liveDueKey_def dueOf_def split: option.splits)

text \<open>The list that the due scan promises.\<close>

definition dueListing :: "(string \<Rightarrow> entry option) \<Rightarrow> string \<Rightarrow> string list \<Rightarrow> bool" where
  "dueListing c nowS ids \<longleftrightarrow>
     set ids = queueIDs c (\<lambda>r. isQueuedOutboxState (ob_State r) \<and> outboxDueIndexTime r \<le> nowS) \<and>
     distinct ids \<and> sorted (map (\<lambda>i. (dueOf c i, i)) ids)"

lemma dueScan_listing: "dueIndex c keys \<Longrightarrow> dueListing c nowS (dueScan c nowS keys)"
  by (simp add: dueListing_def dueScan_set dueScan_sorted)

context bao_storage begin

lemma wp_listDueOutboxIDs [wp_intros]:
  assumes inv: "outbox_inv (contents w)"
    and Q: "\<And>ids w'. contents w' = contents w \<Longrightarrow>
      dueListing (contents w) (formatRFC3339 now) ids \<Longrightarrow> Q ids w'"
    and E: "\<And>e w'. contents w' = contents w \<Longrightarrow> E e w'"
  shows "wp (listDueOutboxIDs W now) Q E w"
  unfolding listDueOutboxIDs_def wp_bindM
proof (rule wp_Collect)
  fix keys w1
  assume keys: "set keys = {k. contents w k \<noteq> None \<and> prefix outboxByDueStoragePrefix k}" "distinct keys"
    and w1: "contents w1 = contents w"
  let ?c = "contents w" and ?now = "formatRFC3339 now"
  have idx: "dueIndex ?c (sort keys)" using inv keys by (simp add: dueIndex_def)
  show "wp (loopM (\<lambda>ids key. case cutAt slash (trimPrefix key outboxByDueStoragePrefix) of
           None \<Rightarrow> retM (Continue ids)
         | Some (dueTime, i) \<Rightarrow>
             if i = [] then retM (Continue ids)
             else if ?now < dueTime then retM (Break ids)
             else bindM (getOutbox W i) (\<lambda>r. case r of
                 None \<Rightarrow> retM (Continue ids)
               | Some rec \<Rightarrow> retM (Continue (if outboxDueIndexTime rec \<noteq> dueTime then ids else ids @ [i]))))
       [] (sort keys)) Q E w1"
  proof (rule wp_loopM [where I = "\<lambda>acc ks w'. contents w' = ?c \<and> set ks \<subseteq> set keys \<and>
      acc @ dueScan ?c ?now ks = dueScan ?c ?now (sort keys)"], goal_cases)
    case (2 acc k ks w2)
    then have "k \<in> set (sort keys)" by auto
    from dueIndexD(5) [OF idx this] show ?case
    proof (rule dueParts_wf)
      fix d i
      assume k: "dueParts k = (d, i)" "parseRFC3339 d \<noteq> None" "validID i"
        "cutAt slash (trimPrefix k outboxByDueStoragePrefix) = Some (d, i)"
      have d: "d \<noteq> []" using k(2) by auto
      note scan = dueScan_Cons [OF k(1) d, of ?c ?now ks]
      have stop: "Q acc w'" if "?now < d" "contents w' = ?c" for w'
        using 2 that scan dueScan_listing [OF idx] by (intro Q) auto
      have step: "wp (bindM (getOutbox W i) (\<lambda>r. case r of
              None \<Rightarrow> retM (Continue acc)
            | Some rec \<Rightarrow> retM (Continue (if outboxDueIndexTime rec \<noteq> d then acc else acc @ [i]))))
          (\<lambda>r. case r of Continue acc' \<Rightarrow> \<lambda>w'. contents w' = ?c \<and> set ks \<subseteq> set keys \<and>
               acc' @ dueScan ?c ?now ks = dueScan ?c ?now (sort keys) | Break acc' \<Rightarrow> Q acc') E w2"
        if "\<not> ?now < d"
        unfolding wp_bindM
        by (rule queue.wp_get)
          (use 2 that scan inv E d in \<open>auto simp: wp_simps dueOf_def split: option.splits\<close>)
      show ?thesis
        unfolding k(4) option.case prod.case
        using k(3) stop step 2 by (auto simp: validID_def wp_if)
    qed
  next
    case (3 acc w2)
    then show ?case using dueScan_listing [OF idx] by (intro Q) (auto simp: dueScan_def)
  qed (use w1 in auto)
qed (use E in auto)

lemma wp_nextFutureOutboxDueTime [wp_intros]:
  assumes inv: "outbox_inv (contents w)"
    and Q: "\<And>next w'. contents w' = contents w \<Longrightarrow>
      (case next of
         None \<Rightarrow> \<forall>i. dueOf (contents w) i \<le> formatRFC3339 now
       | Some t \<Rightarrow> \<exists>i. formatRFC3339 now < dueOf (contents w) i \<and> parseRFC3339 (dueOf (contents w) i) = Some t \<and>
           (\<forall>j. formatRFC3339 now < dueOf (contents w) j \<longrightarrow> dueOf (contents w) i \<le> dueOf (contents w) j)) \<Longrightarrow>
      Q next w'"
    and E: "\<And>e w'. contents w' = contents w \<Longrightarrow> E e w'"
  shows "wp (nextFutureOutboxDueTime W now) Q E w"
  unfolding nextFutureOutboxDueTime_def wp_bindM
proof (rule wp_Collect)
  fix keys w1
  assume keys: "set keys = {k. contents w k \<noteq> None \<and> prefix outboxByDueStoragePrefix k}" "distinct keys"
    and w1: "contents w1 = contents w"
  let ?c = "contents w" and ?now = "formatRFC3339 now"
  have idx: "dueIndex ?c (sort keys)" using inv keys by (simp add: dueIndex_def)
  have present: "outboxByDueStorageKey (dueOf ?c j) j \<in> set keys \<and> parseRFC3339 (dueOf ?c j) \<noteq> None"
    if "?now < dueOf ?c j" for j
  proof -
    from that have "dueOf ?c j \<noteq> []" by auto
    then obtain r where r: "queueOf ?c j = Some r" "outboxDueIndexTime r \<noteq> []" "dueOf ?c j = outboxDueIndexTime r"
      by (auto simp: dueOf_def split: option.splits)
    then show ?thesis
      using queue_record(1,3) [OF inv r(1)] due_time_parses [OF r(2)] by (auto simp: keys(1) index_keys_iff)
  qed
  show "wp (loopM (\<lambda>next key. case cutAt slash (trimPrefix key outboxByDueStoragePrefix) of
           None \<Rightarrow> retM (Continue next)
         | Some (dueTime, i) \<Rightarrow>
             if i = [] \<or> dueTime \<le> ?now then retM (Continue next)
             else bindM (getOutbox W i) (\<lambda>r. case r of
                 None \<Rightarrow> retM (Continue next)
               | Some rec \<Rightarrow>
                   if outboxDueIndexTime rec \<noteq> dueTime then retM (Continue next)
                   else (case parseRFC3339 dueTime of
                           None \<Rightarrow> retM (Continue next)
                         | Some t \<Rightarrow> retM (Break (Some t)))))
       None (sort keys)) Q E w1"
  proof (rule wp_loopM [where I = "\<lambda>acc ks w'. contents w' = ?c \<and> acc = None \<and> sorted ks \<and>
      set ks \<subseteq> set keys \<and> (\<forall>j. ?now < dueOf ?c j \<longrightarrow> outboxByDueStorageKey (dueOf ?c j) j \<in> set ks)"], goal_cases)
    case 1
    show ?case using w1 present by auto
  next
    case (2 acc k ks w2)
    then have k: "k \<in> set (sort keys)" by auto
    from dueIndexD(5) [OF idx k] show ?case
    proof (rule dueParts_wf)
      fix d i
      assume k: "k = outboxByDueStorageKey d i" "parseRFC3339 d \<noteq> None" "validID i"
        "cutAt slash (trimPrefix k outboxByDueStoragePrefix) = Some (d, i)"
      have least: "d \<le> dueOf ?c j" if "?now < dueOf ?c j" for j
      proof -
        have "k \<le> outboxByDueStorageKey (dueOf ?c j) j" using 2 that by auto
        then show ?thesis using due_key_le(1) k(1,2) present [OF that] by simp
      qed
      have drop: "\<forall>j. ?now < dueOf ?c j \<longrightarrow> outboxByDueStorageKey (dueOf ?c j) j \<in> set ks"
        if "d \<le> ?now \<or> dueOf ?c i \<noteq> d"
      proof (intro allI impI)
        fix j assume j: "?now < dueOf ?c j"
        have "outboxByDueStorageKey (dueOf ?c j) j \<noteq> k"
        proof
          assume "outboxByDueStorageKey (dueOf ?c j) j = k"
          then have "(dueOf ?c j, j) = (d, i)"
            using cut_due_key k present [OF j] by (metis option.inject)
          with that j show False by auto
        qed
        then show "outboxByDueStorageKey (dueOf ?c j) j \<in> set ks" using 2 j by auto
      qed
      have step: "wp (bindM (getOutbox W i) (\<lambda>r. case r of
                 None \<Rightarrow> retM (Continue acc)
               | Some rec \<Rightarrow>
                   if outboxDueIndexTime rec \<noteq> d then retM (Continue acc)
                   else (case parseRFC3339 d of
                           None \<Rightarrow> retM (Continue acc)
                         | Some t \<Rightarrow> retM (Break (Some t)))))
          (\<lambda>r. case r of Continue acc' \<Rightarrow> \<lambda>w'. contents w' = ?c \<and> acc' = None \<and> sorted ks \<and>
               set ks \<subseteq> set keys \<and> (\<forall>j. ?now < dueOf ?c j \<longrightarrow> outboxByDueStorageKey (dueOf ?c j) j \<in> set ks)
             | Break acc' \<Rightarrow> Q acc') E w2"
        if "?now < d"
        unfolding wp_bindM
      proof (rule queue.wp_get)
        fix w3
        assume w3: "contents w3 = contents w2"
        show "wp (case queueOf (contents w2) i of
                 None \<Rightarrow> retM (Continue acc)
               | Some rec \<Rightarrow>
                   if outboxDueIndexTime rec \<noteq> d then retM (Continue acc)
                   else (case parseRFC3339 d of
                           None \<Rightarrow> retM (Continue acc)
                         | Some t \<Rightarrow> retM (Break (Some t))))
            (\<lambda>r. case r of Continue acc' \<Rightarrow> \<lambda>w'. contents w' = ?c \<and> acc' = None \<and> sorted ks \<and>
               set ks \<subseteq> set keys \<and> (\<forall>j. ?now < dueOf ?c j \<longrightarrow> outboxByDueStorageKey (dueOf ?c j) j \<in> set ks)
             | Break acc' \<Rightarrow> Q acc') E w3"
        proof (cases "dueOf ?c i = d")
          case False
          then show ?thesis
            using 2 w3 drop k(2) by (auto simp: wp_simps dueOf_def split: option.splits)
        next
          case True
          moreover have "d \<noteq> []" using k(2) by auto
          ultimately obtain r where "queueOf ?c i = Some r" "outboxDueIndexTime r = d"
            by (auto simp: dueOf_def split: option.splits)
          moreover have "Q (Some t) w3" if "parseRFC3339 d = Some t" for t
            using that True \<open>?now < d\<close> 2 w3 least by (intro Q) (auto intro!: exI [of _ i])
          ultimately show ?thesis using 2 w3 k(2) by auto
        qed
      qed (use 2 inv E in auto)
      show ?thesis
        unfolding k(4) option.case prod.case
        using k(3) step 2 drop by (auto simp: validID_def wp_if not_le)
    qed
  next
    case (3 acc w2)
    then show ?case by (intro Q) (auto simp: not_less)
  qed
qed (use E in auto)

end

end
