(* ===== verification/Storage_Status.thy ===== *)
theory Storage_Status
  imports Outbox_Queries
begin

text \<open>
  The per-object sync status (\<open>internal/backend/storage_status.go\<close>). A status never goes back to an
  older source version, and an update that leaves the drift bookkeeping out keeps the stored one.
\<close>

definition preserveStatusDriftBookkeeping :: "statusRecord \<Rightarrow> statusRecord \<Rightarrow> statusRecord" where
  "preserveStatusDriftBookkeeping r existing =
     (let r = (if st_Verification r = [] then r \<lparr> st_Verification := st_Verification existing \<rparr> else r);
          r = (if st_LastReconcileTime r = []
               then r \<lparr> st_LastReconcileTime := st_LastReconcileTime existing \<rparr> else r);
          r = (if st_LastDriftDetectedTime r = []
               then r \<lparr> st_LastDriftDetectedTime := st_LastDriftDetectedTime existing \<rparr> else r);
          r = (if st_LastRepairTime r = []
               then r \<lparr> st_LastRepairTime := st_LastRepairTime existing \<rparr> else r)
      in if st_RepairCount r = 0 then r \<lparr> st_RepairCount := st_RepairCount existing \<rparr> else r)"

definition getStatus :: "'w world \<Rightarrow> string \<Rightarrow> string \<Rightarrow> string \<Rightarrow> ('w, statusRecord option) io" where
  "getStatus W path associationID objectID =
     getDecoded W (statusStorageKey path associationID objectID) decodeStatus"

definition putStatus :: "'w world \<Rightarrow> statusRecord \<Rightarrow> ('w, unit) io" where
  "putStatus W r =
     bindM (getStatus W (st_Path r) (st_AssociationID r) (st_ObjectID r)) (\<lambda>existing.
       case existing of
         Some e \<Rightarrow>
           if st_Version r < st_Version e then retM ()
           else w_Put W (statusStorageKey (st_Path r) (st_AssociationID r) (st_ObjectID r))
                  (EStatus (preserveStatusDriftBookkeeping r e))
       | None \<Rightarrow>
           w_Put W (statusStorageKey (st_Path r) (st_AssociationID r) (st_ObjectID r)) (EStatus r))"

definition deleteStatus :: "'w world \<Rightarrow> statusRecord \<Rightarrow> ('w, unit) io" where
  "deleteStatus W r = w_Delete W (statusStorageKey (st_Path r) (st_AssociationID r) (st_ObjectID r))"

definition listStatusRecordsForPath :: "'w world \<Rightarrow> string \<Rightarrow> ('w, statusRecord list) io" where
  "listStatusRecordsForPath W path =
     bindM (w_List W (statusStoragePrefix @ path @ ''/'')) (\<lambda>associationIDs.
       foldM (\<lambda>records associationID.
         bindM (w_List W (statusStoragePrefix @ path @ ''/'' @ associationID)) (\<lambda>objectIDs.
           foldM (\<lambda>records objectID.
             bindM (getStatus W path (trimSuffix associationID ''/'') objectID) (\<lambda>r.
               case r of None \<Rightarrow> retM records | Some rec \<Rightarrow> retM (records @ [rec]))) records objectIDs))
         [] associationIDs)"

section \<open>Keys\<close>

lemma status_key_inj:
  assumes "slash \<notin> set a" "slash \<notin> set b" "slash \<notin> set x" "slash \<notin> set y"
  shows "statusStorageKey p a x = statusStorageKey q b y \<longleftrightarrow> p = q \<and> a = b \<and> x = y"
  using assms append_sep_inj [of slash x y "p @ ''/'' @ a" "q @ ''/'' @ b"]
    append_sep_inj [of slash a b p q]
  by (auto simp: statusStorageKey_def)

text \<open>The status stored for an object.\<close>

definition statusOf :: "(string \<Rightarrow> entry option) \<Rightarrow> string \<Rightarrow> string \<Rightarrow> string \<Rightarrow> statusRecord option" where
  "statusOf c p a x = (case c (statusStorageKey p a x) of Some (EStatus r) \<Rightarrow> Some r | _ \<Rightarrow> None)"

lemma statusOf_Some: "statusOf c p a x = Some r \<longleftrightarrow> c (statusStorageKey p a x) = Some (EStatus r)"
  by (auto simp: statusOf_def split: option.splits entry.splits)

text \<open>What \<open>putStatus\<close> makes of the stored status.\<close>

definition statusUpdate :: "statusRecord \<Rightarrow> statusRecord option \<Rightarrow> statusRecord" where
  "statusUpdate r existing = (case existing of
      None \<Rightarrow> r
    | Some e \<Rightarrow> if st_Version r < st_Version e then e else preserveStatusDriftBookkeeping r e)"

lemma preserve_key [simp]:
  "st_Path (preserveStatusDriftBookkeeping r e) = st_Path r"
  "st_AssociationID (preserveStatusDriftBookkeeping r e) = st_AssociationID r"
  "st_ObjectID (preserveStatusDriftBookkeeping r e) = st_ObjectID r"
  "st_Version (preserveStatusDriftBookkeeping r e) = st_Version r"
  "st_State (preserveStatusDriftBookkeeping r e) = st_State r"
  by (simp_all add: preserveStatusDriftBookkeeping_def Let_def)

lemma preserve_fields:
  "st_Verification (preserveStatusDriftBookkeeping r e) =
     (if st_Verification r = [] then st_Verification e else st_Verification r)"
  "st_LastReconcileTime (preserveStatusDriftBookkeeping r e) =
     (if st_LastReconcileTime r = [] then st_LastReconcileTime e else st_LastReconcileTime r)"
  "st_LastDriftDetectedTime (preserveStatusDriftBookkeeping r e) =
     (if st_LastDriftDetectedTime r = [] then st_LastDriftDetectedTime e else st_LastDriftDetectedTime r)"
  "st_LastRepairTime (preserveStatusDriftBookkeeping r e) =
     (if st_LastRepairTime r = [] then st_LastRepairTime e else st_LastRepairTime r)"
  "st_RepairCount (preserveStatusDriftBookkeeping r e) =
     (if st_RepairCount r = 0 then st_RepairCount e else st_RepairCount r)"
  by (simp_all add: preserveStatusDriftBookkeeping_def Let_def)

section \<open>Laws\<close>

context bao_storage begin

lemma wp_getStatus [wp_intros]:
  assumes "\<And>w'. contents w' = contents w \<Longrightarrow> Q (statusOf (contents w) p a x) w'"
    and "\<And>e w'. contents w' = contents w \<Longrightarrow> E e w'"
  shows "wp (getStatus W p a x) Q E w"
  unfolding getStatus_def
  by (rule wp_getDecoded) (use assms in \<open>auto simp: statusOf_def\<close>)

text \<open>
  A successful write stores \<open>statusUpdate\<close> of what was there. A failed one stored that or nothing.
  Only the key of the object changes.
\<close>

lemma wp_putStatus [wp_intros]:
  assumes Q: "\<And>w'. contents w' = (contents w)(statusStorageKey (st_Path r) (st_AssociationID r) (st_ObjectID r) \<mapsto>
      EStatus (statusUpdate r (statusOf (contents w) (st_Path r) (st_AssociationID r) (st_ObjectID r)))) \<Longrightarrow> Q () w'"
    and E: "\<And>e w'. contents w' = contents w \<or>
      contents w' = (contents w)(statusStorageKey (st_Path r) (st_AssociationID r) (st_ObjectID r) \<mapsto>
        EStatus (statusUpdate r (statusOf (contents w) (st_Path r) (st_AssociationID r) (st_ObjectID r)))) \<Longrightarrow> E e w'"
  shows "wp (putStatus W r) Q E w"
proof -
  let ?k = "statusStorageKey (st_Path r) (st_AssociationID r) (st_ObjectID r)"
  have stale: "contents w = (contents w)(?k \<mapsto> EStatus e)" if "contents w ?k = Some (EStatus e)" for e
    using that by (simp add: fun_upd_idem)
  show ?thesis
    unfolding putStatus_def wp_bindM getStatus_def
    by (rule wp_getDecoded)
      (auto simp: wp_simps statusOf_def statusUpdate_def intro!: wp_Put Q E stale)
qed

lemma wp_deleteStatus [wp_intros]:
  assumes "\<And>w'. contents w' = (contents w)(statusStorageKey (st_Path r) (st_AssociationID r) (st_ObjectID r) := None) \<Longrightarrow> Q () w'"
    and "\<And>e w'. contents w' = contents w \<or>
      contents w' = (contents w)(statusStorageKey (st_Path r) (st_AssociationID r) (st_ObjectID r) := None) \<Longrightarrow> E e w'"
  shows "wp (deleteStatus W r) Q E w"
  unfolding deleteStatus_def by (rule wp_Delete) (use assms in auto)

end

section \<open>The records of a path\<close>

text \<open>Every status entry is the record of its own key, with one-segment association and object ids.\<close>

definition status_inv :: "(string \<Rightarrow> entry option) \<Rightarrow> bool" where
  "status_inv c \<longleftrightarrow> (\<forall>k e. c k = Some e \<and> prefix statusStoragePrefix k \<longrightarrow>
     (\<exists>r. e = EStatus r \<and> k = statusStorageKey (st_Path r) (st_AssociationID r) (st_ObjectID r) \<and>
        validID (st_AssociationID r) \<and> validID (st_ObjectID r)))"

lemma status_prefix [simp]: "prefix statusStoragePrefix (statusStorageKey p a x)"
  by (simp add: statusStorageKey_def)

lemma status_inv_of:
  assumes "status_inv c" and "statusOf c p a x = Some r"
  shows "statusStorageKey p a x = statusStorageKey (st_Path r) (st_AssociationID r) (st_ObjectID r)"
    and "validID (st_AssociationID r)" and "validID (st_ObjectID r)"
proof -
  have "c (statusStorageKey p a x) = Some (EStatus r)"
    using assms(2) by (auto simp: statusOf_def split: option.splits entry.splits)
  then have "\<exists>s. EStatus r = EStatus s \<and>
      statusStorageKey p a x = statusStorageKey (st_Path s) (st_AssociationID s) (st_ObjectID s) \<and>
      validID (st_AssociationID s) \<and> validID (st_ObjectID s)"
    using assms(1) status_prefix unfolding status_inv_def by blast
  then show "statusStorageKey p a x = statusStorageKey (st_Path r) (st_AssociationID r) (st_ObjectID r)"
    "validID (st_AssociationID r)" "validID (st_ObjectID r)" by auto
qed

lemma status_inv_put:
  assumes "status_inv c" and "validID (st_AssociationID r)" and "validID (st_ObjectID r)"
  shows "status_inv (c(statusStorageKey (st_Path r) (st_AssociationID r) (st_ObjectID r) \<mapsto>
    EStatus (statusUpdate r (statusOf c (st_Path r) (st_AssociationID r) (st_ObjectID r)))))"
proof -
  let ?k = "statusStorageKey (st_Path r) (st_AssociationID r) (st_ObjectID r)"
  let ?u = "statusUpdate r (statusOf c (st_Path r) (st_AssociationID r) (st_ObjectID r))"
  have "?k = statusStorageKey (st_Path ?u) (st_AssociationID ?u) (st_ObjectID ?u) \<and>
      validID (st_AssociationID ?u) \<and> validID (st_ObjectID ?u)"
    using assms status_inv_of [OF assms(1)]
    by (auto simp: statusUpdate_def split: option.splits)
  then show ?thesis using assms(1) by (auto simp: status_inv_def)
qed

lemma status_inv_delete: "status_inv c \<Longrightarrow> status_inv (c(k := None))"
  by (auto simp: status_inv_def)

lemma status_inv_other: "same_other c d \<Longrightarrow> status_inv c \<Longrightarrow> status_inv d"
proof -
  assume "same_other c d" "status_inv c"
  moreover have "\<not> isOutboxKey k" if "prefix statusStoragePrefix k" for k
    using that by (auto simp: isOutboxKey_def prefix_def prefix_defs)
  ultimately show ?thesis unfolding status_inv_def by (metis same_otherD)
qed

text \<open>The records of one source path, whatever other paths extend it.\<close>

definition statusesFor :: "(string \<Rightarrow> entry option) \<Rightarrow> string \<Rightarrow> statusRecord set" where
  "statusesFor c p = {r. \<exists>a x. validID a \<and> validID x \<and> statusOf c p a x = Some r}"

lemma status_key_split: "statusStorageKey p a x = (statusStoragePrefix @ p @ ''/'' @ a @ ''/'') @ x"
  by (simp add: statusStorageKey_def)

lemma child_shape:
  assumes "childOf p k = Some x"
  shows "slash \<notin> set x \<or> (\<exists>y. x = y @ [slash] \<and> slash \<notin> set y)"
  using assms
  by (auto simp: childOf_def cutAt_Some cutAt_None split: if_splits option.splits prod.splits)

lemma status_listed:
  assumes inv: "status_inv c" and a: "a \<in> children (statusStoragePrefix @ p @ ''/'') c"
    and x: "x \<in> children q c" and r: "statusOf c p (trimSuffix a ''/'') x = Some r"
  shows "r \<in> statusesFor c p"
proof -
  have a': "slash \<notin> set (trimSuffix a ''/'')"
    using a by (auto simp: children_def trimSuffix_def suffix_def dest!: child_shape)
  note key = status_inv_of [OF inv r]
  have "x \<noteq> [] \<and> slash \<notin> set x"
  proof -
    consider "slash \<notin> set x" | y where "x = y @ [slash]"
      using x by (auto simp: children_def dest!: child_shape)
    then show ?thesis
    proof cases
      case 1
      then have "x = st_ObjectID r"
        using key a' append_sep_inj [of slash x "st_ObjectID r" "statusStoragePrefix @ p @ ''/'' @ trimSuffix a ''/''"
          "statusStoragePrefix @ st_Path r @ ''/'' @ st_AssociationID r"]
        by (simp add: statusStorageKey_def validID_def)
      then show ?thesis using key(3) by (simp add: validID_def)
    next
      case 2
      then have "last (statusStorageKey p (trimSuffix a ''/'') x) = slash" by (simp add: statusStorageKey_def)
      moreover have "last (statusStorageKey (st_Path r) (st_AssociationID r) (st_ObjectID r)) \<in> set (st_ObjectID r)"
        using key(3) by (simp add: statusStorageKey_def validID_def)
      ultimately show ?thesis using key by (simp add: validID_def)
    qed
  qed
  moreover from this have "trimSuffix a ''/'' = st_AssociationID r"
    using key a' status_key_inj [of "trimSuffix a ''/''" "st_AssociationID r" x "st_ObjectID r" p "st_Path r"]
    by (simp add: validID_def)
  ultimately show ?thesis
    using key r by (auto simp: statusesFor_def validID_def)
qed

lemma status_found:
  assumes "status_inv c" and "r \<in> statusesFor c p"
  obtains a x where "a @ ''/'' \<in> children (statusStoragePrefix @ p @ ''/'') c"
    "x \<in> children (statusStoragePrefix @ p @ ''/'' @ a @ ''/'') c" "statusOf c p a x = Some r"
proof -
  from assms(2) obtain a x where ax: "validID a" "validID x" "statusOf c p a x = Some r"
    by (auto simp: statusesFor_def)
  have present: "c (statusStorageKey p a x) \<noteq> None"
    using ax(3) by (simp add: statusOf_Some)
  have "childOf (statusStoragePrefix @ p @ ''/'') (statusStorageKey p a x) = Some (a @ ''/'')"
    using ax(1) by (simp add: childOf_def statusStorageKey_def validID_def)
  then have "a @ ''/'' \<in> children (statusStoragePrefix @ p @ ''/'') c"
    using present by (auto simp: children_def)
  moreover have "x \<in> children (statusStoragePrefix @ p @ ''/'' @ a @ ''/'') c"
    using present ax(2) by (simp add: children_leaf validID_def statusStorageKey_def)
  ultimately show thesis using that ax(3) by blast
qed

context bao_storage begin

lemma wp_listStatusRecordsForPath [wp_intros]:
  assumes inv: "status_inv (contents w)"
    and Q: "\<And>rs w'. contents w' = contents w \<Longrightarrow> set rs = statusesFor (contents w) p \<Longrightarrow> Q rs w'"
    and E: "\<And>e w'. contents w' = contents w \<Longrightarrow> E e w'"
  shows "wp (listStatusRecordsForPath W p) Q E w"
  unfolding listStatusRecordsForPath_def wp_bindM
proof (rule wp_List)
  fix as w1
  let ?c = "contents w"
  let ?found = "\<lambda>a. {r. \<exists>x \<in> children (statusStoragePrefix @ p @ ''/'' @ a) ?c.
    statusOf ?c p (trimSuffix a ''/'') x = Some r}"
  assume as: "set as = children (statusStoragePrefix @ p @ ''/'') ?c" and w1: "contents w1 = ?c"
  have inner: "wp (foldM (\<lambda>rs x. bindM (getStatus W p a x) (\<lambda>r. case r of None \<Rightarrow> retM rs
        | Some rec \<Rightarrow> retM (rs @ [rec]))) acc xs)
      (\<lambda>rs w'. contents w' = ?c \<and> set rs = set acc \<union> {r. \<exists>x \<in> set xs. statusOf ?c p a x = Some r}) E w2"
    if "contents w2 = ?c" for a acc xs w2
  proof (rule wp_foldM [where I = "\<lambda>rs ys w'. contents w' = ?c \<and>
      set rs \<union> {r. \<exists>x \<in> set ys. statusOf ?c p a x = Some r} =
      set acc \<union> {r. \<exists>x \<in> set xs. statusOf ?c p a x = Some r}"], goal_cases)
    case (2 rs x ys w3)
    then show ?case
      unfolding wp_bindM
      by (intro wp_getStatus) (auto simp: wp_simps intro!: E split: option.splits)
  qed (use that in auto)
  show "wp (foldM (\<lambda>records associationID.
         bindM (w_List W (statusStoragePrefix @ p @ ''/'' @ associationID)) (\<lambda>objectIDs.
           foldM (\<lambda>records objectID.
             bindM (getStatus W p (trimSuffix associationID ''/'') objectID) (\<lambda>r.
               case r of None \<Rightarrow> retM records | Some rec \<Rightarrow> retM (records @ [rec]))) records objectIDs))
         [] as) Q E w1"
  proof (rule wp_foldM [where I = "\<lambda>rs ys w'. contents w' = ?c \<and>
      set rs \<union> (\<Union>a \<in> set ys. ?found a) = (\<Union>a \<in> set as. ?found a)"], goal_cases)
    case (2 rs a ys w2)
    show ?case
      unfolding wp_bindM
      by (rule wp_List, rule wp_mono [OF inner]) (use 2 E in \<open>simp_all add: Un_assoc\<close>)
  next
    case (3 rs w2)
    have "(\<Union>a \<in> set as. ?found a) = statusesFor ?c p"
    proof
      show "(\<Union>a \<in> set as. ?found a) \<subseteq> statusesFor ?c p"
        using status_listed [OF inv] as by blast
      show "statusesFor ?c p \<subseteq> (\<Union>a \<in> set as. ?found a)"
      proof
        fix r assume "r \<in> statusesFor ?c p"
        then obtain a x where ax: "a @ ''/'' \<in> set as"
          "x \<in> children (statusStoragePrefix @ p @ ''/'' @ a @ ''/'') ?c" "statusOf ?c p a x = Some r"
          using status_found [OF inv] as by blast
        have "trimSuffix (a @ ''/'') ''/'' = a" by (simp add: trimSuffix_def)
        with ax show "r \<in> (\<Union>a \<in> set as. ?found a)" by force
      qed
    qed
    with 3 show ?case by (intro Q) auto
  qed (use w1 in auto)
qed (use E in auto)

end

end
