(* ===== verification/Storage_Source.thy ===== *)
theory Storage_Source
  imports Storage_Status
begin

text \<open>
  Source secrets: their metadata, version records and pending enqueue intents
  (\<open>internal/backend/storage_source.go\<close>, with \<open>commitSourceMetadata\<close> and \<open>putSourceVersionRecord\<close>
  of \<open>path_data.go\<close>). Retention drops the versions that \<open>max_versions\<close> no longer covers, but never
  one that a queued upsert still has to deliver.
\<close>

section \<open>Metadata and versions\<close>

definition normalizeMetadataDefaults :: "metadataRecord \<Rightarrow> metadataRecord" where
  "normalizeMetadataDefaults m =
     (let m = (if md_MaxVersions m = 0 then m \<lparr> md_MaxVersions := defaultMaxVersions \<rparr> else m)
      in if md_DeleteVersionAfter m = []
         then m \<lparr> md_DeleteVersionAfter := defaultDeleteVersionAfter \<rparr> else m)"

definition newMetadataRecord :: "'w world \<Rightarrow> ('w, metadataRecord) io" where
  "newMetadataRecord W =
     bindM (bestEffortRuntimeID W ''gen'') (\<lambda>generation.
       retM \<lparr> md_Generation = generation, md_CurrentVersion = 0, md_OldestVersion = 0,
              md_MaxVersions = defaultMaxVersions, md_CASRequired = False,
              md_DeleteVersionAfter = defaultDeleteVersionAfter, md_SourceSyncEnabled = False,
              md_CustomMetadata = [], md_Versions = [], md_UpdatedTime = [] \<rparr>)"

definition getMetadata :: "'w world \<Rightarrow> string \<Rightarrow> ('w, metadataRecord option) io" where
  "getMetadata W path =
     bindM (getDecoded W (metadataStorageKey path) decodeMetadata) (\<lambda>m.
       retM (map_option normalizeMetadataDefaults m))"

definition putMetadata :: "'w world \<Rightarrow> string \<Rightarrow> metadataRecord \<Rightarrow> ('w, unit) io" where
  "putMetadata W path m = w_Put W (metadataStorageKey path) (EMetadata m)"

definition deleteMetadata :: "'w world \<Rightarrow> string \<Rightarrow> ('w, unit) io" where
  "deleteMetadata W path = w_Delete W (metadataStorageKey path)"

definition getVersion :: "'w world \<Rightarrow> string \<Rightarrow> int \<Rightarrow> ('w, versionRecord option) io" where
  "getVersion W path version = getDecoded W (versionStorageKey path version) decodeVersion"

definition putVersion :: "'w world \<Rightarrow> string \<Rightarrow> versionRecord \<Rightarrow> ('w, unit) io" where
  "putVersion W path r = w_Put W (versionStorageKey path (vr_Version r)) (EVersion r)"

definition deleteVersion :: "'w world \<Rightarrow> string \<Rightarrow> int \<Rightarrow> ('w, unit) io" where
  "deleteVersion W path version = w_Delete W (versionStorageKey path version)"

definition listVersionKeys :: "'w world \<Rightarrow> string \<Rightarrow> ('w, string list) io" where
  "listVersionKeys W path = w_List W (versionStoragePrefix @ path @ ''/versions/'')"

definition metadataVersionNumbers :: "metadataRecord \<Rightarrow> int list" where
  "metadataVersionNumbers m = sort (List.map_filter (\<lambda>(k, _). atoi k) (md_Versions m))"

definition oldestMetadataVersion :: "metadataRecord \<Rightarrow> int" where
  "oldestMetadataVersion m =
     (case metadataVersionNumbers m of [] \<Rightarrow> 0 | v # _ \<Rightarrow> v)"

definition queuedUpsertVersionsForPath :: "'w world \<Rightarrow> string \<Rightarrow> ('w, int list) io" where
  "queuedUpsertVersionsForPath W path =
     bindM (listQueuedOutboxIDsForPath W path) (\<lambda>ids.
       foldM (\<lambda>versions i.
         bindM (getOutbox W i) (\<lambda>r.
           case r of
             None \<Rightarrow> retM versions
           | Some rec \<Rightarrow>
               retM (if ob_Type rec \<noteq> OperationTypeUpsert then versions else List.insert (ob_Version rec) versions)))
         [] ids)"

text \<open>\<open>atoiE\<close> is \<open>strconv.Atoi\<close> with its error.\<close>

definition atoiE :: "string \<Rightarrow> gerr + int" where
  "atoiE s = (case atoi s of Some i \<Rightarrow> Inr i | None \<Rightarrow> Inl (Errorf ''strconv.Atoi: parsing %q'' [s]))"

definition pruneExcessVersions :: "'w world \<Rightarrow> string \<Rightarrow> metadataRecord \<Rightarrow> ('w, metadataRecord) io" where
  "pruneExcessVersions W path m =
     (if md_MaxVersions m \<le> 0 \<or> md_CurrentVersion m = 0 then retM m
      else let keepFrom = md_CurrentVersion m - md_MaxVersions m + 1
      in if keepFrom \<le> 1 then retM (m \<lparr> md_OldestVersion := oldestMetadataVersion m \<rparr>)
         else bindM (queuedUpsertVersionsForPath W path) (\<lambda>protected.
           bindM (foldM (\<lambda>m version.
             bindM (liftE (atoiE version)) (\<lambda>versionNumber.
               if keepFrom \<le> versionNumber then retM m
               else if versionNumber \<in> set protected then retM m
               else bindM (deleteVersion W path versionNumber) (\<lambda>_.
                 retM (m \<lparr> md_Versions := AList.delete version (md_Versions m) \<rparr>))))
             m (map fst (md_Versions m))) (\<lambda>m.
           retM (m \<lparr> md_OldestVersion := oldestMetadataVersion m \<rparr>))))"

text \<open>The metadata with \<open>nextVersion\<close> as its current version.\<close>

definition withCurrentVersion :: "metadataRecord \<Rightarrow> int \<Rightarrow> string \<Rightarrow> metadataRecord" where
  "withCurrentVersion m nextVersion now =
     (let m = (if md_OldestVersion m = 0 then m \<lparr> md_OldestVersion := nextVersion \<rparr> else m)
      in m \<lparr> md_CurrentVersion := nextVersion, md_UpdatedTime := now,
             md_Versions := AList.update (versionMetadataKey nextVersion)
               \<lparr> vm_CreatedTime = now, vm_DeletionTime = [], vm_Destroyed = False \<rparr> (md_Versions m) \<rparr>)"

definition commitSourceMetadata ::
    "'w world \<Rightarrow> string \<Rightarrow> metadataRecord \<Rightarrow> int \<Rightarrow> string \<Rightarrow> ('w, metadataRecord) io" where
  "commitSourceMetadata W path m nextVersion now =
     bindM (pruneExcessVersions W path (withCurrentVersion m nextVersion now)) (\<lambda>m.
     bindM (putMetadata W path m) (\<lambda>_. retM m))"

definition putSourceVersionRecord :: "'w world \<Rightarrow> string \<Rightarrow> int \<Rightarrow> secretPayload \<Rightarrow> string \<Rightarrow> ('w, unit) io" where
  "putSourceVersionRecord W path nextVersion payload now =
     putVersion W path \<lparr> vr_Version = nextVersion, vr_CreatedTime = now, vr_Data = payload,
       vr_DeletionTime = [], vr_Destroyed = False \<rparr>"

section \<open>Enqueue intents\<close>

definition putEnqueueIntent :: "'w world \<Rightarrow> enqueueIntentRecord \<Rightarrow> ('w, unit) io" where
  "putEnqueueIntent W r = w_Put W (enqueueIntentStorageKey (in_Path r) (in_Version r)) (EIntent r)"

definition getEnqueueIntent :: "'w world \<Rightarrow> string \<Rightarrow> int \<Rightarrow> ('w, enqueueIntentRecord option) io" where
  "getEnqueueIntent W path version = getDecoded W (enqueueIntentStorageKey path version) decodeIntent"

definition deleteEnqueueIntent :: "'w world \<Rightarrow> string \<Rightarrow> int \<Rightarrow> ('w, unit) io" where
  "deleteEnqueueIntent W path version = w_Delete W (enqueueIntentStorageKey path version)"

definition listEnqueueIntents :: "'w world \<Rightarrow> ('w, enqueueIntentRecord list) io" where
  "listEnqueueIntents W =
     bindM (w_Collect W enqueueIntentStoragePrefix) (\<lambda>keys.
       foldM (\<lambda>records key.
         bindM (getDecoded W key decodeIntent) (\<lambda>r.
           case r of None \<Rightarrow> retM records | Some rec \<Rightarrow> retM (records @ [rec]))) [] keys)"

section \<open>Removing a source path\<close>

definition deleteSourcePath :: "'w world \<Rightarrow> string \<Rightarrow> ('w, unit) io" where
  "deleteSourcePath W path =
     bindM (listOutboxIDsForState W outboxStateFailedTerminal) (\<lambda>terminalIDs.
     bindM (eachM terminalIDs (\<lambda>i.
       bindM (getOutbox W i) (\<lambda>r.
         case r of
           None \<Rightarrow> retM ()
         | Some rec \<Rightarrow> if ob_Path rec \<noteq> path then retM () else deleteOutbox W rec))) (\<lambda>_.
     bindM (listVersionKeys W path) (\<lambda>versionKeys.
     bindM (eachM versionKeys (\<lambda>versionKey.
       bindM (liftE (atoiE versionKey)) (\<lambda>version. deleteVersion W path version))) (\<lambda>_.
     bindM (listStatusRecordsForPath W path) (\<lambda>statusRecords.
     bindM (eachM statusRecords (deleteStatus W)) (\<lambda>_.
       deleteMetadata W path))))))"

section \<open>Keys\<close>

lemma metadata_key_inj [simp]: "metadataStorageKey p = metadataStorageKey q \<longleftrightarrow> p = q"
  by (simp add: metadataStorageKey_def)

lemma version_key_inj [simp]: "versionStorageKey p v = versionStorageKey q u \<longleftrightarrow> p = q \<and> v = u"
  using append_sep_inj [of slash "itoa v" "itoa u" "p @ ''/versions''" "q @ ''/versions''"]
  by (auto simp: versionStorageKey_def itoa_no_slash itoa_inj)

lemma intent_key_inj [simp]:
  "enqueueIntentStorageKey p v = enqueueIntentStorageKey q u \<longleftrightarrow> p = q \<and> v = u"
  using append_sep_inj [of slash "itoa v" "itoa u" p q]
  by (auto simp: enqueueIntentStorageKey_def itoa_no_slash itoa_inj)

lemmas component_key_defs = metadataStorageKey_def versionStorageKey_def enqueueIntentStorageKey_def
  destinationStorageKey_def destinationSensitiveStorageKey_def
  destinationSensitiveVersionStorageKey_def destinationSensitiveVersionStoragePrefix_def
  associationStorageKey_def associationByDestinationStorageKey_def associationNameStorageKey_def
  statusStorageKey_def outboxStorageKey_def

lemma component_keys_disjoint [simp]:
  "metadataStorageKey p \<noteq> versionStorageKey q v" "versionStorageKey q v \<noteq> metadataStorageKey p"
  "metadataStorageKey p \<noteq> enqueueIntentStorageKey q v" "enqueueIntentStorageKey q v \<noteq> metadataStorageKey p"
  "metadataStorageKey p \<noteq> statusStorageKey q a x" "statusStorageKey q a x \<noteq> metadataStorageKey p"
  "metadataStorageKey p \<noteq> associationStorageKey q i" "associationStorageKey q i \<noteq> metadataStorageKey p"
  "metadataStorageKey p \<noteq> configPath" "configPath \<noteq> metadataStorageKey p"
  "versionStorageKey q v \<noteq> enqueueIntentStorageKey p u" "enqueueIntentStorageKey p u \<noteq> versionStorageKey q v"
  "versionStorageKey q v \<noteq> statusStorageKey p a x" "statusStorageKey p a x \<noteq> versionStorageKey q v"
  "versionStorageKey q v \<noteq> associationStorageKey p i" "associationStorageKey p i \<noteq> versionStorageKey q v"
  "versionStorageKey q v \<noteq> configPath" "configPath \<noteq> versionStorageKey q v"
  "enqueueIntentStorageKey q v \<noteq> statusStorageKey p a x" "statusStorageKey p a x \<noteq> enqueueIntentStorageKey q v"
  "enqueueIntentStorageKey q v \<noteq> associationStorageKey p i" "associationStorageKey p i \<noteq> enqueueIntentStorageKey q v"
  "enqueueIntentStorageKey q v \<noteq> configPath" "configPath \<noteq> enqueueIntentStorageKey q v"
  "statusStorageKey p a x \<noteq> associationStorageKey q i" "associationStorageKey q i \<noteq> statusStorageKey p a x"
  "statusStorageKey p a x \<noteq> configPath" "configPath \<noteq> statusStorageKey p a x"
  "associationStorageKey p i \<noteq> configPath" "configPath \<noteq> associationStorageKey p i"
  by (simp_all add: component_key_defs prefix_defs)

lemma outbox_record_key_disjoint [simp]:
  "outboxStorageKey i \<noteq> metadataStorageKey p" "outboxStorageKey i \<noteq> versionStorageKey p v"
  "outboxStorageKey i \<noteq> enqueueIntentStorageKey p v" "outboxStorageKey i \<noteq> statusStorageKey p a x"
  "outboxStorageKey i \<noteq> associationStorageKey p j" "outboxStorageKey i \<noteq> configPath"
  by (simp_all add: component_key_defs prefix_defs)

section \<open>Laws\<close>

definition metadataOf :: "(string \<Rightarrow> entry option) \<Rightarrow> string \<Rightarrow> metadataRecord option" where
  "metadataOf c p = (case c (metadataStorageKey p) of
      Some (EMetadata m) \<Rightarrow> Some (normalizeMetadataDefaults m) | _ \<Rightarrow> None)"

definition versionOf :: "(string \<Rightarrow> entry option) \<Rightarrow> string \<Rightarrow> int \<Rightarrow> versionRecord option" where
  "versionOf c p v = (case c (versionStorageKey p v) of Some (EVersion r) \<Rightarrow> Some r | _ \<Rightarrow> None)"

definition intentOf :: "(string \<Rightarrow> entry option) \<Rightarrow> string \<Rightarrow> int \<Rightarrow> enqueueIntentRecord option" where
  "intentOf c p v = (case c (enqueueIntentStorageKey p v) of Some (EIntent r) \<Rightarrow> Some r | _ \<Rightarrow> None)"

lemma normalizeMetadata_simps [simp]:
  "md_CurrentVersion (normalizeMetadataDefaults m) = md_CurrentVersion m"
  "md_Versions (normalizeMetadataDefaults m) = md_Versions m"
  "md_Generation (normalizeMetadataDefaults m) = md_Generation m"
  "md_OldestVersion (normalizeMetadataDefaults m) = md_OldestVersion m"
  "normalizeMetadataDefaults (normalizeMetadataDefaults m) = normalizeMetadataDefaults m"
  "md_DeleteVersionAfter (normalizeMetadataDefaults m) \<noteq> []"
  "md_MaxVersions (normalizeMetadataDefaults m) \<noteq> 0"
  by (auto simp: normalizeMetadataDefaults_def Let_def defaultMaxVersions_def defaultDeleteVersionAfter_def)

text \<open>The versions of a path that a queued upsert still has to deliver.\<close>

definition queuedUpsertVersions :: "(string \<Rightarrow> entry option) \<Rightarrow> string \<Rightarrow> int set" where
  "queuedUpsertVersions c p = {v. \<exists>i r. queueOf c i = Some r \<and> ob_Path r = p \<and>
     isQueuedOutboxState (ob_State r) \<and> ob_Type r = OperationTypeUpsert \<and> ob_Version r = v}"

context bao_storage begin

lemma wp_getMetadata [wp_intros]:
  assumes "\<And>w'. contents w' = contents w \<Longrightarrow> Q (metadataOf (contents w) p) w'"
    and "\<And>e w'. contents w' = contents w \<Longrightarrow> E e w'"
  shows "wp (getMetadata W p) Q E w"
  unfolding getMetadata_def
  by (simp, rule wp_getDecoded) (use assms in \<open>auto simp: metadataOf_def\<close>)

lemma wp_getVersion [wp_intros]:
  assumes "\<And>w'. contents w' = contents w \<Longrightarrow> Q (versionOf (contents w) p v) w'"
    and "\<And>e w'. contents w' = contents w \<Longrightarrow> E e w'"
  shows "wp (getVersion W p v) Q E w"
  unfolding getVersion_def
  by (rule wp_getDecoded) (use assms in \<open>auto simp: versionOf_def\<close>)

lemma wp_getEnqueueIntent [wp_intros]:
  assumes "\<And>w'. contents w' = contents w \<Longrightarrow> Q (intentOf (contents w) p v) w'"
    and "\<And>e w'. contents w' = contents w \<Longrightarrow> E e w'"
  shows "wp (getEnqueueIntent W p v) Q E w"
  unfolding getEnqueueIntent_def
  by (rule wp_getDecoded) (use assms in \<open>auto simp: intentOf_def\<close>)

lemma wp_queuedUpsertVersionsForPath [wp_intros]:
  assumes inv: "outbox_inv (contents w)" and "p \<noteq> []"
    and Q: "\<And>vs w'. contents w' = contents w \<Longrightarrow>
      set vs = queuedUpsertVersions (contents w) p \<Longrightarrow> Q vs w'"
    and E: "\<And>e w'. contents w' = contents w \<Longrightarrow> E e w'"
  shows "wp (queuedUpsertVersionsForPath W p) Q E w"
proof -
  let ?g = "\<lambda>vs i r. if ob_Type r \<noteq> OperationTypeUpsert then vs else List.insert (ob_Version r) vs"
  have loop: "set (foldl (\<lambda>acc i. case queueOf (contents w) i of None \<Rightarrow> acc | Some r \<Rightarrow> ?g acc i r) acc ids) =
      set acc \<union> {v. \<exists>i \<in> set ids. \<exists>r. queueOf (contents w) i = Some r \<and> ob_Type r = OperationTypeUpsert \<and>
        ob_Version r = v}" for acc ids
    by (induction ids arbitrary: acc) (auto split: option.splits)
  have eq: "{v. \<exists>i \<in> queueIDs (contents w) (\<lambda>r. ob_Path r = p \<and> isQueuedOutboxState (ob_State r)).
      \<exists>r. queueOf (contents w) i = Some r \<and> ob_Type r = OperationTypeUpsert \<and> ob_Version r = v} =
      queuedUpsertVersions (contents w) p"
    by (force simp: queuedUpsertVersions_def)
  show ?thesis
    unfolding queuedUpsertVersionsForPath_def wp_bindM
    by (rule wp_listQueuedOutboxIDsForPath [OF inv assms(2)],
        rule queue.wp_read_loop [where g = ?g])
      (use inv E in \<open>simp_all add: loop eq Q\<close>)
qed

end

section \<open>Retention\<close>

text \<open>Version numbers are stored in decimal, once each.\<close>

definition metadataWF :: "metadataRecord \<Rightarrow> bool" where
  "metadataWF m \<longleftrightarrow> distinct (map fst (md_Versions m)) \<and>
     (\<forall>k \<in> set (map fst (md_Versions m)). \<exists>v. k = versionMetadataKey v \<and> inInt64 v)"

definition versionNumbers :: "metadataRecord \<Rightarrow> int set" where
  "versionNumbers m = {v. versionMetadataKey v \<in> set (map fst (md_Versions m))}"

lemma versionMetadataKey_inj [simp]: "versionMetadataKey u = versionMetadataKey v \<longleftrightarrow> u = v"
  by (simp add: versionMetadataKey_def itoa_inj)

lemma metadataWF_key:
  assumes "metadataWF m" and "k \<in> set (map fst (md_Versions m))"
  obtains v where "k = versionMetadataKey v" "atoi k = Some v" "v \<in> versionNumbers m"
proof -
  from assms obtain v where v: "k = versionMetadataKey v" "inInt64 v"
    unfolding metadataWF_def by blast
  with assms(2) show thesis
    by (intro that [of v]) (simp_all add: versionNumbers_def versionMetadataKey_def atoi_itoa)
qed

lemma metadataWF_update:
  assumes "metadataWF m" and "inInt64 v"
  shows "metadataWF (m \<lparr> md_Versions := AList.update (versionMetadataKey v) x (md_Versions m) \<rparr>)"
    and "versionNumbers (m \<lparr> md_Versions := AList.update (versionMetadataKey v) x (md_Versions m) \<rparr>) =
      insert v (versionNumbers m)"
  using assms distinct_update [of "md_Versions m" "versionMetadataKey v" x]
  by (auto simp: metadataWF_def versionNumbers_def update_keys)

lemma delete_subset: "set (AList.delete k xs) \<subseteq> set xs"
  by (auto simp: AList.delete_eq)

lemma metadataWF_delete:
  assumes "metadataWF m"
  shows "metadataWF (m \<lparr> md_Versions := AList.delete k (md_Versions m) \<rparr>)"
    and "versionNumbers (m \<lparr> md_Versions := AList.delete (versionMetadataKey v) (md_Versions m) \<rparr>) =
      versionNumbers m - {v}"
  using assms distinct_delete [of "md_Versions m" k]
  by (auto simp: metadataWF_def versionNumbers_def delete_keys)

text \<open>The smallest version number, 0 if there is none.\<close>

lemma oldestMetadataVersion_Min:
  assumes "metadataWF m"
  shows "oldestMetadataVersion m = (if versionNumbers m = {} then 0 else Min (versionNumbers m))"
proof -
  have set: "set (metadataVersionNumbers m) = versionNumbers m"
  proof (rule set_eqI)
    fix v
    show "v \<in> set (metadataVersionNumbers m) \<longleftrightarrow> v \<in> versionNumbers m"
      using assms
      by (force simp: metadataVersionNumbers_def metadataWF_def versionNumbers_def versionMetadataKey_def
          List.map_filter_def atoi_itoa itoa_inj)
  qed
  show ?thesis
  proof (cases "metadataVersionNumbers m")
    case Nil
    then show ?thesis using set by (simp add: oldestMetadataVersion_def)
  next
    case (Cons v vs)
    have "sorted (v # vs)" using Cons by (metis metadataVersionNumbers_def sorted_sort)
    then have "Min (set (v # vs)) = v" by (auto intro!: Min_eqI)
    then show ?thesis using Cons set by (auto simp: oldestMetadataVersion_def)
  qed
qed

definition retained :: "(string \<Rightarrow> entry option) \<Rightarrow> string \<Rightarrow> metadataRecord \<Rightarrow> int set" where
  "retained c p m =
     (if md_MaxVersions m \<le> 0 \<or> md_CurrentVersion m = 0 then versionNumbers m
      else {v \<in> versionNumbers m. md_CurrentVersion m - md_MaxVersions m + 1 \<le> v \<or>
              md_CurrentVersion m - md_MaxVersions m + 1 \<le> 1 \<or> v \<in> queuedUpsertVersions c p})"

text \<open>Only the given version records are gone.\<close>

definition dropVersions :: "(string \<Rightarrow> entry option) \<Rightarrow> string \<Rightarrow> int set \<Rightarrow> string \<Rightarrow> entry option" where
  "dropVersions c p V k = (if \<exists>v \<in> V. k = versionStorageKey p v then None else c k)"

lemma dropVersions_empty [simp]: "dropVersions c p {} = c"
  by (simp add: dropVersions_def fun_eq_iff)

lemma dropVersions_insert:
  "dropVersions c p (insert v V) = (dropVersions c p V)(versionStorageKey p v := None)"
  by (auto simp: dropVersions_def fun_eq_iff)

lemma dropVersions_other [simp]:
  "isOutboxKey k \<Longrightarrow> dropVersions c p V k = c k"
  by (auto simp: dropVersions_def)

lemma dropVersions_components [simp]:
  "queueOf (dropVersions c p V) = queueOf c" "metadataOf (dropVersions c p V) = metadataOf c"
  "statusOf (dropVersions c p V) = statusOf c"
  by (auto simp: queueOf_def metadataOf_def statusOf_def dropVersions_def fun_eq_iff
      split: option.splits entry.splits)

context bao_storage begin

lemma wp_deleteVersion [wp_intros]:
  assumes "\<And>w'. contents w' = (contents w)(versionStorageKey p v := None) \<Longrightarrow> Q () w'"
    and "\<And>e w'. contents w' = contents w \<or> contents w' = (contents w)(versionStorageKey p v := None) \<Longrightarrow> E e w'"
  shows "wp (deleteVersion W p v) Q E w"
  unfolding deleteVersion_def by (rule wp_Delete) (use assms in auto)

lemma wp_pruneExcessVersions [wp_intros]:
  assumes inv: "outbox_inv (contents w)" and wf: "metadataWF m" and p: "p \<noteq> []"
    and Q: "\<And>m' w'. contents w' = dropVersions (contents w) p (versionNumbers m - retained (contents w) p m) \<Longrightarrow>
      metadataWF m' \<Longrightarrow> versionNumbers m' = retained (contents w) p m \<Longrightarrow>
      set (md_Versions m') \<subseteq> set (md_Versions m) \<Longrightarrow>
      (\<exists>vs ov. m' = m \<lparr> md_Versions := vs, md_OldestVersion := ov \<rparr>) \<Longrightarrow>
      md_MaxVersions m \<le> 0 \<or> md_CurrentVersion m = 0 \<or> md_OldestVersion m' = oldestMetadataVersion m' \<Longrightarrow> Q m' w'"
    and E: "\<And>e V w'. V \<subseteq> versionNumbers m - retained (contents w) p m \<Longrightarrow>
      contents w' = dropVersions (contents w) p V \<Longrightarrow> E e w'"
  shows "wp (pruneExcessVersions W p m) Q E w"
proof -
  let ?c = "contents w" and ?keep = "md_CurrentVersion m - md_MaxVersions m + 1"
  show ?thesis
  proof (cases "md_MaxVersions m \<le> 0 \<or> md_CurrentVersion m = 0")
    case True
    have "\<exists>vs ov. m = m \<lparr> md_Versions := vs, md_OldestVersion := ov \<rparr>"
      by (rule exI [of _ "md_Versions m"], rule exI [of _ "md_OldestVersion m"]) simp
    moreover have "retained ?c p m = versionNumbers m" using True by (simp add: retained_def)
    ultimately have "Q m w" using True
      by (intro Q wf) (simp_all only: Diff_cancel dropVersions_empty subset_refl, blast)
    then show ?thesis using True by (simp add: pruneExcessVersions_def)
  next
    case active: False
    show ?thesis
    proof (cases "?keep \<le> 1")
      case True
      have "\<exists>vs ov. m \<lparr> md_OldestVersion := x \<rparr> = m \<lparr> md_Versions := vs, md_OldestVersion := ov \<rparr>" for x
        by (rule exI [of _ "md_Versions m"], rule exI [of _ x]) simp
      moreover have "metadataWF (m \<lparr> md_OldestVersion := x \<rparr>)"
        "versionNumbers (m \<lparr> md_OldestVersion := x \<rparr>) = versionNumbers m"
        "oldestMetadataVersion (m \<lparr> md_OldestVersion := x \<rparr>) = oldestMetadataVersion m" for x
        using wf by (simp_all add: metadataWF_def versionNumbers_def oldestMetadataVersion_def metadataVersionNumbers_def)
      ultimately show ?thesis
        using active True wf by (auto simp: pruneExcessVersions_def retained_def Let_def intro!: Q)
    next
      case False
      let ?step = "\<lambda>protected m' version.
             bindM (liftE (atoiE version)) (\<lambda>versionNumber.
               if ?keep \<le> versionNumber then retM m'
               else if versionNumber \<in> set protected then retM m'
               else bindM (deleteVersion W p versionNumber) (\<lambda>_.
                 retM (m' \<lparr> md_Versions := AList.delete version (md_Versions m') \<rparr>)))"
      have ret: "retained ?c p m = {v \<in> versionNumbers m. ?keep \<le> v \<or> v \<in> queuedUpsertVersions ?c p}"
        using active False by (simp add: retained_def)
      show ?thesis
        unfolding pruneExcessVersions_def
        using active False
      proof (simp add: Let_def, intro wp_queuedUpsertVersionsForPath [OF inv p], goal_cases)
        case (1 protected w1)
        have prot: "set protected = queuedUpsertVersions ?c p" using 1 by simp
        let ?gone = "\<lambda>ks. {v. versionMetadataKey v \<in> set (map fst (md_Versions m)) - set ks \<and>
          \<not> (?keep \<le> v \<or> v \<in> queuedUpsertVersions ?c p)}"
        show ?case
          unfolding wp_bindM
        proof (rule wp_foldM [where I = "\<lambda>m' ks w'. metadataWF m' \<and> distinct ks \<and>
            set ks \<subseteq> set (map fst (md_Versions m)) \<and> contents w' = dropVersions ?c p (?gone ks) \<and>
            versionNumbers m' = versionNumbers m - ?gone ks \<and> set (md_Versions m') \<subseteq> set (md_Versions m) \<and>
            (\<exists>vs. m' = m \<lparr> md_Versions := vs \<rparr>)"], goal_cases)
          case 1
          have "\<exists>vs. m = m \<lparr> md_Versions := vs \<rparr>" by (rule exI [of _ "md_Versions m"]) simp
          moreover have "distinct (map fst (md_Versions m))" using wf by (simp add: metadataWF_def)
          ultimately show ?case using wf \<open>contents w1 = ?c\<close> by simp
        next
          case (2 m' k ks w2)
          then have "k \<in> set (map fst (md_Versions m))" by simp
          then obtain v where v: "k = versionMetadataKey v" "atoi k = Some v" "v \<in> versionNumbers m"
            using metadataWF_key [OF wf] by blast
          have c2: "contents w2 = dropVersions ?c p (?gone (k # ks))" using 2 by blast
          have knk: "k \<notin> set ks" using 2 by simp
          have skip: "?gone (k # ks) = ?gone ks" if "?keep \<le> v \<or> v \<in> queuedUpsertVersions ?c p"
            using that v(1) by auto
          have del: "?gone ks = insert v (?gone (k # ks))" if "\<not> (?keep \<le> v \<or> v \<in> queuedUpsertVersions ?c p)"
            using that v knk by (auto simp: versionNumbers_def)
          have sub: "?gone ks \<subseteq> versionNumbers m - retained ?c p m" for ks
            by (auto simp: ret versionNumbers_def)
          have step: "wp (deleteVersion W p v)
              (\<lambda>_. wp (retM (m' \<lparr> md_Versions := AList.delete k (md_Versions m') \<rparr>))
                (\<lambda>m' w'. metadataWF m' \<and> distinct ks \<and>
            set ks \<subseteq> set (map fst (md_Versions m)) \<and> contents w' = dropVersions ?c p (?gone ks) \<and>
            versionNumbers m' = versionNumbers m - ?gone ks \<and> set (md_Versions m') \<subseteq> set (md_Versions m) \<and>
            (\<exists>vs. m' = m \<lparr> md_Versions := vs \<rparr>)) E) E w2"
            if nk: "\<not> (?keep \<le> v \<or> v \<in> queuedUpsertVersions ?c p)"
          proof (rule wp_deleteVersion, goal_cases)
            case (1 w3)
            have "set (AList.delete k (md_Versions m')) \<subseteq> set (md_Versions m)"
              using 2 delete_subset [of k "md_Versions m'"] by blast
            with 1 show ?case
              using 2 del [OF nk] metadataWF_delete [of m'] v(1)
              by (auto simp: dropVersions_insert)
          next
            case (2 e w3)
            then show ?case
            proof
              assume "contents w3 = contents w2"
              then show ?thesis by (intro E [OF sub [of "k # ks"]]) (simp only: c2)
            next
              assume "contents w3 = (contents w2)(versionStorageKey p v := None)"
              then show ?thesis
                by (intro E [OF sub [of ks]]) (simp only: c2 del [OF nk] dropVersions_insert)
            qed
          qed
          show ?case
            using 2 skip step v(2) by (auto simp: atoiE_def prot wp_if)
        next
          case (3 m' w2)
          then obtain vs where vs: "m' = m \<lparr> md_Versions := vs \<rparr>" by blast
          have gone: "?gone [] = versionNumbers m - retained ?c p m" by (auto simp: ret versionNumbers_def)
          have same: "metadataWF (m' \<lparr> md_OldestVersion := x \<rparr>) = metadataWF m'"
            "versionNumbers (m' \<lparr> md_OldestVersion := x \<rparr>) = versionNumbers m'"
            "oldestMetadataVersion (m' \<lparr> md_OldestVersion := x \<rparr>) = oldestMetadataVersion m'" for x
            by (simp_all add: metadataWF_def versionNumbers_def oldestMetadataVersion_def metadataVersionNumbers_def)
          have sub: "retained ?c p m \<subseteq> versionNumbers m" by (auto simp: ret)
          have "Q (m' \<lparr> md_OldestVersion := oldestMetadataVersion m' \<rparr>) w2"
          proof (rule Q)
            show "contents w2 = dropVersions ?c p (versionNumbers m - retained ?c p m)"
              using 3 by (simp only: gone)
            show "versionNumbers (m' \<lparr> md_OldestVersion := oldestMetadataVersion m' \<rparr>) = retained ?c p m"
              using 3 sub by (simp only: gone same) blast
            show "\<exists>vs ov. m' \<lparr> md_OldestVersion := oldestMetadataVersion m' \<rparr> =
                m \<lparr> md_Versions := vs, md_OldestVersion := ov \<rparr>"
              by (rule exI [of _ vs], rule exI [of _ "oldestMetadataVersion m'"]) (simp add: vs)
          qed (use 3 in \<open>simp_all add: same\<close>)
          then show ?case by simp
        qed
      next
        case (2 e w1)
        then show ?case using E [of "{}"] by simp
      qed
    qed
  qed
qed

end

lemma withCurrentVersion_simps [simp]:
  "md_CurrentVersion (withCurrentVersion m v now) = v" "md_UpdatedTime (withCurrentVersion m v now) = now"
  "md_MaxVersions (withCurrentVersion m v now) = md_MaxVersions m"
  "md_Generation (withCurrentVersion m v now) = md_Generation m"
  "md_CASRequired (withCurrentVersion m v now) = md_CASRequired m"
  "md_SourceSyncEnabled (withCurrentVersion m v now) = md_SourceSyncEnabled m"
  "md_DeleteVersionAfter (withCurrentVersion m v now) = md_DeleteVersionAfter m"
  "md_CustomMetadata (withCurrentVersion m v now) = md_CustomMetadata m"
  "md_Versions (withCurrentVersion m v now) = AList.update (versionMetadataKey v)
     \<lparr> vm_CreatedTime = now, vm_DeletionTime = [], vm_Destroyed = False \<rparr> (md_Versions m)"
  by (simp_all add: withCurrentVersion_def Let_def)

lemma withCurrentVersion_WF:
  assumes "metadataWF m" and "inInt64 v"
  shows "metadataWF (withCurrentVersion m v now)"
    and "versionNumbers (withCurrentVersion m v now) = insert v (versionNumbers m)"
  using metadataWF_update [OF assms, of "\<lparr> vm_CreatedTime = now, vm_DeletionTime = [], vm_Destroyed = False \<rparr>"]
  by (simp_all add: metadataWF_def versionNumbers_def)

text \<open>A version committed under a positive or unset \<open>max_versions\<close> is itself retained.\<close>

lemma retained_current:
  assumes "metadataWF m" and "inInt64 v"
  shows "v \<in> retained c p (withCurrentVersion m v now)"
  using assms by (auto simp: retained_def withCurrentVersion_WF)

context bao_storage begin

lemma wp_commitSourceMetadata [wp_intros]:
  assumes inv: "outbox_inv (contents w)" and wf: "metadataWF m" and p: "p \<noteq> []" and v: "inInt64 v"
    and m1: "m1 = withCurrentVersion m v now"
    and Q: "\<And>m' w'. contents w' = (dropVersions (contents w) p (versionNumbers m1 - retained (contents w) p m1))
        (metadataStorageKey p \<mapsto> EMetadata m') \<Longrightarrow>
      metadataWF m' \<Longrightarrow> versionNumbers m' = retained (contents w) p m1 \<Longrightarrow>
      set (md_Versions m') \<subseteq> set (md_Versions m1) \<Longrightarrow>
      (\<exists>vs ov. m' = m1 \<lparr> md_Versions := vs, md_OldestVersion := ov \<rparr>) \<Longrightarrow> Q m' w'"
    and E: "\<And>e V w'. V \<subseteq> versionNumbers m1 - retained (contents w) p m1 \<Longrightarrow>
      contents w' = dropVersions (contents w) p V \<Longrightarrow> E e w'"
    and E': "\<And>e m' w'. contents w' = (dropVersions (contents w) p (versionNumbers m1 - retained (contents w) p m1))
        (metadataStorageKey p \<mapsto> EMetadata m') \<Longrightarrow> metadataWF m' \<Longrightarrow> versionNumbers m' = retained (contents w) p m1 \<Longrightarrow>
      (\<exists>vs ov. m' = m1 \<lparr> md_Versions := vs, md_OldestVersion := ov \<rparr>) \<Longrightarrow> E e w'"
  shows "wp (commitSourceMetadata W p m v now) Q E w"
  unfolding commitSourceMetadata_def wp_bindM putMetadata_def m1 [symmetric]
proof (rule wp_pruneExcessVersions [OF inv _ p], goal_cases)
  case 1
  show ?case unfolding m1 by (rule withCurrentVersion_WF [OF wf v])
next
  case (2 m' w1)
  show ?case
  proof (rule wp_Put, goal_cases)
    case (1 w2)
    then show ?case using 2 by (simp add: Q)
  next
    case (2 e w2)
    show ?case by (rule E [OF subset_refl]) (use 2 \<open>contents w1 = _\<close> in simp)
  next
    case (3 e w2)
    then show ?case using \<open>contents w1 = _\<close> 2 by (simp add: E')
  qed
next
  case (3 e V w1)
  then show ?case by (rule E)
qed

end

end
