(* ===== verification/Samples.thy ===== *)
theory Samples
  imports Mem_World Outbox_Queries Storage_Source
begin

text \<open>
  Concrete worlds on which the properties are exercised: an empty store, and a store with two
  queued operations and their indexes, written by the code's own \<open>putOutbox\<close>.
\<close>

definition sampleOperation :: outboxRecord where
  "sampleOperation = zeroOutboxRecord \<lparr> ob_ID := ''op-1'', ob_Type := OperationTypeUpsert,
     ob_Path := ''app/db'', ob_Version := 3, ob_AssociationID := ''assoc-1'', ob_ObjectID := ''secret-path'',
     ob_DestinationRef := ''fake/one'', ob_State := outboxStatePending,
     ob_NotBefore := ''1970-01-01T00:00:00Z'', ob_IdempotencyKey := ''op-1'' \<rparr>"

definition sampleRetry :: outboxRecord where
  "sampleRetry = sampleOperation \<lparr> ob_ID := ''op-2'', ob_State := outboxStateRetryWait,
     ob_Version := 4, ob_Attempts := 1, ob_NotBefore := ''1970-01-01T00:01:00Z'', ob_IdempotencyKey := ''op-2'' \<rparr>"

definition sampleQueue :: mem where
  "sampleQueue = snd (bindM (putOutbox (memW False) sampleOperation)
     (\<lambda>_. putOutbox (memW False) sampleRetry) emptyMem)"

lemma memContents_emptyMem [simp]: "memContents emptyMem = (\<lambda>_. None)"
  by (simp add: memContents_def emptyMem_def)

lemma inv_emptyMem: "outbox_inv (memContents emptyMem)"
  by (simp add: outbox_inv_empty)

lemma sample_IDs [simp]: "ob_ID sampleOperation = ''op-1''" "ob_ID sampleRetry = ''op-2''"
  by (simp_all add: sampleOperation_def sampleRetry_def)

lemma validID_samples [simp]: "validID ''op-1''" "validID ''op-2''"
  by code_simp+

lemma inv_sampleQueue: "outbox_inv (memContents sampleQueue)"
proof -
  have "wp (bindM (putOutbox (memW False) sampleOperation) (\<lambda>_. putOutbox (memW False) sampleRetry))
      (\<lambda>_ w. outbox_inv (memContents w)) (\<lambda>_ w. outbox_inv (memContents w)) emptyMem"
    by (auto intro!: mem.queue.wp_put simp: inv_emptyMem outbox_inv_empty)
  then show ?thesis unfolding sampleQueue_def wp_snd .
qed

text \<open>The store after both writes, and after a crash between the record of the second operation and
  the rest: \<open>FailAfter\<close> makes a write happen and fail.\<close>

lemma sampleQueue_queue:
  "queueOf (memContents sampleQueue) ''op-1'' = Some (normalizeOutboxDefaults sampleOperation)"
  "queueOf (memContents sampleQueue) ''op-2'' = Some (normalizeOutboxDefaults sampleRetry)"
  unfolding queueOf_def by code_simp+

end
