(* ===== verification/Payload.thy ===== *)
theory Payload
  imports Storage_Records "HOL-Library.Multiset"
begin

text \<open>
  The bytes sent to a provider (\<open>internal/payload/payload.go\<close>): \<open>encoding/json\<close> as the plugin uses
  it (an \<open>Encoder\<close> without HTML escaping), and the three payload builders. The digest function and
  the formatting of floats are arguments (\<open>sha\<close>, \<open>ff\<close>): no stored value is a float, since request
  bodies and storage entries are decoded with \<open>json.Number\<close>.
\<close>

section \<open>UTF-8\<close>

definition inByteRange :: "nat \<Rightarrow> nat \<Rightarrow> char \<Rightarrow> bool" where
  "inByteRange lo hi c \<longleftrightarrow> lo \<le> of_char c \<and> of_char c \<le> (hi :: nat)"

text \<open>The number of bytes of the valid rune that starts the string, 0 if there is none.\<close>

definition runeLength :: "string \<Rightarrow> nat" where
  "runeLength s = (case s of
      [] \<Rightarrow> 0
    | a # r1 \<Rightarrow>
        if inByteRange 0 127 a then 1
        else (case r1 of
            [] \<Rightarrow> 0
          | b # r2 \<Rightarrow>
              if inByteRange 194 223 a then (if inByteRange 128 191 b then 2 else 0)
              else (case r2 of
                  [] \<Rightarrow> 0
                | c # r3 \<Rightarrow>
                    if inByteRange 224 239 a
                    then (if inByteRange (if of_char a = (224 :: nat) then 160 else 128)
                                         (if of_char a = (237 :: nat) then 159 else 191) b \<and>
                             inByteRange 128 191 c then 3 else 0)
                    else (case r3 of
                        [] \<Rightarrow> 0
                      | d # _ \<Rightarrow>
                          if inByteRange 240 244 a \<and>
                             inByteRange (if of_char a = (240 :: nat) then 144 else 128)
                                         (if of_char a = (244 :: nat) then 143 else 191) b \<and>
                             inByteRange 128 191 c \<and> inByteRange 128 191 d
                          then 4 else 0))))"

section \<open>JSON encoding\<close>

definition bsl :: char where "bsl = char_of (92 :: nat)"
definition dquote :: char where "dquote = char_of (34 :: nat)"

text \<open>The escape of one ASCII character.\<close>

definition escapeChar :: "char \<Rightarrow> string" where
  "escapeChar c =
     (let n = (of_char c :: nat)
      in if c = bsl \<or> c = dquote then [bsl, c]
         else if n = 8 then [bsl, CHR ''b'']
         else if n = 12 then [bsl, CHR ''f'']
         else if n = 10 then [bsl, CHR ''n'']
         else if n = 13 then [bsl, CHR ''r'']
         else if n = 9 then [bsl, CHR ''t'']
         else if n < 32 then bsl # ''u00'' @ [hexDigit (n div 16), hexDigit (n mod 16)]
         else [c])"

text \<open>With \<open>SetEscapeHTML\<close>, which is the default, the characters that are special in HTML are escaped too; they
  only occur in strings.\<close>

definition escapeHTML :: "char \<Rightarrow> string" where
  "escapeHTML c =
     (if c \<in> set ''<>&'' then bsl # ''u00'' @ [hexDigit (of_char c div 16), hexDigit (of_char c mod 16)] else [c])"

definition lineSeparators :: "string list" where
  "lineSeparators = map (map char_of) [[226, 128, 168 :: nat], [226, 128, 169]]"

fun escapeBytes :: "nat \<Rightarrow> string \<Rightarrow> string" where
  "escapeBytes 0 s = []"
| "escapeBytes (Suc n) s = (case s of
      [] \<Rightarrow> []
    | c # r \<Rightarrow>
        (case runeLength s of
           0 \<Rightarrow> bsl # ''ufffd'' @ escapeBytes n r
         | Suc 0 \<Rightarrow> escapeChar c @ escapeBytes n r
         | k \<Rightarrow>
             (if take 3 s = lineSeparators ! 0 then bsl # ''u2028''
              else if take 3 s = lineSeparators ! 1 then bsl # ''u2029''
              else take k s) @ escapeBytes n (drop k s)))"

definition encodeString :: "string \<Rightarrow> string" where
  "encodeString s = dquote # escapeBytes (length s) s @ [dquote]"

text \<open>Standard base64 with padding, the encoding of a \<open>[]byte\<close>.\<close>

definition base64Char :: "nat \<Rightarrow> char" where
  "base64Char n =
     (if n < 26 then char_of (65 + n) else if n < 52 then char_of (71 + n)
      else if n < 62 then char_of (n - 4) else if n = 62 then CHR ''+'' else CHR ''/'')"

fun base64 :: "string \<Rightarrow> string" where
  "base64 [] = []"
| "base64 [a] = [base64Char (of_char a div 4), base64Char (of_char a mod 4 * 16), CHR ''='', CHR ''='']"
| "base64 [a, b] = [base64Char (of_char a div 4), base64Char (of_char a mod 4 * 16 + of_char b div 16),
     base64Char (of_char b mod 16 * 4), CHR ''='']"
| "base64 (a # b # c # r) =
     [base64Char (of_char a div 4), base64Char (of_char a mod 4 * 16 + of_char b div 16),
      base64Char (of_char b mod 16 * 4 + of_char c div 64), base64Char (of_char c mod 64)] @ base64 r"

text \<open>Validity of a \<open>json.Number\<close> literal; the empty one is written as 0.\<close>

definition dropDigits1 :: "string \<Rightarrow> string option" where
  "dropDigits1 s = (case s of c # _ \<Rightarrow> if isDigit c then Some (dropWhile isDigit s) else None | [] \<Rightarrow> None)"

definition numberExponent :: "string \<Rightarrow> bool" where
  "numberExponent s = (case s of
      [] \<Rightarrow> True
    | e # r \<Rightarrow> (e = CHR ''e'' \<or> e = CHR ''E'') \<and>
        dropDigits1 (case r of c # r' \<Rightarrow> if c = CHR ''+'' \<or> c = CHR ''-'' then r' else r | [] \<Rightarrow> r) = Some [])"

definition numberFraction :: "string \<Rightarrow> bool" where
  "numberFraction s = (case s of
      c # r \<Rightarrow>
        if c = CHR ''.'' then (case dropDigits1 r of Some t \<Rightarrow> numberExponent t | None \<Rightarrow> False)
        else numberExponent s
    | [] \<Rightarrow> True)"

definition isValidNumber :: "string \<Rightarrow> bool" where
  "isValidNumber s =
     (let s = (case s of c # r \<Rightarrow> if c = CHR ''-'' then r else s | [] \<Rightarrow> s)
      in case s of
           [] \<Rightarrow> False
         | c # r \<Rightarrow>
             if c = CHR ''0'' then numberFraction r
             else (case dropDigits1 s of Some t \<Rightarrow> numberFraction t | None \<Rightarrow> False))"

definition wrapCommas :: "char \<Rightarrow> char \<Rightarrow> string list \<Rightarrow> string" where
  "wrapCommas a b parts = a # joinWith (CHR '','') parts @ [b]"

fun sequenceE :: "(gerr + 'a) list \<Rightarrow> gerr + 'a list" where
  "sequenceE [] = Inr []"
| "sequenceE (x # xs) = bindE x (\<lambda>a. bindE (sequenceE xs) (\<lambda>as. Inr (a # as)))"

text \<open>Object keys are written in sorted order.\<close>

definition encodeObject :: "(string \<times> (gerr + string)) list \<Rightarrow> gerr + string" where
  "encodeObject kvs =
     bindE (sequenceE (map (\<lambda>(k, v). bindE v (\<lambda>s. Inr (encodeString k @ '':'' @ s))) (sort_key fst kvs)))
       (\<lambda>parts. Inr (wrapCommas (CHR ''{'') (CHR ''}'') parts))"

fun encodeJSON :: "(int \<Rightarrow> int \<Rightarrow> string) \<Rightarrow> goval \<Rightarrow> gerr + string" where
  "encodeJSON ff JNull = Inr ''null''"
| "encodeJSON ff (JBool b) = Inr (if b then ''true'' else ''false'')"
| "encodeJSON ff (JInt i) = Inr (itoa i)"
| "encodeJSON ff (JFloat m e) = Inr (ff m e)"
| "encodeJSON ff (JNumber s) =
     (if s = [] then Inr ''0''
      else if isValidNumber s then Inr s
      else Inl (Errorf ''json: invalid number literal %q'' [s]))"
| "encodeJSON ff (JString s) = Inr (encodeString s)"
| "encodeJSON ff (JBytes s) = Inr (dquote # base64 s @ [dquote])"
| "encodeJSON ff (JArray vs) =
     bindE (sequenceE (map (encodeJSON ff) vs)) (\<lambda>parts. Inr (wrapCommas (CHR ''['') (CHR '']'') parts))"
| "encodeJSON ff (JObject kvs) = encodeObject (map (\<lambda>(k, v). (k, encodeJSON ff v)) kvs)"

text \<open>\<open>Encoder.Encode\<close> ends the value with a newline.\<close>

definition newline :: char where "newline = char_of (10 :: nat)"

definition encoderEncode :: "(int \<Rightarrow> int \<Rightarrow> string) \<Rightarrow> bool \<Rightarrow> goval \<Rightarrow> gerr + string" where
  "encoderEncode ff html v = bindE (encodeJSON ff v) (\<lambda>s.
     Inr ((if html then concat (map escapeHTML s) else s) @ [newline]))"

section \<open>Payloads\<close>

definition FormatJSON :: string where "FormatJSON = ''json''"
definition FormatRaw :: string where "FormatRaw = ''raw''"
definition FormatDataMap :: string where "FormatDataMap = ''data-map''"

record canonicalPayload =
  pl_Format :: string
  pl_Bytes :: string
  pl_SHA256 :: string
  pl_Data :: "(string \<times> string) list"

definition payloadSHA256 :: "(string \<Rightarrow> string) \<Rightarrow> string \<Rightarrow> string" where
  "payloadSHA256 sha bytes = ''sha256:'' @ hexEncode (sha bytes)"

definition canonicalJSON ::
    "(int \<Rightarrow> int \<Rightarrow> string) \<Rightarrow> (string \<Rightarrow> string) \<Rightarrow> goval \<Rightarrow> gerr + string \<times> string" where
  "canonicalJSON ff sha v =
     bindE (encoderEncode ff False v) (\<lambda>buffer.
       let bytes = trimSuffix buffer [newline] in Inr (bytes, payloadSHA256 sha bytes))"

lemma canonicalJSON_encode:
  "canonicalJSON ff sha v = bindE (encodeJSON ff v) (\<lambda>bytes. Inr (bytes, payloadSHA256 sha bytes))"
  by (cases "encodeJSON ff v") (simp_all add: canonicalJSON_def encoderEncode_def trimSuffix_def)

definition BuildJSON ::
    "(int \<Rightarrow> int \<Rightarrow> string) \<Rightarrow> (string \<Rightarrow> string) \<Rightarrow> secretPayload \<Rightarrow> gerr + canonicalPayload" where
  "BuildJSON ff sha data =
     (if data = [] then Inl (Errorf ''payload data must contain at least one key'' [])
      else bindE (canonicalJSON ff sha (JObject data)) (\<lambda>(bytes, hash).
        Inr \<lparr> pl_Format = FormatJSON, pl_Bytes = bytes, pl_SHA256 = hash, pl_Data = [] \<rparr>))"

definition RawBytes :: "goval \<Rightarrow> gerr + string" where
  "RawBytes v = (case v of
      JString s \<Rightarrow> Inr s
    | JBytes s \<Rightarrow> Inr s
    | _ \<Rightarrow> Inl (Errorf ''raw payload value must be string or bytes'' []))"

definition BuildRaw :: "(string \<Rightarrow> string) \<Rightarrow> goval \<Rightarrow> gerr + canonicalPayload" where
  "BuildRaw sha v = bindE (RawBytes v) (\<lambda>bytes.
     Inr \<lparr> pl_Format = FormatRaw, pl_Bytes = bytes, pl_SHA256 = payloadSHA256 sha bytes, pl_Data = [] \<rparr>)"

definition BuildDataMap ::
    "(int \<Rightarrow> int \<Rightarrow> string) \<Rightarrow> (string \<Rightarrow> string) \<Rightarrow> (string \<times> string) list \<Rightarrow> gerr + canonicalPayload" where
  "BuildDataMap ff sha data =
     (if data = [] then Inl (Errorf ''data-map payload must contain at least one key'' [])
      else bindE (canonicalJSON ff sha (JObject (map (\<lambda>(k, v). (k, JBytes v)) data))) (\<lambda>(bytes, hash).
        Inr \<lparr> pl_Format = FormatDataMap, pl_Bytes = bytes, pl_SHA256 = hash, pl_Data = data \<rparr>))"

section \<open>The bytes of a payload\<close>

lemma bsl_char: "bsl = CHR 0x5C"
  by (simp add: bsl_def char_of_def bit_0)

lemma dquote_char: "dquote = CHR 0x22"
  by (simp add: dquote_def char_of_def bit_0)

text \<open>Printable ASCII, apart from the quote and the backslash, is written as it is.\<close>

definition printableChar :: "char \<Rightarrow> bool" where
  "printableChar c \<longleftrightarrow> 32 \<le> (of_char c :: nat) \<and> (of_char c :: nat) < 127 \<and> c \<noteq> CHR 0x22 \<and> c \<noteq> CHR 0x5C"

lemma escapeBytes_printable: "list_all printableChar s \<Longrightarrow> length s \<le> n \<Longrightarrow> escapeBytes n s = s"
proof (induction s arbitrary: n)
  case (Cons c s)
  then have "runeLength (c # s) = Suc 0" "escapeChar c = [c]"
    by (auto simp: printableChar_def runeLength_def inByteRange_def escapeChar_def Let_def bsl_char dquote_char)
  then show ?case using Cons by (cases n) simp_all
next
  case Nil
  then show ?case by (cases n) simp_all
qed

lemma encodeString_printable: "list_all printableChar s \<Longrightarrow> encodeString s = CHR 0x22 # s @ [CHR 0x22]"
  by (simp add: encodeString_def escapeBytes_printable dquote_char)

text \<open>The order of map entries does not matter: keys are written in ascending order.\<close>

lemma sort_key_mset_cong:
  assumes "mset xs = mset ys" and "distinct (map f xs)"
  shows "sort_key f xs = sort_key f ys"
proof (rule properties_for_sort_key)
  show "mset (sort_key f ys) = mset xs" using assms(1) by simp
  show "sorted (map f (sort_key f ys))" by simp
  fix k
  assume k: "k \<in> set (sort_key f ys)"
  have "distinct (map f ys)" using assms by (metis mset_eq_imp_distinct_iff mset_map)
  have one: "filter (\<lambda>x. f k = f x) zs = [k]" if "k \<in> set zs" "distinct (map f zs)" for zs
    using that
  proof (induction zs)
    case (Cons z zs)
    then show ?case
      by (auto simp: filter_empty_conv image_iff)
  qed simp
  have "filter (\<lambda>x. f k = f x) (sort_key f ys) = [k]"
  proof (rule one [OF k])
    have "mset (map f (sort_key f ys)) = mset (map f ys)" by simp
    then show "distinct (map f (sort_key f ys))"
      using \<open>distinct (map f ys)\<close> by (metis mset_eq_imp_distinct_iff)
  qed
  moreover have "filter (\<lambda>x. f k = f x) xs = [k]"
    using k assms by (intro one) (auto dest: mset_eq_setD)
  ultimately show "filter (\<lambda>x. f k = f x) (sort_key f ys) = filter (\<lambda>x. f k = f x) xs" by simp
qed

lemma sequenceE_Inr: "sequenceE (map (\<lambda>x. Inr (f x)) xs) = Inr (map f xs)"
  by (induction xs) simp_all

lemma encodeObject_sorted:
  assumes "mset data = mset kvs" and "sorted_wrt (<) (map fst kvs)"
    and "\<And>k v. (k, v) \<in> set kvs \<Longrightarrow> list_all printableChar k \<and> enc v = Inr (text v)"
  shows "encodeObject (map (\<lambda>(k, v). (k, enc v)) data) =
    Inr (CHR ''{'' # joinWith (CHR '','') (map (\<lambda>(k, v). CHR 0x22 # k @ [CHR 0x22, CHR '':''] @ text v) kvs) @ [CHR ''}''])"
proof -
  let ?g = "\<lambda>(k, v). (k, enc v)"
  have keys: "map fst (map ?g d) = map fst d" for d
    by (induction d) auto
  have s: "sorted (map fst kvs)" "distinct (map fst kvs)"
    using assms(2) by (simp_all add: strict_sorted_iff)
  have "sort_key fst (map ?g data) = sort_key fst (map ?g kvs)"
    using assms(1) s(2) by (intro sort_key_mset_cong [symmetric]) (simp_all only: keys mset_map)
  also have "\<dots> = map ?g kvs"
    using s(1) by (intro sort_key_id_if_sorted) (simp only: keys)
  finally have sorted: "sort_key fst (map ?g data) = map ?g kvs" .
  have "map (\<lambda>(k, v). bindE v (\<lambda>s. Inr (encodeString k @ '':'' @ s))) (map ?g kvs) =
      map (\<lambda>x. Inr (case x of (k, v) \<Rightarrow> CHR 0x22 # k @ [CHR 0x22, CHR '':''] @ text v)) kvs"
    using assms(3) by (auto simp: encodeString_printable)
  then show ?thesis
    unfolding encodeObject_def sorted by (simp only: sequenceE_Inr) (simp add: wrapCommas_def)
qed

end
