(* ===== verification/Clock.thy ===== *)
theory Clock
  imports Mem_World
begin

text \<open>
  Storage whose clock does not go back while the plugin works (\<open>nowUTC\<close> of
  \<open>internal/backend\<close> reads \<open>time.Now\<close>): what a program knew of a reading still holds when it ends.
\<close>

definition clockOf :: "'w world \<Rightarrow> 'w \<Rightarrow> time" where
  "clockOf W w = fst (w_Now W w)"

locale clocked_storage = bao_storage +
  assumes clock_get: "wp (w_Get W k) (\<lambda>_ w'. clockOf W w \<le> clockOf W w') (\<lambda>_ w'. clockOf W w \<le> clockOf W w') w"
    and clock_delete: "wp (w_Delete W k) (\<lambda>_ w'. clockOf W w \<le> clockOf W w') (\<lambda>_ w'. clockOf W w \<le> clockOf W w') w"
    and clock_now: "clockOf W w \<le> clockOf W (snd (w_Now W w))"
begin

lemma keeps_clock [keeps_intros]:
  "keeps (\<lambda>w. t \<le> clockOf W w) (w_Get W k) (\<lambda>_. True)"
  "keeps (\<lambda>w. t \<le> clockOf W w) (w_Delete W k) (\<lambda>_. True)"
  "keeps (\<lambda>w. t \<le> clockOf W w) (nowUTC W) (\<lambda>_. True)"
proof -
  show "keeps (\<lambda>w. t \<le> clockOf W w) (w_Get W k) (\<lambda>_. True)"
    unfolding keeps_def by (auto intro!: wp_mono [OF clock_get])
  show "keeps (\<lambda>w. t \<le> clockOf W w) (w_Delete W k) (\<lambda>_. True)"
    unfolding keeps_def by (auto intro!: wp_mono [OF clock_delete])
  have "t \<le> clockOf W (snd (w_Now W w))" if "t \<le> clockOf W w" for w
    using that clock_now by (rule order_trans)
  then show "keeps (\<lambda>w. t \<le> clockOf W w) (nowUTC W) (\<lambda>_. True)"
    by (auto simp: keeps_def wp_def nowUTC_def split: prod.splits) (metis snd_conv)
qed

text \<open>A reading is the time of the clock, which has not gone back since.\<close>

lemma wp_nowUTC_clock:
  assumes "\<And>w'. contents w' = contents w \<Longrightarrow> clockOf W w \<le> clockOf W w' \<Longrightarrow> Q (clockOf W w) w'"
  shows "wp (nowUTC W) Q E w"
  using assms [OF now_law clock_now] by (cases "w_Now W w") (simp add: wp_def nowUTC_def clockOf_def)

lemma keeps_clock_getDecoded:
  "keeps (\<lambda>w. t \<le> clockOf W w) (getDecoded W k decode) (\<lambda>_. True)"
  unfolding getDecoded_def
  by (rule keeps_bindM [OF keeps_clock(1)]) (auto intro!: keeps_retM keeps_bindM keeps_liftE split: option.split)

end

interpretation memClock: clocked_storage "memW tx" memContents for tx
proof (unfold_locales, goal_cases)
  case (1 k w)
  show ?case by (simp add: memGet_def) (rule wp_memOp; simp add: clockOf_def memNow_def)
next
  case (2 k w)
  show ?case by (simp add: memDelete_def) (rule wp_memOp; simp add: clockOf_def memNow_def)
next
  case (3 w)
  show ?case by (simp add: clockOf_def memNow_def second_def)
qed

end
