(* ===== verification/Outbox_Cancel.thy ===== *)
theory Outbox_Cancel
  imports Outbox_Queries Clock
begin

text \<open>
  Cancelling queued operations (\<open>cancelQueuedOutboxIDs\<close> in \<open>internal/backend/storage_outbox.go\<close>): it removes
  the queued records among \<open>ids\<close> and nothing else, stops with an error at a record that a worker has
  claimed, and what it removed before stays removed.
\<close>

text \<open>No queued record among \<open>D\<close> is under a claim that still runs at time \<open>t\<close>.\<close>

definition unclaimed :: "(string \<Rightarrow> outboxRecord option) \<Rightarrow> string set \<Rightarrow> time \<Rightarrow> bool" where
  "unclaimed q D t \<longleftrightarrow>
     (\<forall>i \<in> D. \<forall>r. q i = Some r \<longrightarrow> isQueuedOutboxState (ob_State r) \<longrightarrow> \<not> isOutboxClaimActive r t)"

lemma claim_expired: "\<not> isOutboxClaimActive r t \<Longrightarrow> t \<le> u \<Longrightarrow> \<not> isOutboxClaimActive r u"
  by (auto simp: isOutboxClaimActive_def split: option.splits if_splits)

lemma unclaimed_mono: "unclaimed q D t \<Longrightarrow> t \<le> u \<Longrightarrow> unclaimed q D u"
  using claim_expired unfolding unclaimed_def by blast

lemma unclaimed_empty [simp]: "unclaimed q {} t"
  by (simp add: unclaimed_def)

lemma unclaimed_insert:
  "unclaimed q D t \<Longrightarrow> unclaimed (cancelFrom q D) {x} t \<Longrightarrow> unclaimed q (insert x D) t"
  by (fastforce simp: unclaimed_def cancelFrom_def split: option.splits if_splits)

context bao_storage begin

lemma wp_cancel_one:
  assumes inv: "outbox_inv (contents w)"
  shows "wp (bindM (getOutbox W i) (\<lambda>r.
         case r of
           None \<Rightarrow> retM ()
         | Some rec \<Rightarrow>
             if \<not> isQueuedOutboxState (ob_State rec) then retM ()
             else bindM (nowUTC W) (\<lambda>now.
               if isOutboxClaimActive rec now
               then failM (ErrQueuedOperationClaimed (ob_ID rec))
               else deleteOutbox W rec)))
    (\<lambda>_ w'. outbox_inv (contents w') \<and> same_other (contents w) (contents w') \<and>
       queueOf (contents w') = cancelFrom (queueOf (contents w)) {i})
    (\<lambda>_ w'. outbox_inv (contents w') \<and> same_other (contents w) (contents w') \<and>
       (queueOf (contents w') = queueOf (contents w) \<or>
        queueOf (contents w') = cancelFrom (queueOf (contents w)) {i})) w"
    (is "wp _ ?Q ?E w")
  unfolding wp_bindM
proof (rule queue.wp_get [OF inv])
  fix w1
  assume w1: "contents w1 = contents w"
  have "wp (deleteOutbox W r) ?Q ?E w2"
    if r: "queueOf (contents w) i = Some r" "isQueuedOutboxState (ob_State r)" and w2: "contents w2 = contents w"
    for r w2
    using queue_record [OF inv r(1)] cancelFrom_one [of "queueOf (contents w)" i r, OF r] w2 inv
    by (intro queue.wp_del) simp_all
  then show "wp (case queueOf (contents w) i of None \<Rightarrow> retM ()
      | Some rec \<Rightarrow> if \<not> isQueuedOutboxState (ob_State rec) then retM ()
          else bindM (nowUTC W) (\<lambda>now. if isOutboxClaimActive rec now
               then failM (ErrQueuedOperationClaimed (ob_ID rec)) else deleteOutbox W rec)) ?Q ?E w1"
    using w1 inv cancelFrom_none [of "queueOf (contents w)" i]
    by (cases "queueOf (contents w) i") (auto simp: wp_simps intro!: wp_nowUTC)
qed (use inv in simp)

end

context clocked_storage begin

lemma keeps_clock_outbox [keeps_intros]:
  "keeps (\<lambda>w. t \<le> clockOf W w) (getOutbox W i) (\<lambda>_. True)"
  "keeps (\<lambda>w. t \<le> clockOf W w) (deleteOutbox W r) (\<lambda>_. True)"
proof -
  show get: "keeps (\<lambda>w. t \<le> clockOf W w) (getOutbox W i) (\<lambda>_. True)" for i
    unfolding getOutbox_def by (rule keeps_bindM [OF keeps_clock_getDecoded]) (simp add: keeps_retM)
  show "keeps (\<lambda>w. t \<le> clockOf W w) (deleteOutbox W r) (\<lambda>_. True)"
    unfolding deleteOutbox_def deleteOutboxIndexes_def
    by (rule keeps_bindM [OF get] keeps_bindM [OF keeps_clock(2)] keeps_bindM [OF keeps_eachM] keeps_case_option
        keeps_eachM keeps_clock keeps_retM TrueI)+
qed

text \<open>One record: what is removed was under no claim that still runs at the end.\<close>

lemma keeps_clock_cancel_one:
  "keeps (\<lambda>w. t \<le> clockOf W w) (bindM (getOutbox W i) (\<lambda>r.
         case r of
           None \<Rightarrow> retM ()
         | Some rec \<Rightarrow>
             if \<not> isQueuedOutboxState (ob_State rec) then retM ()
             else bindM (nowUTC W) (\<lambda>now.
               if isOutboxClaimActive rec now
               then failM (ErrQueuedOperationClaimed (ob_ID rec))
               else deleteOutbox W rec))) (\<lambda>_. True)"
  by (rule keeps_bindM [OF keeps_clock_outbox(1)] keeps_bindM [OF keeps_clock(3)] keeps_case_option keeps_if keeps_clock_outbox
      keeps_failM keeps_retM TrueI)+

lemma wp_cancel_one_unclaimed:
  assumes inv: "outbox_inv (contents w)"
  shows "wp (bindM (getOutbox W i) (\<lambda>r.
         case r of
           None \<Rightarrow> retM ()
         | Some rec \<Rightarrow>
             if \<not> isQueuedOutboxState (ob_State rec) then retM ()
             else bindM (nowUTC W) (\<lambda>now.
               if isOutboxClaimActive rec now
               then failM (ErrQueuedOperationClaimed (ob_ID rec))
               else deleteOutbox W rec)))
    (\<lambda>_ w'. unclaimed (queueOf (contents w)) {i} (clockOf W w'))
    (\<lambda>_ w'. queueOf (contents w') = queueOf (contents w) \<or>
       unclaimed (queueOf (contents w)) {i} (clockOf W w')) w"
  unfolding wp_bindM
proof (rule queue.wp_get [OF inv])
  fix w1
  assume w1: "contents w1 = contents w"
  let ?U = "\<lambda>w'. unclaimed (queueOf (contents w)) {i} (clockOf W w')"
  have del: "wp (deleteOutbox W r) (\<lambda>_ w'. \<not> isOutboxClaimActive r (clockOf W w'))
      (\<lambda>_ w'. queueOf (contents w') = queueOf (contents w) \<or> \<not> isOutboxClaimActive r (clockOf W w')) w2"
    if "\<not> isOutboxClaimActive r (clockOf W w1)" "clockOf W w1 \<le> clockOf W w2" for r w2
    by (rule wp_mono [OF keepsD [OF keeps_clock_outbox(2)]], rule that(2)) (use that(1) claim_expired in blast)+
  show "wp (case queueOf (contents w) i of None \<Rightarrow> retM ()
      | Some rec \<Rightarrow> if \<not> isQueuedOutboxState (ob_State rec) then retM ()
          else bindM (nowUTC W) (\<lambda>now. if isOutboxClaimActive rec now
               then failM (ErrQueuedOperationClaimed (ob_ID rec)) else deleteOutbox W rec))
      (\<lambda>_. ?U) (\<lambda>_ w'. queueOf (contents w') = queueOf (contents w) \<or> ?U w') w1"
  proof (cases "queueOf (contents w) i")
    case (Some r)
    then show ?thesis
      using w1 by (auto simp: wp_simps unclaimed_def intro!: wp_nowUTC_clock del)
  qed (simp add: unclaimed_def)
qed simp

lemma wp_cancelQueuedOutboxIDs:
  assumes inv: "outbox_inv (contents w)"
    and Q: "\<And>w'. outbox_inv (contents w') \<Longrightarrow> same_other (contents w) (contents w') \<Longrightarrow>
      queueOf (contents w') = cancelFrom (queueOf (contents w)) (set ids) \<Longrightarrow>
      unclaimed (queueOf (contents w)) (set ids) (clockOf W w') \<Longrightarrow> Q () w'"
    and E: "\<And>e w' D. outbox_inv (contents w') \<Longrightarrow> same_other (contents w) (contents w') \<Longrightarrow>
      D \<subseteq> set ids \<Longrightarrow> queueOf (contents w') = cancelFrom (queueOf (contents w)) D \<Longrightarrow>
      unclaimed (queueOf (contents w)) D (clockOf W w') \<Longrightarrow> E e w'"
  shows "wp (cancelQueuedOutboxIDs W ids) Q E w"
  unfolding cancelQueuedOutboxIDs_def
proof (rule wp_eachM [where I = "\<lambda>ys w'. outbox_inv (contents w') \<and>
    same_other (contents w) (contents w') \<and>
    (\<exists>D. set ids = D \<union> set ys \<and> queueOf (contents w') = cancelFrom (queueOf (contents w)) D \<and>
       unclaimed (queueOf (contents w)) D (clockOf W w'))"], goal_cases)
  case 1
  show ?case using inv by (auto intro!: exI [of _ "{}"])
next
  case (2 x ys w1)
  then obtain D where D: "set ids = D \<union> set (x # ys)"
    and q: "queueOf (contents w1) = cancelFrom (queueOf (contents w)) D"
    and u: "unclaimed (queueOf (contents w)) D (clockOf W w1)"
    and i1: "outbox_inv (contents w1)" and s1: "same_other (contents w) (contents w1)"
    by blast
  note step = wp_conj [OF wp_cancel_one [OF i1, of x]
      wp_conj [OF wp_cancel_one_unclaimed [OF i1, of x] keepsD [OF keeps_clock_cancel_one order_refl, of x]]]
  have more: "unclaimed (queueOf (contents w)) (insert x D) (clockOf W w2)"
    if "unclaimed (queueOf (contents w1)) {x} (clockOf W w2)" "clockOf W w1 \<le> clockOf W w2" for w2
    using that unclaimed_mono [OF u] unclaimed_insert unfolding q by blast
  show ?case
  proof (rule wp_mono [OF step], goal_cases)
    case (1 v w2)
    then show ?case
      using D s1 more by (auto simp: q cancelFrom_insert [symmetric] intro: same_other_trans intro!: exI [of _ "insert x D"])
  next
    case (2 e w2)
    then have inv2: "outbox_inv (contents w2)" "same_other (contents w) (contents w2)"
      using s1 by (auto intro: same_other_trans)
    from 2 consider "queueOf (contents w2) = cancelFrom (queueOf (contents w)) D"
      | "queueOf (contents w2) = cancelFrom (queueOf (contents w)) (insert x D)"
        "unclaimed (queueOf (contents w1)) {x} (clockOf W w2)"
      by (auto simp: q cancelFrom_insert [of _ x D])
    then show ?case
    proof cases
      case 1
      then show ?thesis using 2 inv2 D unclaimed_mono [OF u] by (intro E [where D = D]) auto
    next
      case ins: 2
      then show ?thesis using 2 inv2 D more by (intro E [where D = "insert x D"]) auto
    qed
  qed
next
  case (3 w1)
  then show ?case by (auto intro!: Q)
qed

end

end
