(* ===== verification/Storage_Properties.thy ===== *)
theory Storage_Properties
  imports Samples Storage_Status Payload Outbox_Cancel
begin

text \<open>
  The properties of the storage layer. A property about programs on storage holds for every world
  that satisfies the laws of \<open>bao_storage\<close>, whichever of its calls fail; the second postcondition
  of \<open>wp\<close> is what holds when the program returns an error.
\<close>

section \<open>The queue\<close>

text \<open>C3 Writing a queue record is atomic for its readers. Whichever storage calls fail, the queue
  invariant holds afterwards, nothing outside the queue changes, and the queue is either unchanged
  or has exactly the new record; it has the new record when the write succeeds.\<close>

theorem putOutbox_atomic:
  assumes "bao_storage W contents" and "outbox_inv (contents w)" and "validID (ob_ID r)"
  shows "wp (putOutbox W r)
    (\<lambda>_ w'. outbox_inv (contents w') \<and> same_other (contents w) (contents w') \<and>
       queueOf (contents w') = (queueOf (contents w))(ob_ID r \<mapsto> normalizeOutboxDefaults r))
    (\<lambda>_ w'. outbox_inv (contents w') \<and> same_other (contents w) (contents w') \<and>
       (queueOf (contents w') = queueOf (contents w) \<or>
        queueOf (contents w') = (queueOf (contents w))(ob_ID r \<mapsto> normalizeOutboxDefaults r))) w"
  using assms by (rule bao_storage.put_law_storage)

theorem putOutbox_atomic_witness:
  "wp (putOutbox (memW False) sampleRetry)
    (\<lambda>_ w'. outbox_inv (memContents w') \<and> same_other (memContents sampleQueue) (memContents w') \<and>
       queueOf (memContents w') = (queueOf (memContents sampleQueue))(''op-2'' \<mapsto> normalizeOutboxDefaults sampleRetry))
    (\<lambda>_ w'. outbox_inv (memContents w') \<and> same_other (memContents sampleQueue) (memContents w') \<and>
       (queueOf (memContents w') = queueOf (memContents sampleQueue) \<or>
        queueOf (memContents w') = (queueOf (memContents sampleQueue))(''op-2'' \<mapsto> normalizeOutboxDefaults sampleRetry)))
    sampleQueue"
  using putOutbox_atomic [OF mem.bao_storage_axioms [of False] inv_sampleQueue, of sampleRetry] by simp

text \<open>C11 Deleting a queue record is atomic in the same sense: the record is there with all its index
  entries, or it is gone, and no failure leaves a record that an index scan would miss.\<close>

theorem deleteOutbox_atomic:
  assumes "bao_storage W contents" and "outbox_inv (contents w)" and "validID (ob_ID r)"
  shows "wp (deleteOutbox W r)
    (\<lambda>_ w'. outbox_inv (contents w') \<and> same_other (contents w) (contents w') \<and>
       queueOf (contents w') = (queueOf (contents w))(ob_ID r := None))
    (\<lambda>_ w'. outbox_inv (contents w') \<and> same_other (contents w) (contents w') \<and>
       (queueOf (contents w') = queueOf (contents w) \<or>
        queueOf (contents w') = (queueOf (contents w))(ob_ID r := None))) w"
  using assms by (rule bao_storage.del_law_storage)

theorem deleteOutbox_atomic_witness:
  "wp (deleteOutbox (memW False) sampleOperation)
    (\<lambda>_ w'. outbox_inv (memContents w') \<and> same_other (memContents sampleQueue) (memContents w') \<and>
       queueOf (memContents w') = (queueOf (memContents sampleQueue))(''op-1'' := None))
    (\<lambda>_ w'. outbox_inv (memContents w') \<and> same_other (memContents sampleQueue) (memContents w') \<and>
       (queueOf (memContents w') = queueOf (memContents sampleQueue) \<or>
        queueOf (memContents w') = (queueOf (memContents sampleQueue))(''op-1'' := None)))
    sampleQueue"
  using deleteOutbox_atomic [OF mem.bao_storage_axioms [of False] inv_sampleQueue, of sampleOperation]
  by simp

text \<open>C4 The due scan is exact: it returns, without repetition and in the order of due time and then
  id, precisely the queued operations whose due time is not after now, although it reads an index
  that may hold stale entries and stops at the first key beyond now.\<close>

theorem listDueOutboxIDs_exact:
  assumes "bao_storage W contents" and "outbox_inv (contents w)"
  shows "wp (listDueOutboxIDs W now)
    (\<lambda>ids w'. contents w' = contents w \<and> distinct ids \<and>
       set ids = {i. \<exists>r. queueOf (contents w) i = Some r \<and> isQueuedOutboxState (ob_State r) \<and>
                    outboxDueIndexTime r \<le> formatRFC3339 now} \<and>
       sorted (map (\<lambda>i. (outboxDueIndexTime (the (queueOf (contents w) i)), i)) ids))
    (\<lambda>_ w'. contents w' = contents w) w"
proof (rule bao_storage.wp_listDueOutboxIDs [OF assms])
  fix ids w'
  assume c: "contents w' = contents w" and l: "dueListing (contents w) (formatRFC3339 now) ids"
  have "dueOf (contents w) i = outboxDueIndexTime (the (queueOf (contents w) i))" if "i \<in> set ids" for i
    using l that by (auto simp: dueListing_def dueOf_def)
  then have eq: "map (\<lambda>i. (dueOf (contents w) i, i)) ids =
      map (\<lambda>i. (outboxDueIndexTime (the (queueOf (contents w) i)), i)) ids" by simp
  show "contents w' = contents w \<and> distinct ids \<and>
       set ids = {i. \<exists>r. queueOf (contents w) i = Some r \<and> isQueuedOutboxState (ob_State r) \<and>
                    outboxDueIndexTime r \<le> formatRFC3339 now} \<and>
       sorted (map (\<lambda>i. (outboxDueIndexTime (the (queueOf (contents w) i)), i)) ids)"
    using c l unfolding dueListing_def queueIDs_def eq by simp
qed

theorem listDueOutboxIDs_exact_witness:
  "wp (listDueOutboxIDs (memW False) (30 * second))
    (\<lambda>ids w'. memContents w' = memContents sampleQueue \<and> distinct ids \<and>
       set ids = {i. \<exists>r. queueOf (memContents sampleQueue) i = Some r \<and> isQueuedOutboxState (ob_State r) \<and>
                    outboxDueIndexTime r \<le> formatRFC3339 (30 * second)} \<and>
       sorted (map (\<lambda>i. (outboxDueIndexTime (the (queueOf (memContents sampleQueue) i)), i)) ids))
    (\<lambda>_ w'. memContents w' = memContents sampleQueue) sampleQueue \<and>
   fst (listDueOutboxIDs (memW False) (30 * second) sampleQueue) = Inr [''op-1'']"
proof
  show "fst (listDueOutboxIDs (memW False) (30 * second) sampleQueue) = Inr [''op-1'']"
    unfolding fst_def by code_simp
qed (rule listDueOutboxIDs_exact [OF mem.bao_storage_axioms inv_sampleQueue])

text \<open>C35 The next wake-up time is exact: with a result, it is the due time of a queued operation that
  is due after now and no queued operation is due between; with none, every queued operation is
  due already.\<close>

theorem nextFutureOutboxDueTime_exact:
  assumes "bao_storage W contents" and "outbox_inv (contents w)"
  shows "wp (nextFutureOutboxDueTime W now)
    (\<lambda>next w'. contents w' = contents w \<and>
       (case next of
          None \<Rightarrow> \<forall>i. dueOf (contents w) i \<le> formatRFC3339 now
        | Some t \<Rightarrow> \<exists>i. formatRFC3339 now < dueOf (contents w) i \<and>
            parseRFC3339 (dueOf (contents w) i) = Some t \<and>
            (\<forall>j. formatRFC3339 now < dueOf (contents w) j \<longrightarrow>
               dueOf (contents w) i \<le> dueOf (contents w) j)))
    (\<lambda>_ w'. contents w' = contents w) w"
  by (rule bao_storage.wp_nextFutureOutboxDueTime [OF assms]) simp_all

theorem nextFutureOutboxDueTime_exact_witness:
  "wp (nextFutureOutboxDueTime (memW False) (30 * second))
    (\<lambda>next w'. memContents w' = memContents sampleQueue \<and>
       (case next of
          None \<Rightarrow> \<forall>i. dueOf (memContents sampleQueue) i \<le> formatRFC3339 (30 * second)
        | Some t \<Rightarrow> \<exists>i. formatRFC3339 (30 * second) < dueOf (memContents sampleQueue) i \<and>
            parseRFC3339 (dueOf (memContents sampleQueue) i) = Some t \<and>
            (\<forall>j. formatRFC3339 (30 * second) < dueOf (memContents sampleQueue) j \<longrightarrow>
               dueOf (memContents sampleQueue) i \<le> dueOf (memContents sampleQueue) j)))
    (\<lambda>_ w'. memContents w' = memContents sampleQueue) sampleQueue \<and>
   fst (nextFutureOutboxDueTime (memW False) (30 * second) sampleQueue) = Inr (Some (60 * second))"
proof
  show "fst (nextFutureOutboxDueTime (memW False) (30 * second) sampleQueue) = Inr (Some (60 * second))"
    unfolding fst_def by code_simp
qed (rule nextFutureOutboxDueTime_exact [OF mem.bao_storage_axioms inv_sampleQueue])

text \<open>C34 Cancelling operations removes exactly the queued ones among the given ids
  (terminal ones and missing ones are left alone) and touches nothing outside the queue, and it takes
  no operation from a worker: none of the removed ones is under a claim that still runs when the
  call ends, provided that the clock does not go back. When it stops at an error, some subset of
  them is gone, with the same guarantee, and the queue invariant holds.\<close>

theorem cancelQueuedOutboxIDs_exact:
  assumes "clocked_storage W contents" and "outbox_inv (contents w)"
  shows "wp (cancelQueuedOutboxIDs W ids)
    (\<lambda>_ w'. outbox_inv (contents w') \<and> same_other (contents w) (contents w') \<and>
       queueOf (contents w') = cancelFrom (queueOf (contents w)) (set ids) \<and>
       unclaimed (queueOf (contents w)) (set ids) (clockOf W w'))
    (\<lambda>_ w'. outbox_inv (contents w') \<and> same_other (contents w) (contents w') \<and>
       (\<exists>D \<subseteq> set ids. queueOf (contents w') = cancelFrom (queueOf (contents w)) D \<and>
          unclaimed (queueOf (contents w)) D (clockOf W w'))) w"
  by (rule clocked_storage.wp_cancelQueuedOutboxIDs [OF assms]) blast+

text \<open>A queue whose first operation is under a claim until the hour.\<close>

definition workedOn :: mem where
  "workedOn = snd (putOutbox (memW False) (sampleOperation
     \<lparr> ob_ClaimOwner := ''worker'', ob_ClaimExpiresTime := formatRFC3339 (3600 * second) \<rparr>) sampleQueue)"

lemma inv_workedOn: "outbox_inv (memContents workedOn)"
proof -
  have "wp (putOutbox (memW False) (sampleOperation
      \<lparr> ob_ClaimOwner := ''worker'', ob_ClaimExpiresTime := formatRFC3339 (3600 * second) \<rparr>))
      (\<lambda>_ w. outbox_inv (memContents w)) (\<lambda>_ w. outbox_inv (memContents w)) sampleQueue"
    by (auto intro!: mem.queue.wp_put simp: inv_sampleQueue)
  then show ?thesis unfolding workedOn_def wp_snd .
qed

theorem cancelQueuedOutboxIDs_exact_witness:
  "wp (cancelQueuedOutboxIDs (memW False) [''op-2'', ''op-1''])
    (\<lambda>_ w'. outbox_inv (memContents w') \<and> same_other (memContents workedOn) (memContents w') \<and>
       queueOf (memContents w') = cancelFrom (queueOf (memContents workedOn)) {''op-2'', ''op-1''} \<and>
       unclaimed (queueOf (memContents workedOn)) {''op-2'', ''op-1''} (clockOf (memW False) w'))
    (\<lambda>_ w'. outbox_inv (memContents w') \<and> same_other (memContents workedOn) (memContents w') \<and>
       (\<exists>D \<subseteq> {''op-2'', ''op-1''}. queueOf (memContents w') = cancelFrom (queueOf (memContents workedOn)) D \<and>
          unclaimed (queueOf (memContents workedOn)) D (clockOf (memW False) w'))) workedOn \<and>
   fst (cancelQueuedOutboxIDs (memW False) [''op-2'', ''op-1''] workedOn) = Inl (ErrQueuedOperationClaimed ''op-1'')"
proof
  show "fst (cancelQueuedOutboxIDs (memW False) [''op-2'', ''op-1''] workedOn) =
      Inl (ErrQueuedOperationClaimed ''op-1'')"
    unfolding fst_def by code_simp
qed (use cancelQueuedOutboxIDs_exact [OF memClock.clocked_storage_axioms [of False] inv_workedOn,
      of "[''op-2'', ''op-1'']"] in simp)

section \<open>Status records\<close>

text \<open>C9 A status write never moves a status back to an older version and never loses drift
  bookkeeping: after it, the stored status has at least the version of the one stored before, and
  where the version does advance every drift field that the new record leaves empty keeps its
  old value. On failure the store is unchanged or the write happened in full.\<close>

theorem putStatus_monotone:
  assumes "bao_storage W contents"
    and old: "statusOf (contents w) (st_Path r) (st_AssociationID r) (st_ObjectID r) = Some old"
  shows "wp (putStatus W r)
    (\<lambda>_ w'. \<exists>new. statusOf (contents w') (st_Path r) (st_AssociationID r) (st_ObjectID r) = Some new \<and>
       st_Version old \<le> st_Version new \<and> st_Version r \<le> st_Version new \<and>
       (if st_Version r < st_Version old then contents w' = contents w
        else new = preserveStatusDriftBookkeeping r old) \<and>
       (st_RepairCount r = 0 \<longrightarrow> st_RepairCount new = st_RepairCount old) \<and>
       (st_LastRepairTime r = [] \<longrightarrow> st_LastRepairTime new = st_LastRepairTime old) \<and>
       (st_LastReconcileTime r = [] \<longrightarrow> st_LastReconcileTime new = st_LastReconcileTime old) \<and>
       (st_LastDriftDetectedTime r = [] \<longrightarrow> st_LastDriftDetectedTime new = st_LastDriftDetectedTime old))
    (\<lambda>_ w'. contents w' = contents w \<or>
       statusOf (contents w') (st_Path r) (st_AssociationID r) (st_ObjectID r) =
         Some (preserveStatusDriftBookkeeping r old) \<and> st_Version old \<le> st_Version r) w"
proof (rule bao_storage.wp_putStatus [OF assms(1)], goal_cases)
  case (1 w')
  have same: "contents w' = contents w" if "st_Version r < st_Version old"
    using 1 that old by (simp add: statusUpdate_def statusOf_Some fun_upd_idem)
  have "statusOf (contents w') (st_Path r) (st_AssociationID r) (st_ObjectID r) =
      Some (statusUpdate r (Some old))"
    using 1 old by (simp add: statusOf_Some)
  then show ?case
    using same by (auto simp: statusUpdate_def preserve_fields)
next
  case (2 e w')
  show ?case
  proof (cases "contents w' = contents w \<or> st_Version r < st_Version old")
    case True
    then show ?thesis using 2 old by (auto simp: statusUpdate_def statusOf_Some fun_upd_idem)
  next
    case False
    then have "contents w' = (contents w)(statusStorageKey (st_Path r) (st_AssociationID r) (st_ObjectID r) \<mapsto>
        EStatus (preserveStatusDriftBookkeeping r old))"
      using 2 old by (simp add: statusUpdate_def)
    then show ?thesis using False by (simp add: statusOf_Some)
  qed
qed

definition sampleStatus :: statusRecord where
  "sampleStatus = zeroStatusRecord \<lparr> st_Path := ''app/db'', st_Version := 3, st_AssociationID := ''assoc-1'',
     st_ObjectID := ''secret-path'', st_State := ''synced'', st_RepairCount := 2 \<rparr>"

definition sampleStatusWorld :: mem where
  "sampleStatusWorld = snd (putStatus (memW False) sampleStatus emptyMem)"

theorem putStatus_monotone_witness:
  "\<exists>w' new. putStatus (memW False) (sampleStatus \<lparr> st_Version := 4, st_RepairCount := 0 \<rparr>) sampleStatusWorld =
       (Inr (), w') \<and> statusOf (memContents w') ''app/db'' ''assoc-1'' ''secret-path'' = Some new \<and>
     st_Version new = 4 \<and> st_RepairCount new = 2"
proof -
  let ?r = "sampleStatus \<lparr> st_Version := 4, st_RepairCount := 0 \<rparr>"
  have old: "statusOf (memContents sampleStatusWorld) ''app/db'' ''assoc-1'' ''secret-path'' = Some sampleStatus"
    unfolding statusOf_Some by code_simp
  have f: "st_Path ?r = ''app/db''" "st_AssociationID ?r = ''assoc-1''" "st_ObjectID ?r = ''secret-path''"
    "st_Version ?r = 4" "st_RepairCount ?r = 0" "st_Version sampleStatus = 3" "st_RepairCount sampleStatus = 2"
    by (simp_all add: sampleStatus_def)
  have ok: "fst (putStatus (memW False) ?r sampleStatusWorld) = Inr ()"
    unfolding fst_def by code_simp
  show ?thesis
    using putStatus_monotone [OF mem.bao_storage_axioms [of False], of sampleStatusWorld ?r sampleStatus]
      old ok
    by (cases "putStatus (memW False) ?r sampleStatusWorld") (auto simp: f wp_def preserve_fields)
qed

section \<open>Source versions\<close>

text \<open>C10 Version retention keeps what it must: pruning a source path drops the records of exactly the
  versions below the retention window that no queued upsert still needs; the current version
  stays, and the metadata lists exactly the versions that remain, with the oldest of them. A
  failure leaves the metadata as it was and drops no protected version.\<close>

theorem pruneExcessVersions_retention:
  assumes "bao_storage W contents" and "outbox_inv (contents w)" and "metadataWF m" and "p \<noteq> []"
    and "0 < md_MaxVersions m" and "md_CurrentVersion m \<in> versionNumbers m" and "md_CurrentVersion m \<noteq> 0"
  shows "wp (pruneExcessVersions W p m)
    (\<lambda>m' w'. metadataWF m' \<and> md_CurrentVersion m' \<in> versionNumbers m' \<and>
       versionNumbers m' = retained (contents w) p m \<and>
       (\<forall>v \<in> versionNumbers m. md_CurrentVersion m - md_MaxVersions m < v \<or>
          v \<in> queuedUpsertVersions (contents w) p \<longrightarrow> v \<in> versionNumbers m') \<and>
       (\<forall>v \<in> versionNumbers m'. md_OldestVersion m' \<le> v) \<and>
       contents w' = dropVersions (contents w) p (versionNumbers m - versionNumbers m'))
    (\<lambda>_ w'. \<exists>V \<subseteq> versionNumbers m - retained (contents w) p m. contents w' = dropVersions (contents w) p V) w"
proof (rule bao_storage.wp_pruneExcessVersions [OF assms(1-4)], goal_cases)
  case (1 m' w')
  have "finite (versionNumbers m')"
  proof (rule finite_subset)
    show "versionNumbers m' \<subseteq> (\<lambda>k. the (atoi k)) ` set (map fst (md_Versions m'))"
      using 1(2) by (auto elim!: metadataWF_key simp: versionNumbers_def image_iff) (metis fst_conv metadataWF_key option.sel versionMetadataKey_inj image_eqI list.set_map)
  qed simp
  then have "\<forall>v \<in> versionNumbers m'. md_OldestVersion m' \<le> v"
    using 1(2,6) assms(5,7) oldestMetadataVersion_Min [OF 1(2)] by auto
  moreover have "md_CurrentVersion m' = md_CurrentVersion m" using 1(5) by auto
  ultimately show ?case using 1 assms by (auto simp: retained_def)
next
  case (2 e V w')
  then show ?case by blast
qed

definition sampleVersionMetadata :: versionMetadata where
  "sampleVersionMetadata = \<lparr> vm_CreatedTime = ''1970-01-01T00:00:00Z'', vm_DeletionTime = [], vm_Destroyed = False \<rparr>"

definition sampleMetadata :: metadataRecord where
  "sampleMetadata = \<lparr> md_Generation = ''gen-1'', md_CurrentVersion = 6, md_OldestVersion = 1,
     md_MaxVersions = 2, md_CASRequired = False, md_DeleteVersionAfter = ''0s'', md_SourceSyncEnabled = True,
     md_CustomMetadata = [],
     md_Versions = map (\<lambda>v. (versionMetadataKey v, sampleVersionMetadata)) [6, 2, 3, 1, 5, 4],
     md_UpdatedTime = [] \<rparr>"

lemma metadataWF_sample: "metadataWF sampleMetadata" "versionNumbers sampleMetadata = {1, 2, 3, 4, 5, 6}"
  by (auto simp: metadataWF_def sampleMetadata_def versionNumbers_def inInt64_def)

theorem pruneExcessVersions_retention_witness:
  "\<exists>m' w'. pruneExcessVersions (memW False) ''app/db'' sampleMetadata sampleQueue = (Inr m', w') \<and>
     versionNumbers m' = retained (memContents sampleQueue) ''app/db'' sampleMetadata \<and>
     map fst (md_Versions m') = [''6'', ''3'', ''5'', ''4''] \<and> md_OldestVersion m' = 3"
proof -
  have ok: "fst (pruneExcessVersions (memW False) ''app/db'' sampleMetadata sampleQueue) =
      Inr (sampleMetadata \<lparr> md_Versions := map (\<lambda>v. (versionMetadataKey v, sampleVersionMetadata)) [6, 3, 5, 4],
        md_OldestVersion := 3 \<rparr>)"
    unfolding fst_def by code_simp
  have f: "0 < md_MaxVersions sampleMetadata" "md_CurrentVersion sampleMetadata = 6"
    by (simp_all add: sampleMetadata_def)
  have k: "versionMetadataKey 6 = ''6''" "versionMetadataKey 3 = ''3''" "versionMetadataKey 5 = ''5''"
    "versionMetadataKey 4 = ''4''"
    by code_simp+
  show ?thesis
    using pruneExcessVersions_retention [OF mem.bao_storage_axioms [of False] inv_sampleQueue
        metadataWF_sample(1), of "''app/db''"] ok
    by (cases "pruneExcessVersions (memW False) ''app/db'' sampleMetadata sampleQueue")
      (auto simp: f metadataWF_sample(2) wp_def k)
qed

section \<open>Payloads and paths\<close>

text \<open>C36 The bytes of a payload, written out. Of a map with printable keys, in whatever order its entries
  are visited, they are the entries in ascending order of keys, without white space or a trailing newline; the
  printable values of a JSON payload are written as they are, \<open><\<close>, \<open>>\<close> and \<open>&\<close> included, and the values
  of a data map, any bytes, in base64. The hash is taken over exactly these bytes, and a data-map payload
  carries its entries.\<close>

theorem payload_canonical:
  assumes "sorted_wrt (<) (map fst kvs)" and "kvs \<noteq> []" and "mset data = mset kvs"
    and "\<And>k v. (k, v) \<in> set kvs \<Longrightarrow> list_all printableChar k"
  shows "let entries = \<lambda>text. CHR ''{'' # joinWith (CHR '','')
        (map (\<lambda>(k, v). CHR 0x22 # k @ [CHR 0x22, CHR '':'', CHR 0x22] @ text v @ [CHR 0x22]) kvs) @ [CHR ''}'']
    in BuildDataMap ff sha data = Inr \<lparr> pl_Format = ''data-map'', pl_Bytes = entries base64,
         pl_SHA256 = ''sha256:'' @ hexEncode (sha (entries base64)), pl_Data = data \<rparr> \<and>
       ((\<forall>v \<in> snd ` set kvs. list_all printableChar v) \<longrightarrow>
         BuildJSON ff sha (map (\<lambda>(k, v). (k, JString v)) data) = Inr \<lparr> pl_Format = ''json'', pl_Bytes = entries id,
           pl_SHA256 = ''sha256:'' @ hexEncode (sha (entries id)), pl_Data = [] \<rparr>)"
proof -
  have ne: "data \<noteq> []" using assms(2,3) by auto
  have "encodeJSON ff (JObject (map (\<lambda>(k, v). (k, JBytes v)) data)) =
      encodeObject (map (\<lambda>(k, v). (k, Inr (CHR 0x22 # base64 v @ [CHR 0x22]))) data)"
    "encodeJSON ff (JObject (map (\<lambda>(k, v). (k, JString v)) data)) =
      encodeObject (map (\<lambda>(k, v). (k, Inr (encodeString v))) data)"
    by (simp_all add: comp_def case_prod_unfold dquote_char)
  moreover have "encodeObject (map (\<lambda>(k, v). (k, Inr (encodeString v))) data) = Inr (CHR ''{'' # joinWith (CHR '','')
      (map (\<lambda>(k, v). CHR 0x22 # k @ [CHR 0x22, CHR '':''] @ (CHR 0x22 # v @ [CHR 0x22])) kvs) @ [CHR ''}''])"
    if "\<forall>v \<in> snd ` set kvs. list_all printableChar v"
    by (rule encodeObject_sorted [OF assms(3,1)]) (use assms(4) that encodeString_printable in force)
  ultimately show ?thesis
    using encodeObject_sorted [OF assms(3,1), of "\<lambda>v. Inr (CHR 0x22 # base64 v @ [CHR 0x22])"
        "\<lambda>v. CHR 0x22 # base64 v @ [CHR 0x22]"] assms(4) ne
    by (simp add: BuildDataMap_def BuildJSON_def canonicalJSON_encode payloadSHA256_def FormatDataMap_def FormatJSON_def Let_def)
qed

theorem payload_canonical_witness:
  "BuildJSON (\<lambda>_ _. []) id [(''user'', JString ''amy''), (''pass'', JString ''a<b&c'')] =
     Inr \<lparr> pl_Format = ''json'',
       pl_Bytes = CHR ''{'' # joinWith (CHR '','') (map (\<lambda>(k, v). CHR 0x22 # k @ [CHR 0x22, CHR '':'', CHR 0x22] @ v @ [CHR 0x22])
         [(''pass'', ''a<b&c''), (''user'', ''amy'')]) @ [CHR ''}''],
       pl_SHA256 = ''sha256:'' @ hexEncode (CHR ''{'' # joinWith (CHR '','')
         (map (\<lambda>(k, v). CHR 0x22 # k @ [CHR 0x22, CHR '':'', CHR 0x22] @ v @ [CHR 0x22])
           [(''pass'', ''a<b&c''), (''user'', ''amy'')]) @ [CHR ''}'']), pl_Data = [] \<rparr>"
proof -
  let ?kvs = "[(''pass'', ''a<b&c''), (''user'', ''amy'')]"
  have "sorted_wrt (<) (map fst ?kvs)" "?kvs \<noteq> []" "mset (rev ?kvs) = mset ?kvs"
    by simp_all
  moreover have "list_all printableChar k" if "(k, v) \<in> set ?kvs" for k v
    using that by (auto simp: printableChar_def)
  moreover have "\<forall>v \<in> snd ` set ?kvs. list_all printableChar v"
    by (simp add: printableChar_def)
  ultimately show ?thesis
    using payload_canonical [of ?kvs "rev ?kvs" "\<lambda>_ _. []" id] by (simp add: Let_def)
qed

text \<open>C40 An accepted source path is in normal form and safe to build storage keys from: it is not
  empty, neither begins nor ends with a slash, has no empty, dot or reserved segment, and
  normalising it again gives it back.\<close>

theorem normalizeSourcePath_normal:
  assumes "normalizeSourcePath input = Inr p"
  shows "normalizeSourcePath p = Inr p \<and> p \<noteq> [] \<and> hd p \<noteq> slash \<and> last p \<noteq> slash \<and>
    (\<forall>s \<in> set (splitOn slash p). s \<notin> {[], ''.'', ''..'', ''versions''}) \<and>
    last (splitOn slash p) \<notin> set reservedLastSegments"
proof -
  define q where "q = trim slash input"
  have foldE_ok: "foldE (\<lambda>_ part. checkPathSegment part) () ps = Inr () \<longleftrightarrow>
      (\<forall>s \<in> set ps. checkPathSegment s = Inr ())" for ps
    by (induction ps) (auto split: sum.splits)
  have ne: "q \<noteq> []" using assms by (cases "q = []") (simp_all add: normalizeSourcePath_def q_def [symmetric])
  have n: "normalizeSourcePath input =
      (case foldE (\<lambda>_ part. checkPathSegment part) () (splitOn slash q) of
         Inl e \<Rightarrow> Inl e
       | Inr _ \<Rightarrow>
           if last (splitOn slash q) \<in> set reservedLastSegments
           then Inl (Errorf ''path must not end with reserved segment %q'' [last (splitOn slash q)])
           else Inr q)"
    unfolding normalizeSourcePath_def q_def [symmetric] Let_def joinWith_splitOn using ne by simp
  have ok: "foldE (\<lambda>_ part. checkPathSegment part) () (splitOn slash q) = Inr ()"
    using assms n by (cases "foldE (\<lambda>_ part. checkPathSegment part) () (splitOn slash q)") simp_all
  have r: "(if last (splitOn slash q) \<in> set reservedLastSegments
      then Inl (Errorf ''path must not end with reserved segment %q'' [last (splitOn slash q)])
      else Inr q) = Inr p"
    using trans [OF n [symmetric] assms] unfolding ok sum.case .
  have last: "last (splitOn slash q) \<notin> set reservedLastSegments" using r by (metis sum.distinct(1))
  have p: "p = q" using r last by simp
  have segs: "\<forall>s \<in> set (splitOn slash q). checkPathSegment s = Inr ()"
    using ok foldE_ok by blast
  have no_empty: "\<forall>s \<in> set (splitOn slash q). s \<notin> {[], ''.'', ''..'', ''versions''}"
  proof
    fix s assume "s \<in> set (splitOn slash q)"
    then have "checkPathSegment s = Inr ()" using segs by blast
    then show "s \<notin> {[], ''.'', ''..'', ''versions''}"
      by (cases "s \<in> {[], ''.'', ''..'', ''versions''}") (auto simp: checkPathSegment_def)
  qed
  have hd: "hd q \<noteq> slash"
  proof
    assume "hd q = slash"
    then have "q = slash # tl q" using ne by (cases q) simp_all
    then have "splitOn slash q = [] # splitOn slash (tl q)" by (metis splitOn.simps(2))
    then have "[] \<in> set (splitOn slash q)" by simp
    then show False using no_empty by blast
  qed
  have lst: "last q \<noteq> slash"
  proof
    assume "last q = slash"
    then have "q = butlast q @ [slash]" using ne by (metis append_butlast_last_id)
    then have "splitOn slash q = splitOn slash (butlast q) @ [[]]"
      using splitOn_append [of slash "butlast q" "[]"] by (metis splitOn.simps(1))
    then have "[] \<in> set (splitOn slash q)" by simp
    then show False using no_empty by blast
  qed
  have trim: "trim slash q = q"
  proof -
    have "trimLeft slash q = q" using hd ne by (cases q) (auto simp: trimLeft_def)
    moreover have "trimRight slash q = q" using lst ne by (cases q rule: rev_cases) (auto simp: trimRight_def)
    ultimately show ?thesis by (simp add: trim_def)
  qed
  then have "normalizeSourcePath q = Inr q"
    using ne last ok unfolding normalizeSourcePath_def by (simp add: Let_def)
  then show ?thesis unfolding p using ne hd lst no_empty last by blast
qed

theorem normalizeSourcePath_normal_witness:
  "normalizeSourcePath ''//app/db/'' = Inr ''app/db'' \<and> normalizeSourcePath ''app/db'' = Inr ''app/db'' \<and>
   hd ''app/db'' \<noteq> slash \<and> normalizeSourcePath ''app/../db'' \<noteq> Inr ''app/../db'' \<and>
   normalizeSourcePath ''app/sync'' \<noteq> Inr ''app/sync''"
proof (intro conjI)
  show n: "normalizeSourcePath ''//app/db/'' = Inr ''app/db''" by code_simp
  show "normalizeSourcePath ''app/db'' = Inr ''app/db''" "hd ''app/db'' \<noteq> slash"
    using normalizeSourcePath_normal [OF n] by blast+
  show "normalizeSourcePath ''app/../db'' \<noteq> Inr ''app/../db''" by code_simp
  show "normalizeSourcePath ''app/sync'' \<noteq> Inr ''app/sync''" by code_simp
qed

end
