(* ===== verification/Requests.thy ===== *)
theory Requests
  imports World
begin

text \<open>
  What a handler gets from the framework and gives back to it. The framework parses the request body
  against the path's schema: \<open>fd_Raw\<close> is the body as it came, \<open>fd_Values\<close> the declared fields it
  sets with their parsed values, so that \<open>GetOk\<close> finds a field iff it is set and \<open>Get\<close> gives the zero
  value otherwise. A handler returns a Go error (the error of the monad) or a response.
\<close>

record fieldData =
  fd_Raw :: "(string \<times> goval) list"
  fd_Values :: "(string \<times> goval) list"
  fd_Schema :: "string list"

datatype response =
    NilResponse
  | DataResponse "(string \<times> goval) list"
  | ErrorResponse gerr
  | ErrorResponseData gerr "(string \<times> goval) list"

fun isErrorResponse :: "response \<Rightarrow> bool" where
  "isErrorResponse (ErrorResponse _) = True"
| "isErrorResponse (ErrorResponseData _ _) = True"
| "isErrorResponse _ = False"

definition getOk :: "fieldData \<Rightarrow> string \<Rightarrow> goval option" where
  "getOk d f = map_of (fd_Values d) f"

definition getOkString :: "fieldData \<Rightarrow> string \<Rightarrow> string option" where
  "getOkString d f = (case getOk d f of Some (JString s) \<Rightarrow> Some s | _ \<Rightarrow> None)"

definition getOkBool :: "fieldData \<Rightarrow> string \<Rightarrow> bool option" where
  "getOkBool d f = (case getOk d f of Some (JBool b) \<Rightarrow> Some b | _ \<Rightarrow> None)"

definition getOkInt :: "fieldData \<Rightarrow> string \<Rightarrow> int option" where
  "getOkInt d f = (case getOk d f of Some (JInt i) \<Rightarrow> Some i | _ \<Rightarrow> None)"

definition getOkMap :: "fieldData \<Rightarrow> string \<Rightarrow> (string \<times> goval) list option" where
  "getOkMap d f = (case getOk d f of Some (JObject m) \<Rightarrow> Some m | _ \<Rightarrow> None)"

definition getOkList :: "fieldData \<Rightarrow> string \<Rightarrow> string list option" where
  "getOkList d f = (case getOk d f of
      Some (JArray xs) \<Rightarrow> Some (List.map_filter (\<lambda>v. case v of JString s \<Rightarrow> Some s | _ \<Rightarrow> None) xs)
    | _ \<Rightarrow> None)"

definition getString :: "fieldData \<Rightarrow> string \<Rightarrow> string" where
  "getString d f = (case getOkString d f of Some s \<Rightarrow> s | None \<Rightarrow> [])"

definition getBool :: "fieldData \<Rightarrow> string \<Rightarrow> bool" where
  "getBool d f = (case getOkBool d f of Some b \<Rightarrow> b | None \<Rightarrow> False)"

definition getInt :: "fieldData \<Rightarrow> string \<Rightarrow> int" where
  "getInt d f = (case getOkInt d f of Some i \<Rightarrow> i | None \<Rightarrow> 0)"

text \<open>\<open>respondE r f\<close>: a pure check whose failure is an error response, not a Go error.\<close>

definition respondE :: "gerr + 'a \<Rightarrow> ('a \<Rightarrow> ('w, response) io) \<Rightarrow> ('w, response) io" where
  "respondE r f = (case r of Inl e \<Rightarrow> retM (ErrorResponse e) | Inr a \<Rightarrow> f a)"

lemma wp_respondE [wp_simps, simp]:
  "wp (respondE r f) Q E w = (case r of Inl e \<Rightarrow> Q (ErrorResponse e) w | Inr a \<Rightarrow> wp (f a) Q E w)"
  by (simp add: respondE_def split: sum.splits)

text \<open>Programs composed with \<open>bindM\<close>, one statement at a time.\<close>

lemma wp_seq: "wp m (\<lambda>a w'. wp (f a) Q E w') E w \<Longrightarrow> wp (bindM m f) Q E w"
  by simp

lemma wp_respond:
  "(\<And>e. r = Inl e \<Longrightarrow> Q (ErrorResponse e) w) \<Longrightarrow> (\<And>a. r = Inr a \<Longrightarrow> wp (f a) Q E w) \<Longrightarrow>
   wp (respondE r f) Q E w"
  by (simp split: sum.splits)

definition strings :: "string list \<Rightarrow> goval" where
  "strings xs = JArray (map JString xs)"

definition stringMap :: "(string \<times> string) list \<Rightarrow> goval" where
  "stringMap m = JObject (map (\<lambda>(k, v). (k, JString v)) m)"

record listPagination =
  lp_after :: string
  lp_limit :: int

definition listPaginationFromFieldData :: "fieldData \<Rightarrow> listPagination" where
  "listPaginationFromFieldData d = \<lparr> lp_after = getString d ''after'', lp_limit = getInt d ''limit'' \<rparr>"

text \<open>\<open>strings.Join\<close>.\<close>

fun joinStrings :: "string \<Rightarrow> string list \<Rightarrow> string" where
  "joinStrings sep [] = []"
| "joinStrings sep [x] = x"
| "joinStrings sep (x # y # ys) = x @ sep @ joinStrings sep (y # ys)"

text \<open>\<open>Get\<close> of a comma-separated list of integers.\<close>

definition getIntList :: "fieldData \<Rightarrow> string \<Rightarrow> int list" where
  "getIntList d f = (case getOk d f of
      Some (JArray xs) \<Rightarrow> List.map_filter (\<lambda>v. case v of JInt i \<Rightarrow> Some i | _ \<Rightarrow> None) xs
    | _ \<Rightarrow> [])"

end
