(* ===== verification/Go_Duration.thy ===== *)
theory Go_Duration
  imports Go_Time
begin

text \<open>
  \<open>time.ParseDuration\<close> of the Go standard library, with its overflow checks and its float
  arithmetic for the fraction of a unit. A positive \<open>float64\<close> is a pair \<open>(m, e)\<close> for \<open>m * 2 ^ e\<close> with a
  significand of at most 53 bits; every operation rounds to nearest, ties to even.
\<close>

section \<open>Float arithmetic\<close>

function bitLength :: "int \<Rightarrow> int" where
  "bitLength n = (if n \<le> 0 then 0 else 1 + bitLength (n div 2))"
  by pat_completeness auto
termination by (relation "measure nat") auto

declare bitLength.simps [simp del]

definition shiftInt :: "int \<Rightarrow> int \<Rightarrow> int" where
  "shiftInt n k = n * 2 ^ nat (max k 0)"

text \<open>\<open>roundHalfEven n d\<close> is \<open>n / d\<close> rounded.\<close>

definition roundHalfEven :: "int \<Rightarrow> int \<Rightarrow> int" where
  "roundHalfEven n d =
     (let q = n div d; r = n mod d
      in if 2 * r < d \<or> 2 * r = d \<and> even q then q else q + 1)"

definition floatOfRatio :: "int \<Rightarrow> int \<Rightarrow> int \<times> int" where
  "floatOfRatio n d =
     (if n = 0 then (0, 0)
      else let k = bitLength n - bitLength d - 53;
               e = (if shiftInt n (- k) div shiftInt d k < 2 ^ 53 then k else k + 1)
           in (roundHalfEven (shiftInt n (- e)) (shiftInt d e), e))"

definition floatTrunc :: "int \<times> int \<Rightarrow> int" where
  "floatTrunc x = (case x of (m, e) \<Rightarrow> shiftInt m e div 2 ^ nat (- e))"

definition floatMul :: "int \<times> int \<Rightarrow> int \<times> int \<Rightarrow> int \<times> int" where
  "floatMul x y =
     (case (x, y) of ((m, e), (n, f)) \<Rightarrow> floatOfRatio (shiftInt (m * n) (e + f)) (2 ^ nat (- (e + f))))"

definition floatDiv :: "int \<times> int \<Rightarrow> int \<times> int \<Rightarrow> int \<times> int" where
  "floatDiv x y =
     (case (x, y) of ((m, e), (n, f)) \<Rightarrow> floatOfRatio (shiftInt m (e - f)) (shiftInt n (f - e)))"

section \<open>The parser\<close>

text \<open>\<open>leadingInt\<close>: \<open>None\<close> on overflow.\<close>

fun leadingInt :: "int \<Rightarrow> string \<Rightarrow> (int \<times> string) option" where
  "leadingInt x [] = Some (x, [])"
| "leadingInt x (c # s) =
     (if \<not> isDigit c then Some (x, c # s)
      else if 2 ^ 63 div 10 < x then None
      else let y = x * 10 + int (digitVal c)
           in if 2 ^ 63 < y then None else leadingInt y s)"

text \<open>\<open>leadingFraction\<close>: the digits as an integer, as far as they fit, and the power of ten.\<close>

fun leadingFraction :: "int \<Rightarrow> int \<times> int \<Rightarrow> bool \<Rightarrow> string \<Rightarrow> int \<times> (int \<times> int) \<times> string" where
  "leadingFraction x scale overflow [] = (x, scale, [])"
| "leadingFraction x scale overflow (c # s) =
     (if \<not> isDigit c then (x, scale, c # s)
      else if overflow then leadingFraction x scale True s
      else if (2 ^ 63 - 1) div 10 < x then leadingFraction x scale True s
      else let y = x * 10 + int (digitVal c)
           in if 2 ^ 63 < y then leadingFraction x scale True s
              else leadingFraction y (floatMul scale (10, 0)) False s)"

definition unitTable :: "(string \<times> int) list" where
  "unitTable = [(''ns'', nanosecond), (''us'', 1000), (map char_of [194, 181, 115 :: nat], 1000),
     (map char_of [206, 188, 115 :: nat], 1000), (''ms'', 1000000), (''s'', second), (''m'', minute),
     (''h'', hour)]"

definition isUnitChar :: "char \<Rightarrow> bool" where
  "isUnitChar c \<longleftrightarrow> c \<noteq> CHR ''.'' \<and> \<not> isDigit c"

text \<open>One round of the loop: a number, its fraction and its unit.\<close>

definition durationTerm :: "string \<Rightarrow> (int \<times> string) option" where
  "durationTerm s =
     (case s of
        [] \<Rightarrow> None
      | c # _ \<Rightarrow>
          if isUnitChar c then None
          else (case leadingInt 0 s of
              None \<Rightarrow> None
            | Some (v, s1) \<Rightarrow>
                let pre = (length s1 \<noteq> length s);
                    dot = (case s1 of d # _ \<Rightarrow> d = CHR ''.'' | [] \<Rightarrow> False);
                    (f, scale, s2) = (if dot then leadingFraction 0 (1, 0) False (tl s1) else (0, (1, 0), s1));
                    post = (dot \<and> length s2 \<noteq> length (tl s1));
                    u = takeWhile isUnitChar s2
                in if \<not> pre \<and> \<not> post \<or> u = [] then None
                   else (case map_of unitTable u of
                       None \<Rightarrow> None
                     | Some unit \<Rightarrow>
                         if 2 ^ 63 div unit < v then None
                         else let v = v * unit;
                                  v = (if 0 < f
                                       then v + floatTrunc (floatMul (floatOfRatio f 1)
                                              (floatDiv (floatOfRatio unit 1) scale))
                                       else v)
                              in if 2 ^ 63 < v then None else Some (v, dropWhile isUnitChar s2))))"

text \<open>The loop consumes at least one byte per round; the fuel is the length of the string.\<close>

fun durationTerms :: "nat \<Rightarrow> int \<Rightarrow> string \<Rightarrow> int option" where
  "durationTerms fuel d [] = Some d"
| "durationTerms 0 d (c # s) = None"
| "durationTerms (Suc fuel) d (c # s) =
     (case durationTerm (c # s) of
        None \<Rightarrow> None
      | Some (v, r) \<Rightarrow> if 2 ^ 63 < d + v then None else durationTerms fuel (d + v) r)"

definition parseDuration :: "string \<Rightarrow> duration option" where
  "parseDuration s =
     (let neg = (case s of c # _ \<Rightarrow> c = CHR ''-'' | [] \<Rightarrow> False);
          signed = (case s of c # _ \<Rightarrow> c = CHR ''-'' \<or> c = CHR ''+'' | [] \<Rightarrow> False);
          t = (if signed then tl s else s)
      in if t = ''0'' then Some 0
         else if t = [] then None
         else (case durationTerms (length t) 0 t of
             None \<Rightarrow> None
           | Some d \<Rightarrow> if neg then Some (- d) else if 2 ^ 63 - 1 < d then None else Some d))"

text \<open>The fuel suffices: each round consumes its unit.\<close>

lemma leadingInt_length: "leadingInt x s = Some (v, r) \<Longrightarrow> length r \<le> length s"
  by (induction x s rule: leadingInt.induct) (auto simp: Let_def split: if_splits)

lemma leadingFraction_length: "leadingFraction x sc b s = (v, sc', r) \<Longrightarrow> length r \<le> length s"
  by (induction x sc b s rule: leadingFraction.induct) (auto simp: Let_def split: if_splits)

lemma durationTerm_length:
  assumes "durationTerm s = Some (v, r)"
  shows "length r < length s"
proof (cases s)
  case Nil
  then show ?thesis using assms by (simp add: durationTerm_def)
next
  case (Cons c s')
  then obtain v1 s1 where i: "leadingInt 0 s = Some (v1, s1)"
    using assms by (auto simp: durationTerm_def split: if_splits option.splits)
  obtain f scale s2 where f: "(if (case s1 of d # _ \<Rightarrow> d = CHR ''.'' | [] \<Rightarrow> False)
      then leadingFraction 0 (1, 0) False (tl s1) else (0, (1, 0), s1)) = (f, scale, s2)"
    by (metis prod_cases3)
  have "length s2 \<le> length s1"
    using f leadingFraction_length [of 0 "(1, 0)" False "tl s1" f scale s2]
    by (cases s1) (auto split: if_splits)
  moreover have u: "takeWhile isUnitChar s2 \<noteq> []" and r: "r = dropWhile isUnitChar s2"
    using assms i f by (auto simp: durationTerm_def Cons Let_def split: if_splits option.splits)
  have "length (dropWhile isUnitChar s2) < length s2"
    using u length_dropWhile_le [of isUnitChar "tl s2"] by (cases s2) (auto split: if_splits)
  ultimately show ?thesis using leadingInt_length [OF i] r by simp
qed

lemma durationTerms_fuel:
  "length s \<le> fuel \<Longrightarrow> length s \<le> fuel' \<Longrightarrow> durationTerms fuel d s = durationTerms fuel' d s"
proof (induction fuel d s arbitrary: fuel' rule: durationTerms.induct)
  case (3 fuel d c s)
  then obtain fuel'' where f: "fuel' = Suc fuel''" by (cases fuel') auto
  show ?case
  proof (cases "durationTerm (c # s)")
    case (Some vr)
    obtain v r where vr: "vr = (v, r)" by (cases vr)
    have "length r < length (c # s)" using durationTerm_length Some vr by blast
    then have "durationTerms fuel (d + v) r = durationTerms fuel'' (d + v) r"
      if "\<not> 2 ^ 63 < d + v"
      using 3 Some vr f that by simp
    then show ?thesis using Some vr f by simp
  qed (simp add: f)
qed auto

end
