(* ===== verification/Config.thy ===== *)
theory Config
  imports Requests Go_Duration
begin

text \<open>
  The global configuration and the runtime state of the mount (\<open>internal/backend/path_config.go\<close> and
  \<open>runtime_state.go\<close>): reading a stored configuration with defaults for absent fields and its
  validation, the configuration handlers, the storage schema check, and the restore epoch. A
  configuration is stored with every field; a stored one may lack fields that older versions of
  the plugin did not have.
\<close>

section \<open>The configuration record\<close>

record globalConfig =
  gc_SecurityPosture :: string
  gc_Disabled :: bool
  gc_RestoreGuard :: bool
  gc_RestoreGuardAcknowledgedTime :: string
  gc_QueueCapacity :: int
  gc_DriftRepair :: string
  gc_DriftReconcileInterval :: string
  gc_DriftReconcileBatch :: int
  gc_EventDispatchEnabled :: bool
  gc_EventDispatchMaxOperations :: int
  gc_UpdatedTime :: string

definition securityPostureStandard :: string where "securityPostureStandard = ''standard''"
definition securityPostureHardened :: string where "securityPostureHardened = ''hardened''"
definition driftRepairOff :: string where "driftRepairOff = ''off''"
definition driftRepairDetect :: string where "driftRepairDetect = ''detect''"
definition driftRepairRepair :: string where "driftRepairRepair = ''repair''"
definition defaultDriftRepair :: string where "defaultDriftRepair = driftRepairOff"
definition defaultDriftInterval :: string where "defaultDriftInterval = ''1h''"
definition minDriftInterval :: string where "minDriftInterval = ''1m''"
definition defaultDriftBatch :: int where "defaultDriftBatch = 16"
definition defaultEventDispatchMaxOperations :: int where "defaultEventDispatchMaxOperations = 16"

definition defaultGlobalConfig :: globalConfig where
  "defaultGlobalConfig = \<lparr> gc_SecurityPosture = securityPostureStandard, gc_Disabled = False,
     gc_RestoreGuard = False, gc_RestoreGuardAcknowledgedTime = [], gc_QueueCapacity = defaultQueueCapacity,
     gc_DriftRepair = defaultDriftRepair, gc_DriftReconcileInterval = defaultDriftInterval,
     gc_DriftReconcileBatch = defaultDriftBatch, gc_EventDispatchEnabled = True,
     gc_EventDispatchMaxOperations = defaultEventDispatchMaxOperations, gc_UpdatedTime = [] \<rparr>"

definition initialGlobalConfig :: "string \<Rightarrow> globalConfig" where
  "initialGlobalConfig now =
     defaultGlobalConfig \<lparr> gc_RestoreGuardAcknowledgedTime := now, gc_UpdatedTime := now \<rparr>"

definition validateSecurityPosture :: "string \<Rightarrow> gerr + unit" where
  "validateSecurityPosture posture =
     (if posture = securityPostureStandard \<or> posture = securityPostureHardened then Inr ()
      else Inl (Errorf ''security_posture must be standard or hardened'' []))"

definition sourceSyncRequired :: "globalConfig \<Rightarrow> bool" where
  "sourceSyncRequired cfg \<longleftrightarrow> gc_SecurityPosture cfg = securityPostureHardened"

definition destinationConstraintsRequired :: "globalConfig \<Rightarrow> bool" where
  "destinationConstraintsRequired cfg \<longleftrightarrow> gc_SecurityPosture cfg = securityPostureHardened"

definition validateDriftRepairMode :: "string \<Rightarrow> gerr + unit" where
  "validateDriftRepairMode mode =
     (if mode = driftRepairOff \<or> mode = driftRepairDetect \<or> mode = driftRepairRepair then Inr ()
      else Inl (Errorf ''drift_repair must be one of off, detect, or repair'' []))"

definition validateDriftReconcileInterval :: "string \<Rightarrow> gerr + unit" where
  "validateDriftReconcileInterval v =
     (case parseDuration v of
        None \<Rightarrow> Inl (Errorf ''drift_reconcile_interval must be a valid duration'' [])
      | Some d \<Rightarrow>
          (case parseDuration minDriftInterval of
             None \<Rightarrow> Inl (Errorf ''time: invalid duration %q'' [minDriftInterval])
           | Some minimum \<Rightarrow>
               if d < minimum
               then Inl (Errorf ''drift_reconcile_interval must be greater than or equal to %s'' [minDriftInterval])
               else Inr ()))"

section \<open>Decoding and storing\<close>

definition optionalBoolConfigValue :: "bool option \<Rightarrow> bool \<Rightarrow> bool \<Rightarrow> bool \<times> bool" where
  "optionalBoolConfigValue v fallback changed =
     (case v of None \<Rightarrow> (fallback, True) | Some b \<Rightarrow> (b, changed))"

definition optionalConfigValue :: "'a option \<Rightarrow> 'a \<Rightarrow> bool \<Rightarrow> 'a \<times> bool" where
  "optionalConfigValue v fallback changed =
     (case v of None \<Rightarrow> (fallback, True) | Some b \<Rightarrow> (b, changed))"

definition storedE :: "gerr + 'a \<Rightarrow> gerr + 'a" where
  "storedE r = (case r of Inl e \<Rightarrow> Inl (ErrWrapped ''stored %w'' e) | Inr a \<Rightarrow> Inr a)"

definition atLeast :: "int \<Rightarrow> int \<Rightarrow> string \<Rightarrow> gerr + unit" where
  "atLeast lo v msg = (if v < lo then Inl (Errorf msg []) else Inr ())"

definition applyDecodedSecurityPosture ::
    "string option \<Rightarrow> globalConfig \<Rightarrow> bool \<Rightarrow> gerr + globalConfig \<times> bool" where
  "applyDecodedSecurityPosture storedPosture cfg changed =
     (let (cfg, changed) = (case storedPosture of
            None \<Rightarrow> (cfg, True)
          | Some p \<Rightarrow> (cfg \<lparr> gc_SecurityPosture := p \<rparr>, changed))
      in bindE (storedE (validateSecurityPosture (gc_SecurityPosture cfg))) (\<lambda>_. Inr (cfg, changed)))"

definition decodeGlobalConfig :: "storedGlobalConfig \<Rightarrow> gerr + globalConfig \<times> bool" where
  "decodeGlobalConfig stored =
     (let cfg = defaultGlobalConfig \<lparr> gc_Disabled := sc_Disabled stored,
                  gc_RestoreGuardAcknowledgedTime := sc_RestoreGuardAcknowledgedTime stored,
                  gc_UpdatedTime := sc_UpdatedTime stored \<rparr>;
          (guard, changed) = optionalBoolConfigValue (sc_RestoreGuard stored) False False;
          (cap, changed) = optionalConfigValue (sc_QueueCapacity stored) defaultQueueCapacity changed;
          cfg = cfg \<lparr> gc_RestoreGuard := guard, gc_QueueCapacity := cap \<rparr>
      in bindE (applyDecodedSecurityPosture (sc_SecurityPosture stored) cfg changed) (\<lambda>(cfg, changed).
        let (repair, changed) = optionalConfigValue (sc_DriftRepair stored) defaultDriftRepair changed;
            (interval, changed) = optionalConfigValue (sc_DriftReconcileInterval stored) defaultDriftInterval changed;
            (batch, changed) = optionalConfigValue (sc_DriftReconcileBatch stored) defaultDriftBatch changed;
            (enabled, changed) = optionalBoolConfigValue (sc_EventDispatchEnabled stored) True changed;
            (maxOps, changed) =
              optionalConfigValue (sc_EventDispatchMaxOperations stored) defaultEventDispatchMaxOperations changed;
            cfg = cfg \<lparr> gc_DriftRepair := repair, gc_DriftReconcileInterval := interval,
                    gc_DriftReconcileBatch := batch, gc_EventDispatchEnabled := enabled,
                    gc_EventDispatchMaxOperations := maxOps \<rparr>
        in bindE (atLeast 0 (gc_QueueCapacity cfg)
                    ''stored queue_capacity must be greater than or equal to zero'') (\<lambda>_.
           bindE (storedE (validateDriftRepairMode (gc_DriftRepair cfg))) (\<lambda>_.
           bindE (storedE (validateDriftReconcileInterval (gc_DriftReconcileInterval cfg))) (\<lambda>_.
           bindE (atLeast 1 (gc_DriftReconcileBatch cfg)
                    ''stored drift_reconcile_batch must be greater than or equal to one'') (\<lambda>_.
           bindE (atLeast 1 (gc_EventDispatchMaxOperations cfg)
                    ''stored event_dispatch_max_operations must be greater than or equal to one'') (\<lambda>_.
             Inr (cfg, changed))))))))"

definition decodeGlobalConfigEntry :: "entry \<Rightarrow> gerr + globalConfig \<times> bool" where
  "decodeGlobalConfigEntry e = bindE (decodeConfig e) decodeGlobalConfig"

text \<open>The JSON of a \<open>globalConfig\<close> sets every field of a \<open>storedGlobalConfig\<close>.\<close>

definition storedConfig :: "globalConfig \<Rightarrow> storedGlobalConfig" where
  "storedConfig cfg = \<lparr> sc_SecurityPosture = Some (gc_SecurityPosture cfg), sc_Disabled = gc_Disabled cfg,
     sc_RestoreGuard = Some (gc_RestoreGuard cfg),
     sc_RestoreGuardAcknowledgedTime = gc_RestoreGuardAcknowledgedTime cfg,
     sc_QueueCapacity = Some (gc_QueueCapacity cfg), sc_DriftRepair = Some (gc_DriftRepair cfg),
     sc_DriftReconcileInterval = Some (gc_DriftReconcileInterval cfg),
     sc_DriftReconcileBatch = Some (gc_DriftReconcileBatch cfg),
     sc_EventDispatchEnabled = Some (gc_EventDispatchEnabled cfg),
     sc_EventDispatchMaxOperations = Some (gc_EventDispatchMaxOperations cfg),
     sc_UpdatedTime = gc_UpdatedTime cfg \<rparr>"

definition putGlobalConfig :: "'w world \<Rightarrow> globalConfig \<Rightarrow> ('w, unit) io" where
  "putGlobalConfig W cfg = w_Put W configPath (EConfig (storedConfig cfg))"

definition readGlobalConfig :: "'w world \<Rightarrow> ('w, globalConfig) io" where
  "readGlobalConfig W =
     bindM (w_Get W configPath) (\<lambda>e.
       case e of
         None \<Rightarrow> retM defaultGlobalConfig
       | Some v \<Rightarrow> bindM (liftE (decodeGlobalConfigEntry v)) (\<lambda>(cfg, _). retM cfg))"

definition ensureGlobalConfig :: "'w world \<Rightarrow> string \<Rightarrow> ('w, unit) io" where
  "ensureGlobalConfig W now =
     bindM (w_Get W configPath) (\<lambda>e.
       case e of
         None \<Rightarrow> putGlobalConfig W (initialGlobalConfig now)
       | Some v \<Rightarrow> bindM (liftE (decodeGlobalConfigEntry v)) (\<lambda>(cfg, changed).
           if \<not> changed then retM () else putGlobalConfig W (cfg \<lparr> gc_UpdatedTime := now \<rparr>)))"

section \<open>Storage schema and restore epoch\<close>

record runtimeState =
  rt_Schema :: storageSchemaRecord
  rt_RestoreEpoch :: restoreEpochRecord

definition validateStorageSchemaVersions :: "storageSchemaRecord \<Rightarrow> int \<Rightarrow> int \<Rightarrow> gerr + unit" where
  "validateStorageSchemaVersions r currentVersion minSupportedVersion =
     (if ss_Version r \<le> 0
      then Inl (ErrStorageSchema (Errorf ''stored schema version must be greater than zero'' []))
      else if ss_Version r < minSupportedVersion
      then Inl (ErrStorageSchema (Errorf
             ''stored schema version %d is older than minimum supported schema %d''
             [itoa (ss_Version r), itoa minSupportedVersion]))
      else if currentVersion < ss_MinCompatibleVersion r
      then Inl (ErrStorageSchema (Errorf
             ''stored schema version %d requires plugin schema %d, but this binary supports schema %d''
             [itoa (ss_Version r), itoa (ss_MinCompatibleVersion r), itoa currentVersion]))
      else Inr ())"

definition validateStorageSchema :: "storageSchemaRecord \<Rightarrow> gerr + unit" where
  "validateStorageSchema r = validateStorageSchemaVersions r currentStorageSchema minSupportedStorageSchema"

fun isStorageSchemaCompatibilityError :: "gerr \<Rightarrow> bool" where
  "isStorageSchemaCompatibilityError (ErrStorageSchema _) = True"
| "isStorageSchemaCompatibilityError (ErrWrapped _ e) = isStorageSchemaCompatibilityError e"
| "isStorageSchemaCompatibilityError (ErrJoin a b) =
     (isStorageSchemaCompatibilityError a \<or> isStorageSchemaCompatibilityError b)"
| "isStorageSchemaCompatibilityError _ = False"

definition putStorageSchema :: "'w world \<Rightarrow> storageSchemaRecord \<Rightarrow> ('w, unit) io" where
  "putStorageSchema W r = w_Put W storageSchemaKey (ESchema r)"

definition ensureStorageSchema :: "'w world \<Rightarrow> string \<Rightarrow> ('w, storageSchemaRecord) io" where
  "ensureStorageSchema W now =
     bindM (w_Get W storageSchemaKey) (\<lambda>e.
       case e of
         None \<Rightarrow>
           let r = \<lparr> ss_Version = currentStorageSchema, ss_MinCompatibleVersion = minSupportedStorageSchema,
                    ss_CreatedTime = now, ss_UpdatedTime = now \<rparr>
           in bindM (putStorageSchema W r) (\<lambda>_. retM r)
       | Some v \<Rightarrow> bindM (liftE (decodeSchema v)) (\<lambda>r.
           let r = (if ss_MinCompatibleVersion r = 0 then r \<lparr> ss_MinCompatibleVersion := ss_Version r \<rparr> else r)
           in bindM (liftE (validateStorageSchema r)) (\<lambda>_. retM r)))"

definition newRestoreEpochRecord :: "'w world \<Rightarrow> string \<Rightarrow> ('w, restoreEpochRecord) io" where
  "newRestoreEpochRecord W now =
     bindM (newRuntimeID W ''epoch'') (\<lambda>epoch.
       retM \<lparr> re_Epoch = epoch, re_CreatedTime = now, re_UpdatedTime = now \<rparr>)"

definition putRestoreEpoch :: "'w world \<Rightarrow> restoreEpochRecord \<Rightarrow> ('w, unit) io" where
  "putRestoreEpoch W r = w_Put W restoreEpochKey (EEpoch r)"

definition ensureRestoreEpoch :: "'w world \<Rightarrow> string \<Rightarrow> ('w, restoreEpochRecord) io" where
  "ensureRestoreEpoch W now =
     bindM (w_Get W restoreEpochKey) (\<lambda>e.
       case e of
         None \<Rightarrow> bindM (newRestoreEpochRecord W now) (\<lambda>r. bindM (putRestoreEpoch W r) (\<lambda>_. retM r))
       | Some v \<Rightarrow> bindM (liftE (decodeEpoch v)) (\<lambda>r.
           if re_Epoch r = [] then failM (Errorf ''restore epoch is empty'' []) else retM r))"

definition rotateRestoreEpoch :: "'w world \<Rightarrow> string \<Rightarrow> ('w, restoreEpochRecord) io" where
  "rotateRestoreEpoch W now =
     bindM (newRestoreEpochRecord W now) (\<lambda>r. bindM (putRestoreEpoch W r) (\<lambda>_. retM r))"

definition ensureRuntimeState :: "'w world \<Rightarrow> ('w, runtimeState) io" where
  "ensureRuntimeState W =
     bindM (nowUTC W) (\<lambda>t.
       let now = formatRFC3339 t
       in bindM (ensureStorageSchema W now) (\<lambda>schema.
          bindM (ensureRestoreEpoch W now) (\<lambda>epoch.
          bindM (ensureGlobalConfig W now) (\<lambda>_.
            retM \<lparr> rt_Schema = schema, rt_RestoreEpoch = epoch \<rparr>))))"

definition requiredMountUUID :: "'w world \<Rightarrow> gerr + string" where
  "requiredMountUUID W =
     (if trimSpace (w_MountUUID W) = [] then Inl ErrBackendUUIDRequired else Inr (w_MountUUID W))"

definition providerRuntimeIdentity :: "'w world \<Rightarrow> ('w, runtimeIdentity) io" where
  "providerRuntimeIdentity W =
     bindM (liftE (requiredMountUUID W)) (\<lambda>mountUUID.
     bindM (ensureRuntimeState W) (\<lambda>state.
       retM \<lparr> ri_MountUUID = mountUUID, ri_RestoreEpoch = re_Epoch (rt_RestoreEpoch state) \<rparr>))"

definition ensureRuntimeStateForRequest :: "'w world \<Rightarrow> ('w, unit) io" where
  "ensureRuntimeStateForRequest W =
     bindM (liftE (requiredMountUUID W)) (\<lambda>_. bindM (ensureRuntimeState W) (\<lambda>_. retM ()))"

text \<open>\<open>remoteMutationAllowed\<close> of \<open>backend.go\<close>: the replication states that forbid writing.\<close>

definition readOnlyReplicationStates :: "string list" where
  "readOnlyReplicationStates = [''performance-secondary'', ''performance-standby'', ''performance-bootstrapping'',
     ''dr-secondary'', ''dr-bootstrapping'']"

definition remoteMutationAllowed :: "'w world \<Rightarrow> bool" where
  "remoteMutationAllowed W \<longleftrightarrow>
     w_LocalMount W \<or> (\<forall>s \<in> set (w_ReplicationState W). s \<notin> set readOnlyReplicationStates)"

section \<open>The configuration handlers\<close>

definition configResponse :: "string \<Rightarrow> runtimeState \<Rightarrow> globalConfig \<Rightarrow> (string \<times> goval) list" where
  "configResponse mountUUID state cfg =
     [(''security_posture'', JString (gc_SecurityPosture cfg)),
      (''disabled'', JBool (gc_Disabled cfg)),
      (''restore_guard'', JBool (gc_RestoreGuard cfg)),
      (''restore_guard_acknowledged_time'', JString (gc_RestoreGuardAcknowledgedTime cfg)),
      (''restore_epoch'', JString (re_Epoch (rt_RestoreEpoch state))),
      (''mount_uuid'', JString mountUUID),
      (''storage_schema_version'', JInt (ss_Version (rt_Schema state))),
      (''storage_schema_min_compatible_version'', JInt (ss_MinCompatibleVersion (rt_Schema state))),
      (''queue_capacity'', JInt (gc_QueueCapacity cfg)),
      (''drift_repair'', JString (gc_DriftRepair cfg)),
      (''drift_reconcile_interval'', JString (gc_DriftReconcileInterval cfg)),
      (''drift_reconcile_batch'', JInt (gc_DriftReconcileBatch cfg)),
      (''event_dispatch_enabled'', JBool (gc_EventDispatchEnabled cfg)),
      (''event_dispatch_max_operations'', JInt (gc_EventDispatchMaxOperations cfg))]"

definition pathConfigRead :: "'w world \<Rightarrow> ('w, response) io" where
  "pathConfigRead W =
     bindM (ensureRuntimeState W) (\<lambda>state.
     bindM (liftE (requiredMountUUID W)) (\<lambda>mountUUID.
     bindM (readGlobalConfig W) (\<lambda>cfg.
       retM (DataResponse (configResponse mountUUID state cfg)))))"

definition rejectUnknownConfigFields :: "fieldData \<Rightarrow> gerr + unit" where
  "rejectUnknownConfigFields d =
     (case find (\<lambda>f. f \<notin> set (fd_Schema d)) (map fst (fd_Raw d)) of
        Some f \<Rightarrow> Inl (Errorf ''unknown config field %q'' [f])
      | None \<Rightarrow> Inr ())"

definition applySecurityPostureConfigField :: "fieldData \<Rightarrow> globalConfig \<Rightarrow> gerr + globalConfig" where
  "applySecurityPostureConfigField d cfg =
     bindE (rejectUnknownConfigFields d) (\<lambda>_.
       case getOkString d ''security_posture'' of
         None \<Rightarrow> Inr cfg
       | Some posture \<Rightarrow> bindE (validateSecurityPosture posture) (\<lambda>_.
           Inr (cfg \<lparr> gc_SecurityPosture := posture \<rparr>)))"

definition applyDriftConfigFields :: "fieldData \<Rightarrow> globalConfig \<Rightarrow> gerr + globalConfig" where
  "applyDriftConfigFields d cfg =
     bindE (case getOkString d ''drift_repair'' of
              None \<Rightarrow> Inr cfg
            | Some v \<Rightarrow> bindE (validateDriftRepairMode v) (\<lambda>_. Inr (cfg \<lparr> gc_DriftRepair := v \<rparr>))) (\<lambda>cfg.
     bindE (case getOkString d ''drift_reconcile_interval'' of
              None \<Rightarrow> Inr cfg
            | Some v \<Rightarrow> bindE (validateDriftReconcileInterval v) (\<lambda>_.
                Inr (cfg \<lparr> gc_DriftReconcileInterval := v \<rparr>))) (\<lambda>cfg.
       case getOkInt d ''drift_reconcile_batch'' of
         None \<Rightarrow> Inr cfg
       | Some v \<Rightarrow>
           bindE (atLeast 1 v ''drift_reconcile_batch must be greater than or equal to one'') (\<lambda>_.
             Inr (cfg \<lparr> gc_DriftReconcileBatch := v \<rparr>))))"

definition applyEventDispatchConfigFields :: "fieldData \<Rightarrow> globalConfig \<Rightarrow> gerr + globalConfig" where
  "applyEventDispatchConfigFields d cfg =
     (let cfg = (case getOkBool d ''event_dispatch_enabled'' of
                   None \<Rightarrow> cfg | Some b \<Rightarrow> cfg \<lparr> gc_EventDispatchEnabled := b \<rparr>)
      in case getOkInt d ''event_dispatch_max_operations'' of
           None \<Rightarrow> Inr cfg
         | Some v \<Rightarrow>
             bindE (atLeast 1 v ''event_dispatch_max_operations must be greater than or equal to one'') (\<lambda>_.
               Inr (cfg \<lparr> gc_EventDispatchMaxOperations := v \<rparr>)))"

definition configWriteResumesEventDispatch :: "bool \<Rightarrow> bool \<Rightarrow> bool \<Rightarrow> globalConfig \<Rightarrow> bool" where
  "configWriteResumesEventDispatch previousDisabled previousRestoreGuard previousEventDispatchEnabled cfg =
     (if \<not> gc_EventDispatchEnabled cfg \<or> gc_Disabled cfg \<or> gc_RestoreGuard cfg then False
      else previousDisabled \<or> previousRestoreGuard \<or> \<not> previousEventDispatchEnabled)"

definition zeroRestoreEpochRecord :: restoreEpochRecord where
  "zeroRestoreEpochRecord = \<lparr> re_Epoch = [], re_CreatedTime = [], re_UpdatedTime = [] \<rparr>"

definition commitGlobalConfig :: "'w world \<Rightarrow> globalConfig \<Rightarrow> bool \<Rightarrow> ('w, restoreEpochRecord) io" where
  "commitGlobalConfig W cfg rotateEpoch =
     (if rotateEpoch \<and> \<not> w_Transactional W
      then failM (Errorf (''clearing an active restore guard requires transactional storage; '' @
             ''use an OpenBao storage backend that exposes transactions'') [])
      else withTransaction W
        (bindM (if rotateEpoch then rotateRestoreEpoch W (gc_UpdatedTime cfg) else retM zeroRestoreEpochRecord) (\<lambda>epoch.
         bindM (putGlobalConfig W cfg) (\<lambda>_. retM epoch))))"

text \<open>\<open>pathConfigWrite\<close>: the requested changes, field by field, then the commit.\<close>

definition requestedRestoreGuard :: "'w world \<Rightarrow> fieldData \<Rightarrow> globalConfig \<Rightarrow> ('w, globalConfig) io" where
  "requestedRestoreGuard W d cfg =
     (case getOkBool d ''restore_guard'' of
        None \<Rightarrow> retM cfg
      | Some True \<Rightarrow> retM (cfg \<lparr> gc_RestoreGuard := True, gc_RestoreGuardAcknowledgedTime := [] \<rparr>)
      | Some False \<Rightarrow> bindM (nowUTC W) (\<lambda>t.
          retM (cfg \<lparr> gc_RestoreGuard := False, gc_RestoreGuardAcknowledgedTime := formatRFC3339 t \<rparr>)))"

definition requestedQueueCapacity :: "fieldData \<Rightarrow> globalConfig \<Rightarrow> gerr + globalConfig" where
  "requestedQueueCapacity d cfg =
     (case getOkInt d ''queue_capacity'' of
        None \<Rightarrow> Inr cfg
      | Some v \<Rightarrow> bindE (atLeast 0 v ''queue_capacity must be greater than or equal to zero'') (\<lambda>_.
          Inr (cfg \<lparr> gc_QueueCapacity := v \<rparr>)))"

definition pathConfigWrite :: "'w world \<Rightarrow> fieldData \<Rightarrow> ('w, response) io" where
  "pathConfigWrite W d =
     bindM (readGlobalConfig W) (\<lambda>old.
     bindM (requestedRestoreGuard W d (case getOkBool d ''disabled'' of
              None \<Rightarrow> old | Some b \<Rightarrow> old \<lparr> gc_Disabled := b \<rparr>)) (\<lambda>cfg.
     respondE (requestedQueueCapacity d cfg) (\<lambda>cfg.
     respondE (applySecurityPostureConfigField d cfg) (\<lambda>cfg.
     respondE (applyDriftConfigFields d cfg) (\<lambda>cfg.
     respondE (applyEventDispatchConfigFields d cfg) (\<lambda>cfg.
     bindM (nowUTC W) (\<lambda>t.
       let cfg = cfg \<lparr> gc_UpdatedTime := formatRFC3339 t \<rparr>
       in bindM (commitGlobalConfig W cfg (gc_RestoreGuard old \<and> \<not> gc_RestoreGuard cfg)) (\<lambda>_.
          bindM (whenM (configWriteResumesEventDispatch (gc_Disabled old) (gc_RestoreGuard old)
                          (gc_EventDispatchEnabled old) cfg)
                  (signalEventDispatch W)) (\<lambda>_.
            retM NilResponse)))))))))"

definition pathConfigRestoreGuardAcknowledgeWrite :: "'w world \<Rightarrow> ('w, response) io" where
  "pathConfigRestoreGuardAcknowledgeWrite W =
     bindM (liftE (requiredMountUUID W)) (\<lambda>mountUUID.
     bindM (ensureRuntimeState W) (\<lambda>state.
     bindM (readGlobalConfig W) (\<lambda>cfg.
     bindM (nowUTC W) (\<lambda>t.
       let now = formatRFC3339 t;
           rotateEpoch = gc_RestoreGuard cfg;
           cfg = cfg \<lparr> gc_RestoreGuard := False, gc_RestoreGuardAcknowledgedTime := now, gc_UpdatedTime := now \<rparr>
       in bindM (commitGlobalConfig W cfg rotateEpoch) (\<lambda>epoch.
          let state = (if rotateEpoch then state \<lparr> rt_RestoreEpoch := epoch \<rparr> else state)
          in bindM (signalEventDispatch W) (\<lambda>_.
            retM (DataResponse (configResponse mountUUID state cfg))))))))"

end
