(* ===== verification/Transactions.thy ===== *)
theory Transactions
  imports Mem_World
begin

text \<open>
  Storage with native transactions: what \<open>bao_storage\<close> promises and that a rolled back transaction
  leaves no trace. On it a transactional section is all or nothing.
\<close>

locale transactional_storage = bao_storage +
  assumes transactional: "w_Transactional W"
    and rollback_tx: "wp (w_EndTx W h (Some er)) (\<lambda>_ w'. contents w' = contents h) (\<lambda>_ w'. contents w' = contents h) w"
begin

lemma wp_withTransaction_tx:
  assumes body: "\<And>w1. contents w1 = contents w \<Longrightarrow> wp m Q' (\<lambda>_ _. True) w1"
    and commit: "\<And>a w2 w3. Q' a w2 \<Longrightarrow> contents w3 = contents w2 \<Longrightarrow> Q a w3"
    and commit_fail: "\<And>a w2 e w3. Q' a w2 \<Longrightarrow> contents w3 = contents w2 \<Longrightarrow> E e w3"
    and fail: "\<And>e w1. contents w1 = contents w \<Longrightarrow> E e w1"
  shows "wp (withTransaction W m) Q E w"
proof (cases "w_BeginTx W w")
  case (Pair r w1)
  have c1: "contents w1 = contents w"
    using begin_law [of w] Pair by (simp add: wp_def split: sum.splits)
  show ?thesis
  proof (cases r)
    case (Inl e)
    then show ?thesis using Pair fail [OF c1] by (simp add: withTransaction_def wp_def)
  next
    case (Inr u)
    note r = Pair Inr
    have b: "wp m Q' (\<lambda>_ _. True) w1" by (rule body [OF c1])
    show ?thesis
    proof (cases "m w1")
      case (Pair s w2)
      note s = Pair
      show ?thesis
      proof (cases s)
        case (Inl e)
        have "contents (snd (w_EndTx W w1 (Some e) w2)) = contents w"
          using rollback_tx [of w1 e w2] c1 by (auto simp: wp_def split: prod.splits sum.splits)
        then show ?thesis
          using r s Inl by (auto simp: withTransaction_def wp_def split: prod.splits intro: fail)
      next
        case (Inr a)
        have q: "Q' a w2" using b s Inr by (simp add: wp_def)
        then show ?thesis
          using r s Inr commit_law [of w1 w2] c1
          by (auto simp: withTransaction_def wp_def split: prod.splits sum.splits
              intro: commit commit_fail fail)
      qed
    qed
  qed
qed

end

interpretation mem_tx: transactional_storage "memW True" memContents
  by unfold_locales (simp_all add: wp_def memEndTx_def)

end
