(* ===== verification/Config_Laws.thy ===== *)
theory Config_Laws
  imports Config Transactions Storage_Source
begin

text \<open>
  The laws of the configuration: which configurations are valid, that a stored one reads back as
  itself, and what the configuration handlers leave in the store.
\<close>

definition validConfig :: "globalConfig \<Rightarrow> bool" where
  "validConfig cfg \<longleftrightarrow> validateSecurityPosture (gc_SecurityPosture cfg) = Inr () \<and>
     0 \<le> gc_QueueCapacity cfg \<and> validateDriftRepairMode (gc_DriftRepair cfg) = Inr () \<and>
     validateDriftReconcileInterval (gc_DriftReconcileInterval cfg) = Inr () \<and>
     1 \<le> gc_DriftReconcileBatch cfg \<and> 1 \<le> gc_EventDispatchMaxOperations cfg"

definition configOf :: "(string \<Rightarrow> entry option) \<Rightarrow> gerr + globalConfig" where
  "configOf c = (case c configPath of
      None \<Rightarrow> Inr defaultGlobalConfig
    | Some e \<Rightarrow> bindE (decodeGlobalConfigEntry e) (\<lambda>(cfg, _). Inr cfg))"

lemma storedE_simps [simp]: "storedE (Inr a) = Inr a" "storedE r = Inr a \<longleftrightarrow> r = Inr a"
  by (cases r; simp add: storedE_def)+

lemma atLeast_Inr [simp]: "atLeast lo v msg = Inr u \<longleftrightarrow> lo \<le> v"
  by (auto simp: atLeast_def)

lemma decode_stored:
  assumes "validConfig cfg"
  shows "decodeGlobalConfig (storedConfig cfg) = Inr (cfg, False)"
proof -
  show ?thesis using assms
    by (simp add: atLeast_def decodeGlobalConfig_def storedConfig_def validConfig_def optionalBoolConfigValue_def
        optionalConfigValue_def applyDecodedSecurityPosture_def defaultGlobalConfig_def)
qed

lemma decode_valid:
  assumes "decodeGlobalConfig s = Inr (cfg, ch)"
  shows "validConfig cfg"
  using assms
  by (auto simp: decodeGlobalConfig_def bindE_Inr_iff validConfig_def Let_def applyDecodedSecurityPosture_def
      split: prod.splits option.splits)

lemma valid_default: "validConfig defaultGlobalConfig"
  unfolding validConfig_def by code_simp

lemma valid_initial: "validConfig (initialGlobalConfig now)"
  using valid_default by (simp add: validConfig_def initialGlobalConfig_def)

lemma configOf_valid: "configOf c = Inr cfg \<Longrightarrow> validConfig cfg"
  by (auto simp: configOf_def decodeGlobalConfigEntry_def bindE_Inr_iff valid_default
      split: option.splits intro: decode_valid)

lemma configOf_stored [simp]:
  "validConfig cfg \<Longrightarrow> configOf (c(configPath \<mapsto> EConfig (storedConfig cfg))) = Inr cfg"
  by (simp add: configOf_def decodeGlobalConfigEntry_def decode_stored)

lemma configOf_other [simp]: "k \<noteq> configPath \<Longrightarrow> configOf (c(k := v)) = configOf c"
  by (simp add: configOf_def)

lemma valid_requests:
  assumes "validConfig cfg"
  shows "requestedQueueCapacity d cfg = Inr cfg1 \<Longrightarrow> validConfig cfg1 \<and> gc_RestoreGuard cfg1 = gc_RestoreGuard cfg"
    and "applySecurityPostureConfigField d cfg = Inr cfg2 \<Longrightarrow>
      validConfig cfg2 \<and> gc_RestoreGuard cfg2 = gc_RestoreGuard cfg"
    and "applyDriftConfigFields d cfg = Inr cfg3 \<Longrightarrow> validConfig cfg3 \<and> gc_RestoreGuard cfg3 = gc_RestoreGuard cfg"
    and "applyEventDispatchConfigFields d cfg = Inr cfg4 \<Longrightarrow>
      validConfig cfg4 \<and> gc_RestoreGuard cfg4 = gc_RestoreGuard cfg"
proof -
  show "validConfig cfg1 \<and> gc_RestoreGuard cfg1 = gc_RestoreGuard cfg"
    if "requestedQueueCapacity d cfg = Inr cfg1"
    using that assms by (auto simp: requestedQueueCapacity_def bindE_Inr_iff validConfig_def split: option.splits)
  show "validConfig cfg2 \<and> gc_RestoreGuard cfg2 = gc_RestoreGuard cfg"
    if "applySecurityPostureConfigField d cfg = Inr cfg2"
    using that assms
    by (auto simp: applySecurityPostureConfigField_def bindE_Inr_iff validConfig_def split: option.splits)
  show "validConfig cfg3 \<and> gc_RestoreGuard cfg3 = gc_RestoreGuard cfg"
    if "applyDriftConfigFields d cfg = Inr cfg3"
    using that assms by (auto simp: applyDriftConfigFields_def bindE_Inr_iff validConfig_def split: option.splits)
  show "validConfig cfg4 \<and> gc_RestoreGuard cfg4 = gc_RestoreGuard cfg"
    if "applyEventDispatchConfigFields d cfg = Inr cfg4"
    using that assms
    by (auto simp: applyEventDispatchConfigFields_def bindE_Inr_iff validConfig_def Let_def split: option.splits)
qed

context bao_storage begin

lemma wp_readGlobalConfig [wp_intros]:
  assumes "\<And>cfg w'. contents w' = contents w \<Longrightarrow> configOf (contents w) = Inr cfg \<Longrightarrow> Q cfg w'"
    and "\<And>e w'. contents w' = contents w \<Longrightarrow> E e w'"
  shows "wp (readGlobalConfig W) Q E w"
  unfolding readGlobalConfig_def
  by (simp, rule wp_Get) (auto simp: wp_simps configOf_def assms split: option.splits sum.splits prod.splits)

lemma wp_requestedRestoreGuard [wp_intros]:
  assumes "\<And>cfg' w'. contents w' = contents w \<Longrightarrow> validConfig cfg \<longrightarrow> validConfig cfg' \<Longrightarrow> Q cfg' w'"
  shows "wp (requestedRestoreGuard W d cfg) Q E w"
  unfolding requestedRestoreGuard_def
  by (auto simp: wp_simps split: option.splits bool.splits intro!: assms wp_nowUTC) (auto simp: validConfig_def)

text \<open>The runtime state is created once: afterwards reading it changes nothing.\<close>

definition runtimeKeys :: "string set" where
  "runtimeKeys = {storageSchemaKey, restoreEpochKey, configPath}"

lemma runtime_keys_distinct [simp]:
  "storageSchemaKey \<noteq> restoreEpochKey" "restoreEpochKey \<noteq> storageSchemaKey" "storageSchemaKey \<noteq> configPath"
  "configPath \<noteq> storageSchemaKey" "restoreEpochKey \<noteq> configPath" "configPath \<noteq> restoreEpochKey"
  by (simp_all add: storageSchemaKey_def restoreEpochKey_def configPath_def)

lemma wp_ensureStorageSchema:
  assumes "\<And>r w'. (\<forall>k. k \<noteq> storageSchemaKey \<longrightarrow> contents w' k = contents w k) \<Longrightarrow> Q r w'"
    and "\<And>e w'. (\<forall>k. k \<noteq> storageSchemaKey \<longrightarrow> contents w' k = contents w k) \<Longrightarrow> E e w'"
  shows "wp (ensureStorageSchema W now) Q E w"
  unfolding ensureStorageSchema_def putStorageSchema_def
  by (simp, rule wp_Get) (auto simp: wp_simps Let_def assms split: option.splits sum.splits intro!: wp_Put)

lemma wp_ensureRestoreEpoch:
  assumes Q: "\<And>r w'. (\<forall>k. k \<noteq> restoreEpochKey \<longrightarrow> contents w' k = contents w k) \<Longrightarrow> re_Epoch r \<noteq> [] \<Longrightarrow>
      contents w' restoreEpochKey = Some (EEpoch r) \<Longrightarrow>
      contents w restoreEpochKey \<noteq> None \<longrightarrow> contents w' = contents w \<Longrightarrow> Q r w'"
    and E: "\<And>e w'. (\<forall>k. k \<noteq> restoreEpochKey \<longrightarrow> contents w' k = contents w k) \<Longrightarrow>
      contents w restoreEpochKey \<noteq> None \<longrightarrow> contents w' = contents w \<Longrightarrow> E e w'"
  shows "wp (ensureRestoreEpoch W now) Q E w"
  unfolding ensureRestoreEpoch_def newRestoreEpochRecord_def putRestoreEpoch_def
proof (simp, rule wp_Get, goal_cases)
  case (1 w')
  show ?case
  proof (cases "contents w restoreEpochKey")
    case None
    show ?thesis
      unfolding None by (auto simp: 1 None intro!: wp_newRuntimeID wp_Put Q E)
  next
    case (Some e)
    then show ?thesis
      by (auto simp: wp_simps 1 split: sum.splits intro!: Q E)
  qed
next
  case (2 e w')
  then show ?case by (simp add: E)
qed

lemma wp_ensureGlobalConfig:
  assumes Q: "\<And>w'. (\<forall>k. k \<noteq> configPath \<longrightarrow> contents w' k = contents w k) \<Longrightarrow>
      (\<exists>cfg. configOf (contents w') = Inr cfg) \<Longrightarrow> Q () w'"
    and E: "\<And>e w'. (\<forall>k. k \<noteq> configPath \<longrightarrow> contents w' k = contents w k) \<Longrightarrow> E e w'"
  shows "wp (ensureGlobalConfig W now) Q E w"
  unfolding ensureGlobalConfig_def putGlobalConfig_def
proof (simp, rule wp_Get, goal_cases)
  case (1 w')
  show ?case
  proof (cases "contents w configPath")
    case None
    show ?thesis
      unfolding None by (auto simp: 1 valid_initial intro!: wp_Put Q E)
  next
    case (Some e)
    show ?thesis
    proof (cases "decodeGlobalConfigEntry e")
      case (Inl er)
      then show ?thesis using Some 1 by (simp add: E)
    next
      case (Inr r)
      obtain cfg ch where r: "r = (cfg, ch)" by (cases r)
      have v: "validConfig (cfg \<lparr> gc_UpdatedTime := now \<rparr>)"
        using Inr r decode_valid by (auto simp: decodeGlobalConfigEntry_def bindE_Inr_iff validConfig_def)
      have "configOf (contents w) = Inr cfg" using Some Inr r by (simp add: configOf_def)
      then show ?thesis
        using Some Inr r 1 v by (auto simp: wp_simps intro!: wp_Put Q E)
    qed
  qed
next
  case (2 e w')
  then show ?case by (simp add: E)
qed

lemma wp_ensureRuntimeState [wp_intros]:
  assumes Q: "\<And>st w'. (\<forall>k. k \<notin> runtimeKeys \<longrightarrow> contents w' k = contents w k) \<Longrightarrow>
      contents w' restoreEpochKey = Some (EEpoch (rt_RestoreEpoch st)) \<Longrightarrow>
      contents w restoreEpochKey \<noteq> None \<longrightarrow> contents w' restoreEpochKey = contents w restoreEpochKey \<Longrightarrow>
      re_Epoch (rt_RestoreEpoch st) \<noteq> [] \<Longrightarrow> (\<exists>cfg. configOf (contents w') = Inr cfg) \<Longrightarrow> Q st w'"
    and E: "\<And>e w'. (\<forall>k. k \<notin> runtimeKeys \<longrightarrow> contents w' k = contents w k) \<Longrightarrow>
      contents w restoreEpochKey \<noteq> None \<longrightarrow> contents w' restoreEpochKey = contents w restoreEpochKey \<Longrightarrow> E e w'"
  shows "wp (ensureRuntimeState W) Q E w"
  unfolding ensureRuntimeState_def Let_def
proof (rule wp_seq, rule wp_nowUTC, rule wp_seq, rule wp_ensureStorageSchema, goal_cases)
  case (1 t w0 schema w1)
  show ?case
  proof (rule wp_seq, rule wp_ensureRestoreEpoch, goal_cases)
    case (1 ep w2)
    show ?case
      by (rule wp_seq, rule wp_ensureGlobalConfig) (use \<open>\<forall>k. k \<noteq> storageSchemaKey \<longrightarrow> contents w1 k = contents w0 k\<close>
          \<open>contents w0 = contents w\<close> 1 in \<open>auto simp: runtimeKeys_def intro!: Q E\<close>)
  next
    case (2 e w2)
    then show ?case
      using \<open>\<forall>k. k \<noteq> storageSchemaKey \<longrightarrow> contents w1 k = contents w0 k\<close> \<open>contents w0 = contents w\<close>
      by (auto simp: runtimeKeys_def intro!: E)
  qed
next
  case (2 t w0 e w1)
  then show ?case by (auto simp: runtimeKeys_def intro!: E)
qed

end

text \<open>The identifiers that the generator can draw.\<close>

definition drawnIDs :: "'w world \<Rightarrow> string \<Rightarrow> string set" where
  "drawnIDs W pre = {i. \<exists>w w'. newRuntimeID W pre w = (Inr i, w')}"

text \<open>An epoch that begins at \<open>now\<close> with an identifier just drawn, so it is not the stored one as long as
  the generator does not draw that one again.\<close>

definition newEpoch :: "'w world \<Rightarrow> (string \<Rightarrow> entry option) \<Rightarrow> string \<Rightarrow> restoreEpochRecord \<Rightarrow> bool" where
  "newEpoch W c now epoch \<longleftrightarrow> re_Epoch epoch \<noteq> [] \<and> re_Epoch epoch \<in> drawnIDs W ''epoch'' \<and>
     re_CreatedTime epoch = now \<and>
     (\<forall>e. c restoreEpochKey = Some (EEpoch e) \<longrightarrow> re_Epoch e \<notin> drawnIDs W ''epoch'' \<longrightarrow> re_Epoch epoch \<noteq> re_Epoch e)"

text \<open>On transactional storage a configuration and the epoch that goes with it are committed together.\<close>

definition configCommitted ::
    "'w world \<Rightarrow> globalConfig \<Rightarrow> (string \<Rightarrow> entry option) \<Rightarrow> (string \<Rightarrow> entry option) \<Rightarrow> bool" where
  "configCommitted W old c d \<longleftrightarrow> (\<exists>new. validConfig new \<and> configOf d = Inr new \<and>
     (if gc_RestoreGuard old \<and> \<not> gc_RestoreGuard new
      then \<exists>epoch. newEpoch W c (gc_UpdatedTime new) epoch \<and>
        d = c(restoreEpochKey \<mapsto> EEpoch epoch, configPath \<mapsto> EConfig (storedConfig new))
      else d = c(configPath \<mapsto> EConfig (storedConfig new))))"

context bao_storage begin

lemma wp_newRuntimeID_drawn:
  assumes "\<And>i w'. contents w' = contents w \<Longrightarrow> i \<noteq> [] \<Longrightarrow> i \<in> drawnIDs W pre \<Longrightarrow> Q i w'"
    and "\<And>e w'. contents w' = contents w \<Longrightarrow> E e w'"
  shows "wp (newRuntimeID W pre) Q E w"
proof -
  have "wp (newRuntimeID W pre) (\<lambda>i w'. contents w' = contents w \<and> i \<noteq> []) (\<lambda>_ w'. contents w' = contents w) w"
    by (rule wp_newRuntimeID) auto
  then show ?thesis
    using assms by (fastforce simp: wp_def drawnIDs_def split: prod.splits sum.splits)
qed

end

context transactional_storage begin

lemma wp_commitGlobalConfig_tx:
  assumes Q: "\<And>epoch w'. rot \<longrightarrow> newEpoch W (contents w) (gc_UpdatedTime cfg) epoch \<Longrightarrow> contents w' =
      (if rot then (contents w)(restoreEpochKey \<mapsto> EEpoch epoch) else contents w)
        (configPath \<mapsto> EConfig (storedConfig cfg)) \<Longrightarrow> Q epoch w'"
    and E: "\<And>e epoch w'. contents w' = contents w \<or> (rot \<longrightarrow> newEpoch W (contents w) (gc_UpdatedTime cfg) epoch) \<and>
      contents w' = (if rot then (contents w)(restoreEpochKey \<mapsto> EEpoch epoch) else contents w)
        (configPath \<mapsto> EConfig (storedConfig cfg)) \<Longrightarrow> E e w'"
  shows "wp (commitGlobalConfig W cfg rot) Q E w"
proof -
  let ?new = "\<lambda>epoch. (if rot then (contents w)(restoreEpochKey \<mapsto> EEpoch epoch) else contents w)
        (configPath \<mapsto> EConfig (storedConfig cfg))"
  have E0: "E e w'" if "contents w' = contents w" for e w'
    using E that by blast
  have def: "commitGlobalConfig W cfg rot = withTransaction W
      (bindM (if rot then rotateRestoreEpoch W (gc_UpdatedTime cfg) else retM zeroRestoreEpochRecord) (\<lambda>epoch.
         bindM (putGlobalConfig W cfg) (\<lambda>_. retM epoch)))"
    using transactional by (simp add: commitGlobalConfig_def)
  show ?thesis
    unfolding def
  proof (rule wp_withTransaction_tx
      [where Q' = "\<lambda>epoch w'. (rot \<longrightarrow> newEpoch W (contents w) (gc_UpdatedTime cfg) epoch) \<and> contents w' = ?new epoch"], goal_cases)
    case (1 w1)
    then show ?case
      by (auto simp: wp_simps rotateRestoreEpoch_def newRestoreEpochRecord_def putRestoreEpoch_def
          putGlobalConfig_def newEpoch_def intro!: wp_newRuntimeID_drawn wp_Put)
  next
    case (2 a w2 w3)
    then show ?case by (intro Q) auto
  next
    case (3 a w2 e w3)
    then show ?case by (intro E [where epoch = a]) auto
  next
    case (4 e w1)
    then show ?case by (rule E0)
  qed
qed

lemma wp_pathConfigWrite_tx:
  assumes old: "configOf (contents w) = Inr old"
  shows "wp (pathConfigWrite W d)
    (\<lambda>r w'. if r = NilResponse then configCommitted W old (contents w) (contents w') else contents w' = contents w)
    (\<lambda>_ w'. contents w' = contents w \<or> configCommitted W old (contents w) (contents w')) w"
  (is "wp _ ?Q ?E w")
  unfolding pathConfigWrite_def
proof (rule wp_seq, rule wp_readGlobalConfig, goal_cases)
  case (1 cfg w1)
  then have cfg: "cfg = old" using old by simp
  have v0: "validConfig (case getOkBool d ''disabled'' of None \<Rightarrow> cfg | Some b \<Rightarrow> cfg \<lparr> gc_Disabled := b \<rparr>)"
    using configOf_valid [OF old] cfg by (simp add: validConfig_def split: option.splits)
  show ?case
  proof (rule wp_seq, rule wp_requestedRestoreGuard, goal_cases)
    case (1 c1 w2)
    have c2: "contents w2 = contents w" using 1 \<open>contents w1 = contents w\<close> by simp
    have v1: "validConfig c1" using 1 v0 by blast
    show ?case
    proof (intro wp_respond)
      fix c3 c4 c5 c6
      assume f: "requestedQueueCapacity d c1 = Inr c3" "applySecurityPostureConfigField d c3 = Inr c4"
        "applyDriftConfigFields d c4 = Inr c5" "applyEventDispatchConfigFields d c5 = Inr c6"
      have v3: "validConfig c3" using valid_requests(1) [OF v1 f(1)] by blast
      have v4: "validConfig c4" using valid_requests(2) [OF v3 f(2)] by blast
      have v5: "validConfig c5" using valid_requests(3) [OF v4 f(3)] by blast
      have v6: "validConfig c6" using valid_requests(4) [OF v5 f(4)] by blast
      show "wp (bindM (nowUTC W) (\<lambda>t. let cfg' = c6 \<lparr> gc_UpdatedTime := formatRFC3339 t \<rparr>
          in bindM (commitGlobalConfig W cfg' (gc_RestoreGuard cfg \<and> \<not> gc_RestoreGuard cfg')) (\<lambda>_.
             bindM (whenM (configWriteResumesEventDispatch (gc_Disabled cfg) (gc_RestoreGuard cfg)
                     (gc_EventDispatchEnabled cfg) cfg') (signalEventDispatch W)) (\<lambda>_. retM NilResponse))))
          ?Q ?E w2"
        unfolding Let_def
      proof (rule wp_seq, rule wp_nowUTC, goal_cases)
        case (1 t w3)
        define new where "new = c6 \<lparr> gc_UpdatedTime := formatRFC3339 t \<rparr>"
        have vn: "validConfig new" using v6 by (simp add: new_def validConfig_def)
        have committed: "configCommitted W old (contents w) c'"
          if "gc_RestoreGuard cfg \<and> \<not> gc_RestoreGuard new \<longrightarrow> newEpoch W (contents w3) (gc_UpdatedTime new) ep"
            "c' = (if gc_RestoreGuard cfg \<and> \<not> gc_RestoreGuard new
               then (contents w3)(restoreEpochKey \<mapsto> EEpoch ep) else contents w3)
               (configPath \<mapsto> EConfig (storedConfig new))" for ep c'
          unfolding configCommitted_def
        proof (intro exI conjI)
          show "validConfig new" by (rule vn)
          show "configOf c' = Inr new" unfolding that(2) by (rule configOf_stored [OF vn])
          have "contents w3 = contents w" using 1 c2 by simp
          then show "if gc_RestoreGuard old \<and> \<not> gc_RestoreGuard new
            then \<exists>epoch. newEpoch W (contents w) (gc_UpdatedTime new) epoch \<and>
              c' = (contents w)(restoreEpochKey \<mapsto> EEpoch epoch, configPath \<mapsto> EConfig (storedConfig new))
            else c' = (contents w)(configPath \<mapsto> EConfig (storedConfig new))"
            using that cfg by auto
        qed
        show ?case
          unfolding new_def [symmetric]
        proof (rule wp_seq, rule wp_commitGlobalConfig_tx, goal_cases)
          case (1 ep w4)
          then have "configCommitted W old (contents w) (contents w4)" using committed by blast
          then show ?case by (auto intro!: wp_signal)
        next
          case (2 e ep w4)
          then show ?case using committed \<open>contents w3 = contents w2\<close> c2 by auto
        qed
      qed
    qed (simp_all add: c2)
  qed
qed simp

end

end
