(* ===== verification/Granularity.thy ===== *)
theory Granularity
  imports Config Payload
begin

text \<open>
  What an association sends and where: the objects of an association and their remote names
  (\<open>internal/backend/granularity.go\<close>), the payload of an object (\<open>dispatcher.go\<close>), and the destination
  policy that both must pass (\<open>association_policy.go\<close>).
\<close>

section \<open>Object ids and data keys\<close>

definition validateSecretKeyObjectID :: "string \<Rightarrow> gerr + unit" where
  "validateSecretKeyObjectID key =
     (if trimSpace key \<noteq> key \<or> key = []
      then Inl (Errorf ''secret-key object key must not be empty or have surrounding whitespace'' [])
      else if containsStr key ''/'' \<or> key = ''.'' \<or> key = ''..''
      then Inl (Errorf ''secret-key object key %q is not supported'' [key])
      else Inr ())"

definition renderDataKeyTemplate :: "string \<Rightarrow> string \<Rightarrow> gerr + string" where
  "renderDataKeyTemplate template key =
     (let rendered = replaceAll template ''{{ key }}'' key
      in if containsStr rendered ''{{'' \<or> containsStr rendered ''}}''
         then Inl (Errorf ''unsupported data_key_template %q'' [template])
         else if rendered = [] then Inl (Errorf ''data key must not be empty'' [])
         else Inr rendered)"

text \<open>A rune loop over a Go string accepts every rune in an ASCII class iff every byte is in it.\<close>

definition charFromTo :: "char \<Rightarrow> char \<Rightarrow> char \<Rightarrow> bool" where
  "charFromTo lo hi c = (lo \<le> c \<and> c \<le> hi)"

definition isDataMapKeyCharacter :: "char \<Rightarrow> bool" where
  "isDataMapKeyCharacter c =
     (if charFromTo (CHR ''a'') (CHR ''z'') c then True
      else if charFromTo (CHR ''A'') (CHR ''Z'') c then True
      else if charFromTo (CHR ''0'') (CHR ''9'') c then True
      else c \<in> set ''-_.'')"

definition quoted :: "string \<Rightarrow> string" where
  "quoted s = CHR 0x27 # s @ [CHR 0x27]"

definition validateDataMapKey :: "string \<Rightarrow> gerr + unit" where
  "validateDataMapKey key =
     (if trimSpace key \<noteq> key \<or> key = []
      then Inl (Errorf ''data key must not be empty or have surrounding whitespace'' [])
      else if 253 < length key then Inl (Errorf ''data key %q exceeds maximum length 253'' [key])
      else if key = ''.'' \<or> key = ''..'' \<or> prefix ''..'' key
      then Inl (Errorf (''data key %q must not be '' @ quoted ''.'' @ '', '' @ quoted ''..'' @ '', or start with '' @
             quoted ''..'') [key])
      else if \<not> list_all isDataMapKeyCharacter key
      then Inl (Errorf (''data key %q must consist of alphanumeric characters, '' @ quoted ''-'' @ '', '' @
             quoted ''_'' @ '' or '' @ quoted ''.'') [key])
      else Inr ())"

definition defaultNameTemplateForGranularity :: "string \<Rightarrow> string" where
  "defaultNameTemplateForGranularity granularity =
     (if granularity = syncGranularitySecretKey then defaultPerKeyNameTemplate else defaultNameTemplate)"

text \<open>\<open>normalizedDataMapping\<close> and \<open>normalizedDeleteMode\<close> of \<open>path_associations.go\<close>.\<close>

definition normalizedDataMapping :: "string \<Rightarrow> string" where
  "normalizedDataMapping dataMapping = (if dataMapping = [] then defaultDataMapping else dataMapping)"

definition normalizedDeleteMode :: "string \<Rightarrow> string" where
  "normalizedDeleteMode deleteMode = (if deleteMode = [] then defaultDeleteMode else deleteMode)"

section \<open>Payloads\<close>

definition addDataMapEntry ::
    "associationRecord \<Rightarrow> (string \<times> string) list \<Rightarrow> string \<times> goval \<Rightarrow> gerr + (string \<times> string) list" where
  "addDataMapEntry a dataMap kv =
     (case kv of (sourceKey, v) \<Rightarrow>
        if trimSpace sourceKey \<noteq> sourceKey \<or> sourceKey = []
        then Inl (Errorf ''source key must not be empty or have surrounding whitespace'' [])
        else bindE (renderDataKeyTemplate (as_DataKeyTemplate a) sourceKey) (\<lambda>dataKey.
             bindE (validateDataMapKey dataKey) (\<lambda>_.
               if dataKey \<in> set (map fst dataMap)
               then Inl (Errorf ''data_key_template maps multiple source keys to %q'' [dataKey])
               else (case RawBytes v of
                   Inl _ \<Rightarrow> Inl (Errorf ''source key %q is not string or bytes'' [sourceKey])
                 | Inr rawBytes \<Rightarrow> Inr (dataMap @ [(dataKey, rawBytes)])))))"

definition buildDataMapPayloadForAssociation ::
    "'w world \<Rightarrow> associationRecord \<Rightarrow> secretPayload \<Rightarrow> gerr + canonicalPayload" where
  "buildDataMapPayloadForAssociation W a data =
     bindE (foldE (addDataMapEntry a) [] data) (BuildDataMap (w_FloatString W) (w_Sha256 W))"

definition buildCanonicalPayloadForObject ::
    "'w world \<Rightarrow> associationRecord \<Rightarrow> secretPayload \<Rightarrow> string \<Rightarrow> gerr + canonicalPayload" where
  "buildCanonicalPayloadForObject W a data objectID =
     (if normalizedDataMapping (as_DataMapping a) = dataMappingSourceKeys
      then (if as_Granularity a \<noteq> syncGranularitySecretPath \<or> objectID \<noteq> syncObjectIDSecretPath
            then Inl (Errorf ''data_mapping %q requires secret-path granularity'' [dataMappingSourceKeys])
            else buildDataMapPayloadForAssociation W a data)
      else if as_Format a = defaultAssociationFormat
      then (if as_Granularity a = syncGranularitySecretPath
            then BuildJSON (w_FloatString W) (w_Sha256 W) data
            else if as_Granularity a = syncGranularitySecretKey
            then (case map_of data objectID of
                    None \<Rightarrow> Inl (Errorf ''source key %q does not exist'' [objectID])
                  | Some v \<Rightarrow> BuildJSON (w_FloatString W) (w_Sha256 W) [(objectID, v)])
            else Inl (Errorf ''unsupported granularity %q'' [as_Granularity a]))
      else if as_Format a = rawAssociationFormat
      then (if as_Granularity a \<noteq> syncGranularitySecretKey
            then Inl (Errorf ''raw payload format requires secret-key granularity'' [])
            else (case map_of data objectID of
                    None \<Rightarrow> Inl (Errorf ''source key %q does not exist'' [objectID])
                  | Some v \<Rightarrow> BuildRaw (w_Sha256 W) v))
      else Inl (Errorf ''unsupported payload format %q'' [as_Format a]))"

definition dataMapKeys :: "(string \<times> string) list \<Rightarrow> string list" where
  "dataMapKeys data = sort (map fst data)"

definition enforceProviderPayloadLimit :: "capabilities \<Rightarrow> canonicalPayload \<Rightarrow> gerr + unit" where
  "enforceProviderPayloadLimit c p =
     (if cp_MaxPayloadBytes c \<le> 0 \<or> int (length (pl_Bytes p)) \<le> cp_MaxPayloadBytes c then Inr ()
      else Inl (Errorf ''payload exceeds provider max_payload_bytes %d'' [itoa (cp_MaxPayloadBytes c)]))"

section \<open>The objects of an association\<close>

definition associationObjectIDs :: "'w world \<Rightarrow> associationRecord \<Rightarrow> secretPayload \<Rightarrow> gerr + string list" where
  "associationObjectIDs W a data =
     (if as_Granularity a = syncGranularitySecretPath
      then (if normalizedDataMapping (as_DataMapping a) = dataMappingSourceKeys
            then bindE (buildDataMapPayloadForAssociation W a data) (\<lambda>_. Inr [syncObjectIDSecretPath])
            else Inr [syncObjectIDSecretPath])
      else if as_Granularity a = syncGranularitySecretKey
      then bindE (foldE (\<lambda>_ key. validateSecretKeyObjectID key) () (map fst data)) (\<lambda>_.
             let ids = sort (map fst data)
             in if ids = [] then Inl (Errorf ''secret-key granularity requires at least one source key'' [])
                else Inr ids)
      else Inl (Errorf ''unsupported granularity %q'' [as_Granularity a]))"

definition associationResolvedNameForObject :: "associationRecord \<Rightarrow> string \<Rightarrow> gerr + string" where
  "associationResolvedNameForObject r objectID =
     (if as_Granularity r = syncGranularitySecretPath then Inr (as_ResolvedName r)
      else if as_Granularity r = syncGranularitySecretKey
      then bindE (validateSecretKeyObjectID objectID) (\<lambda>_.
             renderAssociationObjectName (as_NameTemplate r) (as_Path r) (as_DestinationType r)
               (as_DestinationName r) objectID)
      else Inl (Errorf ''unsupported granularity %q'' [as_Granularity r]))"

section \<open>Destination policy\<close>

definition sourcePathAllowed :: "string \<Rightarrow> string list \<Rightarrow> bool" where
  "sourcePathAllowed path allowed \<longleftrightarrow>
     allowed = [] \<or> (\<exists>p \<in> set allowed. path = p \<or> prefix (p @ ''/'') path)"

definition resolvedNameAllowed :: "string \<Rightarrow> string list \<Rightarrow> bool" where
  "resolvedNameAllowed name allowed \<longleftrightarrow>
     allowed = [] \<or>
     (let name = trimLeft slash name
      in \<exists>p \<in> set (map (trimRight slash) allowed). p \<noteq> [] \<and> (name = p \<or> prefix (p @ ''/'') name))"

definition destinationUnconstrainedBlocker :: string where
  "destinationUnconstrainedBlocker = ''destination_unconstrained''"

definition destinationHasDelegationConstraints :: "destinationRecord \<Rightarrow> bool" where
  "destinationHasDelegationConstraints d \<longleftrightarrow>
     ds_AllowedSourcePathPrefixes d \<noteq> [] \<and> ds_AllowedResolvedNamePrefixes d \<noteq> []"

definition destinationDelegationConstraintBlockers :: "destinationRecord \<Rightarrow> globalConfig \<Rightarrow> string list" where
  "destinationDelegationConstraintBlockers d cfg =
     (if \<not> destinationConstraintsRequired cfg \<or> destinationHasDelegationConstraints d then []
      else [destinationUnconstrainedBlocker])"

definition validateDestinationDelegationConstraints ::
    "destinationRecord \<Rightarrow> associationRecord \<Rightarrow> globalConfig \<Rightarrow> gerr + unit" where
  "validateDestinationDelegationConstraints d r cfg =
     (if destinationDelegationConstraintBlockers d cfg = [] then Inr ()
      else Inl (Errorf (''%s: security_posture=hardened requires destination %s to set '' @
             ''allowed_source_path_prefixes and allowed_resolved_name_prefixes'')
             [destinationUnconstrainedBlocker, as_DestinationRef r]))"

definition validateDestinationPolicyForObject ::
    "destinationRecord \<Rightarrow> associationRecord \<Rightarrow> string \<Rightarrow> string \<Rightarrow> globalConfig \<Rightarrow> gerr + unit" where
  "validateDestinationPolicyForObject d r objectID resolvedName cfg =
     bindE (validateDestinationDelegationConstraints d r cfg) (\<lambda>_.
       if \<not> sourcePathAllowed (as_Path r) (ds_AllowedSourcePathPrefixes d)
       then Inl (Errorf ''destination %s does not allow source path %q'' [as_DestinationRef r, as_Path r])
       else if \<not> resolvedNameAllowed resolvedName (ds_AllowedResolvedNamePrefixes d)
       then Inl (Errorf ''destination %s does not allow resolved name %q for object %q''
              [as_DestinationRef r, resolvedName, objectID])
       else Inr ())"

definition validateAssociationDestinationPolicy ::
    "'w world \<Rightarrow> destinationRecord \<Rightarrow> associationRecord \<Rightarrow> secretPayload \<Rightarrow> globalConfig \<Rightarrow> gerr + unit" where
  "validateAssociationDestinationPolicy W d r data cfg =
     bindE (validateDestinationDelegationConstraints d r cfg) (\<lambda>_.
       if \<not> sourcePathAllowed (as_Path r) (ds_AllowedSourcePathPrefixes d)
       then Inl (Errorf ''destination %s does not allow source path %q'' [as_DestinationRef r, as_Path r])
       else bindE (associationObjectIDs W r data) (\<lambda>objectIDs.
         foldE (\<lambda>_ objectID.
           bindE (associationResolvedNameForObject r objectID) (\<lambda>resolvedName.
             validateDestinationPolicyForObject d r objectID resolvedName cfg)) () objectIDs))"

section \<open>What the checks guarantee\<close>

lemma containsStr_iff: "containsStr s sub \<longleftrightarrow> (\<exists>a b. s = a @ sub @ b)"
proof (induction s)
  case (Cons c s)
  have "containsStr (c # s) sub \<longleftrightarrow> prefix sub (c # s) \<or> (\<exists>a b. s = a @ sub @ b)" using Cons by simp
  also have "\<dots> \<longleftrightarrow> (\<exists>a b. c # s = a @ sub @ b)"
    by (auto simp: prefix_def Cons_eq_append_conv append_eq_Cons_conv)
  finally show ?case .
qed (auto simp: prefix_def)

lemma foldE_unit: "foldE (\<lambda>_ x. f x) () xs = Inr u \<longleftrightarrow> (\<forall>x \<in> set xs. f x = Inr ())"
  by (induction xs) (auto split: sum.splits)

lemma secretKeyObjectID_ok:
  assumes "validateSecretKeyObjectID key = Inr ()"
  shows "key \<noteq> [] \<and> slash \<notin> set key"
proof -
  have "slash \<notin> set key" if "\<not> containsStr key ''/''"
  proof
    assume "slash \<in> set key"
    then obtain a b where "key = a @ slash # b" by (auto simp: in_set_conv_decomp)
    then have "key = a @ ''/'' @ b" by simp
    with that show False by (auto simp: containsStr_iff)
  qed
  then show ?thesis using assms by (auto simp: validateSecretKeyObjectID_def split: if_splits)
qed

lemma objectIDs_valid:
  assumes "associationObjectIDs W a data = Inr ids" and "distinct (map fst data)"
  shows "ids \<noteq> []" and "distinct ids" and "sorted ids" and "\<forall>i \<in> set ids. i \<noteq> [] \<and> slash \<notin> set i"
proof -
  have p: "syncObjectIDSecretPath \<noteq> []" "slash \<notin> set syncObjectIDSecretPath"
    by (code_simp, code_simp)
  have v: "foldE (\<lambda>_ key. validateSecretKeyObjectID key) () (map fst data) = Inr u \<Longrightarrow>
      (i, b) \<in> set data \<Longrightarrow> i \<noteq> [] \<and> slash \<notin> set i" for u i b
    using foldE_unit [of validateSecretKeyObjectID "map fst data" u] secretKeyObjectID_ok
    by (metis fst_conv image_eqI list.set_map)
  show "ids \<noteq> []" "distinct ids" "sorted ids" "\<forall>i \<in> set ids. i \<noteq> [] \<and> slash \<notin> set i"
    using assms p
    by (auto simp: associationObjectIDs_def bindE_Inr_iff Let_def split: if_splits)
      (use v in \<open>metis+\<close>)
qed

text \<open>A policy that passes covers every object the association would send.\<close>

lemma policy_covers_objects:
  assumes "validateAssociationDestinationPolicy W d r data cfg = Inr ()"
  shows "\<exists>ids. associationObjectIDs W r data = Inr ids \<and>
    (\<forall>i \<in> set ids. \<exists>n. associationResolvedNameForObject r i = Inr n \<and>
       validateDestinationPolicyForObject d r i n cfg = Inr () \<and>
       resolvedNameAllowed n (ds_AllowedResolvedNamePrefixes d)) \<and>
    sourcePathAllowed (as_Path r) (ds_AllowedSourcePathPrefixes d)"
proof -
  obtain ids where ids: "associationObjectIDs W r data = Inr ids"
    and src: "sourcePathAllowed (as_Path r) (ds_AllowedSourcePathPrefixes d)"
    and all: "foldE (\<lambda>_ objectID.
           bindE (associationResolvedNameForObject r objectID) (\<lambda>resolvedName.
             validateDestinationPolicyForObject d r objectID resolvedName cfg)) () ids = Inr ()"
    using assms by (auto simp: validateAssociationDestinationPolicy_def bindE_Inr_iff split: if_splits)
  have "\<exists>n. associationResolvedNameForObject r i = Inr n \<and>
       validateDestinationPolicyForObject d r i n cfg = Inr () \<and>
       resolvedNameAllowed n (ds_AllowedResolvedNamePrefixes d)" if "i \<in> set ids" for i
    using all that unfolding foldE_unit
    by (auto simp: bindE_Inr_iff validateDestinationPolicyForObject_def split: if_splits)
  then show ?thesis using ids src by blast
qed

end
