(* ===== verification/Storage_Association.thy ===== *)
theory Storage_Association
  imports Granularity Storage_Source
begin

text \<open>
  Association and destination records (\<open>internal/backend/storage_association.go\<close>,
  \<open>storage_destination.go\<close>). An association lives under its path and id; a by-destination index and
  one index per reserved name list its id with its path as the value. As for the queue, a write
  puts the indexes before the record and removes stale ones after it. \<open>assoc_inv\<close> says what the
  readers rely on; \<open>assocs\<close> is the abstract table, which every operation updates atomically.
\<close>

section \<open>Associations\<close>

definition normalizeAssociationDefaults :: "associationRecord \<Rightarrow> associationRecord" where
  "normalizeAssociationDefaults r =
     (if as_DeleteMode r = [] then r \<lparr> as_DeleteMode := defaultDeleteMode \<rparr> else r)"

definition getAssociation :: "'w world \<Rightarrow> string \<Rightarrow> string \<Rightarrow> ('w, associationRecord option) io" where
  "getAssociation W path i =
     bindM (getDecoded W (associationStorageKey path i) decodeAssociation) (\<lambda>r.
       retM (map_option normalizeAssociationDefaults r))"

definition assocDestinationKey :: "associationRecord \<Rightarrow> string" where
  "assocDestinationKey r =
     associationByDestinationStorageKey (as_DestinationType r) (as_DestinationName r) (as_ID r)"

definition assocNameKeys :: "(string \<Rightarrow> string) \<Rightarrow> associationRecord \<Rightarrow> string list" where
  "assocNameKeys sha r =
     map (\<lambda>name. associationNameStorageKey sha (as_DestinationRef r) name (as_ID r)) (reservationNames r)"

definition deleteStaleAssociationIndexes ::
    "'w world \<Rightarrow> associationRecord \<Rightarrow> associationRecord \<Rightarrow> ('w, unit) io" where
  "deleteStaleAssociationIndexes W existing updated =
     bindM (whenM (as_DestinationType existing \<noteq> as_DestinationType updated \<or>
                   as_DestinationName existing \<noteq> as_DestinationName updated)
              (w_Delete W (assocDestinationKey existing))) (\<lambda>_.
       eachM (assocNameKeys (w_Sha256 W) existing) (\<lambda>key.
         if key \<in> set (assocNameKeys (w_Sha256 W) updated) then retM () else w_Delete W key))"

definition putAssociation :: "'w world \<Rightarrow> associationRecord \<Rightarrow> ('w, unit) io" where
  "putAssociation W r =
     bindM (getAssociation W (as_Path r) (as_ID r)) (\<lambda>existing.
     bindM (w_Put W (assocDestinationKey r) (EString (as_Path r))) (\<lambda>_.
     bindM (eachM (assocNameKeys (w_Sha256 W) r) (\<lambda>key. w_Put W key (EString (as_Path r)))) (\<lambda>_.
     bindM (w_Put W (associationStorageKey (as_Path r) (as_ID r)) (EAssociation r)) (\<lambda>_.
       case existing of
         Some e \<Rightarrow> deleteStaleAssociationIndexes W e r
       | None \<Rightarrow> retM ()))))"

definition deleteAssociation :: "'w world \<Rightarrow> associationRecord \<Rightarrow> ('w, unit) io" where
  "deleteAssociation W r =
     bindM (w_Delete W (associationStorageKey (as_Path r) (as_ID r))) (\<lambda>_.
     bindM (w_Delete W (assocDestinationKey r)) (\<lambda>_.
       eachM (assocNameKeys (w_Sha256 W) r) (w_Delete W)))"

definition listAssociationIDsForPath :: "'w world \<Rightarrow> string \<Rightarrow> ('w, string list) io" where
  "listAssociationIDsForPath W path = w_List W (associationStoragePrefix @ path @ ''/'')"

definition listAssociationsForPath :: "'w world \<Rightarrow> string \<Rightarrow> ('w, associationRecord list) io" where
  "listAssociationsForPath W path =
     bindM (listAssociationIDsForPath W path) (\<lambda>ids.
       foldM (\<lambda>records i.
         bindM (getAssociation W path i) (\<lambda>r.
           case r of None \<Rightarrow> retM records | Some rec \<Rightarrow> retM (records @ [rec]))) [] ids)"

definition getAssociationFromIndex ::
    "'w world \<Rightarrow> string \<Rightarrow> string \<Rightarrow> ('w, associationRecord option) io" where
  "getAssociationFromIndex W indexKey i =
     bindM (w_Get W indexKey) (\<lambda>e.
       case e of
         None \<Rightarrow> retM None
       | Some v \<Rightarrow> bindM (liftE (decodeString v)) (\<lambda>path.
           if path = [] then retM None else getAssociation W path i))"

definition associationReservesName :: "associationRecord \<Rightarrow> string \<Rightarrow> bool" where
  "associationReservesName r resolvedName \<longleftrightarrow> (\<exists>name \<in> set (reservationNames r). name = resolvedName)"

definition listAssociationIDsForDestination ::
    "'w world \<Rightarrow> string \<Rightarrow> string \<Rightarrow> ('w, string list) io" where
  "listAssociationIDsForDestination W destinationType name =
     bindM (w_List W (associationByDestPrefix @ destinationRef destinationType name @ ''/'')) (\<lambda>ids.
       foldM (\<lambda>liveIDs i.
         bindM (getAssociationFromIndex W (associationByDestinationStorageKey destinationType name i) i) (\<lambda>r.
           case r of
             None \<Rightarrow> retM liveIDs
           | Some rec \<Rightarrow>
               retM (if as_DestinationType rec = destinationType \<and> as_DestinationName rec = name
                     then liveIDs @ [i] else liveIDs))) [] ids)"

definition listAssociationNameReservationIDs ::
    "'w world \<Rightarrow> string \<Rightarrow> string \<Rightarrow> ('w, string list) io" where
  "listAssociationNameReservationIDs W destinationReference resolvedName =
     bindM (w_List W (associationNamePrefix @ destinationReference @ ''/'' @
              nameReservationID (w_Sha256 W) resolvedName @ ''/'')) (\<lambda>ids.
       foldM (\<lambda>liveIDs i.
         bindM (getAssociationFromIndex W
                  (associationNameStorageKey (w_Sha256 W) destinationReference resolvedName i) i) (\<lambda>r.
           case r of
             None \<Rightarrow> retM liveIDs
           | Some rec \<Rightarrow>
               retM (if as_DestinationRef rec = destinationReference \<and> associationReservesName rec resolvedName
                     then liveIDs @ [i] else liveIDs))) [] ids)"

section \<open>Destinations\<close>

definition normalizeDestinationDefaults :: "destinationRecord \<Rightarrow> destinationRecord" where
  "normalizeDestinationDefaults r = r"

definition putDestination :: "'w world \<Rightarrow> destinationRecord \<Rightarrow> ('w, unit) io" where
  "putDestination W r = w_Put W (destinationStorageKey (ds_Type r) (ds_Name r)) (EDestination r)"

definition getDestination :: "'w world \<Rightarrow> string \<Rightarrow> string \<Rightarrow> ('w, destinationRecord option) io" where
  "getDestination W destinationType name =
     bindM (getDecoded W (destinationStorageKey destinationType name) decodeDestination) (\<lambda>r.
       retM (map_option normalizeDestinationDefaults r))"

definition deleteDestination :: "'w world \<Rightarrow> string \<Rightarrow> string \<Rightarrow> ('w, unit) io" where
  "deleteDestination W destinationType name = w_Delete W (destinationStorageKey destinationType name)"

definition listDestinationNamesPage :: "'w world \<Rightarrow> string \<Rightarrow> listPagination \<Rightarrow> ('w, string list) io" where
  "listDestinationNamesPage W destinationType pagination =
     w_ListPage W (destinationStoragePrefix @ destinationType @ ''/'') (lp_after pagination) (lp_limit pagination)"

definition sensitiveKey :: "string \<Rightarrow> string \<Rightarrow> string \<Rightarrow> string" where
  "sensitiveKey destinationType name version =
     (if version \<noteq> [] then destinationSensitiveVersionStorageKey destinationType name version
      else destinationSensitiveStorageKey destinationType name)"

definition putDestinationSensitiveConfig ::
    "'w world \<Rightarrow> string \<Rightarrow> destinationSensitiveRecord \<Rightarrow> ('w, unit) io" where
  "putDestinationSensitiveConfig W version r =
     w_Put W (sensitiveKey (sn_Type r) (sn_Name r) version) (ESensitive r)"

definition getDestinationSensitiveConfigForRecord ::
    "'w world \<Rightarrow> destinationRecord \<Rightarrow> ('w, destinationSensitiveRecord option) io" where
  "getDestinationSensitiveConfigForRecord W r =
     (if ds_SensitiveConfigVersion r = destinationSensitiveNone then retM None
      else getDecoded W (sensitiveKey (ds_Type r) (ds_Name r) (ds_SensitiveConfigVersion r)) decodeSensitive)"

definition getDestinationSensitiveConfig ::
    "'w world \<Rightarrow> string \<Rightarrow> string \<Rightarrow> ('w, destinationSensitiveRecord option) io" where
  "getDestinationSensitiveConfig W destinationType name =
     bindM (getDestination W destinationType name) (\<lambda>r.
       case r of None \<Rightarrow> retM None | Some rec \<Rightarrow> getDestinationSensitiveConfigForRecord W rec)"

definition deleteDestinationSensitiveConfig :: "'w world \<Rightarrow> string \<Rightarrow> string \<Rightarrow> ('w, unit) io" where
  "deleteDestinationSensitiveConfig W destinationType name =
     bindM (w_Delete W (destinationSensitiveStorageKey destinationType name)) (\<lambda>_.
       let pre = destinationSensitiveVersionStoragePrefix destinationType name
       in bindM (w_List W pre) (\<lambda>versions.
            eachM versions (\<lambda>version.
              if suffix ''/'' version then retM () else w_Delete W (pre @ version))))"

definition deleteDestinationSensitiveConfigVersion ::
    "'w world \<Rightarrow> string \<Rightarrow> string \<Rightarrow> string \<Rightarrow> ('w, unit) io" where
  "deleteDestinationSensitiveConfigVersion W destinationType name version =
     (if version = destinationSensitiveNone then retM ()
      else w_Delete W (sensitiveKey destinationType name version))"

section \<open>The association table\<close>

definition assocIndexKeys :: "(string \<Rightarrow> string) \<Rightarrow> associationRecord \<Rightarrow> string list" where
  "assocIndexKeys sha r = assocDestinationKey r # assocNameKeys sha r"

definition assocWF :: "associationRecord \<Rightarrow> bool" where
  "assocWF r \<longleftrightarrow> validID (as_ID r) \<and> as_Path r \<noteq> [] \<and> validID (as_DestinationType r) \<and>
     validID (as_DestinationName r) \<and>
     as_DestinationRef r = destinationRef (as_DestinationType r) (as_DestinationName r)"

definition assocs :: "(string \<Rightarrow> entry option) \<Rightarrow> string \<times> string \<Rightarrow> associationRecord option" where
  "assocs c pi = (case c (associationStorageKey (fst pi) (snd pi)) of
      Some (EAssociation r) \<Rightarrow> if validID (snd pi) then Some (normalizeAssociationDefaults r) else None
    | _ \<Rightarrow> None)"

definition assoc_inv :: "(string \<Rightarrow> string) \<Rightarrow> (string \<Rightarrow> entry option) \<Rightarrow> bool" where
  "assoc_inv sha c \<longleftrightarrow>
     (\<forall>k e. c k = Some e \<and> prefix associationStoragePrefix k \<longrightarrow>
        (\<exists>r. e = EAssociation r \<and> k = associationStorageKey (as_Path r) (as_ID r) \<and> assocWF r \<and>
           (\<forall>x \<in> set (assocIndexKeys sha r). c x = Some (EString (as_Path r))))) \<and>
     (\<forall>k e. c k = Some e \<and> (prefix associationByDestPrefix k \<or> prefix associationNamePrefix k) \<longrightarrow>
        (\<exists>s. e = EString s)) \<and>
     (\<forall>p q i. assocs c (p, i) \<noteq> None \<and> assocs c (q, i) \<noteq> None \<longrightarrow> p = q)"

definition isAssocKey :: "string \<Rightarrow> bool" where
  "isAssocKey k \<longleftrightarrow> prefix ''association'' k"

definition only_assocs :: "(string \<Rightarrow> entry option) \<Rightarrow> (string \<Rightarrow> entry option) \<Rightarrow> bool" where
  "only_assocs c d \<longleftrightarrow> (\<forall>k. \<not> isAssocKey k \<longrightarrow> d k = c k)"

lemma only_assocs_refl [simp]: "only_assocs c c"
  by (simp add: only_assocs_def)

lemma only_assocs_updI: "only_assocs c d \<Longrightarrow> isAssocKey k \<Longrightarrow> only_assocs c (d(k := v))"
  by (auto simp: only_assocs_def)

lemma isAssocKey_simps [simp]:
  "isAssocKey (associationStorageKey p i)" "isAssocKey (assocDestinationKey r)"
  "k \<in> set (assocNameKeys sha r) \<Longrightarrow> isAssocKey k" "k \<in> set (assocIndexKeys sha r) \<Longrightarrow> isAssocKey k"
  by (auto simp: isAssocKey_def component_key_defs assocDestinationKey_def assocNameKeys_def prefix_defs
      assocIndexKeys_def)

lemma assoc_key_inj:
  assumes "validID i" "validID j"
  shows "associationStorageKey p i = associationStorageKey q j \<longleftrightarrow> p = q \<and> i = j"
  using assms append_sep_inj [of slash i j p q] by (auto simp: associationStorageKey_def validID_def)

lemma assoc_prefixes [simp]:
  "prefix associationStoragePrefix (associationStorageKey p i)"
  "\<not> prefix associationByDestPrefix (associationStorageKey p i)"
  "\<not> prefix associationNamePrefix (associationStorageKey p i)"
  by (auto simp: associationStorageKey_def prefix_defs)

lemma assoc_index_prefixes:
  assumes "k \<in> set (assocIndexKeys sha r)"
  shows "\<not> prefix associationStoragePrefix k" and "prefix associationByDestPrefix k \<or> prefix associationNamePrefix k"
    and "k \<noteq> associationStorageKey p i" and "associationStorageKey p i \<noteq> k"
  using assms
  by (auto simp: assocIndexKeys_def assocDestinationKey_def assocNameKeys_def component_key_defs prefix_defs)

lemma assoc_index_id:
  assumes k: "k \<in> set (assocIndexKeys sha r)" "k \<in> set (assocIndexKeys sha s)"
    and "assocWF r" "assocWF s"
  shows "as_ID r = as_ID s"
proof -
  have ns: "slash \<notin> set (as_ID r)" "slash \<notin> set (as_ID s)" using assms by (auto simp: assocWF_def validID_def)
  have "\<exists>a. k = a @ slash # as_ID x" if "k \<in> set (assocIndexKeys sha x)" for x
    using that by (auto simp: assocIndexKeys_def assocDestinationKey_def assocNameKeys_def component_key_defs)
  then obtain a b where "k = a @ slash # as_ID r" "k = b @ slash # as_ID s" using k by metis
  then show ?thesis using append_sep_inj [OF ns] by metis
qed

lemma normalizeAssociation_simps [simp]:
  "as_ID (normalizeAssociationDefaults r) = as_ID r" "as_Path (normalizeAssociationDefaults r) = as_Path r"
  "as_DestinationType (normalizeAssociationDefaults r) = as_DestinationType r"
  "as_DestinationName (normalizeAssociationDefaults r) = as_DestinationName r"
  "as_DestinationRef (normalizeAssociationDefaults r) = as_DestinationRef r"
  "reservationNames (normalizeAssociationDefaults r) = reservationNames r"
  "assocIndexKeys sha (normalizeAssociationDefaults r) = assocIndexKeys sha r"
  "assocNameKeys sha (normalizeAssociationDefaults r) = assocNameKeys sha r"
  "assocDestinationKey (normalizeAssociationDefaults r) = assocDestinationKey r"
  "assocWF (normalizeAssociationDefaults r) = assocWF r"
  "normalizeAssociationDefaults (normalizeAssociationDefaults r) = normalizeAssociationDefaults r"
  by (auto simp: normalizeAssociationDefaults_def reservationNames_def reservationName_def rawReservationName_def
      assocIndexKeys_def assocNameKeys_def assocDestinationKey_def assocWF_def defaultDeleteMode_def
      deleteModeRetain_def cong: sum.case_cong)

lemma assoc_invD:
  assumes "assoc_inv sha c"
  shows "c k = Some e \<Longrightarrow> prefix associationStoragePrefix k \<Longrightarrow>
      \<exists>r. e = EAssociation r \<and> k = associationStorageKey (as_Path r) (as_ID r) \<and> assocWF r \<and>
        (\<forall>x \<in> set (assocIndexKeys sha r). c x = Some (EString (as_Path r)))"
    and "c k = Some e' \<Longrightarrow> prefix associationByDestPrefix k \<or> prefix associationNamePrefix k \<Longrightarrow> \<exists>s. e' = EString s"
    and "assocs c (p, i) \<noteq> None \<Longrightarrow> assocs c (q, i) \<noteq> None \<Longrightarrow> p = q"
  using assms unfolding assoc_inv_def by blast+

lemma assocs_Some:
  assumes inv: "assoc_inv sha c" and r: "assocs c (p, i) = Some r"
  shows "as_Path r = p" "as_ID r = i" "assocWF r" "normalizeAssociationDefaults r = r"
    "\<And>x. x \<in> set (assocIndexKeys sha r) \<Longrightarrow> c x = Some (EString p)"
proof -
  obtain r0 where k: "c (associationStorageKey p i) = Some (EAssociation r0)" and v: "validID i"
    and r0: "r = normalizeAssociationDefaults r0"
    using r by (auto simp: assocs_def split: option.splits entry.splits if_splits)
  have x: "associationStorageKey p i = associationStorageKey (as_Path r0) (as_ID r0)" "assocWF r0"
    "\<forall>x \<in> set (assocIndexKeys sha r0). c x = Some (EString (as_Path r0))"
    using assoc_invD(1) [OF inv k] by auto
  have "p = as_Path r0 \<and> i = as_ID r0"
    using x(1,2) v assoc_key_inj [of i "as_ID r0" p "as_Path r0"] by (simp add: assocWF_def)
  then show "as_Path r = p" "as_ID r = i" "assocWF r" "normalizeAssociationDefaults r = r"
    "\<And>x. x \<in> set (assocIndexKeys sha r) \<Longrightarrow> c x = Some (EString p)"
    using x r0 by auto
qed

lemma assocs_entry:
  assumes "assoc_inv sha c" and "c (associationStorageKey p i) = Some e" and "validID i"
  shows "\<exists>r. e = EAssociation r \<and> assocs c (p, i) = Some (normalizeAssociationDefaults r)"
  using assoc_invD(1) [OF assms(1,2)] assms(2,3) by (auto simp: assocs_def)

subsection \<open>One storage step\<close>

lemma assocs_upd_other: "(\<And>p i. k \<noteq> associationStorageKey p i) \<Longrightarrow> assocs (c(k := v)) = assocs c"
  by (auto simp: assocs_def fun_eq_iff)

lemma inv_put_assoc_index:
  assumes inv: "assoc_inv sha c" and k: "k \<in> set (assocIndexKeys sha r)" and wf: "assocWF r"
    and uniq: "\<And>q. q \<noteq> as_Path r \<Longrightarrow> assocs c (q, as_ID r) = None"
  shows "assoc_inv sha (c(k \<mapsto> EString (as_Path r)))" and "assocs (c(k \<mapsto> EString (as_Path r))) = assocs c"
proof -
  show t: "assocs (c(k \<mapsto> EString (as_Path r))) = assocs c"
    using assoc_index_prefixes [OF k] by (intro assocs_upd_other) auto
  have same: "as_Path s = as_Path r"
    if s: "c (associationStorageKey (as_Path s) (as_ID s)) = Some (EAssociation s)" "assocWF s"
      "k \<in> set (assocIndexKeys sha s)" for s
  proof (rule ccontr)
    assume "as_Path s \<noteq> as_Path r"
    moreover have "as_ID s = as_ID r" using assoc_index_id [OF s(3) k s(2) wf] .
    ultimately show False using uniq [of "as_Path s"] s by (simp add: assocs_def assocWF_def)
  qed
  show "assoc_inv sha (c(k \<mapsto> EString (as_Path r)))"
    unfolding assoc_inv_def t
  proof (intro conjI allI impI)
    fix x e
    assume x: "(c(k \<mapsto> EString (as_Path r))) x = Some e \<and> prefix associationStoragePrefix x"
    then have "c x = Some e" using assoc_index_prefixes(1) [OF k] by (auto split: if_splits)
    then obtain s where s: "e = EAssociation s" "x = associationStorageKey (as_Path s) (as_ID s)" "assocWF s"
      "\<forall>y \<in> set (assocIndexKeys sha s). c y = Some (EString (as_Path s))"
      using assoc_invD(1) [OF inv] x by blast
    then show "\<exists>s. e = EAssociation s \<and> x = associationStorageKey (as_Path s) (as_ID s) \<and> assocWF s \<and>
        (\<forall>y \<in> set (assocIndexKeys sha s). (c(k \<mapsto> EString (as_Path r))) y = Some (EString (as_Path s)))"
      using same [of s] \<open>c x = Some e\<close> by (intro exI [of _ s]) auto
  next
    fix x e
    assume "(c(k \<mapsto> EString (as_Path r))) x = Some e \<and>
      (prefix associationByDestPrefix x \<or> prefix associationNamePrefix x)"
    then show "\<exists>s. e = EString s" using assoc_invD(2) [OF inv] by (auto split: if_splits)
  next
    fix p q i
    assume "assocs c (p, i) \<noteq> None \<and> assocs c (q, i) \<noteq> None"
    then show "p = q" using assoc_invD(3) [OF inv] by blast
  qed
qed

lemma inv_put_assoc:
  assumes inv: "assoc_inv sha c" and wf: "assocWF r"
    and uniq: "\<And>q. q \<noteq> as_Path r \<Longrightarrow> assocs c (q, as_ID r) = None"
    and keys: "\<forall>k \<in> set (assocIndexKeys sha r). c k = Some (EString (as_Path r))"
  shows "assoc_inv sha (c(associationStorageKey (as_Path r) (as_ID r) \<mapsto> EAssociation r))"
    and "assocs (c(associationStorageKey (as_Path r) (as_ID r) \<mapsto> EAssociation r)) =
      (assocs c)((as_Path r, as_ID r) \<mapsto> normalizeAssociationDefaults r)"
proof -
  let ?k = "associationStorageKey (as_Path r) (as_ID r)"
  let ?c = "c(?k \<mapsto> EAssociation r)"
  have v: "validID (as_ID r)" using wf by (simp add: assocWF_def)
  show t: "assocs ?c = (assocs c)((as_Path r, as_ID r) \<mapsto> normalizeAssociationDefaults r)"
    using v assoc_key_inj [OF _ v] by (auto simp: assocs_def fun_eq_iff split: option.splits entry.splits)
  have idx: "y \<in> set (assocIndexKeys sha s) \<Longrightarrow> ?c y = c y" for y s
    using assoc_index_prefixes(3) by auto
  show "assoc_inv sha ?c"
    unfolding assoc_inv_def t
  proof (intro conjI allI impI)
    fix x e
    assume x: "?c x = Some e \<and> prefix associationStoragePrefix x"
    show "\<exists>s. e = EAssociation s \<and> x = associationStorageKey (as_Path s) (as_ID s) \<and> assocWF s \<and>
        (\<forall>y \<in> set (assocIndexKeys sha s). ?c y = Some (EString (as_Path s)))"
    proof (cases "x = ?k")
      case True
      then show ?thesis using x wf keys idx by (intro exI [of _ r]) auto
    next
      case False
      then have "c x = Some e" using x by simp
      then obtain s where "e = EAssociation s" "x = associationStorageKey (as_Path s) (as_ID s)" "assocWF s"
        "\<forall>y \<in> set (assocIndexKeys sha s). c y = Some (EString (as_Path s))"
        using assoc_invD(1) [OF inv] x by blast
      then show ?thesis using idx by (intro exI [of _ s]) auto
    qed
  next
    fix x e
    assume "?c x = Some e \<and> (prefix associationByDestPrefix x \<or> prefix associationNamePrefix x)"
    then show "\<exists>s. e = EString s" using assoc_invD(2) [OF inv] by (auto split: if_splits)
  next
    fix p q i
    assume "((assocs c)((as_Path r, as_ID r) \<mapsto> normalizeAssociationDefaults r)) (p, i) \<noteq> None \<and>
      ((assocs c)((as_Path r, as_ID r) \<mapsto> normalizeAssociationDefaults r)) (q, i) \<noteq> None"
    then show "p = q" using assoc_invD(3) [OF inv, of p i q] uniq [of p] uniq [of q] by (auto split: if_splits)
  qed
qed

lemma inv_delete_assoc:
  assumes inv: "assoc_inv sha c" and v: "validID i"
  shows "assoc_inv sha (c(associationStorageKey p i := None))"
    and "assocs (c(associationStorageKey p i := None)) = (assocs c)((p, i) := None)"
proof -
  let ?c = "c(associationStorageKey p i := None)"
  show t: "assocs ?c = (assocs c)((p, i) := None)"
    using v assoc_key_inj [OF _ v] by (auto simp: assocs_def fun_eq_iff split: option.splits entry.splits)
  have idx: "y \<in> set (assocIndexKeys sha s) \<Longrightarrow> ?c y = c y" for y s
    using assoc_index_prefixes(3) by auto
  show "assoc_inv sha ?c"
    unfolding assoc_inv_def t
  proof (intro conjI allI impI)
    fix x e
    assume x: "?c x = Some e \<and> prefix associationStoragePrefix x"
    then have "c x = Some e" by (auto split: if_splits)
    then obtain s where "e = EAssociation s" "x = associationStorageKey (as_Path s) (as_ID s)" "assocWF s"
      "\<forall>y \<in> set (assocIndexKeys sha s). c y = Some (EString (as_Path s))"
      using assoc_invD(1) [OF inv] x by blast
    then show "\<exists>s. e = EAssociation s \<and> x = associationStorageKey (as_Path s) (as_ID s) \<and> assocWF s \<and>
        (\<forall>y \<in> set (assocIndexKeys sha s). ?c y = Some (EString (as_Path s)))"
      using idx by (intro exI [of _ s]) auto
  next
    fix x e
    assume "?c x = Some e \<and> (prefix associationByDestPrefix x \<or> prefix associationNamePrefix x)"
    then show "\<exists>s. e = EString s" using assoc_invD(2) [OF inv] by (auto split: if_splits)
  next
    fix a q j
    assume "((assocs c)((p, i) := None)) (a, j) \<noteq> None \<and> ((assocs c)((p, i) := None)) (q, j) \<noteq> None"
    then show "a = q" using assoc_invD(3) [OF inv, of a j q] by (auto split: if_splits)
  qed
qed

lemma inv_delete_assoc_index:
  assumes inv: "assoc_inv sha c" and k: "k \<in> set (assocIndexKeys sha e)" and wf: "assocWF e"
    and unused: "\<And>q r. assocs c (q, as_ID e) = Some r \<Longrightarrow> k \<notin> set (assocIndexKeys sha r)"
  shows "assoc_inv sha (c(k := None))" and "assocs (c(k := None)) = assocs c"
proof -
  show t: "assocs (c(k := None)) = assocs c"
    using assoc_index_prefixes [OF k] by (intro assocs_upd_other) auto
  show "assoc_inv sha (c(k := None))"
    unfolding assoc_inv_def t
  proof (intro conjI allI impI)
    fix x en
    assume x: "(c(k := None)) x = Some en \<and> prefix associationStoragePrefix x"
    then have cx: "c x = Some en" by (auto split: if_splits)
    then obtain s where s: "en = EAssociation s" "x = associationStorageKey (as_Path s) (as_ID s)" "assocWF s"
      "\<forall>y \<in> set (assocIndexKeys sha s). c y = Some (EString (as_Path s))"
      using assoc_invD(1) [OF inv] x by blast
    have "k \<notin> set (assocIndexKeys sha s)"
    proof
      assume ks: "k \<in> set (assocIndexKeys sha s)"
      then have "as_ID s = as_ID e" using assoc_index_id k s(3) wf by blast
      then have "assocs c (as_Path s, as_ID e) = Some (normalizeAssociationDefaults s)"
        using cx s wf by (simp add: assocs_def assocWF_def)
      from unused [OF this] ks show False by simp
    qed
    then show "\<exists>s. en = EAssociation s \<and> x = associationStorageKey (as_Path s) (as_ID s) \<and> assocWF s \<and>
        (\<forall>y \<in> set (assocIndexKeys sha s). (c(k := None)) y = Some (EString (as_Path s)))"
      using s by (intro exI [of _ s]) auto
  next
    fix x en
    assume "(c(k := None)) x = Some en \<and> (prefix associationByDestPrefix x \<or> prefix associationNamePrefix x)"
    then show "\<exists>s. en = EString s" using assoc_invD(2) [OF inv] by (auto split: if_splits)
  next
    fix p q i
    assume "assocs c (p, i) \<noteq> None \<and> assocs c (q, i) \<noteq> None"
    then show "p = q" using assoc_invD(3) [OF inv] by blast
  qed
qed

end
