(* ===== verification/Association_Store.thy ===== *)
theory Association_Store
  imports Storage_Association
begin

text \<open>
  The association storage refines an abstract table: the interface the handlers rely on, its proof
  for the code's operations, and the exactness of the listings by path, destination and reserved
  name.
\<close>

text \<open>Ids are asked for as they come from a listing: without a slash, or with one at the end.\<close>

definition listedID :: "string \<Rightarrow> bool" where
  "listedID i \<longleftrightarrow> slash \<notin> set i \<or> (\<exists>y. i = y @ [slash])"

lemma listedID_child: "x \<in> children p c \<Longrightarrow> listedID x"
  using child_shape by (force simp: children_def listedID_def)

lemma validID_listed [simp]: "validID i \<Longrightarrow> listedID i"
  by (simp add: validID_def listedID_def)

lemma assoc_key_listed:
  assumes "associationStorageKey p i = associationStorageKey q j" and "listedID i" and "validID j"
  shows "validID i"
proof -
  have eq: "p @ slash # i = q @ slash # j" using assms(1) by (simp add: associationStorageKey_def)
  have j: "j \<noteq> []" "slash \<notin> set j" using assms(3) by (auto simp: validID_def)
  show ?thesis
  proof (cases "slash \<in> set i")
    case True
    then obtain y where "i = y @ [slash]" using assms(2) by (auto simp: listedID_def)
    then have "last (q @ slash # j) = slash" using eq by (metis append_Cons append_assoc last_snoc)
    then have "last j = slash" using j by simp
    then show ?thesis using j last_in_set by metis
  next
    case False
    then have "i = j" using append_sep_inj [of slash i j p q] eq j by blast
    then show ?thesis using assms(3) by simp
  qed
qed

locale association_store =
  fixes contents :: "'w \<Rightarrow> string \<Rightarrow> entry option" and sha :: "string \<Rightarrow> string"
    and get :: "string \<Rightarrow> string \<Rightarrow> ('w, associationRecord option) io"
    and put :: "associationRecord \<Rightarrow> ('w, unit) io"
    and del :: "associationRecord \<Rightarrow> ('w, unit) io"
  assumes get_law: "assoc_inv sha (contents w) \<Longrightarrow> listedID i \<Longrightarrow>
      wp (get p i) (\<lambda>r w'. r = (if validID i then assocs (contents w) (p, i) else None) \<and>
        contents w' = contents w) (\<lambda>_ w'. contents w' = contents w) w"
    and put_law: "assoc_inv sha (contents w) \<Longrightarrow> assocWF r \<Longrightarrow>
      (\<And>q. q \<noteq> as_Path r \<Longrightarrow> assocs (contents w) (q, as_ID r) = None) \<Longrightarrow>
      wp (put r)
        (\<lambda>_ w'. assoc_inv sha (contents w') \<and> only_assocs (contents w) (contents w') \<and>
           assocs (contents w') = (assocs (contents w))((as_Path r, as_ID r) \<mapsto> normalizeAssociationDefaults r))
        (\<lambda>_ w'. assoc_inv sha (contents w') \<and> only_assocs (contents w) (contents w') \<and>
           (assocs (contents w') = assocs (contents w) \<or>
            assocs (contents w') = (assocs (contents w))((as_Path r, as_ID r) \<mapsto> normalizeAssociationDefaults r))) w"
    and del_law: "assoc_inv sha (contents w) \<Longrightarrow> assocWF r \<Longrightarrow>
      (\<And>q. q \<noteq> as_Path r \<Longrightarrow> assocs (contents w) (q, as_ID r) = None) \<Longrightarrow>
      wp (del r)
        (\<lambda>_ w'. assoc_inv sha (contents w') \<and> only_assocs (contents w) (contents w') \<and>
           assocs (contents w') = (assocs (contents w))((as_Path r, as_ID r) := None))
        (\<lambda>_ w'. assoc_inv sha (contents w') \<and> only_assocs (contents w) (contents w') \<and>
           (assocs (contents w') = assocs (contents w) \<or>
            assocs (contents w') = (assocs (contents w))((as_Path r, as_ID r) := None))) w"
begin

lemma wp_get [wp_intros]:
  assumes "assoc_inv sha (contents w)" and "listedID i"
    and "\<And>w'. contents w' = contents w \<Longrightarrow> Q (if validID i then assocs (contents w) (p, i) else None) w'"
    and "\<And>e w'. contents w' = contents w \<Longrightarrow> E e w'"
  shows "wp (get p i) Q E w"
  by (rule wp_mono [OF get_law [OF assms(1,2)]]) (use assms(3,4) in auto)

text \<open>The read loop of the listings: keep what a test on the stored association accepts.\<close>

lemma wp_read_loop:
  assumes inv: "assoc_inv sha (contents w)"
    and body: "\<And>acc i w'. i \<in> set ids \<Longrightarrow> contents w' = contents w \<Longrightarrow>
      wp (f acc i) (\<lambda>acc' w''. acc' = (case g i of None \<Rightarrow> acc | Some x \<Rightarrow> acc @ [x]) \<and> contents w'' = contents w)
        (\<lambda>_ w''. contents w'' = contents w) w'"
    and Q: "\<And>w'. contents w' = contents w \<Longrightarrow> Q (List.map_filter g ids) w'"
    and E: "\<And>e w'. contents w' = contents w \<Longrightarrow> E e w'"
  shows "wp (foldM f [] ids) Q E w"
proof (rule wp_foldM [where I = "\<lambda>acc ys w'. contents w' = contents w \<and>
    (\<exists>xs. ids = xs @ ys \<and> acc = List.map_filter g xs)"])
  show "contents w = contents w \<and> (\<exists>xs. ids = xs @ ids \<and> [] = List.map_filter g xs)"
    by (auto intro: exI [of _ "[]"] simp: List.map_filter_def)
  fix b x ys w'
  assume a: "contents w' = contents w \<and> (\<exists>xs. ids = xs @ x # ys \<and> b = List.map_filter g xs)"
  then obtain xs where xs: "ids = xs @ x # ys" "b = List.map_filter g xs" by blast
  show "wp (f b x) (\<lambda>b' w'. contents w' = contents w \<and> (\<exists>xs. ids = xs @ ys \<and> b' = List.map_filter g xs)) E w'"
  proof (rule wp_mono [OF body])
    show "x \<in> set ids" using xs by simp
    show "contents w' = contents w" using a by simp
    fix acc' w''
    assume "acc' = (case g x of None \<Rightarrow> b | Some x \<Rightarrow> b @ [x]) \<and> contents w'' = contents w"
    then show "contents w'' = contents w \<and> (\<exists>xs. ids = xs @ ys \<and> acc' = List.map_filter g xs)"
      using xs by (auto intro!: exI [of _ "xs @ [x]"] simp: List.map_filter_def split: option.splits)
  qed (rule E)
next
  fix b w'
  assume "contents w' = contents w \<and> (\<exists>xs. ids = xs @ [] \<and> b = List.map_filter g xs)"
  then show "Q b w'" using Q by simp
qed

end

context bao_storage begin

lemma wp_getAssociation:
  assumes "assoc_inv sha (contents w)" and "listedID i"
    and "\<And>w'. contents w' = contents w \<Longrightarrow> Q (if validID i then assocs (contents w) (p, i) else None) w'"
    and "\<And>e w'. contents w' = contents w \<Longrightarrow> E e w'"
  shows "wp (getAssociation W p i) Q E w"
  unfolding getAssociation_def
proof (rule wp_seq, rule wp_getDecoded, goal_cases)
  case (1 w')
  then have "(if validID i then assocs (contents w) (p, i) else None) = None" by (simp add: assocs_def)
  then show ?case using assms(3) [OF 1(1)] by simp
next
  case (2 v r w')
  have "associationStorageKey p i = associationStorageKey (as_Path r) (as_ID r)" "assocWF r"
    using assoc_invD(1) [OF assms(1) 2(2)] 2(3) by auto
  then have "validID i" using assoc_key_listed [OF _ assms(2)] by (simp add: assocWF_def)
  then show ?case using 2 assms(3) [OF 2(1)] by (simp add: assocs_def)
qed (simp_all add: assms)

text \<open>What a put or a delete keeps on its way: the table, the rest of the store, the invariant.\<close>

definition tableStep ::
    "(string \<Rightarrow> entry option) \<Rightarrow> (string \<times> string \<Rightarrow> associationRecord option) \<Rightarrow> (string \<Rightarrow> entry option) \<Rightarrow> bool" where
  "tableStep c t d \<longleftrightarrow> assoc_inv (w_Sha256 W) d \<and> only_assocs c d \<and> assocs d = t"

lemma wp_put_assoc_index:
  assumes "tableStep c t (contents w)" and "k \<in> set (assocIndexKeys (w_Sha256 W) r)" and "assocWF r"
    and "\<And>q. q \<noteq> as_Path r \<Longrightarrow> t (q, as_ID r) = None"
    and "\<And>w'. tableStep c t (contents w') \<Longrightarrow> contents w' = (contents w)(k \<mapsto> EString (as_Path r)) \<Longrightarrow> Q () w'"
    and "\<And>e w'. tableStep c t (contents w') \<Longrightarrow> E e w'"
  shows "wp (w_Put W k (EString (as_Path r))) Q E w"
proof -
  have "tableStep c t ((contents w)(k \<mapsto> EString (as_Path r)))"
    using assms(1-4) inv_put_assoc_index [of "w_Sha256 W" "contents w" k r]
    by (auto simp: tableStep_def intro: only_assocs_updI)
  then show ?thesis using assms(1) by (intro wp_Put assms(5,6)) simp_all
qed

lemma wp_delete_assoc_index:
  assumes "tableStep c t (contents w)" and "k \<in> set (assocIndexKeys (w_Sha256 W) e)" and "assocWF e"
    and "\<And>q r. t (q, as_ID e) = Some r \<Longrightarrow> k \<notin> set (assocIndexKeys (w_Sha256 W) r)"
    and "\<And>w'. tableStep c t (contents w') \<Longrightarrow> Q () w'"
    and "\<And>er w'. tableStep c t (contents w') \<Longrightarrow> E er w'"
  shows "wp (w_Delete W k) Q E w"
proof -
  have "tableStep c t ((contents w)(k := None))"
    using assms(1-4) inv_delete_assoc_index [of "w_Sha256 W" "contents w" k e]
    by (auto simp: tableStep_def intro: only_assocs_updI)
  then show ?thesis using assms(1) by (intro wp_Delete assms(5,6)) simp_all
qed

lemma wp_delete_name_keys:
  assumes step: "tableStep c t (contents w)" and wf: "assocWF e"
    and unused: "\<And>q r k. t (q, as_ID e) = Some r \<Longrightarrow> k \<in> set (assocNameKeys (w_Sha256 W) e) \<Longrightarrow> \<not> skip k \<Longrightarrow>
      k \<notin> set (assocIndexKeys (w_Sha256 W) r)"
    and Q: "\<And>w'. tableStep c t (contents w') \<Longrightarrow> Q () w'"
    and E: "\<And>er w'. tableStep c t (contents w') \<Longrightarrow> E er w'"
  shows "wp (eachM (assocNameKeys (w_Sha256 W) e) (\<lambda>k. if skip k then retM () else w_Delete W k)) Q E w"
proof (rule wp_eachM [where I = "\<lambda>ys w'. tableStep c t (contents w') \<and> set ys \<subseteq> set (assocNameKeys (w_Sha256 W) e)"])
  fix k ys w'
  assume a: "tableStep c t (contents w') \<and> set (k # ys) \<subseteq> set (assocNameKeys (w_Sha256 W) e)"
  then have k: "k \<in> set (assocIndexKeys (w_Sha256 W) e)" by (simp add: assocIndexKeys_def)
  show "wp (if skip k then retM () else w_Delete W k)
      (\<lambda>_ w'. tableStep c t (contents w') \<and> set ys \<subseteq> set (assocNameKeys (w_Sha256 W) e)) E w'"
  proof (cases "skip k")
    case False
    have "wp (w_Delete W k) (\<lambda>_ w'. tableStep c t (contents w') \<and> set ys \<subseteq> set (assocNameKeys (w_Sha256 W) e)) E w'"
      by (rule wp_delete_assoc_index [of c t _ _ e]) (use a k wf unused False E in auto)
    then show ?thesis using False by simp
  qed (use a in auto)
qed (use step Q in auto)

lemma table_put_law:
  assumes inv: "assoc_inv (w_Sha256 W) (contents w)" and wf: "assocWF r"
    and uniq: "\<And>q. q \<noteq> as_Path r \<Longrightarrow> assocs (contents w) (q, as_ID r) = None"
  defines "new \<equiv> (assocs (contents w))((as_Path r, as_ID r) \<mapsto> normalizeAssociationDefaults r)"
  shows "wp (putAssociation W r) (\<lambda>_ w'. tableStep (contents w) new (contents w'))
    (\<lambda>_ w'. tableStep (contents w) (assocs (contents w)) (contents w') \<or> tableStep (contents w) new (contents w')) w"
  (is "wp _ ?Q ?E w")
proof -
  let ?sha = "w_Sha256 W" and ?c = "contents w" and ?t = "assocs (contents w)"
  have v: "validID (as_ID r)" using wf by (simp add: assocWF_def)
  have s0: "tableStep ?c ?t ?c" using inv by (simp add: tableStep_def)
  have fin: "wp (case assocs ?c (as_Path r, as_ID r) of Some e \<Rightarrow> deleteStaleAssociationIndexes W e r | None \<Rightarrow> retM ())
      ?Q ?E w'" if s: "tableStep ?c new (contents w')" for w'
  proof (cases "assocs ?c (as_Path r, as_ID r)")
    case (Some e)
    have e: "as_ID e = as_ID r" "assocWF e" using assocs_Some [OF inv Some] by auto
    have unused: "k \<notin> set (assocIndexKeys ?sha x)"
      if "new (q, as_ID e) = Some x" "k \<notin> set (assocIndexKeys ?sha r)" for q x k
      using that uniq [of q] e by (auto simp: new_def split: if_splits)
    have names: "wp (eachM (assocNameKeys ?sha e) (\<lambda>k. if k \<in> set (assocNameKeys ?sha r) then retM () else w_Delete W k))
        ?Q ?E w''" if "tableStep ?c new (contents w'')" for w''
    proof (rule wp_delete_name_keys [of ?c new])
      fix q x k
      assume a: "new (q, as_ID e) = Some x" "k \<in> set (assocNameKeys ?sha e)" "k \<notin> set (assocNameKeys ?sha r)"
      have "k \<noteq> assocDestinationKey r"
        using a(2) by (auto simp: assocNameKeys_def assocDestinationKey_def component_key_defs prefix_defs)
      then have "k \<notin> set (assocIndexKeys ?sha r)" using a(3) by (simp add: assocIndexKeys_def)
      then show "k \<notin> set (assocIndexKeys ?sha x)" by (rule unused [OF a(1)])
    qed (fact that, fact e(2), blast+)
    show ?thesis
    proof (cases "as_DestinationType e \<noteq> as_DestinationType r \<or> as_DestinationName e \<noteq> as_DestinationName r")
      case True
      have dest: "assocDestinationKey e \<noteq> assocDestinationKey r"
      proof
        assume eq: "assocDestinationKey e = assocDestinationKey r"
        have ns: "slash \<notin> set (as_DestinationType e)" "slash \<notin> set (as_DestinationType r)"
          "slash \<notin> set (as_ID r)"
          using e(2) wf by (auto simp: assocWF_def validID_def)
        have "as_DestinationType e @ slash # as_DestinationName e = as_DestinationType r @ slash # as_DestinationName r"
          using eq append_sep_inj [OF ns(3) ns(3),
              of "as_DestinationType e @ slash # as_DestinationName e" "as_DestinationType r @ slash # as_DestinationName r"]
          by (simp add: assocDestinationKey_def associationByDestinationStorageKey_def destinationRef_def e(1))
        then show False using sep_first_inj [OF ns(1,2)] True by blast
      qed
      have "assocDestinationKey e \<notin> set (assocNameKeys ?sha r)"
        by (auto simp: assocNameKeys_def assocDestinationKey_def component_key_defs prefix_defs)
      then have free: "assocDestinationKey e \<notin> set (assocIndexKeys ?sha r)"
        using dest by (simp add: assocIndexKeys_def)
      show ?thesis
        unfolding Some option.case deleteStaleAssociationIndexes_def
        by (rule wp_seq, simp only: wp_whenM True if_True,
            rule wp_delete_assoc_index [of ?c new _ _ e, OF s _ e(2)])
          (use unused free names in \<open>auto simp: assocIndexKeys_def\<close>)
    next
      case False
      then show ?thesis
        unfolding Some option.case deleteStaleAssociationIndexes_def
        by (intro wp_seq) (simp only: wp_whenM False if_False, rule names [OF s])
    qed
  qed (use s in simp)
  show ?thesis
    unfolding putAssociation_def
  proof (rule wp_seq, rule wp_getAssociation [OF inv], goal_cases)
    case (2 w1)
    have s1: "tableStep ?c ?t (contents w1)" using s0 2 by simp
    show ?case
      unfolding v if_P [OF v] if_True
    proof (rule wp_seq, rule wp_put_assoc_index [of ?c ?t _ _ r, OF s1 _ wf uniq], goal_cases)
      case (3 w2)
      have d2: "contents w2 (assocDestinationKey r) = Some (EString (as_Path r))" using 3 by simp
      show ?case
      proof (rule wp_seq, rule wp_eachM [where I = "\<lambda>ys w'. tableStep ?c ?t (contents w') \<and>
          set ys \<subseteq> set (assocNameKeys ?sha r) \<and>
          (\<forall>k \<in> set (assocIndexKeys ?sha r) - set ys. contents w' k = Some (EString (as_Path r)))"])
        show "tableStep ?c ?t (contents w2) \<and> set (assocNameKeys ?sha r) \<subseteq> set (assocNameKeys ?sha r) \<and>
            (\<forall>k \<in> set (assocIndexKeys ?sha r) - set (assocNameKeys ?sha r). contents w2 k = Some (EString (as_Path r)))"
          using 3 d2 by (auto simp: assocIndexKeys_def)
      next
        fix k ys w3
        assume a: "tableStep ?c ?t (contents w3) \<and> set (k # ys) \<subseteq> set (assocNameKeys ?sha r) \<and>
          (\<forall>x \<in> set (assocIndexKeys ?sha r) - set (k # ys). contents w3 x = Some (EString (as_Path r)))"
        show "wp (w_Put W k (EString (as_Path r))) (\<lambda>_ w'. tableStep ?c ?t (contents w') \<and>
          set ys \<subseteq> set (assocNameKeys ?sha r) \<and>
          (\<forall>x \<in> set (assocIndexKeys ?sha r) - set ys. contents w' x = Some (EString (as_Path r)))) ?E w3"
          by (rule wp_put_assoc_index [of ?c ?t _ _ r]) (use a wf uniq in \<open>auto simp: assocIndexKeys_def\<close>)
      next
        fix w3
        assume a: "tableStep ?c ?t (contents w3) \<and> set [] \<subseteq> set (assocNameKeys ?sha r) \<and>
          (\<forall>x \<in> set (assocIndexKeys ?sha r) - set []. contents w3 x = Some (EString (as_Path r)))"
        let ?d = "(contents w3)(associationStorageKey (as_Path r) (as_ID r) \<mapsto> EAssociation r)"
        have s3: "tableStep ?c new ?d"
          using a wf uniq inv_put_assoc [of ?sha "contents w3" r]
          by (auto simp: tableStep_def new_def intro: only_assocs_updI)
        show "wp (bindM (w_Put W (associationStorageKey (as_Path r) (as_ID r)) (EAssociation r)) (\<lambda>_.
            case assocs ?c (as_Path r, as_ID r) of Some e \<Rightarrow> deleteStaleAssociationIndexes W e r | None \<Rightarrow> retM ()))
            ?Q ?E w3"
        proof (rule wp_seq, rule wp_Put, goal_cases)
          case (1 w4)
          then show ?case using s3 by (intro fin) simp
        qed (use a s3 in auto)
      qed
    qed (simp_all add: assocIndexKeys_def)
  qed (use v s0 in auto)
qed

lemma table_del_law:
  assumes inv: "assoc_inv (w_Sha256 W) (contents w)" and wf: "assocWF r"
    and uniq: "\<And>q. q \<noteq> as_Path r \<Longrightarrow> assocs (contents w) (q, as_ID r) = None"
  defines "new \<equiv> (assocs (contents w))((as_Path r, as_ID r) := None)"
  shows "wp (deleteAssociation W r) (\<lambda>_ w'. tableStep (contents w) new (contents w'))
    (\<lambda>_ w'. tableStep (contents w) (assocs (contents w)) (contents w') \<or> tableStep (contents w) new (contents w')) w"
  (is "wp _ ?Q ?E w")
proof -
  let ?c = "contents w"
  have v: "validID (as_ID r)" using wf by (simp add: assocWF_def)
  have s0: "tableStep ?c (assocs ?c) ?c" using inv by (simp add: tableStep_def)
  have s1: "tableStep ?c new (?c(associationStorageKey (as_Path r) (as_ID r) := None))"
    using inv_delete_assoc [OF inv v, of "as_Path r"] by (simp add: tableStep_def new_def only_assocs_updI)
  have none: "new (q, as_ID r) = None" for q using uniq [of q] by (simp add: new_def)
  have names: "wp (eachM (assocNameKeys (w_Sha256 W) r) (w_Delete W)) ?Q ?E w'"
    if "tableStep ?c new (contents w')" for w'
    using wp_delete_name_keys [of ?c new w' r "\<lambda>_. False" ?Q ?E] that wf none by simp
  show ?thesis
    unfolding deleteAssociation_def
  proof (rule wp_seq, rule wp_Delete, goal_cases)
    case (1 w1)
    then have s: "tableStep ?c new (contents w1)" using s1 by simp
    show ?case
      by (rule wp_seq, rule wp_delete_assoc_index [of ?c new _ _ r, OF s _ wf])
        (use none names in \<open>auto simp: assocIndexKeys_def\<close>)
  qed (use s0 s1 in auto)
qed

end

sublocale bao_storage \<subseteq> associations: association_store contents "w_Sha256 W" "getAssociation W"
  "putAssociation W" "deleteAssociation W"
proof (unfold_locales, goal_cases)
  case (1 w i p)
  then show ?case by (intro wp_getAssociation) auto
next
  case (2 w r)
  show ?case
    by (rule wp_mono [OF table_put_law [OF 2]]) (auto simp: tableStep_def)
next
  case (3 w r)
  show ?case
    by (rule wp_mono [OF table_del_law [OF 3]]) (auto simp: tableStep_def)
qed

section \<open>Listings\<close>

definition assocsFor :: "(string \<Rightarrow> entry option) \<Rightarrow> (associationRecord \<Rightarrow> bool) \<Rightarrow> associationRecord set" where
  "assocsFor c P = {r. \<exists>p i. assocs c (p, i) = Some r \<and> P r}"

definition idsWhere :: "(string \<Rightarrow> entry option) \<Rightarrow> (associationRecord \<Rightarrow> bool) \<Rightarrow> string set" where
  "idsWhere c P = {i. \<exists>p r. assocs c (p, i) = Some r \<and> P r}"

lemma assocs_validID: "assocs c (p, i) = Some r \<Longrightarrow> validID i"
  by (auto simp: assocs_def split: option.splits entry.splits if_splits)

lemma assoc_path_child:
  assumes "assoc_inv sha c" and "assocs c (p, i) = Some r"
  shows "i \<in> children (associationStoragePrefix @ p @ ''/'') c"
proof -
  have "validID i" by (rule assocs_validID [OF assms(2)])
  moreover have "c (associationStoragePrefix @ p @ ''/'' @ i) \<noteq> None"
    using assms(2) by (auto simp: assocs_def associationStorageKey_def split: option.splits)
  ultimately show ?thesis
    using children_leaf [of i "associationStoragePrefix @ p @ ''/''" c] by (simp add: validID_def)
qed

lemma assoc_index_child:
  assumes inv: "assoc_inv sha c" and r: "assocs c (p, i) = Some r"
    and k: "pre @ i \<in> set (assocIndexKeys sha r)"
  shows "i \<in> children pre c"
  using assocs_Some(5) [OF inv r k] assocs_validID [OF r] children_leaf [of i pre c]
  by (simp add: validID_def)

lemma map_filter_select:
  "List.map_filter (\<lambda>i. case h i of None \<Rightarrow> None | Some r \<Rightarrow> if P r then Some i else None) ids =
     filter (\<lambda>i. \<exists>r. h i = Some r \<and> P r) ids"
  by (induction ids) (auto simp: List.map_filter_simps split: option.splits)

context bao_storage begin

lemmas association_put = associations.put_law
lemmas association_del = associations.del_law

lemma wp_getAssociationFromIndex:
  assumes inv: "assoc_inv (w_Sha256 W) (contents w)"
    and k: "prefix associationByDestPrefix k \<or> prefix associationNamePrefix k" and i: "listedID i"
    and Q: "\<And>w' s. contents w' = contents w \<Longrightarrow> contents w k = Some (EString s) \<Longrightarrow>
      Q (if s = [] \<or> \<not> validID i then None else assocs (contents w) (s, i)) w'"
    and N: "\<And>w'. contents w' = contents w \<Longrightarrow> contents w k = None \<Longrightarrow> Q None w'"
    and E: "\<And>e w'. contents w' = contents w \<Longrightarrow> E e w'"
  shows "wp (getAssociationFromIndex W k i) Q E w"
  unfolding getAssociationFromIndex_def
proof (rule wp_seq, rule wp_Get, goal_cases)
  case (1 w')
  show ?case
  proof (cases "contents w k")
    case None
    then show ?thesis using N 1 by simp
  next
    case (Some v)
    then obtain s where s: "v = EString s" using assoc_invD(2) [OF inv _ k] by blast
    have Q': "Q (if s = [] \<or> \<not> validID i then None else assocs (contents w) (s, i)) w''"
      if "contents w'' = contents w" for w''
      by (rule Q [OF that]) (simp add: Some s)
    show ?thesis
    proof (cases "s = []")
      case True
      then show ?thesis using Some s Q' [OF 1] by simp
    next
      case False
      have "wp (getAssociation W s i) Q E w'"
        by (rule wp_getAssociation) (use inv i 1 False Q' E in auto)
      then show ?thesis using Some s False by simp
    qed
  qed
qed (rule E)

lemma wp_listAssociationsForPath [wp_intros]:
  assumes inv: "assoc_inv (w_Sha256 W) (contents w)"
    and Q: "\<And>rs w'. contents w' = contents w \<Longrightarrow> distinct (map as_ID rs) \<Longrightarrow>
      set rs = {r. \<exists>i. assocs (contents w) (p, i) = Some r} \<Longrightarrow> Q rs w'"
    and E: "\<And>e w'. contents w' = contents w \<Longrightarrow> E e w'"
  shows "wp (listAssociationsForPath W p) Q E w"
  unfolding listAssociationsForPath_def listAssociationIDsForPath_def
proof (rule wp_seq, rule wp_List, goal_cases)
  case (1 ids w1)
  let ?g = "\<lambda>i. if validID i then assocs (contents w) (p, i) else None"
  have g: "?g = (\<lambda>i. assocs (contents w) (p, i))" 
  proof
    fix i
    show "?g i = assocs (contents w) (p, i)"
      using assocs_validID [of "contents w" p i] by (cases "assocs (contents w) (p, i)") simp_all
  qed
  show ?case
  proof (rule associations.wp_read_loop [where g = ?g])
    show "assoc_inv (w_Sha256 W) (contents w1)" using inv 1 by simp
    fix acc i w'
    assume "i \<in> set ids" "contents w' = contents w1"
    then show "wp (bindM (getAssociation W p i) (\<lambda>r. case r of None \<Rightarrow> retM acc | Some rec \<Rightarrow> retM (acc @ [rec])))
        (\<lambda>acc' w''. acc' = (case ?g i of None \<Rightarrow> acc | Some x \<Rightarrow> acc @ [x]) \<and> contents w'' = contents w1)
        (\<lambda>_ w''. contents w'' = contents w1) w'"
      using 1 inv by (intro wp_seq wp_getAssociation) (auto split: option.splits dest: listedID_child)
  next
    fix w'
    assume "contents w' = contents w1"
    then have c: "contents w' = contents w" using 1 by simp
    have d: "distinct (map as_ID (List.map_filter ?g ids))"
    proof -
      have "map as_ID (List.map_filter ?g ids) = filter (\<lambda>i. \<exists>r. ?g i = Some r) ids"
        using assocs_Some(2) [OF inv] by (induction ids) (auto simp: List.map_filter_simps split: option.splits)
      then show ?thesis using 1 by simp
    qed
    have s: "set (List.map_filter ?g ids) = {r. \<exists>i. assocs (contents w) (p, i) = Some r}"
      unfolding g using 1(1) assoc_path_child [OF inv]
      by (auto simp: List.map_filter_def image_iff) (metis option.sel option.distinct(1))+
    show "Q (List.map_filter ?g ids) w'" by (rule Q [OF c d s])
  qed (use 1 E in auto)
qed (rule E)

lemma wp_index_listing:
  assumes inv: "assoc_inv (w_Sha256 W) (contents w)"
    and pre: "prefix associationByDestPrefix pre \<or> prefix associationNamePrefix pre"
    and idx: "\<And>p i r. assocs (contents w) (p, i) = Some r \<Longrightarrow> P r \<Longrightarrow> pre @ i \<in> set (assocIndexKeys (w_Sha256 W) r)"
    and key: "\<And>i. key i = pre @ i"
    and Q: "\<And>ids w'. contents w' = contents w \<Longrightarrow> distinct ids \<Longrightarrow> set ids = idsWhere (contents w) P \<Longrightarrow> Q ids w'"
    and E: "\<And>e w'. contents w' = contents w \<Longrightarrow> E e w'"
  shows "wp (bindM (w_List W pre) (\<lambda>ids. foldM (\<lambda>liveIDs i.
      bindM (getAssociationFromIndex W (key i) i) (\<lambda>r. case r of None \<Rightarrow> retM liveIDs
        | Some rec \<Rightarrow> retM (if P rec then liveIDs @ [i] else liveIDs))) [] ids)) Q E w"
proof (rule wp_seq, rule wp_List, goal_cases)
  case (1 ids w1)
  let ?h = "\<lambda>i. case contents w (pre @ i) of
      Some (EString s) \<Rightarrow> if s = [] \<or> \<not> validID i then None else assocs (contents w) (s, i) | _ \<Rightarrow> None"
  let ?g = "\<lambda>i. case ?h i of None \<Rightarrow> None | Some r \<Rightarrow> if P r then Some i else None"
  show ?case
  proof (rule associations.wp_read_loop [where g = ?g])
    show "assoc_inv (w_Sha256 W) (contents w1)" using inv 1 by simp
    fix acc i w'
    assume i: "i \<in> set ids" and c: "contents w' = contents w1"
    have k: "prefix associationByDestPrefix (pre @ i) \<or> prefix associationNamePrefix (pre @ i)"
      using pre by (auto simp: prefix_def)
    show "wp (bindM (getAssociationFromIndex W (key i) i) (\<lambda>r. case r of None \<Rightarrow> retM acc
        | Some rec \<Rightarrow> retM (if P rec then acc @ [i] else acc)))
        (\<lambda>acc' w''. acc' = (case ?g i of None \<Rightarrow> acc | Some x \<Rightarrow> acc @ [x]) \<and> contents w'' = contents w1)
        (\<lambda>_ w''. contents w'' = contents w1) w'"
      unfolding key
    proof (rule wp_seq, rule wp_getAssociationFromIndex, goal_cases)
      case (4 w'' s)
      then show ?case using c 1 by (auto split: option.splits)
    qed (use inv k c i 1 listedID_child in auto)
  next
    fix w'
    assume "contents w' = contents w1"
    then have c: "contents w' = contents w" using 1 by simp
    have f: "List.map_filter ?g ids = filter (\<lambda>i. \<exists>r. ?h i = Some r \<and> P r) ids"
      by (rule map_filter_select)
    have "i \<in> idsWhere (contents w) P \<longleftrightarrow> i \<in> set ids \<and> (\<exists>r. ?h i = Some r \<and> P r)" for i
    proof
      assume "i \<in> idsWhere (contents w) P"
      then obtain p r where r: "assocs (contents w) (p, i) = Some r" "P r" by (auto simp: idsWhere_def)
      have "contents w (pre @ i) = Some (EString p)" using assocs_Some(5) [OF inv r(1) idx [OF r]] .
      moreover have "p \<noteq> []" using assocs_Some(1,3) [OF inv r(1)] by (auto simp: assocWF_def)
      ultimately show "i \<in> set ids \<and> (\<exists>r. ?h i = Some r \<and> P r)"
        using r assocs_validID [OF r(1)] assoc_index_child [OF inv r(1) idx [OF r]] 1 by auto
    next
      assume "i \<in> set ids \<and> (\<exists>r. ?h i = Some r \<and> P r)"
      then show "i \<in> idsWhere (contents w) P"
        by (auto simp: idsWhere_def split: option.splits entry.splits if_splits)
    qed
    then have "set (filter (\<lambda>i. \<exists>r. ?h i = Some r \<and> P r) ids) = idsWhere (contents w) P" by auto
    then show "Q (List.map_filter ?g ids) w'" unfolding f by (intro Q [OF c]) (use 1 in auto)
  qed (use 1 E in auto)
qed (rule E)

lemma wp_listAssociationIDsForDestination [wp_intros]:
  assumes inv: "assoc_inv (w_Sha256 W) (contents w)"
    and Q: "\<And>ids w'. contents w' = contents w \<Longrightarrow> distinct ids \<Longrightarrow>
      set ids = idsWhere (contents w) (\<lambda>r. as_DestinationType r = t \<and> as_DestinationName r = n) \<Longrightarrow> Q ids w'"
    and E: "\<And>e w'. contents w' = contents w \<Longrightarrow> E e w'"
  shows "wp (listAssociationIDsForDestination W t n) Q E w"
  unfolding listAssociationIDsForDestination_def
proof (rule wp_index_listing [OF inv])
  fix p i r
  assume r: "assocs (contents w) (p, i) = Some r" "as_DestinationType r = t \<and> as_DestinationName r = n"
  then show "(associationByDestPrefix @ destinationRef t n @ ''/'') @ i \<in> set (assocIndexKeys (w_Sha256 W) r)"
    using assocs_Some(2) [OF inv r(1)]
    by (simp add: assocIndexKeys_def assocDestinationKey_def associationByDestinationStorageKey_def)
qed (use Q E in \<open>auto simp: associationByDestinationStorageKey_def\<close>)

lemma wp_listAssociationNameReservationIDs [wp_intros]:
  assumes inv: "assoc_inv (w_Sha256 W) (contents w)"
    and Q: "\<And>ids w'. contents w' = contents w \<Longrightarrow> distinct ids \<Longrightarrow>
      set ids = idsWhere (contents w) (\<lambda>r. as_DestinationRef r = d \<and> n \<in> set (reservationNames r)) \<Longrightarrow> Q ids w'"
    and E: "\<And>e w'. contents w' = contents w \<Longrightarrow> E e w'"
  shows "wp (listAssociationNameReservationIDs W d n) Q E w"
  unfolding listAssociationNameReservationIDs_def
proof (rule wp_index_listing [OF inv])
  fix p i r
  assume r: "assocs (contents w) (p, i) = Some r" "as_DestinationRef r = d \<and> associationReservesName r n"
  then show "(associationNamePrefix @ d @ ''/'' @ nameReservationID (w_Sha256 W) n @ ''/'') @ i
      \<in> set (assocIndexKeys (w_Sha256 W) r)"
    using assocs_Some(2) [OF inv r(1)]
    by (auto simp: assocIndexKeys_def assocNameKeys_def associationNameStorageKey_def associationReservesName_def)
qed (use Q E in \<open>auto simp: associationNameStorageKey_def associationReservesName_def\<close>)

end

end
