(* ===== verification/Diagnostics.thy ===== *)
theory Diagnostics
  imports Requests
begin

text \<open>
  Error texts and operator diagnostics (\<open>internal/backend/diagnostics.go\<close>, \<open>internal/domain/status.go\<close>):
  the hint and the next actions that go with a failure, and the command line shown for an action.
  \<open>errorText\<close> is \<open>err.Error()\<close>. \<open>quote\<close> is \<open>strconv.Quote\<close> on text whose multi-byte runes are printable.
\<close>

section \<open>Error texts\<close>

fun quoteBytes :: "nat \<Rightarrow> string \<Rightarrow> string" where
  "quoteBytes 0 s = []"
| "quoteBytes (Suc fuel) [] = []"
| "quoteBytes (Suc fuel) (c # s) =
     (let n = (of_char c :: nat); bs = char_of (92 :: nat); dq = char_of (34 :: nat)
      in (if c = bs \<or> c = dq then [bs, c]
          else if n = 7 then [bs, CHR ''a''] else if n = 8 then [bs, CHR ''b'']
          else if n = 9 then [bs, CHR ''t''] else if n = 10 then [bs, CHR ''n'']
          else if n = 11 then [bs, CHR ''v''] else if n = 12 then [bs, CHR ''f'']
          else if n = 13 then [bs, CHR ''r'']
          else if n < 32 \<or> n = 127 then [bs, CHR ''x'', hexDigit (n div 16), hexDigit (n mod 16)]
          else [c]) @ quoteBytes fuel s)"

definition quote :: "string \<Rightarrow> string" where
  "quote s = char_of (34 :: nat) # quoteBytes (length s) s @ [char_of (34 :: nat)]"

text \<open>\<open>fmt.Sprintf\<close> with the verbs the plugin uses; the arguments are already text.\<close>

fun formatText :: "string \<Rightarrow> string list \<Rightarrow> string" where
  "formatText [] args = []"
| "formatText [c] args = [c]"
| "formatText (c # d # s) args =
     (if c = CHR ''%'' then
        (case args of
           [] \<Rightarrow> c # formatText (d # s) args
         | a # rest \<Rightarrow> (if d = CHR ''q'' then quote a else a) @ formatText s rest)
      else c # formatText (d # s) args)"

fun errorText :: "gerr \<Rightarrow> string" where
  "errorText (Errorf f args) = formatText f args"
| "errorText (ErrStorage s) = s"
| "errorText (ErrDecode s) = s"
| "errorText (ErrContext s) = s"
| "errorText (ErrProvider c) = c"
| "errorText (ErrTransport s) = s"
| "errorText (ErrQueuedOperationClaimed i) = ''queued operation is currently claimed: '' @ i"
| "errorText (ErrQueueCapacity n) = ''sync queue is full: capacity '' @ itoa n"
| "errorText (ErrStorageSchema e) = ''incompatible storage schema: '' @ errorText e"
| "errorText ErrBackendUUIDRequired = ''OpenBao backend UUID is required for a mounted backend''"
| "errorText ErrSourcePathDoesNotExist = ''source path does not exist''"
| "errorText ErrCurrentSourceVersionUnavailable = ''current source version is unavailable''"
| "errorText (ErrWrapped f e) = formatText f [errorText e]"
| "errorText (ErrJoin a b) = errorText a @ [CHR 0x0A] @ errorText b"

section \<open>Sync states and error classes\<close>

definition SyncStateUnknown :: string where "SyncStateUnknown = ''UNKNOWN''"
definition SyncStateNoAssociation :: string where "SyncStateNoAssociation = ''NO_ASSOCIATION''"
definition SyncStatePending :: string where "SyncStatePending = ''PENDING''"
definition SyncStateSynced :: string where "SyncStateSynced = ''SYNCED''"
definition SyncStateDrifted :: string where "SyncStateDrifted = ''DRIFTED''"
definition SyncStateRemoteMissing :: string where "SyncStateRemoteMissing = ''REMOTE_MISSING''"
definition SyncStateRemoteOwnershipLost :: string where
  "SyncStateRemoteOwnershipLost = ''REMOTE_OWNERSHIP_LOST''"
definition SyncStateRemoteConflict :: string where "SyncStateRemoteConflict = ''REMOTE_CONFLICT''"
definition SyncStateDestinationAuthError :: string where
  "SyncStateDestinationAuthError = ''DESTINATION_AUTH_ERROR''"
definition SyncStateDestinationPolicyError :: string where
  "SyncStateDestinationPolicyError = ''DESTINATION_POLICY_ERROR''"
definition SyncStateDestinationRateLimited :: string where
  "SyncStateDestinationRateLimited = ''DESTINATION_RATE_LIMITED''"
definition SyncStateDestinationUnavailable :: string where
  "SyncStateDestinationUnavailable = ''DESTINATION_UNAVAILABLE''"
definition SyncStateValidationError :: string where "SyncStateValidationError = ''VALIDATION_ERROR''"
definition SyncStateQueueBlocked :: string where "SyncStateQueueBlocked = ''QUEUE_BLOCKED''"
definition SyncStateDisabled :: string where "SyncStateDisabled = ''DISABLED''"
definition SyncStateInternalError :: string where "SyncStateInternalError = ''INTERNAL_ERROR''"

lemmas sync_states = SyncStateUnknown_def SyncStateNoAssociation_def SyncStatePending_def
  SyncStateSynced_def SyncStateDrifted_def SyncStateRemoteMissing_def SyncStateRemoteOwnershipLost_def
  SyncStateRemoteConflict_def SyncStateDestinationAuthError_def SyncStateDestinationPolicyError_def
  SyncStateDestinationRateLimited_def SyncStateDestinationUnavailable_def SyncStateValidationError_def
  SyncStateQueueBlocked_def SyncStateDisabled_def SyncStateInternalError_def

definition ErrorClassValidation :: string where "ErrorClassValidation = ''validation''"
definition ErrorClassAuthn :: string where "ErrorClassAuthn = ''authn''"
definition ErrorClassAuthz :: string where "ErrorClassAuthz = ''authz''"
definition ErrorClassRateLimit :: string where "ErrorClassRateLimit = ''rate_limit''"
definition ErrorClassUnavailable :: string where "ErrorClassUnavailable = ''unavailable''"
definition ErrorClassCollision :: string where "ErrorClassCollision = ''collision''"
definition ErrorClassOwnership :: string where "ErrorClassOwnership = ''ownership''"
definition ErrorClassDrift :: string where "ErrorClassDrift = ''drift''"
definition ErrorClassCapacity :: string where "ErrorClassCapacity = ''capacity''"
definition ErrorClassInternal :: string where "ErrorClassInternal = ''internal''"

lemmas error_classes = ErrorClassValidation_def ErrorClassAuthn_def ErrorClassAuthz_def
  ErrorClassRateLimit_def ErrorClassUnavailable_def ErrorClassCollision_def ErrorClassOwnership_def
  ErrorClassDrift_def ErrorClassCapacity_def ErrorClassInternal_def

section \<open>Diagnostics\<close>

record diagnosticAction =
  da_Action :: string
  da_Operation :: string
  da_Path :: string
  da_Mount :: string
  da_Parameters :: "(string \<times> string) list"
  da_Force :: bool
  da_MutatesRemote :: bool

record diagnostic =
  dg_Hint :: string
  dg_NextActions :: "diagnosticAction list"

definition mountPathPlaceholder :: string where "mountPathPlaceholder = ''<mount>''"

definition requestMountPath :: "string \<Rightarrow> string" where
  "requestMountPath mountPoint =
     (let mount = trim slash mountPoint in if mount = [] then mountPathPlaceholder else mount)"

definition sortedMapKeys :: "(string \<times> string) list \<Rightarrow> string list" where
  "sortedMapKeys m = sort (map fst m)"

definition mountedPath :: "string \<Rightarrow> string \<Rightarrow> string" where
  "mountedPath mount path =
     (let trimmedMount = (if trim slash mount = [] then mountPathPlaceholder else trim slash mount);
          trimmed = trim slash path
      in if trimmed = [] then trimmedMount else trimmedMount @ ''/'' @ trimmed)"

definition diagnosticCommand :: "diagnosticAction \<Rightarrow> string" where
  "diagnosticCommand a =
     ''bao '' @ da_Operation a @ '' '' @ (if da_Force a then ''-force '' else []) @
     mountedPath (da_Mount a) (da_Path a) @
     concat (map (\<lambda>key. '' '' @ key @ ''='' @
       (case map_of (da_Parameters a) key of Some v \<Rightarrow> v | None \<Rightarrow> [])) (sortedMapKeys (da_Parameters a)))"

definition diagnosticActionResponse :: "diagnosticAction \<Rightarrow> goval" where
  "diagnosticActionResponse a = JObject
     ([(''action'', JString (da_Action a)), (''operation'', JString (da_Operation a)),
       (''path'', JString (da_Path a)), (''mutates_remote'', JBool (da_MutatesRemote a)),
       (''command'', JString (diagnosticCommand a))] @
      (if da_Parameters a \<noteq> [] then [(''parameters'', stringMap (da_Parameters a))] else []) @
      (if da_Force a then [(''force'', JBool True)] else []))"

definition diagnosticActionsResponse :: "diagnosticAction list \<Rightarrow> goval" where
  "diagnosticActionsResponse actions = JArray (map diagnosticActionResponse actions)"

definition diagnosticResponseFields :: "diagnostic \<Rightarrow> (string \<times> goval) list" where
  "diagnosticResponseFields d =
     (if dg_Hint d \<noteq> [] then [(''hint'', JString (dg_Hint d))] else []) @
     (if dg_NextActions d \<noteq> [] then [(''next_actions'', diagnosticActionsResponse (dg_NextActions d))] else [])"

definition cliVisibleDiagnosticError :: "string \<Rightarrow> diagnostic \<Rightarrow> string" where
  "cliVisibleDiagnosticError message d =
     joinWith (CHR 0x0A) (message #
       (if dg_Hint d \<noteq> [] then [''Hint: '' @ dg_Hint d] else []) @
       (case dg_NextActions d of a # _ \<Rightarrow> [''Next action: '' @ diagnosticCommand a] | [] \<Rightarrow> []))"

definition errorResponseWithDiagnostic :: "string \<Rightarrow> diagnostic \<Rightarrow> response" where
  "errorResponseWithDiagnostic message d =
     (let e = Errorf ''%s'' [cliVisibleDiagnosticError message d]; fields = diagnosticResponseFields d
      in if fields = [] then ErrorResponse e else ErrorResponseData e fields)"

definition destinationParameter :: "string \<Rightarrow> (string \<times> string) list" where
  "destinationParameter dref = (if dref = [] then [] else [(''destination'', dref)])"

definition zeroAction :: diagnosticAction where
  "zeroAction = \<lparr> da_Action = [], da_Operation = [], da_Path = [], da_Mount = [], da_Parameters = [],
     da_Force = False, da_MutatesRemote = False \<rparr>"

definition manualAssociationSyncAction :: "string \<Rightarrow> string \<Rightarrow> string \<Rightarrow> diagnosticAction" where
  "manualAssociationSyncAction mount sourcePath dref = zeroAction \<lparr> da_Action := ''manual_sync'',
     da_Operation := ''write'', da_Path := ''associations/'' @ sourcePath @ ''/sync'', da_Mount := mount,
     da_Parameters := destinationParameter dref, da_MutatesRemote := True \<rparr>"

definition enableAssociationAction :: "string \<Rightarrow> string \<Rightarrow> string \<Rightarrow> diagnosticAction" where
  "enableAssociationAction mount sourcePath dref = zeroAction \<lparr> da_Action := ''enable_association'',
     da_Operation := ''write'', da_Path := ''associations/'' @ sourcePath @ ''/enable'', da_Mount := mount,
     da_Parameters := destinationParameter dref \<rparr>"

definition associationPlanAction :: "string \<Rightarrow> string \<Rightarrow> string \<Rightarrow> diagnosticAction" where
  "associationPlanAction mount sourcePath dref = zeroAction \<lparr> da_Action := ''inspect_association_plan'',
     da_Operation := ''write'', da_Path := ''associations/'' @ sourcePath @ ''/plan'', da_Mount := mount,
     da_Parameters := destinationParameter dref \<rparr>"

definition enableSourceAction :: "string \<Rightarrow> string \<Rightarrow> diagnosticAction" where
  "enableSourceAction mount sourcePath = zeroAction \<lparr> da_Action := ''enable_source'',
     da_Operation := ''write'', da_Path := ''sources/'' @ sourcePath @ ''/enable'', da_Mount := mount,
     da_Force := True \<rparr>"

definition enableDestinationAction :: "string \<Rightarrow> string \<Rightarrow> diagnosticAction" where
  "enableDestinationAction mount dref = zeroAction \<lparr> da_Action := ''enable_destination'',
     da_Operation := ''write'', da_Path := ''destinations/'' @ dref, da_Mount := mount,
     da_Parameters := [(''disabled'', ''false'')] \<rparr>"

definition readDestinationAction :: "string \<Rightarrow> string \<Rightarrow> diagnosticAction" where
  "readDestinationAction mount dref = zeroAction \<lparr> da_Action := ''read_destination'',
     da_Operation := ''read'', da_Path := ''destinations/'' @ dref, da_Mount := mount \<rparr>"

definition destinationHealthAction :: "string \<Rightarrow> string \<Rightarrow> diagnosticAction" where
  "destinationHealthAction mount dref = zeroAction \<lparr> da_Action := ''check_destination_health'',
     da_Operation := ''read'', da_Path := ''destinations/'' @ dref @ ''/health'', da_Mount := mount \<rparr>"

definition readQueueAction :: "string \<Rightarrow> diagnosticAction" where
  "readQueueAction mount = zeroAction \<lparr> da_Action := ''read_queue'', da_Operation := ''read'',
     da_Path := ''queue'', da_Mount := mount \<rparr>"

definition drainQueueAction :: "string \<Rightarrow> diagnosticAction" where
  "drainQueueAction mount = zeroAction \<lparr> da_Action := ''drain_queue'', da_Operation := ''write'',
     da_Path := ''queue/drain'', da_Mount := mount, da_MutatesRemote := True \<rparr>"

definition readConfigAction :: "string \<Rightarrow> diagnosticAction" where
  "readConfigAction mount = zeroAction \<lparr> da_Action := ''read_config'', da_Operation := ''read'',
     da_Path := ''config'', da_Mount := mount \<rparr>"

definition retryOperationAction :: "string \<Rightarrow> string \<Rightarrow> diagnosticAction" where
  "retryOperationAction mount operationID = zeroAction \<lparr> da_Action := ''retry_operation'',
     da_Operation := ''write'', da_Path := ''queue/'' @ operationID @ ''/retry'', da_Mount := mount,
     da_MutatesRemote := True \<rparr>"

definition associationAlreadyEnabledDiagnostic :: "string \<Rightarrow> associationRecord \<Rightarrow> diagnostic" where
  "associationAlreadyEnabledDiagnostic mount r = \<lparr>
     dg_Hint = ''Association is already enabled, so this update did not enqueue sync work. '' @
       ''Run manual sync to push or retry the current source version.'',
     dg_NextActions = [manualAssociationSyncAction mount (as_Path r) (as_DestinationRef r)] \<rparr>"

definition associationDisabledDiagnostic :: "string \<Rightarrow> associationRecord \<Rightarrow> diagnostic" where
  "associationDisabledDiagnostic mount r = \<lparr>
     dg_Hint = ''Association is disabled. Enable it before enqueueing manual sync work.'',
     dg_NextActions = [enableAssociationAction mount (as_Path r) (as_DestinationRef r)] \<rparr>"

text \<open>\<open>strings.ToLower\<close> as far as a search for ASCII text can tell: the two runes outside ASCII whose
  lower case is ASCII are the dotted capital I and the Kelvin sign.\<close>

fun lowerText :: "string \<Rightarrow> string" where
  "lowerText [] = []"
| "lowerText (c # s) =
     (let n = (of_char c :: nat)
      in if 65 \<le> n \<and> n \<le> 90 then char_of (n + 32) # lowerText s
         else if n = 196 \<and> take 1 s = [char_of (176 :: nat)] then CHR ''i'' # lowerText (drop 1 s)
         else if n = 226 \<and> take 2 s = [char_of (132 :: nat), char_of (170 :: nat)]
         then CHR ''k'' # lowerText (drop 2 s)
         else c # lowerText s)"

definition validationDiagnostic :: "string \<Rightarrow> string \<Rightarrow> string \<Rightarrow> string \<Rightarrow> diagnostic" where
  "validationDiagnostic mount sourcePath dref message =
     (let normalized = lowerText message
      in if containsStr normalized ''source path is not eligible'' \<or>
            containsStr normalized ''source sync must be enabled''
         then \<lparr> dg_Hint = ''Source sync must be enabled before this source can sync in hardened posture.'',
                dg_NextActions = [enableSourceAction mount sourcePath] \<rparr>
         else if containsStr normalized ''destination_unconstrained''
         then \<lparr> dg_Hint = ''Delegated mode requires destination source-path and resolved-name constraints '' @
                  ''before this association can sync.'',
                dg_NextActions = [readDestinationAction mount dref] \<rparr>
         else if containsStr normalized ''destination'' \<and> containsStr normalized ''disabled''
         then \<lparr> dg_Hint = ''Destination is disabled. Enable the destination before syncing this association.'',
                dg_NextActions = [enableDestinationAction mount dref] \<rparr>
         else \<lparr> dg_Hint = ''Validation failed. Inspect the association plan, fix the reported validation issue, then retry manual sync.'',
                dg_NextActions = [associationPlanAction mount sourcePath dref] \<rparr>)"

definition validationDiagnosticForAssociation :: "string \<Rightarrow> associationRecord \<Rightarrow> string \<Rightarrow> diagnostic" where
  "validationDiagnosticForAssociation mount r message =
     validationDiagnostic mount (as_Path r) (as_DestinationRef r) message"

definition restoreGuardDiagnostic :: "string \<Rightarrow> diagnostic" where
  "restoreGuardDiagnostic mount = \<lparr>
     dg_Hint = ''Restore guard is active. Acknowledge the restore guard after reviewing destination state '' @
       ''before draining queued remote mutations.'',
     dg_NextActions = [zeroAction \<lparr> da_Action := ''acknowledge_restore_guard'', da_Operation := ''write'',
       da_Path := ''config/restore-guard/acknowledge'', da_Mount := mount, da_Force := True \<rparr>] \<rparr>"

definition mountDisabledDiagnostic :: "string \<Rightarrow> diagnostic" where
  "mountDisabledDiagnostic mount = \<lparr>
     dg_Hint = ''Secret Sync is disabled. Set config disabled=false before draining queued remote mutations '' @
       ''or relying on background dispatch.'',
     dg_NextActions = [zeroAction \<lparr> da_Action := ''enable_secret_sync'', da_Operation := ''write'',
       da_Path := ''config'', da_Mount := mount, da_Parameters := [(''disabled'', ''false'')] \<rparr>] \<rparr>"

definition remoteMutationUnsafeDiagnostic :: diagnostic where
  "remoteMutationUnsafeDiagnostic = \<lparr>
     dg_Hint = ''Remote mutation is not allowed on this replication node. Run remote mutation commands on '' @
       ''an active node that owns provider writes.'', dg_NextActions = [] \<rparr>"

definition queueCapacityDiagnostic :: "string \<Rightarrow> diagnostic" where
  "queueCapacityDiagnostic mount = \<lparr>
     dg_Hint = ''Queue capacity is exhausted. Drain, retry, or cancel queued work, or raise config queue_capacity '' @
       ''before retrying this operation.'',
     dg_NextActions = [readQueueAction mount, drainQueueAction mount, readConfigAction mount] \<rparr>"

fun isQueueCapacityError :: "gerr \<Rightarrow> bool" where
  "isQueueCapacityError (ErrQueueCapacity _) = True"
| "isQueueCapacityError (ErrWrapped _ e) = isQueueCapacityError e"
| "isQueueCapacityError (ErrJoin a b) = (isQueueCapacityError a \<or> isQueueCapacityError b)"
| "isQueueCapacityError _ = False"

fun isQueuedOperationClaimedError :: "gerr \<Rightarrow> bool" where
  "isQueuedOperationClaimedError (ErrQueuedOperationClaimed _) = True"
| "isQueuedOperationClaimedError (ErrWrapped _ e) = isQueuedOperationClaimedError e"
| "isQueuedOperationClaimedError (ErrJoin a b) =
     (isQueuedOperationClaimedError a \<or> isQueuedOperationClaimedError b)"
| "isQueuedOperationClaimedError _ = False"

definition errorResponseForOperationError :: "gerr \<Rightarrow> string \<Rightarrow> response" where
  "errorResponseForOperationError e mount =
     (if isQueueCapacityError e then errorResponseWithDiagnostic (errorText e) (queueCapacityDiagnostic mount)
      else ErrorResponse e)"

definition zeroDiagnostic :: diagnostic where
  "zeroDiagnostic = \<lparr> dg_Hint = [], dg_NextActions = [] \<rparr>"

definition destinationFailureDiagnostic :: "string \<Rightarrow> string \<Rightarrow> string \<Rightarrow> string \<Rightarrow> diagnostic" where
  "destinationFailureDiagnostic mount dref operationID hint = \<lparr> dg_Hint = hint,
     dg_NextActions = destinationHealthAction mount dref #
       (if operationID \<noteq> [] then [retryOperationAction mount operationID] else []) \<rparr>"

definition syncStateDiagnostic ::
    "string \<Rightarrow> string \<Rightarrow> string \<Rightarrow> string \<Rightarrow> string \<Rightarrow> string \<Rightarrow> diagnostic" where
  "syncStateDiagnostic mount state sourcePath dref operationID message =
     (if state = SyncStateRemoteConflict then
        \<lparr> dg_Hint = concat [''A remote object conflicts with this association'', [CHR 0x27], ''s resolved name. Inspect the association plan '',
            ''and resolve the name conflict before running manual sync.''],
          dg_NextActions = [associationPlanAction mount sourcePath dref] \<rparr>
      else if state = SyncStateRemoteOwnershipLost then
        \<lparr> dg_Hint = ''Remote object ownership does not match this association. Inspect or remove the remote '' @
            ''object first, then run manual sync to let OpenBao recreate it.'',
          dg_NextActions = [manualAssociationSyncAction mount sourcePath dref] \<rparr>
      else if state = SyncStateRemoteMissing then
        \<lparr> dg_Hint = ''Remote object is missing. Run manual sync to recreate it from the current OpenBao source version.'',
          dg_NextActions = [manualAssociationSyncAction mount sourcePath dref] \<rparr>
      else if state = SyncStateDrifted then
        \<lparr> dg_Hint = ''Remote object differs from the current OpenBao source version. Run manual sync to restore '' @
            ''OpenBao as the source of truth.'',
          dg_NextActions = [manualAssociationSyncAction mount sourcePath dref] \<rparr>
      else if state = SyncStateValidationError then validationDiagnostic mount sourcePath dref message
      else if state = SyncStateQueueBlocked then
        \<lparr> dg_Hint = concat [''The encoded payload exceeds the provider'', [CHR 0x27], ''s payload or request size limit. Reduce the payload '',
            ''or adjust the association mapping, then run manual sync for the current source version.''],
          dg_NextActions = [associationPlanAction mount sourcePath dref] \<rparr>
      else if state = SyncStateDisabled then
        \<lparr> dg_Hint = ''Association or destination is disabled. Enable the disabled object before retrying sync.'',
          dg_NextActions = [enableAssociationAction mount sourcePath dref, readDestinationAction mount dref] \<rparr>
      else if state = SyncStateDestinationAuthError then
        destinationFailureDiagnostic mount dref operationID
          ''Destination authentication failed. Check destination credentials, then retry queued work.''
      else if state = SyncStateDestinationPolicyError then
        destinationFailureDiagnostic mount dref operationID
          (''Destination authorization failed. Check provider permissions for the configured destination, '' @
           ''then retry queued work.'')
      else if state = SyncStateDestinationRateLimited then
        destinationFailureDiagnostic mount dref operationID
          ''Destination rate limited the request. Let retry-wait work become due or retry after provider limits recover.''
      else if state = SyncStateDestinationUnavailable then
        destinationFailureDiagnostic mount dref operationID
          ''Destination is unavailable. Check destination health, then retry queued work after recovery.''
      else if state = SyncStateInternalError then
        (if operationID = [] then
           \<lparr> dg_Hint = ''Internal sync error recorded. Inspect plugin logs and retry after the underlying issue is fixed.'',
             dg_NextActions = [] \<rparr>
         else
           \<lparr> dg_Hint = ''Internal sync error recorded. Inspect plugin logs and retry queued work after the underlying issue is fixed.'',
             dg_NextActions = [retryOperationAction mount operationID] \<rparr>)
      else zeroDiagnostic)"

definition statusDiagnosticForRecord :: "string \<Rightarrow> statusRecord \<Rightarrow> diagnostic" where
  "statusDiagnosticForRecord mount r =
     (let state = (if st_State r = SyncStateDrifted \<and> st_LastErrorClass r = ErrorClassCollision
                   then SyncStateRemoteConflict else st_State r)
      in syncStateDiagnostic mount state (st_Path r) (st_DestinationRef r) (st_LastOperationID r) (st_LastError r))"

text \<open>The states are pairwise different.\<close>

lemma syncStates_distinct:
  "distinct [SyncStateUnknown, SyncStateNoAssociation, SyncStatePending, SyncStateSynced,
    SyncStateDrifted, SyncStateRemoteMissing, SyncStateRemoteOwnershipLost,
    SyncStateRemoteConflict, SyncStateDestinationAuthError, SyncStateDestinationPolicyError,
    SyncStateDestinationRateLimited, SyncStateDestinationUnavailable, SyncStateValidationError,
    SyncStateQueueBlocked, SyncStateDisabled, SyncStateInternalError]"
  by (simp add: SyncStateUnknown_def SyncStateNoAssociation_def SyncStatePending_def
    SyncStateSynced_def SyncStateDrifted_def SyncStateRemoteMissing_def
    SyncStateRemoteOwnershipLost_def SyncStateRemoteConflict_def
    SyncStateDestinationAuthError_def SyncStateDestinationPolicyError_def
    SyncStateDestinationRateLimited_def SyncStateDestinationUnavailable_def
    SyncStateValidationError_def SyncStateQueueBlocked_def SyncStateDisabled_def
    SyncStateInternalError_def)

lemmas syncState_neq [simp] = syncStates_distinct [simplified]

lemma errorClasses_distinct:
  "distinct [[] :: string, ErrorClassValidation, ErrorClassAuthn, ErrorClassAuthz,
    ErrorClassRateLimit, ErrorClassUnavailable, ErrorClassCollision, ErrorClassOwnership,
    ErrorClassDrift, ErrorClassCapacity, ErrorClassInternal]"
  by (simp add: ErrorClassValidation_def ErrorClassAuthn_def ErrorClassAuthz_def
    ErrorClassRateLimit_def ErrorClassUnavailable_def ErrorClassCollision_def
    ErrorClassOwnership_def ErrorClassDrift_def ErrorClassCapacity_def ErrorClassInternal_def)

lemmas errorClass_neq [simp] = errorClasses_distinct [simplified]

text \<open>A failed remote state that only a manual sync repairs names that sync as the next action.\<close>

lemma syncStateDiagnostic_manual_sync:
  assumes "state \<in> {SyncStateRemoteMissing, SyncStateDrifted}"
  shows "dg_NextActions (syncStateDiagnostic mount state p d i m) = [manualAssociationSyncAction mount p d]"
proof -
  have "state = SyncStateRemoteMissing \<or> state = SyncStateDrifted" using assms by blast
  then show ?thesis
    by (elim disjE) (simp_all add: syncStateDiagnostic_def Let_def)
qed

end
