(* ===== verification/Record_Properties.thy ===== *)
theory Record_Properties
  imports Storage_Properties Config_Laws Association_Store Diagnostics
begin

text \<open>
  The properties of the configuration, of the association store and of the destination policy.
  Those of the configuration endpoint are about storage with transactions
  (\<open>transactional_storage\<close>); the others hold for any storage.
\<close>

section \<open>Sample worlds\<close>

definition sampleAssociation :: associationRecord where
  "sampleAssociation = \<lparr> as_ID = ''assoc-1'', as_Path = ''app/db'', as_DestinationType = ''fake'',
     as_DestinationName = ''one'', as_DestinationRef = ''fake/one'', as_NameTemplate = ''{{ path }}'',
     as_ResolvedName = ''app/db'', as_ReservationNames = [], as_Granularity = ''secret-path'',
     as_Format = ''json'', as_DataMapping = ''payload'', as_DataKeyTemplate = [], as_ProviderConfig = [],
     as_ProviderIdentity = [], as_DeleteMode = ''retain'', as_Enabled = True, as_CreatedTime = [],
     as_UpdatedTime = [] \<rparr>"

definition sampleAssociations :: mem where
  "sampleAssociations = snd (putAssociation (memW False) sampleAssociation emptyMem)"

definition sampleDestination :: destinationRecord where
  "sampleDestination = \<lparr> ds_Type = ''fake'', ds_Name = ''one'', ds_Description = [], ds_Disabled = False,
     ds_Config = [], ds_SensitiveConfigVersion = [], ds_AllowedSourcePathPrefixes = [''app''],
     ds_AllowedResolvedNamePrefixes = [''app/''], ds_CreatedTime = [], ds_UpdatedTime = [] \<rparr>"

definition guardedConfig :: globalConfig where
  "guardedConfig = defaultGlobalConfig \<lparr> gc_RestoreGuard := True \<rparr>"

definition oldEpoch :: restoreEpochRecord where
  "oldEpoch = \<lparr> re_Epoch = ''epoch-0'', re_CreatedTime = [], re_UpdatedTime = [] \<rparr>"

definition guardedWorld :: mem where
  "guardedWorld = snd (bindM (putRestoreEpoch (memW True) oldEpoch) (\<lambda>_. putGlobalConfig (memW True) guardedConfig) emptyMem)"

definition releaseGuard :: fieldData where
  "releaseGuard = \<lparr> fd_Raw = [(''restore_guard'', JBool False)], fd_Values = [(''restore_guard'', JBool False)],
     fd_Schema = [''restore_guard''] \<rparr>"

lemma assocWF_sample: "assocWF sampleAssociation"
  by code_simp

lemma sampleAssociation_fields [simp]: "as_ID sampleAssociation = ''assoc-1''" "as_Path sampleAssociation = ''app/db''"
  by (simp_all add: sampleAssociation_def)

lemma assoc_inv_empty [simp]: "assoc_inv sha (\<lambda>_. None)"
  by (simp add: assoc_inv_def assocs_def)

lemma assocs_empty [simp]: "assocs (\<lambda>_. None) = (\<lambda>_. None)"
  by (simp add: assocs_def fun_eq_iff)

lemma sampleAssociations_table:
  "assoc_inv memSha256 (memContents sampleAssociations) \<and>
   assocs (memContents sampleAssociations) = [(''app/db'', ''assoc-1'') \<mapsto> sampleAssociation]"
proof -
  let ?new = "[(''app/db'', ''assoc-1'') \<mapsto> normalizeAssociationDefaults sampleAssociation]"
  have n: "normalizeAssociationDefaults sampleAssociation = sampleAssociation"
    by (simp add: normalizeAssociationDefaults_def sampleAssociation_def)
  have law: "wp (putAssociation (memW False) sampleAssociation)
      (\<lambda>_ w. assoc_inv memSha256 (memContents w) \<and> assocs (memContents w) = ?new) (\<lambda>_ _. True) emptyMem"
    by (rule wp_mono [OF mem.associations.put_law]) (use assocWF_sample in auto)
  have "fst (putAssociation (memW False) sampleAssociation emptyMem) = Inr ()"
    unfolding fst_def by code_simp
  then show ?thesis
    using law n by (simp add: wp_def sampleAssociations_def split: prod.splits)
qed

lemma guardedConfig_valid: "validConfig guardedConfig"
  using valid_default by (simp add: guardedConfig_def validConfig_def)

lemma memContents_guardedWorld:
  "memContents guardedWorld = [restoreEpochKey \<mapsto> EEpoch oldEpoch, configPath \<mapsto> EConfig (storedConfig guardedConfig)]"
  by (simp add: guardedWorld_def putGlobalConfig_def putRestoreEpoch_def bindM_def memW_def memPut_def memOp_def emptyMem_def
      memContents_def fun_eq_iff)

lemma configOf_guardedWorld: "configOf (memContents guardedWorld) = Inr guardedConfig"
  unfolding memContents_guardedWorld by (simp only: configOf_stored [OF guardedConfig_valid])

lemma oldEpoch_not_drawn: "re_Epoch oldEpoch \<notin> drawnIDs (memW True) ''epoch''"
  by (auto simp: drawnIDs_def newRuntimeID_def bindM_def retM_def memW_def memRand_def oldEpoch_def length_hexEncode
      dest!: arg_cong [of _ _ length])

section \<open>Configuration\<close>

text \<open>C7 On storage with transactions a write of the configuration is all or nothing. A request that
  is refused changes nothing; one that succeeds stores a valid configuration; one that ends with an
  error has done one or the other. Whenever the write releases the restore guard, a new restore epoch is
  committed in the same step: its identifier was drawn from the generator and its time is that of
  the new configuration, so that the epoch stored before is gone as long as the generator does not draw its
  identifier again. Otherwise the epoch is left alone. No failure leaves the guard released under the old epoch.\<close>

theorem configWrite_atomic:
  assumes "transactional_storage W contents" and "configOf (contents w) = Inr old"
  shows "wp (pathConfigWrite W d)
    (\<lambda>r w'. if r = NilResponse then configCommitted W old (contents w) (contents w') else contents w' = contents w)
    (\<lambda>_ w'. contents w' = contents w \<or> configCommitted W old (contents w) (contents w')) w"
  using assms by (rule transactional_storage.wp_pathConfigWrite_tx)

theorem configWrite_atomic_witness:
  "wp (pathConfigWrite (memW True) releaseGuard)
    (\<lambda>r w'. if r = NilResponse then configCommitted (memW True) guardedConfig (memContents guardedWorld) (memContents w')
       else memContents w' = memContents guardedWorld)
    (\<lambda>_ w'. memContents w' = memContents guardedWorld \<or>
       configCommitted (memW True) guardedConfig (memContents guardedWorld) (memContents w')) guardedWorld \<and>
   memContents guardedWorld restoreEpochKey = Some (EEpoch oldEpoch) \<and>
   re_Epoch oldEpoch \<notin> drawnIDs (memW True) ''epoch''"
  by (intro conjI configWrite_atomic [OF mem_tx.transactional_storage_axioms configOf_guardedWorld] oldEpoch_not_drawn)
    (simp add: memContents_guardedWorld restoreEpochKey_def configPath_def)

text \<open>The checks on a configuration: two postures, three repair modes, an interval of at least a minute (in
  nanoseconds), and the bounds of the counters.\<close>

definition configChecks :: "globalConfig \<Rightarrow> bool" where
  "configChecks cfg \<longleftrightarrow> gc_SecurityPosture cfg \<in> {''standard'', ''hardened''} \<and>
     0 \<le> gc_QueueCapacity cfg \<and> gc_DriftRepair cfg \<in> {''off'', ''detect'', ''repair''} \<and>
     (\<exists>d. parseDuration (gc_DriftReconcileInterval cfg) = Some d \<and> 60 * 10 ^ 9 \<le> d) \<and>
     1 \<le> gc_DriftReconcileBatch cfg \<and> 1 \<le> gc_EventDispatchMaxOperations cfg"

lemma parse_minDriftInterval: "parseDuration minDriftInterval = Some 60000000000"
  by code_simp

lemma validConfig_iff: "validConfig cfg \<longleftrightarrow> configChecks cfg"
  by (auto simp: validConfig_def configChecks_def validateSecurityPosture_def validateDriftRepairMode_def
      validateDriftReconcileInterval_def parse_minDriftInterval securityPostureStandard_def securityPostureHardened_def
      driftRepairOff_def driftRepairDetect_def driftRepairRepair_def split: option.splits if_splits)

text \<open>C37 The stored configuration can be trusted: decoding an entry, with its defaults for absent
  fields, gives exactly the configurations that pass every check, written out with the values of the code; and
  exactly these are given back unchanged by encoding and decoding, without asking for an upgrade.\<close>

theorem config_roundtrip:
  "(\<exists>s b. decodeGlobalConfig s = Inr (cfg, b)) = configChecks cfg \<and>
   (decodeGlobalConfig (storedConfig cfg) = Inr (cfg, False)) = configChecks cfg"
  unfolding validConfig_iff [symmetric] using decode_stored decode_valid by blast

theorem config_roundtrip_witness:
  "decodeGlobalConfig (storedConfig guardedConfig) = Inr (guardedConfig, False) \<and>
   (\<nexists>s b. decodeGlobalConfig s = Inr (guardedConfig \<lparr> gc_QueueCapacity := - 1 \<rparr>, b))"
proof
  show "decodeGlobalConfig (storedConfig guardedConfig) = Inr (guardedConfig, False)"
    using config_roundtrip [of guardedConfig] guardedConfig_valid validConfig_iff by blast
  have "\<not> configChecks (guardedConfig \<lparr> gc_QueueCapacity := - 1 \<rparr>)" by (simp add: configChecks_def)
  then show "\<nexists>s b. decodeGlobalConfig s = Inr (guardedConfig \<lparr> gc_QueueCapacity := - 1 \<rparr>, b)"
    using config_roundtrip by blast
qed

section \<open>Associations\<close>

text \<open>C12 Writing an association updates the table of associations at one point, whichever storage
  calls fail, and keeps the invariant that every association has its destination and name index
  entries; nothing but association keys is touched.\<close>

theorem putAssociation_atomic:
  assumes "bao_storage W contents" and "assoc_inv (w_Sha256 W) (contents w)" and "assocWF r"
    and "\<And>q. q \<noteq> as_Path r \<Longrightarrow> assocs (contents w) (q, as_ID r) = None"
  shows "wp (putAssociation W r)
    (\<lambda>_ w'. assoc_inv (w_Sha256 W) (contents w') \<and> only_assocs (contents w) (contents w') \<and>
       assocs (contents w') = (assocs (contents w))((as_Path r, as_ID r) \<mapsto> normalizeAssociationDefaults r))
    (\<lambda>_ w'. assoc_inv (w_Sha256 W) (contents w') \<and> only_assocs (contents w) (contents w') \<and>
       (assocs (contents w') = assocs (contents w) \<or>
        assocs (contents w') = (assocs (contents w))((as_Path r, as_ID r) \<mapsto> normalizeAssociationDefaults r))) w"
  by (rule bao_storage.association_put [OF assms(1)]) (use assms in auto)


theorem putAssociation_atomic_witness:
  "wp (putAssociation (memW False) sampleAssociation)
    (\<lambda>_ w'. assoc_inv memSha256 (memContents w') \<and> only_assocs (memContents emptyMem) (memContents w') \<and>
       assocs (memContents w') = (assocs (memContents emptyMem))
         ((''app/db'', ''assoc-1'') \<mapsto> normalizeAssociationDefaults sampleAssociation))
    (\<lambda>_ w'. assoc_inv memSha256 (memContents w') \<and> only_assocs (memContents emptyMem) (memContents w') \<and>
       (assocs (memContents w') = assocs (memContents emptyMem) \<or>
        assocs (memContents w') = (assocs (memContents emptyMem))
         ((''app/db'', ''assoc-1'') \<mapsto> normalizeAssociationDefaults sampleAssociation))) emptyMem"
  using putAssociation_atomic [OF mem.bao_storage_axioms [of False], of emptyMem sampleAssociation] assocWF_sample
  by simp

text \<open>Deleting an association is atomic in the same sense: its record goes first, so that no reader
  finds a deleted association through an index entry that a failure left behind.\<close>

theorem deleteAssociation_atomic:
  assumes "bao_storage W contents" and "assoc_inv (w_Sha256 W) (contents w)" and "assocWF r"
    and "\<And>q. q \<noteq> as_Path r \<Longrightarrow> assocs (contents w) (q, as_ID r) = None"
  shows "wp (deleteAssociation W r)
    (\<lambda>_ w'. assoc_inv (w_Sha256 W) (contents w') \<and> only_assocs (contents w) (contents w') \<and>
       assocs (contents w') = (assocs (contents w))((as_Path r, as_ID r) := None))
    (\<lambda>_ w'. assoc_inv (w_Sha256 W) (contents w') \<and> only_assocs (contents w) (contents w') \<and>
       (assocs (contents w') = assocs (contents w) \<or>
        assocs (contents w') = (assocs (contents w))((as_Path r, as_ID r) := None))) w"
  by (rule bao_storage.association_del [OF assms(1)]) (use assms in auto)

theorem deleteAssociation_atomic_witness:
  "wp (deleteAssociation (memW False) sampleAssociation)
    (\<lambda>_ w'. assoc_inv memSha256 (memContents w') \<and> only_assocs (memContents sampleAssociations) (memContents w') \<and>
       assocs (memContents w') = (assocs (memContents sampleAssociations))((''app/db'', ''assoc-1'') := None))
    (\<lambda>_ w'. assoc_inv memSha256 (memContents w') \<and> only_assocs (memContents sampleAssociations) (memContents w') \<and>
       (assocs (memContents w') = assocs (memContents sampleAssociations) \<or>
        assocs (memContents w') = (assocs (memContents sampleAssociations))((''app/db'', ''assoc-1'') := None)))
    sampleAssociations"
  using deleteAssociation_atomic [OF mem.bao_storage_axioms [of False], of sampleAssociations sampleAssociation]
    assocWF_sample sampleAssociations_table
  by simp

text \<open>C29 The lookup that guards resolved names is exact: it returns, without repetition, the ids of
  precisely the associations of the destination that reserve the name, although the index it scans
  may hold entries of deleted or renamed associations.\<close>

theorem nameReservations_exact:
  assumes "bao_storage W contents" and "assoc_inv (w_Sha256 W) (contents w)"
  shows "wp (listAssociationNameReservationIDs W d n)
    (\<lambda>ids w'. contents w' = contents w \<and> distinct ids \<and>
       set ids = {i. \<exists>p r. assocs (contents w) (p, i) = Some r \<and> as_DestinationRef r = d \<and>
                    n \<in> set (reservationNames r)})
    (\<lambda>_ w'. contents w' = contents w) w"
  by (rule bao_storage.wp_listAssociationNameReservationIDs [OF assms]) (simp_all add: idsWhere_def)

theorem nameReservations_exact_witness:
  "wp (listAssociationNameReservationIDs (memW False) ''fake/one'' ''app/db'')
    (\<lambda>ids w'. memContents w' = memContents sampleAssociations \<and> distinct ids \<and>
       set ids = {i. \<exists>p r. assocs (memContents sampleAssociations) (p, i) = Some r \<and>
                    as_DestinationRef r = ''fake/one'' \<and> ''app/db'' \<in> set (reservationNames r)})
    (\<lambda>_ w'. memContents w' = memContents sampleAssociations) sampleAssociations \<and>
   fst (listAssociationNameReservationIDs (memW False) ''fake/one'' ''app/db'' sampleAssociations) = Inr [''assoc-1'']"
proof
  show "fst (listAssociationNameReservationIDs (memW False) ''fake/one'' ''app/db'' sampleAssociations) =
      Inr [''assoc-1'']"
    unfolding fst_def by code_simp
qed (rule nameReservations_exact [OF mem.bao_storage_axioms]; simp add: sampleAssociations_table)

section \<open>Destination policy\<close>

definition underPrefix :: "string \<Rightarrow> string \<Rightarrow> bool" where
  "underPrefix p s \<longleftrightarrow> (\<exists>rest. s = p @ rest \<and> (rest = [] \<or> hd rest = slash))"

lemma underPrefix_iff: "underPrefix p s \<longleftrightarrow> s = p \<or> prefix (p @ ''/'') s"
proof
  assume "underPrefix p s"
  then obtain rest where "s = p @ rest" "rest = [] \<or> hd rest = slash" by (auto simp: underPrefix_def)
  then show "s = p \<or> prefix (p @ ''/'') s" by (cases rest) auto
qed (auto simp: underPrefix_def prefix_def)

text \<open>C30 An accepted association stays inside its destination's delegation: the source path is under
  an allowed prefix, and every object the association writes, not only the association as a whole,
  has a resolved name under an allowed prefix. Prefixes end at a path segment, so that allowing
  \<open>app\<close> does not allow \<open>apple\<close>, and a name prefix of slashes only allows nothing.\<close>

theorem destinationPolicy_enforced:
  assumes "validateAssociationDestinationPolicy W d r data cfg = Inr ()"
  shows "\<exists>ids. associationObjectIDs W r data = Inr ids \<and>
    (\<forall>i \<in> set ids. \<exists>n. associationResolvedNameForObject r i = Inr n \<and>
       (ds_AllowedResolvedNamePrefixes d = [] \<or>
        (\<exists>p \<in> set (ds_AllowedResolvedNamePrefixes d).
           trimRight slash p \<noteq> [] \<and> underPrefix (trimRight slash p) (trimLeft slash n)))) \<and>
    (ds_AllowedSourcePathPrefixes d = [] \<or>
     (\<exists>p \<in> set (ds_AllowedSourcePathPrefixes d). underPrefix p (as_Path r)))"
proof -
  have n: "resolvedNameAllowed n ps \<longleftrightarrow> ps = [] \<or>
      (\<exists>p \<in> set ps. trimRight slash p \<noteq> [] \<and> underPrefix (trimRight slash p) (trimLeft slash n))" for n ps
    by (auto simp: resolvedNameAllowed_def underPrefix_iff Let_def)
  have s: "sourcePathAllowed n ps \<longleftrightarrow> ps = [] \<or> (\<exists>p \<in> set ps. underPrefix p n)" for n ps
    by (auto simp: sourcePathAllowed_def underPrefix_iff)
  show ?thesis using policy_covers_objects [OF assms] unfolding n s by blast
qed

theorem destinationPolicy_enforced_witness:
  "\<exists>ids. associationObjectIDs (memW False) sampleAssociation [] = Inr ids \<and>
    (\<forall>i \<in> set ids. \<exists>n. associationResolvedNameForObject sampleAssociation i = Inr n \<and>
       (ds_AllowedResolvedNamePrefixes sampleDestination = [] \<or>
        (\<exists>p \<in> set (ds_AllowedResolvedNamePrefixes sampleDestination).
           trimRight slash p \<noteq> [] \<and> underPrefix (trimRight slash p) (trimLeft slash n)))) \<and>
    (ds_AllowedSourcePathPrefixes sampleDestination = [] \<or>
     (\<exists>p \<in> set (ds_AllowedSourcePathPrefixes sampleDestination). underPrefix p (as_Path sampleAssociation)))"
  by (rule destinationPolicy_enforced [where cfg = defaultGlobalConfig]) code_simp

end
