(* ===== verification/Retry.thy ===== *)
theory Retry
  imports Diagnostics "HOL-Library.Word"
begin

text \<open>
  The failure policy of the dispatcher (\<open>internal/backend/dispatcher.go\<close>, \<open>internal/providers/transport_error.go\<close>):
  the class of a provider error, the status a class leads to, which failures are retried, and after
  what delay. Durations and hashes are 64-bit; \<open>wrap64\<close> is the result of an operation on them.
\<close>

section \<open>Error classes\<close>

fun isDeadlineExceeded :: "gerr \<Rightarrow> bool" where
  "isDeadlineExceeded (ErrContext s) = (s = ''context deadline exceeded'')"
| "isDeadlineExceeded (ErrWrapped _ e) = isDeadlineExceeded e"
| "isDeadlineExceeded (ErrJoin a b) = (isDeadlineExceeded a \<or> isDeadlineExceeded b)"
| "isDeadlineExceeded _ = False"

fun isContextCanceled :: "gerr \<Rightarrow> bool" where
  "isContextCanceled (ErrContext s) = (s = ''context canceled'')"
| "isContextCanceled (ErrWrapped _ e) = isContextCanceled e"
| "isContextCanceled (ErrJoin a b) = (isContextCanceled a \<or> isContextCanceled b)"
| "isContextCanceled _ = False"

fun isTransportError :: "gerr \<Rightarrow> bool" where
  "isTransportError (ErrTransport _) = True"
| "isTransportError (ErrWrapped _ e) = isTransportError e"
| "isTransportError (ErrJoin a b) = (isTransportError a \<or> isTransportError b)"
| "isTransportError _ = False"

text \<open>The first provider error in the tree of wrapped errors.\<close>

fun asProviderError :: "gerr \<Rightarrow> string option" where
  "asProviderError (ErrProvider c) = Some c"
| "asProviderError (ErrWrapped _ e) = asProviderError e"
| "asProviderError (ErrJoin a b) = (case asProviderError a of Some c \<Rightarrow> Some c | None \<Rightarrow> asProviderError b)"
| "asProviderError _ = None"

definition ClassifyTransportError :: "gerr \<Rightarrow> string option" where
  "ClassifyTransportError e =
     (if isDeadlineExceeded e then Some ErrorClassUnavailable
      else if isTransportError e then Some ErrorClassUnavailable
      else None)"

definition providerErrorClass :: "gerr \<Rightarrow> string" where
  "providerErrorClass e =
     (case asProviderError e of
        Some c \<Rightarrow>
          if c \<noteq> [] then c
          else (case ClassifyTransportError e of Some t \<Rightarrow> t | None \<Rightarrow> ErrorClassInternal)
      | None \<Rightarrow> (case ClassifyTransportError e of Some t \<Rightarrow> t | None \<Rightarrow> ErrorClassInternal))"

definition syncStateForFailureClass :: "string \<Rightarrow> string" where
  "syncStateForFailureClass c =
     (if c = ErrorClassAuthn then SyncStateDestinationAuthError
      else if c = ErrorClassAuthz then SyncStateDestinationPolicyError
      else if c = ErrorClassRateLimit then SyncStateDestinationRateLimited
      else if c = ErrorClassUnavailable then SyncStateDestinationUnavailable
      else if c = ErrorClassOwnership then SyncStateRemoteOwnershipLost
      else if c = ErrorClassCollision then SyncStateRemoteConflict
      else if c = ErrorClassDrift then SyncStateDrifted
      else if c = ErrorClassValidation then SyncStateValidationError
      else if c = ErrorClassCapacity then SyncStateQueueBlocked
      else SyncStateInternalError)"

section \<open>The retry schedule\<close>

definition maxAutomaticRetryAttempts :: int where "maxAutomaticRetryAttempts = 3"
definition retryBaseDelay :: duration where "retryBaseDelay = 30 * second"
definition retryJitterDivisor :: int where "retryJitterDivisor = 5"
definition retryMaxDelay :: duration where "retryMaxDelay = 5 * minute"

definition wrap64 :: "int \<Rightarrow> int" where "wrap64 i = signed_take_bit 63 i"

definition goDiv :: "int \<Rightarrow> int \<Rightarrow> int" where
  "goDiv a b = sgn a * sgn b * (\<bar>a\<bar> div \<bar>b\<bar>)"

definition goRem :: "int \<Rightarrow> int \<Rightarrow> int" where
  "goRem a b = sgn a * (\<bar>a\<bar> mod \<bar>b\<bar>)"

definition shouldRetryAutomatically :: "string \<Rightarrow> int \<Rightarrow> bool" where
  "shouldRetryAutomatically errorClass attempts =
     (if maxAutomaticRetryAttempts \<le> attempts then False
      else errorClass = ErrorClassRateLimit \<or> errorClass = ErrorClassUnavailable)"

definition retryBaseDelayForAttempts :: "int \<Rightarrow> duration" where
  "retryBaseDelayForAttempts attempts =
     (if attempts \<le> 1 then retryBaseDelay
      else let delay = wrap64 (push_bit (nat (attempts - 1)) retryBaseDelay)
           in if retryMaxDelay < delay then retryMaxDelay else delay)"

definition hashStep :: "int \<Rightarrow> int \<Rightarrow> char \<Rightarrow> int" where
  "hashStep slots hash c = goRem (wrap64 (wrap64 (hash * 31) + of_char c)) slots"

definition retryJitterSlot :: "string \<Rightarrow> int \<Rightarrow> int \<Rightarrow> int" where
  "retryJitterSlot identity attempts slots =
     (if slots \<le> 1 then 0
      else let hash = foldl (hashStep slots) 17 identity;
               attempt = (if attempts < 0 then wrap64 (- attempts) else attempts)
           in goRem (wrap64 (wrap64 (hash * 31) + attempt)) slots)"

definition retryJitter :: "outboxRecord \<Rightarrow> duration \<Rightarrow> duration" where
  "retryJitter r delay =
     (let maxJitter = goDiv delay retryJitterDivisor;
          maxJitterSeconds = goDiv maxJitter second
      in if maxJitterSeconds \<le> 0 then 0
         else let identity = (if ob_ID r = []
                     then ob_Path r @ [CHR 0x00] @ ob_AssociationID r @ [CHR 0x00] @ ob_ObjectID r @
                          [CHR 0x00] @ ob_DestinationRef r
                     else ob_ID r)
              in wrap64 (retryJitterSlot identity (ob_Attempts r) (maxJitterSeconds + 1) * second))"

definition retryDelay :: "outboxRecord \<Rightarrow> duration" where
  "retryDelay r =
     (let delay = retryBaseDelayForAttempts (ob_Attempts r)
      in if retryMaxDelay \<le> delay then retryMaxDelay
         else let jitter = retryJitter r delay
              in if retryMaxDelay < wrap64 (delay + jitter) then retryMaxDelay else wrap64 (delay + jitter))"

section \<open>Bounds\<close>

lemma wrap64_id: "inInt64 i \<Longrightarrow> wrap64 i = i"
  unfolding wrap64_def inInt64_def by (intro signed_take_bit_int_eq_self) auto

lemma goRem_bounds: "0 \<le> a \<Longrightarrow> 0 < b \<Longrightarrow> 0 \<le> goRem a b \<and> goRem a b < b"
  by (cases "a = 0") (auto simp: goRem_def sgn_if)

lemma of_char_int: "0 \<le> (of_char c :: int) \<and> (of_char c :: int) < 256"
  using of_char_bound [of c] of_nat_of_char [of c, where 'a = int] by linarith

lemma hash_bounds:
  assumes "0 \<le> h" "h \<le> 1000" "1 < slots" "slots \<le> 1000"
  shows "0 \<le> hashStep slots h c \<and> hashStep slots h c < slots"
proof -
  have "inInt64 (h * 31)" and "inInt64 (h * 31 + of_char c)"
    using assms of_char_int [of c] by (simp_all add: inInt64_def)
  then have "hashStep slots h c = goRem (h * 31 + of_char c) slots"
    by (simp add: hashStep_def wrap64_id)
  then show ?thesis
    using goRem_bounds [of "h * 31 + of_char c" slots] assms of_char_int [of c] by simp
qed

lemma hash_fold_bounds:
  assumes "1 < slots" "slots \<le> 1000" "0 \<le> h" "h \<le> 1000"
  shows "0 \<le> foldl (hashStep slots) h s \<and> foldl (hashStep slots) h s \<le> 1000"
  using assms(3,4)
proof (induction s arbitrary: h)
  case (Cons c s)
  then show ?case using hash_bounds [of h slots c] assms(1,2) by simp
qed simp

lemma retryJitterSlot_bounds:
  assumes "slots \<le> 1000" "0 < slots" "\<bar>attempts\<bar> \<le> 1000"
  shows "0 \<le> retryJitterSlot identity attempts slots \<and> retryJitterSlot identity attempts slots < slots"
proof (cases "slots \<le> 1")
  case False
  define h where "h = foldl (hashStep slots) 17 identity"
  have h: "0 \<le> h" "h \<le> 1000" using hash_fold_bounds [of slots 17 identity] assms False by (auto simp: h_def)
  have "inInt64 (h * 31)" "inInt64 (h * 31 + \<bar>attempts\<bar>)" "inInt64 (- attempts)"
    using h assms by (auto simp: inInt64_def)
  then have "retryJitterSlot identity attempts slots = goRem (h * 31 + \<bar>attempts\<bar>) slots"
    using False by (cases "attempts < 0") (simp_all add: retryJitterSlot_def Let_def wrap64_id flip: h_def)
  then show ?thesis using goRem_bounds [of "h * 31 + \<bar>attempts\<bar>" slots] h assms by simp
qed (use assms in \<open>simp add: retryJitterSlot_def\<close>)

lemma goDiv_pos: "0 \<le> a \<Longrightarrow> 0 < b \<Longrightarrow> goDiv a b = a div b"
  by (auto simp: goDiv_def sgn_if)

lemma retryJitter_bounds:
  assumes "0 \<le> delay" "delay \<le> retryMaxDelay" "\<bar>ob_Attempts r\<bar> \<le> 1000"
  shows "0 \<le> retryJitter r delay \<and> retryJitter r delay * 5 \<le> delay \<and> second dvd retryJitter r delay"
proof -
  define s where "s = delay div 5 div second"
  have s: "0 \<le> s" "s \<le> 60" "s * second * 5 \<le> delay"
    using assms by (auto simp: s_def retryMaxDelay_def minute_def second_def)
  have eq: "goDiv (goDiv delay retryJitterDivisor) second = s"
    using assms by (simp add: goDiv_pos retryJitterDivisor_def s_def second_def pos_imp_zdiv_nonneg_iff)
  show ?thesis
  proof (cases "s \<le> 0")
    case False
    obtain identity where i: "retryJitter r delay =
        wrap64 (retryJitterSlot identity (ob_Attempts r) (s + 1) * second)"
      using False by (simp add: retryJitter_def Let_def eq)
    have b: "0 \<le> retryJitterSlot identity (ob_Attempts r) (s + 1)"
      "retryJitterSlot identity (ob_Attempts r) (s + 1) \<le> s"
      using retryJitterSlot_bounds [of "s + 1" "ob_Attempts r" identity] s assms(3) False by auto
    have m: "retryJitterSlot identity (ob_Attempts r) (s + 1) * second \<le> s * second"
      using b by (intro mult_right_mono) (auto simp: second_def)
    have "inInt64 (retryJitterSlot identity (ob_Attempts r) (s + 1) * second)"
      using b s by (auto simp: inInt64_def second_def)
    then show ?thesis using i m b s by (auto simp: wrap64_id second_def)
  qed (use assms in \<open>simp add: retryJitter_def Let_def eq\<close>)
qed

text \<open>The base delay doubles with each attempt up to the maximum; from attempt 30 on the shift would
  overflow, which three automatic attempts never reach.\<close>

lemma retryBaseDelay_formula:
  assumes "1 \<le> n" "n \<le> 29"
  shows "retryBaseDelayForAttempts n = min (30 * second * 2 ^ nat (n - 1)) retryMaxDelay"
proof -
  have "(2 :: int) ^ nat (n - 1) \<le> 2 ^ 28" using assms by (intro power_increasing) auto
  then have "30 * second * 2 ^ nat (n - 1) \<le> 30 * second * 2 ^ 28"
    by (intro mult_left_mono) (simp_all add: second_def)
  moreover have "30 * second * 2 ^ 28 < 2 ^ 63" by (simp add: second_def)
  moreover have "0 \<le> 30 * second * 2 ^ nat (n - 1)" by (simp add: second_def)
  ultimately have "inInt64 (30 * second * 2 ^ nat (n - 1))"
    unfolding inInt64_def by linarith
  then show ?thesis
    using assms by (auto simp: retryBaseDelayForAttempts_def retryBaseDelay_def push_bit_eq_mult wrap64_id
        Let_def retryMaxDelay_def minute_def second_def min_def)
qed

lemma retryDelay_within:
  assumes "1 \<le> ob_Attempts r" "ob_Attempts r \<le> 29"
  defines "base \<equiv> min (30 * second * 2 ^ nat (ob_Attempts r - 1)) retryMaxDelay"
  shows "base \<le> retryDelay r" and "retryDelay r \<le> retryMaxDelay" and "5 * retryDelay r \<le> 6 * base"
    and "second dvd retryDelay r"
proof -
  have b: "retryBaseDelayForAttempts (ob_Attempts r) = base"
    using assms by (simp add: retryBaseDelay_formula)
  have one: "(1 :: int) \<le> 2 ^ nat (ob_Attempts r - 1)" by simp
  have p: "30 * second \<le> base" "base \<le> retryMaxDelay"
    using one by (auto simp: base_def min_def retryMaxDelay_def minute_def second_def)
  have d: "second dvd base"
    by (auto simp: base_def min_def retryMaxDelay_def minute_def)
  have j: "0 \<le> retryJitter r base" "retryJitter r base * 5 \<le> base" "second dvd retryJitter r base"
    using retryJitter_bounds [of base r] p assms by (auto simp: second_def)
  have w: "wrap64 (base + retryJitter r base) = base + retryJitter r base"
    using j p by (intro wrap64_id) (auto simp: inInt64_def retryMaxDelay_def minute_def second_def)
  have m: "second dvd retryMaxDelay" by (simp add: retryMaxDelay_def minute_def)
  have eq: "retryDelay r = (if retryMaxDelay \<le> base then retryMaxDelay
      else if retryMaxDelay < base + retryJitter r base then retryMaxDelay else base + retryJitter r base)"
    by (simp add: retryDelay_def b Let_def w)
  show "base \<le> retryDelay r" "retryDelay r \<le> retryMaxDelay" "5 * retryDelay r \<le> 6 * base"
    using p j unfolding eq by (simp_all split: if_splits)
  show "second dvd retryDelay r"
    using d j(3) m unfolding eq by (simp add: dvd_add)
qed

end
