(* ===== verification/Enqueue.thy ===== *)
theory Enqueue
  imports Config Storage_Association Diagnostics
begin

text \<open>
  Enqueueing sync work (\<open>internal/backend/enqueue.go\<close>, \<open>association_enqueue.go\<close>,
  \<open>storage_transactions.go\<close>) and completing it after a crash (\<open>recovery.go\<close>). A mutation that
  enqueues work first stores an intent that names the operations, then commits, puts the operations
  into the queue and deletes the intent; recovery redoes the last steps of every intent it finds.
\<close>

section \<open>Operations of an association\<close>

record associationOutboxOptions =
  ao_operationType :: string
  ao_trigger :: string
  ao_salt :: string
  ao_requireDeleteMode :: bool

definition operationIdempotencyKey :: "string \<Rightarrow> string \<Rightarrow> int \<Rightarrow> string \<Rightarrow> string \<Rightarrow> string \<Rightarrow> string" where
  "operationIdempotencyKey generation path version associationID objectID operationType =
     generation @ '':'' @ path @ '':'' @ itoa version @ '':'' @ associationID @ '':'' @ objectID @ '':'' @ operationType"

definition newAssociationOutboxRecord ::
    "'w world \<Rightarrow> associationRecord \<Rightarrow> string \<Rightarrow> int \<Rightarrow> string \<Rightarrow> string \<Rightarrow> associationOutboxOptions \<Rightarrow> outboxRecord" where
  "newAssociationOutboxRecord W a generation version objectID now opts =
     (let i = newOperationID (w_Sha256 W) generation (as_Path a) version (as_ID a) objectID (ao_operationType opts);
          i = (if ao_salt opts \<noteq> []
               then newOperationIDWithSalt (w_Sha256 W) generation (as_Path a) version (as_ID a) objectID
                      (ao_operationType opts) (ao_salt opts)
               else i);
          key = operationIdempotencyKey generation (as_Path a) version (as_ID a) objectID (ao_operationType opts);
          key = (if ao_salt opts \<noteq> [] then key @ '':'' @ ao_salt opts else key)
      in zeroOutboxRecord \<lparr> ob_ID := i, ob_Type := ao_operationType opts, ob_Path := as_Path a,
           ob_Version := version, ob_AssociationID := as_ID a, ob_ObjectID := objectID,
           ob_DestinationRef := as_DestinationRef a, ob_State := outboxStatePending, ob_NotBefore := now,
           ob_CreatedTime := now, ob_UpdatedTime := now, ob_IdempotencyKey := key,
           ob_Trigger := ao_trigger opts \<rparr>)"

definition newAssociationOutboxRecords ::
    "'w world \<Rightarrow> associationRecord list \<Rightarrow> string \<Rightarrow> int \<Rightarrow> secretPayload \<Rightarrow> string \<Rightarrow> associationOutboxOptions \<Rightarrow>
       gerr + outboxRecord list \<times> string list" where
  "newAssociationOutboxRecords W associations generation version payload now opts =
     foldE (\<lambda>(operations, operationIDs) a.
       if ao_requireDeleteMode opts \<and> normalizedDeleteMode (as_DeleteMode a) \<noteq> deleteModeDelete
       then Inr (operations, operationIDs)
       else bindE (associationObjectIDs W a payload) (\<lambda>objectIDs.
         let new = map (\<lambda>objectID. newAssociationOutboxRecord W a generation version objectID now opts) objectIDs
         in Inr (operations @ new, operationIDs @ map ob_ID new)))
       ([], []) associations"

definition enabledAssociationsForPath :: "'w world \<Rightarrow> string \<Rightarrow> ('w, associationRecord list) io" where
  "enabledAssociationsForPath W path =
     bindM (listAssociationsForPath W path) (\<lambda>records.
       foldM (\<lambda>enabled r.
         if \<not> as_Enabled r then retM enabled
         else bindM (getDestination W (as_DestinationType r) (as_DestinationName r)) (\<lambda>d.
           case d of
             None \<Rightarrow> retM enabled
           | Some dest \<Rightarrow> if ds_Disabled dest then retM enabled else retM (enabled @ [r]))) [] records)"

section \<open>Queue capacity\<close>

definition ensureQueueCapacityAfterReplacement :: "'w world \<Rightarrow> int \<Rightarrow> int \<Rightarrow> ('w, unit) io" where
  "ensureQueueCapacityAfterReplacement W additional replaced =
     (if additional \<le> replaced then retM ()
      else bindM (readGlobalConfig W) (\<lambda>cfg.
        bindM (listQueuedOutboxIDs W) (\<lambda>ids.
          let projectedDepth = int (length ids) - replaced + additional
          in if gc_QueueCapacity cfg < projectedDepth then failM (ErrQueueCapacity (gc_QueueCapacity cfg))
             else retM ())))"

definition ensureQueueCapacityFor :: "'w world \<Rightarrow> int \<Rightarrow> ('w, unit) io" where
  "ensureQueueCapacityFor W additional =
     (if additional = 0 then retM () else ensureQueueCapacityAfterReplacement W additional 0)"

definition additionalQueuedOperationCount :: "'w world \<Rightarrow> outboxRecord list \<Rightarrow> ('w, int) io" where
  "additionalQueuedOperationCount W operations =
     foldM (\<lambda>count operation.
       bindM (getOutbox W (ob_ID operation)) (\<lambda>existing.
         case existing of
           None \<Rightarrow> retM (count + 1)
         | Some e \<Rightarrow> retM (if \<not> isQueuedOutboxState (ob_State e) then count + 1 else count))) 0 operations"

section \<open>Superseded work\<close>

definition outboxObjectKey :: "string \<Rightarrow> string \<Rightarrow> string" where
  "outboxObjectKey associationID objectID = associationID @ CHR 0x00 # objectID"

text \<open>The versions the upserts write, by object, and the source path of the first of them.\<close>

definition upsertTargets :: "outboxRecord list \<Rightarrow> (string \<times> int) list \<times> string" where
  "upsertTargets operations =
     foldl (\<lambda>(targets, path) operation.
       if ob_Type operation \<noteq> OperationTypeUpsert then (targets, path)
       else (AList.update (outboxObjectKey (ob_AssociationID operation) (ob_ObjectID operation))
               (ob_Version operation) targets,
             if path = [] then ob_Path operation else path)) ([], []) operations"

definition staleQueuedUpsertIDsForOperations ::
    "'w world \<Rightarrow> outboxRecord list \<Rightarrow> time \<Rightarrow> ('w, string list) io" where
  "staleQueuedUpsertIDsForOperations W operations now =
     (case upsertTargets operations of (targets, path) \<Rightarrow>
       if targets = [] \<or> path = [] then retM []
       else bindM (listQueuedOutboxIDsForPath W path) (\<lambda>ids.
         foldM (\<lambda>staleIDs i.
           bindM (getOutbox W i) (\<lambda>r.
             case r of
               None \<Rightarrow> retM staleIDs
             | Some rec \<Rightarrow>
                 if ob_Type rec \<noteq> OperationTypeUpsert then retM staleIDs
                 else if isOutboxClaimActive rec now then retM staleIDs
                 else (case map_of targets (outboxObjectKey (ob_AssociationID rec) (ob_ObjectID rec)) of
                         None \<Rightarrow> retM staleIDs
                       | Some targetVersion \<Rightarrow>
                           if targetVersion \<le> ob_Version rec then retM staleIDs
                           else retM (staleIDs @ [ob_ID rec])))) [] ids))"

definition queuedDeleteIDsForUpsertOperations :: "'w world \<Rightarrow> outboxRecord list \<Rightarrow> ('w, string list) io" where
  "queuedDeleteIDsForUpsertOperations W operations =
     (case upsertTargets operations of (targets, path) \<Rightarrow>
       if targets = [] \<or> path = [] then retM []
       else bindM (listQueuedOutboxIDsForPath W path) (\<lambda>ids.
         foldM (\<lambda>matchingIDs i.
           bindM (getOutbox W i) (\<lambda>r.
             case r of
               None \<Rightarrow> retM matchingIDs
             | Some rec \<Rightarrow>
                 if ob_Type rec \<noteq> OperationTypeDelete then retM matchingIDs
                 else (case map_of targets (outboxObjectKey (ob_AssociationID rec) (ob_ObjectID rec)) of
                         None \<Rightarrow> retM matchingIDs
                       | Some targetVersion \<Rightarrow>
                           if ob_Version rec \<noteq> targetVersion then retM matchingIDs
                           else retM (matchingIDs @ [ob_ID rec])))) [] ids))"

section \<open>Intents\<close>

definition enqueueIntentOperations :: "outboxRecord list \<Rightarrow> enqueueIntentOperation list" where
  "enqueueIntentOperations operations =
     map (\<lambda>r. \<lparr> io_ID = ob_ID r, io_Type = ob_Type r, io_AssociationID = ob_AssociationID r,
                io_ObjectID = ob_ObjectID r, io_DestinationRef = ob_DestinationRef r,
                io_NotBefore = ob_NotBefore r, io_IdempotencyKey = ob_IdempotencyKey r,
                io_Trigger = ob_Trigger r \<rparr>) operations"

definition newEnqueueIntentRecord ::
    "string \<Rightarrow> string \<Rightarrow> int \<Rightarrow> outboxRecord list \<Rightarrow> string list \<Rightarrow> string \<Rightarrow> enqueueIntentRecord" where
  "newEnqueueIntentRecord path generation version operations cancelOperationIDs now =
     \<lparr> in_Path = path, in_Generation = generation, in_Version = version,
       in_Operations = enqueueIntentOperations operations,
       in_CancelOperationIDs = uniqueSorted cancelOperationIDs, in_CreatedTime = now, in_UpdatedTime = now \<rparr>"

definition putPendingEnqueueIntent ::
    "'w world \<Rightarrow> string \<Rightarrow> string \<Rightarrow> int \<Rightarrow> outboxRecord list \<Rightarrow> string list \<Rightarrow> string \<Rightarrow> ('w, unit) io" where
  "putPendingEnqueueIntent W path generation version operations cancelOperationIDs now =
     (if operations = [] then retM ()
      else putEnqueueIntent W (newEnqueueIntentRecord path generation version operations cancelOperationIDs now))"

definition putOutboxRecords :: "'w world \<Rightarrow> outboxRecord list \<Rightarrow> ('w, unit) io" where
  "putOutboxRecords W operations = eachM operations (putOutbox W)"

definition completeEnqueueIntent :: "'w world \<Rightarrow> string \<Rightarrow> int \<Rightarrow> outboxRecord list \<Rightarrow> ('w, unit) io" where
  "completeEnqueueIntent W path version operations =
     (if operations = [] then retM () else deleteEnqueueIntent W path version)"

definition syncStateForOperationIDs :: "string list \<Rightarrow> string" where
  "syncStateForOperationIDs ids = (if ids \<noteq> [] then SyncStatePending else SyncStateNoAssociation)"

text \<open>\<open>withEnqueueMutationTransaction\<close>; the process lock it takes without transactions has no part in
  a sequential model.\<close>

definition withEnqueueMutationTransaction :: "'w world \<Rightarrow> ('w, 'a) io \<Rightarrow> ('w, 'a) io" where
  "withEnqueueMutationTransaction W mutation = withTransaction W mutation"

section \<open>Enqueueing the current version\<close>

definition currentVersionRecord :: "'w world \<Rightarrow> string \<Rightarrow> metadataRecord \<Rightarrow> ('w, versionRecord) io" where
  "currentVersionRecord W path m =
     bindM (getVersion W path (md_CurrentVersion m)) (\<lambda>v.
       case v of
         None \<Rightarrow> failM ErrCurrentSourceVersionUnavailable
       | Some r \<Rightarrow> if vr_Destroyed r \<or> vr_DeletionTime r \<noteq> [] then failM ErrCurrentSourceVersionUnavailable
                   else retM r)"

definition currentSourceVersion :: "'w world \<Rightarrow> string \<Rightarrow> ('w, metadataRecord \<times> versionRecord) io" where
  "currentSourceVersion W path =
     bindM (getMetadata W path) (\<lambda>metadata.
       case metadata of
         None \<Rightarrow> failM ErrSourcePathDoesNotExist
       | Some m \<Rightarrow>
           if md_CurrentVersion m = 0 then failM ErrSourcePathDoesNotExist
           else bindM (currentVersionRecord W path m) (\<lambda>v. retM (m, v)))"

fun currentSourceVersionErrorResponse :: "gerr \<Rightarrow> response option" where
  "currentSourceVersionErrorResponse ErrSourcePathDoesNotExist = Some (ErrorResponse ErrSourcePathDoesNotExist)"
| "currentSourceVersionErrorResponse ErrCurrentSourceVersionUnavailable =
     Some (ErrorResponse ErrCurrentSourceVersionUnavailable)"
| "currentSourceVersionErrorResponse _ = None"

text \<open>Work that is queued already keeps its record, with its claim and its retry schedule.\<close>

definition mergeQueuedOperations :: "'w world \<Rightarrow> outboxRecord list \<Rightarrow> ('w, outboxRecord list) io" where
  "mergeQueuedOperations W operations =
     foldM (\<lambda>merged operation.
       bindM (getOutbox W (ob_ID operation)) (\<lambda>existing.
         case existing of
           None \<Rightarrow> retM (merged @ [operation])
         | Some e \<Rightarrow>
             if isQueuedOutboxState (ob_State e) then retM (merged @ [e])
             else retM (merged @ [operation \<lparr> ob_CreatedTime := ob_CreatedTime e,
                                               ob_ClaimAttempt := ob_ClaimAttempt e \<rparr>]))) [] operations"

definition enqueueOperations ::
    "'w world \<Rightarrow> string \<Rightarrow> metadataRecord \<Rightarrow> outboxRecord list \<Rightarrow> string \<Rightarrow> ('w, unit) io" where
  "enqueueOperations W path m operations now =
     bindM (putPendingEnqueueIntent W path (md_Generation m) (md_CurrentVersion m) operations [] now) (\<lambda>_.
     bindM (putOutboxRecords W operations) (\<lambda>_.
       completeEnqueueIntent W path (md_CurrentVersion m) operations))"

definition enqueueAssociationsCurrentVersion ::
    "'w world \<Rightarrow> associationRecord list \<Rightarrow> metadataRecord \<Rightarrow> string \<Rightarrow> ('w, string list) io" where
  "enqueueAssociationsCurrentVersion W records m now =
     (case records of
        [] \<Rightarrow> retM []
      | first # _ \<Rightarrow>
          bindM (currentVersionRecord W (as_Path first) m) (\<lambda>version.
          bindM (liftE (newAssociationOutboxRecords W records (md_Generation m) (md_CurrentVersion m)
                   (vr_Data version) now
                   \<lparr> ao_operationType = OperationTypeUpsert, ao_trigger = outboxTriggerUser, ao_salt = [],
                     ao_requireDeleteMode = False \<rparr>)) (\<lambda>(operations, operationIDs).
          bindM (additionalQueuedOperationCount W operations) (\<lambda>additional.
          bindM (ensureQueueCapacityFor W additional) (\<lambda>_.
          bindM (mergeQueuedOperations W operations) (\<lambda>operations.
          bindM (enqueueOperations W (as_Path first) m operations now) (\<lambda>_.
            retM operationIDs)))))))"

definition enqueueAssociationCurrentVersion ::
    "'w world \<Rightarrow> associationRecord \<Rightarrow> metadataRecord \<Rightarrow> string \<Rightarrow> ('w, string list) io" where
  "enqueueAssociationCurrentVersion W r m now = enqueueAssociationsCurrentVersion W [r] m now"

definition enqueueAssociationCurrentVersionWithSalt ::
    "'w world \<Rightarrow> associationRecord \<Rightarrow> metadataRecord \<Rightarrow> string \<Rightarrow> string \<Rightarrow> bool \<Rightarrow> string \<Rightarrow> ('w, string list) io" where
  "enqueueAssociationCurrentVersionWithSalt W r m now idPrefix dedupe trigger =
     bindM (currentVersionRecord W (as_Path r) m) (\<lambda>version.
     bindM (bestEffortRuntimeID W idPrefix) (\<lambda>salt.
     bindM (liftE (newAssociationOutboxRecords W [r] (md_Generation m) (md_CurrentVersion m) (vr_Data version) now
              \<lparr> ao_operationType = OperationTypeUpsert, ao_trigger = trigger, ao_salt = salt,
                ao_requireDeleteMode = False \<rparr>)) (\<lambda>(operations, operationIDs).
     bindM (if dedupe then hasQueuedUpsertForAssociationVersion W (as_Path r) (as_ID r) (md_CurrentVersion m)
            else retM False) (\<lambda>queued.
       if queued then retM []
       else
         bindM (additionalQueuedOperationCount W operations) (\<lambda>additional.
         bindM (ensureQueueCapacityFor W additional) (\<lambda>_.
         bindM (enqueueOperations W (as_Path r) m operations now) (\<lambda>_.
           retM operationIDs)))))))"

definition enqueueAssociationCurrentVersionAsManualSync ::
    "'w world \<Rightarrow> associationRecord \<Rightarrow> metadataRecord \<Rightarrow> string \<Rightarrow> ('w, string list) io" where
  "enqueueAssociationCurrentVersionAsManualSync W r m now =
     enqueueAssociationCurrentVersionWithSalt W r m now ''manual'' False outboxTriggerUser"

definition enqueueAssociationCurrentVersionAsDriftRepair ::
    "'w world \<Rightarrow> associationRecord \<Rightarrow> metadataRecord \<Rightarrow> string \<Rightarrow> ('w, string list) io" where
  "enqueueAssociationCurrentVersionAsDriftRepair W r m now =
     enqueueAssociationCurrentVersionWithSalt W r m now ''repair'' True outboxTriggerDriftRepair"

definition markAssociationStatusDisabled :: "'w world \<Rightarrow> associationRecord \<Rightarrow> string \<Rightarrow> ('w, unit) io" where
  "markAssociationStatusDisabled W r now =
     bindM (getMetadata W (as_Path r)) (\<lambda>metadata.
       if as_Granularity r = syncGranularitySecretPath
       then bindM (getStatus W (as_Path r) (as_ID r) syncObjectIDSecretPath) (\<lambda>status.
         let st = (case status of
                Some s \<Rightarrow> s
              | None \<Rightarrow> zeroStatusRecord \<lparr> st_Path := as_Path r, st_AssociationID := as_ID r,
                  st_ObjectID := syncObjectIDSecretPath, st_DestinationRef := as_DestinationRef r,
                  st_ResolvedName := as_ResolvedName r \<rparr>);
             st = (case metadata of None \<Rightarrow> st | Some m \<Rightarrow> st \<lparr> st_Version := md_CurrentVersion m \<rparr>)
         in putStatus W (st \<lparr> st_State := SyncStateDisabled, st_UpdatedTime := now \<rparr>))
       else (case metadata of
         None \<Rightarrow> retM ()
       | Some m \<Rightarrow>
           if md_CurrentVersion m = 0 then retM ()
           else bindM (getVersion W (as_Path r) (md_CurrentVersion m)) (\<lambda>version.
             case version of
               None \<Rightarrow> retM ()
             | Some v \<Rightarrow>
                 bindM (liftE (associationObjectIDs W r (vr_Data v))) (\<lambda>objectIDs.
                   eachM objectIDs (\<lambda>objectID.
                     bindM (liftE (associationResolvedNameForObject r objectID)) (\<lambda>resolvedName.
                       putStatus W (zeroStatusRecord \<lparr> st_Path := as_Path r, st_Version := md_CurrentVersion m,
                         st_AssociationID := as_ID r, st_ObjectID := objectID,
                         st_DestinationRef := as_DestinationRef r, st_ResolvedName := resolvedName,
                         st_State := SyncStateDisabled, st_UpdatedTime := now \<rparr>)))))))"

section \<open>Recovery\<close>

definition shouldRecoverIntentOperation :: "string \<Rightarrow> bool \<Rightarrow> bool" where
  "shouldRecoverIntentOperation operationType versionAvailable =
     (if operationType = OperationTypeUpsert then versionAvailable
      else if operationType = OperationTypeDelete then \<not> versionAvailable
      else False)"

definition intentSourceMutationCommitted :: "enqueueIntentRecord \<Rightarrow> bool \<Rightarrow> bool" where
  "intentSourceMutationCommitted intent versionAvailable \<longleftrightarrow>
     (\<exists>operation \<in> set (in_Operations intent). shouldRecoverIntentOperation (io_Type operation) versionAvailable)"

text \<open>Indexing a Go map: the zero value for a key that is not there.\<close>

definition versionMetadataAt :: "metadataRecord \<Rightarrow> string \<Rightarrow> versionMetadata" where
  "versionMetadataAt m k = (case map_of (md_Versions m) k of
      Some v \<Rightarrow> v
    | None \<Rightarrow> \<lparr> vm_CreatedTime = [], vm_DeletionTime = [], vm_Destroyed = False \<rparr>)"

definition recoverIntentSourceMetadata ::
    "'w world \<Rightarrow> enqueueIntentRecord \<Rightarrow> versionRecord \<Rightarrow> ('w, unit) io" where
  "recoverIntentSourceMetadata W intent version =
     bindM (getMetadata W (in_Path intent)) (\<lambda>metadata.
     bindM (case metadata of
              Some m \<Rightarrow> retM m
            | None \<Rightarrow> bindM (newMetadataRecord W) (\<lambda>m. retM (m \<lparr> md_Generation := in_Generation intent \<rparr>))) (\<lambda>m.
       if md_CurrentVersion m < in_Version intent
       then bindM (commitSourceMetadata W (in_Path intent) m (in_Version intent) (vr_CreatedTime version))
              (\<lambda>_. retM ())
       else if md_CurrentVersion m \<noteq> in_Version intent then retM ()
       else
         let versionKey = versionMetadataKey (in_Version intent);
             recovered = \<lparr> vm_CreatedTime = vr_CreatedTime version, vm_DeletionTime = vr_DeletionTime version,
                           vm_Destroyed = vr_Destroyed version \<rparr>
         in if versionMetadataAt m versionKey = recovered then retM ()
            else putMetadata W (in_Path intent) (m \<lparr> md_Versions := AList.update versionKey recovered (md_Versions m),
                   md_UpdatedTime := in_CreatedTime intent \<rparr>)))"

definition outboxRecordsFromIntentOperations ::
    "'w world \<Rightarrow> enqueueIntentRecord \<Rightarrow> string \<Rightarrow> bool \<Rightarrow> ('w, outboxRecord list) io" where
  "outboxRecordsFromIntentOperations W intent now versionAvailable =
     foldM (\<lambda>records operation.
       if \<not> shouldRecoverIntentOperation (io_Type operation) versionAvailable then retM records
       else bindM (getAssociation W (in_Path intent) (io_AssociationID operation)) (\<lambda>association.
         case association of
           None \<Rightarrow> retM records
         | Some _ \<Rightarrow> retM (records @ [zeroOutboxRecord \<lparr> ob_ID := io_ID operation, ob_Type := io_Type operation,
             ob_Path := in_Path intent, ob_Version := in_Version intent,
             ob_AssociationID := io_AssociationID operation, ob_ObjectID := io_ObjectID operation,
             ob_DestinationRef := io_DestinationRef operation, ob_State := outboxStatePending,
             ob_NotBefore := io_NotBefore operation, ob_CreatedTime := in_CreatedTime intent,
             ob_UpdatedTime := now, ob_IdempotencyKey := io_IdempotencyKey operation,
             ob_Trigger := io_Trigger operation \<rparr>]))) [] (in_Operations intent)"

definition recoverableIntentOperations ::
    "'w world \<Rightarrow> enqueueIntentRecord \<Rightarrow> string \<Rightarrow> bool \<Rightarrow> ('w, outboxRecord list) io" where
  "recoverableIntentOperations W intent now versionAvailable =
     outboxRecordsFromIntentOperations W intent now versionAvailable"

definition pruneRecoveredIntent :: "'w world \<Rightarrow> enqueueIntentRecord \<Rightarrow> ('w, unit) io" where
  "pruneRecoveredIntent W intent = deleteEnqueueIntent W (in_Path intent) (in_Version intent)"

definition recoverOperation :: "'w world \<Rightarrow> outboxRecord \<Rightarrow> ('w, unit) io" where
  "recoverOperation W operation =
     bindM (getOutbox W (ob_ID operation)) (\<lambda>existing.
       case existing of
         Some e \<Rightarrow> putOutboxIndexes W e
       | None \<Rightarrow> putOutbox W operation)"

definition recoverEnqueueIntent :: "'w world \<Rightarrow> enqueueIntentRecord \<Rightarrow> string \<Rightarrow> ('w, unit) io" where
  "recoverEnqueueIntent W intent now =
     bindM (getVersion W (in_Path intent) (in_Version intent)) (\<lambda>version.
     let versionAvailable = (case version of
            None \<Rightarrow> False
          | Some v \<Rightarrow> \<not> vr_Destroyed v \<and> vr_DeletionTime v = []);
         committed = intentSourceMutationCommitted intent versionAvailable
     in
     bindM (case version of
              Some v \<Rightarrow> whenM committed (recoverIntentSourceMetadata W intent v)
            | None \<Rightarrow> retM ()) (\<lambda>_.
     bindM (whenM committed (cancelQueuedOutboxIDs W (in_CancelOperationIDs intent))) (\<lambda>_.
     bindM (recoverableIntentOperations W intent now versionAvailable) (\<lambda>operations.
     bindM (eachM operations (recoverOperation W)) (\<lambda>_.
       pruneRecoveredIntent W intent)))))"

definition recoverIncompleteEnqueueIntentsLimit :: "'w world \<Rightarrow> time \<Rightarrow> int \<Rightarrow> ('w, unit) io" where
  "recoverIncompleteEnqueueIntentsLimit W now maxIntents =
     bindM (listEnqueueIntents W) (\<lambda>intents.
     bindM (loopM (\<lambda>recovered intent.
       bindM (recoverEnqueueIntent W intent (formatRFC3339 now)) (\<lambda>_.
         let recovered = recovered + 1
         in retM (if 0 < maxIntents \<and> maxIntents \<le> recovered then Break recovered else Continue recovered)))
       0 intents) (\<lambda>_. retM ()))"

definition recoverIncompleteEnqueueIntents :: "'w world \<Rightarrow> time \<Rightarrow> ('w, unit) io" where
  "recoverIncompleteEnqueueIntents W now = recoverIncompleteEnqueueIntentsLimit W now 0"

end
