(* ===== verification/Data_Write.thy ===== *)
theory Data_Write
  imports Enqueue
begin

text \<open>
  Writing, reading and deleting source versions (\<open>internal/backend/path_data.go\<close>): the payload and the
  check-and-set version of a request, the plan of a write, its commit, and the same for a deletion.
  Version numbers are counted from 1 by the code itself, so the increment is not wrapped.
\<close>

section \<open>Requests\<close>

definition isDataWriteReservedField :: "string \<Rightarrow> bool" where
  "isDataWriteReservedField key \<longleftrightarrow> key \<in> {''path'', ''data'', ''options'', ''cas'', ''version''}"

definition rejectReservedShorthandPayloadFields :: "fieldData \<Rightarrow> gerr + unit" where
  "rejectReservedShorthandPayloadFields d =
     (let reserved = (if map_of (fd_Raw d) ''options'' \<noteq> None then [''options''] else []) @
            (if map_of (fd_Raw d) ''version'' \<noteq> None then [''version''] else []) @
            (case map_of (fd_Raw d) ''path'' of
               None \<Rightarrow> []
             | Some rawPath \<Rightarrow> if rawPath = JString (getString d ''path'') then [] else [''path''])
      in if reserved = [] then Inr ()
         else Inl (Errorf (''reserved data write field %s cannot be used as a shorthand source payload key; '' @
                ''put colliding source keys under data'') [joinStrings '', '' (sort reserved)]))"

definition rejectMixedWrappedPayload :: "(string \<times> goval) list \<Rightarrow> gerr + unit" where
  "rejectMixedWrappedPayload raw =
     (let extra = filter (\<lambda>key. \<not> isDataWriteReservedField key) (map fst raw)
      in if extra = [] then Inr ()
         else Inl (Errorf (''cannot mix wrapped data with top-level source payload fields %s; '' @
                ''put source keys under data or omit data'') [joinStrings '', '' (sort extra)]))"

definition emptyPayloadError :: gerr where
  "emptyPayloadError = Errorf ''data must contain at least one key'' []"

definition secretPayloadFromMap :: "goval \<Rightarrow> gerr + secretPayload" where
  "secretPayloadFromMap raw =
     (case raw of
        JObject payload \<Rightarrow> if payload = [] then Inl emptyPayloadError else Inr payload
      | _ \<Rightarrow> Inl emptyPayloadError)"

definition payloadFromField :: "fieldData \<Rightarrow> gerr + secretPayload" where
  "payloadFromField d =
     (case map_of (fd_Raw d) ''data'' of
        Some rawPayload \<Rightarrow>
          bindE (rejectMixedWrappedPayload (fd_Raw d)) (\<lambda>_. secretPayloadFromMap rawPayload)
      | None \<Rightarrow>
          bindE (rejectReservedShorthandPayloadFields d) (\<lambda>_.
            let payload = filter (\<lambda>(key, _). \<not> isDataWriteReservedField key) (fd_Raw d)
            in if payload = [] then Inl emptyPayloadError else Inr payload))"

text \<open>A \<open>float64\<close> is an integer that \<open>int\<close> holds, or it does not survive the conversion to \<open>int\<close> and
  back. The texts of the two errors leave out the number and its type.\<close>

definition floatInt :: "int \<Rightarrow> int \<Rightarrow> int option" where
  "floatInt m e =
     (if 0 \<le> e then (let v = m * 2 ^ nat e in if inInt64 v then Some v else None)
      else if m mod 2 ^ nat (- e) = 0
      then (let v = m div 2 ^ nat (- e) in if inInt64 v then Some v else None)
      else None)"

definition intFromDynamic :: "goval \<Rightarrow> gerr + int" where
  "intFromDynamic v =
     (case v of
        JInt i \<Rightarrow> Inr i
      | JFloat m e \<Rightarrow>
          (case floatInt m e of Some i \<Rightarrow> Inr i | None \<Rightarrow> Inl (Errorf ''non-integer number'' []))
      | JNumber s \<Rightarrow> atoiE s
      | _ \<Rightarrow> Inl (Errorf ''unsupported type'' []))"

definition casFromAlias :: "fieldData \<Rightarrow> gerr + int option" where
  "casFromAlias d =
     (case getOk d ''cas'' of
        None \<Rightarrow> Inr None
      | Some rawCAS \<Rightarrow>
          (case intFromDynamic rawCAS of
             Inl e \<Rightarrow> Inl (ErrWrapped ''cas must be an integer: %w'' e)
           | Inr cas \<Rightarrow>
               if cas < 0 then Inl (Errorf ''cas must be greater than or equal to zero'' [])
               else Inr (Some cas)))"

definition casFromOptions :: "fieldData \<Rightarrow> gerr + int option" where
  "casFromOptions d =
     bindE (casFromAlias d) (\<lambda>aliasCAS.
       case getOkMap d ''options'' of
         None \<Rightarrow> Inr aliasCAS
       | Some options \<Rightarrow>
           (case map_of options ''cas'' of
              None \<Rightarrow> Inr aliasCAS
            | Some rawCAS \<Rightarrow>
                (case intFromDynamic rawCAS of
                   Inl e \<Rightarrow> Inl (ErrWrapped ''options.cas must be an integer: %w'' e)
                 | Inr cas \<Rightarrow>
                     if cas < 0 then Inl (Errorf ''options.cas must be greater than or equal to zero'' [])
                     else if aliasCAS \<noteq> None \<and> aliasCAS \<noteq> Some cas
                     then Inl (Errorf ''cas and options.cas must match when both are set'' [])
                     else Inr (Some cas))))"

definition checkCAS :: "metadataRecord \<Rightarrow> int option \<Rightarrow> gerr + unit" where
  "checkCAS m casOption =
     (case casOption of
        None \<Rightarrow> if md_CASRequired m then Inl (Errorf ''check-and-set required for this secret'' []) else Inr ()
      | Some cas \<Rightarrow>
          if cas = 0 \<and> md_CurrentVersion m \<noteq> 0
          then Inl (Errorf ''check-and-set failed: secret already exists'' [])
          else if 0 < cas \<and> md_CurrentVersion m \<noteq> cas
          then Inl (Errorf ''check-and-set failed: current version is %d, expected %d''
                 [itoa (md_CurrentVersion m), itoa cas])
          else Inr ())"

section \<open>Eligibility and reservations\<close>

definition validateSourceEligibility :: "metadataRecord option \<Rightarrow> globalConfig \<Rightarrow> gerr + unit" where
  "validateSourceEligibility metadata cfg =
     (if \<not> sourceSyncRequired cfg then Inr ()
      else if metadata = None \<or> \<not> md_SourceSyncEnabled (the metadata)
      then Inl (Errorf (''source path is not eligible for sync: '' @
             ''source sync must be enabled when security_posture=hardened'') [])
      else Inr ())"

definition validateAssociationActivation :: "associationRecord \<Rightarrow> metadataRecord option \<Rightarrow> globalConfig \<Rightarrow> gerr + unit" where
  "validateAssociationActivation r metadata cfg =
     (if \<not> as_Enabled r then Inr () else validateSourceEligibility metadata cfg)"

definition associationWithConcreteReservationNames ::
    "'w world \<Rightarrow> associationRecord \<Rightarrow> secretPayload \<Rightarrow> gerr + associationRecord" where
  "associationWithConcreteReservationNames W r data =
     (if as_Granularity r \<noteq> syncGranularitySecretKey then Inr (r \<lparr> as_ReservationNames := [] \<rparr>)
      else bindE (associationObjectIDs W r data) (\<lambda>objectIDs.
        bindE (foldE (\<lambda>names objectID.
            bindE (associationResolvedNameForObject r objectID) (\<lambda>resolvedName.
              Inr (names @ [resolvedName]))) [] objectIDs) (\<lambda>names.
        Inr (r \<lparr> as_ReservationNames := uniqueSorted names \<rparr>))))"

definition nameReservedError :: "string \<Rightarrow> string \<Rightarrow> gerr" where
  "nameReservedError name dref = Errorf ''resolved_name %q is already reserved for destination %s'' [name, dref]"

definition validateAssociationNameReservations ::
    "'w world \<Rightarrow> string \<Rightarrow> string list \<Rightarrow> string \<Rightarrow> ('w, unit) io" where
  "validateAssociationNameReservations W dref names associationID =
     eachM names (\<lambda>name.
       bindM (listAssociationNameReservationIDs W dref name) (\<lambda>reservations.
         if reservations = [] \<or> reservations = [associationID] then retM ()
         else failM (nameReservedError name dref)))"

text \<open>The associations whose reserved names the payload changes. Any failure here, also one of
  storage, is an error response. \<open>seen\<close> maps a destination and a name to the association that has it.\<close>

definition checkSeenNames ::
    "associationRecord \<Rightarrow> (string \<times> string) list \<Rightarrow> gerr + (string \<times> string) list" where
  "checkSeenNames updated seen =
     foldE (\<lambda>seen name.
       let key = as_DestinationRef updated @ CHR 0x00 # name
       in case map_of seen key of
            Some existingID \<Rightarrow>
              if existingID \<noteq> as_ID updated then Inl (nameReservedError name (as_DestinationRef updated))
              else Inr (AList.update key (as_ID updated) seen)
          | None \<Rightarrow> Inr (AList.update key (as_ID updated) seen)) seen (reservationNames updated)"

definition associationReservationUpdatesForPayload ::
    "'w world \<Rightarrow> associationRecord list \<Rightarrow> secretPayload \<Rightarrow> ('w, associationRecord list) io" where
  "associationReservationUpdatesForPayload W associations payload =
     bindM (foldM (\<lambda>(seen, updates) a.
       bindM (liftE (associationWithConcreteReservationNames W a payload)) (\<lambda>updated.
       bindM (liftE (checkSeenNames updated seen)) (\<lambda>seen.
       bindM (validateAssociationNameReservations W (as_DestinationRef updated) (reservationNames updated)
                (as_ID updated)) (\<lambda>_.
         retM (seen, if as_ReservationNames a = as_ReservationNames updated then updates
                     else updates @ [updated]))))) ([], []) associations) (\<lambda>(_, updates). retM updates)"

section \<open>Writing a version\<close>

record dataWritePlan =
  dp_metadata :: metadataRecord
  dp_nextVersion :: int
  dp_nowTime :: time
  dp_now :: string
  dp_reservationUpdates :: "associationRecord list"
  dp_operations :: "outboxRecord list"
  dp_operationIDs :: "string list"
  dp_syncEligibilityError :: "gerr option"

text \<open>The plan, or the response that refuses the request.\<close>

definition dataWritePlanFromRequest ::
    "'w world \<Rightarrow> string \<Rightarrow> secretPayload \<Rightarrow> fieldData \<Rightarrow> ('w, response + dataWritePlan) io" where
  "dataWritePlanFromRequest W path payload d =
     bindM (getMetadata W path) (\<lambda>stored.
     bindM (case stored of Some m \<Rightarrow> retM m | None \<Rightarrow> newMetadataRecord W) (\<lambda>m.
     case bindE (casFromOptions d) (checkCAS m) of
       Inl e \<Rightarrow> retM (Inl (ErrorResponse e))
     | Inr _ \<Rightarrow>
         bindM (enabledAssociationsForPath W path) (\<lambda>associations.
         bindM (readGlobalConfig W) (\<lambda>cfg.
         let (associations, eligibilityError) = (case validateSourceEligibility (Some m) cfg of
                Inr _ \<Rightarrow> (associations, None)
              | Inl e \<Rightarrow> ([], if associations \<noteq> [] then Some e else None));
             nextVersion = md_CurrentVersion m + 1
         in bindM (nowUTC W) (\<lambda>nowTime.
         bindM (tryM (associationReservationUpdatesForPayload W associations payload)) (\<lambda>updates.
         case updates of
           Inl e \<Rightarrow> retM (Inl (ErrorResponse e))
         | Inr updates \<Rightarrow>
             (case newAssociationOutboxRecords W associations (md_Generation m) nextVersion payload
                     (formatRFC3339 nowTime)
                     \<lparr> ao_operationType = OperationTypeUpsert, ao_trigger = outboxTriggerUser, ao_salt = [],
                       ao_requireDeleteMode = False \<rparr> of
                Inl e \<Rightarrow> retM (Inl (ErrorResponse e))
              | Inr (operations, operationIDs) \<Rightarrow>
                  retM (Inr \<lparr> dp_metadata = m, dp_nextVersion = nextVersion, dp_nowTime = nowTime,
                    dp_now = formatRFC3339 nowTime, dp_reservationUpdates = updates,
                    dp_operations = operations, dp_operationIDs = operationIDs,
                    dp_syncEligibilityError = eligibilityError \<rparr>))))))))"

text \<open>A failure of the capacity check is an error response, whatever it was; \<open>None\<close> is a commit.\<close>

definition commitDataWritePlan ::
    "'w world \<Rightarrow> string \<Rightarrow> secretPayload \<Rightarrow> dataWritePlan \<Rightarrow> string \<Rightarrow> ('w, response option) io" where
  "commitDataWritePlan W path payload plan mount =
     bindM (staleQueuedUpsertIDsForOperations W (dp_operations plan) (dp_nowTime plan)) (\<lambda>staleUpsertIDs.
     bindM (additionalQueuedOperationCount W (dp_operations plan)) (\<lambda>additional.
     bindM (tryM (ensureQueueCapacityAfterReplacement W additional (int (length staleUpsertIDs)))) (\<lambda>room.
     case room of
       Inl e \<Rightarrow> retM (Some (errorResponseForOperationError e mount))
     | Inr _ \<Rightarrow>
         bindM (eachM (dp_reservationUpdates plan) (putAssociation W)) (\<lambda>_.
         bindM (putPendingEnqueueIntent W path (md_Generation (dp_metadata plan)) (dp_nextVersion plan)
                  (dp_operations plan) staleUpsertIDs (dp_now plan)) (\<lambda>_.
         bindM (putSourceVersionRecord W path (dp_nextVersion plan) payload (dp_now plan)) (\<lambda>_.
         bindM (commitSourceMetadata W path (dp_metadata plan) (dp_nextVersion plan) (dp_now plan)) (\<lambda>_.
         bindM (cancelQueuedOutboxIDs W staleUpsertIDs) (\<lambda>_.
         bindM (putOutboxRecords W (dp_operations plan)) (\<lambda>_.
         bindM (completeEnqueueIntent W path (dp_nextVersion plan) (dp_operations plan)) (\<lambda>_.
           retM None))))))))))"

definition dataWriteResponse :: "string \<Rightarrow> string \<Rightarrow> dataWritePlan \<Rightarrow> response" where
  "dataWriteResponse mount path plan =
     (let fields = [(''version'', JInt (dp_nextVersion plan)), (''created_time'', JString (dp_now plan)),
            (''sync_operation_ids'', strings (dp_operationIDs plan))];
          (fields, state) = (case dp_syncEligibilityError plan of
              None \<Rightarrow> (fields, syncStateForOperationIDs (dp_operationIDs plan))
            | Some e \<Rightarrow>
                let diagnostic = validationDiagnostic mount path [] (errorText e);
                    diagnostic = diagnostic \<lparr> dg_Hint :=
                      ''Source version was stored, but sync work was not enqueued. '' @ dg_Hint diagnostic \<rparr>
                in (fields @ diagnosticResponseFields diagnostic, SyncStateValidationError))
      in DataResponse [(''metadata'', JObject (fields @ [(''sync_state'', JString state)]))])"

definition dataWriteMutation ::
    "'w world \<Rightarrow> string \<Rightarrow> string \<Rightarrow> secretPayload \<Rightarrow> fieldData \<Rightarrow> ('w, response + dataWritePlan) io" where
  "dataWriteMutation W mountPoint path payload d =
     bindM (dataWritePlanFromRequest W path payload d) (\<lambda>planned.
       case planned of
         Inl response \<Rightarrow> retM (Inl response)
       | Inr plan \<Rightarrow>
           bindM (commitDataWritePlan W path payload plan (requestMountPath mountPoint)) (\<lambda>response.
             retM (case response of Some r \<Rightarrow> Inl r | None \<Rightarrow> Inr plan)))"

definition pathDataWrite :: "'w world \<Rightarrow> string \<Rightarrow> fieldData \<Rightarrow> ('w, response) io" where
  "pathDataWrite W mountPoint d =
     respondE (normalizeSourcePath (getString d ''path'')) (\<lambda>path.
     respondE (payloadFromField d) (\<lambda>payload.
     bindM (withEnqueueMutationTransaction W (dataWriteMutation W mountPoint path payload d)) (\<lambda>result.
       case result of
         Inl response \<Rightarrow> retM response
       | Inr plan \<Rightarrow>
           bindM (whenM (dp_operations plan \<noteq> []) (signalEventDispatch W)) (\<lambda>_.
             retM (dataWriteResponse (requestMountPath mountPoint) path plan)))))"

section \<open>Reading a version\<close>

definition pathDataRead :: "'w world \<Rightarrow> fieldData \<Rightarrow> ('w, response) io" where
  "pathDataRead W d =
     respondE (normalizeSourcePath (getString d ''path'')) (\<lambda>path.
     bindM (getMetadata W path) (\<lambda>metadata.
       case metadata of
         None \<Rightarrow> retM NilResponse
       | Some m \<Rightarrow>
           if md_CurrentVersion m = 0 then retM NilResponse
           else
             let version = (if getInt d ''version'' = 0 then md_CurrentVersion m else getInt d ''version'')
             in bindM (getVersion W path version) (\<lambda>record.
               case record of
                 None \<Rightarrow> retM NilResponse
               | Some r \<Rightarrow>
                   if vr_Destroyed r \<or> vr_DeletionTime r \<noteq> [] then retM NilResponse
                   else retM (DataResponse [(''data'', JObject (vr_Data r)),
                     (''metadata'', JObject [(''version'', JInt (vr_Version r)),
                        (''created_time'', JString (vr_CreatedTime r)),
                        (''deletion_time'', JString (vr_DeletionTime r)),
                        (''destroyed'', JBool (vr_Destroyed r))])]))))"

end
