(* ===== verification/Dispatcher.thy ===== *)
theory Dispatcher
  imports Retry Enqueue Data_Write
begin

text \<open>
  The dispatcher (\<open>internal/backend/dispatcher.go\<close>): it claims due operations of the queue under a lease,
  loads what an operation needs, calls the destination provider, and commits the outcome only if it
  still holds the claim, because a provider call runs without the lock and may outlast the lease.
\<close>

section \<open>Claims\<close>

definition outboxClaimLease :: duration where "outboxClaimLease = 5 * minute"

definition clearOutboxClaim :: "outboxRecord \<Rightarrow> outboxRecord" where
  "clearOutboxClaim r = r \<lparr> ob_ClaimOwner := [], ob_ClaimExpiresTime := [] \<rparr>"

definition isSupportedOperation :: "outboxRecord \<Rightarrow> bool" where
  "isSupportedOperation r \<longleftrightarrow>
     (if ob_ObjectID r = [] then False else ob_Type r = OperationTypeUpsert \<or> ob_Type r = OperationTypeDelete)"

definition isDispatchableOutboxState :: "string \<Rightarrow> bool" where
  "isDispatchableOutboxState state \<longleftrightarrow> state = outboxStatePending \<or> state = outboxStateRetryWait"

definition outboxRecordDue :: "outboxRecord \<Rightarrow> time \<Rightarrow> bool" where
  "outboxRecordDue r now \<longleftrightarrow> outboxDueIndexTime r \<noteq> [] \<and> outboxDueIndexTime r \<le> formatRFC3339 now"

definition discardUnsupportedOutboxOperation :: "'w world \<Rightarrow> outboxRecord \<Rightarrow> ('w, unit) io" where
  "discardUnsupportedOutboxOperation W r = deleteOutbox W r"

definition claimBlockedByGlobalSwitch :: "'w world \<Rightarrow> ('w, bool) io" where
  "claimBlockedByGlobalSwitch W =
     bindM (readGlobalConfig W) (\<lambda>cfg. retM (gc_Disabled cfg \<or> gc_RestoreGuard cfg))"

definition outboxClaimOwner :: "'w world \<Rightarrow> ('w, string) io" where
  "outboxClaimOwner W =
     bindM (liftE (requiredMountUUID W)) (\<lambda>mountUUID.
     bindM (ensureRuntimeState W) (\<lambda>_.
       retM (mountUUID @ ''/'' @ w_WorkerID W)))"

definition withClaim :: "outboxRecord \<Rightarrow> string \<Rightarrow> time \<Rightarrow> outboxRecord" where
  "withClaim r owner now = r \<lparr> ob_ClaimOwner := owner,
     ob_ClaimExpiresTime := formatRFC3339 (now + outboxClaimLease),
     ob_ClaimAttempt := ob_ClaimAttempt r + 1, ob_UpdatedTime := formatRFC3339 now \<rparr>"

definition claimOutboxRecord :: "'w world \<Rightarrow> outboxRecord \<Rightarrow> string \<Rightarrow> time \<Rightarrow> ('w, outboxRecord option) io" where
  "claimOutboxRecord W r owner now =
     (if isOutboxClaimActive r now then retM None
      else
        let new = withClaim r owner now
        in bindM (putOutbox W new) (\<lambda>_.
           bindM (getOutbox W (ob_ID new)) (\<lambda>claimed.
             case claimed of
               None \<Rightarrow> retM None
             | Some c \<Rightarrow>
                 if ob_ClaimOwner c \<noteq> owner \<or> ob_ClaimExpiresTime c \<noteq> ob_ClaimExpiresTime new \<or>
                    ob_ClaimAttempt c \<noteq> ob_ClaimAttempt new
                 then retM None else retM (Some c))))"

definition claimDispatchableOutboxRecord ::
    "'w world \<Rightarrow> string \<Rightarrow> string \<Rightarrow> time \<Rightarrow> ('w, outboxRecord option) io" where
  "claimDispatchableOutboxRecord W i claimOwner now =
     bindM (getOutbox W i) (\<lambda>record.
       case record of
         None \<Rightarrow> retM None
       | Some r \<Rightarrow>
           if \<not> isDispatchableOutboxState (ob_State r) \<or> \<not> outboxRecordDue r now then retM None
           else if \<not> isSupportedOperation r
           then bindM (discardUnsupportedOutboxOperation W r) (\<lambda>_. retM None)
           else bindM (claimBlockedByGlobalSwitch W) (\<lambda>blocked.
             if blocked then retM None else claimOutboxRecord W r claimOwner now))"

definition outboxClaimMatches :: "outboxRecord option \<Rightarrow> outboxRecord \<Rightarrow> bool" where
  "outboxClaimMatches current claimed =
     (case current of
        None \<Rightarrow> False
      | Some c \<Rightarrow> ob_ClaimOwner claimed \<noteq> [] \<and> ob_ClaimOwner c = ob_ClaimOwner claimed \<and>
          ob_ClaimExpiresTime c = ob_ClaimExpiresTime claimed \<and> ob_ClaimAttempt c = ob_ClaimAttempt claimed)"

definition commitIfOutboxClaimHeld :: "'w world \<Rightarrow> outboxRecord \<Rightarrow> ('w, unit) io \<Rightarrow> ('w, bool) io" where
  "commitIfOutboxClaimHeld W r commit =
     bindM (getOutbox W (ob_ID r)) (\<lambda>current.
       if \<not> outboxClaimMatches current r then retM False
       else bindM commit (\<lambda>_. retM True))"

section \<open>Outcomes\<close>

record operationFailure =
  of_class :: string
  of_message :: string
  of_resolvedName :: string
  of_payloadSHA256 :: string

definition failedRecord :: "outboxRecord \<Rightarrow> string \<Rightarrow> time \<Rightarrow> outboxRecord" where
  "failedRecord r errorClass now =
     (let r = r \<lparr> ob_State := outboxStateFailedTerminal, ob_Attempts := ob_Attempts r + 1 \<rparr>;
          r = (if shouldRetryAutomatically errorClass (ob_Attempts r)
               then r \<lparr> ob_State := outboxStateRetryWait, ob_NotBefore := formatRFC3339 (now + retryDelay r) \<rparr>
               else r \<lparr> ob_NotBefore := [] \<rparr>)
      in clearOutboxClaim (r \<lparr> ob_UpdatedTime := formatRFC3339 now \<rparr>))"

definition markOperationFailed ::
    "'w world \<Rightarrow> outboxRecord \<Rightarrow> operationFailure \<Rightarrow> time \<Rightarrow> ('w, unit) io" where
  "markOperationFailed W r failure now =
     (let errorClass = (if of_class failure = [] then ErrorClassInternal else of_class failure);
          resolvedName = (if of_resolvedName failure = [] then ob_Path r else of_resolvedName failure);
          r = failedRecord r errorClass now
      in bindM (putOutbox W r) (\<lambda>_.
           putStatus W (zeroStatusRecord \<lparr> st_Path := ob_Path r, st_Version := ob_Version r,
             st_AssociationID := ob_AssociationID r, st_ObjectID := ob_ObjectID r,
             st_DestinationRef := ob_DestinationRef r, st_ResolvedName := resolvedName,
             st_State := syncStateForFailureClass errorClass, st_PayloadSHA256 := of_payloadSHA256 failure,
             st_LastOperationID := ob_ID r, st_LastErrorClass := errorClass,
             st_LastError := ''dispatch failed: '' @ of_message failure, st_UpdatedTime := formatRFC3339 now \<rparr>)))"

definition markClaimedOperationFailed ::
    "'w world \<Rightarrow> outboxRecord \<Rightarrow> operationFailure \<Rightarrow> time \<Rightarrow> ('w, unit) io" where
  "markClaimedOperationFailed W r failure now =
     bindM (commitIfOutboxClaimHeld W r (markOperationFailed W r failure now)) (\<lambda>_. retM ())"

definition cancelClaimedOutboxOperation :: "'w world \<Rightarrow> outboxRecord \<Rightarrow> ('w, unit) io" where
  "cancelClaimedOutboxOperation W r =
     bindM (commitIfOutboxClaimHeld W r (deleteOutbox W r)) (\<lambda>_. retM ())"

definition succeededRecord :: "outboxRecord \<Rightarrow> time \<Rightarrow> outboxRecord" where
  "succeededRecord r now =
     clearOutboxClaim (r \<lparr> ob_Attempts := ob_Attempts r + 1, ob_UpdatedTime := formatRFC3339 now \<rparr>)"

definition markUpsertSuccessStatus ::
    "'w world \<Rightarrow> outboxRecord \<Rightarrow> string \<Rightarrow> canonicalPayload \<Rightarrow> syncResult \<Rightarrow> time \<Rightarrow> ('w, statusRecord) io" where
  "markUpsertSuccessStatus W r resolvedName payload result now =
     (let status = zeroStatusRecord \<lparr> st_Path := ob_Path r, st_Version := ob_Version r,
            st_AssociationID := ob_AssociationID r, st_ObjectID := ob_ObjectID r,
            st_DestinationRef := ob_DestinationRef r, st_ResolvedName := resolvedName,
            st_State := SyncStateSynced, st_PayloadSHA256 := pl_SHA256 payload,
            st_RemoteVersion := sr_RemoteVersion result, st_LastOperationID := ob_ID r,
            st_LastSuccessTime := formatRFC3339 now, st_UpdatedTime := formatRFC3339 now \<rparr>
      in bindM (getStatus W (ob_Path r) (ob_AssociationID r) (ob_ObjectID r)) (\<lambda>existing.
         let status =
           (if outboxTrigger r = outboxTriggerDriftRepair
            then let status = (case existing of None \<Rightarrow> status
                                | Some e \<Rightarrow> status \<lparr> st_RepairCount := st_RepairCount e \<rparr>)
                 in status \<lparr> st_LastRepairTime := formatRFC3339 now,
                             st_RepairCount := st_RepairCount status + 1 \<rparr>
            else status)
         in bindM (putStatus W status) (\<lambda>_. retM status)))"

definition commitClaimedUpsertSuccess ::
    "'w world \<Rightarrow> outboxRecord \<Rightarrow> string \<Rightarrow> canonicalPayload \<Rightarrow> syncResult \<Rightarrow> time \<Rightarrow> ('w, unit) io" where
  "commitClaimedUpsertSuccess W claimed resolvedName payload result now =
     (let r = succeededRecord claimed now
      in bindM (commitIfOutboxClaimHeld W claimed
           (bindM (markUpsertSuccessStatus W r resolvedName payload result now) (\<lambda>_. deleteOutbox W r)))
           (\<lambda>_. retM ()))"

definition commitClaimedDeleteSuccess ::
    "'w world \<Rightarrow> outboxRecord \<Rightarrow> string \<Rightarrow> syncResult \<Rightarrow> time \<Rightarrow> ('w, unit) io" where
  "commitClaimedDeleteSuccess W claimed resolvedName result now =
     (let r = succeededRecord claimed now
      in bindM (commitIfOutboxClaimHeld W claimed
           (bindM (putStatus W (zeroStatusRecord \<lparr> st_Path := ob_Path r, st_Version := ob_Version r,
                st_AssociationID := ob_AssociationID r, st_ObjectID := ob_ObjectID r,
                st_DestinationRef := ob_DestinationRef r, st_ResolvedName := resolvedName,
                st_State := SyncStateRemoteMissing, st_RemoteVersion := sr_RemoteVersion result,
                st_LastOperationID := ob_ID r, st_LastSuccessTime := formatRFC3339 now,
                st_UpdatedTime := formatRFC3339 now \<rparr>)) (\<lambda>_. deleteOutbox W r)))
           (\<lambda>_. retM ()))"

section \<open>What an operation needs\<close>

definition staleUpsertForCurrentVersion :: "'w world \<Rightarrow> outboxRecord \<Rightarrow> ('w, bool) io" where
  "staleUpsertForCurrentVersion W r =
     (if ob_Type r \<noteq> OperationTypeUpsert then retM False
      else bindM (getMetadata W (ob_Path r)) (\<lambda>metadata.
        retM (case metadata of None \<Rightarrow> False | Some m \<Rightarrow> ob_Version r < md_CurrentVersion m)))"

record dispatchTargetContext =
  dt_association :: associationRecord
  dt_destination :: destinationRecord
  dt_provider :: capabilities

definition failureFor :: "string \<Rightarrow> string \<Rightarrow> string \<Rightarrow> operationFailure" where
  "failureFor errorClass message resolvedName =
     \<lparr> of_class = errorClass, of_message = message, of_resolvedName = resolvedName, of_payloadSHA256 = [] \<rparr>"

definition sourceEligibilityFailureForDispatch ::
    "'w world \<Rightarrow> associationRecord \<Rightarrow> ('w, operationFailure option) io" where
  "sourceEligibilityFailureForDispatch W a =
     bindM (readGlobalConfig W) (\<lambda>cfg.
     bindM (getMetadata W (as_Path a)) (\<lambda>metadata.
       retM (case validateAssociationActivation a metadata cfg of
          Inl e \<Rightarrow> Some (failureFor ErrorClassValidation (errorText e) (as_ResolvedName a))
        | Inr _ \<Rightarrow> None)))"

definition requireDeleteDispatchMode :: "associationRecord \<Rightarrow> operationFailure option" where
  "requireDeleteDispatchMode a =
     (if normalizedDeleteMode (as_DeleteMode a) = deleteModeDelete then None
      else Some (failureFor ErrorClassValidation ''association delete_mode does not permit remote delete''
             (as_ResolvedName a)))"

definition loadDispatchTargetContext ::
    "'w world \<Rightarrow> outboxRecord \<Rightarrow> (associationRecord \<Rightarrow> operationFailure option) \<Rightarrow>
       ('w, operationFailure + dispatchTargetContext) io" where
  "loadDispatchTargetContext W r preflight =
     bindM (getAssociation W (ob_Path r) (ob_AssociationID r)) (\<lambda>association.
       case association of
         None \<Rightarrow> retM (Inl (failureFor ErrorClassInternal ''association is missing'' []))
       | Some a \<Rightarrow>
           (case preflight a of
              Some failure \<Rightarrow> retM (Inl failure)
            | None \<Rightarrow>
                bindM (getDestination W (as_DestinationType a) (as_DestinationName a)) (\<lambda>destination.
                  case destination of
                    None \<Rightarrow> retM (Inl (failureFor ErrorClassInternal ''destination is missing'' (as_ResolvedName a)))
                  | Some d \<Rightarrow>
                      (case w_Provider W (ds_Type d) of
                         None \<Rightarrow> retM (Inl (failureFor ErrorClassValidation
                                   ''destination provider is unsupported'' (as_ResolvedName a)))
                       | Some provider \<Rightarrow>
                           if ds_Disabled d \<or> \<not> as_Enabled a
                           then retM (Inl (failureFor ErrorClassValidation
                                  ''association or destination is disabled'' (as_ResolvedName a)))
                           else bindM (sourceEligibilityFailureForDispatch W a) (\<lambda>failure.
                             retM (case failure of
                                Some f \<Rightarrow> Inl f
                              | None \<Rightarrow> Inr \<lparr> dt_association = a, dt_destination = d,
                                             dt_provider = provider \<rparr>))))))"

definition loadUpsertContext ::
    "'w world \<Rightarrow> outboxRecord \<Rightarrow> ('w, operationFailure + versionRecord \<times> dispatchTargetContext) io" where
  "loadUpsertContext W r =
     bindM (getVersion W (ob_Path r) (ob_Version r)) (\<lambda>version.
       let unavailable = retM (Inl (failureFor ErrorClassInternal ''source version is unavailable'' []))
       in case version of
            None \<Rightarrow> unavailable
          | Some v \<Rightarrow>
              if vr_Destroyed v \<or> vr_DeletionTime v \<noteq> [] then unavailable
              else bindM (loadDispatchTargetContext W r (\<lambda>_. None)) (\<lambda>target.
                retM (case target of Inl f \<Rightarrow> Inl f | Inr t \<Rightarrow> Inr (v, t))))"

definition loadDeleteContext ::
    "'w world \<Rightarrow> outboxRecord \<Rightarrow> ('w, operationFailure + dispatchTargetContext) io" where
  "loadDeleteContext W r =
     bindM (getVersion W (ob_Path r) (ob_Version r)) (\<lambda>version.
       if (case version of None \<Rightarrow> False | Some v \<Rightarrow> \<not> vr_Destroyed v \<and> vr_DeletionTime v = [])
       then retM (Inl (failureFor ErrorClassValidation ''source version is not deleted'' []))
       else loadDispatchTargetContext W r requireDeleteDispatchMode)"

definition prepareProviderPayload ::
    "'w world \<Rightarrow> versionRecord \<Rightarrow> dispatchTargetContext \<Rightarrow> string \<Rightarrow> operationFailure + canonicalPayload" where
  "prepareProviderPayload W v target objectID =
     (case buildCanonicalPayloadForObject W (dt_association target) (vr_Data v) objectID of
        Inl _ \<Rightarrow> Inl (failureFor ErrorClassValidation ''source payload encoding failed''
                   (as_ResolvedName (dt_association target)))
      | Inr payload \<Rightarrow>
          (case enforceProviderPayloadLimit (dt_provider target) payload of
             Inl e \<Rightarrow> Inl ((failureFor ErrorClassCapacity (errorText e) (as_ResolvedName (dt_association target)))
                        \<lparr> of_payloadSHA256 := pl_SHA256 payload \<rparr>)
           | Inr _ \<Rightarrow> Inr payload))"

definition resolvedNameForOperation :: "associationRecord \<Rightarrow> string \<Rightarrow> operationFailure + string" where
  "resolvedNameForOperation a objectID =
     (case associationResolvedNameForObject a objectID of
        Inl e \<Rightarrow> Inl (failureFor ErrorClassValidation (errorText e) [])
      | Inr name \<Rightarrow> Inr name)"

definition destinationConfig :: "'w world \<Rightarrow> destinationRecord \<Rightarrow> ('w, providerDestinationConfig) io" where
  "destinationConfig W d =
     bindM (getDestinationSensitiveConfigForRecord W d) (\<lambda>sensitive.
       retM \<lparr> dc_Name = ds_Name d,
              dc_Config = (case sensitive of
                 None \<Rightarrow> ds_Config d
               | Some s \<Rightarrow> foldl (\<lambda>config (key, v). AList.update key v config) (ds_Config d) (sn_Config s)) \<rparr>)"

definition providerAssociationConfig :: "associationRecord \<Rightarrow> associationConfig" where
  "providerAssociationConfig a = \<lparr> ac_Config = as_ProviderConfig a, ac_Identity = as_ProviderIdentity a \<rparr>"

section \<open>Provider calls\<close>

text \<open>An error of the provider that comes with the end of the request's context is the end of the
  request, not a failure of the operation; so is an ended context after a successful call.\<close>

definition dispatchProviderContextError :: "'w world \<Rightarrow> gerr option \<Rightarrow> ('w, unit) io" where
  "dispatchProviderContextError W providerErr =
     (case providerErr of
        None \<Rightarrow> w_CtxErr W
      | Some e \<Rightarrow>
          bindM (tryM (w_CtxErr W)) (\<lambda>ended.
            case ended of
              Inl ctxErr \<Rightarrow> failM ctxErr
            | Inr _ \<Rightarrow> if isContextCanceled e then failM e else w_CtxErr W))"

definition upsertRequestFor ::
    "runtimeIdentity \<Rightarrow> outboxRecord \<Rightarrow> associationRecord \<Rightarrow> string \<Rightarrow> canonicalPayload \<Rightarrow> upsertRequest" where
  "upsertRequestFor runtime r a resolvedName payload = \<lparr> ur_Runtime = runtime,
     ur_Association = providerAssociationConfig a, ur_ResolvedName = resolvedName,
     ur_Format = pl_Format payload, ur_Payload = pl_Bytes payload, ur_PayloadSHA256 = pl_SHA256 payload,
     ur_IdempotencyKey = ob_IdempotencyKey r, ur_DataMap = pl_Data payload, ur_SourcePath = ob_Path r,
     ur_SourceVersion = ob_Version r, ur_AssociationID = ob_AssociationID r, ur_ObjectID = ob_ObjectID r \<rparr>"

definition deleteRequestFor ::
    "runtimeIdentity \<Rightarrow> outboxRecord \<Rightarrow> associationRecord \<Rightarrow> string \<Rightarrow> deleteRequest" where
  "deleteRequestFor runtime r a resolvedName = \<lparr> dr_Runtime = runtime,
     dr_Association = providerAssociationConfig a, dr_ResolvedName = resolvedName,
     dr_IdempotencyKey = ob_IdempotencyKey r,
     dr_DataMap = (normalizedDataMapping (as_DataMapping a) = dataMappingSourceKeys),
     dr_SourcePath = ob_Path r, dr_SourceVersion = ob_Version r, dr_AssociationID = ob_AssociationID r,
     dr_ObjectID = ob_ObjectID r \<rparr>"

text \<open>From the loaded and checked operation to its committed outcome.\<close>

definition dispatchUpsert ::
    "'w world \<Rightarrow> outboxRecord \<Rightarrow> dispatchTargetContext \<Rightarrow> string \<Rightarrow> canonicalPayload \<Rightarrow> time \<Rightarrow> ('w, unit) io" where
  "dispatchUpsert W r target resolvedName payload now =
     bindM (destinationConfig W (dt_destination target)) (\<lambda>config.
     bindM (providerRuntimeIdentity W) (\<lambda>runtime.
     bindM (tryM (w_Upsert W (ds_Type (dt_destination target)) config
              (upsertRequestFor runtime r (dt_association target) resolvedName payload))) (\<lambda>result.
     bindM (dispatchProviderContextError W (case result of Inl e \<Rightarrow> Some e | Inr _ \<Rightarrow> None)) (\<lambda>_.
       case result of
         Inl e \<Rightarrow> markClaimedOperationFailed W r
             \<lparr> of_class = providerErrorClass e, of_message = ''provider upsert failed'',
               of_resolvedName = resolvedName, of_payloadSHA256 = pl_SHA256 payload \<rparr> now
       | Inr result \<Rightarrow> commitClaimedUpsertSuccess W r resolvedName payload
             (case result of None \<Rightarrow> \<lparr> sr_RemoteVersion = [] \<rparr> | Some s \<Rightarrow> s) now))))"

definition dispatchDelete ::
    "'w world \<Rightarrow> outboxRecord \<Rightarrow> dispatchTargetContext \<Rightarrow> string \<Rightarrow> time \<Rightarrow> ('w, unit) io" where
  "dispatchDelete W r target resolvedName now =
     bindM (destinationConfig W (dt_destination target)) (\<lambda>config.
     bindM (providerRuntimeIdentity W) (\<lambda>runtime.
     bindM (tryM (w_Delete_Remote W (ds_Type (dt_destination target)) config
              (deleteRequestFor runtime r (dt_association target) resolvedName))) (\<lambda>result.
     bindM (dispatchProviderContextError W (case result of Inl e \<Rightarrow> Some e | Inr _ \<Rightarrow> None)) (\<lambda>_.
       case result of
         Inl e \<Rightarrow> markClaimedOperationFailed W r
             (failureFor (providerErrorClass e) ''provider delete failed'' resolvedName) now
       | Inr result \<Rightarrow> commitClaimedDeleteSuccess W r resolvedName
             (case result of None \<Rightarrow> \<lparr> sr_RemoteVersion = [] \<rparr> | Some s \<Rightarrow> s) now))))"

definition failClaimedUpsertForDestinationPolicy ::
    "'w world \<Rightarrow> outboxRecord \<Rightarrow> dispatchTargetContext \<Rightarrow> string \<Rightarrow> canonicalPayload \<Rightarrow> time \<Rightarrow> ('w, bool) io" where
  "failClaimedUpsertForDestinationPolicy W r target resolvedName payload now =
     bindM (readGlobalConfig W) (\<lambda>cfg.
       case validateDestinationPolicyForObject (dt_destination target) (dt_association target) (ob_ObjectID r)
              resolvedName cfg of
         Inl e \<Rightarrow> bindM (markClaimedOperationFailed W r \<lparr> of_class = ErrorClassValidation,
             of_message = errorText e, of_resolvedName = resolvedName,
             of_payloadSHA256 = pl_SHA256 payload \<rparr> now) (\<lambda>_. retM True)
       | Inr _ \<Rightarrow> retM False)"

definition processUpsert :: "'w world \<Rightarrow> outboxRecord \<Rightarrow> time \<Rightarrow> ('w, unit) io" where
  "processUpsert W r now =
     bindM (staleUpsertForCurrentVersion W r) (\<lambda>stale.
       if stale then cancelClaimedOutboxOperation W r
       else bindM (loadUpsertContext W r) (\<lambda>loaded.
         case loaded of
           Inl failure \<Rightarrow> markClaimedOperationFailed W r failure now
         | Inr (v, target) \<Rightarrow>
             (case prepareProviderPayload W v target (ob_ObjectID r) of
                Inl failure \<Rightarrow> markClaimedOperationFailed W r failure now
              | Inr payload \<Rightarrow>
                  (case resolvedNameForOperation (dt_association target) (ob_ObjectID r) of
                     Inl failure \<Rightarrow> markClaimedOperationFailed W r failure now
                   | Inr resolvedName \<Rightarrow>
                       bindM (failClaimedUpsertForDestinationPolicy W r target resolvedName payload now)
                         (\<lambda>handled.
                            if handled then retM () else dispatchUpsert W r target resolvedName payload now)))))"

definition processDelete :: "'w world \<Rightarrow> outboxRecord \<Rightarrow> time \<Rightarrow> ('w, unit) io" where
  "processDelete W r now =
     bindM (loadDeleteContext W r) (\<lambda>loaded.
       case loaded of
         Inl failure \<Rightarrow> markClaimedOperationFailed W r failure now
       | Inr target \<Rightarrow>
           (case resolvedNameForOperation (dt_association target) (ob_ObjectID r) of
              Inl failure \<Rightarrow> markClaimedOperationFailed W r failure now
            | Inr resolvedName \<Rightarrow>
                bindM (readGlobalConfig W) (\<lambda>cfg.
                  case validateDestinationPolicyForObject (dt_destination target) (dt_association target)
                         (ob_ObjectID r) resolvedName cfg of
                    Inl e \<Rightarrow> markClaimedOperationFailed W r
                               (failureFor ErrorClassValidation (errorText e) resolvedName) now
                  | Inr _ \<Rightarrow> dispatchDelete W r target resolvedName now)))"

definition processOutboxRecord :: "'w world \<Rightarrow> outboxRecord \<Rightarrow> time \<Rightarrow> ('w, unit) io" where
  "processOutboxRecord W r now =
     (if ob_Type r = OperationTypeUpsert then processUpsert W r now
      else if ob_Type r = OperationTypeDelete then processDelete W r now
      else retM ())"

section \<open>A batch\<close>

text \<open>A batch returns how many operations it processed, and the error that stopped it if there was
  one. The time of each operation is the time of the batch plus what has passed since its start.\<close>

fun processDueIDs ::
    "'w world \<Rightarrow> time \<Rightarrow> time \<Rightarrow> string \<Rightarrow> int \<Rightarrow> int \<Rightarrow> string list \<Rightarrow> ('w, int \<times> gerr option) io" where
  "processDueIDs W now batchStarted claimOwner maxOperations processed [] = retM (processed, None)"
| "processDueIDs W now batchStarted claimOwner maxOperations processed (i # ids) =
     bindM (nowUTC W) (\<lambda>t.
       let operationNow = now + (t - batchStarted)
       in bindM (tryM (claimDispatchableOutboxRecord W i claimOwner operationNow)) (\<lambda>claimed.
         case claimed of
           Inl e \<Rightarrow> retM (processed, Some e)
         | Inr None \<Rightarrow> processDueIDs W now batchStarted claimOwner maxOperations processed ids
         | Inr (Some r) \<Rightarrow>
             bindM (tryM (processOutboxRecord W r operationNow)) (\<lambda>result.
               case result of
                 Inl e \<Rightarrow> retM (processed, Some e)
               | Inr _ \<Rightarrow>
                   if 0 < maxOperations \<and> maxOperations \<le> processed + 1 then retM (processed + 1, None)
                   else processDueIDs W now batchStarted claimOwner maxOperations (processed + 1) ids)))"

definition processDueOutboxLimitWithClock :: "'w world \<Rightarrow> time \<Rightarrow> int \<Rightarrow> ('w, int \<times> gerr option) io" where
  "processDueOutboxLimitWithClock W now maxOperations =
     bindM (nowUTC W) (\<lambda>batchStarted.
     bindM (tryM (bindM (outboxClaimOwner W) (\<lambda>claimOwner.
              bindM (listDueOutboxIDs W now) (\<lambda>ids. retM (claimOwner, ids))))) (\<lambda>started.
       case started of
         Inl e \<Rightarrow> retM (0, Some e)
       | Inr (claimOwner, ids) \<Rightarrow>
           bindM (processDueIDs W now batchStarted claimOwner maxOperations 0 ids) (\<lambda>(processed, err).
             case err of
               Some e \<Rightarrow> retM (processed, Some e)
             | None \<Rightarrow>
                 bindM (nowUTC W) (\<lambda>t.
                 bindM (tryM (pruneTerminalOutboxRecords W (now + (t - batchStarted)))) (\<lambda>pruned.
                   retM (processed, case pruned of Inl e \<Rightarrow> Some e | Inr _ \<Rightarrow> None))))))"

definition processDueOutboxLimit :: "'w world \<Rightarrow> time \<Rightarrow> int \<Rightarrow> ('w, int \<times> gerr option) io" where
  "processDueOutboxLimit W now maxOperations = processDueOutboxLimitWithClock W now maxOperations"

end
