(* ===== verification/Frames.thy ===== *)
theory Frames
  imports Outbox_Queries Storage_Status Storage_Source Association_Store Config_Laws
begin

text \<open>
  Which view of the contents depends on which keys. An update of a record of one component leaves
  the views of the others alone; \<open>same_other\<close> (nothing but queue keys changes) keeps all of them.
\<close>

lemma outbox_inv_cong:
  assumes "\<And>k. isOutboxKey k \<Longrightarrow> d k = c k"
  shows "outbox_inv d = outbox_inv c"
proof -
  have imp: "outbox_inv c \<Longrightarrow> outbox_inv d" if d: "\<And>k. isOutboxKey k \<Longrightarrow> d k = c k" for c d :: "string \<Rightarrow> entry option"
  proof -
    assume c: "outbox_inv c"
    have due: "prefix outboxByDueStoragePrefix k \<Longrightarrow> isOutboxKey k" for k
      by (auto simp: isOutboxKey_def prefix_def prefix_defs)
    show "outbox_inv d"
      using c index_keys_outbox(1) due unfolding outbox_inv_def by (simp add: d) (metis d)
  qed
  show ?thesis using imp [of c d] imp [of d c] assms by auto
qed

lemma queueOf_agree: "(\<And>k. isOutboxKey k \<Longrightarrow> d k = c k) \<Longrightarrow> queueOf d = queueOf c"
  by (rule queueOf_cong) simp

lemma outbox_frame [simp]:
  "\<not> isOutboxKey k \<Longrightarrow> outbox_inv (c(k := v)) = outbox_inv c"
  "\<not> isOutboxKey k \<Longrightarrow> queueOf (c(k := v)) = queueOf c"
  by (rule outbox_inv_cong; auto) (rule queueOf_agree; auto)

lemma same_other_views:
  assumes "same_other c d"
  shows "statusOf d = statusOf c" "metadataOf d = metadataOf c" "versionOf d = versionOf c"
    "intentOf d = intentOf c" "assocs d = assocs c" "configOf d = configOf c"
  using same_otherD [OF assms]
  by (simp_all add: statusOf_def metadataOf_def versionOf_def intentOf_def assocs_def configOf_def fun_eq_iff)

lemma statusOf_put:
  "statusOf (c(statusStorageKey (st_Path r) (st_AssociationID r) (st_ObjectID r) \<mapsto> EStatus s))
     (st_Path r) (st_AssociationID r) (st_ObjectID r) = Some s"
  by (simp add: statusOf_def)

text \<open>Views of records under updates of other records.\<close>

lemma view_updates [simp]:
  "metadataOf (c(versionStorageKey p v := x)) = metadataOf c"
  "metadataOf (c(enqueueIntentStorageKey p v := x)) = metadataOf c"
  "metadataOf (c(statusStorageKey p a ob := x)) = metadataOf c"
  "metadataOf (c(associationStorageKey p i := x)) = metadataOf c"
  "versionOf (c(metadataStorageKey p := x)) = versionOf c"
  "versionOf (c(enqueueIntentStorageKey p v := x)) = versionOf c"
  "versionOf (c(statusStorageKey p a ob := x)) = versionOf c"
  "intentOf (c(metadataStorageKey p := x)) = intentOf c"
  "intentOf (c(versionStorageKey p v := x)) = intentOf c"
  "intentOf (c(statusStorageKey p a ob := x)) = intentOf c"
  "statusOf (c(metadataStorageKey p := x)) = statusOf c"
  "statusOf (c(versionStorageKey p v := x)) = statusOf c"
  "statusOf (c(enqueueIntentStorageKey p v := x)) = statusOf c"
  by (simp_all add: metadataOf_def versionOf_def intentOf_def statusOf_def fun_eq_iff)

lemma assoc_views [simp]:
  "assocs (c(metadataStorageKey p := x)) = assocs c"
  "assocs (c(versionStorageKey p v := x)) = assocs c"
  "assocs (c(enqueueIntentStorageKey p v := x)) = assocs c"
  "assocs (c(statusStorageKey p a ob := x)) = assocs c"
  by (simp_all add: assocs_def fun_eq_iff)

lemma config_views [simp]:
  "configOf (c(metadataStorageKey p := x)) = configOf c"
  "configOf (c(versionStorageKey p v := x)) = configOf c"
  "configOf (c(enqueueIntentStorageKey p v := x)) = configOf c"
  "configOf (c(statusStorageKey p a ob := x)) = configOf c"
  by simp_all

lemma view_put [simp]:
  "metadataOf (c(metadataStorageKey p \<mapsto> EMetadata m)) = (metadataOf c)(p \<mapsto> normalizeMetadataDefaults m)"
  "versionOf (c(versionStorageKey p v \<mapsto> EVersion r)) = (versionOf c)(p := (versionOf c p)(v \<mapsto> r))"
  "intentOf (c(enqueueIntentStorageKey p v \<mapsto> EIntent i)) = (intentOf c)(p := (intentOf c p)(v \<mapsto> i))"
  "intentOf (c(enqueueIntentStorageKey p v := None)) = (intentOf c)(p := (intentOf c p)(v := None))"
  by (auto simp: metadataOf_def versionOf_def intentOf_def fun_eq_iff)

end
