(* ===== verification/Dispatcher_Laws.thy ===== *)
theory Dispatcher_Laws
  imports Dispatcher Frames
begin

text \<open>
  What the dispatcher's steps do to the queue and the statuses, for any storage, whichever calls
  fail. \<open>claimed_from\<close> is the relation between a record of the queue and the claim made on it.
\<close>

section \<open>Claims\<close>

definition dispatchable :: "outboxRecord \<Rightarrow> time \<Rightarrow> bool" where
  "dispatchable r now \<longleftrightarrow> isDispatchableOutboxState (ob_State r) \<and> outboxRecordDue r now \<and>
     isSupportedOperation r \<and> \<not> isOutboxClaimActive r now"

lemma withClaim_simps [simp]:
  "ob_ID (withClaim r owner now) = ob_ID r"
  "ob_State (withClaim r owner now) = ob_State r"
  "ob_ClaimOwner (withClaim r owner now) = owner"
  "ob_ClaimAttempt (withClaim r owner now) = ob_ClaimAttempt r + 1"
  by (simp_all add: withClaim_def)

lemma normalize_idem: "normalizeOutboxDefaults (normalizeOutboxDefaults r) = normalizeOutboxDefaults r"
  by (simp add: normalizeOutboxDefaults_def outboxTriggerUser_def)

lemma queueOf_normal: "queueOf c i = Some r \<Longrightarrow> normalizeOutboxDefaults r = r"
  unfolding queueOf_def using normalize_idem by (auto split: option.splits entry.splits)

lemma normal_iff: "normalizeOutboxDefaults r = r \<longleftrightarrow> ob_Trigger r \<noteq> []"
proof
  assume n: "normalizeOutboxDefaults r = r"
  have "ob_Trigger (normalizeOutboxDefaults r) \<noteq> []"
    by (simp add: normalizeOutboxDefaults_def outboxTriggerUser_def)
  then show "ob_Trigger r \<noteq> []" unfolding n .
qed (simp add: normalizeOutboxDefaults_def)

lemma withClaim_normal:
  "normalizeOutboxDefaults r = r \<Longrightarrow> normalizeOutboxDefaults (withClaim r owner t) = withClaim r owner t"
  by (simp add: normal_iff) (simp add: withClaim_def)

lemma queueOf_id:
  assumes "outbox_inv c" and "queueOf c i = Some r"
  shows "ob_ID r = i" and "validID i"
  using assms queueOf_Some [OF assms(1), of i r] by auto

lemma wp_then_ret: "wp m (\<lambda>_. Q x) E w \<Longrightarrow> wp (bindM m (\<lambda>_. retM x)) Q E w"
  by (rule wp_seq) (erule wp_mono; simp)

text \<open>A configuration is readable and open for dispatch.\<close>

definition dispatchOpen :: "(string \<Rightarrow> entry option) \<Rightarrow> bool" where
  "dispatchOpen c \<longleftrightarrow> (\<exists>cfg. configOf c = Inr cfg \<and> \<not> gc_Disabled cfg \<and> \<not> gc_RestoreGuard cfg)"

lemma configOf_outbox: "same_other c d \<Longrightarrow> configOf d = configOf c"
  by (simp add: configOf_def same_otherD)

context bao_storage begin

lemma wp_claimOutboxRecord:
  assumes inv: "outbox_inv (contents w)" and r: "queueOf (contents w) i = Some r"
    and Q: "\<And>w'. outbox_inv (contents w') \<Longrightarrow> same_other (contents w) (contents w') \<Longrightarrow>
      \<not> isOutboxClaimActive r now \<Longrightarrow> queueOf (contents w') = (queueOf (contents w))(i \<mapsto> withClaim r owner now) \<Longrightarrow>
      Q (Some (withClaim r owner now)) w'"
    and N: "isOutboxClaimActive r now \<Longrightarrow> Q None w"
    and E: "\<And>e w'. outbox_inv (contents w') \<Longrightarrow> same_other (contents w) (contents w') \<Longrightarrow>
      \<not> isOutboxClaimActive r now \<Longrightarrow>
      queueOf (contents w') \<in> {queueOf (contents w), (queueOf (contents w))(i \<mapsto> withClaim r owner now)} \<Longrightarrow> E e w'"
  shows "wp (claimOutboxRecord W r owner now) Q E w"
proof (cases "isOutboxClaimActive r now")
  case False
  have id: "ob_ID r = i" "validID i" using queueOf_id [OF inv r] by auto
  have n: "normalizeOutboxDefaults (withClaim r owner now) = withClaim r owner now"
    by (rule withClaim_normal [OF queueOf_normal [OF r]])
  show ?thesis
    unfolding claimOutboxRecord_def Let_def
    by (simp add: False, rule queue.wp_put)
      (use inv id E [OF _ _ False] in \<open>auto simp: n wp_simps intro!: queue.wp_get Q [OF _ _ False]
         intro: same_other_trans\<close>)
qed (simp add: claimOutboxRecord_def N)

end

text \<open>The three things an attempt to claim an operation can do to the queue.\<close>

definition claimStep :: "(string \<Rightarrow> entry option) \<Rightarrow> string \<Rightarrow> string \<Rightarrow> time \<Rightarrow> outboxRecord \<Rightarrow> (string \<Rightarrow> entry option) \<Rightarrow> bool" where
  "claimStep c i owner now claimed d \<longleftrightarrow> (\<exists>r. queueOf c i = Some r \<and> dispatchable r now \<and> dispatchOpen c \<and>
     claimed = withClaim r owner now \<and> queueOf d = (queueOf c)(i \<mapsto> claimed))"

definition discardStep :: "(string \<Rightarrow> entry option) \<Rightarrow> string \<Rightarrow> time \<Rightarrow> (string \<Rightarrow> entry option) \<Rightarrow> bool" where
  "discardStep c i now d \<longleftrightarrow> (\<exists>r. queueOf c i = Some r \<and> \<not> isSupportedOperation r \<and> outboxRecordDue r now \<and>
     queueOf d = (queueOf c)(i := None))"

definition queueStep :: "(string \<Rightarrow> entry option) \<Rightarrow> (string \<Rightarrow> entry option) \<Rightarrow> bool" where
  "queueStep c d \<longleftrightarrow> outbox_inv d \<and> same_other c d"

lemma queueStep_same: "outbox_inv c \<Longrightarrow> d = c \<Longrightarrow> queueStep c d"
  by (simp add: queueStep_def)

context bao_storage begin

lemma wp_claimDispatchable:
  assumes inv: "outbox_inv (contents w)"
    and Some: "\<And>r w'. queueStep (contents w) (contents w') \<Longrightarrow> claimStep (contents w) i owner now r (contents w') \<Longrightarrow>
      Q (Some r) w'"
    and None: "\<And>w'. queueStep (contents w) (contents w') \<Longrightarrow>
      queueOf (contents w') = queueOf (contents w) \<or> discardStep (contents w) i now (contents w') \<Longrightarrow> Q None w'"
    and E: "\<And>e w'. queueStep (contents w) (contents w') \<Longrightarrow> queueOf (contents w') = queueOf (contents w) \<or>
      discardStep (contents w) i now (contents w') \<or> (\<exists>r. claimStep (contents w) i owner now r (contents w')) \<Longrightarrow>
      E e w'"
  shows "wp (claimDispatchableOutboxRecord W i owner now) Q E w"
  unfolding claimDispatchableOutboxRecord_def
proof (rule wp_seq, rule queue.wp_get [OF inv])
  fix w1 assume c1: "contents w1 = contents w"
  have same: "queueStep (contents w) (contents w')" if "contents w' = contents w" for w'
    using queueStep_same [OF inv that] .
  show "wp (case queueOf (contents w) i of None \<Rightarrow> retM None | Some r \<Rightarrow>
      if \<not> isDispatchableOutboxState (ob_State r) \<or> \<not> outboxRecordDue r now then retM None
      else if \<not> isSupportedOperation r then bindM (discardUnsupportedOutboxOperation W r) (\<lambda>_. retM None)
      else bindM (claimBlockedByGlobalSwitch W) (\<lambda>blocked. if blocked then retM None
        else claimOutboxRecord W r owner now)) Q E w1"
  proof (cases "queueOf (contents w) i")
    case (Some r)
    have id: "ob_ID r = i" "validID i" using queueOf_id [OF inv Some] by auto
    consider (idle) "\<not> isDispatchableOutboxState (ob_State r) \<or> \<not> outboxRecordDue r now"
      | (bad) "isDispatchableOutboxState (ob_State r)" "outboxRecordDue r now" "\<not> isSupportedOperation r"
      | (go) "isDispatchableOutboxState (ob_State r)" "outboxRecordDue r now" "isSupportedOperation r" by blast
    then show ?thesis
    proof cases
      case idle
      then show ?thesis using None [OF same [OF c1]] c1 Some by auto
    next
      case bad
      have d: "discardStep (contents w) i now (contents w')"
        if "queueOf (contents w') = (queueOf (contents w))(i := None)" for w'
        using Some bad that by (auto simp: discardStep_def)
      have "wp (bindM (deleteOutbox W r) (\<lambda>_. retM None)) Q E w1"
        by (rule wp_seq, rule queue.wp_del)
          (use id inv c1 d in \<open>auto simp: queueStep_def intro!: None E\<close>)
      then show ?thesis using bad Some by (simp add: discardUnsupportedOutboxOperation_def)
    next
      case go
      have "wp (bindM (claimBlockedByGlobalSwitch W) (\<lambda>blocked. if blocked then retM None
          else claimOutboxRecord W r owner now)) Q E w1"
        unfolding claimBlockedByGlobalSwitch_def
      proof (rule wp_seq, rule wp_seq, rule wp_readGlobalConfig)
        fix cfg w2
        assume c2: "contents w2 = contents w1" and cfg: "configOf (contents w1) = Inr cfg"
        have Some2: "queueOf (contents w2) i = Some r" using Some c1 c2 by simp
        have "wp (claimOutboxRecord W r owner now) Q E w2" if "\<not> (gc_Disabled cfg \<or> gc_RestoreGuard cfg)"
        proof -
          have step: "claimStep (contents w) i owner now (withClaim r owner now) (contents w')"
            if "queueOf (contents w') = (queueOf (contents w2))(i \<mapsto> withClaim r owner now)"
              "\<not> isOutboxClaimActive r now" for w'
            using that go Some \<open>\<not> (gc_Disabled cfg \<or> gc_RestoreGuard cfg)\<close> cfg c1 c2
            by (auto simp: claimStep_def dispatchable_def dispatchOpen_def)
          show ?thesis
            by (rule wp_claimOutboxRecord [OF _ Some2])
              (use inv c1 c2 step in \<open>auto simp: queueStep_def intro!: assms(2) None E\<close>)
        qed
        then show "wp (retM (gc_Disabled cfg \<or> gc_RestoreGuard cfg))
            (\<lambda>a. wp (if a then retM None else claimOutboxRecord W r owner now) Q E) E w2"
          using None [OF same, of w2] c1 c2 by auto
      qed (use E [OF same] c1 in auto)
      then show ?thesis using go Some by simp
    qed
  qed (use None [OF same [OF c1]] c1 in simp)
qed (use E [OF queueStep_same [OF inv]] in auto)

section \<open>Commits\<close>

lemma wp_commitIfOutboxClaimHeld:
  assumes inv: "outbox_inv (contents w)"
    and held: "\<And>w'. contents w' = contents w \<Longrightarrow> outboxClaimMatches (queueOf (contents w) (ob_ID r)) r \<Longrightarrow>
      wp commit (\<lambda>_. Q True) E w'"
    and lost: "\<And>w'. contents w' = contents w \<Longrightarrow> \<not> outboxClaimMatches (queueOf (contents w) (ob_ID r)) r \<Longrightarrow> Q False w'"
    and E: "\<And>e w'. contents w' = contents w \<Longrightarrow> E e w'"
  shows "wp (commitIfOutboxClaimHeld W r commit) Q E w"
  unfolding commitIfOutboxClaimHeld_def
proof (rule wp_seq, rule queue.wp_get [OF inv])
  fix w' assume c: "contents w' = contents w"
  show "wp (if \<not> outboxClaimMatches (queueOf (contents w) (ob_ID r)) r then retM False
      else bindM commit (\<lambda>_. retM True)) Q E w'"
    using lost [OF c] wp_then_ret [where Q = Q and x = True, OF held [OF c]] by (simp del: wp_bindM)
qed (rule E)

end

section \<open>Outcomes\<close>

text \<open>The contents after the outcome of operation \<open>r\<close>: its record is replaced by \<open>q\<close>, the status \<open>st\<close> is
  recorded, and nothing else changes.\<close>

definition statusKey :: "statusRecord \<Rightarrow> string" where
  "statusKey st = statusStorageKey (st_Path st) (st_AssociationID st) (st_ObjectID st)"

definition withStatus :: "(string \<Rightarrow> entry option) \<Rightarrow> statusRecord \<Rightarrow> string \<Rightarrow> entry option" where
  "withStatus c st = c(statusKey st \<mapsto>
     EStatus (statusUpdate st (statusOf c (st_Path st) (st_AssociationID st) (st_ObjectID st))))"

definition outcome ::
    "(string \<Rightarrow> entry option) \<Rightarrow> string \<Rightarrow> outboxRecord option \<Rightarrow> statusRecord \<Rightarrow> (string \<Rightarrow> entry option) \<Rightarrow> bool" where
  "outcome c i q st d \<longleftrightarrow> outbox_inv d \<and> same_other (withStatus c st) d \<and> queueOf d = (queueOf c)(i := q)"

lemma withStatus_views [simp]:
  "outbox_inv (withStatus c st) = outbox_inv c" "queueOf (withStatus c st) = queueOf c"
  by (simp_all add: withStatus_def statusKey_def)

lemma withStatus_other:
  "same_other c d \<Longrightarrow> same_other (withStatus c st) (withStatus d st)"
  using same_other_views(1) [of c d] by (simp add: withStatus_def same_other_def statusKey_def)

lemma same_other_keep: "same_other c d \<Longrightarrow> same_other (withStatus c st) (withStatus d st)"
  by (rule withStatus_other)

text \<open>The status a failed operation leaves behind.\<close>

definition failureStatus :: "outboxRecord \<Rightarrow> operationFailure \<Rightarrow> time \<Rightarrow> statusRecord" where
  "failureStatus r failure now =
     (let errorClass = (if of_class failure = [] then ErrorClassInternal else of_class failure)
      in zeroStatusRecord \<lparr> st_Path := ob_Path r, st_Version := ob_Version r,
        st_AssociationID := ob_AssociationID r, st_ObjectID := ob_ObjectID r,
        st_DestinationRef := ob_DestinationRef r,
        st_ResolvedName := (if of_resolvedName failure = [] then ob_Path r else of_resolvedName failure),
        st_State := syncStateForFailureClass errorClass, st_PayloadSHA256 := of_payloadSHA256 failure,
        st_LastOperationID := ob_ID r, st_LastErrorClass := errorClass,
        st_LastError := ''dispatch failed: '' @ of_message failure, st_UpdatedTime := formatRFC3339 now \<rparr>)"

definition failureClass :: "operationFailure \<Rightarrow> string" where
  "failureClass failure = (if of_class failure = [] then ErrorClassInternal else of_class failure)"

lemma failedRecord_simps [simp]:
  "ob_ID (failedRecord r cl now) = ob_ID r" "ob_Path (failedRecord r cl now) = ob_Path r"
  "ob_Version (failedRecord r cl now) = ob_Version r"
  "ob_AssociationID (failedRecord r cl now) = ob_AssociationID r"
  "ob_ObjectID (failedRecord r cl now) = ob_ObjectID r"
  "ob_DestinationRef (failedRecord r cl now) = ob_DestinationRef r"
  "ob_Trigger (failedRecord r cl now) = ob_Trigger r"
  by (simp_all add: failedRecord_def clearOutboxClaim_def Let_def)

lemma succeededRecord_simps [simp]:
  "ob_ID (succeededRecord r now) = ob_ID r" "ob_Trigger (succeededRecord r now) = ob_Trigger r"
  by (simp_all add: succeededRecord_def clearOutboxClaim_def)

context bao_storage begin

lemma wp_putStatus_outcome:
  assumes Q: "\<And>w'. contents w' = withStatus (contents w) st \<Longrightarrow> Q () w'"
    and E: "\<And>e w'. contents w' \<in> {contents w, withStatus (contents w) st} \<Longrightarrow> E e w'"
  shows "wp (putStatus W st) Q E w"
  by (rule wp_putStatus) (use Q E in \<open>auto simp: withStatus_def statusKey_def\<close>)

text \<open>A failure: first the record, then the status.\<close>

lemma wp_markOperationFailed:
  assumes inv: "outbox_inv (contents w)" and id: "validID (ob_ID r)" and n: "ob_Trigger r \<noteq> []"
    and Q: "\<And>w'. outcome (contents w) (ob_ID r) (Some (failedRecord r (failureClass failure) now))
      (failureStatus r failure now) (contents w') \<Longrightarrow> Q () w'"
    and E: "\<And>e w'. (outbox_inv (contents w') \<and> same_other (contents w) (contents w') \<and>
        queueOf (contents w') \<in> {queueOf (contents w),
          (queueOf (contents w))(ob_ID r \<mapsto> failedRecord r (failureClass failure) now)}) \<or>
      outcome (contents w) (ob_ID r) (Some (failedRecord r (failureClass failure) now))
        (failureStatus r failure now) (contents w') \<Longrightarrow> E e w'"
  shows "wp (markOperationFailed W r failure now) Q E w"
proof -
  let ?f = "failedRecord r (failureClass failure) now" and ?st = "failureStatus r failure now"
  have norm: "normalizeOutboxDefaults ?f = ?f" using n by (simp add: normal_iff)
  have "wp (bindM (putOutbox W ?f) (\<lambda>_. putStatus W ?st)) Q E w"
  proof (rule wp_seq, rule queue.wp_put [OF inv])
    fix w1
    assume 1: "outbox_inv (contents w1)" "same_other (contents w) (contents w1)"
      "queueOf (contents w1) = (queueOf (contents w))(ob_ID ?f \<mapsto> normalizeOutboxDefaults ?f)"
    have o: "outcome (contents w) (ob_ID r) (Some ?f) ?st (withStatus (contents w1) ?st)"
      using 1 same_other_keep [OF 1(2)] by (simp add: outcome_def norm)
    show "wp (putStatus W ?st) Q E w1"
      by (rule wp_putStatus_outcome) (use 1 norm o in \<open>auto intro!: Q E\<close>)
  qed (use id norm in \<open>auto intro!: E\<close>)
  then show ?thesis
    by (simp add: markOperationFailed_def Let_def failureClass_def failureStatus_def)
qed

text \<open>A success: first the status, then the removal of the record.\<close>

lemma wp_status_then_delete:
  assumes inv: "outbox_inv (contents w)" and id: "validID (ob_ID r)"
    and Q: "\<And>w'. outcome (contents w) (ob_ID r) None st (contents w') \<Longrightarrow> Q () w'"
    and E: "\<And>e w'. contents w' = contents w \<or> outcome (contents w) (ob_ID r) None st (contents w') \<or>
      outcome (contents w) (ob_ID r) (queueOf (contents w) (ob_ID r)) st (contents w') \<Longrightarrow> E e w'"
  shows "wp (bindM (putStatus W st) (\<lambda>_. deleteOutbox W r)) Q E w"
proof (rule wp_seq, rule wp_putStatus_outcome)
  fix w1
  assume c1: "contents w1 = withStatus (contents w) st"
  show "wp (deleteOutbox W r) Q E w1"
    by (rule queue.wp_del) (use inv id c1 in \<open>auto simp: outcome_def intro!: Q E\<close>)
next
  fix e w1
  assume "contents w1 \<in> {contents w, withStatus (contents w) st}"
  then show "E e w1" using inv by (auto simp: outcome_def intro!: E)
qed

end

end
