(* ===== verification/Dispatch_Properties.thy ===== *)
theory Dispatch_Properties
  imports Dispatcher_Laws Samples
begin

text \<open>
  The properties of the dispatcher. They hold for any storage that keeps the laws of \<open>bao_storage\<close>,
  whichever of its calls fail, and for any provider.
\<close>

section \<open>Sample worlds\<close>

definition sampleClaimed :: outboxRecord where
  "sampleClaimed = withClaim (normalizeOutboxDefaults sampleOperation) ''uuid/worker'' (30 * second)"

lemma sampleClaimed_simps [simp]: "ob_ID sampleClaimed = ''op-1''" "ob_Trigger sampleClaimed = ''user''"
  "ob_ClaimOwner sampleClaimed = ''uuid/worker''"
  by (simp_all add: sampleClaimed_def withClaim_def normalizeOutboxDefaults_def sampleOperation_def
      zeroOutboxRecord_def outboxTriggerUser_def)

text \<open>The claim of the sample operation, evaluated once for the witnesses that start from it.\<close>

lemma sampleQueue_claim:
  "fst (claimDispatchableOutboxRecord (memW False) ''op-1'' ''uuid/worker'' (30 * second) sampleQueue) =
     Inr (Some sampleClaimed)"
  unfolding fst_def by code_simp

section \<open>Claims\<close>

text \<open>C1 A worker gets a claim only on work it may take: the operation is queued, due, of a known kind,
  and under no active claim, and the mount is neither disabled nor under the restore guard. A
  granted claim is in the queue, under the worker's name and with the next attempt number, and no
  other record has changed. Without a claim the queue is as before, but for an operation of unknown
  kind, which is discarded. A storage failure leaves one of these two states.\<close>

theorem claim_exclusive:
  assumes "bao_storage W contents" and "outbox_inv (contents w)"
  shows "wp (claimDispatchableOutboxRecord W i owner now)
    (\<lambda>res w'. outbox_inv (contents w') \<and> same_other (contents w) (contents w') \<and>
       (case res of
          Some c \<Rightarrow> \<exists>r. queueOf (contents w) i = Some r \<and> isQueuedOutboxState (ob_State r) \<and>
            outboxDueIndexTime r \<le> formatRFC3339 now \<and> \<not> isOutboxClaimActive r now \<and>
            dispatchOpen (contents w) \<and> ob_ClaimOwner c = owner \<and> ob_ClaimAttempt c = ob_ClaimAttempt r + 1 \<and>
            queueOf (contents w') = (queueOf (contents w))(i \<mapsto> c)
        | None \<Rightarrow> queueOf (contents w') = queueOf (contents w) \<or> discardStep (contents w) i now (contents w')))
    (\<lambda>_ w'. outbox_inv (contents w') \<and> same_other (contents w) (contents w') \<and>
       (queueOf (contents w') = queueOf (contents w) \<or> discardStep (contents w) i now (contents w') \<or>
        (\<exists>c. claimStep (contents w) i owner now c (contents w')))) w"
  by (rule bao_storage.wp_claimDispatchable [OF assms])
    (auto simp: queueStep_def claimStep_def dispatchable_def isDispatchableOutboxState_def
      isQueuedOutboxState_def outboxRecordDue_def)

theorem claim_exclusive_witness:
  "wp (claimDispatchableOutboxRecord (memW False) ''op-1'' ''uuid/worker'' (30 * second))
    (\<lambda>res w'. outbox_inv (memContents w') \<and> same_other (memContents sampleQueue) (memContents w') \<and>
       (case res of
          Some c \<Rightarrow> \<exists>r. queueOf (memContents sampleQueue) ''op-1'' = Some r \<and> isQueuedOutboxState (ob_State r) \<and>
            outboxDueIndexTime r \<le> formatRFC3339 (30 * second) \<and> \<not> isOutboxClaimActive r (30 * second) \<and>
            dispatchOpen (memContents sampleQueue) \<and> ob_ClaimOwner c = ''uuid/worker'' \<and>
            ob_ClaimAttempt c = ob_ClaimAttempt r + 1 \<and>
            queueOf (memContents w') = (queueOf (memContents sampleQueue))(''op-1'' \<mapsto> c)
        | None \<Rightarrow> queueOf (memContents w') = queueOf (memContents sampleQueue) \<or>
            discardStep (memContents sampleQueue) ''op-1'' (30 * second) (memContents w')))
    (\<lambda>_ w'. outbox_inv (memContents w') \<and> same_other (memContents sampleQueue) (memContents w') \<and>
       (queueOf (memContents w') = queueOf (memContents sampleQueue) \<or>
        discardStep (memContents sampleQueue) ''op-1'' (30 * second) (memContents w') \<or>
        (\<exists>c. claimStep (memContents sampleQueue) ''op-1'' ''uuid/worker'' (30 * second) c (memContents w'))))
    sampleQueue \<and>
   fst (claimDispatchableOutboxRecord (memW False) ''op-1'' ''uuid/worker'' (30 * second) sampleQueue) =
     Inr (Some sampleClaimed)"
  by (intro conjI claim_exclusive [OF mem.bao_storage_axioms inv_sampleQueue] sampleQueue_claim)

text \<open>C2 Every outcome is fenced. A worker whose claim was lost while it was at the provider (the
  record is gone, or under another owner, lease or attempt) changes nothing: not the queue, not the
  status, whether it reports a failure, a success, or a canceled operation.\<close>

theorem outcome_fenced:
  assumes "bao_storage W contents" and "outbox_inv (contents w)"
    and lost: "\<And>c. queueOf (contents w) (ob_ID r) = Some c \<Longrightarrow> ob_ClaimOwner r = [] \<or>
      ob_ClaimOwner c \<noteq> ob_ClaimOwner r \<or> ob_ClaimExpiresTime c \<noteq> ob_ClaimExpiresTime r \<or>
      ob_ClaimAttempt c \<noteq> ob_ClaimAttempt r"
    and "m \<in> {markClaimedOperationFailed W r failure now, cancelClaimedOutboxOperation W r,
      commitClaimedUpsertSuccess W r resolvedName payload result now,
      commitClaimedDeleteSuccess W r resolvedName result now}"
  shows "wp m (\<lambda>_ w'. contents w' = contents w) (\<lambda>_ w'. contents w' = contents w) w"
proof -
  have "\<not> outboxClaimMatches (queueOf (contents w) (ob_ID r)) r"
    using lost by (auto simp: outboxClaimMatches_def split: option.splits)
  then have "wp (bindM (commitIfOutboxClaimHeld W r commit) (\<lambda>_. retM ()))
      (\<lambda>_ w'. contents w' = contents w) (\<lambda>_ w'. contents w' = contents w) w" for commit
    by (intro wp_seq, intro bao_storage.wp_commitIfOutboxClaimHeld [OF assms(1,2)]) auto
  then show ?thesis
    using assms(4)
    unfolding markClaimedOperationFailed_def cancelClaimedOutboxOperation_def
      commitClaimedUpsertSuccess_def commitClaimedDeleteSuccess_def Let_def by blast
qed

theorem outcome_fenced_witness:
  "wp (commitClaimedDeleteSuccess (memW False) sampleClaimed ''app/db'' \<lparr> sr_RemoteVersion = ''1'' \<rparr> (30 * second))
    (\<lambda>_ w'. memContents w' = memContents sampleQueue) (\<lambda>_ w'. memContents w' = memContents sampleQueue) sampleQueue"
  by (rule outcome_fenced [where r = sampleClaimed and failure = "failureFor [] [] []" and now = "30 * second" and payload = payload
        and resolvedName = "''app/db''" and result = "\<lparr> sr_RemoteVersion = ''1'' \<rparr>" for payload,
        OF mem.bao_storage_axioms [of False] inv_sampleQueue])
    (simp_all add: sampleQueue_queue normalizeOutboxDefaults_def sampleOperation_def
      zeroOutboxRecord_def)

section \<open>When an operation is due\<close>

lemma zero_time_formatted: "outboxDueZeroTime = formatRFC3339 (- 62135596800 * second)"
  by code_simp

lemma zero_time_first:
  assumes "timeInRange now"
  shows "outboxDueZeroTime \<le> formatRFC3339 now"
proof -
  have "timeInRange (- 62135596800 * second)"
    by (simp add: timeInRange_def second_def unixToAbsDays_def daysBeforeYear_def)
  moreover have "- 62135596800 \<le> now div second"
    using assms mult_div_mod_eq [of 86400 "now div second"] pos_mod_sign [of 86400 "now div second"]
    unfolding timeInRange_def unixToAbsDays_def by linarith
  then have "- 62135596800 * second div second \<le> now div second" by (simp add: second_def)
  ultimately show ?thesis
    unfolding zero_time_formatted using formatRFC3339_le_iff assms by blast
qed

lemma formatted_nonempty: "timeInRange t \<Longrightarrow> formatRFC3339 t \<noteq> []"
  using parse_format [of t] by auto

text \<open>C39 The test on strings by which workers decide whether an operation is due agrees with the clock. An
  operation with the start time that the plugin writes for \<open>t\<close> is due exactly if it is queued and the whole
  seconds of \<open>t\<close> have come, and one without a readable start time is due as soon as it is queued.\<close>

theorem due_matches_clock:
  assumes "timeInRange t" and "timeInRange now" and "parseRFC3339 (ob_NotBefore unreadable) = None"
  shows "outboxRecordDue (r \<lparr> ob_NotBefore := formatRFC3339 t \<rparr>) now =
      (ob_State r \<in> {''pending'', ''retry_wait''} \<and> t div second \<le> now div second) \<and>
    outboxRecordDue unreadable now = (ob_State unreadable \<in> {''pending'', ''retry_wait''})"
  using assms(3) zero_time_first [OF assms(2)] formatRFC3339_le_iff [OF assms(1,2)] parse_format [OF assms(1)]
    formatted_nonempty [OF assms(1)]
  by (simp add: outboxRecordDue_def outboxDueIndexTime_def isQueuedOutboxState_def outbox_states outboxDueZeroTime_def)

theorem due_matches_clock_witness:
  "outboxRecordDue (sampleOperation \<lparr> ob_NotBefore := formatRFC3339 (951782400 * second) \<rparr>) (951782400 * second) \<and>
   \<not> outboxRecordDue (sampleOperation \<lparr> ob_NotBefore := formatRFC3339 (951782400 * second) \<rparr>) (951782399 * second) \<and>
   outboxRecordDue (sampleOperation \<lparr> ob_NotBefore := [] \<rparr>) (951782399 * second)"
proof -
  have "timeInRange (951782400 * second)" "timeInRange (951782399 * second)"
    by (simp_all add: timeInRange_def second_def unixToAbsDays_def daysBeforeYear_def)
  moreover have "ob_State sampleOperation = ''pending''"
    by (simp add: sampleOperation_def outboxStatePending_def)
  ultimately show ?thesis
    using due_matches_clock [of "951782400 * second" "951782400 * second" "sampleOperation \<lparr> ob_NotBefore := [] \<rparr>" sampleOperation]
      due_matches_clock [of "951782400 * second" "951782399 * second" "sampleOperation \<lparr> ob_NotBefore := [] \<rparr>" sampleOperation]
    by (simp add: second_def)
qed

end
