(* ===== verification/Failure_Properties.thy ===== *)
theory Failure_Properties
  imports Dispatch_Properties
begin

text \<open>
  The properties of the dispatcher's failure path (\<open>markClaimedOperationFailed\<close>,
  \<open>shouldRetryAutomatically\<close> and \<open>retryDelay\<close> in \<open>internal/backend/dispatcher.go\<close>): what a failed attempt
  leaves in the queue, and that the attempts of a failing operation come to an end.
\<close>

section \<open>One failed attempt\<close>

definition retried :: "outboxRecord \<Rightarrow> operationFailure \<Rightarrow> bool" where
  "retried r failure \<longleftrightarrow>
     failureClass failure \<in> {ErrorClassRateLimit, ErrorClassUnavailable} \<and> ob_Attempts r + 1 < 3"

text \<open>The records a failed attempt may leave: one more attempt and no claim; a retryable class with
  attempts left waits for 30 seconds times \<open>2 ^ attempts\<close> and at most a fifth more, any other failure is
  terminal.\<close>

definition failedTo :: "outboxRecord \<Rightarrow> operationFailure \<Rightarrow> time \<Rightarrow> outboxRecord \<Rightarrow> bool" where
  "failedTo r failure now q \<longleftrightarrow>
     ob_ID q = ob_ID r \<and> ob_Attempts q = ob_Attempts r + 1 \<and> ob_ClaimOwner q = [] \<and>
     (if retried r failure
      then ob_State q = outboxStateRetryWait \<and>
        (\<exists>d. ob_NotBefore q = formatRFC3339 (now + d) \<and>
           30 * second * 2 ^ nat (ob_Attempts r) \<le> d \<and> 5 * d \<le> 6 * (30 * second * 2 ^ nat (ob_Attempts r)))
      else ob_State q = outboxStateFailedTerminal \<and> ob_NotBefore q = [])"

lemma failedRecord_state:
  "ob_Attempts (failedRecord r cl now) = ob_Attempts r + 1"
  "ob_ClaimOwner (failedRecord r cl now) = []"
  "ob_State (failedRecord r cl now) =
     (if shouldRetryAutomatically cl (ob_Attempts r + 1) then outboxStateRetryWait else outboxStateFailedTerminal)"
  "ob_NotBefore (failedRecord r cl now) =
     (if shouldRetryAutomatically cl (ob_Attempts r + 1)
      then formatRFC3339 (now + retryDelay (r \<lparr> ob_State := outboxStateFailedTerminal, ob_Attempts := ob_Attempts r + 1 \<rparr>))
      else [])"
  by (simp_all add: failedRecord_def clearOutboxClaim_def Let_def)

lemma shouldRetry_iff:
  "shouldRetryAutomatically (failureClass failure) (ob_Attempts r + 1) \<longleftrightarrow> retried r failure"
  by (simp add: shouldRetryAutomatically_def retried_def maxAutomaticRetryAttempts_def)

lemma failedRecord_to:
  assumes "0 \<le> ob_Attempts r"
  shows "failedTo r failure now (failedRecord r (failureClass failure) now)"
proof (cases "retried r failure")
  case True
  let ?q = "r \<lparr> ob_State := outboxStateFailedTerminal, ob_Attempts := ob_Attempts r + 1 \<rparr>"
  have "ob_Attempts r = 0 \<or> ob_Attempts r = 1" using True assms by (auto simp: retried_def)
  then have "30 * second * 2 ^ nat (ob_Attempts r) \<le> retryDelay ?q \<and>
      5 * retryDelay ?q \<le> 6 * (30 * second * 2 ^ nat (ob_Attempts r))"
    using retryDelay_within [of ?q] by (auto simp: retryMaxDelay_def minute_def second_def)
  then show ?thesis using True by (auto simp: failedTo_def failedRecord_state shouldRetry_iff)
qed (simp add: failedTo_def failedRecord_state shouldRetry_iff)

context bao_storage begin

lemma wp_markClaimedFailed:
  assumes inv: "outbox_inv (contents w)" and r: "queueOf (contents w) (ob_ID r) = Some r"
    and o: "ob_ClaimOwner r \<noteq> []" and a: "0 \<le> ob_Attempts r"
    and Q: "\<And>q w'. failedTo r failure now q \<Longrightarrow>
      outcome (contents w) (ob_ID r) (Some q) (failureStatus r failure now) (contents w') \<Longrightarrow> Q () w'"
    and E: "\<And>e q w'. failedTo r failure now q \<Longrightarrow> outbox_inv (contents w') \<Longrightarrow>
      queueOf (contents w') \<in> {queueOf (contents w), (queueOf (contents w))(ob_ID r \<mapsto> q)} \<Longrightarrow> E e w'"
  shows "wp (markClaimedOperationFailed W r failure now) Q E w"
proof -
  note to = failedRecord_to [OF a, of failure now]
  have match: "outboxClaimMatches (Some r) r" using o by (simp add: outboxClaimMatches_def)
  have n: "ob_Trigger r \<noteq> []" using queueOf_normal [OF r] by (simp add: normal_iff)
  have keep: "contents w' = contents w \<Longrightarrow> E e w'" for e w' using E [OF to] inv by simp
  have commit: "wp (markOperationFailed W r failure now) (\<lambda>_ w2. wp (retM ()) Q E w2) E w'"
    if c: "contents w' = contents w" for w'
    by (rule wp_markOperationFailed)
      (use c inv queueOf_id [OF inv r] n in \<open>auto simp: outcome_def intro!: Q [OF to] E [OF to]\<close>)
  show ?thesis
    unfolding markClaimedOperationFailed_def
    by (rule wp_seq, rule wp_commitIfOutboxClaimHeld [OF inv])
      (use r match commit keep in \<open>simp_all del: wp_retM\<close>)
qed

end

text \<open>C5. The outcome of a failed attempt of an operation whose claim is still held: the record gets one more
  attempt and loses its claim. A rate-limited or unavailable provider leads to an automatic retry as
  long as fewer than three attempts were made, due between one and 1.2 times 30 seconds times
  \<open>2 ^ attempts\<close> from now; every other failure is terminal. The status names the failure, and nothing else
  changes. A storage failure on the way never loses the operation nor touches another one.\<close>

theorem failure_recorded:
  assumes "bao_storage W contents" and "outbox_inv (contents w)"
    and "queueOf (contents w) (ob_ID r) = Some r" and "ob_ClaimOwner r \<noteq> []" and "0 \<le> ob_Attempts r"
  shows "wp (markClaimedOperationFailed W r failure now)
    (\<lambda>_ w'. \<exists>q. failedTo r failure now q \<and>
       outcome (contents w) (ob_ID r) (Some q) (failureStatus r failure now) (contents w'))
    (\<lambda>_ w'. \<exists>q. failedTo r failure now q \<and> outbox_inv (contents w') \<and>
       queueOf (contents w') \<in> {queueOf (contents w), (queueOf (contents w))(ob_ID r \<mapsto> q)}) w"
  by (rule bao_storage.wp_markClaimedFailed [OF assms]) blast+

definition sampleTimeout :: operationFailure where
  "sampleTimeout = \<lparr> of_class = ErrorClassUnavailable, of_message = ''timeout'', of_resolvedName = [],
     of_payloadSHA256 = [] \<rparr>"

definition sampleInvalid :: operationFailure where
  "sampleInvalid = \<lparr> of_class = ErrorClassValidation, of_message = ''too large'', of_resolvedName = [],
     of_payloadSHA256 = [] \<rparr>"

definition claimedQueue :: mem where
  "claimedQueue = snd (claimDispatchableOutboxRecord (memW False) ''op-1'' ''uuid/worker'' (30 * second) sampleQueue)"

lemma inv_claimedQueue: "outbox_inv (memContents claimedQueue)"
proof -
  have "wp (claimDispatchableOutboxRecord (memW False) ''op-1'' ''uuid/worker'' (30 * second))
      (\<lambda>_ w. outbox_inv (memContents w)) (\<lambda>_ w. outbox_inv (memContents w)) sampleQueue"
    by (rule mem.wp_claimDispatchable [OF inv_sampleQueue]) (auto simp: queueStep_def)
  then show ?thesis unfolding claimedQueue_def wp_snd .
qed

lemma claimedQueue_queue: "queueOf (memContents claimedQueue) ''op-1'' = Some sampleClaimed"
proof -
  have "wp (claimDispatchableOutboxRecord (memW False) ''op-1'' ''uuid/worker'' (30 * second))
      (\<lambda>res w. \<forall>c. res = Some c \<longrightarrow> queueOf (memContents w) ''op-1'' = Some c) (\<lambda>_ _. True) sampleQueue"
    by (rule mem.wp_claimDispatchable [OF inv_sampleQueue]) (auto simp: claimStep_def)
  then show ?thesis
    using sampleQueue_claim by (simp add: wp_def claimedQueue_def split: prod.splits)
qed

theorem failure_recorded_witness:
  "wp (markClaimedOperationFailed (memW False) sampleClaimed sampleTimeout (40 * second))
    (\<lambda>_ w'. \<exists>q. failedTo sampleClaimed sampleTimeout (40 * second) q \<and>
       outcome (memContents claimedQueue) ''op-1'' (Some q) (failureStatus sampleClaimed sampleTimeout (40 * second))
         (memContents w'))
    (\<lambda>_ w'. \<exists>q. failedTo sampleClaimed sampleTimeout (40 * second) q \<and> outbox_inv (memContents w') \<and>
       queueOf (memContents w') \<in> {queueOf (memContents claimedQueue),
         (queueOf (memContents claimedQueue))(''op-1'' \<mapsto> q)}) claimedQueue \<and>
   retried sampleClaimed sampleTimeout \<and>
   \<not> retried sampleClaimed sampleInvalid"
proof (intro conjI)
  have "0 \<le> ob_Attempts sampleClaimed"
    by (simp add: sampleClaimed_def withClaim_def normalizeOutboxDefaults_def sampleOperation_def zeroOutboxRecord_def)
  then show "wp (markClaimedOperationFailed (memW False) sampleClaimed sampleTimeout (40 * second))
    (\<lambda>_ w'. \<exists>q. failedTo sampleClaimed sampleTimeout (40 * second) q \<and>
       outcome (memContents claimedQueue) ''op-1'' (Some q) (failureStatus sampleClaimed sampleTimeout (40 * second))
         (memContents w'))
    (\<lambda>_ w'. \<exists>q. failedTo sampleClaimed sampleTimeout (40 * second) q \<and> outbox_inv (memContents w') \<and>
       queueOf (memContents w') \<in> {queueOf (memContents claimedQueue),
         (queueOf (memContents claimedQueue))(''op-1'' \<mapsto> q)}) claimedQueue"
    using failure_recorded [OF mem.bao_storage_axioms [of False] inv_claimedQueue, of sampleClaimed]
    by (simp add: claimedQueue_queue)
  show "retried sampleClaimed sampleTimeout"
    by (simp add: retried_def failureClass_def sampleTimeout_def ErrorClassUnavailable_def sampleClaimed_def withClaim_def
        normalizeOutboxDefaults_def sampleOperation_def zeroOutboxRecord_def)
  show "\<not> retried sampleClaimed sampleInvalid"
    by (simp add: retried_def failureClass_def sampleInvalid_def ErrorClassValidation_def ErrorClassUnavailable_def
        ErrorClassRateLimit_def)
qed

section \<open>All attempts\<close>

text \<open>Rounds of a worker on one operation while the provider keeps failing: the failure and the time of
  each round are arbitrary. The result counts the attempts.\<close>

fun failingRounds ::
    "'w world \<Rightarrow> string \<Rightarrow> string \<Rightarrow> (operationFailure \<times> time) list \<Rightarrow> nat \<Rightarrow> ('w, nat) io" where
  "failingRounds W i owner [] n = retM n"
| "failingRounds W i owner ((failure, now) # rounds) n =
     bindM (claimDispatchableOutboxRecord W i owner now) (\<lambda>claimed.
       case claimed of
         None \<Rightarrow> failingRounds W i owner rounds n
       | Some r \<Rightarrow> bindM (markClaimedOperationFailed W r failure now) (\<lambda>_.
           failingRounds W i owner rounds (n + 1)))"

text \<open>After \<open>n\<close> attempts the record, where it is still there, counts them, and it is only queued while
  further automatic attempts are left.\<close>

definition attempted :: "outboxRecord \<Rightarrow> nat \<Rightarrow> outboxRecord option \<Rightarrow> bool" where
  "attempted r n q \<longleftrightarrow> int n \<le> max 1 (3 - ob_Attempts r) \<and>
     (case q of None \<Rightarrow> True
      | Some q \<Rightarrow> ob_Attempts q = ob_Attempts r + int n \<and>
          (0 < n \<longrightarrow> isQueuedOutboxState (ob_State q) \<longrightarrow> ob_Attempts q < 3))"

lemma attempted_failed:
  assumes "attempted r n (Some q)" and "isQueuedOutboxState (ob_State q)"
    and "failedTo (withClaim q owner now) failure now q'"
  shows "attempted r (n + 1) (Some q')"
proof -
  have at: "ob_Attempts (withClaim q owner now) = ob_Attempts q" by (simp add: withClaim_def)
  have "ob_State q' = outboxStateFailedTerminal \<or> ob_Attempts q + 1 < 3"
    using assms(3) at by (auto simp: failedTo_def retried_def split: if_splits)
  moreover have "\<not> isQueuedOutboxState outboxStateFailedTerminal"
    by (simp add: isQueuedOutboxState_def outbox_states)
  ultimately show ?thesis
    using assms at by (cases "n = 0") (auto simp: attempted_def failedTo_def)
qed

context bao_storage begin

lemma wp_failingRounds:
  assumes "outbox_inv (contents w)" and "attempted r n (queueOf (contents w) i)" and "0 \<le> ob_Attempts r"
    and "owner \<noteq> []"
  shows "wp (failingRounds W i owner rounds n)
    (\<lambda>m w'. attempted r m (queueOf (contents w') i)) (\<lambda>_ _. True) w"
  using assms(1,2)
proof (induction rounds arbitrary: n w)
  case (Cons round rounds)
  obtain failure now where round: "round = (failure, now)" by (cases round)
  have step: "wp (bindM (markClaimedOperationFailed W c failure now)
      (\<lambda>_. failingRounds W i owner rounds (n + 1)))
      (\<lambda>m w'. attempted r m (queueOf (contents w') i)) (\<lambda>_ _. True) w1"
    if q: "queueStep (contents w) (contents w1)" "claimStep (contents w) i owner now c (contents w1)" for c w1
  proof -
    obtain q where q0: "queueOf (contents w) i = Some q" "isQueuedOutboxState (ob_State q)"
        "c = withClaim q owner now" "queueOf (contents w1) = (queueOf (contents w))(i \<mapsto> c)"
      using q(2) by (auto simp: claimStep_def dispatchable_def isDispatchableOutboxState_def isQueuedOutboxState_def)
    have id: "ob_ID c = i" using queueOf_id [OF Cons.prems(1) q0(1)] q0(3) by simp
    have at: "attempted r n (Some q)" using Cons.prems(2) q0(1) by simp
    then have pos: "0 \<le> ob_Attempts c" using q0(3) assms(3) by (simp add: attempted_def withClaim_def)
    show ?thesis
    proof (rule wp_seq, rule wp_markClaimedFailed)
      fix q' w2
      assume f: "failedTo c failure now q'"
        and out: "outcome (contents w1) (ob_ID c) (Some q') (failureStatus c failure now) (contents w2)"
      show "wp (failingRounds W i owner rounds (n + 1))
          (\<lambda>m w'. attempted r m (queueOf (contents w') i)) (\<lambda>_ _. True) w2"
        by (rule Cons.IH)
          (use out id attempted_failed [OF at q0(2)] f q0(3) in \<open>auto simp: outcome_def\<close>)
    qed (use q q0 id pos assms(4) in \<open>auto simp: queueStep_def\<close>)
  qed
  have none: "wp (failingRounds W i owner rounds n)
      (\<lambda>m w'. attempted r m (queueOf (contents w') i)) (\<lambda>_ _. True) w1"
    if "queueStep (contents w) (contents w1)"
      "queueOf (contents w1) = queueOf (contents w) \<or> discardStep (contents w) i now (contents w1)" for w1
    by (rule Cons.IH) (use that Cons.prems in \<open>auto simp: queueStep_def discardStep_def attempted_def\<close>)
  show ?case
    unfolding round failingRounds.simps
    by (rule wp_seq, rule wp_claimDispatchable [OF Cons.prems(1)]) (simp_all only: option.case step none)
qed simp

end

text \<open>C6. The automatic retries of an operation end: however many rounds the workers take, however the
  provider fails and whatever the clock says, a failing operation without previous attempts is
  tried at most three times, and after the third time it is no longer queued. An operation that
  starts with three or more attempts gets one more.\<close>

theorem retries_end:
  assumes "bao_storage W contents" and "outbox_inv (contents w)"
    and "queueOf (contents w) i = Some r" and "0 \<le> ob_Attempts r" and "owner \<noteq> []"
  shows "wp (failingRounds W i owner rounds 0)
    (\<lambda>m w'. int m \<le> max 1 (3 - ob_Attempts r) \<and>
       (\<forall>q. queueOf (contents w') i = Some q \<and> 0 < m \<and> 3 \<le> ob_Attempts r + int m \<longrightarrow>
          \<not> isQueuedOutboxState (ob_State q)))
    (\<lambda>_ _. True) w"
proof -
  have "attempted r 0 (queueOf (contents w) i)" using assms(3) by (simp add: attempted_def)
  from bao_storage.wp_failingRounds [OF assms(1,2) this assms(4,5)] show ?thesis
    by (rule wp_mono) (auto simp: attempted_def split: option.splits)
qed

text \<open>Five rounds, an hour apart, with a provider that is unavailable.\<close>

theorem retries_end_witness:
  "wp (failingRounds (memW False) ''op-1'' ''uuid/worker''
     (map (\<lambda>n. (sampleTimeout, n * 3600 * second)) [1, 2, 3, 4, 5]) 0)
    (\<lambda>m w'. int m \<le> 3 \<and>
       (\<forall>q. queueOf (memContents w') ''op-1'' = Some q \<and> 0 < m \<and> 3 \<le> int m \<longrightarrow>
          \<not> isQueuedOutboxState (ob_State q)))
    (\<lambda>_ _. True) sampleQueue"
  using retries_end [OF mem.bao_storage_axioms [of False] inv_sampleQueue sampleQueue_queue(1),
    of "''uuid/worker''" "map (\<lambda>n. (sampleTimeout, n * 3600 * second)) [1, 2, 3, 4, 5]"]
  by (simp add: normalizeOutboxDefaults_def sampleOperation_def zeroOutboxRecord_def del: failingRounds.simps)

end
