(* ===== verification/Go_Runes.thy ===== *)
theory Go_Runes
  imports Payload
begin

text \<open>
  Strings as Go's \<open>for _, char := range s\<close> reads them: a sequence of runes, where a byte that starts
  no valid UTF-8 sequence is read as the replacement character U+FFFD (package \<open>unicode/utf8\<close>), and
  package \<open>strconv\<close> for booleans.
\<close>

section \<open>Runes\<close>

definition replacementRune :: string where
  "replacementRune = map char_of [239, 191, 189 :: nat]"

text \<open>The runes of a string, each as its UTF-8 encoding.\<close>

function runes :: "string \<Rightarrow> string list" where
  "runes [] = []"
| "runes (c # s) =
     (case runeLength (c # s) of
        0 \<Rightarrow> replacementRune # runes s
      | Suc k \<Rightarrow> (c # take k s) # runes (drop k s))"
  by pat_completeness auto
termination
  by (relation "measure length") auto

declare runes.simps [simp del]

definition isRune :: "string \<Rightarrow> bool" where
  "isRune r \<longleftrightarrow> r \<noteq> [] \<and> runeLength r = length r"

text \<open>\<open>utf8.Valid\<close> and \<open>utf8.RuneCountInString\<close>.\<close>

function validUTF8 :: "string \<Rightarrow> bool" where
  "validUTF8 [] = True"
| "validUTF8 (c # s) = (case runeLength (c # s) of 0 \<Rightarrow> False | Suc k \<Rightarrow> validUTF8 (drop k s))"
  by pat_completeness auto
termination
  by (relation "measure length") auto

declare validUTF8.simps [simp del]

definition runeCount :: "string \<Rightarrow> int" where
  "runeCount s = int (length (runes s))"

text \<open>\<open>strings.ContainsFunc(s, unicode.IsSpace)\<close>.\<close>

definition containsSpace :: "string \<Rightarrow> bool" where
  "containsSpace s \<longleftrightarrow> list_ex (\<lambda>r. r \<in> set spaceRunes) (runes s)"

lemma runeLength_le: "runeLength s \<le> length s"
  by (auto simp: runeLength_def split: list.splits)

lemma inByteRange_disjoint:
  "inByteRange lo hi c \<Longrightarrow> hi < lo' \<Longrightarrow> \<not> inByteRange lo' hi' c"
  "inByteRange lo' hi' c \<Longrightarrow> hi < lo' \<Longrightarrow> \<not> inByteRange lo hi c"
  by (auto simp: inByteRange_def)

text \<open>The length of the first rune depends only on its own bytes.\<close>

lemma runeLength_forms:
  "runeLength [] = 0"
  "runeLength [a] = (if inByteRange 0 127 a then 1 else 0)"
  "runeLength [a, b] = (if inByteRange 0 127 a then 1
     else if inByteRange 194 223 a then (if inByteRange 128 191 b then 2 else 0) else 0)"
  by (simp_all add: runeLength_def)

lemma runeLength_extend:
  assumes "runeLength r = length r" and "r \<noteq> []"
  shows "runeLength (r @ s) = length r"
proof (cases r)
  case a: (Cons a r1)
  show ?thesis
  proof (cases r1)
    case Nil
    then show ?thesis using a assms by (simp add: runeLength_def split: if_splits)
  next
    case b: (Cons b r2)
    show ?thesis
    proof (cases r2)
      case Nil
      then show ?thesis using a b assms by (simp add: runeLength_def split: if_splits)
    next
      case c: (Cons c r3)
      have na: "\<not> inByteRange 0 127 a" "\<not> inByteRange 194 223 a"
        using a b c assms(1) by (auto simp: runeLength_def split: if_splits)
      show ?thesis
        using a b c assms(1) na by (cases r3) (simp_all add: runeLength_def split: if_split_asm)
    qed
  qed
qed (use assms in simp)

lemma runeLength_take:
  assumes "runeLength s = Suc k"
  shows "isRune (take (Suc k) s)"
proof -
  have take: "runeLength (take (runeLength s) s) = runeLength s"
  proof (cases s)
    case a: (Cons a r1)
    show ?thesis
    proof (cases r1)
      case Nil
      then show ?thesis using a by (simp add: runeLength_def)
    next
      case b: (Cons b r2)
      show ?thesis
      proof (cases r2)
        case Nil
        then show ?thesis using a b by (simp add: runeLength_def)
      next
        case c: (Cons c r3)
        show ?thesis
          using a b c by (cases r3) (simp_all add: runeLength_def)
      qed
    qed
  qed (simp add: runeLength_def)
  have "Suc k \<le> length s"
    using runeLength_le [of s] assms by simp
  then show ?thesis
    using take assms by (cases s) (auto simp: isRune_def)
qed

lemma runes_Cons_rune: "isRune r \<Longrightarrow> runes (r @ s) = r # runes s"
proof -
  assume r: "isRune r"
  then obtain c t where ct: "r = c # t"
    by (cases r) (auto simp: isRune_def)
  with r have "runeLength (c # t @ s) = Suc (length t)"
    using runeLength_extend [of r s] by (simp add: isRune_def)
  with ct show ?thesis by (simp add: runes.simps)
qed

lemma runes_concat: "list_all isRune rs \<Longrightarrow> runes (concat rs) = rs"
  by (induction rs) (simp_all add: runes.simps(1) runes_Cons_rune)

lemma runes_append:
  "list_all isRune rs \<Longrightarrow> runes (concat rs @ s) = rs @ runes s"
  by (induction rs) (simp_all add: runes_Cons_rune)

lemma valid_runes:
  "validUTF8 s \<Longrightarrow> list_all isRune (runes s) \<and> concat (runes s) = s"
proof (induction s rule: validUTF8.induct)
  case (2 c s)
  then obtain k where k: "runeLength (c # s) = Suc k" and v: "validUTF8 (drop k s)"
    by (auto simp: validUTF8.simps split: nat.splits)
  have "k \<le> length s"
    using runeLength_le [of "c # s"] k by simp
  moreover have "isRune (c # take k s)"
    using runeLength_take [OF k] by simp
  ultimately show ?case
    using 2(1) [OF k v] k by (simp add: runes.simps)
qed (simp add: runes.simps)

text \<open>A rune is one ASCII character or a sequence of bytes that are not ASCII.\<close>

lemma isRune_cases:
  assumes "isRune r"
  shows "(\<exists>c. r = [c]) \<or> (\<forall>c \<in> set r. 128 \<le> (of_char c :: nat))"
  using assms
  by (auto simp: isRune_def runeLength_def inByteRange_def split: list.splits if_splits)

lemma isRune_ascii: "(of_char c :: nat) < 128 \<Longrightarrow> isRune [c]"
  by (simp add: isRune_def runeLength_def inByteRange_def)

lemma isRune_ascii_only: "isRune r \<Longrightarrow> c \<in> set r \<Longrightarrow> (of_char c :: nat) < 128 \<Longrightarrow> r = [c]"
  using isRune_cases [of r] by fastforce

section \<open>Booleans of package strconv\<close>

definition parseBool :: "string \<Rightarrow> bool option" where
  "parseBool s =
     (if s \<in> set [''1'', ''t'', ''T'', ''true'', ''TRUE'', ''True''] then Some True
      else if s \<in> set [''0'', ''f'', ''F'', ''false'', ''FALSE'', ''False''] then Some False
      else None)"

definition formatBool :: "bool \<Rightarrow> string" where
  "formatBool b = (if b then ''true'' else ''false'')"

lemma parseBool_formatBool [simp]: "parseBool (formatBool b) = Some b"
  by (simp add: parseBool_def formatBool_def)

end
