(* ===== verification/Provider_Contract.thy ===== *)
theory Provider_Contract
  imports Diagnostics Go_Runes
begin

text \<open>
  What every destination provider shares: the identity that owns a remote object
  (\<open>internal/providers/provider.go\<close>), the helpers of \<open>internal/providers/providerutil\<close>, and the fake
  provider of \<open>internal/providers/fake\<close>. A Go map of strings is an association list, and \<open>mapGet\<close> is
  \<open>m[k]\<close>, the empty string if there is no such key.
\<close>

definition mapGet :: "(string \<times> string) list \<Rightarrow> string \<Rightarrow> string" where
  "mapGet m k = (case map_of m k of Some v \<Rightarrow> v | None \<Rightarrow> [])"

lemma mapGet_simps [simp]:
  "mapGet [] k = []"
  "mapGet ((k', v) # m) k = (if k = k' then v else mapGet m k)"
  by (simp_all add: mapGet_def)

section \<open>Plans, verification and identities\<close>

definition PlanActionBlocked :: string where "PlanActionBlocked = ''blocked''"
definition PlanActionCreate :: string where "PlanActionCreate = ''create''"
definition PlanActionUpdate :: string where "PlanActionUpdate = ''update''"
definition PlanActionNoop :: string where "PlanActionNoop = ''noop''"
definition PlanActionConflict :: string where "PlanActionConflict = ''conflict''"

definition RemoteStateVerificationValue :: string where "RemoteStateVerificationValue = ''value''"
definition RemoteStateVerificationMetadata :: string where "RemoteStateVerificationMetadata = ''metadata''"

lemmas plan_actions =
  PlanActionBlocked_def PlanActionCreate_def PlanActionUpdate_def PlanActionNoop_def PlanActionConflict_def

record requestIdentity =
  id_AssociationID :: string
  id_SourcePath :: string
  id_ObjectID :: string
  id_MountUUID :: string
  id_RestoreEpoch :: string

definition identityComplete :: "requestIdentity \<Rightarrow> bool" where
  "identityComplete i \<longleftrightarrow> id_AssociationID i \<noteq> [] \<and> id_SourcePath i \<noteq> [] \<and> id_ObjectID i \<noteq> [] \<and>
     id_MountUUID i \<noteq> [] \<and> id_RestoreEpoch i \<noteq> []"

definition requestIdentityOf :: "runtimeIdentity \<Rightarrow> string \<Rightarrow> string \<Rightarrow> string \<Rightarrow> requestIdentity" where
  "requestIdentityOf runtime associationID sourcePath objectID =
     \<lparr> id_AssociationID = associationID, id_SourcePath = sourcePath, id_ObjectID = objectID,
       id_MountUUID = ri_MountUUID runtime, id_RestoreEpoch = ri_RestoreEpoch runtime \<rparr>"

definition planIdentity :: "planRequest \<Rightarrow> requestIdentity" where
  "planIdentity r = requestIdentityOf (pq_Runtime r) (pq_AssociationID r) (pq_SourcePath r) (pq_ObjectID r)"

definition upsertIdentity :: "upsertRequest \<Rightarrow> requestIdentity" where
  "upsertIdentity r = requestIdentityOf (ur_Runtime r) (ur_AssociationID r) (ur_SourcePath r) (ur_ObjectID r)"

definition deleteIdentity :: "deleteRequest \<Rightarrow> requestIdentity" where
  "deleteIdentity r = requestIdentityOf (dr_Runtime r) (dr_AssociationID r) (dr_SourcePath r) (dr_ObjectID r)"

definition readStateIdentity :: "readStateRequest \<Rightarrow> requestIdentity" where
  "readStateIdentity r = requestIdentityOf (rr_Runtime r) (rr_AssociationID r) (rr_SourcePath r) (rr_ObjectID r)"

lemmas identity_defs =
  requestIdentityOf_def planIdentity_def upsertIdentity_def deleteIdentity_def readStateIdentity_def

definition zeroRemoteState :: remoteState where
  "zeroRemoteState = \<lparr> rs_Exists = False, rs_OwnershipKnown = False, rs_Owned = False, rs_PayloadSHA256 = [],
     rs_SourceVersion = 0, rs_RemoteVersion = [], rs_Verification = [] \<rparr>"

definition actionPlan :: "string \<Rightarrow> planResult" where
  "actionPlan action = \<lparr> pr_Action = action, pr_Message = [], pr_ErrorClass = [] \<rparr>"

section \<open>Errors of a provider\<close>

text \<open>
  \<open>ProviderError class message\<close> is a \<open>*providers.Error\<close>, \<open>PlainError\<close> any other error. A provider
  operation returns one of these or a value; the core sees the class only (\<open>providerErr\<close>).
\<close>

datatype providerError = ProviderError string string | PlainError string | CanceledError

fun providerErrorText :: "providerError \<Rightarrow> string" where
  "providerErrorText (ProviderError c m) = (if m = [] then c else m)"
| "providerErrorText (PlainError m) = m"
| "providerErrorText CanceledError = ''context canceled''"

fun providerErr :: "providerError \<Rightarrow> gerr" where
  "providerErr (ProviderError c m) = ErrProvider c"
| "providerErr (PlainError m) = Errorf m []"
| "providerErr CanceledError = ErrContext ''context canceled''"

text \<open>Sequencing of fallible steps with any type of error.\<close>

definition andThen :: "'e + 'a \<Rightarrow> ('a \<Rightarrow> 'e + 'b) \<Rightarrow> 'e + 'b" where
  "andThen r f = (case r of Inl e \<Rightarrow> Inl e | Inr a \<Rightarrow> f a)"

lemma andThen_simps [simp]: "andThen (Inl e) f = Inl e" "andThen (Inr a) f = f a"
  by (simp_all add: andThen_def)

lemma andThen_Inr: "andThen r f = Inr b \<longleftrightarrow> (\<exists>a. r = Inr a \<and> f a = Inr b)"
  by (cases r) auto

section \<open>The helpers of a provider\<close>

definition configValue :: "(string \<times> string) list \<Rightarrow> string \<Rightarrow> string" where
  "configValue config key = trimSpace (mapGet config key)"

definition validationError :: "string \<Rightarrow> providerError" where
  "validationError message = ProviderError ErrorClassValidation message"

definition boolConfigValue ::
    "string \<Rightarrow> (string \<times> string) list \<Rightarrow> string \<Rightarrow> bool \<Rightarrow> providerError + bool" where
  "boolConfigValue pre config key fallback =
     (let v = configValue config key
      in if v = [] then Inr fallback
         else (case parseBool v of
                 Some b \<Rightarrow> Inr b
               | None \<Rightarrow> Inl (validationError (pre @ '' '' @ key @ '' must be true or false''))))"

definition providerBlockedPlan :: "string \<Rightarrow> string \<Rightarrow> planResult" where
  "providerBlockedPlan pre errorClass =
     \<lparr> pr_Action = PlanActionBlocked, pr_Message = pre @ '' provider plan failed'', pr_ErrorClass = errorClass \<rparr>"

definition requestFailed :: "string \<Rightarrow> string \<Rightarrow> providerError" where
  "requestFailed pre errorClass = ProviderError errorClass (pre @ '' request failed'')"

fun setupErrorClass :: "providerError \<Rightarrow> string" where
  "setupErrorClass (ProviderError c m) = (if c \<noteq> [] then c else ErrorClassInternal)"
| "setupErrorClass (PlainError m) = ErrorClassInternal"
| "setupErrorClass CanceledError = ErrorClassInternal"

definition stringDefault :: "string \<Rightarrow> string \<Rightarrow> string" where
  "stringDefault v fallback = (if v = [] then fallback else v)"

section \<open>The fake provider\<close>

definition fakeCapabilities :: capabilities where
  "fakeCapabilities = \<lparr> cp_SupportsValueReadback = True, cp_SupportsMetadataReadback = True,
     cp_SupportsPayloadHashMetadata = True, cp_SupportsUpdateIfOwned = True, cp_SupportsDeleteIfOwned = True,
     cp_SupportsSecretPath = True, cp_SupportsSecretKey = True, cp_SupportsDataMap = False,
     cp_MaxPayloadBytes = 1024 * 1024 \<rparr>"

definition fakeValidateConfig :: "providerDestinationConfig \<Rightarrow> providerError + unit" where
  "fakeValidateConfig cfg =
     (if containsStr (dc_Name cfg) ''invalid''
      then Inl (ProviderError ErrorClassValidation ''fake destination config invalid'')
      else if containsStr (dc_Name cfg) ''authn''
      then Inl (ProviderError ErrorClassAuthn ''fake destination authentication failed'')
      else if containsStr (dc_Name cfg) ''authz''
      then Inl (ProviderError ErrorClassAuthz ''fake destination authorization failed'')
      else Inr ())"

definition fakeNormalizeAssociationConfig :: "associationConfig \<Rightarrow> providerError + associationConfig" where
  "fakeNormalizeAssociationConfig cfg =
     (if ac_Config cfg \<noteq> []
      then Inl (ProviderError ErrorClassValidation ''fake provider does not support association configuration'')
      else Inr \<lparr> ac_Config = [], ac_Identity = [] \<rparr>)"

text \<open>The runtime of the fake provider is the name of its destination.\<close>

definition fakeOpenDestination :: "providerDestinationConfig \<Rightarrow> providerError + string" where
  "fakeOpenDestination cfg = andThen (fakeValidateConfig cfg) (\<lambda>_. Inr (dc_Name cfg))"

definition fakeHealth :: "string \<Rightarrow> healthResult" where
  "fakeHealth destinationName =
     (if containsStr destinationName ''unhealthy''
      then \<lparr> hr_Healthy = False, hr_Message = ''fake destination is unavailable'', hr_ErrorClass = ErrorClassUnavailable \<rparr>
      else \<lparr> hr_Healthy = True, hr_Message = [], hr_ErrorClass = [] \<rparr>)"

definition fakePlan :: "planRequest \<Rightarrow> planResult" where
  "fakePlan req =
     (let name = pq_ResolvedName req
      in if containsStr name ''blocked''
         then \<lparr> pr_Action = PlanActionBlocked, pr_Message = ''fake provider blocked the requested operation'',
                pr_ErrorClass = ErrorClassValidation \<rparr>
         else if containsStr name ''conflict''
         then \<lparr> pr_Action = PlanActionConflict, pr_Message = ''fake provider detected a remote collision'',
                pr_ErrorClass = ErrorClassCollision \<rparr>
         else if containsStr name ''update'' then actionPlan PlanActionUpdate
         else if containsStr name ''noop'' then actionPlan PlanActionNoop
         else actionPlan PlanActionCreate)"

definition fakeMutationErrors :: "(string \<times> providerError) list" where
  "fakeMutationErrors =
     [(''context-canceled'', CanceledError),
      (''validation'', ProviderError ErrorClassValidation ''fake validation failure''),
      (''authn'', ProviderError ErrorClassAuthn ''fake authentication failure''),
      (''authz'', ProviderError ErrorClassAuthz ''fake authorization failure''),
      (''rate-limit'', ProviderError ErrorClassRateLimit ''fake rate limit''),
      (''unavailable'', ProviderError ErrorClassUnavailable ''fake unavailable''),
      (''ownership'', ProviderError ErrorClassOwnership ''fake ownership failure''),
      (''collision'', ProviderError ErrorClassCollision ''fake collision''),
      (''drift'', ProviderError ErrorClassDrift ''fake remote drift'')]"

definition fakeMutationError :: "string \<Rightarrow> providerError option" where
  "fakeMutationError resolvedName =
     map_option snd (find (\<lambda>(part, e). containsStr resolvedName part) fakeMutationErrors)"

definition fakeUpsert :: "upsertRequest \<Rightarrow> providerError + syncResult" where
  "fakeUpsert req =
     (if cp_MaxPayloadBytes fakeCapabilities < int (length (ur_Payload req))
      then Inl (ProviderError ErrorClassCapacity ''fake payload too large'')
      else (case fakeMutationError (ur_ResolvedName req) of
              Some e \<Rightarrow> Inl e
            | None \<Rightarrow> Inr \<lparr> sr_RemoteVersion = ''fake'' \<rparr>))"

definition fakeDelete :: "deleteRequest \<Rightarrow> providerError + syncResult" where
  "fakeDelete req =
     (if containsStr (dr_ResolvedName req) ''missing'' then Inr \<lparr> sr_RemoteVersion = ''missing'' \<rparr>
      else (case fakeMutationError (dr_ResolvedName req) of
              Some e \<Rightarrow> Inl e
            | None \<Rightarrow> Inr \<lparr> sr_RemoteVersion = ''deleted'' \<rparr>))"

definition fakeOwnedState :: "string \<Rightarrow> int \<Rightarrow> remoteState" where
  "fakeOwnedState hash version =
     \<lparr> rs_Exists = True, rs_OwnershipKnown = True, rs_Owned = True, rs_PayloadSHA256 = hash,
       rs_SourceVersion = version, rs_RemoteVersion = ''fake'', rs_Verification = RemoteStateVerificationValue \<rparr>"

definition fakeReadState :: "readStateRequest \<Rightarrow> providerError + remoteState" where
  "fakeReadState req =
     (let name = rr_ResolvedName req
      in if containsStr name ''missing'' then Inr zeroRemoteState
         else if containsStr name ''ownership''
         then Inr (zeroRemoteState \<lparr> rs_Exists := True, rs_OwnershipKnown := True \<rparr>)
         else if containsStr name ''drift-newer''
         then Inr (fakeOwnedState ''sha256:remote'' (rr_SourceVersion req + 1))
         else if containsStr name ''drift''
         then Inr (fakeOwnedState ''sha256:remote'' (rr_SourceVersion req))
         else (case fakeMutationError name of
                 Some e \<Rightarrow> Inl e
               | None \<Rightarrow> Inr (fakeOwnedState (rr_PayloadSHA256 req) (rr_SourceVersion req))))"

end
