(* ===== verification/Destination_Fields.thy ===== *)
theory Destination_Fields
  imports Dispatcher Provider_Contract
begin

text \<open>
  Configuration of a destination from request fields (\<open>internal/backend/path_destinations.go\<close>): which
  fields belong to which provider type, the merge of a request with the stored configuration, and the
  allowed prefixes.
\<close>

definition providerTypeAWS :: string where "providerTypeAWS = ''aws-sm''"
definition providerTypeGitLab :: string where "providerTypeGitLab = ''gitlab''"
definition providerTypeKubernetes :: string where "providerTypeKubernetes = ''k8s''"

lemmas provider_types = providerTypeAWS_def providerTypeGitLab_def providerTypeKubernetes_def

definition destinationConfigFieldKeys :: "string list" where
  "destinationConfigFieldKeys =
     [''region'', ''endpoint_url'', ''endpoint_policy'', ''auth_mode'', ''role_arn'', ''session_name'',
      ''web_identity_token_file'', ''value_drift_detection'', ''base_url'', ''project_id'',
      ''allow_insecure_http'', ''allow_private_network'', ''namespace'', ''kubeconfig_path'', ''context'',
      ''api_server'', ''allow_private_api_server'', ''ca_cert_pem'', ''tls_server_name'']"

definition destinationConfigFieldKeysByType :: "(string \<times> string list) list" where
  "destinationConfigFieldKeysByType =
     [(providerTypeAWS,
       [''region'', ''endpoint_url'', ''endpoint_policy'', ''auth_mode'', ''role_arn'', ''session_name'',
        ''web_identity_token_file'', ''value_drift_detection'']),
      (providerTypeGitLab,
       [''base_url'', ''project_id'', ''allow_insecure_http'', ''allow_private_network'']),
      (providerTypeKubernetes,
       [''namespace'', ''kubeconfig_path'', ''context'', ''auth_mode'', ''api_server'',
        ''allow_private_api_server'', ''ca_cert_pem'', ''tls_server_name''])]"

definition destinationSensitiveConfigFieldKeysByType :: "(string \<times> string list) list" where
  "destinationSensitiveConfigFieldKeysByType =
     [(providerTypeAWS, [''external_id'']), (providerTypeGitLab, [''token'']), (providerTypeKubernetes, [''token''])]"

definition destinationConfigFieldKeysForType :: "string \<Rightarrow> string list" where
  "destinationConfigFieldKeysForType t =
     (case map_of destinationConfigFieldKeysByType t of Some keys \<Rightarrow> keys | None \<Rightarrow> [])"

definition destinationSensitiveConfigFieldKeysForType :: "string \<Rightarrow> string list" where
  "destinationSensitiveConfigFieldKeysForType t =
     (case map_of destinationSensitiveConfigFieldKeysByType t of Some keys \<Rightarrow> keys | None \<Rightarrow> [])"

definition allDestinationSensitiveConfigFieldKeys :: "string list" where
  "allDestinationSensitiveConfigFieldKeys =
     uniqueSorted (concat (map snd destinationSensitiveConfigFieldKeysByType))"

text \<open>\<open>%T\<close> of a decoded value.\<close>

fun goTypeName :: "goval \<Rightarrow> string" where
  "goTypeName JNull = ''<nil>''"
| "goTypeName (JBool _) = ''bool''"
| "goTypeName (JInt _) = ''int''"
| "goTypeName (JFloat _ _) = ''float64''"
| "goTypeName (JNumber _) = ''json.Number''"
| "goTypeName (JString _) = ''string''"
| "goTypeName (JBytes _) = ''[]uint8''"
| "goTypeName (JArray _) = ''[]interface {}''"
| "goTypeName (JObject _) = ''map[string]interface {}''"

fun destinationConfigStringValue :: "goval \<Rightarrow> gerr + string" where
  "destinationConfigStringValue (JString s) = Inr (trimSpace s)"
| "destinationConfigStringValue (JBool b) = Inr (if b then ''true'' else ''false'')"
| "destinationConfigStringValue (JInt i) = Inr (itoa i)"
| "destinationConfigStringValue v =
     Inl (Errorf ''unsupported destination config value type %T'' [goTypeName v])"

text \<open>\<open>data.Get\<close>: the parsed value of a field, or the zero value (here of a string field).\<close>

definition getValue :: "fieldData \<Rightarrow> string \<Rightarrow> goval" where
  "getValue d f = (case getOk d f of Some v \<Rightarrow> v | None \<Rightarrow> JString [])"

definition rawHas :: "fieldData \<Rightarrow> string \<Rightarrow> bool" where
  "rawHas d f \<longleftrightarrow> map_of (fd_Raw d) f \<noteq> None"

text \<open>What the provider type keeps of the stored configuration.\<close>

definition existingProviderConfig :: "(string \<times> string) list \<Rightarrow> string list \<Rightarrow> (string \<times> string) list" where
  "existingProviderConfig existing providerKeys =
     foldl (\<lambda>config key. let v = trimSpace (mapGet existing key)
                         in if v \<noteq> [] then AList.update key v config else config) [] providerKeys"

text \<open>One request field: an empty value removes the key, a field of another type is an error unless empty.\<close>

definition applyConfigField ::
    "string \<Rightarrow> string list \<Rightarrow> fieldData \<Rightarrow> (string \<times> string) list \<Rightarrow> string \<Rightarrow> gerr + (string \<times> string) list" where
  "applyConfigField destinationType providerKeys data config key =
     (if \<not> rawHas data key then Inr config
      else case destinationConfigStringValue (getValue data key) of
             Inl e \<Rightarrow> Inl (ErrWrapped (key @ '': %w'') e)
           | Inr v \<Rightarrow>
               if key \<notin> set providerKeys
               then (if v = [] then Inr config
                     else Inl (Errorf ''%s is not supported for destination type %s'' [key, destinationType]))
               else if v = [] then Inr (AList.delete key config)
               else Inr (AList.update key v config))"

definition providerConfigMapFromFieldData ::
    "string \<Rightarrow> (string \<times> string) list \<Rightarrow> string list \<Rightarrow> string list \<Rightarrow> fieldData \<Rightarrow> gerr + (string \<times> string) list" where
  "providerConfigMapFromFieldData destinationType existing providerKeys fieldKeys data =
     foldE (applyConfigField destinationType providerKeys data)
       (existingProviderConfig existing providerKeys) fieldKeys"

definition destinationConfigFromFieldData ::
    "string \<Rightarrow> destinationRecord option \<Rightarrow> fieldData \<Rightarrow> gerr + (string \<times> string) list" where
  "destinationConfigFromFieldData destinationType existing data =
     providerConfigMapFromFieldData destinationType (case existing of Some d \<Rightarrow> ds_Config d | None \<Rightarrow> [])
       (destinationConfigFieldKeysForType destinationType) destinationConfigFieldKeys data"

definition destinationSensitiveConfigFromFieldData ::
    "string \<Rightarrow> destinationSensitiveRecord option \<Rightarrow> fieldData \<Rightarrow> gerr + (string \<times> string) list" where
  "destinationSensitiveConfigFromFieldData destinationType existing data =
     providerConfigMapFromFieldData destinationType (case existing of Some s \<Rightarrow> sn_Config s | None \<Rightarrow> [])
       (destinationSensitiveConfigFieldKeysForType destinationType) allDestinationSensitiveConfigFieldKeys data"

definition removeSensitiveConfigKeys :: "string \<Rightarrow> (string \<times> string) list \<Rightarrow> (string \<times> string) list" where
  "removeSensitiveConfigKeys destinationType config =
     foldl (\<lambda>m key. AList.delete key m) config (destinationSensitiveConfigFieldKeysForType destinationType)"

section \<open>Allowed prefixes\<close>

text \<open>A list field: strings, a JSON list that must hold strings only, or a comma-separated string.\<close>

definition stringSliceFromFieldData :: "fieldData \<Rightarrow> string \<Rightarrow> gerr + string list option" where
  "stringSliceFromFieldData data key =
     (case getOk data key of
        None \<Rightarrow> Inr None
      | Some (JArray items) \<Rightarrow>
          (case foldE (\<lambda>vs item. case item of
               JString s \<Rightarrow> Inr (vs @ [s])
             | _ \<Rightarrow> Inl (Errorf ''%s must contain only strings'' [key])) [] items of
             Inl e \<Rightarrow> Inl e | Inr vs \<Rightarrow> Inr (Some vs))
      | Some (JString s) \<Rightarrow> Inr (Some (splitOn (CHR '','') s))
      | Some _ \<Rightarrow> Inl (Errorf ''%s must be a string list'' [key]))"

definition normalizeSourcePathPrefixes :: "string list \<Rightarrow> gerr + string list" where
  "normalizeSourcePathPrefixes ps =
     bindE (foldE (\<lambda>out p.
       let p = trimSpace p
       in if p = [] then Inr out
          else case normalizeSourcePath p of
                 Inl e \<Rightarrow> Inl (Errorf ''allowed_source_path_prefixes contains invalid prefix %q: %w'' [p, errorText e])
               | Inr path \<Rightarrow> Inr (out @ [path])) [] ps) (\<lambda>out. Inr (uniqueSorted out))"

definition normalizeResolvedNamePrefixes :: "string list \<Rightarrow> gerr + string list" where
  "normalizeResolvedNamePrefixes ps =
     Inr (uniqueSorted (filter (\<lambda>p. p \<noteq> []) (map (\<lambda>p. trimLeft slash (trimSpace p)) ps)))"

definition destinationSourcePathPrefixesFromFieldData ::
    "destinationRecord option \<Rightarrow> fieldData \<Rightarrow> gerr + string list" where
  "destinationSourcePathPrefixesFromFieldData existing data =
     bindE (stringSliceFromFieldData data ''allowed_source_path_prefixes'') (\<lambda>ps.
       case ps of
         Some ps \<Rightarrow> normalizeSourcePathPrefixes ps
       | None \<Rightarrow> Inr (case existing of Some d \<Rightarrow> ds_AllowedSourcePathPrefixes d | None \<Rightarrow> []))"

definition destinationResolvedNamePrefixesFromFieldData ::
    "destinationRecord option \<Rightarrow> fieldData \<Rightarrow> gerr + string list" where
  "destinationResolvedNamePrefixesFromFieldData existing data =
     bindE (stringSliceFromFieldData data ''allowed_resolved_name_prefixes'') (\<lambda>ps.
       case ps of
         Some ps \<Rightarrow> normalizeResolvedNamePrefixes ps
       | None \<Rightarrow> Inr (case existing of Some d \<Rightarrow> ds_AllowedResolvedNamePrefixes d | None \<Rightarrow> []))"

section \<open>Provider configuration maps\<close>

lemma mapGet_update_delete [simp]:
  "mapGet (AList.update a v m) k = (if k = a then v else mapGet m k)"
  "mapGet (AList.delete a m) k = (if k = a then [] else mapGet m k)"
  by (simp_all add: mapGet_def update_conv' delete_conv')

end
