(* ===== verification/Association_Fields.thy ===== *)
theory Association_Fields
  imports Destination_Fields
begin

text \<open>
  An association from request fields (first half of \<open>internal/backend/path_associations.go\<close>): the
  destination reference, the defaults an update takes from the stored association, resolved names, the
  checks against the provider's capabilities, and the selection of the association an update addresses.
  An error that the handler turns into an error response is a value here where the source marks it
  (\<open>associationWriteSelectorError\<close>); every other error is the error of the monad.
\<close>

section \<open>Checks\<close>

definition validateAssociationFormat :: "string \<Rightarrow> string \<Rightarrow> gerr + unit" where
  "validateAssociationFormat granularity format =
     (if format = defaultAssociationFormat then Inr ()
      else if format = rawAssociationFormat
      then (if granularity \<noteq> syncGranularitySecretKey
            then Inl (Errorf ''format %q requires secret-key granularity'' [rawAssociationFormat])
            else Inr ())
      else Inl (Errorf ''unsupported format %q'' [format]))"

definition validateAssociationCapabilities :: "capabilities \<Rightarrow> string \<Rightarrow> string \<Rightarrow> gerr + unit" where
  "validateAssociationCapabilities c granularity format =
     bindE (validateAssociationFormat granularity format) (\<lambda>_.
       if granularity = syncGranularitySecretPath
       then (if \<not> cp_SupportsSecretPath c
             then Inl (Errorf ''destination provider does not support secret-path granularity'' []) else Inr ())
       else if granularity = syncGranularitySecretKey
       then (if \<not> cp_SupportsSecretKey c
             then Inl (Errorf ''destination provider does not support secret-key granularity'' []) else Inr ())
       else Inl (Errorf ''unsupported granularity %q'' [granularity]))"

definition validateAssociationDataMapping ::
    "capabilities \<Rightarrow> string \<Rightarrow> string \<Rightarrow> string \<Rightarrow> string \<Rightarrow> gerr + unit" where
  "validateAssociationDataMapping c granularity format dataMapping dataKeyTemplate =
     (if dataMapping = [] \<or> dataMapping = defaultDataMapping
      then (if trimSpace dataKeyTemplate \<noteq> []
            then Inl (Errorf ''data_key_template requires data_mapping %q'' [dataMappingSourceKeys])
            else Inr ())
      else if dataMapping = dataMappingSourceKeys
      then (if \<not> cp_SupportsDataMap c
            then Inl (Errorf ''destination provider does not support source-key data mapping'' [])
            else if granularity \<noteq> syncGranularitySecretPath
            then Inl (Errorf ''data_mapping %q requires secret-path granularity'' [dataMappingSourceKeys])
            else if format \<noteq> defaultAssociationFormat
            then Inl (Errorf ''data_mapping %q requires format %q'' [dataMappingSourceKeys, defaultAssociationFormat])
            else if \<not> containsStr dataKeyTemplate ''{{ key }}''
            then Inl (Errorf ''data_key_template must include {{ key }}'' [])
            else bindE (renderDataKeyTemplate dataKeyTemplate ''key'') validateDataMapKey)
      else Inl (Errorf ''unsupported data_mapping %q'' [dataMapping]))"

definition validateDeleteMode :: "capabilities \<Rightarrow> string \<Rightarrow> gerr + unit" where
  "validateDeleteMode c deleteMode =
     (if deleteMode = deleteModeRetain \<or> deleteMode = deleteModeOrphan then Inr ()
      else if deleteMode = deleteModeDelete
      then (if \<not> cp_SupportsDeleteIfOwned c
            then Inl (Errorf ''delete_mode %q requires provider delete-if-owned capability'' [deleteModeDelete])
            else Inr ())
      else Inl (Errorf ''unsupported delete_mode %q'' [deleteMode]))"

definition validateAssociationDestination ::
    "'w world \<Rightarrow> associationRecord \<Rightarrow> globalConfig \<Rightarrow> ('w, unit) io" where
  "validateAssociationDestination W r cfg =
     bindM (getDestination W (as_DestinationType r) (as_DestinationName r)) (\<lambda>destination.
       case destination of
         None \<Rightarrow> failM (Errorf ''destination %s does not exist'' [as_DestinationRef r])
       | Some d \<Rightarrow>
           if ds_Disabled d then failM (Errorf ''destination %s is disabled'' [as_DestinationRef r])
           else bindM (currentSourceVersion W (as_Path r)) (\<lambda>(_, version).
             liftE (validateAssociationDestinationPolicy W d r (vr_Data version) cfg)))"

section \<open>The destination reference\<close>

definition parseDestinationRef :: "string \<Rightarrow> gerr + string \<times> string" where
  "parseDestinationRef destination =
     (case splitOn slash destination of
        [t, n] \<Rightarrow>
          if trimSpace t = [] \<or> trimSpace n = []
          then Inl (Errorf ''destination must be in <type>/<name> form'' [])
          else Inr (trimSpace t, trimSpace n)
      | _ \<Rightarrow> Inl (Errorf ''destination must be in <type>/<name> form'' []))"

definition associationDestinationFromFieldData :: "fieldData \<Rightarrow> bool \<Rightarrow> gerr + string \<times> string" where
  "associationDestinationFromFieldData data required =
     (let destination = trimSpace (getString data ''destination'')
      in if destination = []
         then (if required then Inl (Errorf ''destination is required'' []) else Inr ([], []))
         else parseDestinationRef destination)"

section \<open>Defaults of an update\<close>

text \<open>\<open>base\<close> is the association an update addresses; \<open>matches\<close> says that it keeps its granularity.\<close>

definition associationGranularityDefault :: "associationRecord option \<Rightarrow> string" where
  "associationGranularityDefault base =
     (case base of
        Some b \<Rightarrow> if as_Granularity b \<noteq> [] then as_Granularity b else syncGranularitySecretPath
      | None \<Rightarrow> syncGranularitySecretPath)"

definition associationFormatDefault :: "associationRecord option \<Rightarrow> bool \<Rightarrow> string" where
  "associationFormatDefault base matches =
     (case base of
        Some b \<Rightarrow> if matches \<and> as_Format b \<noteq> [] then as_Format b else defaultAssociationFormat
      | None \<Rightarrow> defaultAssociationFormat)"

definition associationDataMappingDefault :: "associationRecord option \<Rightarrow> bool \<Rightarrow> string" where
  "associationDataMappingDefault base matches =
     (case base of
        Some b \<Rightarrow> if matches \<and> as_DataMapping b \<noteq> [] then as_DataMapping b else defaultDataMapping
      | None \<Rightarrow> defaultDataMapping)"

definition associationDataKeyTemplateDefault :: "associationRecord option \<Rightarrow> string \<Rightarrow> bool \<Rightarrow> string" where
  "associationDataKeyTemplateDefault base dataMapping matches =
     (if dataMapping \<noteq> dataMappingSourceKeys then []
      else case base of
        Some b \<Rightarrow> if matches \<and> as_DataMapping b = dataMappingSourceKeys \<and> as_DataKeyTemplate b \<noteq> []
                  then as_DataKeyTemplate b else defaultDataKeyTemplate
      | None \<Rightarrow> defaultDataKeyTemplate)"

definition associationDeleteModeDefault :: "associationRecord option \<Rightarrow> string" where
  "associationDeleteModeDefault base =
     (case base of
        Some b \<Rightarrow> if as_DeleteMode b \<noteq> [] then as_DeleteMode b else defaultDeleteMode
      | None \<Rightarrow> defaultDeleteMode)"

definition associationNameTemplateDefault :: "associationRecord option \<Rightarrow> string \<Rightarrow> bool \<Rightarrow> string" where
  "associationNameTemplateDefault base granularity matches =
     (case base of
        Some b \<Rightarrow> if matches \<and> as_NameTemplate b \<noteq> [] then as_NameTemplate b
                  else defaultNameTemplateForGranularity granularity
      | None \<Rightarrow> defaultNameTemplateForGranularity granularity)"

definition associationResolvedNameDefault :: "associationRecord option \<Rightarrow> bool \<Rightarrow> string" where
  "associationResolvedNameDefault base matches =
     (case base of Some b \<Rightarrow> if matches then as_ResolvedName b else [] | None \<Rightarrow> [])"

definition associationEnabledDefault :: "associationRecord option \<Rightarrow> bool" where
  "associationEnabledDefault base = (case base of Some b \<Rightarrow> as_Enabled b | None \<Rightarrow> True)"

definition stringFromField :: "fieldData \<Rightarrow> string \<Rightarrow> string \<Rightarrow> string" where
  "stringFromField data key fallback =
     (let v = trimSpace (getString data key) in if v = [] then fallback else v)"

definition boolFromField :: "fieldData \<Rightarrow> string \<Rightarrow> bool \<Rightarrow> bool" where
  "boolFromField data key fallback = (case getOkBool data key of None \<Rightarrow> fallback | Some v \<Rightarrow> v)"

section \<open>Resolved names\<close>

definition resolveSecretPathAssociationName ::
    "string \<Rightarrow> string \<Rightarrow> string \<Rightarrow> string \<Rightarrow> string \<Rightarrow> gerr + string" where
  "resolveSecretPathAssociationName path destinationType destinationName nameTemplate resolvedName =
     bindE (if resolvedName = []
            then renderAssociationObjectName nameTemplate path destinationType destinationName syncObjectIDSecretPath
            else Inr resolvedName) (\<lambda>name.
       let name = trim slash name
       in if name = [] then Inl (Errorf ''resolved_name must not be empty'' []) else Inr name)"

definition validateSecretKeyAssociationTemplate ::
    "string \<Rightarrow> string \<Rightarrow> string \<Rightarrow> string \<Rightarrow> string \<Rightarrow> gerr + unit" where
  "validateSecretKeyAssociationTemplate path destinationType destinationName nameTemplate resolvedName =
     (if resolvedName \<noteq> []
      then Inl (Errorf ''secret-key granularity requires name_template instead of resolved_name'' [])
      else if \<not> containsStr nameTemplate ''{{ key }}''
      then Inl (Errorf ''secret-key name_template must include {{ key }}'' [])
      else bindE (renderAssociationObjectName nameTemplate path destinationType destinationName ''key'')
             (\<lambda>_. Inr ()))"

text \<open>The resolved name and the name the association reserves.\<close>

definition resolveAssociationNames ::
    "string \<Rightarrow> string \<Rightarrow> string \<Rightarrow> string \<Rightarrow> string \<Rightarrow> string \<Rightarrow> gerr + string \<times> string" where
  "resolveAssociationNames path destinationType destinationName granularity nameTemplate resolvedName =
     (if granularity = syncGranularitySecretPath
      then bindE (resolveSecretPathAssociationName path destinationType destinationName nameTemplate resolvedName)
             (\<lambda>name. Inr (name, name))
      else if granularity = syncGranularitySecretKey
      then bindE (validateSecretKeyAssociationTemplate path destinationType destinationName nameTemplate
                    resolvedName) (\<lambda>_.
           bindE (secretKeyReservationName nameTemplate path destinationType destinationName) (\<lambda>name.
             Inr ([], name)))
      else Inl (Errorf ''unsupported granularity %q'' [granularity]))"

section \<open>Provider settings of an association\<close>

definition associationProviderConfigFieldKeys :: "string list" where
  "associationProviderConfigFieldKeys =
     [''delete_recovery_window_days'', ''environment_scope'', ''protected'', ''masked'', ''hidden'',
      ''variable_raw'', ''variable_type'']"

definition associationProviderConfigFieldKeysByType :: "string \<Rightarrow> string list" where
  "associationProviderConfigFieldKeysByType t =
     (if t = providerTypeAWS then [''delete_recovery_window_days'']
      else if t = providerTypeGitLab
      then [''environment_scope'', ''protected'', ''masked'', ''hidden'', ''variable_raw'', ''variable_type'']
      else [])"

definition associationProviderIdentityFieldKeysByType :: "string \<Rightarrow> string list" where
  "associationProviderIdentityFieldKeysByType t = (if t = providerTypeGitLab then [''environment_scope''] else [])"

definition associationProviderConfigFromFieldData ::
    "string \<Rightarrow> associationRecord option \<Rightarrow> fieldData \<Rightarrow> gerr + (string \<times> string) list" where
  "associationProviderConfigFromFieldData destinationType base data =
     providerConfigMapFromFieldData destinationType (case base of Some b \<Rightarrow> as_ProviderConfig b | None \<Rightarrow> [])
       (associationProviderConfigFieldKeysByType destinationType) associationProviderConfigFieldKeys data"

definition unsupportedDestinationType :: "string \<Rightarrow> gerr" where
  "unsupportedDestinationType t = Errorf ''unsupported destination type %q'' [t]"

definition associationProvider ::
    "'w world \<Rightarrow> string \<Rightarrow> string \<Rightarrow> ('w, capabilities \<times> destinationRecord \<times> providerDestinationConfig) io" where
  "associationProvider W destinationType destinationName =
     (case w_Provider W destinationType of
        None \<Rightarrow> failM (unsupportedDestinationType destinationType)
      | Some provider \<Rightarrow>
          bindM (getDestination W destinationType destinationName) (\<lambda>destination.
            case destination of
              None \<Rightarrow> failM (Errorf ''destination %s/%s does not exist'' [destinationType, destinationName])
            | Some d \<Rightarrow>
                if ds_Disabled d
                then failM (Errorf ''destination %s/%s is disabled'' [destinationType, destinationName])
                else bindM (destinationConfig W d) (\<lambda>config. retM (provider, d, config))))"

section \<open>The association of a request\<close>

definition associationRecordFromFieldData ::
    "'w world \<Rightarrow> string \<Rightarrow> fieldData \<Rightarrow> associationRecord option \<Rightarrow> ('w, associationRecord) io" where
  "associationRecordFromFieldData W path data base =
     bindM (liftE (associationDestinationFromFieldData data True)) (\<lambda>(destinationType, destinationName).
     bindM (associationProvider W destinationType destinationName) (\<lambda>(provider, destination, config).
     bindM (liftE (associationProviderConfigFromFieldData destinationType base data)) (\<lambda>providerConfig.
     bindM (w_NormalizeAssociation W destinationType config
              \<lparr> ac_Config = providerConfig, ac_Identity = [] \<rparr>) (\<lambda>normalized.
     if ds_Type destination \<noteq> destinationType \<or> ds_Name destination \<noteq> destinationName
     then failM (Errorf ''destination identity changed during association validation'' [])
     else
       let granularity = stringFromField data ''granularity'' (associationGranularityDefault base);
           matches = (case base of Some b \<Rightarrow> as_Granularity b = granularity | None \<Rightarrow> False);
           format = stringFromField data ''format'' (associationFormatDefault base matches);
           dataMapping = stringFromField data ''data_mapping'' (associationDataMappingDefault base matches);
           dataKeyTemplate = stringFromField data ''data_key_template''
             (associationDataKeyTemplateDefault base dataMapping matches);
           deleteMode = stringFromField data ''delete_mode'' (associationDeleteModeDefault base);
           nameTemplate = stringFromField data ''name_template''
             (associationNameTemplateDefault base granularity matches);
           resolvedName = stringFromField data ''resolved_name'' (associationResolvedNameDefault base matches)
       in
       bindM (liftE (resolveAssociationNames path destinationType destinationName granularity nameTemplate
                resolvedName)) (\<lambda>(resolvedName, reservationName).
       bindM (liftE (validateAssociationCapabilities provider granularity format)) (\<lambda>_.
       bindM (liftE (validateAssociationDataMapping provider granularity format dataMapping dataKeyTemplate)) (\<lambda>_.
       bindM (liftE (validateDeleteMode provider deleteMode)) (\<lambda>_.
       bindM (nowUTC W) (\<lambda>now.
         retM \<lparr> as_ID = newAssociationID (w_Sha256 W) path destinationType destinationName
                  (associationReservationKey (ac_Identity normalized) reservationName) granularity,
                as_Path = path, as_DestinationType = destinationType, as_DestinationName = destinationName,
                as_DestinationRef = destinationRef destinationType destinationName,
                as_NameTemplate = nameTemplate, as_ResolvedName = resolvedName, as_ReservationNames = [],
                as_Granularity = granularity, as_Format = format, as_DataMapping = dataMapping,
                as_DataKeyTemplate = dataKeyTemplate, as_ProviderConfig = ac_Config normalized,
                as_ProviderIdentity = ac_Identity normalized, as_DeleteMode = deleteMode,
                as_Enabled = boolFromField data ''enabled'' (associationEnabledDefault base),
                as_CreatedTime = formatRFC3339 now, as_UpdatedTime = formatRFC3339 now \<rparr>)))))))))"

section \<open>The identity of an association\<close>

definition associationProviderIdentityField :: "associationRecord \<Rightarrow> associationRecord \<Rightarrow> string" where
  "associationProviderIdentityField base updated =
     (case filter (\<lambda>field. mapGet (as_ProviderConfig base) field \<noteq> mapGet (as_ProviderConfig updated) field)
             (associationProviderIdentityFieldKeysByType (as_DestinationType updated)) of
        field # _ \<Rightarrow> field
      | [] \<Rightarrow> ''provider configuration'')"

definition associationReservationIdentityField :: "associationRecord \<Rightarrow> string" where
  "associationReservationIdentityField r =
     (if as_Granularity r = syncGranularitySecretKey then ''name_template'' else ''resolved_name'')"

definition associationIdentityChangeError :: "string \<Rightarrow> string \<Rightarrow> gerr" where
  "associationIdentityChangeError field associationID =
     Errorf (''%s change would create a new association identity; delete %s first, '' @
       ''then create the new association explicitly'') [field, associationID]"

definition validateAssociationIdentityUpdate :: "associationRecord option \<Rightarrow> associationRecord \<Rightarrow> gerr + unit" where
  "validateAssociationIdentityUpdate base r =
     (case base of
        None \<Rightarrow> Inr ()
      | Some b \<Rightarrow>
          if as_Granularity r \<noteq> as_Granularity b
          then Inl (associationIdentityChangeError ''granularity'' (as_ID b))
          else if as_ProviderIdentity r \<noteq> as_ProviderIdentity b
          then Inl (associationIdentityChangeError (associationProviderIdentityField b r) (as_ID b))
          else if reservationName r \<noteq> reservationName b
          then Inl (associationIdentityChangeError (associationReservationIdentityField b) (as_ID b))
          else Inr ())"

section \<open>The association an update addresses\<close>

record associationWriteSelection =
  aw_record :: "associationRecord option"
  aw_destinationType :: string
  aw_destinationName :: string
  aw_matchCount :: int

text \<open>\<open>Inl e\<close> is an \<open>associationWriteSelectorError\<close>; \<open>None\<close> means that no identity field is given.\<close>

definition associationProviderIdentitySelector ::
    "'w world \<Rightarrow> string \<Rightarrow> string \<Rightarrow> fieldData \<Rightarrow> ('w, gerr + string option) io" where
  "associationProviderIdentitySelector W destinationType destinationName data =
     (if \<not> list_ex (rawHas data) (associationProviderIdentityFieldKeysByType destinationType)
      then retM (Inr None)
      else case w_Provider W destinationType of
        None \<Rightarrow> retM (Inl (unsupportedDestinationType destinationType))
      | Some _ \<Rightarrow>
          bindM (getDestination W destinationType destinationName) (\<lambda>destination.
            case destination of
              None \<Rightarrow> retM (Inl (Errorf ''destination %s/%s does not exist'' [destinationType, destinationName]))
            | Some d \<Rightarrow>
                if ds_Disabled d
                then retM (Inl (Errorf ''destination %s/%s is disabled'' [destinationType, destinationName]))
                else bindM (destinationConfig W d) (\<lambda>config.
                  case associationProviderConfigFromFieldData destinationType None data of
                    Inl e \<Rightarrow> retM (Inl e)
                  | Inr providerConfig \<Rightarrow>
                      bindM (tryM (w_NormalizeAssociation W destinationType config
                               \<lparr> ac_Config = providerConfig, ac_Identity = [] \<rparr>)) (\<lambda>normalized.
                        retM (case normalized of
                            Inl e \<Rightarrow> Inl e
                          | Inr n \<Rightarrow> Inr (Some (ac_Identity n)))))))"

definition selectAssociations ::
    "associationRecord list \<Rightarrow> string \<Rightarrow> string \<Rightarrow> string option \<Rightarrow> associationRecord list" where
  "selectAssociations records destinationType destinationName identity =
     filter (\<lambda>r. as_DestinationType r = destinationType \<and> as_DestinationName r = destinationName \<and>
       (case identity of None \<Rightarrow> True | Some i \<Rightarrow> as_ProviderIdentity r = i)) records"

definition associationSelectionForWrite ::
    "'w world \<Rightarrow> string \<Rightarrow> fieldData \<Rightarrow> ('w, gerr + associationWriteSelection) io" where
  "associationSelectionForWrite W path data =
     (case associationDestinationFromFieldData data False of
        Inl e \<Rightarrow> retM (Inl e)
      | Inr (destinationType, destinationName) \<Rightarrow>
          let selection = \<lparr> aw_record = None, aw_destinationType = destinationType,
                            aw_destinationName = destinationName, aw_matchCount = 0 \<rparr>
          in if destinationType = [] \<or> destinationName = [] then retM (Inr selection)
             else bindM (associationProviderIdentitySelector W destinationType destinationName data) (\<lambda>identity.
               case identity of
                 Inl e \<Rightarrow> retM (Inl e)
               | Inr identity \<Rightarrow>
                   bindM (listAssociationsForPath W path) (\<lambda>records.
                     let found = selectAssociations records destinationType destinationName identity
                     in retM (Inr (selection \<lparr> aw_matchCount := int (length found),
                          aw_record := (case found of r # _ \<Rightarrow> Some r | [] \<Rightarrow> None) \<rparr>)))))"

end
