(* ===== verification/Association_Paths.thy ===== *)
theory Association_Paths
  imports Association_Fields
begin

text \<open>
  The association endpoints (second half of \<open>internal/backend/path_associations.go\<close>): write, enable,
  disable, manual sync, read, list and delete. A write or an enable persists the association first and
  enqueues its current version afterwards; when the enqueue fails the association is put back as it was.
\<close>

section \<open>Responses\<close>

definition destinationObject :: "string \<Rightarrow> string \<Rightarrow> goval" where
  "destinationObject t n = JObject [(''type'', JString t), (''name'', JString n)]"

definition associationResponse :: "associationRecord \<Rightarrow> (string \<times> goval) list" where
  "associationResponse r =
     [(''id'', JString (as_ID r)), (''path'', JString (as_Path r)),
      (''destination'', destinationObject (as_DestinationType r) (as_DestinationName r)),
      (''destination_ref'', JString (as_DestinationRef r)), (''name_template'', JString (as_NameTemplate r)),
      (''resolved_name'', JString (as_ResolvedName r)), (''granularity'', JString (as_Granularity r)),
      (''format'', JString (as_Format r)),
      (''data_mapping'', JString (normalizedDataMapping (as_DataMapping r))),
      (''data_key_template'', JString (as_DataKeyTemplate r)),
      (''provider_config'', stringMap (as_ProviderConfig r)),
      (''delete_mode'', JString (normalizedDeleteMode (as_DeleteMode r))),
      (''enabled'', JBool (as_Enabled r)), (''created_time'', JString (as_CreatedTime r)),
      (''updated_time'', JString (as_UpdatedTime r))]"

definition associationDefaultsResponse :: "(string \<times> goval) list" where
  "associationDefaultsResponse =
     [(''granularity'', JString syncGranularitySecretPath), (''format'', JString defaultAssociationFormat),
      (''data_mapping'', JString defaultDataMapping), (''data_key_template'', JString []),
      (''delete_mode'', JString defaultDeleteMode), (''enabled'', JBool True),
      (''secret_path_name_template'', JString defaultNameTemplate),
      (''secret_key_name_template'', JString defaultPerKeyNameTemplate)]"

definition associationSummaryFields :: "associationRecord \<Rightarrow> (string \<times> goval) list" where
  "associationSummaryFields r =
     [(''association_id'', JString (as_ID r)), (''destination_ref'', JString (as_DestinationRef r)),
      (''resolved_name'', JString (as_ResolvedName r)), (''granularity'', JString (as_Granularity r)),
      (''format'', JString (as_Format r)),
      (''data_mapping'', JString (normalizedDataMapping (as_DataMapping r))),
      (''data_key_template'', JString (as_DataKeyTemplate r)),
      (''provider_config'', stringMap (as_ProviderConfig r)),
      (''delete_mode'', JString (normalizedDeleteMode (as_DeleteMode r))),
      (''enabled'', JBool (as_Enabled r))]"

definition associationLifecycleResponse :: "associationRecord \<Rightarrow> (string \<times> goval) list \<Rightarrow> response" where
  "associationLifecycleResponse r extra = DataResponse (associationSummaryFields r @ extra)"

definition associationSyncLifecycleFields ::
    "string \<Rightarrow> associationRecord \<Rightarrow> string list \<Rightarrow> bool \<Rightarrow> (string \<times> goval) list" where
  "associationSyncLifecycleFields mount r operationIDs includeManualSyncHint =
     (''sync_operation_ids'', strings operationIDs) #
     (if includeManualSyncHint then diagnosticResponseFields (associationAlreadyEnabledDiagnostic mount r) else [])"

section \<open>Desired state\<close>

definition associationProviderDesiredStateChanged :: "associationRecord \<Rightarrow> associationRecord \<Rightarrow> bool" where
  "associationProviderDesiredStateChanged existing updated =
     (let ignoredKey = (if as_DestinationType existing = providerTypeAWS \<and> as_DestinationType updated = providerTypeAWS
                        then ''delete_recovery_window_days'' else [])
      in list_ex (\<lambda>(key, v). key \<noteq> ignoredKey \<and> mapGet (as_ProviderConfig updated) key \<noteq> v)
           (as_ProviderConfig existing) \<or>
         list_ex (\<lambda>(key, _). key \<noteq> ignoredKey \<and> map_of (as_ProviderConfig existing) key = None)
           (as_ProviderConfig updated))"

definition associationDesiredStateChanged :: "associationRecord \<Rightarrow> associationRecord \<Rightarrow> bool" where
  "associationDesiredStateChanged existing updated \<longleftrightarrow>
     as_Format existing \<noteq> as_Format updated \<or> as_DataMapping existing \<noteq> as_DataMapping updated \<or>
     as_DataKeyTemplate existing \<noteq> as_DataKeyTemplate updated \<or>
     associationProviderDesiredStateChanged existing updated"

definition stringMapsEqual :: "(string \<times> string) list \<Rightarrow> (string \<times> string) list \<Rightarrow> bool" where
  "stringMapsEqual left right \<longleftrightarrow>
     length left = length right \<and> list_all (\<lambda>(key, v). mapGet right key = v) left"

section \<open>Rollback\<close>

definition rollbackAssociationPersistence ::
    "'w world \<Rightarrow> associationRecord \<Rightarrow> associationRecord option \<Rightarrow> ('w, unit) io" where
  "rollbackAssociationPersistence W r previous =
     (case previous of Some p \<Rightarrow> putAssociation W p | None \<Rightarrow> deleteAssociation W r)"

definition rollbackAssociationPersistenceError :: "gerr \<Rightarrow> gerr \<Rightarrow> gerr" where
  "rollbackAssociationPersistenceError operationErr rollbackErr =
     ErrWrapped (''%w; association rollback failed: '' @ errorText rollbackErr) operationErr"

text \<open>An enqueue whose failure puts the association back and becomes an error response.\<close>

definition enqueueOrRollback ::
    "'w world \<Rightarrow> associationRecord \<Rightarrow> associationRecord option \<Rightarrow> string \<Rightarrow> ('w, string list) io \<Rightarrow>
       ('w, response + string list) io" where
  "enqueueOrRollback W r previous mount enqueue =
     bindM (tryM enqueue) (\<lambda>result.
       case result of
         Inl e \<Rightarrow>
           bindM (tryM (rollbackAssociationPersistence W r previous)) (\<lambda>rollback.
             case rollback of
               Inl rollbackErr \<Rightarrow> failM (rollbackAssociationPersistenceError e rollbackErr)
             | Inr _ \<Rightarrow> retM (Inl (errorResponseForOperationError e mount)))
       | Inr operationIDs \<Rightarrow>
           bindM (whenM (operationIDs \<noteq> []) (signalEventDispatch W)) (\<lambda>_. retM (Inr operationIDs)))"

section \<open>The association of a lifecycle request\<close>

text \<open>\<open>Inl\<close> carries the response that ends the request, \<open>Inr None\<close> means that there is no such record.\<close>

definition associationForDestination ::
    "'w world \<Rightarrow> string \<Rightarrow> string \<Rightarrow> string \<Rightarrow> ('w, response + associationRecord) io" where
  "associationForDestination W path destinationType destinationName =
     bindM (listAssociationsForPath W path) (\<lambda>records.
       retM (case selectAssociations records destinationType destinationName None of
           [] \<Rightarrow> Inl (ErrorResponse (Errorf ''association for destination %s/%s does not exist at source path %q''
                   [destinationType, destinationName, path]))
         | [r] \<Rightarrow> Inr r
         | _ \<Rightarrow> Inl (ErrorResponse (Errorf (''association request is ambiguous for destination %s/%s; '' @
                   ''use the association_id path'') [destinationType, destinationName]))))"

definition associationFromLifecycleRequest ::
    "'w world \<Rightarrow> fieldData \<Rightarrow> ('w, response + associationRecord option) io" where
  "associationFromLifecycleRequest W data =
     (case normalizeSourcePath (getString data ''path'') of
        Inl e \<Rightarrow> retM (Inl (ErrorResponse e))
      | Inr path \<Rightarrow>
          let associationID = trimSpace (getString data ''association_id'')
          in if associationID = []
             then (case associationDestinationFromFieldData data True of
                 Inl e \<Rightarrow> retM (Inl (ErrorResponse e))
               | Inr (destinationType, destinationName) \<Rightarrow>
                   bindM (associationForDestination W path destinationType destinationName) (\<lambda>found.
                     retM (case found of Inl response \<Rightarrow> Inl response | Inr r \<Rightarrow> Inr (Some r))))
             else bindM (getAssociation W path associationID) (\<lambda>r. retM (Inr r)))"

text \<open>The common prologue of the lifecycle handlers.\<close>

definition withLifecycleAssociation ::
    "'w world \<Rightarrow> fieldData \<Rightarrow> (associationRecord \<Rightarrow> ('w, response) io) \<Rightarrow> ('w, response) io" where
  "withLifecycleAssociation W data f =
     bindM (associationFromLifecycleRequest W data) (\<lambda>found.
       case found of
         Inl response \<Rightarrow> retM response
       | Inr None \<Rightarrow> retM NilResponse
       | Inr (Some r) \<Rightarrow> f r)"

text \<open>\<open>metadataForAssociationActivation\<close>: the metadata of a source that has a current version.\<close>

definition metadataForAssociationActivation ::
    "'w world \<Rightarrow> associationRecord \<Rightarrow> ('w, response + metadataRecord) io" where
  "metadataForAssociationActivation W r =
     bindM (getMetadata W (as_Path r)) (\<lambda>metadata.
       retM (case metadata of
           None \<Rightarrow> Inl (ErrorResponse (Errorf ''source path does not exist'' []))
         | Some m \<Rightarrow> if md_CurrentVersion m = 0 then Inl (ErrorResponse (Errorf ''source path does not exist'' []))
                     else Inr m))"

section \<open>Lifecycle handlers\<close>

definition pathAssociationDisable :: "'w world \<Rightarrow> fieldData \<Rightarrow> ('w, response) io" where
  "pathAssociationDisable W data =
     withLifecycleAssociation W data (\<lambda>r.
     bindM (nowUTC W) (\<lambda>t.
     let now = formatRFC3339 t in
     bindM (tryM (cancelQueuedOutboxForAssociation W r)) (\<lambda>canceled.
       case canceled of
         Inl e \<Rightarrow> if isQueuedOperationClaimedError e then retM (ErrorResponse e) else failM e
       | Inr canceledOperationIDs \<Rightarrow>
           let r = r \<lparr> as_Enabled := False, as_UpdatedTime := now \<rparr> in
           bindM (putAssociation W r) (\<lambda>_.
           bindM (markAssociationStatusDisabled W r now) (\<lambda>_.
             retM (associationLifecycleResponse r
               [(''canceled_operation_ids'', strings canceledOperationIDs)]))))))"

text \<open>A validation error is answered with the hint that goes with it.\<close>

definition validationResponse :: "string \<Rightarrow> associationRecord \<Rightarrow> gerr \<Rightarrow> response" where
  "validationResponse mount r e =
     errorResponseWithDiagnostic (errorText e) (validationDiagnosticForAssociation mount r (errorText e))"

definition associationRecordForEnable ::
    "'w world \<Rightarrow> string \<Rightarrow> associationRecord \<Rightarrow> metadataRecord \<Rightarrow> ('w, response + associationRecord) io" where
  "associationRecordForEnable W mount r metadata =
     bindM (readGlobalConfig W) (\<lambda>cfg.
       case validateSourceEligibility (Some metadata) cfg of
         Inl e \<Rightarrow> retM (Inl (validationResponse mount r e))
       | Inr _ \<Rightarrow>
           bindM (tryM (validateAssociationDestination W r cfg)) (\<lambda>valid.
             case valid of
               Inl e \<Rightarrow> retM (Inl (validationResponse mount r e))
             | Inr _ \<Rightarrow>
                 bindM (tryM (currentVersionRecord W (as_Path r) metadata)) (\<lambda>version.
                   case version of
                     Inl e \<Rightarrow> (case currentSourceVersionErrorResponse e of
                         Some response \<Rightarrow> retM (Inl response) | None \<Rightarrow> failM e)
                   | Inr v \<Rightarrow>
                       (case associationWithConcreteReservationNames W r (vr_Data v) of
                          Inl e \<Rightarrow> retM (Inl (ErrorResponse e))
                        | Inr rec \<Rightarrow>
                            bindM (tryM (validateAssociationNameReservations W (as_DestinationRef rec)
                                     (reservationNames rec) (as_ID rec))) (\<lambda>free.
                              retM (case free of Inl e \<Rightarrow> Inl (ErrorResponse e) | Inr _ \<Rightarrow> Inr rec))))))"

definition pathAssociationEnable :: "'w world \<Rightarrow> string \<Rightarrow> fieldData \<Rightarrow> ('w, response) io" where
  "pathAssociationEnable W mountPoint data =
     (let mount = requestMountPath mountPoint in
     withLifecycleAssociation W data (\<lambda>r.
     bindM (metadataForAssociationActivation W r) (\<lambda>activation.
       case activation of
         Inl response \<Rightarrow> retM response
       | Inr metadata \<Rightarrow>
           bindM (associationRecordForEnable W mount r metadata) (\<lambda>checked.
             case checked of
               Inl response \<Rightarrow> retM response
             | Inr previous \<Rightarrow>
                 bindM (nowUTC W) (\<lambda>t.
                 let now = formatRFC3339 t;
                     enabled = previous \<lparr> as_Enabled := True, as_UpdatedTime := now \<rparr>
                 in
                 bindM (putAssociation W enabled) (\<lambda>_.
                 bindM (if as_Enabled previous then retM (Inr [])
                        else enqueueOrRollback W enabled (Some previous) mount
                          (enqueueAssociationCurrentVersion W enabled metadata now)) (\<lambda>enqueued.
                   retM (case enqueued of
                       Inl response \<Rightarrow> response
                     | Inr operationIDs \<Rightarrow>
                         associationLifecycleResponse enabled
                           (associationSyncLifecycleFields mount enabled operationIDs
                             (as_Enabled previous \<and> operationIDs = []))))))))))"

definition pathAssociationSync :: "'w world \<Rightarrow> string \<Rightarrow> fieldData \<Rightarrow> ('w, response) io" where
  "pathAssociationSync W mountPoint data =
     (let mount = requestMountPath mountPoint in
     withLifecycleAssociation W data (\<lambda>r.
       if \<not> as_Enabled r
       then retM (errorResponseWithDiagnostic ''association is disabled'' (associationDisabledDiagnostic mount r))
       else
     bindM (metadataForAssociationActivation W r) (\<lambda>activation.
       case activation of
         Inl response \<Rightarrow> retM response
       | Inr metadata \<Rightarrow>
           bindM (readGlobalConfig W) (\<lambda>cfg.
             case validateAssociationActivation r (Some metadata) cfg of
               Inl e \<Rightarrow> retM (validationResponse mount r e)
             | Inr _ \<Rightarrow>
                 bindM (tryM (validateAssociationDestination W r cfg)) (\<lambda>valid.
                   case valid of
                     Inl e \<Rightarrow> retM (validationResponse mount r e)
                   | Inr _ \<Rightarrow>
                       bindM (nowUTC W) (\<lambda>t.
                       bindM (tryM (enqueueAssociationCurrentVersionAsManualSync W r metadata (formatRFC3339 t)))
                         (\<lambda>enqueued.
                         case enqueued of
                           Inl e \<Rightarrow> retM (errorResponseForOperationError e mount)
                         | Inr operationIDs \<Rightarrow>
                             bindM (whenM (operationIDs \<noteq> []) (signalEventDispatch W)) (\<lambda>_.
                               retM (associationLifecycleResponse r
                                 [(''sync_operation_ids'', strings operationIDs)])))))))))"

section \<open>Writing an association\<close>

text \<open>\<open>isUpdate\<close> is the operation of the request: a create takes no defaults from a stored association.\<close>

definition associationUpdateBase ::
    "'w world \<Rightarrow> bool \<Rightarrow> string \<Rightarrow> fieldData \<Rightarrow> ('w, response + associationRecord option) io" where
  "associationUpdateBase W isUpdate path data =
     (if \<not> isUpdate then retM (Inr None)
      else bindM (associationSelectionForWrite W path data) (\<lambda>selection.
        retM (case selection of
            Inl e \<Rightarrow> Inl (ErrorResponse e)
          | Inr s \<Rightarrow>
              if 1 < aw_matchCount s
              then Inl (ErrorResponse (Errorf (''association update is ambiguous for destination %s/%s; '' @
                     ''include provider identity fields or address one association explicitly'')
                     [aw_destinationType s, aw_destinationName s]))
              else Inr (aw_record s))))"

definition associationWritePreflight ::
    "'w world \<Rightarrow> string \<Rightarrow> associationRecord \<Rightarrow> string \<Rightarrow>
       ('w, response + associationRecord \<times> metadataRecord \<times> associationRecord option) io" where
  "associationWritePreflight W path r mount =
     bindM (tryM (currentSourceVersion W path)) (\<lambda>current.
       case current of
         Inl e \<Rightarrow> (case currentSourceVersionErrorResponse e of
             Some response \<Rightarrow> retM (Inl response) | None \<Rightarrow> failM e)
       | Inr (metadata, version) \<Rightarrow>
           (case associationWithConcreteReservationNames W r (vr_Data version) of
              Inl e \<Rightarrow> retM (Inl (ErrorResponse e))
            | Inr r \<Rightarrow>
                bindM (tryM (validateAssociationNameReservations W (as_DestinationRef r) (reservationNames r)
                         (as_ID r))) (\<lambda>free.
                  case free of
                    Inl e \<Rightarrow> retM (Inl (ErrorResponse e))
                  | Inr _ \<Rightarrow>
                      bindM (readGlobalConfig W) (\<lambda>cfg.
                        case validateAssociationActivation r (Some metadata) cfg of
                          Inl e \<Rightarrow> retM (Inl (validationResponse mount r e))
                        | Inr _ \<Rightarrow>
                            bindM (tryM (validateAssociationDestination W r cfg)) (\<lambda>valid.
                              case valid of
                                Inl e \<Rightarrow> retM (Inl (validationResponse mount r e))
                              | Inr _ \<Rightarrow>
                                  bindM (getAssociation W path (as_ID r)) (\<lambda>existing.
                                    retM (Inr (r, metadata, existing))))))))"

record associationWritePlan =
  ap_record :: associationRecord
  ap_operationIDs :: "string list"
  ap_existingWasEnabled :: bool

text \<open>The association to store: it keeps the creation time of the one it replaces.\<close>

definition keepCreatedTime :: "associationRecord option \<Rightarrow> associationRecord \<Rightarrow> associationRecord" where
  "keepCreatedTime existing r =
     (case existing of Some e \<Rightarrow> r \<lparr> as_CreatedTime := as_CreatedTime e \<rparr> | None \<Rightarrow> r)"

text \<open>Store the association; enqueue when it becomes enabled or its desired state changes.\<close>

definition commitAssociationWrite ::
    "'w world \<Rightarrow> associationRecord \<Rightarrow> metadataRecord \<Rightarrow> associationRecord option \<Rightarrow> string \<Rightarrow>
       ('w, response + associationWritePlan) io" where
  "commitAssociationWrite W r metadata existing mount =
     (let existingWasEnabled = (case existing of Some e \<Rightarrow> as_Enabled e | None \<Rightarrow> False);
          desiredStateChanged = (case existing of Some e \<Rightarrow> associationDesiredStateChanged e r | None \<Rightarrow> False);
          shouldEnqueue = as_Enabled r \<and> (existing = None \<or> \<not> existingWasEnabled \<or> desiredStateChanged)
      in
      bindM (putAssociation W r) (\<lambda>_.
      bindM (if \<not> shouldEnqueue then retM (Inr [])
             else bindM (nowUTC W) (\<lambda>t.
               enqueueOrRollback W r existing mount
                 (if desiredStateChanged
                  then enqueueAssociationCurrentVersionWithSalt W r metadata (formatRFC3339 t)
                         ''association-config'' False outboxTriggerUser
                  else enqueueAssociationCurrentVersion W r metadata (formatRFC3339 t)))) (\<lambda>enqueued.
        retM (case enqueued of
            Inl response \<Rightarrow> Inl response
          | Inr operationIDs \<Rightarrow> Inr \<lparr> ap_record = r, ap_operationIDs = operationIDs,
              ap_existingWasEnabled = existingWasEnabled \<rparr>))))"

definition associationWritePlanFor ::
    "'w world \<Rightarrow> string \<Rightarrow> associationRecord \<Rightarrow> string \<Rightarrow> ('w, response + associationWritePlan) io" where
  "associationWritePlanFor W path r mount =
     bindM (associationWritePreflight W path r mount) (\<lambda>checked.
       case checked of
         Inl response \<Rightarrow> retM (Inl response)
       | Inr (r, metadata, existing) \<Rightarrow>
           commitAssociationWrite W (keepCreatedTime existing r) metadata existing mount)"

definition associationWriteResponse :: "string \<Rightarrow> associationWritePlan \<Rightarrow> response" where
  "associationWriteResponse mount plan =
     associationLifecycleResponse (ap_record plan)
       (associationSyncLifecycleFields mount (ap_record plan) (ap_operationIDs plan)
         (ap_existingWasEnabled plan \<and> as_Enabled (ap_record plan) \<and> ap_operationIDs plan = []))"

definition pathAssociationWrite :: "'w world \<Rightarrow> string \<Rightarrow> bool \<Rightarrow> fieldData \<Rightarrow> ('w, response) io" where
  "pathAssociationWrite W mountPoint isUpdate data =
     respondE (normalizeSourcePath (getString data ''path'')) (\<lambda>path.
     bindM (associationUpdateBase W isUpdate path data) (\<lambda>base.
       case base of
         Inl response \<Rightarrow> retM response
       | Inr base \<Rightarrow>
           bindM (tryM (associationRecordFromFieldData W path data base)) (\<lambda>record.
             respondE record (\<lambda>r.
             respondE (validateAssociationIdentityUpdate base r) (\<lambda>_.
             bindM (associationWritePlanFor W path r (requestMountPath mountPoint)) (\<lambda>plan.
               retM (case plan of
                   Inl response \<Rightarrow> response
                 | Inr plan \<Rightarrow> associationWriteResponse (requestMountPath mountPoint) plan)))))))"

section \<open>Reading, listing and deleting\<close>

definition pathAssociationRead :: "'w world \<Rightarrow> fieldData \<Rightarrow> ('w, response) io" where
  "pathAssociationRead W data =
     respondE (normalizeSourcePath (getString data ''path'')) (\<lambda>path.
     bindM (listAssociationsForPath W path) (\<lambda>records.
       retM (DataResponse [(''path'', JString path),
         (''associations'', JArray (map (\<lambda>r. JObject (associationResponse r)) records))])))"

definition pathAssociationReadByID :: "'w world \<Rightarrow> fieldData \<Rightarrow> ('w, response) io" where
  "pathAssociationReadByID W data =
     respondE (normalizeSourcePath (getString data ''path'')) (\<lambda>path.
     bindM (getAssociation W path (getString data ''association_id'')) (\<lambda>record.
       retM (case record of None \<Rightarrow> NilResponse | Some r \<Rightarrow> DataResponse (associationResponse r))))"

definition ListResponse :: "string list \<Rightarrow> response" where
  "ListResponse keys = (if keys = [] then DataResponse [] else DataResponse [(''keys'', strings keys)])"

definition pathAssociationList :: "'w world \<Rightarrow> fieldData \<Rightarrow> ('w, response) io" where
  "pathAssociationList W data =
     (let pagination = listPaginationFromFieldData data in
      bindM (w_ListPage W associationStoragePrefix (lp_after pagination) (lp_limit pagination)) (\<lambda>keys.
        retM (ListResponse keys)))"

definition pathAssociationDelete :: "'w world \<Rightarrow> fieldData \<Rightarrow> ('w, response) io" where
  "pathAssociationDelete W data =
     respondE (normalizeSourcePath (getString data ''path'')) (\<lambda>path.
     bindM (getAssociation W path (getString data ''association_id'')) (\<lambda>found.
       case found of
         None \<Rightarrow> retM NilResponse
       | Some _ \<Rightarrow>
           bindM (getAssociation W path (getString data ''association_id'')) (\<lambda>record.
             case record of
               None \<Rightarrow> retM NilResponse
             | Some r \<Rightarrow>
                 bindM (tryM (deleteOutboxForAssociation W r)) (\<lambda>deleted.
                   case deleted of
                     Inl e \<Rightarrow> if isQueuedOperationClaimedError e then retM (ErrorResponse e) else failM e
                   | Inr _ \<Rightarrow> bindM (deleteAssociation W r) (\<lambda>_. retM NilResponse)))))"

end
