(* ===== verification/Destination_Paths.thy ===== *)
theory Destination_Paths
  imports Association_Paths
begin

text \<open>
  The destination endpoints (\<open>internal/backend/path_destinations.go\<close>). A write stores the sensitive part of
  the configuration under a fresh version key first, then the destination record that refers to that
  version, and removes the previous version last. Provider calls are arguments of the model; the runtime
  cache that a write invalidates is modelled on its own (theory Runtime_Cache).
\<close>

section \<open>Responses\<close>

definition capabilitiesResponse :: "capabilities \<Rightarrow> goval" where
  "capabilitiesResponse c = JObject
     [(''supports_value_readback'', JBool (cp_SupportsValueReadback c)),
      (''supports_metadata_readback'', JBool (cp_SupportsMetadataReadback c)),
      (''supports_payload_hash_metadata'', JBool (cp_SupportsPayloadHashMetadata c)),
      (''supports_update_if_owned'', JBool (cp_SupportsUpdateIfOwned c)),
      (''supports_delete_if_owned'', JBool (cp_SupportsDeleteIfOwned c)),
      (''supports_secret_path'', JBool (cp_SupportsSecretPath c)),
      (''supports_secret_key'', JBool (cp_SupportsSecretKey c)),
      (''supports_data_map'', JBool (cp_SupportsDataMap c)),
      (''max_payload_bytes'', JInt (cp_MaxPayloadBytes c))]"

definition destinationRefResponse :: "destinationRecord \<Rightarrow> goval" where
  "destinationRefResponse d = JObject [(''type'', JString (ds_Type d)), (''name'', JString (ds_Name d))]"

definition sortedStringMapKeys :: "(string \<times> string) list \<Rightarrow> string list" where
  "sortedStringMapKeys m = sort (map fst m)"

text \<open>Only the names of the sensitive keys leave the plugin, and no sensitive key of the public part.\<close>

definition destinationConfigResponse :: "string \<Rightarrow> (string \<times> string) list \<Rightarrow> goval" where
  "destinationConfigResponse destinationType config = stringMap (removeSensitiveConfigKeys destinationType config)"

definition destinationSensitiveConfigResponse :: "destinationSensitiveRecord option \<Rightarrow> goval" where
  "destinationSensitiveConfigResponse sensitive =
     (let keys = (case sensitive of Some s \<Rightarrow> sortedStringMapKeys (sn_Config s) | None \<Rightarrow> [])
      in JObject [(''redacted'', JBool True), (''configured'', JBool (keys \<noteq> [])), (''keys'', strings keys)])"

definition destinationResponse ::
    "destinationRecord \<Rightarrow> destinationSensitiveRecord option \<Rightarrow> capabilities \<Rightarrow> (string \<times> goval) list" where
  "destinationResponse d sensitive c =
     [(''type'', JString (ds_Type d)), (''name'', JString (ds_Name d)),
      (''description'', JString (ds_Description d)), (''disabled'', JBool (ds_Disabled d)),
      (''allowed_source_path_prefixes'', strings (ds_AllowedSourcePathPrefixes d)),
      (''allowed_resolved_name_prefixes'', strings (ds_AllowedResolvedNamePrefixes d)),
      (''config'', destinationConfigResponse (ds_Type d) (ds_Config d)),
      (''created_time'', JString (ds_CreatedTime d)), (''updated_time'', JString (ds_UpdatedTime d)),
      (''sensitive_config'', destinationSensitiveConfigResponse sensitive),
      (''capabilities'', capabilitiesResponse c)]"

section \<open>Writing a destination\<close>

definition validateDestinationType :: "'w world \<Rightarrow> string \<Rightarrow> gerr + capabilities" where
  "validateDestinationType W destinationType =
     (case w_Provider W destinationType of
        None \<Rightarrow> Inl (unsupportedDestinationType destinationType)
      | Some provider \<Rightarrow> Inr provider)"

definition validateDestinationWriteFields :: "fieldData \<Rightarrow> gerr + unit" where
  "validateDestinationWriteFields data =
     (let unsupported = sort (filter (\<lambda>f. f \<notin> set (fd_Schema data)) (map fst (fd_Raw data)))
      in case unsupported of
           [] \<Rightarrow> Inr ()
         | [f] \<Rightarrow> Inl (Errorf ''unsupported destination field %q'' [f])
         | _ \<Rightarrow> Inl (Errorf ''unsupported destination fields %q'' [joinStrings '', '' unsupported]))"

record destinationWrite =
  dw_record :: destinationRecord
  dw_sensitiveConfig :: "(string \<times> string) list"
  dw_sensitiveCreatedTime :: string

definition destinationWriteRecord ::
    "string \<Rightarrow> string \<Rightarrow> destinationRecord option \<Rightarrow> destinationSensitiveRecord option \<Rightarrow> fieldData \<Rightarrow> string \<Rightarrow>
       gerr + destinationWrite" where
  "destinationWriteRecord destinationType name existing existingSensitive data now =
     bindE (destinationConfigFromFieldData destinationType existing data) (\<lambda>config.
     bindE (destinationSensitiveConfigFromFieldData destinationType existingSensitive data) (\<lambda>sensitiveConfig.
     let config = removeSensitiveConfigKeys destinationType config in
     bindE (destinationSourcePathPrefixesFromFieldData existing data) (\<lambda>sourcePrefixes.
     bindE (destinationResolvedNamePrefixesFromFieldData existing data) (\<lambda>namePrefixes.
       let description = (case existing of
              Some e \<Rightarrow> if rawHas data ''description'' then getString data ''description'' else ds_Description e
            | None \<Rightarrow> getString data ''description'');
           disabled = (case existing of
              Some e \<Rightarrow> if rawHas data ''disabled'' then getBool data ''disabled'' else ds_Disabled e
            | None \<Rightarrow> getBool data ''disabled'')
       in Inr \<lparr> dw_record = \<lparr> ds_Type = destinationType, ds_Name = name, ds_Description = description,
                  ds_Disabled = disabled, ds_Config = config,
                  ds_SensitiveConfigVersion = (case existing of Some e \<Rightarrow> ds_SensitiveConfigVersion e | None \<Rightarrow> []),
                  ds_AllowedSourcePathPrefixes = sourcePrefixes,
                  ds_AllowedResolvedNamePrefixes = namePrefixes,
                  ds_CreatedTime = (case existing of Some e \<Rightarrow> ds_CreatedTime e | None \<Rightarrow> now),
                  ds_UpdatedTime = now \<rparr>,
                dw_sensitiveConfig = sensitiveConfig,
                dw_sensitiveCreatedTime = (case existingSensitive of Some s \<Rightarrow> sn_CreatedTime s | None \<Rightarrow> []) \<rparr>))))"

definition destinationWriteRecordFromFieldData ::
    "'w world \<Rightarrow> string \<Rightarrow> string \<Rightarrow> fieldData \<Rightarrow> string \<Rightarrow> ('w, response + destinationWrite) io" where
  "destinationWriteRecordFromFieldData W destinationType name data now =
     bindM (getDestination W destinationType name) (\<lambda>existing.
     bindM (case existing of
              Some e \<Rightarrow> getDestinationSensitiveConfigForRecord W e
            | None \<Rightarrow> retM None) (\<lambda>existingSensitive.
       retM (case destinationWriteRecord destinationType name existing existingSensitive data now of
           Inl e \<Rightarrow> Inl (ErrorResponse e)
         | Inr write \<Rightarrow> Inr write)))"

definition destinationConfigFromParts :: "destinationRecord \<Rightarrow> (string \<times> string) list \<Rightarrow> providerDestinationConfig" where
  "destinationConfigFromParts d sensitiveConfig = \<lparr> dc_Name = ds_Name d,
     dc_Config = foldl (\<lambda>config (key, v). AList.update key v config) (ds_Config d) sensitiveConfig \<rparr>"

definition validateDestinationWrite ::
    "'w world \<Rightarrow> destinationRecord \<Rightarrow> (string \<times> string) list \<Rightarrow> globalConfig \<Rightarrow> ('w, response option) io" where
  "validateDestinationWrite W d sensitiveConfig cfg =
     (if gc_SecurityPosture cfg = securityPostureHardened \<and> \<not> destinationHasDelegationConstraints d
      then retM (Some (ErrorResponse (Errorf (''security_posture=hardened requires destination %s to set '' @
             ''allowed_source_path_prefixes and allowed_resolved_name_prefixes'')
             [destinationRef (ds_Type d) (ds_Name d)])))
      else bindM (tryM (w_ValidateConfig W (ds_Type d) (destinationConfigFromParts d sensitiveConfig))) (\<lambda>valid.
        retM (case valid of
            Inl e \<Rightarrow> Some (ErrorResponse (Errorf ''destination validation failed: %s'' [errorText e]))
          | Inr _ \<Rightarrow> None)))"

text \<open>The version of the sensitive part, stored before the record that refers to it.\<close>

definition storeSensitiveVersion ::
    "'w world \<Rightarrow> destinationRecord \<Rightarrow> (string \<times> string) list \<Rightarrow> string \<Rightarrow> string \<Rightarrow> ('w, string) io" where
  "storeSensitiveVersion W d sensitiveConfig sensitiveCreatedTime now =
     (if sensitiveConfig = [] then retM destinationSensitiveNone
      else bindM (newRuntimeID W ''destination-sensitive'') (\<lambda>version.
           bindM (putDestinationSensitiveConfig W version
             \<lparr> sn_Type = ds_Type d, sn_Name = ds_Name d, sn_Config = sensitiveConfig,
               sn_CreatedTime = (if sensitiveCreatedTime \<noteq> [] then sensitiveCreatedTime else now),
               sn_UpdatedTime = now \<rparr>) (\<lambda>_. retM version)))"

definition storeDestinationWrite ::
    "'w world \<Rightarrow> destinationRecord \<Rightarrow> (string \<times> string) list \<Rightarrow> string \<Rightarrow> string \<Rightarrow> ('w, unit) io" where
  "storeDestinationWrite W d sensitiveConfig sensitiveCreatedTime now =
     (let previous = ds_SensitiveConfigVersion d in
      bindM (storeSensitiveVersion W d sensitiveConfig sensitiveCreatedTime now) (\<lambda>version.
      bindM (tryM (putDestination W (d \<lparr> ds_SensitiveConfigVersion := version \<rparr>))) (\<lambda>stored.
        case stored of
          Inl e \<Rightarrow>
            bindM (if version \<noteq> destinationSensitiveNone
                   then tryM (deleteDestinationSensitiveConfigVersion W (ds_Type d) (ds_Name d) version)
                   else retM (Inr ())) (\<lambda>_. failM e)
        | Inr _ \<Rightarrow> deleteDestinationSensitiveConfigVersion W (ds_Type d) (ds_Name d) previous)))"

definition pathDestinationWrite :: "'w world \<Rightarrow> fieldData \<Rightarrow> ('w, response) io" where
  "pathDestinationWrite W data =
     (let destinationType = getString data ''type''; name = getString data ''name'' in
      respondE (validateDestinationType W destinationType) (\<lambda>_.
      respondE (validateDestinationWriteFields data) (\<lambda>_.
      bindM (nowUTC W) (\<lambda>t.
      let now = formatRFC3339 t in
      bindM (destinationWriteRecordFromFieldData W destinationType name data now) (\<lambda>write.
        case write of
          Inl response \<Rightarrow> retM response
        | Inr write \<Rightarrow>
            bindM (readGlobalConfig W) (\<lambda>cfg.
            bindM (validateDestinationWrite W (dw_record write) (dw_sensitiveConfig write) cfg) (\<lambda>invalid.
              case invalid of
                Some response \<Rightarrow> retM response
              | None \<Rightarrow>
                  bindM (storeDestinationWrite W (dw_record write) (dw_sensitiveConfig write)
                           (dw_sensitiveCreatedTime write) now) (\<lambda>_. retM NilResponse))))))))"

section \<open>Reading, listing and deleting\<close>

definition pathDestinationRead :: "'w world \<Rightarrow> fieldData \<Rightarrow> ('w, response) io" where
  "pathDestinationRead W data =
     bindM (getDestination W (getString data ''type'') (getString data ''name'')) (\<lambda>record.
       case record of
         None \<Rightarrow> retM NilResponse
       | Some d \<Rightarrow>
           respondE (validateDestinationType W (ds_Type d)) (\<lambda>provider.
           bindM (getDestinationSensitiveConfigForRecord W d) (\<lambda>sensitive.
             retM (DataResponse (destinationResponse d sensitive provider)))))"

definition pathDestinationList :: "'w world \<Rightarrow> fieldData \<Rightarrow> ('w, response) io" where
  "pathDestinationList W data =
     respondE (validateDestinationType W (getString data ''type'')) (\<lambda>_.
     bindM (listDestinationNamesPage W (getString data ''type'') (listPaginationFromFieldData data)) (\<lambda>names.
       retM (ListResponse names)))"

definition pathDestinationDelete :: "'w world \<Rightarrow> fieldData \<Rightarrow> ('w, response) io" where
  "pathDestinationDelete W data =
     (let destinationType = getString data ''type''; name = getString data ''name'' in
      respondE (validateDestinationType W destinationType) (\<lambda>_.
      bindM (listAssociationIDsForDestination W destinationType name) (\<lambda>associationIDs.
        if associationIDs \<noteq> []
        then retM (ErrorResponse (Errorf ''destination has associations and cannot be deleted'' []))
        else bindM (deleteDestination W destinationType name) (\<lambda>_.
             bindM (deleteDestinationSensitiveConfig W destinationType name) (\<lambda>_. retM NilResponse)))))"

section \<open>Validation, readiness and health\<close>

definition destinationProviderFromRequest ::
    "'w world \<Rightarrow> fieldData \<Rightarrow> ('w, response + destinationRecord \<times> capabilities) io" where
  "destinationProviderFromRequest W data =
     (case validateDestinationType W (getString data ''type'') of
        Inl e \<Rightarrow> retM (Inl (ErrorResponse e))
      | Inr _ \<Rightarrow>
          bindM (getDestination W (getString data ''type'') (getString data ''name'')) (\<lambda>record.
            retM (case record of
                None \<Rightarrow> Inl (ErrorResponse (Errorf ''destination does not exist'' []))
              | Some d \<Rightarrow> (case validateDestinationType W (ds_Type d) of
                    Inl e \<Rightarrow> Inl (ErrorResponse e)
                  | Inr provider \<Rightarrow> Inr (d, provider)))))"

definition pathDestinationValidate :: "'w world \<Rightarrow> fieldData \<Rightarrow> ('w, response) io" where
  "pathDestinationValidate W data =
     bindM (destinationProviderFromRequest W data) (\<lambda>found.
       case found of
         Inl response \<Rightarrow> retM response
       | Inr (d, provider) \<Rightarrow>
           bindM (destinationConfig W d) (\<lambda>config.
           bindM (tryM (w_ValidateConfig W (ds_Type d) config)) (\<lambda>valid.
             retM (DataResponse (case valid of
                 Inl e \<Rightarrow> [(''valid'', JBool False), (''destination'', destinationRefResponse d),
                    (''error_class'', JString (providerErrorClass e)), (''error'', JString (errorText e))]
               | Inr _ \<Rightarrow> [(''valid'', JBool True), (''destination'', destinationRefResponse d),
                    (''capabilities'', capabilitiesResponse provider)])))))"

text \<open>The outcome of a health call as (healthy, error class, message); a nil result is unhealthy.\<close>

definition healthOutcome :: "gerr + healthResult option \<Rightarrow> bool \<times> string \<times> string" where
  "healthOutcome result =
     (case result of
        Inl e \<Rightarrow> (False, providerErrorClass e, errorText e)
      | Inr None \<Rightarrow> (False, [], [])
      | Inr (Some h) \<Rightarrow> (hr_Healthy h, hr_ErrorClass h, hr_Message h))"

definition checkDestinationHealth ::
    "'w world \<Rightarrow> destinationRecord \<Rightarrow> providerDestinationConfig \<Rightarrow> ('w, bool \<times> string \<times> string) io" where
  "checkDestinationHealth W d config =
     bindM (tryM (w_Health W (ds_Type d) config)) (\<lambda>result. retM (healthOutcome result))"

definition pathDestinationCheck :: "'w world \<Rightarrow> fieldData \<Rightarrow> ('w, response) io" where
  "pathDestinationCheck W data =
     bindM (destinationProviderFromRequest W data) (\<lambda>found.
       case found of
         Inl response \<Rightarrow> retM response
       | Inr (d, provider) \<Rightarrow>
           bindM (destinationConfig W d) (\<lambda>config.
           bindM (readGlobalConfig W) (\<lambda>cfg.
           let blockers = (if ds_Disabled d then [''destination_disabled''] else []) @
                 destinationDelegationConstraintBlockers d cfg
           in
           bindM (tryM (w_ValidateConfig W (ds_Type d) config)) (\<lambda>validation.
           let valid = (case validation of Inr _ \<Rightarrow> True | Inl _ \<Rightarrow> False);
               validationErrorClass = (case validation of Inl e \<Rightarrow> providerErrorClass e | Inr _ \<Rightarrow> []);
               validationMessage = (case validation of Inl e \<Rightarrow> errorText e | Inr _ \<Rightarrow> []);
               blockers = blockers @ (if valid then [] else [''validation_failed'']);
               healthChecked = (valid \<and> \<not> ds_Disabled d)
           in
           bindM (if healthChecked then checkDestinationHealth W d config else retM (False, [], []))
             (\<lambda>(healthy, healthErrorClass, healthMessage).
             let blockers = blockers @ (if healthChecked \<and> \<not> healthy then [''health_failed''] else [])
             in retM (DataResponse
               [(''ready'', JBool (blockers = [])), (''valid'', JBool valid), (''healthy'', JBool healthy),
                (''health_checked'', JBool healthChecked), (''disabled'', JBool (ds_Disabled d)),
                (''destination'', destinationRefResponse d), (''capabilities'', capabilitiesResponse provider),
                (''blockers'', strings blockers), (''validation_error_class'', JString validationErrorClass),
                (''validation_message'', JString validationMessage),
                (''health_error_class'', JString healthErrorClass),
                (''health_message'', JString healthMessage)]))))))"

definition pathDestinationHealth :: "'w world \<Rightarrow> fieldData \<Rightarrow> ('w, response) io" where
  "pathDestinationHealth W data =
     bindM (destinationProviderFromRequest W data) (\<lambda>found.
       case found of
         Inl response \<Rightarrow> retM response
       | Inr (d, _) \<Rightarrow>
           bindM (destinationConfig W d) (\<lambda>config.
           bindM (tryM (w_Health W (ds_Type d) config)) (\<lambda>result.
             retM (DataResponse (case healthOutcome result of (healthy, errorClass, message) \<Rightarrow>
               (case result of
                  Inl _ \<Rightarrow> [(''healthy'', JBool False), (''destination'', destinationRefResponse d),
                     (''error_class'', JString errorClass), (''message'', JString message)]
                | Inr _ \<Rightarrow> [(''healthy'', JBool healthy), (''destination'', destinationRefResponse d),
                     (''disabled'', JBool (ds_Disabled d)), (''error_class'', JString errorClass),
                     (''message'', JString message)]))))))"

end
