(* ===== verification/Destination_Properties.thy ===== *)
theory Destination_Properties
  imports Destination_Paths Samples
begin

text \<open>
  The properties of destinations (\<open>internal/backend/path_destinations.go\<close>, \<open>destination_storage.go\<close>): a
  destination is two stored objects, the record and the version of the sensitive configuration it refers
  to. What a write leaves of the two when any of its storage calls fails, and what a read shows.
\<close>

section \<open>The two objects as one\<close>

definition sensitiveAt :: "(string \<Rightarrow> entry option) \<Rightarrow> destinationRecord \<Rightarrow> destinationSensitiveRecord option" where
  "sensitiveAt c d =
     (if ds_SensitiveConfigVersion d = destinationSensitiveNone then None
      else case c (sensitiveKey (ds_Type d) (ds_Name d) (ds_SensitiveConfigVersion d)) of
             Some (ESensitive s) \<Rightarrow> Some s
           | _ \<Rightarrow> None)"

definition destinationAt ::
    "(string \<Rightarrow> entry option) \<Rightarrow> string \<Rightarrow> string \<Rightarrow>
       (destinationRecord \<times> destinationSensitiveRecord option) option" where
  "destinationAt c t n =
     (case c (destinationStorageKey t n) of
        Some (EDestination d) \<Rightarrow> Some (d, sensitiveAt c d)
      | _ \<Rightarrow> None)"

lemma sensitiveKey_inj [simp]: "sensitiveKey t n v = sensitiveKey t n u \<longleftrightarrow> v = u"
  by (auto simp: sensitiveKey_def component_key_defs)

lemma destination_keys_disjoint [simp]:
  "sensitiveKey t n v \<noteq> destinationStorageKey t' n'" "destinationStorageKey t' n' \<noteq> sensitiveKey t n v"
  by (auto simp: sensitiveKey_def component_key_defs prefix_defs destinationSecretsPrefix_def)

text \<open>The objects a write may leave: the record with version \<open>v\<close>, whose sensitive part is \<open>s\<close>.\<close>

definition writtenSensitive :: "destinationRecord \<Rightarrow> (string \<times> string) list \<Rightarrow> string \<Rightarrow> string \<Rightarrow> destinationSensitiveRecord" where
  "writtenSensitive d config created now =
     \<lparr> sn_Type = ds_Type d, sn_Name = ds_Name d, sn_Config = config,
       sn_CreatedTime = (if created \<noteq> [] then created else now), sn_UpdatedTime = now \<rparr>"

definition sensitiveObject ::
    "destinationRecord \<Rightarrow> (string \<times> string) list \<Rightarrow> string \<Rightarrow> string \<Rightarrow> destinationSensitiveRecord option" where
  "sensitiveObject d config created now =
     (if config = [] then None else Some (writtenSensitive d config created now))"

text \<open>The versions a write may draw for the sensitive part, in a store with the given contents.\<close>

definition issuable :: "'w world \<Rightarrow> ('w \<Rightarrow> string \<Rightarrow> entry option) \<Rightarrow> 'w \<Rightarrow> string \<Rightarrow> bool" where
  "issuable W contents w v \<longleftrightarrow> v \<noteq> destinationSensitiveNone \<and>
     (\<exists>w1. contents w1 = contents w \<and> fst (newRuntimeID W ''destination-sensitive'' w1) = Inr v)"

definition withSensitive ::
    "(string \<Rightarrow> entry option) \<Rightarrow> destinationRecord \<Rightarrow> string \<Rightarrow> destinationSensitiveRecord \<Rightarrow> string \<Rightarrow> entry option" where
  "withSensitive c d v s = c(sensitiveKey (ds_Type d) (ds_Name d) v \<mapsto> ESensitive s)"

context bao_storage begin

lemma wp_sensitiveID:
  "wp (newRuntimeID W ''destination-sensitive'') (\<lambda>v w'. contents w' = contents w \<and> issuable W contents w v)
     (\<lambda>_ w'. contents w' = contents w) w"
proof -
  have "wp (newRuntimeID W ''destination-sensitive'')
      (\<lambda>v w'. contents w' = contents w \<and> v \<noteq> destinationSensitiveNone) (\<lambda>_ w'. contents w' = contents w) w"
    unfolding newRuntimeID_def
    by (simp, rule wp_mono [OF rand_law]) (auto simp: destinationSensitiveNone_def)
  then show ?thesis
    unfolding wp_def issuable_def by (auto split: prod.splits sum.splits intro!: exI [of _ w])
qed

lemma wp_storeSensitiveVersion:
  assumes none: "config = [] \<Longrightarrow> Q destinationSensitiveNone w"
    and Q: "\<And>v w'. config \<noteq> [] \<Longrightarrow> issuable W contents w v \<Longrightarrow>
      contents w' = withSensitive (contents w) d v (writtenSensitive d config created now) \<Longrightarrow> Q v w'"
    and E: "\<And>e w'. contents w' = contents w \<or> (\<exists>v. issuable W contents w v \<and>
      contents w' = withSensitive (contents w) d v (writtenSensitive d config created now)) \<Longrightarrow> E e w'"
  shows "wp (storeSensitiveVersion W d config created now) Q E w"
proof (cases "config = []")
  case False
  let ?s = "writtenSensitive d config created now"
  have "wp (bindM (newRuntimeID W ''destination-sensitive'') (\<lambda>version.
      bindM (w_Put W (sensitiveKey (ds_Type d) (ds_Name d) version) (ESensitive ?s)) (\<lambda>_. retM version))) Q E w"
    by (rule wp_seq, rule wp_mono [OF wp_sensitiveID], simp_all, rule wp_Put)
      (use False in \<open>auto simp: withSensitive_def intro!: Q E\<close>)
  then show ?thesis
    using False by (simp add: storeSensitiveVersion_def writtenSensitive_def putDestinationSensitiveConfig_def)
qed (simp add: storeSensitiveVersion_def none)

lemma wp_deleteSensitiveVersion:
  assumes Q: "\<And>w'. contents w' = (if v = destinationSensitiveNone then contents w
      else (contents w)(sensitiveKey t n v := None)) \<Longrightarrow> Q () w'"
    and E: "\<And>e w'. contents w' = contents w \<or> v \<noteq> destinationSensitiveNone \<and>
      contents w' = (contents w)(sensitiveKey t n v := None) \<Longrightarrow> E e w'"
  shows "wp (deleteDestinationSensitiveConfigVersion W t n v) Q E w"
  unfolding deleteDestinationSensitiveConfigVersion_def
  by (cases "v = destinationSensitiveNone") (auto intro!: wp_Delete Q E)

end

section \<open>Writes\<close>

text \<open>The record to write was made from the stored one: it has the same name and refers to the same version.\<close>

definition updates :: "destinationRecord \<Rightarrow> (string \<Rightarrow> entry option) \<Rightarrow> bool" where
  "updates d c \<longleftrightarrow> (\<forall>stored s. destinationAt c (ds_Type d) (ds_Name d) = Some (stored, s) \<longrightarrow>
     ds_Type stored = ds_Type d \<and> ds_Name stored = ds_Name d \<and>
     ds_SensitiveConfigVersion stored = ds_SensitiveConfigVersion d)"

lemma destinationAt_other_version:
  "updates d c \<Longrightarrow> v \<noteq> ds_SensitiveConfigVersion d \<Longrightarrow>
   destinationAt (c(sensitiveKey (ds_Type d) (ds_Name d) v := x)) (ds_Type d) (ds_Name d) =
   destinationAt c (ds_Type d) (ds_Name d)"
proof (cases "\<exists>stored. c (destinationStorageKey (ds_Type d) (ds_Name d)) = Some (EDestination stored)")
  case True
  assume up: "updates d c" and v: "v \<noteq> ds_SensitiveConfigVersion d"
  from True obtain stored where st: "c (destinationStorageKey (ds_Type d) (ds_Name d)) = Some (EDestination stored)" ..
  then have "ds_Type stored = ds_Type d" "ds_Name stored = ds_Name d"
      "ds_SensitiveConfigVersion stored = ds_SensitiveConfigVersion d"
    using up by (simp_all add: updates_def destinationAt_def)
  then show ?thesis using v by (simp add: destinationAt_def st sensitiveAt_def)
qed (simp add: destinationAt_def split: option.splits entry.splits)

lemma destinationAt_written:
  "c (destinationStorageKey (ds_Type d) (ds_Name d)) = Some (EDestination (d \<lparr> ds_SensitiveConfigVersion := v \<rparr>)) \<Longrightarrow>
   destinationAt c (ds_Type d) (ds_Name d) =
     Some (d \<lparr> ds_SensitiveConfigVersion := v \<rparr>, sensitiveAt c (d \<lparr> ds_SensitiveConfigVersion := v \<rparr>))"
  by (simp add: destinationAt_def)

lemma sensitiveAt_version:
  "sensitiveAt c (d \<lparr> ds_SensitiveConfigVersion := v \<rparr>) =
     (if v = destinationSensitiveNone then None
      else case c (sensitiveKey (ds_Type d) (ds_Name d) v) of Some (ESensitive s) \<Rightarrow> Some s | _ \<Rightarrow> None)"
  by (simp add: sensitiveAt_def)

definition sameBeyond :: "destinationRecord \<Rightarrow> (string \<Rightarrow> entry option) \<Rightarrow> (string \<Rightarrow> entry option) \<Rightarrow> bool" where
  "sameBeyond d c c' \<longleftrightarrow> (\<forall>k. k \<noteq> destinationStorageKey (ds_Type d) (ds_Name d) \<longrightarrow>
     \<not> prefix (destinationSensitiveStorageKey (ds_Type d) (ds_Name d)) k \<longrightarrow> c' k = c k)"

lemma sensitiveKey_prefix [simp]: "prefix (destinationSensitiveStorageKey t n) (sensitiveKey t n v)"
  by (auto simp: sensitiveKey_def component_key_defs)

lemma sameBeyond_upd [simp]:
  "sameBeyond d c (c'(sensitiveKey (ds_Type d) (ds_Name d) v := x)) = sameBeyond d c c'"
  "sameBeyond d c (c'(destinationStorageKey (ds_Type d) (ds_Name d) := x)) = sameBeyond d c c'"
  unfolding sameBeyond_def by (intro all_cong1 imp_cong refl; auto)+

lemma sameBeyond_refl [simp]: "sameBeyond d c c"
  by (simp add: sameBeyond_def)

text \<open>The storage after a write: the new record with its sensitive part, the previous part removed.\<close>

definition destinationWritten ::
    "destinationRecord \<Rightarrow> (string \<times> string) list \<Rightarrow> string \<Rightarrow> string \<Rightarrow> (string \<Rightarrow> entry option) \<Rightarrow>
       (string \<Rightarrow> entry option) \<Rightarrow> bool" where
  "destinationWritten d config created now c c' \<longleftrightarrow>
     sameBeyond d c c' \<and>
     (ds_SensitiveConfigVersion d \<noteq> destinationSensitiveNone \<longrightarrow>
       c' (sensitiveKey (ds_Type d) (ds_Name d) (ds_SensitiveConfigVersion d)) = None) \<and>
     (\<exists>v. destinationAt c' (ds_Type d) (ds_Name d) =
       Some (d \<lparr> ds_SensitiveConfigVersion := v \<rparr>, sensitiveObject d config created now))"

text \<open>After a failed one: the old pair, or the new record with its own sensitive part or with none.\<close>

definition destinationWriteFailed ::
    "destinationRecord \<Rightarrow> (string \<times> string) list \<Rightarrow> string \<Rightarrow> string \<Rightarrow> (string \<Rightarrow> entry option) \<Rightarrow>
       (string \<Rightarrow> entry option) \<Rightarrow> bool" where
  "destinationWriteFailed d config created now c c' \<longleftrightarrow>
     sameBeyond d c c' \<and>
     (destinationAt c' (ds_Type d) (ds_Name d) = destinationAt c (ds_Type d) (ds_Name d) \<or>
      (\<exists>v s. destinationAt c' (ds_Type d) (ds_Name d) = Some (d \<lparr> ds_SensitiveConfigVersion := v \<rparr>, s) \<and>
         s \<in> {None, sensitiveObject d config created now}))"

lemma failed_old:
  "sameBeyond d c c' \<Longrightarrow> destinationAt c' (ds_Type d) (ds_Name d) = destinationAt c (ds_Type d) (ds_Name d) \<Longrightarrow>
   destinationWriteFailed d config created now c c'"
  by (simp add: destinationWriteFailed_def)

lemma failed_new:
  assumes "sameBeyond d c c'"
    and "c' (destinationStorageKey (ds_Type d) (ds_Name d)) = Some (EDestination (d \<lparr> ds_SensitiveConfigVersion := v \<rparr>))"
    and "sensitiveAt c' (d \<lparr> ds_SensitiveConfigVersion := v \<rparr>) \<in> {None, sensitiveObject d config created now}"
  shows "destinationWriteFailed d config created now c c'"
  using assms by (auto simp: destinationWriteFailed_def destinationAt_written)

context bao_storage begin

text \<open>The second half of a write, from a state in which the object of version \<open>v\<close> is in place.\<close>

lemma wp_storeRecord:
  assumes up: "updates d c" and new: "v \<noteq> ds_SensitiveConfigVersion d \<or> v = destinationSensitiveNone"
    and c1: "contents w1 = (if v = destinationSensitiveNone then c
      else withSensitive c d v (writtenSensitive d config created now))"
    and v: "(v = destinationSensitiveNone) = (config = [])"
  shows "wp (bindM (tryM (putDestination W (d \<lparr> ds_SensitiveConfigVersion := v \<rparr>))) (\<lambda>stored.
      case stored of
        Inl e \<Rightarrow> bindM (if v \<noteq> destinationSensitiveNone
          then tryM (deleteDestinationSensitiveConfigVersion W (ds_Type d) (ds_Name d) v) else retM (Inr ()))
          (\<lambda>_. failM e)
      | Inr _ \<Rightarrow> deleteDestinationSensitiveConfigVersion W (ds_Type d) (ds_Name d) (ds_SensitiveConfigVersion d)))
    (\<lambda>_ w'. destinationWritten d config created now c (contents w'))
    (\<lambda>_ w'. destinationWriteFailed d config created now c (contents w')) w1"
proof -
  let ?t = "ds_Type d" and ?n = "ds_Name d" and ?d = "d \<lparr> ds_SensitiveConfigVersion := v \<rparr>"
  let ?key = "destinationStorageKey ?t ?n"
  have same1: "sameBeyond d c (contents w1)" by (simp add: c1 withSensitive_def)
  have old: "destinationAt (contents w1) ?t ?n = destinationAt c ?t ?n"
    using destinationAt_other_version [OF up] new by (auto simp: c1 withSensitive_def)
  have sens: "contents w1 (sensitiveKey ?t ?n v) = Some (ESensitive (writtenSensitive d config created now))"
    if "v \<noteq> destinationSensitiveNone" using that by (simp add: c1 withSensitive_def)
  have put: "wp (putDestination W ?d) (\<lambda>_ w2. contents w2 = (contents w1)(?key \<mapsto> EDestination ?d))
      (\<lambda>_ w2. contents w2 = contents w1 \<or> contents w2 = (contents w1)(?key \<mapsto> EDestination ?d)) w1"
    unfolding putDestination_def by (rule wp_Put) simp_all
  have obj: "sensitiveAt c' ?d = sensitiveObject d config created now"
    if "v \<noteq> destinationSensitiveNone \<Longrightarrow>
      c' (sensitiveKey ?t ?n v) = Some (ESensitive (writtenSensitive d config created now))" for c'
    using that v by (auto simp: sensitiveAt_version sensitiveObject_def)
  show ?thesis
  proof (rule wp_seq, simp only: wp_tryM, rule wp_mono [OF put])
    fix a :: unit and w2
    assume c2: "contents w2 = (contents w1)(?key \<mapsto> EDestination ?d)"
    show "wp (case Inr a of Inl e \<Rightarrow> bindM (if v \<noteq> destinationSensitiveNone
          then tryM (deleteDestinationSensitiveConfigVersion W ?t ?n v) else retM (Inr ())) (\<lambda>_. failM e)
        | Inr _ \<Rightarrow> deleteDestinationSensitiveConfigVersion W ?t ?n (ds_SensitiveConfigVersion d))
      (\<lambda>_ w'. destinationWritten d config created now c (contents w'))
      (\<lambda>_ w'. destinationWriteFailed d config created now c (contents w')) w2"
    proof (simp only: sum.case, rule wp_deleteSensitiveVersion)
      fix w'
      assume c': "contents w' = (if ds_SensitiveConfigVersion d = destinationSensitiveNone then contents w2
        else (contents w2)(sensitiveKey ?t ?n (ds_SensitiveConfigVersion d) := None))"
      have "sensitiveAt (contents w') ?d = sensitiveObject d config created now"
        by (rule obj) (use sens new c2 c' in auto)
      then show "destinationWritten d config created now c (contents w')"
        using destinationAt_written [of "contents w'" d v] c2 c' same1 by (auto simp: destinationWritten_def)
    next
      fix e w'
      assume c': "contents w' = contents w2 \<or> ds_SensitiveConfigVersion d \<noteq> destinationSensitiveNone \<and>
        contents w' = (contents w2)(sensitiveKey ?t ?n (ds_SensitiveConfigVersion d) := None)"
      have "sensitiveAt (contents w') ?d = sensitiveObject d config created now"
        by (rule obj) (use sens new c2 c' in auto)
      then show "destinationWriteFailed d config created now c (contents w')"
        by (intro failed_new [where v = v]) (use c2 c' same1 in auto)
    qed
  next
    fix e w2
    assume c2: "contents w2 = contents w1 \<or> contents w2 = (contents w1)(?key \<mapsto> EDestination ?d)"
    show "wp (case Inl e of Inl e \<Rightarrow> bindM (if v \<noteq> destinationSensitiveNone
          then tryM (deleteDestinationSensitiveConfigVersion W ?t ?n v) else retM (Inr ())) (\<lambda>_. failM e)
        | Inr _ \<Rightarrow> deleteDestinationSensitiveConfigVersion W ?t ?n (ds_SensitiveConfigVersion d))
      (\<lambda>_ w'. destinationWritten d config created now c (contents w'))
      (\<lambda>_ w'. destinationWriteFailed d config created now c (contents w')) w2"
    proof -
      have kept: "destinationWriteFailed d config created now c (contents w')"
        if c': "contents w' = contents w2 \<or>
          v \<noteq> destinationSensitiveNone \<and> contents w' = (contents w2)(sensitiveKey ?t ?n v := None)" for w'
        using c2
      proof
        assume "contents w2 = contents w1"
        then have "contents w' = contents w1 \<or>
            v \<noteq> destinationSensitiveNone \<and> contents w' = c(sensitiveKey ?t ?n v := None)"
          using c' by (auto simp: c1 withSensitive_def)
        then show ?thesis
          using destinationAt_other_version [OF up, of v None] new same1 old by (auto intro!: failed_old)
      next
        assume c2: "contents w2 = (contents w1)(?key \<mapsto> EDestination ?d)"
        have "sensitiveAt (contents w') ?d \<in> {None, sensitiveObject d config created now}"
          using c' obj [of "contents w'"] sens c2 by (auto simp: sensitiveAt_version)
        then show ?thesis
          by (intro failed_new [where v = v]) (use c2 c' same1 in auto)
      qed
      have "wp (deleteDestinationSensitiveConfigVersion W ?t ?n v)
          (\<lambda>_ w'. destinationWriteFailed d config created now c (contents w'))
          (\<lambda>_ w'. destinationWriteFailed d config created now c (contents w')) w2"
        by (rule wp_deleteSensitiveVersion; rule kept) (simp_all split: if_splits)
      moreover have "wp (failM e) Q E = E e" for Q :: "unit \<Rightarrow> 'w \<Rightarrow> bool" and E by (simp add: fun_eq_iff)
      ultimately show ?thesis using kept [of w2] by (cases "v = destinationSensitiveNone") simp_all
    qed
  qed
qed

lemma wp_storeDestinationWrite:
  assumes up: "updates d (contents w)" and fresh: "\<not> issuable W contents w (ds_SensitiveConfigVersion d)"
  shows "wp (storeDestinationWrite W d config created now)
    (\<lambda>_ w'. destinationWritten d config created now (contents w) (contents w'))
    (\<lambda>_ w'. destinationWriteFailed d config created now (contents w) (contents w')) w"
  unfolding storeDestinationWrite_def Let_def
proof (rule wp_seq, rule wp_storeSensitiveVersion, goal_cases)
  case (3 e w')
  then show ?case
    using destinationAt_other_version [OF up] fresh
    by (auto simp: withSensitive_def issuable_def intro!: failed_old)
qed (rule wp_storeRecord [OF up]; use fresh in \<open>auto simp: issuable_def\<close>)+

end

text \<open>A stored destination with a sensitive part, and an update of it.\<close>

definition sampleSensitive :: destinationSensitiveRecord where
  "sampleSensitive = \<lparr> sn_Type = ''fake'', sn_Name = ''one'', sn_Config = [(''token'', ''old'')],
     sn_CreatedTime = ''1970-01-01T00:00:00Z'', sn_UpdatedTime = ''1970-01-01T00:00:00Z'' \<rparr>"

definition storedDestination :: destinationRecord where
  "storedDestination = \<lparr> ds_Type = ''fake'', ds_Name = ''one'', ds_Description = [], ds_Disabled = False,
     ds_Config = [(''base_url'', ''https://example.com'')], ds_SensitiveConfigVersion = ''version-1'',
     ds_AllowedSourcePathPrefixes = [], ds_AllowedResolvedNamePrefixes = [],
     ds_CreatedTime = ''1970-01-01T00:00:00Z'', ds_UpdatedTime = ''1970-01-01T00:00:00Z'' \<rparr>"

definition storedDestinations :: mem where
  "storedDestinations = snd (bindM (putDestination (memW False) storedDestination)
     (\<lambda>_. putDestinationSensitiveConfig (memW False) ''version-1'' sampleSensitive) emptyMem)"

lemma storedDestinations_at:
  "destinationAt (memContents storedDestinations) ''fake'' ''one'' = Some (storedDestination, Some sampleSensitive)"
  by code_simp

lemma storedDestination_fresh: "\<not> issuable (memW False) memContents w ''version-1''"
  by (auto simp: issuable_def newRuntimeID_def bindM_def retM_def memRand_def)

lemmas destination_write_defs = storeDestinationWrite_def storeSensitiveVersion_def putDestination_def
  putDestinationSensitiveConfig_def deleteDestinationSensitiveConfigVersion_def

lemmas run_defs = bindM_def retM_def failM_def tryM_def newRuntimeID_def memRand_def memPut_def memDelete_def
  memOp_def Let_def

lemma sensitiveID_not_none [simp]:
  "(''destination-sensitive'' @ ''-'' @ x) \<noteq> destinationSensitiveNone"
  by (simp add: destinationSensitiveNone_def)

lemma stored_without_faults:
  "m_faults w = [] \<Longrightarrow> fst (storeDestinationWrite (memW False) d config created now w) = Inr ()"
  by (simp add: destination_write_defs run_defs destinationSensitiveNone_def)

text \<open>C8. A destination write is safe against every storage failure: when it succeeds, the new record is
  stored and refers to the new sensitive part, and the previous sensitive part is gone; when it fails,
  the stored record is the old one with the old sensitive part, or the new one with the new part or
  with none. No record ever refers to the sensitive part of the other, and no other object changes. The
  record written must come from the stored one, and the random version must be a new one.\<close>

theorem destination_write_consistent:
  assumes "bao_storage W contents" and "updates d (contents w)"
    and "\<not> issuable W contents w (ds_SensitiveConfigVersion d)"
  shows "wp (storeDestinationWrite W d config created now)
    (\<lambda>_ w'. destinationWritten d config created now (contents w) (contents w'))
    (\<lambda>_ w'. destinationWriteFailed d config created now (contents w) (contents w')) w"
  by (rule bao_storage.wp_storeDestinationWrite [OF assms])

theorem destination_write_consistent_witness:
  "wp (storeDestinationWrite (memW False) storedDestination [(''token'', ''new'')] [] ''1970-01-02T00:00:00Z'')
    (\<lambda>_ w'. destinationWritten storedDestination [(''token'', ''new'')] [] ''1970-01-02T00:00:00Z''
       (memContents storedDestinations) (memContents w'))
    (\<lambda>_ w'. destinationWriteFailed storedDestination [(''token'', ''new'')] [] ''1970-01-02T00:00:00Z''
       (memContents storedDestinations) (memContents w')) storedDestinations \<and>
   fst (storeDestinationWrite (memW False) storedDestination [(''token'', ''new'')] [] ''1970-01-02T00:00:00Z''
     storedDestinations) = Inr ()"
proof
  show "fst (storeDestinationWrite (memW False) storedDestination [(''token'', ''new'')] [] ''1970-01-02T00:00:00Z''
      storedDestinations) = Inr ()"
    by (rule stored_without_faults) code_simp
  have version: "ds_SensitiveConfigVersion storedDestination = ''version-1''" by (simp add: storedDestination_def)
  have "updates storedDestination (memContents storedDestinations)"
    using storedDestinations_at by (simp add: updates_def storedDestination_def)
  then show "wp (storeDestinationWrite (memW False) storedDestination [(''token'', ''new'')] [] ''1970-01-02T00:00:00Z'')
    (\<lambda>_ w'. destinationWritten storedDestination [(''token'', ''new'')] [] ''1970-01-02T00:00:00Z''
       (memContents storedDestinations) (memContents w'))
    (\<lambda>_ w'. destinationWriteFailed storedDestination [(''token'', ''new'')] [] ''1970-01-02T00:00:00Z''
       (memContents storedDestinations) (memContents w')) storedDestinations"
    by (rule destination_write_consistent [OF mem.bao_storage_axioms])
      (simp add: version storedDestination_fresh)
qed

text \<open>The third outcome of a failed write: when the storage reports an error for a write of the record that
  did happen, the new sensitive part is removed from under it, and the destination has none.\<close>

lemma ambiguous_write_loses_sensitive:
  assumes "config \<noteq> []" and "m_faults w = [NoFault, FailAfter]"
  shows "case storeDestinationWrite (memW False) d config created now w of (result, w') \<Rightarrow>
    result = Inl (ErrStorage ''done'') \<and>
    (case destinationAt (memContents w') (ds_Type d) (ds_Name d) of
       None \<Rightarrow> False
     | Some (new, s) \<Rightarrow> ds_SensitiveConfigVersion new \<noteq> destinationSensitiveNone \<and> s = None)"
  using assms
  by (simp add: destination_write_defs run_defs memContents_def destinationAt_def sensitiveAt_def
      update_conv' delete_conv' destinationSensitiveNone_def)

section \<open>Reads\<close>

text \<open>A destination without its secrets: the public fields of the configuration, and of the sensitive part
  the names of its keys.\<close>

definition publicPart :: "destinationRecord \<Rightarrow> destinationRecord" where
  "publicPart d = d \<lparr> ds_Config :=
     filter (\<lambda>f. fst f \<notin> set (destinationSensitiveConfigFieldKeysForType (ds_Type d))) (ds_Config d) \<rparr>"

definition hideValues :: "destinationSensitiveRecord \<Rightarrow> destinationSensitiveRecord" where
  "hideValues s = s \<lparr> sn_Config := map (\<lambda>(k, _). (k, [])) (sn_Config s) \<rparr>"

lemma foldl_delete: "foldl (\<lambda>m k. AList.delete k m) m ks = filter (\<lambda>f. fst f \<notin> set ks) m"
  by (induction ks arbitrary: m) (auto simp: AList.delete_eq case_prod_beta intro: filter_cong)

lemma response_redacted:
  "destinationResponse (publicPart d) (map_option hideValues s) p = destinationResponse d s p"
proof -
  have keys: "fst \<circ> (\<lambda>(k, _). (k, [])) = fst" by auto
  show ?thesis
    by (cases s) (simp_all add: destinationResponse_def publicPart_def hideValues_def destinationConfigResponse_def
        removeSensitiveConfigKeys_def foldl_delete destinationSensitiveConfigResponse_def sortedStringMapKeys_def
        keys)
qed

lemma getDestination_decoded:
  "getDestination W t n = getDecoded W (destinationStorageKey t n) decodeDestination"
proof -
  have "map_option normalizeDestinationDefaults r = r" for r
    by (cases r) (simp_all add: normalizeDestinationDefaults_def)
  then show ?thesis
    by (simp add: getDestination_def bindM_def retM_def fun_eq_iff split: prod.splits sum.splits)
qed

context bao_storage begin

lemma wp_getDestination:
  assumes "contents w (destinationStorageKey t n) = None \<Longrightarrow> (\<And>w'. contents w' = contents w \<Longrightarrow> Q None w')"
    and "\<And>d w'. contents w (destinationStorageKey t n) = Some (EDestination d) \<Longrightarrow> contents w' = contents w \<Longrightarrow>
      Q (Some d) w'"
    and "\<And>e w'. contents w' = contents w \<Longrightarrow> E e w'"
  shows "wp (getDestination W t n) Q E w"
  unfolding getDestination_decoded by (rule wp_getDecoded) (use assms in auto)

lemma wp_getSensitive:
  assumes "\<And>w'. contents w' = contents w \<Longrightarrow> Q (sensitiveAt (contents w) d) w'"
    and "\<And>e w'. contents w' = contents w \<Longrightarrow> E e w'"
  shows "wp (getDestinationSensitiveConfigForRecord W d) Q E w"
proof (cases "ds_SensitiveConfigVersion d = destinationSensitiveNone")
  case True
  then show ?thesis using assms(1) [of w] by (simp add: getDestinationSensitiveConfigForRecord_def sensitiveAt_def)
next
  case False
  then show ?thesis
    using assms unfolding getDestinationSensitiveConfigForRecord_def
    by (simp, intro wp_getDecoded) (auto simp: sensitiveAt_def)
qed

end

text \<open>C33. No secret leaves the plugin with a destination: the answer of a read is computed from the stored
  destination without its sensitive fields and with the values of its sensitive part blanked, so it is
  the same whatever those values are. A read changes nothing.\<close>

theorem destination_read_redacted:
  assumes "bao_storage W contents"
  shows "wp (pathDestinationRead W data)
    (\<lambda>res w'. contents w' = contents w \<and>
       (case res of
          DataResponse answer \<Rightarrow> \<exists>d s p.
            destinationAt (contents w) (getString data ''type'') (getString data ''name'') = Some (d, s) \<and>
            w_Provider W (ds_Type d) = Some p \<and>
            answer = destinationResponse (publicPart d) (map_option hideValues s) p
        | ErrorResponse e \<Rightarrow> \<exists>d s.
            destinationAt (contents w) (getString data ''type'') (getString data ''name'') = Some (d, s) \<and>
            w_Provider W (ds_Type d) = None \<and> e = unsupportedDestinationType (ds_Type d)
        | NilResponse \<Rightarrow> contents w (destinationStorageKey (getString data ''type'') (getString data ''name'')) = None
        | _ \<Rightarrow> False))
    (\<lambda>_ w'. contents w' = contents w) w"
  unfolding pathDestinationRead_def
proof (rule wp_seq, rule bao_storage.wp_getDestination [OF assms], goal_cases)
  case (2 d w1)
  let ?s = "sensitiveAt (contents w) d"
  have at: "destinationAt (contents w) (getString data ''type'') (getString data ''name'') = Some (d, ?s)"
    using 2 by (simp add: destinationAt_def)
  show ?case
  proof (cases "w_Provider W (ds_Type d)")
    case None
    then show ?thesis using 2 at by (simp add: validateDestinationType_def)
  next
    case (Some p)
    have "wp (bindM (getDestinationSensitiveConfigForRecord W d) (\<lambda>sensitive. retM (DataResponse (destinationResponse d sensitive p))))
      (\<lambda>res w'. contents w' = contents w \<and> res = DataResponse (destinationResponse (publicPart d) (map_option hideValues ?s) p))
      (\<lambda>_ w'. contents w' = contents w) w1"
      by (rule wp_seq, rule bao_storage.wp_getSensitive [OF assms]) (use 2 in \<open>simp_all add: response_redacted\<close>)
    then show ?thesis
      unfolding validateDestinationType_def Some option.case respondE_def sum.case
      by (rule wp_mono) (use at Some in auto)
  qed
qed simp_all

definition sampleRequest :: fieldData where
  "sampleRequest = \<lparr> fd_Raw = [], fd_Values = [(''type'', JString ''fake''), (''name'', JString ''one'')],
     fd_Schema = [''type'', ''name''] \<rparr>"

lemma sampleRequest_fields: "getString sampleRequest ''type'' = ''fake''" "getString sampleRequest ''name'' = ''one''"
  by code_simp+

theorem destination_read_redacted_witness:
  "wp (pathDestinationRead (memW False) sampleRequest)
    (\<lambda>res w'. memContents w' = memContents storedDestinations \<and>
       (case res of
          DataResponse answer \<Rightarrow> answer =
            destinationResponse (publicPart storedDestination) (Some (hideValues sampleSensitive)) memCapabilities
        | _ \<Rightarrow> False))
    (\<lambda>_ w'. memContents w' = memContents storedDestinations) storedDestinations \<and>
   sn_Config (hideValues sampleSensitive) = [(''token'', [])]"
proof
  have key: "memContents storedDestinations (destinationStorageKey ''fake'' ''one'') \<noteq> None" by code_simp
  have provider: "w_Provider (memW False) (ds_Type storedDestination) = Some memCapabilities"
    by (simp add: storedDestination_def)
  show "wp (pathDestinationRead (memW False) sampleRequest)
    (\<lambda>res w'. memContents w' = memContents storedDestinations \<and>
       (case res of
          DataResponse answer \<Rightarrow> answer =
            destinationResponse (publicPart storedDestination) (Some (hideValues sampleSensitive)) memCapabilities
        | _ \<Rightarrow> False))
    (\<lambda>_ w'. memContents w' = memContents storedDestinations) storedDestinations"
    by (rule wp_mono [OF destination_read_redacted [OF mem.bao_storage_axioms]])
      (use key provider in \<open>auto simp: storedDestinations_at sampleRequest_fields split: response.splits\<close>)
  show "sn_Config (hideValues sampleSensitive) = [(''token'', [])]"
    by (simp add: hideValues_def sampleSensitive_def)
qed

end
