(* ===== verification/Data_Delete.thy ===== *)
theory Data_Delete
  imports Data_Write
begin

text \<open>
  Deleting the current version (\<open>pathDataDelete\<close> of \<open>internal/backend/path_data.go\<close>) and deleting, restoring
  and destroying selected versions (\<open>path_versions.go\<close>). A mutation of a version returns the metadata
  it has changed, which the Go code updates in place.
\<close>

section \<open>Mutations of one version\<close>

definition updateVersionMetadata ::
    "metadataRecord \<Rightarrow> int \<Rightarrow> (versionMetadata \<Rightarrow> versionMetadata) \<Rightarrow> string \<Rightarrow> metadataRecord" where
  "updateVersionMetadata m version f now =
     (let versionKey = versionMetadataKey version
      in m \<lparr> md_Versions := AList.update versionKey (f (versionMetadataAt m versionKey)) (md_Versions m),
             md_UpdatedTime := now \<rparr>)"

definition softDeleteVersion ::
    "'w world \<Rightarrow> metadataRecord \<Rightarrow> string \<Rightarrow> int \<Rightarrow> string \<Rightarrow> ('w, metadataRecord) io" where
  "softDeleteVersion W m path version now =
     bindM (getVersion W path version) (\<lambda>record.
       case record of
         None \<Rightarrow> retM m
       | Some r \<Rightarrow>
           if vr_Destroyed r \<or> vr_DeletionTime r \<noteq> [] then retM m
           else bindM (putVersion W path (r \<lparr> vr_DeletionTime := now \<rparr>)) (\<lambda>_.
             retM (updateVersionMetadata m (vr_Version r) (\<lambda>vm. vm \<lparr> vm_DeletionTime := now \<rparr>) now)))"

definition undeleteVersion ::
    "'w world \<Rightarrow> metadataRecord \<Rightarrow> string \<Rightarrow> int \<Rightarrow> string \<Rightarrow> ('w, metadataRecord) io" where
  "undeleteVersion W m path version now =
     bindM (getVersion W path version) (\<lambda>record.
       case record of
         None \<Rightarrow> retM m
       | Some r \<Rightarrow>
           if vr_Destroyed r then retM m
           else bindM (putVersion W path (r \<lparr> vr_DeletionTime := [] \<rparr>)) (\<lambda>_.
             retM (updateVersionMetadata m version (\<lambda>vm. vm \<lparr> vm_DeletionTime := [] \<rparr>) now)))"

definition destroyVersion ::
    "'w world \<Rightarrow> metadataRecord \<Rightarrow> string \<Rightarrow> int \<Rightarrow> string \<Rightarrow> ('w, metadataRecord) io" where
  "destroyVersion W m path version now =
     bindM (getVersion W path version) (\<lambda>record.
       case record of
         None \<Rightarrow> retM m
       | Some r \<Rightarrow>
           if vr_Destroyed r then retM m
           else bindM (putVersion W path
                  (r \<lparr> vr_Data := [], vr_Destroyed := True, vr_DeletionTime := [] \<rparr>)) (\<lambda>_.
             retM (updateVersionMetadata m version
                     (\<lambda>vm. vm \<lparr> vm_Destroyed := True, vm_DeletionTime := [] \<rparr>) now)))"

section \<open>Deleting the current version\<close>

record sourceDeletePlan =
  sp_operations :: "outboxRecord list"
  sp_operationIDs :: "string list"
  sp_staleUpsertIDs :: "string list"
  sp_additionalOperations :: int

definition buildSourceDeletePlan ::
    "'w world \<Rightarrow> string \<Rightarrow> string \<Rightarrow> int \<Rightarrow> string \<Rightarrow> ('w, sourceDeletePlan) io" where
  "buildSourceDeletePlan W path generation version now =
     bindM (enabledAssociationsForPath W path) (\<lambda>associations.
     bindM (getVersion W path version) (\<lambda>record.
       case record of
         None \<Rightarrow> failM (Errorf ''source version is unavailable'' [])
       | Some v \<Rightarrow>
           bindM (liftE (newAssociationOutboxRecords W associations generation version (vr_Data v) now
                    \<lparr> ao_operationType = OperationTypeDelete, ao_trigger = outboxTriggerUser, ao_salt = [],
                      ao_requireDeleteMode = True \<rparr>)) (\<lambda>(operations, operationIDs).
           bindM (queuedUpsertIDsForPathVersion W path version) (\<lambda>staleUpsertIDs.
           bindM (additionalQueuedOperationCount W operations) (\<lambda>additional.
             retM \<lparr> sp_operations = operations, sp_operationIDs = operationIDs,
                    sp_staleUpsertIDs = staleUpsertIDs, sp_additionalOperations = additional \<rparr>)))))"

definition metadataForSourceDelete :: "'w world \<Rightarrow> string \<Rightarrow> ('w, metadataRecord option) io" where
  "metadataForSourceDelete W path =
     bindM (getMetadata W path) (\<lambda>metadata.
       case metadata of
         None \<Rightarrow> retM None
       | Some m \<Rightarrow>
           if md_CurrentVersion m = 0 then retM None
           else bindM (getVersion W path (md_CurrentVersion m)) (\<lambda>version.
             case version of
               None \<Rightarrow> retM None
             | Some v \<Rightarrow> if vr_Destroyed v \<or> vr_DeletionTime v \<noteq> [] then retM None else retM (Some m)))"

text \<open>What every deletion of the current version does once its plan is accepted.\<close>

definition commitVersionMutation ::
    "'w world \<Rightarrow> metadataRecord \<Rightarrow> string \<Rightarrow> int \<Rightarrow> string \<Rightarrow> ('w, metadataRecord) io \<Rightarrow>
       outboxRecord list \<Rightarrow> string list \<Rightarrow> ('w, metadataRecord) io" where
  "commitVersionMutation W m path version now mutated operations canceledIDs =
     bindM (putPendingEnqueueIntent W path (md_Generation m) version operations canceledIDs now) (\<lambda>_.
     bindM mutated (\<lambda>m.
     bindM (putMetadata W path m) (\<lambda>_.
     bindM (cancelQueuedOutboxIDs W canceledIDs) (\<lambda>_.
     bindM (putOutboxRecords W operations) (\<lambda>_.
     bindM (completeEnqueueIntent W path version operations) (\<lambda>_.
       retM m))))))"

datatype dataDeleteResult =
    DeleteRefused response
  | NothingToDelete
  | DeleteDone metadataRecord sourceDeletePlan

definition commitDataDeleteMutation ::
    "'w world \<Rightarrow> string \<Rightarrow> string \<Rightarrow> string \<Rightarrow> ('w, dataDeleteResult) io" where
  "commitDataDeleteMutation W path now mount =
     bindM (metadataForSourceDelete W path) (\<lambda>metadata.
       case metadata of
         None \<Rightarrow> retM NothingToDelete
       | Some m \<Rightarrow>
           bindM (buildSourceDeletePlan W path (md_Generation m) (md_CurrentVersion m) now) (\<lambda>plan.
           bindM (tryM (ensureQueueCapacityAfterReplacement W (sp_additionalOperations plan)
                    (int (length (sp_staleUpsertIDs plan))))) (\<lambda>room.
           case room of
             Inl e \<Rightarrow> retM (DeleteRefused (errorResponseForOperationError e mount))
           | Inr _ \<Rightarrow>
           bindM (tryM (ensureQueuedOutboxIDsUnclaimed W (sp_staleUpsertIDs plan))) (\<lambda>unclaimed.
           case unclaimed of
             Inl e \<Rightarrow> if isQueuedOperationClaimedError e then retM (DeleteRefused (ErrorResponse e)) else failM e
           | Inr _ \<Rightarrow>
           bindM (commitVersionMutation W m path (md_CurrentVersion m) now
                    (softDeleteVersion W m path (md_CurrentVersion m) now)
                    (sp_operations plan) (sp_staleUpsertIDs plan)) (\<lambda>m.
             retM (DeleteDone m plan))))))"

definition pathDataDelete :: "'w world \<Rightarrow> string \<Rightarrow> fieldData \<Rightarrow> ('w, response) io" where
  "pathDataDelete W mountPoint d =
     respondE (normalizeSourcePath (getString d ''path'')) (\<lambda>path.
     bindM (nowUTC W) (\<lambda>t.
     bindM (withEnqueueMutationTransaction W
              (commitDataDeleteMutation W path (formatRFC3339 t) (requestMountPath mountPoint))) (\<lambda>result.
       case result of
         DeleteRefused response \<Rightarrow> retM response
       | NothingToDelete \<Rightarrow> retM NilResponse
       | DeleteDone m plan \<Rightarrow>
           bindM (whenM (sp_operations plan \<noteq> []) (signalEventDispatch W)) (\<lambda>_.
             retM (DataResponse [(''metadata'', JObject [(''version'', JInt (md_CurrentVersion m)),
               (''deletion_time'', JString (formatRFC3339 t)),
               (''sync_operation_ids'', strings (sp_operationIDs plan)),
               (''sync_state'', JString (syncStateForOperationIDs (sp_operationIDs plan)))])])))))"

section \<open>Selected versions\<close>

datatype versionMutationKind = VersionMutationDelete | VersionMutationUndelete | VersionMutationDestroy

definition versionMutationFunc ::
    "'w world \<Rightarrow> versionMutationKind \<Rightarrow> metadataRecord \<Rightarrow> string \<Rightarrow> int \<Rightarrow> string \<Rightarrow> ('w, metadataRecord) io" where
  "versionMutationFunc W kind =
     (case kind of
        VersionMutationDelete \<Rightarrow> softDeleteVersion W
      | VersionMutationUndelete \<Rightarrow> undeleteVersion W
      | VersionMutationDestroy \<Rightarrow> destroyVersion W)"

definition versionMutationRequest :: "fieldData \<Rightarrow> gerr + string \<times> int list" where
  "versionMutationRequest d =
     bindE (normalizeSourcePath (getString d ''path'')) (\<lambda>path.
       let versions = getIntList d ''versions''
       in if versions = [] then Inl (Errorf ''versions must contain at least one version'' [])
          else if \<exists>v \<in> set versions. v \<le> 0 then Inl (Errorf ''versions must contain positive integers'' [])
          else Inr (path, versions))"

definition mutateCurrentVersionDelete ::
    "'w world \<Rightarrow> metadataRecord \<Rightarrow> string \<Rightarrow> int \<Rightarrow> string \<Rightarrow> versionMutationKind \<Rightarrow> ('w, bool) io" where
  "mutateCurrentVersionDelete W m path version now kind =
     bindM (buildSourceDeletePlan W path (md_Generation m) version now) (\<lambda>plan.
     bindM (ensureQueueCapacityAfterReplacement W (sp_additionalOperations plan)
              (int (length (sp_staleUpsertIDs plan)))) (\<lambda>_.
     bindM (ensureQueuedOutboxIDsUnclaimed W (sp_staleUpsertIDs plan)) (\<lambda>_.
     bindM (commitVersionMutation W m path version now (versionMutationFunc W kind m path version now)
              (sp_operations plan) (sp_staleUpsertIDs plan)) (\<lambda>_.
       retM (sp_operations plan \<noteq> [])))))"

definition commitCurrentVersionUndelete ::
    "'w world \<Rightarrow> metadataRecord \<Rightarrow> string \<Rightarrow> int \<Rightarrow> string \<Rightarrow> versionMutationKind \<Rightarrow> outboxRecord list \<Rightarrow> ('w, bool) io" where
  "commitCurrentVersionUndelete W m path version now kind operations =
     bindM (queuedDeleteIDsForUpsertOperations W operations) (\<lambda>staleDeleteIDs.
     bindM (additionalQueuedOperationCount W operations) (\<lambda>additional.
     bindM (ensureQueueCapacityAfterReplacement W additional (int (length staleDeleteIDs))) (\<lambda>_.
     bindM (ensureQueuedOutboxIDsUnclaimed W staleDeleteIDs) (\<lambda>_.
     bindM (commitVersionMutation W m path version now (versionMutationFunc W kind m path version now)
              operations staleDeleteIDs) (\<lambda>_.
       retM (operations \<noteq> []))))))"

definition mutateVersionOnly ::
    "'w world \<Rightarrow> metadataRecord \<Rightarrow> string \<Rightarrow> int \<Rightarrow> string \<Rightarrow> versionMutationKind \<Rightarrow> ('w, bool) io" where
  "mutateVersionOnly W m path version now kind =
     bindM (versionMutationFunc W kind m path version now) (\<lambda>m.
     bindM (putMetadata W path m) (\<lambda>_. retM False))"

definition mutateCurrentVersionUndelete ::
    "'w world \<Rightarrow> metadataRecord \<Rightarrow> string \<Rightarrow> int \<Rightarrow> string \<Rightarrow> versionMutationKind \<Rightarrow> ('w, bool) io" where
  "mutateCurrentVersionUndelete W m path version now kind =
     bindM (getVersion W path version) (\<lambda>record.
       case record of
         None \<Rightarrow> mutateVersionOnly W m path version now kind
       | Some v \<Rightarrow>
           if vr_Destroyed v \<or> vr_DeletionTime v = [] then mutateVersionOnly W m path version now kind
           else bindM (enabledAssociationsForPath W path) (\<lambda>associations.
             bindM (liftE (newAssociationOutboxRecords W associations (md_Generation m) version (vr_Data v) now
                      \<lparr> ao_operationType = OperationTypeUpsert, ao_trigger = outboxTriggerUser, ao_salt = [],
                        ao_requireDeleteMode = False \<rparr>)) (\<lambda>(operations, _).
               commitCurrentVersionUndelete W m path version now kind operations)))"

definition mutateSourceVersion ::
    "'w world \<Rightarrow> metadataRecord \<Rightarrow> string \<Rightarrow> int \<Rightarrow> string \<Rightarrow> versionMutationKind \<Rightarrow> ('w, bool) io" where
  "mutateSourceVersion W m path version now kind =
     (if version = md_CurrentVersion m
      then (case kind of
              VersionMutationUndelete \<Rightarrow> mutateCurrentVersionUndelete W m path version now kind
            | _ \<Rightarrow> mutateCurrentVersionDelete W m path version now kind)
      else mutateVersionOnly W m path version now kind)"

text \<open>One transaction for each version; what the first ones did stays when a later one fails.\<close>

definition mutateVersions ::
    "'w world \<Rightarrow> versionMutationKind \<Rightarrow> string \<Rightarrow> string \<Rightarrow> int list \<Rightarrow> ('w, bool) io" where
  "mutateVersions W kind path now versions =
     foldM (\<lambda>signalDispatch version.
       bindM (withEnqueueMutationTransaction W
          (bindM (getMetadata W path) (\<lambda>metadata.
             case metadata of
               None \<Rightarrow> retM False
             | Some m \<Rightarrow> mutateSourceVersion W m path version now kind))) (\<lambda>shouldSignal.
         retM (signalDispatch \<or> shouldSignal))) False versions"

definition runVersionMutation :: "'w world \<Rightarrow> versionMutationKind \<Rightarrow> string \<Rightarrow> fieldData \<Rightarrow> ('w, response) io" where
  "runVersionMutation W kind mountPoint d =
     respondE (versionMutationRequest d) (\<lambda>(path, versions).
     bindM (nowUTC W) (\<lambda>t.
     bindM (tryM (mutateVersions W kind path (formatRFC3339 t) versions)) (\<lambda>result.
       case result of
         Inl e \<Rightarrow>
           if isQueueCapacityError e \<or> isQueuedOperationClaimedError e
           then retM (errorResponseForOperationError e (requestMountPath mountPoint))
           else failM e
       | Inr signalDispatch \<Rightarrow>
           bindM (whenM signalDispatch (signalEventDispatch W)) (\<lambda>_. retM NilResponse))))"

definition pathDeleteVersionsWrite :: "'w world \<Rightarrow> string \<Rightarrow> fieldData \<Rightarrow> ('w, response) io" where
  "pathDeleteVersionsWrite W = runVersionMutation W VersionMutationDelete"

definition pathUndeleteWrite :: "'w world \<Rightarrow> string \<Rightarrow> fieldData \<Rightarrow> ('w, response) io" where
  "pathUndeleteWrite W = runVersionMutation W VersionMutationUndelete"

definition pathDestroyWrite :: "'w world \<Rightarrow> string \<Rightarrow> fieldData \<Rightarrow> ('w, response) io" where
  "pathDestroyWrite W = runVersionMutation W VersionMutationDestroy"

end
