(* ===== verification/Queue_Paths.thy ===== *)
theory Queue_Paths
  imports Dispatcher Go_Duration
begin

text \<open>
  The queue endpoints (\<open>internal/backend/path_queue.go\<close>): the summary of the queue, draining it, and
  reading, retrying and canceling one operation.
\<close>

definition defaultDrainMaxOperations :: int where "defaultDrainMaxOperations = 100"

definition restoreGuardActiveError :: string where
  "restoreGuardActiveError = ''restore guard is active; acknowledge '' @
     ''config/restore-guard/acknowledge before remote mutation''"

definition remoteMutationUnsafeError :: string where
  "remoteMutationUnsafeError = ''remote mutation is not allowed on this replication node''"

section \<open>The summary\<close>

text \<open>\<open>qs_Utilization\<close> is a float \<open>m * 2 ^ e\<close>.\<close>

record queueSummary =
  qs_Pending :: int
  qs_RetryWait :: int
  qs_Claimed :: int
  qs_Terminal :: int
  qs_OldestAgeSeconds :: int
  qs_Capacity :: int
  qs_Utilization :: "int \<times> int"

definition queuedDepth :: "queueSummary \<Rightarrow> int" where
  "queuedDepth s = qs_Pending s + qs_RetryWait s"

text \<open>The age is a duration, which saturates at 64 bits, in whole seconds.\<close>

definition recordQueuedAge :: "queueSummary \<Rightarrow> outboxRecord \<Rightarrow> time \<Rightarrow> queueSummary" where
  "recordQueuedAge s r now =
     (if ob_CreatedTime r = [] then s
      else case parseRFC3339 (ob_CreatedTime r) of
             None \<Rightarrow> s
           | Some created \<Rightarrow>
               if now < created then s
               else let ageSeconds = min (now - created) (2 ^ 63 - 1) div second
                    in if qs_OldestAgeSeconds s < ageSeconds then s \<lparr> qs_OldestAgeSeconds := ageSeconds \<rparr> else s)"

definition applyCapacity :: "queueSummary \<Rightarrow> int \<Rightarrow> queueSummary" where
  "applyCapacity s capacity =
     (let s = s \<lparr> qs_Capacity := capacity \<rparr>
      in if capacity = 0 then (if 0 < queuedDepth s then s \<lparr> qs_Utilization := (1, 0) \<rparr> else s)
         else s \<lparr> qs_Utilization := floatOfRatio (queuedDepth s) capacity \<rparr>)"

definition readQueueSummary :: "'w world \<Rightarrow> time \<Rightarrow> ('w, queueSummary) io" where
  "readQueueSummary W now =
     bindM (listOutboxIDsForState W outboxStatePending) (\<lambda>pendingIDs.
     bindM (listOutboxIDsForState W outboxStateRetryWait) (\<lambda>retryWaitIDs.
     bindM (listOutboxIDsForState W outboxStateFailedTerminal) (\<lambda>terminalIDs.
       let summary = \<lparr> qs_Pending = int (length pendingIDs), qs_RetryWait = int (length retryWaitIDs),
             qs_Claimed = 0, qs_Terminal = int (length terminalIDs), qs_OldestAgeSeconds = 0,
             qs_Capacity = 0, qs_Utilization = (0, 0) \<rparr>
       in foldM (\<lambda>summary i.
            bindM (getOutbox W i) (\<lambda>record.
              case record of
                None \<Rightarrow> retM summary
              | Some r \<Rightarrow>
                  if \<not> isQueuedOutboxState (ob_State r) then retM summary
                  else let summary = (if isOutboxClaimActive r now
                             then summary \<lparr> qs_Claimed := qs_Claimed summary + 1 \<rparr> else summary)
                       in retM (recordQueuedAge summary r now)))
            summary (pendingIDs @ retryWaitIDs))))"

definition queueSummaryResponse :: "queueSummary \<Rightarrow> (string \<times> goval) list" where
  "queueSummaryResponse s =
     [(''pending'', JInt (qs_Pending s)), (''retry_wait'', JInt (qs_RetryWait s)),
      (''claimed'', JInt (qs_Claimed s)), (''terminal'', JInt (qs_Terminal s)),
      (''oldest_age_seconds'', JInt (qs_OldestAgeSeconds s)), (''capacity'', JInt (qs_Capacity s)),
      (''utilization'', JFloat (fst (qs_Utilization s)) (snd (qs_Utilization s)))]"

definition pathQueueRead :: "'w world \<Rightarrow> ('w, response) io" where
  "pathQueueRead W =
     bindM (readGlobalConfig W) (\<lambda>cfg.
     bindM (nowUTC W) (\<lambda>now.
     bindM (readQueueSummary W now) (\<lambda>summary.
       retM (DataResponse (queueSummaryResponse (applyCapacity summary (gc_QueueCapacity cfg)))))))"

section \<open>Draining\<close>

definition pathQueueDrain :: "'w world \<Rightarrow> string \<Rightarrow> fieldData \<Rightarrow> ('w, response) io" where
  "pathQueueDrain W mountPoint d =
     bindM (readGlobalConfig W) (\<lambda>cfg.
       if gc_Disabled cfg
       then retM (errorResponseWithDiagnostic ''secret sync is disabled''
              (mountDisabledDiagnostic (requestMountPath mountPoint)))
       else if gc_RestoreGuard cfg
       then retM (errorResponseWithDiagnostic restoreGuardActiveError
              (restoreGuardDiagnostic (requestMountPath mountPoint)))
       else if \<not> remoteMutationAllowed W
       then retM (errorResponseWithDiagnostic remoteMutationUnsafeError remoteMutationUnsafeDiagnostic)
       else if getInt d ''max_operations'' < 0
       then retM (ErrorResponse (Errorf ''max_operations must be greater than or equal to zero'' []))
       else
         let maxOperations = (if getInt d ''max_operations'' = 0 then defaultDrainMaxOperations
                              else getInt d ''max_operations'')
         in bindM (nowUTC W) (\<lambda>now.
            bindM (recoverIncompleteEnqueueIntents W now) (\<lambda>_.
            bindM (processDueOutboxLimit W now maxOperations) (\<lambda>(processed, err).
            case err of
              Some e \<Rightarrow> failM e
            | None \<Rightarrow>
                bindM (readQueueSummary W now) (\<lambda>summary.
                  retM (DataResponse [(''processed'', JInt processed), (''max_operations'', JInt maxOperations),
                    (''queue'', JObject (queueSummaryResponse
                       (applyCapacity summary (gc_QueueCapacity cfg))))]))))))"

section \<open>One operation\<close>

definition outboxOperationResponse :: "'w world \<Rightarrow> outboxRecord \<Rightarrow> ('w, response) io" where
  "outboxOperationResponse W r =
     bindM (nowUTC W) (\<lambda>now.
       retM (DataResponse [(''id'', JString (ob_ID r)), (''type'', JString (ob_Type r)),
         (''path'', JString (ob_Path r)), (''version'', JInt (ob_Version r)),
         (''association_id'', JString (ob_AssociationID r)), (''object_id'', JString (ob_ObjectID r)),
         (''destination_ref'', JString (ob_DestinationRef r)), (''state'', JString (ob_State r)),
         (''attempts'', JInt (ob_Attempts r)), (''not_before'', JString (ob_NotBefore r)),
         (''created_time'', JString (ob_CreatedTime r)), (''updated_time'', JString (ob_UpdatedTime r)),
         (''idempotency_key'', JString (ob_IdempotencyKey r)), (''trigger'', JString (ob_Trigger r)),
         (''claimed'', JBool (isOutboxClaimActive r now)), (''claim_owner'', JString (ob_ClaimOwner r)),
         (''claim_expires_time'', JString (ob_ClaimExpiresTime r)),
         (''claim_attempt'', JInt (ob_ClaimAttempt r))]))"

definition pathQueueOperationRead :: "'w world \<Rightarrow> fieldData \<Rightarrow> ('w, response) io" where
  "pathQueueOperationRead W d =
     bindM (getOutbox W (getString d ''operation_id'')) (\<lambda>record.
       case record of None \<Rightarrow> retM NilResponse | Some r \<Rightarrow> outboxOperationResponse W r)"

definition pathQueueOperationRetry :: "'w world \<Rightarrow> fieldData \<Rightarrow> ('w, response) io" where
  "pathQueueOperationRetry W d =
     bindM (getOutbox W (getString d ''operation_id'')) (\<lambda>record.
       case record of
         None \<Rightarrow> retM NilResponse
       | Some r \<Rightarrow>
           bindM (nowUTC W) (\<lambda>now.
             if isOutboxClaimActive r now
             then retM (ErrorResponse (Errorf ''operation is currently claimed'' []))
             else if ob_State r = outboxStatePending then retM NilResponse
             else if ob_State r = outboxStateRetryWait \<or> ob_State r = outboxStateFailedTerminal
             then
               let nowString = formatRFC3339 now;
                   r = clearOutboxClaim (r \<lparr> ob_Attempts := 0, ob_State := outboxStatePending,
                         ob_NotBefore := nowString, ob_UpdatedTime := nowString \<rparr>)
               in bindM (putOutbox W r) (\<lambda>_.
                  bindM (signalEventDispatch W) (\<lambda>_. outboxOperationResponse W r))
             else retM (ErrorResponse (Errorf ''operation is not retryable'' []))))"

definition pathQueueOperationCancel :: "'w world \<Rightarrow> fieldData \<Rightarrow> ('w, response) io" where
  "pathQueueOperationCancel W d =
     bindM (getOutbox W (getString d ''operation_id'')) (\<lambda>record.
       case record of
         None \<Rightarrow> retM NilResponse
       | Some r \<Rightarrow>
           bindM (nowUTC W) (\<lambda>now.
             if isOutboxClaimActive r now
             then retM (ErrorResponse (Errorf ''operation is currently claimed'' []))
             else if ob_State r = outboxStateCanceled
             then bindM (deleteOutbox W r) (\<lambda>_. retM NilResponse)
             else if ob_State r = outboxStatePending \<or> ob_State r = outboxStateRetryWait \<or>
                     ob_State r = outboxStateFailedTerminal
             then bindM (deleteOutbox W r) (\<lambda>_.
                    outboxOperationResponse W (clearOutboxClaim (r \<lparr> ob_State := outboxStateCanceled,
                      ob_UpdatedTime := formatRFC3339 now \<rparr>)))
             else retM (ErrorResponse (Errorf ''operation is not cancelable'' []))))"

end
