(* ===== verification/Reconcile.thy ===== *)
theory Reconcile
  imports Dispatcher Go_Duration
begin

text \<open>
  Comparing remote objects with the current source version: on request
  (\<open>internal/backend/path_reconcile.go\<close>) and in the background, where repairable drift is enqueued again
  (\<open>periodic_reconcile.go\<close>). Reconciling reads the provider and writes only status records.
\<close>

section \<open>One object\<close>

record reconcileObjectResult =
  ro_association :: associationRecord
  ro_version :: int
  ro_objectID :: string
  ro_resolvedName :: string
  ro_payload :: canonicalPayload
  ro_remoteState :: "remoteState option"
  ro_state :: string
  ro_errorClass :: string
  ro_message :: string

record reconcileLookupContext =
  rl_provider :: capabilities
  rl_destination :: destinationRecord
  rl_destinationConfig :: providerDestinationConfig
  rl_runtimeIdentity :: runtimeIdentity
  rl_cfg :: globalConfig

record reconcileLookupFailure =
  lf_state :: string
  lf_errorClass :: string
  lf_message :: string

definition newReconcileLookupFailure :: "string \<Rightarrow> string \<Rightarrow> string \<Rightarrow> reconcileLookupFailure" where
  "newReconcileLookupFailure state errorClass message =
     \<lparr> lf_state = state, lf_errorClass = errorClass, lf_message = message \<rparr>"

definition zeroPayload :: canonicalPayload where
  "zeroPayload = \<lparr> pl_Format = [], pl_Bytes = [], pl_SHA256 = [], pl_Data = [] \<rparr>"

definition resolvedNameOrEmpty :: "associationRecord \<Rightarrow> string \<Rightarrow> string" where
  "resolvedNameOrEmpty a objectID =
     (case associationResolvedNameForObject a objectID of Inl _ \<Rightarrow> [] | Inr name \<Rightarrow> name)"

definition newReconcileObjectResult ::
    "associationRecord \<Rightarrow> int \<Rightarrow> string \<Rightarrow> string \<Rightarrow> string \<Rightarrow> string \<Rightarrow> string \<Rightarrow> reconcileObjectResult" where
  "newReconcileObjectResult a version objectID resolvedName state errorClass message =
     (let objectID = (if objectID = [] then syncObjectIDSecretPath else objectID);
          resolvedName = (if resolvedName = [] then resolvedNameOrEmpty a objectID else resolvedName)
      in \<lparr> ro_association = a, ro_version = version, ro_objectID = objectID, ro_resolvedName = resolvedName,
           ro_payload = zeroPayload, ro_remoteState = None, ro_state = state, ro_errorClass = errorClass,
           ro_message = message \<rparr>)"

definition reconcileLookupConfig ::
    "'w world \<Rightarrow> globalConfig option \<Rightarrow> ('w, reconcileLookupFailure + globalConfig) io" where
  "reconcileLookupConfig W cfg =
     (case cfg of
        Some c \<Rightarrow> retM (Inr c)
      | None \<Rightarrow> bindM (tryM (readGlobalConfig W)) (\<lambda>r.
          retM (case r of
            Inl _ \<Rightarrow> Inl (newReconcileLookupFailure SyncStateInternalError ErrorClassInternal ''config lookup failed'')
          | Inr c \<Rightarrow> Inr c)))"

definition loadReconcileLookupContext ::
    "'w world \<Rightarrow> associationRecord \<Rightarrow> globalConfig option \<Rightarrow> ('w, reconcileLookupFailure + reconcileLookupContext) io" where
  "loadReconcileLookupContext W a cfg =
     (if \<not> as_Enabled a then retM (Inl (newReconcileLookupFailure SyncStateDisabled [] ''association is disabled''))
      else case w_Provider W (as_DestinationType a) of
        None \<Rightarrow> retM (Inl (newReconcileLookupFailure SyncStateValidationError ErrorClassValidation
                  ''destination provider is unsupported''))
      | Some provider \<Rightarrow>
          bindM (tryM (getDestination W (as_DestinationType a) (as_DestinationName a))) (\<lambda>destination.
          case destination of
            Inl _ \<Rightarrow> retM (Inl (newReconcileLookupFailure SyncStateInternalError ErrorClassInternal
                      ''destination lookup failed''))
          | Inr None \<Rightarrow> retM (Inl (newReconcileLookupFailure SyncStateValidationError ErrorClassValidation
                      ''destination is missing''))
          | Inr (Some d) \<Rightarrow>
              if ds_Disabled d
              then retM (Inl (newReconcileLookupFailure SyncStateDisabled [] ''destination is disabled''))
              else bindM (reconcileLookupConfig W cfg) (\<lambda>lookupCfg.
                case lookupCfg of
                  Inl failure \<Rightarrow> retM (Inl failure)
                | Inr c \<Rightarrow>
                    bindM (tryM (destinationConfig W d)) (\<lambda>config.
                    case config of
                      Inl _ \<Rightarrow> retM (Inl (newReconcileLookupFailure SyncStateInternalError ErrorClassInternal
                                ''destination config resolution failed''))
                    | Inr dc \<Rightarrow>
                        bindM (tryM (providerRuntimeIdentity W)) (\<lambda>identity.
                          retM (case identity of
                            Inl _ \<Rightarrow> Inl (newReconcileLookupFailure SyncStateInternalError ErrorClassInternal
                                      ''runtime identity resolution failed'')
                          | Inr ri \<Rightarrow> Inr \<lparr> rl_provider = provider, rl_destination = d,
                                         rl_destinationConfig = dc, rl_runtimeIdentity = ri,
                                         rl_cfg = c \<rparr>))))))"

definition lookupFailureResult ::
    "reconcileLookupFailure \<Rightarrow> associationRecord \<Rightarrow> int \<Rightarrow> string \<Rightarrow> reconcileObjectResult" where
  "lookupFailureResult failure a version objectID =
     newReconcileObjectResult a version objectID (resolvedNameOrEmpty a objectID) (lf_state failure)
       (lf_errorClass failure) (lf_message failure)"

definition prepareReconcilePayload ::
    "'w world \<Rightarrow> capabilities \<Rightarrow> associationRecord \<Rightarrow> versionRecord \<Rightarrow> string \<Rightarrow> canonicalPayload \<times> operationFailure option" where
  "prepareReconcilePayload W provider a v objectID =
     (case buildCanonicalPayloadForObject W a (vr_Data v) objectID of
        Inl _ \<Rightarrow> (zeroPayload, Some (failureFor ErrorClassValidation ''source payload encoding failed'' []))
      | Inr payload \<Rightarrow>
          (case enforceProviderPayloadLimit provider payload of
             Inl e \<Rightarrow> (payload, Some (failureFor ErrorClassCapacity (errorText e) []))
           | Inr _ \<Rightarrow> (payload, None)))"

definition providerReadStateRequest ::
    "associationRecord \<Rightarrow> runtimeIdentity \<Rightarrow> int \<Rightarrow> canonicalPayload \<Rightarrow> string \<Rightarrow> string \<Rightarrow> readStateRequest" where
  "providerReadStateRequest a runtime version payload objectID resolvedName =
     \<lparr> rr_Runtime = runtime, rr_Association = providerAssociationConfig a, rr_ResolvedName = resolvedName,
       rr_PayloadSHA256 = pl_SHA256 payload,
       rr_DataMap = (normalizedDataMapping (as_DataMapping a) = dataMappingSourceKeys),
       rr_SourcePath = as_Path a, rr_SourceVersion = version, rr_AssociationID = as_ID a,
       rr_ObjectID = objectID \<rparr>"

text \<open>The state, the error class and the message of a remote object.\<close>

definition reconcileStateForRemoteState ::
    "int \<Rightarrow> canonicalPayload \<Rightarrow> remoteState \<Rightarrow> string \<times> string \<times> string" where
  "reconcileStateForRemoteState version payload remote =
     (if \<not> rs_Exists remote then (SyncStateRemoteMissing, [], ''remote object is missing'')
      else if rs_OwnershipKnown remote \<and> \<not> rs_Owned remote
      then (SyncStateRemoteOwnershipLost, ErrorClassOwnership, ''remote object is not owned by this association'')
      else if 0 < rs_SourceVersion remote \<and> rs_SourceVersion remote \<noteq> version
      then (SyncStateDrifted, ErrorClassDrift,
            formatText ''remote source version %d differs from desired version %d''
              [itoa (rs_SourceVersion remote), itoa version])
      else if rs_PayloadSHA256 remote \<noteq> [] \<and> rs_PayloadSHA256 remote \<noteq> pl_SHA256 payload
      then (SyncStateDrifted, ErrorClassDrift, ''remote payload hash differs from desired payload hash'')
      else if rs_PayloadSHA256 remote = pl_SHA256 payload then (SyncStateSynced, [], [])
      else (SyncStateUnknown, [], ''remote state lacks comparable payload metadata''))"

definition reconcileAssociationObject ::
    "'w world \<Rightarrow> associationRecord \<Rightarrow> reconcileLookupContext \<Rightarrow> int \<Rightarrow> versionRecord \<Rightarrow> string \<Rightarrow>
       ('w, reconcileObjectResult) io" where
  "reconcileAssociationObject W a lookup sourceVersion v objectID =
     (case associationResolvedNameForObject a objectID of
        Inl e \<Rightarrow> retM (newReconcileObjectResult a sourceVersion objectID [] SyncStateValidationError
                    ErrorClassValidation (errorText e))
      | Inr resolvedName \<Rightarrow>
          let result = newReconcileObjectResult a sourceVersion objectID resolvedName SyncStateUnknown [] []
          in case validateDestinationPolicyForObject (rl_destination lookup) a objectID resolvedName (rl_cfg lookup) of
               Inl e \<Rightarrow> retM (result \<lparr> ro_state := SyncStateValidationError, ro_errorClass := ErrorClassValidation,
                           ro_message := errorText e \<rparr>)
             | Inr _ \<Rightarrow>
                 (case prepareReconcilePayload W (rl_provider lookup) a v objectID of
                    (payload, Some failure) \<Rightarrow> retM (result \<lparr> ro_state := syncStateForFailureClass (of_class failure),
                       ro_errorClass := of_class failure, ro_message := of_message failure, ro_payload := payload \<rparr>)
                  | (payload, None) \<Rightarrow>
                      let result = result \<lparr> ro_payload := payload \<rparr>
                      in bindM (tryM (w_ReadState W (as_DestinationType a) (rl_destinationConfig lookup)
                           (providerReadStateRequest a (rl_runtimeIdentity lookup) sourceVersion payload objectID
                              resolvedName))) (\<lambda>remote.
                         retM (case remote of
                           Inl e \<Rightarrow> result \<lparr> ro_state := syncStateForFailureClass (providerErrorClass e),
                             ro_errorClass := providerErrorClass e, ro_message := ''provider read-state failed'' \<rparr>
                         | Inr None \<Rightarrow> result \<lparr> ro_state := SyncStateInternalError,
                             ro_errorClass := ErrorClassInternal,
                             ro_message := ''provider returned nil remote state'' \<rparr>
                         | Inr (Some r) \<Rightarrow>
                             (case reconcileStateForRemoteState sourceVersion payload r of
                                (state, errorClass, message) \<Rightarrow> result \<lparr> ro_remoteState := Some r,
                                  ro_state := state, ro_errorClass := errorClass, ro_message := message \<rparr>)))))"

definition reconcileAssociation ::
    "'w world \<Rightarrow> associationRecord \<Rightarrow> metadataRecord \<Rightarrow> versionRecord \<Rightarrow> ('w, reconcileObjectResult list) io" where
  "reconcileAssociation W a m v =
     (case associationObjectIDs W a (vr_Data v) of
        Inl e \<Rightarrow> retM [newReconcileObjectResult a (md_CurrentVersion m) [] [] SyncStateValidationError
                    ErrorClassValidation (errorText e)]
      | Inr objectIDs \<Rightarrow>
          bindM (loadReconcileLookupContext W a None) (\<lambda>lookup.
            case lookup of
              Inl failure \<Rightarrow> retM (map (lookupFailureResult failure a (md_CurrentVersion m)) objectIDs)
            | Inr l \<Rightarrow>
                foldM (\<lambda>results objectID.
                  bindM (reconcileAssociationObject W a l (md_CurrentVersion m) v objectID) (\<lambda>result.
                    retM (results @ [result]))) [] objectIDs))"

definition putReconcileStatus :: "'w world \<Rightarrow> reconcileObjectResult \<Rightarrow> string \<Rightarrow> ('w, unit) io" where
  "putReconcileStatus W result now =
     (let a = ro_association result;
          status = zeroStatusRecord \<lparr> st_Path := as_Path a, st_Version := ro_version result,
            st_AssociationID := as_ID a, st_ObjectID := ro_objectID result,
            st_DestinationRef := as_DestinationRef a, st_ResolvedName := ro_resolvedName result,
            st_State := ro_state result, st_PayloadSHA256 := pl_SHA256 (ro_payload result),
            st_LastErrorClass := ro_errorClass result, st_LastReconcileTime := now, st_UpdatedTime := now \<rparr>;
          status = (case ro_remoteState result of
              None \<Rightarrow> status
            | Some r \<Rightarrow> status \<lparr> st_RemoteVersion := rs_RemoteVersion r, st_Verification := rs_Verification r \<rparr>);
          status = (if ro_errorClass result \<noteq> []
                    then status \<lparr> st_LastError := ''reconcile failed: '' @ ro_message result \<rparr> else status)
      in bindM (getStatus W (as_Path a) (as_ID a) (ro_objectID result)) (\<lambda>existing.
         let status = (case existing of
                None \<Rightarrow> status
              | Some e \<Rightarrow> status \<lparr> st_LastOperationID := st_LastOperationID e,
                                    st_LastSuccessTime := st_LastSuccessTime e \<rparr>);
             status = (if ro_state result = SyncStateDrifted
                       then status \<lparr> st_LastDriftDetectedTime := now \<rparr> else status)
         in putStatus W status))"

section \<open>On request\<close>

definition reconcileSummaryState :: "reconcileObjectResult list \<Rightarrow> string" where
  "reconcileSummaryState results =
     (if results = [] then SyncStateNoAssociation
      else case find (\<lambda>r. ro_state r \<noteq> SyncStateSynced) results of
             Some r \<Rightarrow> ro_state r
           | None \<Rightarrow> SyncStateSynced)"

definition reconcileDiagnosticForResult :: "string \<Rightarrow> reconcileObjectResult \<Rightarrow> diagnostic" where
  "reconcileDiagnosticForResult mount r =
     syncStateDiagnostic mount (ro_state r) (as_Path (ro_association r)) (as_DestinationRef (ro_association r)) []
       (ro_message r)"

definition reconcileObjectResponse :: "string \<Rightarrow> reconcileObjectResult \<Rightarrow> goval" where
  "reconcileObjectResponse mount r =
     (let (exists, known, owned, sourceVersion, remoteVersion, verification) = (case ro_remoteState r of
            None \<Rightarrow> (False, False, False, 0, [], [])
          | Some s \<Rightarrow> (rs_Exists s, rs_OwnershipKnown s, rs_Owned s, rs_SourceVersion s, rs_RemoteVersion s,
                       rs_Verification s))
      in JObject ([(''association_id'', JString (as_ID (ro_association r))),
           (''object_id'', JString (ro_objectID r)),
           (''destination_ref'', JString (as_DestinationRef (ro_association r))),
           (''resolved_name'', JString (ro_resolvedName r)), (''state'', JString (ro_state r)),
           (''version'', JInt (ro_version r)), (''remote_exists'', JBool exists),
           (''remote_ownership_known'', JBool known), (''remote_owned'', JBool owned),
           (''remote_source_version'', JInt sourceVersion), (''remote_version'', JString remoteVersion),
           (''verification'', JString verification), (''error_class'', JString (ro_errorClass r)),
           (''message'', JString (ro_message r))] @ diagnosticResponseFields (reconcileDiagnosticForResult mount r)))"

definition reconcilePath :: "'w world \<Rightarrow> string \<Rightarrow> bool \<Rightarrow> string \<Rightarrow> ('w, response) io" where
  "reconcilePath W rawPath doApply mount =
     respondE (normalizeSourcePath rawPath) (\<lambda>path.
     bindM (getMetadata W path) (\<lambda>metadata.
       let missing = retM (ErrorResponse (Errorf ''source path does not exist'' []));
           unavailable = retM (ErrorResponse (Errorf ''current source version is unavailable'' []))
       in case metadata of
            None \<Rightarrow> missing
          | Some m \<Rightarrow>
              if md_CurrentVersion m = 0 then missing
              else bindM (getVersion W path (md_CurrentVersion m)) (\<lambda>version.
                case version of
                  None \<Rightarrow> unavailable
                | Some v \<Rightarrow>
                    if vr_Destroyed v \<or> vr_DeletionTime v \<noteq> [] then unavailable
                    else bindM (listAssociationsForPath W path) (\<lambda>associations.
                      bindM (nowUTC W) (\<lambda>t.
                      bindM (foldM (\<lambda>results a.
                        bindM (reconcileAssociation W a m v) (\<lambda>new.
                        bindM (eachM new (\<lambda>result.
                          whenM doApply (putReconcileStatus W result (formatRFC3339 t)))) (\<lambda>_.
                          retM (results @ new)))) [] associations) (\<lambda>results.
                        retM (DataResponse [(''path'', JString path), (''version'', JInt (md_CurrentVersion m)),
                          (''applied'', JBool doApply), (''state'', JString (reconcileSummaryState results)),
                          (''objects'', JArray (map (reconcileObjectResponse mount) results))])))))))"

definition pathReconcilePlan :: "'w world \<Rightarrow> string \<Rightarrow> fieldData \<Rightarrow> ('w, response) io" where
  "pathReconcilePlan W mountPoint d = reconcilePath W (getString d ''path'') False (requestMountPath mountPoint)"

definition pathReconcileApply :: "'w world \<Rightarrow> string \<Rightarrow> fieldData \<Rightarrow> ('w, response) io" where
  "pathReconcileApply W mountPoint d = reconcilePath W (getString d ''path'') True (requestMountPath mountPoint)"

section \<open>In the background\<close>

record driftReconcileCandidate =
  dr_association :: associationRecord
  dr_metadata :: metadataRecord
  dr_version :: versionRecord
  dr_objectID :: string
  dr_lastReconcileTime :: string

definition isRepairableDrift :: "reconcileObjectResult \<Rightarrow> bool" where
  "isRepairableDrift result \<longleftrightarrow>
     (case ro_remoteState result of
        None \<Rightarrow> False
      | Some r \<Rightarrow>
          if ro_state result \<noteq> SyncStateDrifted then False
          else if \<not> rs_Exists r \<or> \<not> rs_OwnershipKnown r \<or> \<not> rs_Owned r then False
          else if rs_PayloadSHA256 r = [] then False
          else trimSpace (rs_Verification r) \<noteq> [])"

definition driftDetectionAllowsQueuedUpsert :: "globalConfig \<Rightarrow> bool" where
  "driftDetectionAllowsQueuedUpsert cfg \<longleftrightarrow> gc_RestoreGuard cfg \<or> gc_DriftRepair cfg = driftRepairDetect"

definition driftReconcileDue :: "statusRecord option \<Rightarrow> time \<Rightarrow> duration \<Rightarrow> bool" where
  "driftReconcileDue status now interval \<longleftrightarrow>
     (case status of
        None \<Rightarrow> True
      | Some s \<Rightarrow>
          if st_LastReconcileTime s = [] then True
          else case parseRFC3339 (st_LastReconcileTime s) of
                 None \<Rightarrow> True
               | Some lastTime \<Rightarrow> \<not> now < lastTime + interval)"

definition lastReconcileTimeForSort :: "statusRecord option \<Rightarrow> string" where
  "lastReconcileTimeForSort status = (case status of None \<Rightarrow> [] | Some s \<Rightarrow> st_LastReconcileTime s)"

definition listAllAssociations :: "'w world \<Rightarrow> ('w, associationRecord list) io" where
  "listAllAssociations W =
     bindM (w_Collect W associationStoragePrefix) (\<lambda>keys.
       foldM (\<lambda>records key.
         bindM (getDecoded W key decodeAssociation) (\<lambda>r.
           retM (case r of None \<Rightarrow> records | Some rec \<Rightarrow> records @ [normalizeAssociationDefaults rec]))) [] keys)"

definition driftReconcileCandidateForObject ::
    "'w world \<Rightarrow> associationRecord \<Rightarrow> metadataRecord \<Rightarrow> versionRecord \<Rightarrow> globalConfig \<Rightarrow> string \<Rightarrow> time \<Rightarrow>
       duration \<Rightarrow> ('w, driftReconcileCandidate option) io" where
  "driftReconcileCandidateForObject W a m v cfg objectID now interval =
     bindM (if \<not> driftDetectionAllowsQueuedUpsert cfg
            then hasQueuedUpsertForAssociationObject W (as_Path a) (as_ID a) objectID (md_CurrentVersion m)
            else retM False) (\<lambda>queued.
       if queued then retM None
       else bindM (getStatus W (as_Path a) (as_ID a) objectID) (\<lambda>status.
         if \<not> driftReconcileDue status now interval then retM None
         else retM (Some \<lparr> dr_association = a, dr_metadata = m, dr_version = v, dr_objectID = objectID,
                dr_lastReconcileTime = lastReconcileTimeForSort status \<rparr>)))"

definition driftReconcileCandidatesForAssociation ::
    "'w world \<Rightarrow> globalConfig \<Rightarrow> associationRecord \<Rightarrow> time \<Rightarrow> duration \<Rightarrow> ('w, driftReconcileCandidate list) io" where
  "driftReconcileCandidatesForAssociation W cfg a now interval =
     (if \<not> as_Enabled a then retM []
      else bindM (getMetadata W (as_Path a)) (\<lambda>metadata.
        case metadata of
          None \<Rightarrow> retM []
        | Some m \<Rightarrow>
            if md_CurrentVersion m = 0 then retM []
            else bindM (getVersion W (as_Path a) (md_CurrentVersion m)) (\<lambda>version.
              case version of
                None \<Rightarrow> retM []
              | Some v \<Rightarrow>
                  if vr_Destroyed v \<or> vr_DeletionTime v \<noteq> [] then retM []
                  else (case associationObjectIDs W a (vr_Data v) of
                          Inl _ \<Rightarrow> retM []
                        | Inr objectIDs \<Rightarrow>
                            foldM (\<lambda>candidates objectID.
                              bindM (driftReconcileCandidateForObject W a m v cfg objectID now interval) (\<lambda>c.
                                retM (case c of None \<Rightarrow> candidates | Some x \<Rightarrow> candidates @ [x]))) [] objectIDs))))"

definition driftReconcileCandidates ::
    "'w world \<Rightarrow> globalConfig \<Rightarrow> time \<Rightarrow> duration \<Rightarrow> ('w, driftReconcileCandidate list) io" where
  "driftReconcileCandidates W cfg now interval =
     bindM (listAllAssociations W) (\<lambda>associations.
       foldM (\<lambda>candidates a.
         bindM (driftReconcileCandidatesForAssociation W cfg a now interval) (\<lambda>new.
           retM (candidates @ new))) [] associations)"

text \<open>The longest waiting first; the sort is stable and its keys are compared one after the other.\<close>

definition candidateKey :: "driftReconcileCandidate \<Rightarrow> string list" where
  "candidateKey c = [dr_lastReconcileTime c, as_Path (dr_association c), as_ID (dr_association c), dr_objectID c]"

definition reconcileAssociationObjectFromStorage ::
    "'w world \<Rightarrow> driftReconcileCandidate \<Rightarrow> globalConfig \<Rightarrow> ('w, reconcileObjectResult) io" where
  "reconcileAssociationObjectFromStorage W c cfg =
     bindM (loadReconcileLookupContext W (dr_association c) (Some cfg)) (\<lambda>lookup.
       case lookup of
         Inl failure \<Rightarrow> retM (lookupFailureResult failure (dr_association c)
                          (md_CurrentVersion (dr_metadata c)) (dr_objectID c))
       | Inr l \<Rightarrow> reconcileAssociationObject W (dr_association c) l (md_CurrentVersion (dr_metadata c))
                    (dr_version c) (dr_objectID c))"

definition enqueuePeriodicDriftRepair ::
    "'w world \<Rightarrow> globalConfig \<Rightarrow> driftReconcileCandidate \<Rightarrow> string \<Rightarrow> ('w, unit) io" where
  "enqueuePeriodicDriftRepair W cfg c now =
     (if gc_RestoreGuard cfg then retM ()
      else bindM (tryM (enqueueAssociationCurrentVersionAsDriftRepair W (dr_association c) (dr_metadata c) now))
        (\<lambda>result.
           case result of
             Inl e \<Rightarrow> if isQueueCapacityError e then retM () else failM e
           | Inr _ \<Rightarrow> retM ()))"

definition reconcileCandidate :: "'w world \<Rightarrow> globalConfig \<Rightarrow> string \<Rightarrow> driftReconcileCandidate \<Rightarrow> ('w, unit) io" where
  "reconcileCandidate W cfg nowString c =
     bindM (reconcileAssociationObjectFromStorage W c cfg) (\<lambda>result.
     bindM (putReconcileStatus W result nowString) (\<lambda>_.
       if gc_DriftRepair cfg \<noteq> driftRepairRepair \<or> \<not> isRepairableDrift result then retM ()
       else enqueuePeriodicDriftRepair W cfg c nowString))"

definition periodicDriftReconcile :: "'w world \<Rightarrow> globalConfig \<Rightarrow> time \<Rightarrow> ('w, unit) io" where
  "periodicDriftReconcile W cfg now =
     (if gc_DriftRepair cfg = driftRepairOff then retM ()
      else case parseDuration (gc_DriftReconcileInterval cfg) of
        None \<Rightarrow> failM (Errorf ''time: invalid duration %q'' [gc_DriftReconcileInterval cfg])
      | Some interval \<Rightarrow>
          bindM (driftReconcileCandidates W cfg now interval) (\<lambda>candidates.
            eachM (take (nat (gc_DriftReconcileBatch cfg)) (sort_key candidateKey candidates))
              (reconcileCandidate W cfg (formatRFC3339 now))))"

end
