(* ===== verification/Background.thy ===== *)
theory Background
  imports Queue_Paths Reconcile
begin

text \<open>
  The work the plugin does without a request: the periodic function and the request prologue of
  \<open>internal/backend/backend.go\<close>, and the event dispatcher of \<open>event_dispatch.go\<close>, a worker that a signal or a
  timer wakes up. Metrics and log lines are left out.
\<close>

definition defaultPeriodicMaxOperations :: int where "defaultPeriodicMaxOperations = 100"
definition defaultPeriodicRecoveryMaxIntents :: int where "defaultPeriodicRecoveryMaxIntents = 100"
definition defaultEventDispatchRecoveryLimit :: int where
  "defaultEventDispatchRecoveryLimit = defaultPeriodicRecoveryMaxIntents"

section \<open>The periodic function\<close>

text \<open>\<open>errors.Join\<close> of two errors that may be nil.\<close>

definition joinErrors :: "gerr option \<Rightarrow> gerr option \<Rightarrow> gerr option" where
  "joinErrors a b = (case (a, b) of
      (None, _) \<Rightarrow> b
    | (Some e, None) \<Rightarrow> Some e
    | (Some e, Some f) \<Rightarrow> Some (ErrJoin e f))"

definition returnError :: "gerr option \<Rightarrow> ('w, unit) io" where
  "returnError e = (case e of None \<Rightarrow> retM () | Some x \<Rightarrow> failM x)"

definition periodic :: "'w world \<Rightarrow> ('w, unit) io" where
  "periodic W =
     (if \<not> remoteMutationAllowed W then retM ()
      else
        bindM (ensureRuntimeStateForRequest W) (\<lambda>_.
        bindM (readGlobalConfig W) (\<lambda>cfg.
        bindM (nowUTC W) (\<lambda>t.
        bindM (pruneTerminalOutboxRecords W t) (\<lambda>_.
          if gc_Disabled cfg then retM ()
          else
            bindM (nowUTC W) (\<lambda>now.
            bindM (recoverIncompleteEnqueueIntentsLimit W now defaultPeriodicRecoveryMaxIntents) (\<lambda>_.
            bindM (tryM (periodicDriftReconcile W cfg now)) (\<lambda>reconciled.
              let periodicErr = (case reconciled of Inl e \<Rightarrow> Some e | Inr _ \<Rightarrow> None)
              in if gc_RestoreGuard cfg then returnError periodicErr
                 else bindM (processDueOutboxLimit W now defaultPeriodicMaxOperations) (\<lambda>(_, err).
                   returnError (joinErrors periodicErr err))))))))))"

text \<open>Every request but a help request first makes sure of the runtime state; an incompatible storage
  schema is an error response.\<close>

definition handleRequest :: "'w world \<Rightarrow> ('w, response) io \<Rightarrow> ('w, response) io" where
  "handleRequest W handler =
     bindM (tryM (ensureRuntimeStateForRequest W)) (\<lambda>ready.
       case ready of
         Inl e \<Rightarrow> if isStorageSchemaCompatibilityError e then retM (ErrorResponse e) else failM e
       | Inr _ \<Rightarrow> handler)"

section \<open>The event dispatcher\<close>

text \<open>One pass: \<open>None\<close> if it ends the run, else what it processed and its limit.\<close>

definition runEventDispatchPass :: "'w world \<Rightarrow> ('w, (int \<times> int) option) io" where
  "runEventDispatchPass W =
     (if \<not> remoteMutationAllowed W then retM None
      else
        bindM (tryM (bindM (ensureRuntimeState W) (\<lambda>_. readGlobalConfig W))) (\<lambda>ready.
          case ready of
            Inl _ \<Rightarrow> retM None
          | Inr cfg \<Rightarrow>
              if \<not> gc_EventDispatchEnabled cfg then retM None
              else if gc_Disabled cfg then retM None
              else if gc_RestoreGuard cfg then retM None
              else
                bindM (nowUTC W) (\<lambda>now.
                bindM (tryM (recoverIncompleteEnqueueIntentsLimit W now defaultEventDispatchRecoveryLimit))
                  (\<lambda>recovered.
                   case recovered of
                     Inl _ \<Rightarrow> retM None
                   | Inr _ \<Rightarrow>
                       bindM (processDueOutboxLimit W now (gc_EventDispatchMaxOperations cfg)) (\<lambda>(processed, err).
                         retM (case err of
                           Some _ \<Rightarrow> None
                         | None \<Rightarrow> Some (processed, gc_EventDispatchMaxOperations cfg)))))))"

text \<open>A run repeats the pass while its limit is used up; \<open>eventPasses n\<close> is the run cut off after \<open>n\<close> passes,
  the outer \<open>None\<close>. Inside, \<open>None\<close> is a run that ended early.\<close>

fun eventPasses :: "nat \<Rightarrow> 'w world \<Rightarrow> int \<Rightarrow> ('w, int option option) io" where
  "eventPasses 0 W processedSoFar = retM None"
| "eventPasses (Suc n) W processedSoFar =
     bindM (tryM (w_CtxErr W)) (\<lambda>ended.
       case ended of
         Inl _ \<Rightarrow> retM (Some None)
       | Inr _ \<Rightarrow>
           bindM (runEventDispatchPass W) (\<lambda>pass.
             case pass of
               None \<Rightarrow> retM (Some None)
             | Some (processed, limit) \<Rightarrow>
                 if processed < limit then retM (Some (Some (processedSoFar + processed)))
                 else eventPasses n W (processedSoFar + processed)))"

text \<open>A run returns when to look again: the next due time, or no time.\<close>

definition runEventDispatch :: "nat \<Rightarrow> 'w world \<Rightarrow> ('w, time option option) io" where
  "runEventDispatch n W =
     bindM (eventPasses n W 0) (\<lambda>passes.
       case passes of
         None \<Rightarrow> retM None
       | Some None \<Rightarrow> retM (Some None)
       | Some (Some _) \<Rightarrow>
           bindM (nowUTC W) (\<lambda>now.
           bindM (tryM (nextFutureOutboxDueTime W now)) (\<lambda>next.
             retM (Some (case next of Inl _ \<Rightarrow> None | Inr t \<Rightarrow> t)))))"

text \<open>The worker: the buffered channel of one signal, the armed timer, and whether it is running.
  A signal to a full channel is dropped; without a worker there is no channel.\<close>

record dispatcherState =
  ev_running :: bool
  ev_signal :: bool
  ev_timer :: "time option"

definition stoppedDispatcher :: dispatcherState where
  "stoppedDispatcher = \<lparr> ev_running = False, ev_signal = False, ev_timer = None \<rparr>"

definition startEventDispatcher :: "dispatcherState \<Rightarrow> dispatcherState" where
  "startEventDispatcher s =
     (if ev_running s then s else \<lparr> ev_running = True, ev_signal = False, ev_timer = None \<rparr>)"

definition stopEventDispatcher :: "dispatcherState \<Rightarrow> dispatcherState" where
  "stopEventDispatcher s = stoppedDispatcher"

definition signalDispatcher :: "dispatcherState \<Rightarrow> dispatcherState" where
  "signalDispatcher s = (if ev_running s then s \<lparr> ev_signal := True \<rparr> else s)"

inductive dispatcherStep ::
    "'w world \<Rightarrow> dispatcherState \<times> 'w \<Rightarrow> dispatcherState \<times> 'w \<Rightarrow> bool" for W where
  step_signal: "dispatcherStep W (s, w) (signalDispatcher s, w)"
| step_start: "dispatcherStep W (s, w) (startEventDispatcher s, w)"
| step_stop: "dispatcherStep W (s, w) (stopEventDispatcher s, w)"
| step_other: "dispatcherStep W (s, w) (s, w')"
| step_run_signal:
    "ev_running s \<Longrightarrow> ev_signal s \<Longrightarrow> runEventDispatch n W w = (Inr (Some next), w') \<Longrightarrow>
     dispatcherStep W (s, w) (s \<lparr> ev_signal := False, ev_timer := next \<rparr>, w')"
| step_run_timer:
    "ev_running s \<Longrightarrow> ev_timer s = Some t \<Longrightarrow> runEventDispatch n W w = (Inr (Some next), w') \<Longrightarrow>
     dispatcherStep W (s, w) (s \<lparr> ev_timer := next \<rparr>, w')"

inductive_cases dispatcherStepE: "dispatcherStep W (s, w) (s', w')"

text \<open>Initialization stops the worker of an earlier initialization before it touches the storage, and starts a
  worker only when the runtime state is in order.\<close>

definition initialize ::
    "'w world \<Rightarrow> dispatcherState \<Rightarrow> 'w \<Rightarrow> (gerr + unit) \<times> dispatcherState \<times> 'w" where
  "initialize W s w =
     (case requiredMountUUID W of
        Inl e \<Rightarrow> (Inl e, s, w)
      | Inr _ \<Rightarrow>
          (let stopped = stopEventDispatcher s in
           case ensureRuntimeStateForRequest W w of
             (Inl e, w') \<Rightarrow> (Inl e, stopped, w')
           | (Inr _, w') \<Rightarrow> (Inr (), startEventDispatcher stopped, w')))"

lemma initialize_steps:
  assumes "initialize W s w = (r, s', w')"
  shows "(dispatcherStep W)\<^sup>*\<^sup>* (s, w) (s', w')"
    and "r = Inr () \<Longrightarrow> s' = \<lparr> ev_running = True, ev_signal = False, ev_timer = None \<rparr>"
    and "r = Inl e \<Longrightarrow> s' = s \<and> w' = w \<or> \<not> ev_running s'"
proof -
  have stop: "(dispatcherStep W)\<^sup>*\<^sup>* (s, w) (stoppedDispatcher, w1)" for w1
    using step_stop [of W s w] step_other [of W "stopEventDispatcher s" w w1]
    by (metis converse_rtranclp_into_rtranclp r_into_rtranclp stopEventDispatcher_def)
  then have start: "(dispatcherStep W)\<^sup>*\<^sup>* (s, w) (startEventDispatcher stoppedDispatcher, w1)" for w1
    using step_start [of W stoppedDispatcher w1] by (meson rtranclp.rtrancl_into_rtrancl)
  show "(dispatcherStep W)\<^sup>*\<^sup>* (s, w) (s', w')"
    using assms stop start
    by (auto simp: initialize_def stopEventDispatcher_def Let_def split: sum.splits prod.splits)
  show "r = Inr () \<Longrightarrow> s' = \<lparr> ev_running = True, ev_signal = False, ev_timer = None \<rparr>"
    using assms by (auto simp: initialize_def stopEventDispatcher_def startEventDispatcher_def stoppedDispatcher_def
        Let_def split: sum.splits prod.splits)
  show "r = Inl e \<Longrightarrow> s' = s \<and> w' = w \<or> \<not> ev_running s'"
    using assms by (auto simp: initialize_def stopEventDispatcher_def stoppedDispatcher_def
        Let_def split: sum.splits prod.splits)
qed

section \<open>Termination of the passes\<close>

text \<open>More fuel does not change the run of the passes.\<close>

lemma eventPasses_mono:
  assumes "eventPasses n W processedSoFar w = (Inr (Some r), w')" and "n \<le> m"
  shows "eventPasses m W processedSoFar w = (Inr (Some r), w')"
  using assms
proof (induction n arbitrary: processedSoFar w m)
  case (Suc n)
  then obtain k where m: "m = Suc k" "n \<le> k" by (cases m) auto
  show ?case
    using Suc.prems Suc.IH [OF _ m(2)] unfolding m(1)
    by (auto simp: bindM_def tryM_def retM_def split: prod.splits sum.splits option.splits if_splits)
qed (simp add: retM_def)

end
