(* ===== verification/Association_Plan.thy ===== *)
theory Association_Plan
  imports Association_Paths
begin

text \<open>
  The plan of an association (\<open>internal/backend/association_plan.go\<close>): what a sync of the current source
  version would do, without storing or enqueueing anything. A secret-path association has one object, a
  secret-key association one object per key; a failed check makes the object blocked, and the remote is
  asked only for an object that passes every local check.
\<close>

definition blockedPlan :: "string \<Rightarrow> string \<Rightarrow> planResult" where
  "blockedPlan errorClass message = \<lparr> pr_Action = PlanActionBlocked, pr_Message = message, pr_ErrorClass = errorClass \<rparr>"

text \<open>The result of a provider's plan call; a nil plan is blocked without a class.\<close>

definition providerPlanOutcome :: "gerr + planResult option \<Rightarrow> planResult" where
  "providerPlanOutcome result =
     (case result of
        Inl e \<Rightarrow> blockedPlan (providerErrorClass e) (errorText e)
      | Inr None \<Rightarrow> blockedPlan [] []
      | Inr (Some plan) \<Rightarrow> plan)"

definition currentSourceVersionFromPlanRequest ::
    "'w world \<Rightarrow> fieldData \<Rightarrow> ('w, response + string \<times> metadataRecord \<times> versionRecord) io" where
  "currentSourceVersionFromPlanRequest W data =
     (case normalizeSourcePath (getString data ''path'') of
        Inl e \<Rightarrow> retM (Inl (ErrorResponse e))
      | Inr path \<Rightarrow>
          bindM (tryM (currentSourceVersion W path)) (\<lambda>current.
            case current of
              Inl e \<Rightarrow> (case currentSourceVersionErrorResponse e of
                  Some response \<Rightarrow> retM (Inl response) | None \<Rightarrow> failM e)
            | Inr (metadata, version) \<Rightarrow> retM (Inr (path, metadata, version))))"

definition providerPlanRequest ::
    "associationRecord \<Rightarrow> runtimeIdentity \<Rightarrow> int \<Rightarrow> canonicalPayload \<Rightarrow> planRequest" where
  "providerPlanRequest r runtime version payload =
     \<lparr> pq_Runtime = runtime, pq_Association = providerAssociationConfig r,
       pq_ResolvedName = (case associationResolvedNameForObject r syncObjectIDSecretPath of
          Inr name \<Rightarrow> name | Inl _ \<Rightarrow> as_ResolvedName r),
       pq_Format = pl_Format payload, pq_PayloadSHA256 = pl_SHA256 payload,
       pq_PayloadBytes = int (length (pl_Bytes payload)),
       pq_DataMap = (normalizedDataMapping (as_DataMapping r) = dataMappingSourceKeys),
       pq_DataMapKeys = dataMapKeys (pl_Data payload), pq_SourcePath = as_Path r, pq_SourceVersion = version,
       pq_AssociationID = as_ID r, pq_ObjectID = syncObjectIDSecretPath \<rparr>"

section \<open>Responses\<close>

definition associationPlanResponse ::
    "associationRecord \<Rightarrow> int \<Rightarrow> canonicalPayload \<Rightarrow> bool \<Rightarrow> planResult \<Rightarrow> response" where
  "associationPlanResponse r version payload sourceEligible plan = DataResponse
     [(''path'', JString (as_Path r)), (''version'', JInt version), (''action'', JString (pr_Action plan)),
      (''source_eligible'', JBool sourceEligible), (''association_id'', JString (as_ID r)),
      (''destination_ref'', JString (as_DestinationRef r)), (''association'', JObject (associationResponse r)),
      (''destination'', destinationObject (as_DestinationType r) (as_DestinationName r)),
      (''resolved_name'', JString (as_ResolvedName r)), (''format'', JString (pl_Format payload)),
      (''data_mapping'', JString (normalizedDataMapping (as_DataMapping r))),
      (''data_key_template'', JString (as_DataKeyTemplate r)),
      (''payload_bytes'', JInt (int (length (pl_Bytes payload)))),
      (''error_class'', JString (pr_ErrorClass plan)), (''message'', JString (pr_Message plan))]"

record secretKeyPlanObject =
  sk_ObjectID :: string
  sk_ResolvedName :: string
  sk_PayloadSHA256 :: string
  sk_PayloadBytes :: int
  sk_Action :: string
  sk_ErrorClass :: string
  sk_Message :: string

definition secretKeyPlanObjectResponse :: "secretKeyPlanObject \<Rightarrow> goval" where
  "secretKeyPlanObjectResponse ob = JObject
     [(''object_id'', JString (sk_ObjectID ob)), (''resolved_name'', JString (sk_ResolvedName ob)),
      (''action'', JString (sk_Action ob)), (''payload_bytes'', JInt (sk_PayloadBytes ob)),
      (''error_class'', JString (sk_ErrorClass ob)), (''message'', JString (sk_Message ob))]"

text \<open>The common action of the objects, or \<open>multiple\<close>.\<close>

fun planAction :: "secretKeyPlanObject list \<Rightarrow> string" where
  "planAction [] = []"
| "planAction (ob # obs) =
     foldl (\<lambda>action b. if action \<noteq> sk_Action b then ''multiple'' else action) (sk_Action ob) obs"

definition associationSecretKeyPlanResponse ::
    "associationRecord \<Rightarrow> int \<Rightarrow> bool \<Rightarrow> secretKeyPlanObject list \<Rightarrow> response" where
  "associationSecretKeyPlanResponse r version sourceEligible obs = DataResponse
     [(''path'', JString (as_Path r)), (''version'', JInt version), (''action'', JString (planAction obs)),
      (''source_eligible'', JBool sourceEligible), (''association_id'', JString (as_ID r)),
      (''destination_ref'', JString (as_DestinationRef r)), (''association'', JObject (associationResponse r)),
      (''destination'', destinationObject (as_DestinationType r) (as_DestinationName r)),
      (''granularity'', JString (as_Granularity r)),
      (''objects'', JArray (map secretKeyPlanObjectResponse obs))]"

section \<open>Planning\<close>

definition pathAssociationSecretPathPlan ::
    "'w world \<Rightarrow> associationRecord \<Rightarrow> metadataRecord \<Rightarrow> versionRecord \<Rightarrow> destinationRecord \<Rightarrow> capabilities \<Rightarrow>
       runtimeIdentity \<Rightarrow> bool \<Rightarrow> gerr option \<Rightarrow> ('w, response) io" where
  "pathAssociationSecretPathPlan W r metadata version destination provider runtime sourceEligible preflightErr =
     (case buildCanonicalPayloadForObject W r (vr_Data version) syncObjectIDSecretPath of
        Inl _ \<Rightarrow> retM (ErrorResponse (Errorf ''source payload encoding failed'' []))
      | Inr payload \<Rightarrow>
          let respond = (\<lambda>plan. retM (associationPlanResponse r (md_CurrentVersion metadata) payload
                sourceEligible plan))
          in case preflightErr of
               Some e \<Rightarrow> respond (blockedPlan ErrorClassValidation (errorText e))
             | None \<Rightarrow>
                 (case enforceProviderPayloadLimit provider payload of
                    Inl e \<Rightarrow> respond (blockedPlan ErrorClassCapacity (errorText e))
                  | Inr _ \<Rightarrow>
                      bindM (destinationConfig W destination) (\<lambda>config.
                      bindM (tryM (w_Plan W (ds_Type destination) config
                               (providerPlanRequest r runtime (md_CurrentVersion metadata) payload))) (\<lambda>result.
                        respond (providerPlanOutcome result)))))"

definition planSecretKeyObject ::
    "'w world \<Rightarrow> associationRecord \<Rightarrow> destinationRecord \<Rightarrow> providerDestinationConfig \<Rightarrow> capabilities \<Rightarrow>
       runtimeIdentity \<Rightarrow> int \<Rightarrow> secretPayload \<Rightarrow> bool \<Rightarrow> globalConfig \<Rightarrow> string \<Rightarrow> ('w, secretKeyPlanObject) io" where
  "planSecretKeyObject W r destination config provider runtime version data sourceEligible cfg objectID =
     (case buildCanonicalPayloadForObject W r data objectID of
        Inl _ \<Rightarrow> retM \<lparr> sk_ObjectID = objectID, sk_ResolvedName = [], sk_PayloadSHA256 = [], sk_PayloadBytes = 0,
                   sk_Action = PlanActionBlocked, sk_ErrorClass = ErrorClassValidation,
                   sk_Message = ''source payload encoding failed'' \<rparr>
      | Inr payload \<Rightarrow>
          bindM (liftE (associationResolvedNameForObject r objectID)) (\<lambda>resolvedName.
          let withPlan = (\<lambda>plan. retM \<lparr> sk_ObjectID = objectID, sk_ResolvedName = resolvedName,
                sk_PayloadSHA256 = pl_SHA256 payload, sk_PayloadBytes = int (length (pl_Bytes payload)),
                sk_Action = pr_Action plan, sk_ErrorClass = pr_ErrorClass plan, sk_Message = pr_Message plan \<rparr>)
          in
          if \<not> sourceEligible then withPlan (blockedPlan ErrorClassValidation ''source is not eligible'')
          else case validateDestinationPolicyForObject destination r objectID resolvedName cfg of
            Inl e \<Rightarrow> withPlan (blockedPlan ErrorClassValidation (errorText e))
          | Inr _ \<Rightarrow>
              (case enforceProviderPayloadLimit provider payload of
                 Inl e \<Rightarrow> withPlan (blockedPlan ErrorClassCapacity (errorText e))
               | Inr _ \<Rightarrow>
                   bindM (tryM (w_Plan W (ds_Type destination) config
                     \<lparr> pq_Runtime = runtime, pq_Association = providerAssociationConfig r,
                       pq_ResolvedName = resolvedName, pq_Format = pl_Format payload,
                       pq_PayloadSHA256 = pl_SHA256 payload,
                       pq_PayloadBytes = int (length (pl_Bytes payload)), pq_DataMap = False,
                       pq_DataMapKeys = [], pq_SourcePath = as_Path r, pq_SourceVersion = version,
                       pq_AssociationID = as_ID r, pq_ObjectID = objectID \<rparr>)) (\<lambda>result.
                     withPlan (providerPlanOutcome result)))))"

definition pathAssociationSecretKeyPlan ::
    "'w world \<Rightarrow> associationRecord \<Rightarrow> metadataRecord \<Rightarrow> versionRecord \<Rightarrow> destinationRecord \<Rightarrow> capabilities \<Rightarrow>
       runtimeIdentity \<Rightarrow> bool \<Rightarrow> globalConfig \<Rightarrow> ('w, response) io" where
  "pathAssociationSecretKeyPlan W r metadata version destination provider runtime sourceEligible cfg =
     bindM (destinationConfig W destination) (\<lambda>config.
     respondE (associationObjectIDs W r (vr_Data version)) (\<lambda>objectIDs.
     bindM (foldM (\<lambda>obs objectID.
              bindM (planSecretKeyObject W r destination config provider runtime (md_CurrentVersion metadata)
                       (vr_Data version) sourceEligible cfg objectID) (\<lambda>ob. retM (obs @ [ob]))) [] objectIDs)
       (\<lambda>obs. retM (associationSecretKeyPlanResponse r (md_CurrentVersion metadata) sourceEligible obs))))"

text \<open>The plan of a built association record, from the configuration on.\<close>

definition planAssociation ::
    "'w world \<Rightarrow> associationRecord \<Rightarrow> metadataRecord \<Rightarrow> versionRecord \<Rightarrow> ('w, response) io" where
  "planAssociation W r metadata version =
     bindM (readGlobalConfig W) (\<lambda>cfg.
     bindM (getDestination W (as_DestinationType r) (as_DestinationName r)) (\<lambda>destination.
       case destination of
         None \<Rightarrow> retM (ErrorResponse (Errorf ''destination does not exist'' []))
       | Some d \<Rightarrow>
           (case w_Provider W (as_DestinationType r) of
              None \<Rightarrow> retM (ErrorResponse (unsupportedDestinationType (as_DestinationType r)))
            | Some provider \<Rightarrow>
                bindM (providerRuntimeIdentity W) (\<lambda>runtime.
                let eligibility = validateAssociationActivation r (Some metadata) cfg;
                    sourceEligible = (case eligibility of Inr _ \<Rightarrow> True | Inl _ \<Rightarrow> False)
                in if as_Granularity r = syncGranularitySecretKey
                   then pathAssociationSecretKeyPlan W r metadata version d provider runtime sourceEligible cfg
                   else
                     let preflightErr = (case eligibility of
                            Inl e \<Rightarrow> Some e
                          | Inr _ \<Rightarrow> (case validateAssociationDestinationPolicy W d r (vr_Data version) cfg of
                                Inl e \<Rightarrow> Some e | Inr _ \<Rightarrow> None))
                     in pathAssociationSecretPathPlan W r metadata version d provider runtime sourceEligible
                          preflightErr))))"

definition pathAssociationPlan :: "'w world \<Rightarrow> fieldData \<Rightarrow> ('w, response) io" where
  "pathAssociationPlan W data =
     bindM (currentSourceVersionFromPlanRequest W data) (\<lambda>current.
       case current of
         Inl response \<Rightarrow> retM response
       | Inr (path, metadata, version) \<Rightarrow>
           bindM (associationUpdateBase W True path data) (\<lambda>base.
             case base of
               Inl response \<Rightarrow> retM response
             | Inr base \<Rightarrow>
                 bindM (tryM (associationRecordFromFieldData W path data base)) (\<lambda>record.
                   respondE record (\<lambda>r. planAssociation W r metadata version))))"

end
