(* ===== verification/Source_Paths.thy ===== *)
theory Source_Paths
  imports Association_Plan Destination_Paths Go_Duration
begin

text \<open>
  The remaining endpoints of a source path: metadata (\<open>path_metadata.go\<close>), source sync eligibility
  (\<open>path_sources.go\<close>), status (\<open>path_status.go\<close>), static information (\<open>path_info.go\<close>), and the
  existence checks that tell a create from an update (\<open>existence_checks.go\<close>).
\<close>

section \<open>Metadata\<close>

definition versionMetadataResponse :: "versionMetadata \<Rightarrow> goval" where
  "versionMetadataResponse v = JObject [(''created_time'', JString (vm_CreatedTime v)),
     (''deletion_time'', JString (vm_DeletionTime v)), (''destroyed'', JBool (vm_Destroyed v))]"

definition metadataResponseFields :: "metadataRecord \<Rightarrow> nat \<Rightarrow> nat \<Rightarrow> (string \<times> goval) list" where
  "metadataResponseFields m queuedOperations statusObjects =
     [(''current_version'', JInt (md_CurrentVersion m)), (''oldest_version'', JInt (md_OldestVersion m)),
      (''max_versions'', JInt (md_MaxVersions m)), (''cas_required'', JBool (md_CASRequired m)),
      (''delete_version_after'', JString (md_DeleteVersionAfter m)),
      (''source_sync_enabled'', JBool (md_SourceSyncEnabled m)),
      (''custom_metadata'', stringMap (md_CustomMetadata m)), (''updated_time'', JString (md_UpdatedTime m)),
      (''versions'', JObject (map (\<lambda>(k, v). (k, versionMetadataResponse v)) (md_Versions m))),
      (''sync'', JObject [(''queued_operations'', JInt (int queuedOperations)),
        (''objects'', JInt (int statusObjects))])]"

definition listMetadataKeysPage :: "'w world \<Rightarrow> string \<Rightarrow> listPagination \<Rightarrow> ('w, string list) io" where
  "listMetadataKeysPage W p pagination =
     w_ListPage W (metadataStoragePrefix @ (if p \<noteq> [] then p @ ''/'' else [])) (lp_after pagination)
       (lp_limit pagination)"

definition pathMetadataListRoot :: "'w world \<Rightarrow> fieldData \<Rightarrow> ('w, response) io" where
  "pathMetadataListRoot W data =
     bindM (listMetadataKeysPage W [] (listPaginationFromFieldData data)) (\<lambda>keys. retM (ListResponse keys))"

definition normalizeOptionalPath :: "string \<Rightarrow> gerr + string" where
  "normalizeOptionalPath input = (if input = [] then Inr [] else normalizeSourcePath input)"

definition pathMetadataList :: "'w world \<Rightarrow> fieldData \<Rightarrow> ('w, response) io" where
  "pathMetadataList W data =
     respondE (normalizeOptionalPath (getString data ''path'')) (\<lambda>p.
     bindM (listMetadataKeysPage W p (listPaginationFromFieldData data)) (\<lambda>keys. retM (ListResponse keys)))"

text \<open>The metadata with the number of queued operations and status objects of the path.\<close>

definition metadataResponse :: "'w world \<Rightarrow> string \<Rightarrow> metadataRecord \<Rightarrow> ('w, (string \<times> goval) list) io" where
  "metadataResponse W path m =
     bindM (listQueuedOutboxIDsForPath W path) (\<lambda>queued.
     bindM (listStatusRecordsForPath W path) (\<lambda>statuses.
       retM (metadataResponseFields m (length queued) (length statuses))))"

definition pathMetadataRead :: "'w world \<Rightarrow> fieldData \<Rightarrow> ('w, response) io" where
  "pathMetadataRead W data =
     respondE (normalizeSourcePath (getString data ''path'')) (\<lambda>path.
     bindM (getMetadata W path) (\<lambda>metadata.
       case metadata of
         None \<Rightarrow> retM NilResponse
       | Some m \<Rightarrow> bindM (metadataResponse W path m) (\<lambda>fields. retM (DataResponse fields))))"

text \<open>\<open>parse\<close> is the SDK's \<open>custommetadata.Parse\<close> and \<open>Validate\<close>.\<close>

definition parseCustomMetadata ::
    "((string \<times> goval) list \<Rightarrow> gerr + (string \<times> string) list) \<Rightarrow> goval \<Rightarrow> gerr + (string \<times> string) list" where
  "parseCustomMetadata parse raw =
     (case raw of JObject m \<Rightarrow> parse m | _ \<Rightarrow> Inl (Errorf ''custom_metadata must be a map'' []))"

definition updateMaxVersions :: "fieldData \<Rightarrow> metadataRecord \<times> bool \<Rightarrow> gerr + metadataRecord \<times> bool" where
  "updateMaxVersions data mc =
     (case getOkInt data ''max_versions'' of
        None \<Rightarrow> Inr mc
      | Some n \<Rightarrow> if n \<le> 0 then Inl (Errorf ''max_versions must be greater than zero'' [])
                  else Inr ((fst mc) \<lparr> md_MaxVersions := n \<rparr>, True))"

definition updateCASRequired :: "fieldData \<Rightarrow> metadataRecord \<times> bool \<Rightarrow> gerr + metadataRecord \<times> bool" where
  "updateCASRequired data mc =
     (case getOkBool data ''cas_required'' of
        None \<Rightarrow> Inr mc
      | Some b \<Rightarrow> Inr ((fst mc) \<lparr> md_CASRequired := b \<rparr>, True))"

definition updateDeleteAfter :: "fieldData \<Rightarrow> metadataRecord \<times> bool \<Rightarrow> gerr + metadataRecord \<times> bool" where
  "updateDeleteAfter data mc =
     (case getOkString data ''delete_version_after'' of
        None \<Rightarrow> Inr mc
      | Some s \<Rightarrow>
          let s = (if s = [] then defaultDeleteVersionAfter else s)
          in case parseDuration s of
               None \<Rightarrow> Inl (Errorf ''delete_version_after must be a Go duration string: %w'' [s])
             | Some d \<Rightarrow>
                 if d \<noteq> 0
                 then Inl (Errorf ''delete_version_after is not enforced yet; set it to 0s or omit it'' [])
                 else Inr ((fst mc) \<lparr> md_DeleteVersionAfter := defaultDeleteVersionAfter \<rparr>, True))"

definition updateCustomMetadata ::
    "((string \<times> goval) list \<Rightarrow> gerr + (string \<times> string) list) \<Rightarrow> fieldData \<Rightarrow> metadataRecord \<times> bool \<Rightarrow>
       gerr + metadataRecord \<times> bool" where
  "updateCustomMetadata parse data mc =
     (case getOk data ''custom_metadata'' of
        None \<Rightarrow> Inr mc
      | Some raw \<Rightarrow>
          bindE (parseCustomMetadata parse raw) (\<lambda>m. Inr ((fst mc) \<lparr> md_CustomMetadata := m \<rparr>, True)))"

definition updateMetadataFromFieldData ::
    "((string \<times> goval) list \<Rightarrow> gerr + (string \<times> string) list) \<Rightarrow> metadataRecord \<Rightarrow> fieldData \<Rightarrow>
       gerr + metadataRecord \<times> bool" where
  "updateMetadataFromFieldData parse m data =
     bindE (updateMaxVersions data (m, False)) (\<lambda>mc.
     bindE (updateCASRequired data mc) (\<lambda>mc.
     bindE (updateDeleteAfter data mc) (\<lambda>mc.
       updateCustomMetadata parse data mc)))"

definition metadataOrNew :: "'w world \<Rightarrow> metadataRecord option \<Rightarrow> ('w, metadataRecord) io" where
  "metadataOrNew W metadata = (case metadata of Some m \<Rightarrow> retM m | None \<Rightarrow> newMetadataRecord W)"

definition pathMetadataWrite ::
    "'w world \<Rightarrow> ((string \<times> goval) list \<Rightarrow> gerr + (string \<times> string) list) \<Rightarrow> fieldData \<Rightarrow> ('w, response) io" where
  "pathMetadataWrite W parse data =
     respondE (normalizeSourcePath (getString data ''path'')) (\<lambda>path.
     bindM (getMetadata W path) (\<lambda>metadata.
     bindM (metadataOrNew W metadata) (\<lambda>m.
     respondE (updateMetadataFromFieldData parse m data) (\<lambda>(m, changed).
       if \<not> changed then retM (ErrorResponse (Errorf ''metadata write requires at least one metadata field'' []))
       else
         bindM (nowUTC W) (\<lambda>t.
         bindM (pruneExcessVersions W path (m \<lparr> md_UpdatedTime := formatRFC3339 t \<rparr>)) (\<lambda>m.
         bindM (putMetadata W path m) (\<lambda>_.
         bindM (metadataResponse W path m) (\<lambda>fields. retM (DataResponse fields)))))))))"

definition pathMetadataDelete :: "'w world \<Rightarrow> fieldData \<Rightarrow> ('w, response) io" where
  "pathMetadataDelete W data =
     respondE (normalizeSourcePath (getString data ''path'')) (\<lambda>path.
     bindM (listAssociationsForPath W path) (\<lambda>associations.
       if associations \<noteq> []
       then retM (ErrorResponse (Errorf ''source path has associations and cannot be deleted'' []))
       else bindM (deleteSourcePath W path) (\<lambda>_. retM NilResponse)))"

section \<open>Source sync eligibility\<close>

definition sourceReadinessBlockers :: "metadataRecord option \<Rightarrow> bool \<Rightarrow> bool \<Rightarrow> bool \<Rightarrow> string list" where
  "sourceReadinessBlockers metadata sourceSyncEnabled currentVersionAvailable required =
     (if (case metadata of None \<Rightarrow> True | Some m \<Rightarrow> md_CurrentVersion m = 0) then [''source_missing'']
      else if \<not> currentVersionAvailable then [''current_version_unavailable''] else []) @
     (if required \<and> \<not> sourceSyncEnabled then [''source_sync_not_enabled''] else [])"

definition pathSourceCheck :: "'w world \<Rightarrow> fieldData \<Rightarrow> ('w, response) io" where
  "pathSourceCheck W data =
     respondE (normalizeSourcePath (getString data ''path'')) (\<lambda>path.
     bindM (getMetadata W path) (\<lambda>metadata.
     bindM (case metadata of
              None \<Rightarrow> retM False
            | Some m \<Rightarrow>
                if 0 < md_CurrentVersion m
                then bindM (getVersion W path (md_CurrentVersion m)) (\<lambda>version.
                  retM (case version of None \<Rightarrow> False | Some v \<Rightarrow> \<not> vr_Destroyed v \<and> vr_DeletionTime v = []))
                else retM False) (\<lambda>currentVersionAvailable.
     bindM (listAssociationsForPath W path) (\<lambda>associations.
     bindM (listQueuedOutboxIDsForPath W path) (\<lambda>queued.
     bindM (listStatusRecordsForPath W path) (\<lambda>statuses.
     bindM (readGlobalConfig W) (\<lambda>cfg.
       let currentVersion = (case metadata of Some m \<Rightarrow> md_CurrentVersion m | None \<Rightarrow> 0);
           sourceSyncEnabled = (case metadata of Some m \<Rightarrow> md_SourceSyncEnabled m | None \<Rightarrow> False);
           required = sourceSyncRequired cfg;
           blockers = sourceReadinessBlockers metadata sourceSyncEnabled currentVersionAvailable required
       in retM (DataResponse
         [(''path'', JString path), (''ready'', JBool (blockers = [])),
          (''source_sync_enabled'', JBool sourceSyncEnabled), (''source_sync_required'', JBool required),
          (''current_version'', JInt currentVersion),
          (''current_version_available'', JBool currentVersionAvailable),
          (''association_count'', JInt (int (length associations))),
          (''enabled_association_count'', JInt (int (length (filter as_Enabled associations)))),
          (''queued_operations'', JInt (int (length queued))),
          (''status_objects'', JInt (int (length statuses))), (''blockers'', strings blockers)]))))))))"

definition enqueueSourceCurrentVersion :: "'w world \<Rightarrow> string \<Rightarrow> metadataRecord \<Rightarrow> ('w, string list) io" where
  "enqueueSourceCurrentVersion W path m =
     bindM (enabledAssociationsForPath W path) (\<lambda>associations.
     bindM (nowUTC W) (\<lambda>t.
       enqueueAssociationsCurrentVersion W associations m (formatRFC3339 t)))"

definition rollbackSourceSyncMetadata :: "'w world \<Rightarrow> string \<Rightarrow> metadataRecord option \<Rightarrow> ('w, unit) io" where
  "rollbackSourceSyncMetadata W path previous =
     (case previous of Some m \<Rightarrow> putMetadata W path m | None \<Rightarrow> deleteMetadata W path)"

definition rollbackSourceSyncMetadataError :: "gerr \<Rightarrow> gerr \<Rightarrow> gerr" where
  "rollbackSourceSyncMetadataError operationErr rollbackErr =
     ErrWrapped (''%w; source sync metadata rollback failed: '' @ errorText rollbackErr) operationErr"

text \<open>Storing a changed eligibility; an enqueue that fails puts the metadata back.\<close>

definition commitSourceSync ::
    "'w world \<Rightarrow> string \<Rightarrow> string \<Rightarrow> metadataRecord option \<Rightarrow> metadataRecord \<Rightarrow> bool \<Rightarrow>
       ('w, response + string list) io" where
  "commitSourceSync W mount path previous m enabled =
     bindM (putMetadata W path m) (\<lambda>_.
       if \<not> enabled then retM (Inr [])
       else bindM (tryM (enqueueSourceCurrentVersion W path m)) (\<lambda>enqueued.
         case enqueued of
           Inl e \<Rightarrow>
             bindM (tryM (rollbackSourceSyncMetadata W path previous)) (\<lambda>rollback.
               case rollback of
                 Inl rollbackErr \<Rightarrow> failM (rollbackSourceSyncMetadataError e rollbackErr)
               | Inr _ \<Rightarrow> retM (Inl (errorResponseForOperationError e mount)))
         | Inr operationIDs \<Rightarrow>
             bindM (whenM (operationIDs \<noteq> []) (signalEventDispatch W)) (\<lambda>_. retM (Inr operationIDs))))"

definition pathSourceSyncSet :: "'w world \<Rightarrow> string \<Rightarrow> fieldData \<Rightarrow> bool \<Rightarrow> ('w, response) io" where
  "pathSourceSyncSet W mountPoint data enabled =
     respondE (normalizeSourcePath (getString data ''path'')) (\<lambda>path.
     bindM (getMetadata W path) (\<lambda>previous.
     bindM (metadataOrNew W previous) (\<lambda>m.
     let changed = (md_SourceSyncEnabled m \<noteq> enabled) in
     bindM (if changed then bindM (nowUTC W) (\<lambda>t.
              retM (m \<lparr> md_SourceSyncEnabled := enabled, md_UpdatedTime := formatRFC3339 t \<rparr>))
            else retM m) (\<lambda>m.
     bindM (if changed then commitSourceSync W (requestMountPath mountPoint) path previous m enabled
            else retM (Inr [])) (\<lambda>committed.
       case committed of
         Inl response \<Rightarrow> retM response
       | Inr operationIDs \<Rightarrow>
           bindM (metadataResponse W path m) (\<lambda>fields.
             retM (DataResponse
               ([(''path'', JString path), (''source_sync_enabled'', JBool enabled),
                 (''changed'', JBool changed), (''metadata'', JObject fields)] @
                (if enabled
                 then [(''sync_operation_ids'', strings operationIDs),
                       (''sync_state'', JString (syncStateForOperationIDs operationIDs))]
                 else [])))))))))"

definition pathSourceEnable :: "'w world \<Rightarrow> string \<Rightarrow> fieldData \<Rightarrow> ('w, response) io" where
  "pathSourceEnable W mountPoint data = pathSourceSyncSet W mountPoint data True"

definition pathSourceDisable :: "'w world \<Rightarrow> string \<Rightarrow> fieldData \<Rightarrow> ('w, response) io" where
  "pathSourceDisable W mountPoint data = pathSourceSyncSet W mountPoint data False"

section \<open>Status\<close>

definition statusResponseObject :: "string \<Rightarrow> statusRecord \<Rightarrow> goval" where
  "statusResponseObject mount r = JObject
     ([(''association_id'', JString (st_AssociationID r)), (''object_id'', JString (st_ObjectID r)),
       (''destination_ref'', JString (st_DestinationRef r)), (''resolved_name'', JString (st_ResolvedName r)),
       (''state'', JString (st_State r)), (''version'', JInt (st_Version r)),
       (''remote_version'', JString (st_RemoteVersion r)), (''verification'', JString (st_Verification r)),
       (''last_operation_id'', JString (st_LastOperationID r)),
       (''last_success_time'', JString (st_LastSuccessTime r)),
       (''last_reconcile_time'', JString (st_LastReconcileTime r)),
       (''last_drift_detected_time'', JString (st_LastDriftDetectedTime r)),
       (''last_repair_time'', JString (st_LastRepairTime r)), (''repair_count'', JInt (st_RepairCount r)),
       (''last_error_class'', JString (st_LastErrorClass r)), (''last_error'', JString (st_LastError r))] @
      diagnosticResponseFields (statusDiagnosticForRecord mount r))"

text \<open>Pending while work is queued, else the state of the first object that is not in sync.\<close>

definition pathSyncState :: "string list \<Rightarrow> statusRecord list \<Rightarrow> string" where
  "pathSyncState operationIDs statuses =
     (if operationIDs \<noteq> [] then SyncStatePending
      else if statuses = [] then SyncStateNoAssociation
      else case filter (\<lambda>r. st_State r \<noteq> SyncStateSynced) statuses of
             r # _ \<Rightarrow> st_State r
           | [] \<Rightarrow> SyncStateSynced)"

definition pathStatusRead :: "'w world \<Rightarrow> string \<Rightarrow> fieldData \<Rightarrow> ('w, response) io" where
  "pathStatusRead W mountPoint data =
     respondE (normalizeSourcePath (getString data ''path'')) (\<lambda>path.
     bindM (getMetadata W path) (\<lambda>metadata.
       case metadata of
         None \<Rightarrow> retM (DataResponse [(''path'', JString path), (''state'', JString SyncStateUnknown),
             (''operation_ids'', strings []), (''objects'', strings [])])
       | Some m \<Rightarrow>
           bindM (listQueuedOutboxIDsForPath W path) (\<lambda>operationIDs.
           bindM (listStatusRecordsForPath W path) (\<lambda>statuses.
             retM (DataResponse [(''path'', JString path), (''version'', JInt (md_CurrentVersion m)),
               (''state'', JString (pathSyncState operationIDs statuses)),
               (''operation_ids'', strings operationIDs),
               (''objects'', JArray (map (statusResponseObject (requestMountPath mountPoint)) statuses))])))))"

section \<open>Static information\<close>

definition providerInfoResponse :: "(string \<times> capabilities) list \<Rightarrow> goval" where
  "providerInfoResponse providers =
     JObject (map (\<lambda>(t, c). (t, JObject [(''capabilities'', capabilitiesResponse c)])) providers)"

definition pathInfoRead :: "string \<Rightarrow> (string \<times> capabilities) list \<Rightarrow> ('w, response) io" where
  "pathInfoRead pluginVersion providers = retM (DataResponse
     [(''plugin_version'', JString pluginVersion),
      (''defaults'', JObject [(''association'', JObject associationDefaultsResponse)]),
      (''providers'', providerInfoResponse providers)])"

section \<open>Existence checks\<close>

text \<open>\<open>readOnly\<close> recognises the SDK's read-only storage errors: such an error reads as "does not exist".\<close>

definition existenceCheckResult :: "(gerr \<Rightarrow> bool) \<Rightarrow> gerr + bool \<Rightarrow> ('w, bool) io" where
  "existenceCheckResult readOnly result =
     (case result of
        Inr exists \<Rightarrow> retM exists
      | Inl e \<Rightarrow> if readOnly e then retM False else failM e)"

definition sourceMetadataExistenceCheck :: "'w world \<Rightarrow> (gerr \<Rightarrow> bool) \<Rightarrow> fieldData \<Rightarrow> ('w, bool) io" where
  "sourceMetadataExistenceCheck W readOnly data =
     (case normalizeSourcePath (getString data ''path'') of
        Inl _ \<Rightarrow> retM False
      | Inr path \<Rightarrow>
          bindM (tryM (bindM (getMetadata W path) (\<lambda>m. retM (m \<noteq> None)))) (existenceCheckResult readOnly))"

definition destinationExistenceCheck :: "'w world \<Rightarrow> (gerr \<Rightarrow> bool) \<Rightarrow> fieldData \<Rightarrow> ('w, bool) io" where
  "destinationExistenceCheck W readOnly data =
     (let destinationType = trimSpace (getString data ''type''); name = trimSpace (getString data ''name'')
      in if destinationType = [] \<or> name = [] then retM False
         else bindM (tryM (bindM (getDestination W destinationType name) (\<lambda>d. retM (d \<noteq> None))))
                (existenceCheckResult readOnly))"

definition associationExistenceCheck :: "'w world \<Rightarrow> (gerr \<Rightarrow> bool) \<Rightarrow> fieldData \<Rightarrow> ('w, bool) io" where
  "associationExistenceCheck W readOnly data =
     (case normalizeSourcePath (getString data ''path'') of
        Inl _ \<Rightarrow> retM False
      | Inr path \<Rightarrow>
          bindM (tryM (associationSelectionForWrite W path data)) (\<lambda>selection.
            case selection of
              Inl e \<Rightarrow> existenceCheckResult readOnly (Inl e)
            | Inr (Inl _) \<Rightarrow> retM False
            | Inr (Inr s) \<Rightarrow> retM (0 < aw_matchCount s)))"

end
