(* ===== verification/Go_JSON.thy ===== *)
theory Go_JSON
  imports Requests Go_Runes
begin

text \<open>
  Package \<open>encoding/json\<close> for strings and lists of strings: \<open>json.Marshal\<close>, which escapes HTML, and
  \<open>json.Unmarshal\<close> into a \<open>[]string\<close>, with its treatment of escapes, surrogates and invalid UTF-8.
\<close>

section \<open>Marshal\<close>

definition marshalString :: "string \<Rightarrow> string" where
  "marshalString s = concat (map escapeHTML (encodeString s))"

text \<open>A nil slice is \<open>null\<close>; the source marshals no other empty one.\<close>

definition marshalStrings :: "string list \<Rightarrow> string" where
  "marshalStrings ss = (if ss = [] then ''null'' else ''['' @ joinStrings '','' (map marshalString ss) @ '']'')"

section \<open>Unmarshal\<close>

definition hexValue :: "char \<Rightarrow> nat option" where
  "hexValue c =
     (let n = of_char c
      in if 48 \<le> n \<and> n \<le> 57 then Some (n - 48)
         else if 97 \<le> n \<and> n \<le> 102 then Some (n - 87)
         else if 65 \<le> n \<and> n \<le> 70 then Some (n - 55)
         else None)"

fun hexValues :: "string \<Rightarrow> nat option" where
  "hexValues (a # b # c # d # r) =
     (case (hexValue a, hexValue b, hexValue c, hexValue d) of
        (Some w, Some x, Some y, Some z) \<Rightarrow> Some (4096 * w + 256 * x + 16 * y + z)
      | _ \<Rightarrow> None)"
| "hexValues s = None"

text \<open>The UTF-8 encoding of a code point that is not a surrogate.\<close>

definition utf8Encode :: "nat \<Rightarrow> string" where
  "utf8Encode n = map char_of
     (if n < 128 then [n]
      else if n < 2048 then [192 + n div 64, 128 + n mod 64]
      else if n < 65536 then [224 + n div 4096, 128 + n div 64 mod 64, 128 + n mod 64]
      else [240 + n div 262144, 128 + n div 4096 mod 64, 128 + n div 64 mod 64, 128 + n mod 64])"

text \<open>
  A surrogate is read together with a following escape if the two are a pair, else it is the
  replacement character.
\<close>

definition unicodeEscape :: "nat \<Rightarrow> string \<Rightarrow> string \<times> string" where
  "unicodeEscape n r =
     (if n < 55296 \<or> 57344 \<le> n then (utf8Encode n, r)
      else (case if take 2 r = [bsl, CHR ''u''] then hexValues (drop 2 r) else None of
              Some m \<Rightarrow>
                if n < 56320 \<and> 56320 \<le> m \<and> m < 57344
                then (utf8Encode (65536 + (n - 55296) * 1024 + (m - 56320)), drop 6 r)
                else (replacementRune, r)
            | None \<Rightarrow> (replacementRune, r)))"

text \<open>The text after a backslash: what it stands for, and the rest.\<close>

definition jsonEscape :: "string \<Rightarrow> (string \<times> string) option" where
  "jsonEscape s = (case s of
      [] \<Rightarrow> None
    | c # r \<Rightarrow>
        if c = dquote \<or> c = bsl \<or> c = CHR ''/'' then Some ([c], r)
        else if c = CHR ''b'' then Some ([char_of (8 :: nat)], r)
        else if c = CHR ''f'' then Some ([char_of (12 :: nat)], r)
        else if c = CHR ''n'' then Some ([char_of (10 :: nat)], r)
        else if c = CHR ''r'' then Some ([char_of (13 :: nat)], r)
        else if c = CHR ''t'' then Some ([char_of (9 :: nat)], r)
        else if c = CHR ''u'' then map_option (\<lambda>n. unicodeEscape n (drop 4 r)) (hexValues r)
        else None)"

lemma jsonEscape_shorter: "jsonEscape s = Some (t, r) \<Longrightarrow> length r < length s"
  by (auto simp: jsonEscape_def unicodeEscape_def split: list.splits if_splits option.splits)

text \<open>The rest of a string literal: its value, and the text after the closing quote.\<close>

function (sequential) jsonString :: "string \<Rightarrow> (string \<times> string) option" where
  "jsonString [] = None"
| "jsonString (c # s) =
     (if c = dquote then Some ([], s)
      else if of_char c < (32 :: nat) then None
      else if c = bsl
      then (case jsonEscape s of
              None \<Rightarrow> None
            | Some (t, r) \<Rightarrow> map_option (\<lambda>(v, u). (t @ v, u)) (jsonString r))
      else (case runeLength (c # s) of
              0 \<Rightarrow> map_option (\<lambda>(v, u). (replacementRune @ v, u)) (jsonString s)
            | Suc k \<Rightarrow> map_option (\<lambda>(v, u). ((c # take k s) @ v, u)) (jsonString (drop k s))))"
  by pat_completeness auto
termination
  by (relation "measure length") (auto dest: jsonEscape_shorter)

declare jsonString.simps [simp del]

definition skipSpace :: "string \<Rightarrow> string" where
  "skipSpace s = dropWhile (\<lambda>c. of_char c \<in> {32, 9, 10, 13 :: nat}) s"

text \<open>An element: a string, or null, which is left the empty string.\<close>

definition jsonElement :: "string \<Rightarrow> (string \<times> string) option" where
  "jsonElement s = (case s of
      [] \<Rightarrow> None
    | c # r \<Rightarrow> if c = dquote then jsonString r
              else if take 4 s = ''null'' then Some ([], drop 4 s)
              else None)"

lemma jsonString_shorter: "jsonString s = Some (v, r) \<Longrightarrow> length r < length s"
proof (induction s arbitrary: v r rule: jsonString.induct)
  case (2 c s)
  show ?case
  proof (cases "c = dquote \<or> of_char c < (32 :: nat)")
    case True
    then show ?thesis using 2(4) by (auto simp: jsonString.simps split: if_splits)
  next
    case q: False
    show ?thesis
    proof (cases "c = bsl")
      case True
      then obtain t u v' where "jsonEscape s = Some (t, u)" "jsonString u = Some (v', r)"
        using 2(4) q by (auto simp: jsonString.simps split: option.splits)
      then show ?thesis using 2(1) [of "(t, u)" t u] q True jsonEscape_shorter by fastforce
    next
      case b: False
      show ?thesis
      proof (cases "runeLength (c # s)")
        case 0
        then obtain v' where "jsonString s = Some (v', r)"
          using 2(4) q b by (auto simp: jsonString.simps)
        then show ?thesis using 2(2) q b 0 by fastforce
      next
        case (Suc k)
        then obtain v' where "jsonString (drop k s) = Some (v', r)"
          using 2(4) q b by (auto simp: jsonString.simps)
        then show ?thesis using 2(3) q b Suc by fastforce
      qed
    qed
  qed
qed (simp add: jsonString.simps)

lemma jsonElement_shorter: "jsonElement s = Some (v, r) \<Longrightarrow> length r < length s"
  by (auto simp: jsonElement_def split: list.splits if_splits dest!: jsonString_shorter)

lemma length_skipSpace: "length (skipSpace s) \<le> length s"
  by (simp add: skipSpace_def length_dropWhile_le)

text \<open>The elements of an array and the text after it; the opening bracket has been read.\<close>

function (sequential) jsonElements :: "string \<Rightarrow> (string list \<times> string) option" where
  "jsonElements s =
     (case jsonElement (skipSpace s) of
        None \<Rightarrow> None
      | Some (v, r) \<Rightarrow>
          (case skipSpace r of
             [] \<Rightarrow> None
           | c # u \<Rightarrow>
               if c = CHR '']'' then Some ([v], u)
               else if c = CHR '','' then map_option (\<lambda>(vs, t). (v # vs, t)) (jsonElements u)
               else None))"
  by pat_completeness auto
termination
proof (relation "measure length")
  fix s v r x c u
  assume "jsonElement (skipSpace s) = Some x" "(v, r) = x" "skipSpace r = c # u"
  then have "length r < length (skipSpace s)" "Suc (length u) \<le> length r"
    using jsonElement_shorter [of "skipSpace s" v r] length_skipSpace [of r] by auto
  then show "(u, s) \<in> measure length"
    using length_skipSpace [of s] by simp
qed simp

declare jsonElements.simps [simp del]

definition unmarshalStrings :: "string \<Rightarrow> string list option" where
  "unmarshalStrings s =
     (let s = skipSpace s
      in if take 4 s = ''null'' \<and> skipSpace (drop 4 s) = [] then Some []
         else (case s of
                 [] \<Rightarrow> None
               | c # r \<Rightarrow>
                   if c \<noteq> CHR ''['' then None
                   else (case skipSpace r of
                           [] \<Rightarrow> None
                         | d # u \<Rightarrow>
                             (case if d = CHR '']'' then Some ([], u) else jsonElements r of
                                None \<Rightarrow> None
                              | Some (vs, t) \<Rightarrow> if skipSpace t = [] then Some vs else None))))"

section \<open>Round trip for plain strings\<close>

text \<open>A plain character is printable ASCII that is not escaped.\<close>

definition plainChar :: "char \<Rightarrow> bool" where
  "plainChar c \<longleftrightarrow> 32 \<le> (of_char c :: nat) \<and> (of_char c :: nat) < 127 \<and> c \<notin> {dquote, bsl} \<union> set ''<>&''"

lemma plainChar_rune: "plainChar c \<Longrightarrow> runeLength (c # s) = Suc 0"
  by (simp add: plainChar_def runeLength_def inByteRange_def)

lemma plainChar_escape: "plainChar c \<Longrightarrow> escapeChar c = [c] \<and> escapeHTML c = [c]"
  by (auto simp: plainChar_def escapeChar_def escapeHTML_def Let_def)

lemma escapeBytes_plain: "list_all plainChar s \<Longrightarrow> length s \<le> n \<Longrightarrow> escapeBytes n s = s"
  by (rule escapeBytes_printable) (auto simp: plainChar_def printableChar_def dquote_char bsl_char list_all_iff)

lemma marshal_plain: "list_all plainChar s \<Longrightarrow> marshalString s = dquote # s @ [dquote]"
proof -
  assume s: "list_all plainChar s"
  have "concat (map escapeHTML s) = s"
    using s by (induction s) (simp_all add: plainChar_escape)
  moreover have "escapeHTML dquote = [dquote]"
    by (simp add: escapeHTML_def dquote_char)
  ultimately show ?thesis
    using s by (simp add: marshalString_def encodeString_def escapeBytes_plain)
qed

lemma jsonString_plain: "list_all plainChar s \<Longrightarrow> jsonString (s @ dquote # r) = Some (s, r)"
proof (induction s)
  case (Cons c s)
  have "c \<noteq> dquote" "c \<noteq> bsl" "\<not> of_char c < (32 :: nat)"
    using Cons.prems by (auto simp: plainChar_def)
  then show ?case
    using Cons plainChar_rune [of c "s @ dquote # r"] by (simp add: jsonString.simps)
qed (simp add: jsonString.simps)

lemma skipSpace_simps [simp]:
  "skipSpace (dquote # s) = dquote # s" "skipSpace (CHR ''['' # s) = CHR ''['' # s"
  "skipSpace (CHR '']'' # s) = CHR '']'' # s" "skipSpace (CHR '','' # s) = CHR '','' # s" "skipSpace [] = []"
  by (simp_all add: skipSpace_def dquote_def)

lemma jsonElement_plain:
  "list_all plainChar s \<Longrightarrow> jsonElement (dquote # s @ dquote # r) = Some (s, r)"
  by (simp add: jsonElement_def jsonString_plain)

lemma jsonElements_marshal:
  assumes "list_all (list_all plainChar) ss" and "ss \<noteq> []"
  shows "jsonElements (joinStrings '','' (map marshalString ss) @ CHR '']'' # r) = Some (ss, r)"
  using assms
proof (induction ss)
  case (Cons s ss)
  then show ?case
    by (cases ss) (simp_all add: marshal_plain jsonElements.simps [of "dquote # _"] jsonElement_plain)
qed simp

theorem unmarshal_marshal:
  assumes "list_all (list_all plainChar) ss"
  shows "unmarshalStrings (marshalStrings ss) = Some ss"
proof (cases ss)
  case Nil
  then show ?thesis by (simp add: unmarshalStrings_def marshalStrings_def) (simp add: skipSpace_def)
next
  case (Cons s ss')
  have "\<exists>u. joinStrings '','' (map marshalString ss) @ '']'' = dquote # u"
    using Cons assms by (cases ss') (simp_all add: marshal_plain)
  then obtain u where u: "joinStrings '','' (map marshalString ss) @ '']'' = dquote # u" by blast
  have "jsonElements (dquote # u) = Some (ss, [])"
    using jsonElements_marshal [OF assms, of "[]"] Cons u by simp
  moreover have "dquote \<noteq> CHR '']''" by (simp add: dquote_char)
  ultimately show ?thesis
    using Cons u by (simp add: unmarshalStrings_def marshalStrings_def)
qed

end
