(* ===== verification/Runtime_Cache.thy ===== *)
theory Runtime_Cache
  imports Requests Go_JSON "HOL-Library.Word"
begin

text \<open>
  The cache of opened provider runtimes (\<open>internal/backend/provider_runtime_cache.go\<close>, with \<open>invalidate\<close>
  and \<open>cleanup\<close> of \<open>backend.go\<close>). Opening a runtime does I/O outside the lock, so concurrent requests,
  invalidations and clears interleave with it. Each function below is one region under \<open>cacheMu\<close>; a
  relation composes them into the runs of a system of requests. Epochs are \<open>uint64\<close> and wrap around.

  A runtime is a number, given in the order in which runtimes are opened; a build is a number too.
\<close>

section \<open>The cache\<close>

type_synonym runtimeId = nat
type_synonym buildId = nat

record destinationRuntimeCacheEntry =
  ce_fingerprint :: string
  ce_runtime :: runtimeId

record runtimeCache =
  rc_cache :: "string \<Rightarrow> destinationRuntimeCacheEntry option"
  rc_builds :: "string \<Rightarrow> buildId option"
  rc_ready :: "buildId \<Rightarrow> gerr option option"
  rc_cacheEpoch :: "64 word"
  rc_destinationEpochs :: "string \<Rightarrow> 64 word"

text \<open>\<open>rc_ready b\<close> is \<open>Some err\<close> once the channel of build \<open>b\<close> is closed, with the error of the build.\<close>

definition emptyRuntimeCache :: runtimeCache where
  "emptyRuntimeCache = \<lparr> rc_cache = (\<lambda>_. None), rc_builds = (\<lambda>_. None), rc_ready = (\<lambda>_. None),
     rc_cacheEpoch = 0, rc_destinationEpochs = (\<lambda>_. 0) \<rparr>"

text \<open>What a request does next: use a cached runtime, wait for a build, or open a runtime itself.\<close>

datatype lookupResult = UseCached runtimeId | AwaitBuild buildId | OpenRuntime buildId

definition cachedDestinationRuntime :: "runtimeCache \<Rightarrow> string \<Rightarrow> string \<Rightarrow> buildId \<Rightarrow> lookupResult \<times> runtimeCache" where
  "cachedDestinationRuntime c ref fingerprint fresh =
     (case rc_cache c ref of
        Some entry \<Rightarrow>
          if ce_fingerprint entry = fingerprint then (UseCached (ce_runtime entry), c)
          else (case rc_builds c ref of
              Some b \<Rightarrow> (AwaitBuild b, c)
            | None \<Rightarrow> (OpenRuntime fresh, c \<lparr> rc_builds := (rc_builds c)(ref \<mapsto> fresh) \<rparr>))
      | None \<Rightarrow>
          (case rc_builds c ref of
             Some b \<Rightarrow> (AwaitBuild b, c)
           | None \<Rightarrow> (OpenRuntime fresh, c \<lparr> rc_builds := (rc_builds c)(ref \<mapsto> fresh) \<rparr>)))"

text \<open>A request that opens a runtime: its build and the epochs at which it started.\<close>

record runtimeBuild =
  bu_ref :: string
  bu_fingerprint :: string
  bu_build :: buildId
  bu_cacheEpoch :: "64 word"
  bu_destinationEpoch :: "64 word"

definition startBuild :: "runtimeCache \<Rightarrow> string \<Rightarrow> string \<Rightarrow> buildId \<Rightarrow> runtimeBuild" where
  "startBuild c ref fingerprint b = \<lparr> bu_ref = ref, bu_fingerprint = fingerprint, bu_build = b,
     bu_cacheEpoch = rc_cacheEpoch c, bu_destinationEpoch = rc_destinationEpochs c ref \<rparr>"

text \<open>How the opener holds its runtime: shared with the cache, or its own to release.\<close>

datatype buildOutcome = BuildFailed gerr | KeepRuntime runtimeId | ReleaseRuntime runtimeId

definition publishes :: "runtimeCache \<Rightarrow> runtimeBuild \<Rightarrow> bool" where
  "publishes c bu \<longleftrightarrow> bu_cacheEpoch bu = rc_cacheEpoch c \<and>
     bu_destinationEpoch bu = rc_destinationEpochs c (bu_ref bu)"

text \<open>The end of a build: the outcome, the replaced runtime that is closed, and the cache.\<close>

definition finishDestinationRuntimeBuild ::
    "runtimeCache \<Rightarrow> runtimeBuild \<Rightarrow> gerr + runtimeId \<Rightarrow> buildOutcome \<times> runtimeId option \<times> runtimeCache" where
  "finishDestinationRuntimeBuild c bu result =
     (let ref = bu_ref bu;
          cached = (case result of Inr _ \<Rightarrow> publishes c bu | Inl _ \<Rightarrow> False);
          stale = (if cached then map_option ce_runtime (rc_cache c ref) else None);
          cache = (case result of
              Inr rt \<Rightarrow> if cached
                then (rc_cache c)(ref \<mapsto> \<lparr> ce_fingerprint = bu_fingerprint bu, ce_runtime = rt \<rparr>)
                else rc_cache c
            | Inl _ \<Rightarrow> rc_cache c);
          builds = (if rc_builds c ref = Some (bu_build bu) then (rc_builds c)(ref := None) else rc_builds c);
          ready = (rc_ready c)(bu_build bu \<mapsto> (case result of Inl e \<Rightarrow> Some e | Inr _ \<Rightarrow> None))
      in (case result of
            Inl e \<Rightarrow> BuildFailed e
          | Inr rt \<Rightarrow> if cached then KeepRuntime rt else ReleaseRuntime rt,
          stale, c \<lparr> rc_cache := cache, rc_builds := builds, rc_ready := ready \<rparr>))"

definition invalidateDestinationRuntime :: "runtimeCache \<Rightarrow> string \<Rightarrow> runtimeId option \<times> runtimeCache" where
  "invalidateDestinationRuntime c ref =
     (map_option ce_runtime (rc_cache c ref),
      c \<lparr> rc_cache := (rc_cache c)(ref := None),
          rc_destinationEpochs := (rc_destinationEpochs c)(ref := rc_destinationEpochs c ref + 1) \<rparr>)"

text \<open>The runtimes that a clear closes are the runtimes of the cache before it.\<close>

definition cachedRuntimes :: "runtimeCache \<Rightarrow> runtimeId set" where
  "cachedRuntimes c = {ce_runtime e | ref e. rc_cache c ref = Some e}"

definition clearDestinationRuntimes :: "runtimeCache \<Rightarrow> runtimeCache" where
  "clearDestinationRuntimes c = c \<lparr> rc_cache := (\<lambda>_. None), rc_builds := (\<lambda>_. None),
     rc_destinationEpochs := (\<lambda>_. 0), rc_cacheEpoch := rc_cacheEpoch c + 1 \<rparr>"

section \<open>Invalidation by storage key\<close>

definition destinationRefUnder :: "string \<Rightarrow> string \<Rightarrow> string option" where
  "destinationRefUnder key pre =
     (case cutAt slash (drop (length pre) key) of
        None \<Rightarrow> None
      | Some (t, n) \<Rightarrow> if t = [] \<or> n = [] \<or> containsStr n ''/'' then None else Some (destinationRef t n))"

definition destinationRefFromInvalidationKey :: "string \<Rightarrow> string option" where
  "destinationRefFromInvalidationKey key =
     (if prefix destinationStoragePrefix key then destinationRefUnder key destinationStoragePrefix
      else if prefix destinationSecretsPrefix key then destinationRefUnder key destinationSecretsPrefix
      else None)"

text \<open>\<open>invalidate\<close> of \<open>backend.go\<close>: the runtimes it closes and the cache.\<close>

definition invalidate :: "runtimeCache \<Rightarrow> string \<Rightarrow> runtimeId set \<times> runtimeCache" where
  "invalidate c key =
     (case destinationRefFromInvalidationKey key of
        Some ref \<Rightarrow>
          (case invalidateDestinationRuntime c ref of (closed, c') \<Rightarrow> (set_option closed, c'))
      | None \<Rightarrow>
          if key = [] \<or> prefix destinationStoragePrefix key \<or> prefix destinationSecretsPrefix key
          then (cachedRuntimes c, clearDestinationRuntimes c)
          else ({}, c))"

section \<open>The fingerprint of a configuration\<close>

definition marshalStringMap :: "(string \<times> string) list \<Rightarrow> string" where
  "marshalStringMap m =
     ''{'' @ joinStrings '','' (map (\<lambda>(k, v). marshalString k @ '':'' @ marshalString v) (sort_key fst m)) @ ''}''"

definition destinationConfigFingerprint :: "(string \<Rightarrow> string) \<Rightarrow> providerDestinationConfig \<Rightarrow> string" where
  "destinationConfigFingerprint sha cfg = hexEncode (sha
     (''{'' @ marshalString ''name'' @ '':'' @ marshalString (dc_Name cfg) @ '','' @
      marshalString ''config'' @ '':'' @ marshalStringMap (dc_Config cfg) @ ''}''))"

end
