(* ===== verification/Runtime_Runs.thy ===== *)
theory Runtime_Runs
  imports Runtime_Cache
begin

text \<open>
  The runs of the runtime cache: requests that look a runtime up, open one, wait for the build of another
  request or give up, and the invalidations and clears that interleave with them. A system keeps beside
  the cache what its requests are doing, and, as history variables, the invalidations so far (newest
  first) and for every opened runtime the destination, the fingerprint and the history at the start of
  its build.
\<close>

datatype cacheEvent = Invalidated string | Cleared

record runtimeSystem =
  sy_cache :: runtimeCache
  sy_open :: "(runtimeBuild \<times> cacheEvent list) list"
  sy_waiting :: "buildId list"
  sy_lent :: "runtimeId set"
  sy_closed :: "runtimeId list"
  sy_nextBuild :: buildId
  sy_nextRuntime :: runtimeId
  sy_history :: "cacheEvent list"
  sy_origin :: "runtimeId \<Rightarrow> (string \<times> string \<times> cacheEvent list) option"

definition initialSystem :: runtimeSystem where
  "initialSystem = \<lparr> sy_cache = emptyRuntimeCache, sy_open = [], sy_waiting = [], sy_lent = {}, sy_closed = [],
     sy_nextBuild = 0, sy_nextRuntime = 0, sy_history = [], sy_origin = (\<lambda>_. None) \<rparr>"

text \<open>The end of a build \<open>(bu, h0)\<close> with an error or with the next runtime.\<close>

definition finishBuild :: "runtimeSystem \<Rightarrow> runtimeBuild \<Rightarrow> cacheEvent list \<Rightarrow> gerr option \<Rightarrow> runtimeSystem" where
  "finishBuild s bu h0 err =
     (let rt = sy_nextRuntime s in
      case finishDestinationRuntimeBuild (sy_cache s) bu (case err of Some e \<Rightarrow> Inl e | None \<Rightarrow> Inr rt) of
        (outcome, stale, c) \<Rightarrow>
          s \<lparr> sy_cache := c, sy_open := remove1 (bu, h0) (sy_open s),
              sy_lent := (case outcome of ReleaseRuntime r \<Rightarrow> insert r (sy_lent s) | _ \<Rightarrow> sy_lent s),
              sy_closed := (case stale of Some r \<Rightarrow> r # sy_closed s | None \<Rightarrow> sy_closed s),
              sy_nextRuntime := (case err of Some _ \<Rightarrow> rt | None \<Rightarrow> rt + 1),
              sy_origin := (case err of Some _ \<Rightarrow> sy_origin s
                | None \<Rightarrow> (sy_origin s)(rt \<mapsto> (bu_ref bu, bu_fingerprint bu, h0))) \<rparr>)"

inductive runtimeStep :: "runtimeSystem \<Rightarrow> runtimeSystem \<Rightarrow> bool" where
  use: "cachedDestinationRuntime (sy_cache s) ref fp (sy_nextBuild s) = (UseCached rt, c) \<Longrightarrow>
    runtimeStep s (s \<lparr> sy_cache := c \<rparr>)"
| await: "cachedDestinationRuntime (sy_cache s) ref fp (sy_nextBuild s) = (AwaitBuild b, c) \<Longrightarrow>
    runtimeStep s (s \<lparr> sy_cache := c, sy_waiting := b # sy_waiting s \<rparr>)"
| start: "cachedDestinationRuntime (sy_cache s) ref fp (sy_nextBuild s) = (OpenRuntime b, c) \<Longrightarrow>
    runtimeStep s (s \<lparr> sy_cache := c, sy_open := (startBuild (sy_cache s) ref fp b, sy_history s) # sy_open s,
                       sy_nextBuild := sy_nextBuild s + 1 \<rparr>)"
| finish: "(bu, h0) \<in> set (sy_open s) \<Longrightarrow> runtimeStep s (finishBuild s bu h0 err)"
| wake: "b \<in> set (sy_waiting s) \<Longrightarrow> rc_ready (sy_cache s) b \<noteq> None \<Longrightarrow>
    runtimeStep s (s \<lparr> sy_waiting := remove1 b (sy_waiting s) \<rparr>)"
| giveUp: "b \<in> set (sy_waiting s) \<Longrightarrow> runtimeStep s (s \<lparr> sy_waiting := remove1 b (sy_waiting s) \<rparr>)"
| openUncached: "runtimeStep s (s \<lparr> sy_lent := insert (sy_nextRuntime s) (sy_lent s),
    sy_nextRuntime := sy_nextRuntime s + 1 \<rparr>)"
| release: "rt \<in> sy_lent s \<Longrightarrow>
    runtimeStep s (s \<lparr> sy_lent := sy_lent s - {rt}, sy_closed := rt # sy_closed s \<rparr>)"
| invalidated: "invalidateDestinationRuntime (sy_cache s) ref = (closed, c) \<Longrightarrow>
    runtimeStep s (s \<lparr> sy_cache := c, sy_history := Invalidated ref # sy_history s,
      sy_closed := (case closed of Some r \<Rightarrow> r # sy_closed s | None \<Rightarrow> sy_closed s) \<rparr>)"
| cleared: "set closed = cachedRuntimes (sy_cache s) \<Longrightarrow> distinct closed \<Longrightarrow>
    runtimeStep s (s \<lparr> sy_cache := clearDestinationRuntimes (sy_cache s),
      sy_history := Cleared # sy_history s, sy_closed := closed @ sy_closed s \<rparr>)"

inductive runtimeReach :: "runtimeSystem \<Rightarrow> bool" where
  initial: "runtimeReach initialSystem"
| step: "runtimeReach s \<Longrightarrow> runtimeStep s t \<Longrightarrow> runtimeReach t"

inductive_cases runtimeStep_elim: "runtimeStep s t"

section \<open>Epochs count the invalidations\<close>

fun clears :: "cacheEvent list \<Rightarrow> nat" where
  "clears [] = 0"
| "clears (Cleared # h) = clears h + 1"
| "clears (Invalidated _ # h) = clears h"

fun invalidations :: "string \<Rightarrow> cacheEvent list \<Rightarrow> nat" where
  "invalidations ref [] = 0"
| "invalidations ref (Cleared # h) = 0"
| "invalidations ref (Invalidated r # h) = (if r = ref then 1 else 0) + invalidations ref h"

text \<open>Nothing since history \<open>h0\<close> touches the destination.\<close>

definition unaffected :: "string \<Rightarrow> cacheEvent list \<Rightarrow> cacheEvent list \<Rightarrow> bool" where
  "unaffected ref h0 h \<longleftrightarrow> (\<exists>since. h = since @ h0 \<and> Cleared \<notin> set since \<and> Invalidated ref \<notin> set since)"

lemma clears_append [simp]: "clears (a @ b) = clears a + clears b"
  by (induction a rule: clears.induct) auto

lemma clears_zero: "clears a = 0 \<longleftrightarrow> Cleared \<notin> set a"
  by (induction a rule: clears.induct) auto

lemma invalidations_append:
  "Cleared \<notin> set a \<Longrightarrow> invalidations ref (a @ b) = invalidations ref a + invalidations ref b"
  by (induction ref a rule: invalidations.induct) auto

lemma invalidations_zero: "Cleared \<notin> set a \<Longrightarrow> invalidations ref a = 0 \<longleftrightarrow> Invalidated ref \<notin> set a"
  by (induction ref a rule: invalidations.induct) auto

lemma counts_bound: "clears h \<le> length h" "invalidations ref h \<le> length h"
  by (induction h rule: clears.induct) (auto split: if_splits)

text \<open>Below the capacity of the counters equal epochs mean that the destination is untouched.\<close>

lemma epochs_unaffected:
  assumes "suffix h0 h" and "length h < 2 ^ 64"
    and "(of_nat (clears h0) :: 64 word) = of_nat (clears h)"
    and "(of_nat (invalidations ref h0) :: 64 word) = of_nat (invalidations ref h)"
  shows "unaffected ref h0 h"
proof -
  obtain e where e: "h = e @ h0"
    using assms(1) by (auto simp: suffix_def)
  have small: "n < 2 ^ 64 \<Longrightarrow> m < 2 ^ 64 \<Longrightarrow> (of_nat n :: 64 word) = of_nat m \<Longrightarrow> n = m" for n m
    by (simp add: word_of_nat_eq_iff take_bit_nat_eq_self)
  have "length h0 < 2 ^ 64"
    using assms(2) e by simp
  then have "clears h0 < 2 ^ 64" "invalidations ref h0 < 2 ^ 64"
    using counts_bound(1)[of h0] counts_bound(2)[of ref h0] by linarith+
  moreover have "clears h < 2 ^ 64" "invalidations ref h < 2 ^ 64"
    using counts_bound(1)[of h] counts_bound(2)[of ref h] assms(2) by linarith+
  ultimately have "clears h0 = clears h" "invalidations ref h0 = invalidations ref h"
    using small assms(3,4) by blast+
  then have "Cleared \<notin> set e" "Invalidated ref \<notin> set e"
    using e by (auto simp: clears_zero [symmetric] invalidations_append invalidations_zero [symmetric])
  then show ?thesis
    using e by (auto simp: unaffected_def)
qed

lemma unaffected_refl: "unaffected ref h h"
  by (simp add: unaffected_def)

lemma unaffected_other: "unaffected ref h0 h \<Longrightarrow> ev \<noteq> Cleared \<Longrightarrow> ev \<noteq> Invalidated ref \<Longrightarrow> unaffected ref h0 (ev # h)"
  unfolding unaffected_def by (metis append_Cons set_ConsD)

section \<open>Invariants\<close>

text \<open>Epochs: the counters of the cache and those that open builds remember.\<close>

definition epochs_inv :: "runtimeSystem \<Rightarrow> bool" where
  "epochs_inv s \<longleftrightarrow>
     rc_cacheEpoch (sy_cache s) = of_nat (clears (sy_history s)) \<and>
     (\<forall>ref. rc_destinationEpochs (sy_cache s) ref = of_nat (invalidations ref (sy_history s))) \<and>
     (\<forall>(bu, h0) \<in> set (sy_open s). suffix h0 (sy_history s) \<and> bu_cacheEpoch bu = of_nat (clears h0) \<and>
        bu_destinationEpoch bu = of_nat (invalidations (bu_ref bu) h0))"

text \<open>Freshness: a cached runtime was opened for that destination and fingerprint, and nothing has
  invalidated the destination since the opening began.\<close>

definition fresh_inv :: "runtimeSystem \<Rightarrow> bool" where
  "fresh_inv s \<longleftrightarrow> (\<forall>ref e. rc_cache (sy_cache s) ref = Some e \<longrightarrow>
     (\<exists>h0. sy_origin s (ce_runtime e) = Some (ref, ce_fingerprint e, h0) \<and> unaffected ref h0 (sy_history s)))"

text \<open>Accounting: every opened runtime is cached, lent or closed, and only one of these, once.\<close>

definition oneRef :: "runtimeCache \<Rightarrow> bool" where
  "oneRef c \<longleftrightarrow> (\<forall>ref ref' e e'. rc_cache c ref = Some e \<longrightarrow> rc_cache c ref' = Some e' \<longrightarrow>
     ce_runtime e = ce_runtime e' \<longrightarrow> ref = ref')"

definition account_inv :: "runtimeSystem \<Rightarrow> bool" where
  "account_inv s \<longleftrightarrow>
     cachedRuntimes (sy_cache s) \<union> sy_lent s \<union> set (sy_closed s) = {..<sy_nextRuntime s} \<and>
     cachedRuntimes (sy_cache s) \<inter> sy_lent s = {} \<and>
     (cachedRuntimes (sy_cache s) \<union> sy_lent s) \<inter> set (sy_closed s) = {} \<and> distinct (sy_closed s) \<and>
     oneRef (sy_cache s)"

text \<open>Builds: a registered build is open, an open build is not ready, and unless the cache was cleared
  since it started it is the registered build of its destination.\<close>

definition build_inv :: "runtimeSystem \<Rightarrow> bool" where
  "build_inv s \<longleftrightarrow>
     inj_on (\<lambda>(bu, _). bu_build bu) (set (sy_open s)) \<and> distinct (sy_open s) \<and>
     (\<forall>bu h0. (bu, h0) \<in> set (sy_open s) \<longrightarrow> bu_build bu < sy_nextBuild s \<and>
        rc_ready (sy_cache s) (bu_build bu) = None \<and> suffix h0 (sy_history s) \<and>
        (clears h0 = clears (sy_history s) \<longrightarrow> rc_builds (sy_cache s) (bu_ref bu) = Some (bu_build bu))) \<and>
     (\<forall>b \<ge> sy_nextBuild s. rc_ready (sy_cache s) b = None) \<and>
     (\<forall>ref b. rc_builds (sy_cache s) ref = Some b \<longrightarrow>
        (\<exists>bu h0. (bu, h0) \<in> set (sy_open s) \<and> bu_build bu = b \<and> bu_ref bu = ref)) \<and>
     (\<forall>b \<in> set (sy_waiting s). rc_ready (sy_cache s) b \<noteq> None \<or>
        (\<exists>bu h0. (bu, h0) \<in> set (sy_open s) \<and> bu_build bu = b))"

lemma lookup_cases:
  assumes "cachedDestinationRuntime c ref fp fresh = (r, c')"
  shows "(\<exists>rt. r = UseCached rt \<and> c' = c \<and> (\<exists>e. rc_cache c ref = Some e \<and> ce_runtime e = rt \<and> ce_fingerprint e = fp)) \<or>
    (\<exists>b. r = AwaitBuild b \<and> c' = c \<and> rc_builds c ref = Some b) \<or>
    (r = OpenRuntime fresh \<and> rc_builds c ref = None \<and> c' = c \<lparr> rc_builds := (rc_builds c)(ref \<mapsto> fresh) \<rparr>)"
  using assms by (auto simp: cachedDestinationRuntime_def split: option.splits if_splits)

lemma finishBuild_error:
  "finishBuild s bu h0 (Some e) = s \<lparr> sy_open := remove1 (bu, h0) (sy_open s),
     sy_cache := (sy_cache s) \<lparr>
       rc_builds := (if rc_builds (sy_cache s) (bu_ref bu) = Some (bu_build bu)
         then (rc_builds (sy_cache s))(bu_ref bu := None) else rc_builds (sy_cache s)),
       rc_ready := (rc_ready (sy_cache s))(bu_build bu \<mapsto> Some e) \<rparr> \<rparr>"
  by (simp add: finishBuild_def finishDestinationRuntimeBuild_def Let_def)

lemma finishBuild_value:
  "finishBuild s bu h0 None = s \<lparr> sy_open := remove1 (bu, h0) (sy_open s),
     sy_cache := (sy_cache s) \<lparr>
       rc_cache := (if publishes (sy_cache s) bu
         then (rc_cache (sy_cache s))(bu_ref bu \<mapsto>
           \<lparr> ce_fingerprint = bu_fingerprint bu, ce_runtime = sy_nextRuntime s \<rparr>) else rc_cache (sy_cache s)),
       rc_builds := (if rc_builds (sy_cache s) (bu_ref bu) = Some (bu_build bu)
         then (rc_builds (sy_cache s))(bu_ref bu := None) else rc_builds (sy_cache s)),
       rc_ready := (rc_ready (sy_cache s))(bu_build bu \<mapsto> None) \<rparr>,
     sy_lent := (if publishes (sy_cache s) bu then sy_lent s else insert (sy_nextRuntime s) (sy_lent s)),
     sy_closed := (case (if publishes (sy_cache s) bu
         then map_option ce_runtime (rc_cache (sy_cache s) (bu_ref bu)) else None) of
       Some r \<Rightarrow> r # sy_closed s | None \<Rightarrow> sy_closed s),
     sy_nextRuntime := sy_nextRuntime s + 1,
     sy_origin := (sy_origin s)(sy_nextRuntime s \<mapsto> (bu_ref bu, bu_fingerprint bu, h0)) \<rparr>"
  by (simp add: finishBuild_def finishDestinationRuntimeBuild_def Let_def)

lemmas finishBuild_simps = finishBuild_error finishBuild_value

text \<open>What a step does to the history and the open builds.\<close>

lemma epochs_step:
  assumes "runtimeStep s t" and "epochs_inv s"
  shows "epochs_inv t"
  using assms(1)
proof cases
  case (use ref fp rt c)
  then show ?thesis using assms(2) lookup_cases [OF use(2)] by (auto simp: epochs_inv_def)
next
  case (await ref fp b c)
  then show ?thesis using assms(2) lookup_cases [OF await(2)] by (auto simp: epochs_inv_def)
next
  case (start ref fp b c)
  then show ?thesis using assms(2) lookup_cases [OF start(2)] by (auto simp: epochs_inv_def startBuild_def)
next
  case (finish bu h0 err)
  then show ?thesis using assms(2)
    by (cases err) (auto simp: finishBuild_simps epochs_inv_def dest: set_mp [OF set_remove1_subset])
next
  case (invalidated ref closed c)
  then show ?thesis using assms(2)
    by (auto simp: epochs_inv_def invalidateDestinationRuntime_def suffix_Cons)
next
  case (cleared closed)
  then show ?thesis using assms(2) by (auto simp: epochs_inv_def clearDestinationRuntimes_def suffix_Cons)
qed (use assms(2) in \<open>auto simp: epochs_inv_def\<close>)

lemma cachedRuntimes_iff: "rt \<in> cachedRuntimes c \<longleftrightarrow> (\<exists>ref e. rc_cache c ref = Some e \<and> ce_runtime e = rt)"
  by (auto simp: cachedRuntimes_def)

lemma cachedRuntimes_cong: "rc_cache c = rc_cache d \<Longrightarrow> cachedRuntimes c = cachedRuntimes d"
  by (simp add: cachedRuntimes_def)

lemma oneRef_cong: "rc_cache c = rc_cache d \<Longrightarrow> oneRef c = oneRef d"
  by (simp add: oneRef_def)

lemma oneRefD: "oneRef c \<Longrightarrow> rc_cache c ref = Some e \<Longrightarrow> rc_cache c ref' = Some e' \<Longrightarrow> ce_runtime e = ce_runtime e' \<Longrightarrow>
  ref = ref'"
  by (auto simp: oneRef_def)

lemma account_same:
  assumes "account_inv s" and "rc_cache (sy_cache t) = rc_cache (sy_cache s)" and "sy_lent t = sy_lent s"
    and "sy_closed t = sy_closed s" and "sy_nextRuntime t = sy_nextRuntime s"
  shows "account_inv t"
  using assms oneRef_cong [OF assms(2)] by (simp add: account_inv_def cachedRuntimes_def)

text \<open>A destination leaves the cache, or a new runtime takes its place.\<close>

lemma cachedRuntimes_remove:
  assumes "oneRef c" and "rc_cache d = (rc_cache c)(r := None)"
  shows "cachedRuntimes d = cachedRuntimes c - set_option (map_option ce_runtime (rc_cache c r))"
proof -
  have d: "rc_cache d ref = Some e \<longleftrightarrow> ref \<noteq> r \<and> rc_cache c ref = Some e" for ref e
    using assms(2) by simp
  have r: "rt \<in> set_option (map_option ce_runtime (rc_cache c r)) \<longleftrightarrow> (\<exists>e. rc_cache c r = Some e \<and> ce_runtime e = rt)" for rt
    by auto
  have gone: "ref \<noteq> r \<longleftrightarrow> ce_runtime e \<notin> set_option (map_option ce_runtime (rc_cache c r))"
    if "rc_cache c ref = Some e" for ref e
    unfolding r using that oneRefD [OF assms(1) that] by metis
  have kept: "ce_runtime e \<in> cachedRuntimes b" if "rc_cache b ref = Some e" for b ref e
    using that cachedRuntimes_iff by blast
  show ?thesis
  proof (intro set_eqI iffI)
    fix rt assume "rt \<in> cachedRuntimes d"
    then obtain ref e where e: "ref \<noteq> r" "rc_cache c ref = Some e" "rt = ce_runtime e"
      unfolding cachedRuntimes_iff d by blast
    then show "rt \<in> cachedRuntimes c - set_option (map_option ce_runtime (rc_cache c r))"
      using gone kept by simp
  next
    fix rt assume "rt \<in> cachedRuntimes c - set_option (map_option ce_runtime (rc_cache c r))"
    then obtain ref e where e: "rc_cache c ref = Some e" "rt = ce_runtime e" and "rt \<notin> set_option (map_option ce_runtime (rc_cache c r))"
      unfolding Diff_iff cachedRuntimes_iff by blast
    then have "rc_cache d ref = Some e" using gone [OF e(1)] d by simp
    then show "rt \<in> cachedRuntimes d" using kept e(2) by simp
  qed
qed

lemma cachedRuntimes_put:
  assumes "rc_cache c r = None" and "rc_cache d = (rc_cache c)(r \<mapsto> e)"
  shows "cachedRuntimes d = insert (ce_runtime e) (cachedRuntimes c)"
proof -
  have d: "rc_cache d ref = Some a \<longleftrightarrow> ref = r \<and> a = e \<or> ref \<noteq> r \<and> rc_cache c ref = Some a" for ref a
    using assms(2) by auto
  show ?thesis
    unfolding set_eq_iff insert_iff cachedRuntimes_iff d using assms(1) by (metis option.distinct(1))
qed

text \<open>A runtime moves from the cache to the closed ones.\<close>

lemma close_one:
  assumes "A \<union> L \<union> X = N" "A \<inter> L = {}" "(A \<union> L) \<inter> X = {}" "x \<in> A"
  shows "(A - {x}) \<union> L \<union> insert x X = N" "(A - {x}) \<inter> L = {}" "((A - {x}) \<union> L) \<inter> insert x X = {}" "x \<notin> X"
  using assms by blast+

lemma oneRef_remove: "oneRef c \<Longrightarrow> rc_cache d = (rc_cache c)(r := None) \<Longrightarrow> oneRef d"
  unfolding oneRef_def by (auto split: if_splits)

lemma oneRef_put:
  assumes "oneRef c" and "rc_cache d = (rc_cache c)(r \<mapsto> e)" and "ce_runtime e \<notin> cachedRuntimes c"
  shows "oneRef d"
  unfolding oneRef_def
proof (intro allI impI)
  fix ref ref' a b
  assume *: "rc_cache d ref = Some a" "rc_cache d ref' = Some b" "ce_runtime a = ce_runtime b"
  have "rc_cache c x = Some y \<Longrightarrow> ce_runtime y \<noteq> ce_runtime e" for x y
    using assms(3) by (auto simp: cachedRuntimes_iff)
  then show "ref = ref'"
    using * assms(2) oneRefD [OF assms(1)] by (auto split: if_splits) metis+
qed

lemma account_remove:
  assumes inv: "account_inv s" and "rc_cache (sy_cache t) = (rc_cache (sy_cache s))(r := None)"
    and "sy_lent t = sy_lent s" and "sy_nextRuntime t = sy_nextRuntime s"
    and "sy_closed t = (case map_option ce_runtime (rc_cache (sy_cache s) r) of
      Some rt \<Rightarrow> rt # sy_closed s | None \<Rightarrow> sy_closed s)"
  shows "account_inv t"
proof -
  have one: "oneRef (sy_cache s)"
    using inv by (simp add: account_inv_def)
  note * = cachedRuntimes_remove [OF one assms(2)] oneRef_remove [OF one assms(2)]
  show ?thesis
  proof (cases "rc_cache (sy_cache s) r")
    case None
    then show ?thesis
      using assms * by (simp add: account_inv_def)
  next
    case (Some e)
    then have "ce_runtime e \<in> cachedRuntimes (sy_cache s)"
      by (auto simp: cachedRuntimes_iff)
    then show ?thesis
      using inv * assms(3-5) Some close_one [of "cachedRuntimes (sy_cache s)" "sy_lent s" "set (sy_closed s)"]
      by (simp add: account_inv_def)
  qed
qed

lemma next_unused:
  assumes "account_inv s"
  shows "sy_nextRuntime s \<notin> cachedRuntimes (sy_cache s)" and "sy_nextRuntime s \<notin> sy_lent s"
    and "sy_nextRuntime s \<notin> set (sy_closed s)"
proof -
  have "sy_nextRuntime s \<notin> cachedRuntimes (sy_cache s) \<union> sy_lent s \<union> set (sy_closed s)"
    using assms by (simp add: account_inv_def)
  then show "sy_nextRuntime s \<notin> cachedRuntimes (sy_cache s)" "sy_nextRuntime s \<notin> sy_lent s"
    "sy_nextRuntime s \<notin> set (sy_closed s)"
    by auto
qed

lemma account_put:
  assumes inv: "account_inv s" and "rc_cache (sy_cache s) r = None"
    and "rc_cache (sy_cache t) = (rc_cache (sy_cache s))(r \<mapsto> e)" and "ce_runtime e = sy_nextRuntime s"
    and "sy_lent t = sy_lent s" and "sy_nextRuntime t = sy_nextRuntime s + 1" and "sy_closed t = sy_closed s"
  shows "account_inv t"
proof -
  have "oneRef (sy_cache t)"
    using inv assms(3,4) next_unused [OF inv] by (auto simp: account_inv_def intro: oneRef_put)
  then show ?thesis
    using inv next_unused [OF inv] assms(4-7) cachedRuntimes_put [OF assms(2,3)]
    by (simp add: account_inv_def lessThan_Suc)
qed

lemma account_lend:
  assumes inv: "account_inv s" and "rc_cache (sy_cache t) = rc_cache (sy_cache s)"
    and "sy_lent t = insert (sy_nextRuntime s) (sy_lent s)" and "sy_nextRuntime t = sy_nextRuntime s + 1"
    and "sy_closed t = sy_closed s"
  shows "account_inv t"
  using inv next_unused [OF inv] assms(3-5) cachedRuntimes_cong [OF assms(2)] oneRef_cong [OF assms(2)]
  by (simp add: account_inv_def lessThan_Suc)

lemma account_step:
  assumes "runtimeStep s t" and inv: "account_inv s"
  shows "account_inv t"
  using assms(1)
proof cases
  case (use ref fp rt c)
  then show ?thesis using inv lookup_cases [OF use(2)] by (auto intro: account_same)
next
  case (await ref fp b c)
  then show ?thesis using inv lookup_cases [OF await(2)] by (auto intro: account_same)
next
  case (start ref fp b c)
  then show ?thesis using inv lookup_cases [OF start(2)] by (auto intro!: account_same [OF inv])
next
  case (finish bu h0 err)
  show ?thesis
  proof (cases err)
    case (Some e)
    then show ?thesis using inv finish by (auto simp: finishBuild_simps intro: account_same)
  next
    case None
    show ?thesis
    proof (cases "publishes (sy_cache s) bu")
      case True
      let ?c = "(sy_cache s) \<lparr> rc_cache := (rc_cache (sy_cache s))(bu_ref bu := None) \<rparr>"
      let ?m = "s \<lparr> sy_cache := ?c, sy_closed := sy_closed t \<rparr>"
      have "account_inv ?m"
        by (rule account_remove [OF inv]) (simp_all add: finish None finishBuild_simps True)
      then show ?thesis
        by (rule account_put [where r = "bu_ref bu" and
              e = "\<lparr> ce_fingerprint = bu_fingerprint bu, ce_runtime = sy_nextRuntime s \<rparr>"])
          (simp_all add: finish None finishBuild_simps True split: option.splits)
    next
      case False
      show ?thesis
        by (rule account_lend [OF inv]) (simp_all add: finish None finishBuild_simps False)
    qed
  qed
next
  case openUncached
  show ?thesis by (rule account_lend [OF inv]) (simp_all add: openUncached)
next
  case (release rt)
  then show ?thesis using inv by (auto simp: account_inv_def)
next
  case (invalidated ref closed c)
  then show ?thesis
    by (auto simp: invalidateDestinationRuntime_def intro!: account_remove [OF inv, where r = ref])
next
  case (cleared closed)
  have "cachedRuntimes (sy_cache t) = {}" "oneRef (sy_cache t)"
    by (simp_all add: cleared(1) clearDestinationRuntimes_def cachedRuntimes_def oneRef_def)
  then show ?thesis
    using inv cleared(2,3) unfolding account_inv_def by (simp add: cleared(1)) blast
qed (use inv in \<open>auto simp: account_inv_def\<close>)

lemma fresh_same:
  assumes "fresh_inv s" and "rc_cache (sy_cache t) = rc_cache (sy_cache s)" and "sy_origin t = sy_origin s"
    and "sy_history t = sy_history s"
  shows "fresh_inv t"
  using assms by (simp add: fresh_inv_def)

lemma fresh_finish:
  assumes "fresh_inv s" and "account_inv s" and "epochs_inv s" and "length (sy_history s) < 2 ^ 64"
    and "(bu, h0) \<in> set (sy_open s)"
  shows "fresh_inv (finishBuild s bu h0 None)"
  unfolding fresh_inv_def
proof (intro allI impI)
  let ?t = "finishBuild s bu h0 None"
  fix ref e
  assume e: "rc_cache (sy_cache ?t) ref = Some e"
  show "\<exists>h. sy_origin ?t (ce_runtime e) = Some (ref, ce_fingerprint e, h) \<and> unaffected ref h (sy_history ?t)"
  proof (cases "publishes (sy_cache s) bu \<and> ref = bu_ref bu")
    case True
    have open_bu: "suffix h0 (sy_history s) \<and> bu_cacheEpoch bu = of_nat (clears h0) \<and>
        bu_destinationEpoch bu = of_nat (invalidations (bu_ref bu) h0)"
      using assms(3,5) by (auto simp: epochs_inv_def)
    have now: "rc_cacheEpoch (sy_cache s) = of_nat (clears (sy_history s))"
      "rc_destinationEpochs (sy_cache s) ref = of_nat (invalidations ref (sy_history s))"
      using assms(3) by (simp_all add: epochs_inv_def)
    have "unaffected ref h0 (sy_history s)"
      by (rule epochs_unaffected) (use open_bu now True assms(4) in \<open>auto simp: publishes_def\<close>)
    then show ?thesis
      using e True by (auto simp: finishBuild_simps)
  next
    case False
    then have old: "rc_cache (sy_cache s) ref = Some e"
      using e by (auto simp: finishBuild_simps split: if_splits)
    then have "ce_runtime e \<noteq> sy_nextRuntime s"
      using next_unused(1) [OF assms(2)] by (auto simp: cachedRuntimes_iff)
    then show ?thesis
      using old assms(1) by (auto simp: finishBuild_simps fresh_inv_def)
  qed
qed

lemma fresh_step:
  assumes "runtimeStep s t" and "fresh_inv s" and "account_inv s" and "epochs_inv s"
    and "length (sy_history t) < 2 ^ 64"
  shows "fresh_inv t"
  using assms(1)
proof cases
  case (use ref fp rt c)
  then show ?thesis using lookup_cases [OF use(2)] by (auto intro: fresh_same [OF assms(2)])
next
  case (await ref fp b c)
  then show ?thesis using lookup_cases [OF await(2)] by (auto intro: fresh_same [OF assms(2)])
next
  case (start ref fp b c)
  then show ?thesis using lookup_cases [OF start(2)] by (auto intro!: fresh_same [OF assms(2)])
next
  case (finish bu h0 err)
  show ?thesis
  proof (cases err)
    case None
    have "sy_history t = sy_history s"
      by (simp add: finish None finishBuild_simps)
    then show ?thesis
      using fresh_finish [OF assms(2,3,4) _ finish(2)] assms(5) by (simp add: finish None)
  qed (auto simp: finish finishBuild_simps intro!: fresh_same [OF assms(2)])
next
  case (invalidated ref closed c)
  show ?thesis
    unfolding fresh_inv_def
  proof (intro allI impI)
    fix r e
    assume "rc_cache (sy_cache t) r = Some e"
    then have r: "r \<noteq> ref" "rc_cache (sy_cache s) r = Some e"
      using invalidated by (auto simp: invalidateDestinationRuntime_def split: if_splits)
    then obtain h0 where "sy_origin s (ce_runtime e) = Some (r, ce_fingerprint e, h0)"
      "unaffected r h0 (sy_history s)"
      using assms(2) by (auto simp: fresh_inv_def)
    then show "\<exists>h0. sy_origin t (ce_runtime e) = Some (r, ce_fingerprint e, h0) \<and> unaffected r h0 (sy_history t)"
      using invalidated(1) r(1) by (auto intro: unaffected_other)
  qed
next
  case (cleared closed)
  then show ?thesis by (simp add: fresh_inv_def clearDestinationRuntimes_def)
qed (auto intro!: fresh_same [OF assms(2)])

text \<open>Builds. Every open build is one of the builds issued so far and distinct from the others.\<close>

lemma build_invD:
  assumes "build_inv s"
  shows "inj_on (\<lambda>(bu, _). bu_build bu) (set (sy_open s))" and "distinct (sy_open s)"
    and "(bu, h0) \<in> set (sy_open s) \<Longrightarrow> bu_build bu < sy_nextBuild s \<and>
      rc_ready (sy_cache s) (bu_build bu) = None \<and> suffix h0 (sy_history s) \<and>
      (clears h0 = clears (sy_history s) \<longrightarrow> rc_builds (sy_cache s) (bu_ref bu) = Some (bu_build bu))"
    and "sy_nextBuild s \<le> b \<Longrightarrow> rc_ready (sy_cache s) b = None"
    and "rc_builds (sy_cache s) ref = Some b \<Longrightarrow> \<exists>bu h0. (bu, h0) \<in> set (sy_open s) \<and> bu_build bu = b \<and> bu_ref bu = ref"
    and "b \<in> set (sy_waiting s) \<Longrightarrow>
      rc_ready (sy_cache s) b \<noteq> None \<or> (\<exists>bu h0. (bu, h0) \<in> set (sy_open s) \<and> bu_build bu = b)"
  using assms unfolding build_inv_def by blast+

lemma build_unique:
  assumes "build_inv s" and "(bu, h0) \<in> set (sy_open s)" and "(bu', h1) \<in> set (sy_open s)"
    and "bu_build bu = bu_build bu'"
  shows "(bu, h0) = (bu', h1)"
  by (rule inj_onD [OF build_invD(1) [OF assms(1)]]) (use assms in auto)

lemma build_finish:
  assumes inv: "build_inv s" and bu: "(bu, h0) \<in> set (sy_open s)"
  shows "build_inv (finishBuild s bu h0 err)"
proof -
  let ?t = "finishBuild s bu h0 err"
  have t: "sy_open ?t = remove1 (bu, h0) (sy_open s)" "sy_waiting ?t = sy_waiting s"
    "sy_nextBuild ?t = sy_nextBuild s" "sy_history ?t = sy_history s"
    "rc_ready (sy_cache ?t) = (rc_ready (sy_cache s))(bu_build bu \<mapsto> err)"
    "rc_builds (sy_cache ?t) = (if rc_builds (sy_cache s) (bu_ref bu) = Some (bu_build bu)
       then (rc_builds (sy_cache s))(bu_ref bu := None) else rc_builds (sy_cache s))"
    by (cases err; simp add: finishBuild_simps)+
  have rest: "set (sy_open ?t) = set (sy_open s) - {(bu, h0)}"
    using build_invD(2) [OF inv] by (simp add: t set_remove1_eq)
  have other: "(b, h) \<in> set (sy_open ?t) \<Longrightarrow> bu_build b \<noteq> bu_build bu" for b h
    using rest build_unique [OF inv _ bu] by blast
  show ?thesis
    unfolding build_inv_def
  proof (intro conjI allI impI ballI)
    show "inj_on (\<lambda>(bu, _). bu_build bu) (set (sy_open ?t))"
      unfolding rest by (rule inj_on_subset [OF build_invD(1) [OF inv]]) simp
    show "distinct (sy_open ?t)"
      using build_invD(2) [OF inv] by (simp add: t)
  next
    fix b h
    assume b: "(b, h) \<in> set (sy_open ?t)"
    then have "(b, h) \<in> set (sy_open s)"
      unfolding rest by simp
    note old = build_invD(3) [OF inv this]
    show "bu_build b < sy_nextBuild ?t" "suffix h (sy_history ?t)" "rc_ready (sy_cache ?t) (bu_build b) = None"
      using old other [OF b] by (simp_all add: t(3-5))
    assume "clears h = clears (sy_history ?t)"
    then have "rc_builds (sy_cache s) (bu_ref b) = Some (bu_build b)"
      using old by (simp add: t(4))
    then show "rc_builds (sy_cache ?t) (bu_ref b) = Some (bu_build b)"
      using other [OF b] by (cases "bu_ref b = bu_ref bu") (simp_all add: t(6))
  next
    fix b
    assume "sy_nextBuild ?t \<le> b"
    then show "rc_ready (sy_cache ?t) b = None"
      using build_invD(3) [OF inv bu] build_invD(4) [OF inv] by (auto simp: t(3,5))
  next
    fix ref b
    assume "rc_builds (sy_cache ?t) ref = Some b"
    then have r: "rc_builds (sy_cache s) ref = Some b" "ref = bu_ref bu \<longrightarrow> b \<noteq> bu_build bu"
      by (auto simp: t split: if_splits)
    then obtain bu' h' where "(bu', h') \<in> set (sy_open s)" "bu_build bu' = b" "bu_ref bu' = ref"
      using build_invD(5) [OF inv] by blast
    then show "\<exists>bu' h'. (bu', h') \<in> set (sy_open ?t) \<and> bu_build bu' = b \<and> bu_ref bu' = ref"
      using r(2) rest by blast
  next
    fix b
    assume "b \<in> set (sy_waiting ?t)"
    then have "rc_ready (sy_cache s) b \<noteq> None \<or> (\<exists>bu h0. (bu, h0) \<in> set (sy_open s) \<and> bu_build bu = b)"
      using build_invD(6) [OF inv] by (simp add: t)
    then show "rc_ready (sy_cache ?t) b \<noteq> None \<or> (\<exists>bu' h'. (bu', h') \<in> set (sy_open ?t) \<and> bu_build bu' = b)"
      by (cases "b = bu_build bu") (auto simp: t(5) rest)
  qed
qed

lemma build_start:
  fixes fp :: string
  assumes inv: "build_inv s" and "rc_builds (sy_cache s) ref = None"
  defines "b \<equiv> sy_nextBuild s" and "bu \<equiv> startBuild (sy_cache s) ref fp (sy_nextBuild s)"
  shows "build_inv (s \<lparr> sy_cache := (sy_cache s) \<lparr> rc_builds := (rc_builds (sy_cache s))(ref \<mapsto> b) \<rparr>,
    sy_open := (bu, sy_history s) # sy_open s, sy_nextBuild := sy_nextBuild s + 1 \<rparr>)" (is "build_inv ?t")
proof -
  have bu: "bu_build bu = b" "bu_ref bu = ref"
    by (simp_all add: bu_def b_def startBuild_def)
  have new: "(bu', h) \<in> set (sy_open s) \<Longrightarrow> bu_build bu' \<noteq> b" for bu' h
    using build_invD(3) [OF inv, of bu' h] by (auto simp: b_def)
  have other: "(bu', h) \<in> set (sy_open s) \<Longrightarrow> clears h = clears (sy_history s) \<Longrightarrow> bu_ref bu' \<noteq> ref" for bu' h
    using build_invD(3) [OF inv, of bu' h] assms(2) by auto
  show ?thesis
    unfolding build_inv_def
  proof (intro conjI allI impI ballI)
    show "inj_on (\<lambda>(bu, _). bu_build bu) (set (sy_open ?t))"
      using build_invD(1) [OF inv] new bu(1) by (fastforce simp: inj_on_def)
    show "distinct (sy_open ?t)"
      using build_invD(2) [OF inv] new [of bu] bu(1) by auto
  next
    fix bu' h
    assume b: "(bu', h) \<in> set (sy_open ?t)"
    note old = build_invD(3) [OF inv, of bu' h]
    show "bu_build bu' < sy_nextBuild ?t" "rc_ready (sy_cache ?t) (bu_build bu') = None" "suffix h (sy_history ?t)"
      using b old bu build_invD(4) [OF inv, of b] by (auto simp: b_def)
    assume "clears h = clears (sy_history ?t)"
    then show "rc_builds (sy_cache ?t) (bu_ref bu') = Some (bu_build bu')"
      using b old bu other by auto
  next
    fix x
    assume "sy_nextBuild ?t \<le> x"
    then show "rc_ready (sy_cache ?t) x = None"
      using build_invD(4) [OF inv] by simp
  next
    fix r x
    assume x: "rc_builds (sy_cache ?t) r = Some x"
    show "\<exists>bu' h'. (bu', h') \<in> set (sy_open ?t) \<and> bu_build bu' = x \<and> bu_ref bu' = r"
    proof (cases "r = ref")
      case True
      then show ?thesis using x bu by auto
    next
      case False
      then have "rc_builds (sy_cache s) r = Some x"
        using x by simp
      from build_invD(5) [OF inv this] show ?thesis by auto
    qed
  next
    fix x
    assume "x \<in> set (sy_waiting ?t)"
    then have "x \<in> set (sy_waiting s)" by simp
    from build_invD(6) [OF inv this]
    show "rc_ready (sy_cache ?t) x \<noteq> None \<or> (\<exists>bu' h'. (bu', h') \<in> set (sy_open ?t) \<and> bu_build bu' = x)"
      by auto
  qed
qed

lemma build_wait:
  assumes "build_inv s" and "set waiting \<subseteq> set (sy_waiting s) \<union> {b. \<exists>ref. rc_builds (sy_cache s) ref = Some b}"
  shows "build_inv (s \<lparr> sy_waiting := waiting \<rparr>)"
  using assms unfolding build_inv_def by simp blast

lemma build_invalidated:
  assumes "build_inv s" and "rc_builds c = rc_builds (sy_cache s)" and "rc_ready c = rc_ready (sy_cache s)"
  shows "build_inv (s \<lparr> sy_cache := c, sy_history := Invalidated ref # sy_history s, sy_closed := closed \<rparr>)"
  using assms unfolding build_inv_def by (simp add: suffix_Cons)

lemma build_cleared:
  assumes inv: "build_inv s"
  shows "build_inv (s \<lparr> sy_cache := clearDestinationRuntimes (sy_cache s),
    sy_history := Cleared # sy_history s, sy_closed := closed \<rparr>)"
proof -
  have "clears h0 \<le> clears (sy_history s)" if "(bu, h0) \<in> set (sy_open s)" for bu h0
    using build_invD(3) [OF inv that] by (auto simp: suffix_def)
  moreover have "b \<in> set (sy_waiting s) \<Longrightarrow>
      rc_ready (sy_cache s) b \<noteq> None \<or> (\<exists>bu h0. (bu, h0) \<in> set (sy_open s) \<and> bu_build bu = b)" for b
    using build_invD(6) [OF inv] .
  ultimately show ?thesis
    using build_invD(1-4) [OF inv] unfolding build_inv_def clearDestinationRuntimes_def
    by (fastforce simp: suffix_Cons)
qed

lemma build_step:
  assumes "runtimeStep s t" and inv: "build_inv s"
  shows "build_inv t"
  using assms(1)
proof cases
  case (use ref fp rt c)
  then show ?thesis using inv lookup_cases [OF use(2)] by auto
next
  case (await ref fp b c)
  then have "rc_builds (sy_cache s) ref = Some b" "c = sy_cache s"
    using lookup_cases [OF await(2)] by auto
  then show ?thesis using build_wait [OF inv, of "b # sy_waiting s"] by (auto simp: await)
next
  case (start ref fp b c)
  then show ?thesis using lookup_cases [OF start(2)] build_start [OF inv] by auto
next
  case (finish bu h0 err)
  then show ?thesis using build_finish [OF inv] by blast
next
  case (invalidated ref closed c)
  then show ?thesis
    by (auto simp: invalidateDestinationRuntime_def intro!: build_invalidated [OF inv])
next
  case (cleared closed)
  then show ?thesis using build_cleared [OF inv] by simp
next
  case (wake b)
  then show ?thesis using build_wait [OF inv, of "remove1 b (sy_waiting s)"] set_remove1_subset by fastforce
next
  case (giveUp b)
  then show ?thesis using build_wait [OF inv, of "remove1 b (sy_waiting s)"] set_remove1_subset by fastforce
qed (use inv in \<open>simp_all add: build_inv_def\<close>)

section \<open>Reachable systems\<close>

lemma history_grows: "runtimeStep s t \<Longrightarrow> length (sy_history s) \<le> length (sy_history t)"
proof (induction rule: runtimeStep.induct)
  case (finish bu h0 s err)
  then show ?case by (cases err) (simp_all add: finishBuild_simps)
qed simp_all

lemma initial_invariants:
  "epochs_inv initialSystem" "fresh_inv initialSystem" "account_inv initialSystem" "build_inv initialSystem"
  by (simp_all add: initialSystem_def emptyRuntimeCache_def epochs_inv_def fresh_inv_def account_inv_def
      build_inv_def cachedRuntimes_def oneRef_def)

lemma reach_structure: "runtimeReach s \<Longrightarrow> epochs_inv s \<and> account_inv s \<and> build_inv s"
  by (induction rule: runtimeReach.induct)
    (simp_all add: initial_invariants epochs_step account_step build_step)

lemma reach_fresh: "runtimeReach s \<Longrightarrow> length (sy_history s) < 2 ^ 64 \<Longrightarrow> fresh_inv s"
proof (induction rule: runtimeReach.induct)
  case initial
  show ?case by (rule initial_invariants)
next
  case (step s t)
  have "length (sy_history s) < 2 ^ 64"
    using history_grows [OF step(2)] step(4) by linarith
  then show ?case
    using fresh_step [OF step(2)] step reach_structure [OF step(1)] by blast
qed

end
