(* ===== verification/Cache_Properties.thy ===== *)
theory Cache_Properties
  imports Runtime_Runs
begin

text \<open>
  What the runtime cache guarantees in every run of concurrent requests and invalidations. The sample
  system opens a runtime for one destination and then sees an invalidation of another one.
\<close>

definition sampleOpening :: runtimeSystem where
  "sampleOpening = initialSystem \<lparr>
     sy_cache := emptyRuntimeCache \<lparr> rc_builds := (\<lambda>_. None)(''aws-sm/prod'' \<mapsto> 0) \<rparr>,
     sy_open := [(startBuild emptyRuntimeCache ''aws-sm/prod'' ''f1'' 0, [])], sy_nextBuild := 1 \<rparr>"

definition sampleCached :: runtimeSystem where
  "sampleCached = finishBuild sampleOpening (startBuild emptyRuntimeCache ''aws-sm/prod'' ''f1'' 0) [] None"

definition sampleInvalidated :: runtimeSystem where
  "sampleInvalidated = sampleCached \<lparr>
     sy_cache := snd (invalidateDestinationRuntime (sy_cache sampleCached) ''gitlab/ci''),
     sy_history := [Invalidated ''gitlab/ci''] \<rparr>"

lemma sampleOpening_reach: "runtimeReach sampleOpening"
proof -
  have "runtimeStep initialSystem sampleOpening"
    using runtimeStep.start [of initialSystem "''aws-sm/prod''" "''f1''" 0
        "emptyRuntimeCache \<lparr> rc_builds := (\<lambda>_. None)(''aws-sm/prod'' \<mapsto> 0) \<rparr>"]
    by (simp add: sampleOpening_def initialSystem_def emptyRuntimeCache_def cachedDestinationRuntime_def)
  then show ?thesis
    by (rule runtimeReach.step [OF runtimeReach.initial])
qed

lemma sampleCached_eq:
  "sampleCached = initialSystem \<lparr>
     sy_cache := emptyRuntimeCache \<lparr>
       rc_cache := (\<lambda>_. None)(''aws-sm/prod'' \<mapsto> \<lparr> ce_fingerprint = ''f1'', ce_runtime = 0 \<rparr>),
       rc_ready := (\<lambda>_. None)(0 \<mapsto> None) \<rparr>,
     sy_nextBuild := 1, sy_nextRuntime := 1,
     sy_origin := (\<lambda>_. None)(0 \<mapsto> (''aws-sm/prod'', ''f1'', [])) \<rparr>"
  by (simp add: sampleCached_def finishBuild_simps sampleOpening_def initialSystem_def emptyRuntimeCache_def
      startBuild_def publishes_def fun_eq_iff)

lemma sampleCached_reach: "runtimeReach sampleCached"
  unfolding sampleCached_def
  by (rule runtimeReach.step [OF sampleOpening_reach]) (rule runtimeStep.finish, simp add: sampleOpening_def)

lemma sampleInvalidated_reach: "runtimeReach sampleInvalidated"
proof -
  have "runtimeStep sampleCached sampleInvalidated"
    using runtimeStep.invalidated [of sampleCached "''gitlab/ci''" None
        "snd (invalidateDestinationRuntime (sy_cache sampleCached) ''gitlab/ci'')"]
    by (simp add: sampleInvalidated_def sampleCached_eq initialSystem_def emptyRuntimeCache_def
        invalidateDestinationRuntime_def)
  then show ?thesis
    by (rule runtimeReach.step [OF sampleCached_reach])
qed

lemma sampleInvalidated_cache:
  "rc_cache (sy_cache sampleInvalidated) ''aws-sm/prod'' = Some \<lparr> ce_fingerprint = ''f1'', ce_runtime = 0 \<rparr>"
  by (simp add: sampleInvalidated_def sampleCached_eq invalidateDestinationRuntime_def)

text \<open>C13 No stale runtime. In every run with fewer than 2^64 invalidations, a cached runtime was opened for
  its destination with the fingerprint it is cached under, and since the opening began neither that
  destination was invalidated nor the cache cleared: a runtime built from a configuration that was
  replaced meanwhile is handed to its own request only.\<close>

theorem cached_runtime_current:
  assumes "runtimeReach s" and "length (sy_history s) < 2 ^ 64"
    and "rc_cache (sy_cache s) ref = Some e"
  shows "\<exists>h0. sy_origin s (ce_runtime e) = Some (ref, ce_fingerprint e, h0) \<and>
    unaffected ref h0 (sy_history s)"
  using reach_fresh [OF assms(1,2)] assms(3) by (simp add: fresh_inv_def)

theorem cached_runtime_current_witness:
  "\<exists>h0. sy_origin sampleInvalidated 0 = Some (''aws-sm/prod'', ''f1'', h0) \<and>
    unaffected ''aws-sm/prod'' h0 (sy_history sampleInvalidated)"
  using cached_runtime_current [OF sampleInvalidated_reach _ sampleInvalidated_cache]
  by (simp add: sampleInvalidated_def)

text \<open>C14 No leak and no double close. In every run each opened runtime is in exactly one of three places:
  in the cache under exactly one destination, lent to a request that will release it, or closed, once.\<close>

theorem runtime_accounting:
  assumes "runtimeReach s"
  shows "cachedRuntimes (sy_cache s) \<union> sy_lent s \<union> set (sy_closed s) = {..<sy_nextRuntime s} \<and>
    cachedRuntimes (sy_cache s) \<inter> sy_lent s = {} \<and>
    (cachedRuntimes (sy_cache s) \<union> sy_lent s) \<inter> set (sy_closed s) = {} \<and> distinct (sy_closed s) \<and>
    oneRef (sy_cache s)"
  using reach_structure [OF assms] by (simp add: account_inv_def)

theorem runtime_accounting_witness:
  "cachedRuntimes (sy_cache sampleInvalidated) \<union> sy_lent sampleInvalidated \<union> set (sy_closed sampleInvalidated) = {0}"
  using runtime_accounting [OF sampleInvalidated_reach]
  by (simp add: sampleInvalidated_def sampleCached_eq lessThan_Suc)

text \<open>C15 Single flight without lost wake-ups. In every run a request that waits for a build waits for one
  that has ended or is still being opened by another request, and two openings of one destination that
  have not been overtaken by a clear of the cache are the same opening.\<close>

theorem single_flight:
  assumes "runtimeReach s"
  shows "(\<forall>b \<in> set (sy_waiting s). rc_ready (sy_cache s) b \<noteq> None \<or>
      (\<exists>bu h0. (bu, h0) \<in> set (sy_open s) \<and> bu_build bu = b)) \<and>
    (\<forall>bu h0 bu' h1. (bu, h0) \<in> set (sy_open s) \<longrightarrow> (bu', h1) \<in> set (sy_open s) \<longrightarrow> bu_ref bu = bu_ref bu' \<longrightarrow>
      clears h0 = clears (sy_history s) \<longrightarrow> clears h1 = clears (sy_history s) \<longrightarrow> (bu, h0) = (bu', h1))"
proof (intro conjI ballI allI impI)
  have inv: "build_inv s"
    using reach_structure [OF assms] by blast
  show "rc_ready (sy_cache s) b \<noteq> None \<or> (\<exists>bu h0. (bu, h0) \<in> set (sy_open s) \<and> bu_build bu = b)"
    if "b \<in> set (sy_waiting s)" for b
    by (rule build_invD(6) [OF inv that])
  fix bu h0 bu' h1
  assume bu: "(bu, h0) \<in> set (sy_open s)" "(bu', h1) \<in> set (sy_open s)" "bu_ref bu = bu_ref bu'"
    "clears h0 = clears (sy_history s)" "clears h1 = clears (sy_history s)"
  then have "bu_build bu = bu_build bu'"
    using build_invD(3) [OF inv bu(1)] build_invD(3) [OF inv bu(2)] by simp
  then show "(bu, h0) = (bu', h1)"
    by (rule build_unique [OF inv bu(1,2)])
qed

definition sampleWaiting :: runtimeSystem where
  "sampleWaiting = sampleOpening \<lparr> sy_waiting := [0] \<rparr>"

lemma sampleWaiting_reach: "runtimeReach sampleWaiting"
proof -
  have "runtimeStep sampleOpening sampleWaiting"
    using runtimeStep.await [of sampleOpening "''aws-sm/prod''" "''f2''" 0 "sy_cache sampleOpening"]
    by (simp add: sampleWaiting_def sampleOpening_def initialSystem_def emptyRuntimeCache_def
        cachedDestinationRuntime_def)
  then show ?thesis
    by (rule runtimeReach.step [OF sampleOpening_reach])
qed

theorem single_flight_witness:
  "\<exists>bu h0. (bu, h0) \<in> set (sy_open sampleWaiting) \<and> bu_build bu = 0"
proof -
  have "rc_ready (sy_cache sampleWaiting) 0 = None" "0 \<in> set (sy_waiting sampleWaiting)"
    by (simp_all add: sampleWaiting_def sampleOpening_def initialSystem_def emptyRuntimeCache_def
        cachedDestinationRuntime_def)
  then show ?thesis
    using single_flight [OF sampleWaiting_reach] by blast
qed

section \<open>Invalidation by storage key\<close>

lemma containsStr_slash: "containsStr s ''/'' \<longleftrightarrow> slash \<in> set s"
  by (induction s) auto

lemma destinationRefUnder_Some:
  assumes "destinationRefUnder (pre @ t @ slash # rest) pre = Some r"
  shows "r = destinationRef t rest" and "slash \<notin> set rest"
proof -
  obtain a b where cut: "cutAt slash (t @ slash # rest) = Some (a, b)" and b: "slash \<notin> set b"
    and r: "r = destinationRef a b"
    using assms by (auto simp: destinationRefUnder_def containsStr_slash split: option.splits if_splits)
  have eq: "t @ slash # rest = a @ slash # b" and a: "slash \<notin> set a"
    using cut by (simp_all add: cutAt_Some)
  have "filter (\<lambda>x. x = slash) u = []" if "slash \<notin> set u" for u
    using that by (auto simp: filter_empty_conv)
  then have "filter (\<lambda>x. x = slash) (t @ slash # rest) = [slash]"
    unfolding eq using a b by simp
  then show "slash \<notin> set rest"
    by (auto simp: filter_empty_conv append_eq_Cons_conv)
  then show "r = destinationRef t rest"
    using eq r b append_sep_inj [of slash rest b t a] by simp
qed

text \<open>C32 Every stored part of a destination invalidates its runtime. Whichever key of a destination is
  written elsewhere (its record, its unversioned or a versioned sensitive configuration), invalidating
  that key leaves no cached runtime of the destination, and a build that is in flight will not be cached.\<close>

theorem invalidate_covers_destination:
  assumes "key \<in> {destinationStorageKey t n, destinationSensitiveStorageKey t n,
      destinationSensitiveVersionStorageKey t n v}"
  shows "rc_cache (snd (invalidate c key)) (destinationRef t n) = None \<and>
    \<not> publishes (snd (invalidate c key)) (startBuild c (destinationRef t n) fp b)"
proof -
  have keys: "\<exists>pre rest. (pre = destinationStoragePrefix \<or> pre = destinationSecretsPrefix) \<and>
      key = pre @ t @ slash # rest \<and> (slash \<notin> set rest \<longrightarrow> rest = n)"
    using assms by (auto simp: destinationStorageKey_def destinationSensitiveStorageKey_def
        destinationSensitiveVersionStorageKey_def destinationSensitiveVersionStoragePrefix_def destinationRef_def)
  then obtain pre rest where pre: "pre = destinationStoragePrefix \<or> pre = destinationSecretsPrefix"
    and key: "key = pre @ t @ slash # rest" and rest: "slash \<notin> set rest \<longrightarrow> rest = n"
    by blast
  have under: "destinationRefFromInvalidationKey key = destinationRefUnder key pre"
    using pre by (auto simp: destinationRefFromInvalidationKey_def key destinationStoragePrefix_def
        destinationSecretsPrefix_def)
  have listed: "prefix destinationStoragePrefix key \<or> prefix destinationSecretsPrefix key"
    using pre key by auto
  have two: "x + 1 \<noteq> x" for x :: "64 word"
    by simp
  show ?thesis
  proof (cases "destinationRefUnder key pre")
    case None
    then show ?thesis
      using under listed two by (simp add: invalidate_def clearDestinationRuntimes_def publishes_def startBuild_def)
  next
    case (Some r)
    then have "r = destinationRef t rest" "slash \<notin> set rest"
      using destinationRefUnder_Some [of pre t rest r] by (simp_all add: key)
    then have "r = destinationRef t n"
      using rest by simp
    then show ?thesis
      using Some under two by (simp add: invalidate_def invalidateDestinationRuntime_def publishes_def startBuild_def)
  qed
qed

theorem invalidate_covers_destination_witness:
  "rc_cache (snd (invalidate (sy_cache sampleCached) ''destinations_secrets/aws-sm/prod/versions/v1'')) ''aws-sm/prod'' = None"
  using invalidate_covers_destination [of "''destinations_secrets/aws-sm/prod/versions/v1''" "''aws-sm''" "''prod''"
      "''v1''" "sy_cache sampleCached"]
  by (simp add: destinationSensitiveVersionStorageKey_def destinationSensitiveVersionStoragePrefix_def
      destinationSensitiveStorageKey_def destinationSecretsPrefix_def destinationRef_def)

end
