(* ===== verification/Endpoint_Guard.thy ===== *)
theory Endpoint_Guard
  imports Provider_Contract "HOL-Library.Word"
begin

text \<open>
  The address policy for endpoints that an operator configures (\<open>internal/providers/endpointguard\<close>),
  with what it uses of package \<open>net/netip\<close>: parsing of addresses and prefixes, and their classes. An IPv4
  address is a 32-bit word and an IPv6 address a 128-bit word with a zone.
\<close>

unbundle bit_operations_syntax

section \<open>Addresses\<close>

type_synonym ip4addr = "32 word"
type_synonym ip6addr = "128 word"

datatype netAddr = NoAddr | IP4 ip4addr | IP6 ip6addr string

text \<open>Byte \<open>i\<close> of an IPv4 address, byte and 16-bit group \<open>i\<close> of an IPv6 address.\<close>

definition v4 :: "ip4addr \<Rightarrow> nat \<Rightarrow> ip4addr" where
  "v4 a i = drop_bit (24 - 8 * i) a AND 255"

definition v6u16 :: "ip6addr \<Rightarrow> nat \<Rightarrow> ip6addr" where
  "v6u16 a i = drop_bit (112 - 16 * i) a AND 65535"

definition v6 :: "ip6addr \<Rightarrow> nat \<Rightarrow> ip6addr" where
  "v6 a i = drop_bit (120 - 8 * i) a AND 255"

text \<open>The IPv4-mapped addresses \<open>::ffff:0:0/96\<close>, and the 4 bytes at the end of an IPv6 address.\<close>

definition is4In6 :: "ip6addr \<Rightarrow> bool" where
  "is4In6 a \<longleftrightarrow> drop_bit 32 a = 65535"

definition lastIP4 :: "ip6addr \<Rightarrow> ip4addr" where
  "lastIP4 a = ucast a"

fun unmapAddr :: "netAddr \<Rightarrow> netAddr" where
  "unmapAddr (IP6 a z) = (if is4In6 a then IP4 (lastIP4 a) else IP6 a z)"
| "unmapAddr addr = addr"

fun withoutZone :: "netAddr \<Rightarrow> netAddr" where
  "withoutZone (IP6 a z) = IP6 a []"
| "withoutZone addr = addr"

fun isLoopback :: "netAddr \<Rightarrow> bool" where
  "isLoopback NoAddr = False"
| "isLoopback (IP4 a) = (v4 a 0 = 127)"
| "isLoopback (IP6 a z) = (if is4In6 a then v4 (lastIP4 a) 0 = 127 else a = 1 \<and> z = [])"

fun isMulticast :: "netAddr \<Rightarrow> bool" where
  "isMulticast NoAddr = False"
| "isMulticast (IP4 a) = (v4 a 0 AND 240 = 224)"
| "isMulticast (IP6 a z) = (if is4In6 a then v4 (lastIP4 a) 0 AND 240 = 224 else v6 a 0 = 255)"

fun isLinkLocalUnicast :: "netAddr \<Rightarrow> bool" where
  "isLinkLocalUnicast NoAddr = False"
| "isLinkLocalUnicast (IP4 a) = (v4 a 0 = 169 \<and> v4 a 1 = 254)"
| "isLinkLocalUnicast (IP6 a z) =
     (if is4In6 a then v4 (lastIP4 a) 0 = 169 \<and> v4 (lastIP4 a) 1 = 254 else v6u16 a 0 AND 65472 = 65152)"

definition isGlobalUnicast :: "netAddr \<Rightarrow> bool" where
  "isGlobalUnicast addr \<longleftrightarrow>
     addr \<noteq> NoAddr \<and> addr \<noteq> IP4 0 \<and> addr \<noteq> IP4 (- 1) \<and> addr \<noteq> IP6 0 [] \<and>
     \<not> isLoopback addr \<and> \<not> isMulticast addr \<and> \<not> isLinkLocalUnicast addr"

definition isPrivate4 :: "ip4addr \<Rightarrow> bool" where
  "isPrivate4 a \<longleftrightarrow>
     v4 a 0 = 10 \<or> (v4 a 0 = 172 \<and> v4 a 1 AND 240 = 16) \<or> (v4 a 0 = 192 \<and> v4 a 1 = 168)"

fun isPrivate :: "netAddr \<Rightarrow> bool" where
  "isPrivate NoAddr = False"
| "isPrivate (IP4 a) = isPrivate4 a"
| "isPrivate (IP6 a z) = (if is4In6 a then isPrivate4 (lastIP4 a) else v6 a 0 AND 254 = 252)"

section \<open>Parsing of addresses\<close>

definition parseOctet :: "string \<Rightarrow> int option" where
  "parseOctet s =
     (if s = [] \<or> \<not> list_all isDigit s \<or> (hd s = CHR ''0'' \<and> 1 < length s) \<or> 255 < digitsVal s then None
      else Some (int (digitsVal s)))"

text \<open>\<open>parseIPv4Fields\<close>: four octets in decimal without leading zeros.\<close>

definition parseIPv4Fields :: "string \<Rightarrow> int list option" where
  "parseIPv4Fields s = (case map parseOctet (splitOn (CHR ''.'') s) of
      [Some a, Some b, Some c, Some d] \<Rightarrow> Some [a, b, c, d]
    | _ \<Rightarrow> None)"

definition bytesVal :: "int list \<Rightarrow> int" where
  "bytesVal bs = foldl (\<lambda>a b. 256 * a + b) 0 bs"

definition hexVal :: "char \<Rightarrow> int option" where
  "hexVal c =
     (let n = int (of_char c :: nat)
      in if 48 \<le> n \<and> n \<le> 57 then Some (n - 48)
         else if 97 \<le> n \<and> n \<le> 102 then Some (n - 87)
         else if 65 \<le> n \<and> n \<le> 70 then Some (n - 55)
         else None)"

definition isHexChar :: "char \<Rightarrow> bool" where
  "isHexChar c \<longleftrightarrow> hexVal c \<noteq> None"

definition hexGroupVal :: "string \<Rightarrow> int" where
  "hexGroupVal s = foldl (\<lambda>a c. 16 * a + the (hexVal c)) 0 s"

text \<open>
  The loop of \<open>parseIPv6\<close>: the bytes read so far, the position of the ellipsis, the rest of the string.
  The loop stops at the end of the string, at a trailing IPv4 address, or after 16 bytes. Each round
  appends two bytes, so 8 rounds are enough.
\<close>

fun parseIPv6Groups :: "nat \<Rightarrow> int list \<Rightarrow> nat option \<Rightarrow> string \<Rightarrow> (int list \<times> nat option \<times> string) option" where
  "parseIPv6Groups 0 bs ellipsis s = Some (bs, ellipsis, s)"
| "parseIPv6Groups (Suc n) bs ellipsis s =
     (let group = takeWhile isHexChar s; rest = dropWhile isHexChar s; acc = hexGroupVal group
      in if group = [] \<or> 4 < length group then None
         else if rest \<noteq> [] \<and> hd rest = CHR ''.''
         then (if ellipsis = None \<and> length bs \<noteq> 12 then None
               else if 16 < length bs + 4 then None
               else (case parseIPv4Fields s of
                       None \<Rightarrow> None
                     | Some four \<Rightarrow> Some (bs @ four, ellipsis, [])))
         else (let bs = bs @ [acc div 256, acc mod 256]
               in case rest of
                    [] \<Rightarrow> Some (bs, ellipsis, [])
                  | [c] \<Rightarrow> None
                  | c # d # s' \<Rightarrow>
                      if c \<noteq> CHR '':'' then None
                      else if d \<noteq> CHR '':'' then parseIPv6Groups n bs ellipsis (d # s')
                      else if ellipsis \<noteq> None then None
                      else if s' = [] then Some (bs, Some (length bs), [])
                      else parseIPv6Groups n bs (Some (length bs)) s'))"

definition expandEllipsis :: "int list \<Rightarrow> nat option \<Rightarrow> int list option" where
  "expandEllipsis bs ellipsis =
     (if length bs < 16
      then (case ellipsis of
              None \<Rightarrow> None
            | Some e \<Rightarrow> Some (take e bs @ replicate (16 - length bs) 0 @ drop e bs))
      else if ellipsis \<noteq> None then None else Some bs)"

definition parseIPv6Bytes :: "string \<Rightarrow> int list option" where
  "parseIPv6Bytes s =
     (if take 2 s = ''::'' \<and> drop 2 s = [] then Some (replicate 16 0)
      else (case (if take 2 s = ''::'' then parseIPv6Groups 8 [] (Some 0) (drop 2 s)
                  else parseIPv6Groups 8 [] None s) of
              None \<Rightarrow> None
            | Some (bs, ellipsis, rest) \<Rightarrow> if rest \<noteq> [] then None else expandEllipsis bs ellipsis))"

definition parseIPv6 :: "string \<Rightarrow> netAddr option" where
  "parseIPv6 s =
     (case cutAt (CHR ''%'') s of
        None \<Rightarrow> map_option (\<lambda>bs. IP6 (word_of_int (bytesVal bs)) []) (parseIPv6Bytes s)
      | Some (a, zone) \<Rightarrow>
          if zone = [] then None
          else map_option (\<lambda>bs. IP6 (word_of_int (bytesVal bs)) zone) (parseIPv6Bytes a))"

text \<open>\<open>netip.ParseAddr\<close> decides by the first of the characters \<open>.\<close>, \<open>:\<close> and \<open>%\<close>.\<close>

definition netipParseAddr :: "string \<Rightarrow> netAddr option" where
  "netipParseAddr s =
     (case find (\<lambda>c. c = CHR ''.'' \<or> c = CHR '':'' \<or> c = CHR ''%'') s of
        None \<Rightarrow> None
      | Some c \<Rightarrow>
          if c = CHR ''.'' then map_option (\<lambda>bs. IP4 (word_of_int (bytesVal bs))) (parseIPv4Fields s)
          else if c = CHR '':'' then parseIPv6 s
          else None)"

datatype netPrefix = Prefix4 ip4addr nat | Prefix6 ip6addr nat

fun prefixBits :: "netPrefix \<Rightarrow> int" where
  "prefixBits (Prefix4 p n) = int n"
| "prefixBits (Prefix6 p n) = int n"

fun prefixContains :: "netPrefix \<Rightarrow> netAddr \<Rightarrow> bool" where
  "prefixContains (Prefix4 p n) (IP4 a) = (drop_bit (32 - n) p = drop_bit (32 - n) a)"
| "prefixContains (Prefix6 p n) (IP6 a z) = (z = [] \<and> drop_bit (128 - n) p = drop_bit (128 - n) a)"
| "prefixContains _ _ = False"

text \<open>\<open>netip.MustParsePrefix\<close> on the literals of the table.\<close>

definition parsePrefix :: "string \<Rightarrow> netPrefix option" where
  "parsePrefix s = (case cutAt slash s of
      None \<Rightarrow> None
    | Some (a, bits) \<Rightarrow> (case (netipParseAddr a, parseDigits bits) of
          (Some (IP4 w), Some n) \<Rightarrow> if n \<le> 32 then Some (Prefix4 w (nat n)) else None
        | (Some (IP6 w z), Some n) \<Rightarrow> if z = [] \<and> n \<le> 128 then Some (Prefix6 w (nat n)) else None
        | _ \<Rightarrow> None))"

section \<open>Hosts\<close>

text \<open>\<open>strings.ToLower\<close> is \<open>lowerText\<close>: its result is compared with ASCII text and parsed as an address.\<close>

definition NormalizeHost :: "string \<Rightarrow> string" where
  "NormalizeHost host = trimSuffix (lowerText (trimSpace host)) ''.''"

definition hasSuffix :: "string \<Rightarrow> string \<Rightarrow> bool" where
  "hasSuffix s t \<longleftrightarrow> suffix t s"

definition IsLocalName :: "string \<Rightarrow> bool" where
  "IsLocalName host \<longleftrightarrow>
     (let normalized = NormalizeHost host in normalized = ''localhost'' \<or> hasSuffix normalized ''.localhost'')"

definition ParseAddr :: "string \<Rightarrow> netAddr option" where
  "ParseAddr host = map_option unmapAddr (netipParseAddr (NormalizeHost host))"

definition IsLocalHost :: "string \<Rightarrow> bool" where
  "IsLocalHost host \<longleftrightarrow>
     (if IsLocalName host then True
      else (case ParseAddr host of None \<Rightarrow> False | Some addr \<Rightarrow> isLoopback addr))"

section \<open>Restricted addresses\<close>

definition mustParsePrefix :: "string \<Rightarrow> netPrefix" where
  "mustParsePrefix s = the (parsePrefix s)"

definition specialPurposePrefixes :: "(netPrefix \<times> bool) list" where
  "specialPurposePrefixes = map (\<lambda>(s, restricted). (mustParsePrefix s, restricted))
     [(''0.0.0.0/8'', True), (''100.64.0.0/10'', True), (''192.0.0.0/24'', True),
      (''192.0.0.9/32'', False), (''192.0.0.10/32'', False), (''192.0.2.0/24'', True),
      (''192.88.99.0/24'', True), (''198.18.0.0/15'', True), (''198.51.100.0/24'', True),
      (''203.0.113.0/24'', True), (''240.0.0.0/4'', True), (''::/96'', True),
      (''64:ff9b:1::/48'', True), (''100::/64'', True), (''100:0:0:1::/64'', True),
      (''2001::/23'', True), (''2001:1::1/128'', False), (''2001:1::2/128'', False),
      (''2001:1::3/128'', False), (''2001:3::/32'', False), (''2001:4:112::/48'', False),
      (''2001:20::/28'', False), (''2001:30::/28'', False), (''2001:db8::/32'', True),
      (''2002::/16'', True), (''3fff::/20'', True), (''5f00::/16'', True), (''fec0::/10'', True)]"

definition wellKnownNAT64Prefix :: netPrefix where
  "wellKnownNAT64Prefix = mustParsePrefix ''64:ff9b::/96''"

text \<open>The rule of the longest prefix that contains the address; the earlier of two equally long ones.\<close>

definition longestMatch :: "netAddr \<Rightarrow> (netPrefix \<times> bool) list \<Rightarrow> bool \<times> int" where
  "longestMatch addr rules = foldl (\<lambda>(restricted, longest) (p, r).
     if longest < prefixBits p \<and> prefixContains p addr then (r, prefixBits p) else (restricted, longest))
     (False, - 1) rules"

text \<open>The IPv4 address that a translation address embeds.\<close>

definition embeddedIP4 :: "netAddr \<Rightarrow> ip4addr option" where
  "embeddedIP4 addr = (case addr of
      IP6 a z \<Rightarrow> if prefixContains wellKnownNAT64Prefix addr then Some (lastIP4 a) else None
    | _ \<Rightarrow> None)"

function IsRestrictedAddr :: "netAddr \<Rightarrow> bool" where
  "IsRestrictedAddr addr =
     (let addr = withoutZone (unmapAddr addr)
      in if \<not> isGlobalUnicast addr \<or> isPrivate addr then True
         else (case embeddedIP4 addr of
                 Some w \<Rightarrow> IsRestrictedAddr (IP4 w)
               | None \<Rightarrow> fst (longestMatch addr specialPurposePrefixes)))"
  by pat_completeness auto
termination
  by (relation "measure (\<lambda>addr. case addr of IP6 a z \<Rightarrow> 1 | _ \<Rightarrow> 0)")
    (auto simp: embeddedIP4_def split: netAddr.splits if_splits)

declare IsRestrictedAddr.simps [simp del]

definition IsRestrictedHost :: "string \<Rightarrow> bool" where
  "IsRestrictedHost host \<longleftrightarrow>
     (if IsLocalName host then True
      else (case ParseAddr host of None \<Rightarrow> False | Some addr \<Rightarrow> IsRestrictedAddr addr))"

section \<open>Guarded dialing\<close>

text \<open>
  The resolver (a DNS lookup with a timeout) and the dialer are arguments; both may do anything to the
  state. The text of an error of the dialer is kept, with the address as its first argument.
\<close>

type_synonym ('s, 'a) netop = "'s \<Rightarrow> (gerr + 'a) \<times> 's"

definition addressesForDial ::
    "(string \<Rightarrow> ('s, netAddr list) netop) \<Rightarrow> string \<Rightarrow> ('s, netAddr list) netop" where
  "addressesForDial resolver host s =
     (case ParseAddr host of
        Some addr \<Rightarrow> (Inr [addr], s)
      | None \<Rightarrow> (case resolver host s of
            (Inl e, s') \<Rightarrow> (Inl (ErrWrapped ''resolve endpoint address: '' e), s')
          | (Inr addrs, s') \<Rightarrow> (Inr (map unmapAddr addrs), s')))"

fun networkSupportsAddr :: "string \<Rightarrow> netAddr \<Rightarrow> bool" where
  "networkSupportsAddr network addr =
     (if network = ''tcp4'' then (case addr of IP4 _ \<Rightarrow> True | _ \<Rightarrow> False)
      else if network = ''tcp6'' then (case addr of IP6 _ _ \<Rightarrow> True | _ \<Rightarrow> False)
      else True)"

text \<open>\<open>net.SplitHostPort\<close>, without the text of its errors.\<close>

definition lastIndexOf :: "char \<Rightarrow> string \<Rightarrow> nat option" where
  "lastIndexOf c s = (if c \<in> set s then Some (length s - 1 - length (takeWhile (\<lambda>x. x \<noteq> c) (rev s))) else None)"

definition splitHostPort :: "string \<Rightarrow> (string \<times> string) option" where
  "splitHostPort hostport =
     (case lastIndexOf (CHR '':'') hostport of
        None \<Rightarrow> None
      | Some i \<Rightarrow>
          if hd hostport = CHR ''['' then
            (case cutAt (CHR '']'') hostport of
               None \<Rightarrow> None
             | Some (before, after) \<Rightarrow>
                 if length before + 1 \<noteq> i then None
                 else if CHR ''['' \<in> set (tl hostport) \<or> CHR '']'' \<in> set after then None
                 else Some (tl before, drop (i + 1) hostport))
          else if CHR '':'' \<in> set (take i hostport) \<or> CHR ''['' \<in> set hostport \<or> CHR '']'' \<in> set hostport then None
          else Some (take i hostport, drop (i + 1) hostport))"

fun dialAny ::
    "(string \<Rightarrow> netAddr \<Rightarrow> string \<Rightarrow> ('s, 'conn) netop) \<Rightarrow> string \<Rightarrow> string \<Rightarrow> netAddr list \<Rightarrow> gerr list \<Rightarrow>
     's \<Rightarrow> (gerr list + 'conn) \<times> 's" where
  "dialAny dial network port [] errors s = (Inl errors, s)"
| "dialAny dial network port (addr # addrs) errors s =
     (if \<not> networkSupportsAddr network addr then dialAny dial network port addrs errors s
      else (case dial network addr port s of
              (Inr conn, s') \<Rightarrow> (Inr conn, s')
            | (Inl e, s') \<Rightarrow>
                dialAny dial network port addrs (errors @ [ErrWrapped ''dial %s: '' e]) s'))"

definition guardedDial ::
    "(string \<Rightarrow> ('s, netAddr list) netop) \<Rightarrow> (string \<Rightarrow> netAddr \<Rightarrow> string \<Rightarrow> ('s, 'conn) netop) \<Rightarrow>
     (netAddr \<Rightarrow> bool) option \<Rightarrow> string \<Rightarrow> string \<Rightarrow> ('s, 'conn) netop" where
  "guardedDial resolver dial allowed network address s =
     (case splitHostPort address of
        None \<Rightarrow> (Inl (Errorf ''split endpoint address'' [address]), s)
      | Some (host, port) \<Rightarrow>
          (case addressesForDial resolver host s of
             (Inl e, s) \<Rightarrow> (Inl e, s)
           | (Inr addrs, s) \<Rightarrow>
               if addrs = [] then (Inl (Errorf ''endpoint DNS lookup returned no addresses for %q'' [host]), s)
               else if list_ex (\<lambda>addr. case allowed of None \<Rightarrow> True | Some ok \<Rightarrow> \<not> ok (unmapAddr addr)) addrs
               then (Inl (Errorf ''endpoint address is not allowed: %s'' []), s)
               else (case dialAny dial network port addrs [] s of
                       (Inr conn, s) \<Rightarrow> (Inr conn, s)
                     | (Inl [], s) \<Rightarrow>
                         (Inl (Errorf ''endpoint DNS lookup returned no addresses for network %q'' [network]), s)
                     | (Inl (e # errors), s) \<Rightarrow> (Inl (foldl ErrJoin e errors), s))))"

end
