(* ===== verification/Endpoint_Properties.thy ===== *)
theory Endpoint_Properties
  imports Endpoint_Guard
begin

text \<open>
  The address policy is what it is meant to be: a closed form for IPv4 and for IPv6, where mapped and
  translated IPv4 addresses have the answer of the IPv4 address and the other encodings of one are
  restricted, and a dial that reaches no restricted address.
\<close>

section \<open>The table of prefixes\<close>

lemma specialPurposePrefixes_eval:
  "specialPurposePrefixes =
    [(Prefix4 0 8, True), (Prefix4 0x64400000 10, True), (Prefix4 0xC0000000 24, True),
     (Prefix4 0xC0000009 32, False), (Prefix4 0xC000000A 32, False), (Prefix4 0xC0000200 24, True),
     (Prefix4 0xC0586300 24, True), (Prefix4 0xC6120000 15, True), (Prefix4 0xC6336400 24, True),
     (Prefix4 0xCB007100 24, True), (Prefix4 0xF0000000 4, True), (Prefix6 0 96, True),
     (Prefix6 0x0064FF9B000100000000000000000000 48, True),
     (Prefix6 0x01000000000000000000000000000000 64, True),
     (Prefix6 0x01000000000000010000000000000000 64, True),
     (Prefix6 0x20010000000000000000000000000000 23, True),
     (Prefix6 0x20010001000000000000000000000001 128, False),
     (Prefix6 0x20010001000000000000000000000002 128, False),
     (Prefix6 0x20010001000000000000000000000003 128, False),
     (Prefix6 0x20010003000000000000000000000000 32, False),
     (Prefix6 0x20010004011200000000000000000000 48, False),
     (Prefix6 0x20010020000000000000000000000000 28, False),
     (Prefix6 0x20010030000000000000000000000000 28, False),
     (Prefix6 0x20010DB8000000000000000000000000 32, True),
     (Prefix6 0x20020000000000000000000000000000 16, True),
     (Prefix6 0x3FFF0000000000000000000000000000 20, True),
     (Prefix6 0x5F000000000000000000000000000000 16, True),
     (Prefix6 0xFEC00000000000000000000000000000 10, True)]"
  by code_simp

lemma nat64_eval: "wellKnownNAT64Prefix = Prefix6 0x0064FF9B000000000000000000000000 96"
  by code_simp

section \<open>IPv4 in octets\<close>

definition ofOctets :: "int \<Rightarrow> int \<Rightarrow> int \<Rightarrow> int \<Rightarrow> ip4addr" where
  "ofOctets a b c d = word_of_int (a * 2 ^ 24 + b * 2 ^ 16 + c * 2 ^ 8 + d)"

definition octet :: "int \<Rightarrow> bool" where
  "octet a \<longleftrightarrow> 0 \<le> a \<and> a < 256"

lemma uint_drop_word: "uint (drop_bit n x) = uint x div 2 ^ n" for x :: "'a::len word"
  by (simp only: unsigned_drop_bit_eq) (simp add: drop_bit_eq_div take_bit_int_eq_self)

lemma word_div_eq:
  fixes p x :: "'a::len word"
  shows "drop_bit n p = drop_bit n x \<longleftrightarrow> uint p div 2 ^ n = uint x div 2 ^ n"
  by (simp only: word_uint_eq_iff uint_drop_word)

lemma uint_ofOctets:
  assumes "octet a" "octet b" "octet c" "octet d"
  shows "uint (ofOctets a b c d) = a * 16777216 + b * 65536 + c * 256 + d"
proof -
  have "uint (ofOctets a b c d) = (a * 16777216 + b * 65536 + c * 256 + d) mod 4294967296"
    by (simp only: ofOctets_def uint_word_of_int) simp
  then show ?thesis
    using assms by (simp add: octet_def)
qed

lemma and_255: "x AND 255 = x mod 256" for x :: int
  using take_bit_eq_mask [of 8 x] by (simp add: take_bit_eq_mod mask_eq_exp_minus_1)

lemma uint_v4:
  "uint (v4 w 0) = uint w div 16777216 mod 256" "uint (v4 w 1) = uint w div 65536 mod 256"
  "uint (v4 w 2) = uint w div 256 mod 256" "uint (v4 w 3) = uint w mod 256"
  unfolding v4_def
  by (simp_all add: uint_and drop_bit_eq_div uint_div and_255)

text \<open>A masked byte.\<close>

lemma and_240_byte: "0 \<le> x \<Longrightarrow> x < 256 \<Longrightarrow> x AND 240 = 16 * (x div 16)" for x :: int
proof -
  assume "0 \<le> x" "x < 256"
  moreover have "\<forall>n \<in> set [0..255]. n AND 240 = 16 * (n div 16)"
    by code_simp
  ultimately show ?thesis by simp
qed

lemma v4_ofOctets:
  assumes "octet a" "octet b" "octet c" "octet d"
  shows "uint (v4 (ofOctets a b c d) 0) = a" "uint (v4 (ofOctets a b c d) 1) = b"
    "uint (v4 (ofOctets a b c d) 2) = c" "uint (v4 (ofOctets a b c d) 3) = d"
proof -
  let ?x = "a * 16777216 + b * 65536 + c * 256 + d"
  have b: "0 \<le> a" "a < 256" "0 \<le> b" "b < 256" "0 \<le> c" "c < 256" "0 \<le> d" "d < 256"
    using assms by (simp_all add: octet_def)
  have "?x div 16777216 = a"
    using b by (intro int_div_pos_eq [where r = "b * 65536 + c * 256 + d"]) linarith+
  then show "uint (v4 (ofOctets a b c d) 0) = a"
    by (simp only: uint_v4 uint_ofOctets [OF assms] mod_pos_pos_trivial b)
  have "?x div 65536 = a * 256 + b"
    using b by (intro int_div_pos_eq [where r = "c * 256 + d"]) (simp_all add: algebra_simps)
  moreover have "(a * 256 + b) mod 256 = b"
    using b by (intro int_mod_pos_eq [where q = a]) (simp_all add: algebra_simps)
  ultimately show "uint (v4 (ofOctets a b c d) 1) = b"
    by (simp only: uint_v4 uint_ofOctets [OF assms])
  have "?x div 256 = (a * 256 + b) * 256 + c"
    using b by (intro int_div_pos_eq [where r = d]) (simp_all add: algebra_simps)
  moreover have "((a * 256 + b) * 256 + c) mod 256 = c"
    using b by (intro int_mod_pos_eq [where q = "a * 256 + b"]) (simp_all add: algebra_simps)
  ultimately show "uint (v4 (ofOctets a b c d) 2) = c"
    by (simp only: uint_v4 uint_ofOctets [OF assms])
  have "?x mod 256 = d"
    using b by (intro int_mod_pos_eq [where q = "a * 65536 + b * 256 + c"]) (simp_all add: algebra_simps)
  then show "uint (v4 (ofOctets a b c d) 3) = d"
    by (simp only: uint_v4 uint_ofOctets [OF assms])
qed

lemmas v4_ofOctets' = v4_ofOctets [unfolded One_nat_def]

lemma uint_minus_1: "uint (- 1 :: ip4addr) = 4294967295"
  by (simp add: unsigned_minus_1_eq_mask mask_eq_exp_minus_1)

lemma octet_v4: "octet (uint (v4 w i))"
  by (auto simp: octet_def v4_def uint_and and_255)

lemma ofOctets_v4: "ofOctets (uint (v4 w 0)) (uint (v4 w 1)) (uint (v4 w 2)) (uint (v4 w 3)) = w"
proof -
  define x where "x = uint w"
  have x: "0 \<le> x" "x < 4294967296"
    using uint_bounded [of w] by (simp_all add: x_def)
  have d: "x div 65536 = x div 256 div 256" "x div 16777216 = x div 256 div 256 div 256"
    by (simp_all flip: zdiv_zmult2_eq)
  have m: "y mod 256 = y - 256 * (y div 256)" for y :: int
    by (simp add: minus_mult_div_eq_mod)
  have "x div 256 div 256 div 256 div 256 = 0"
    using x by (simp flip: zdiv_zmult2_eq)
  then have "x div 16777216 mod 256 * 16777216 + x div 65536 mod 256 * 65536 + x div 256 mod 256 * 256 +
      x mod 256 = x"
    unfolding d m by simp
  then show ?thesis
    by (simp only: word_uint_eq_iff uint_ofOctets [OF octet_v4 octet_v4 octet_v4 octet_v4]) (simp only: uint_v4 x_def)
qed

lemma ofOctets_eq_iff:
  assumes "octet a" "octet b" "octet c" "octet d"
  shows "ofOctets a b c d = w \<longleftrightarrow>
     a = uint (v4 w 0) \<and> b = uint (v4 w 1) \<and> c = uint (v4 w 2) \<and> d = uint (v4 w 3)"
  using v4_ofOctets [OF assms] ofOctets_v4 [of w] by metis

text \<open>The tests of the code on an address in octets.\<close>

lemma prefix4_div:
  "prefixContains (Prefix4 p n) (IP4 w) \<longleftrightarrow> uint w div 2 ^ (32 - n) = uint p div 2 ^ (32 - n)"
  by (simp only: prefixContains.simps word_div_eq eq_commute)

definition restrictedOctets :: "int \<Rightarrow> int \<Rightarrow> int \<Rightarrow> int \<Rightarrow> bool" where
  "restrictedOctets a b c d \<longleftrightarrow>
     a = 0 \<or> a = 10 \<or> a = 127 \<or> 224 \<le> a \<or> a = 100 \<and> 64 \<le> b \<and> b \<le> 127 \<or> a = 169 \<and> b = 254 \<or>
     a = 172 \<and> 16 \<le> b \<and> b \<le> 31 \<or>
     a = 192 \<and> (b = 168 \<or> b = 0 \<and> c = 0 \<and> d \<noteq> 9 \<and> d \<noteq> 10 \<or> b = 0 \<and> c = 2 \<or> b = 88 \<and> c = 99) \<or>
     a = 198 \<and> (b = 18 \<or> b = 19 \<or> b = 51 \<and> c = 100) \<or> a = 203 \<and> b = 0 \<and> c = 113"

lemma div_iff_bounds: "0 < k \<Longrightarrow> x div k = q \<longleftrightarrow> q * k \<le> x \<and> x < q * k + k" for x k q :: int
proof
  assume k: "0 < k" and q: "x div k = q"
  then have "x = q * k + x mod k"
    using div_mult_mod_eq [of x k] by simp
  then show "q * k \<le> x \<and> x < q * k + k"
    using pos_mod_bound [OF k, of x] pos_mod_sign [OF k, of x] by linarith
next
  assume "0 < k" "q * k \<le> x \<and> x < q * k + k"
  then show "x div k = q"
    by (intro int_div_pos_eq [where r = "x - q * k"]) (simp_all add: algebra_simps)
qed

lemma digit_iff:
  assumes "0 \<le> q" "q < k" "r' < k" "0 \<le> (r'::int)"
  shows "a * k + q = a' * k + r' \<longleftrightarrow> a = a' \<and> q = (r'::int)"
proof
  assume eq: "a * k + q = a' * k + r'"
  have "(a * k + q) div k = a" "(a' * k + r') div k = a'"
    using assms by (auto intro: int_div_pos_eq)
  with eq have "a = a'" by simp
  with eq show "a = a' \<and> q = r'" by simp
qed simp

lemma three_octets:
  assumes "octet b" "octet c" and k: "k = (a' * 256 + b') * 256 + c'" and "octet b'" "octet c'"
  shows "a * 65536 + b * 256 + c = k \<longleftrightarrow> a = a' \<and> b = b' \<and> c = c'"
proof -
  have "a * 65536 + b * 256 + c = (a * 256 + b) * 256 + c" by simp
  then show ?thesis
    using digit_iff [of c 256 c' "a * 256 + b" "a' * 256 + b'"] digit_iff [of b 256 b' a a'] assms
    by (simp only: octet_def k) blast
qed

lemma global4:
  assumes o: "octet a" "octet b" "octet c" "octet d"
  shows "isGlobalUnicast (IP4 (ofOctets a b c d)) \<longleftrightarrow>
    a * 16777216 + b * 65536 + c * 256 + d \<noteq> 0 \<and> a * 16777216 + b * 65536 + c * 256 + d \<noteq> 4294967295 \<and>
    a \<noteq> 127 \<and> a div 16 \<noteq> 14 \<and> \<not> (a = 169 \<and> b = 254)"
  using o by (simp add: isGlobalUnicast_def word_uint_eq_iff uint_ofOctets v4_ofOctets' uint_and
      and_240_byte octet_def uint_minus_1)

lemma private4:
  assumes o: "octet a" "octet b" "octet c" "octet d"
  shows "isPrivate4 (ofOctets a b c d) \<longleftrightarrow>
    a = 10 \<or> a = 172 \<and> b div 16 = 1 \<or> a = 192 \<and> b = 168"
  using o by (simp add: isPrivate4_def word_uint_eq_iff v4_ofOctets' uint_and and_240_byte octet_def)

lemma uint_div:
  assumes o: "octet a" "octet b" "octet c" "octet d"
  shows "uint (ofOctets a b c d) div 268435456 = a div 16"
  "uint (ofOctets a b c d) div 16777216 = a"
  "uint (ofOctets a b c d) div 4194304 = a * 4 + b div 64"
  "uint (ofOctets a b c d) div 131072 = a * 128 + b div 2"
  "uint (ofOctets a b c d) div 256 = a * 65536 + b * 256 + c"
proof -
  let ?x = "a * 16777216 + b * 65536 + c * 256 + d"
  have x: "uint (ofOctets a b c d) = ?x"
    using o by (rule uint_ofOctets)
  have b: "0 \<le> a" "a < 256" "0 \<le> b" "b < 256" "0 \<le> c" "c < 256" "0 \<le> d" "d < 256"
    using o by (simp_all add: octet_def)
  have "?x div 16777216 = a"
    using b by (intro int_div_pos_eq [where r = "b * 65536 + c * 256 + d"]) linarith+
  moreover have "?x div 256 = a * 65536 + b * 256 + c"
    using b by (intro int_div_pos_eq [where r = d]) (simp_all add: algebra_simps)
  moreover have "?x div 65536 = a * 256 + b"
    using b by (intro int_div_pos_eq [where r = "c * 256 + d"]) (simp_all add: algebra_simps)
  ultimately have q: "?x div 16777216 = a" "?x div 256 = a * 65536 + b * 256 + c" "?x div 65536 = a * 256 + b"
    by blast+
  show "uint (ofOctets a b c d) div 16777216 = a" "uint (ofOctets a b c d) div 256 = a * 65536 + b * 256 + c"
    using q by (simp_all add: x)
  have "?x div 268435456 = ?x div 16777216 div 16" "?x div 4194304 = ?x div 65536 div 64"
    "?x div 131072 = ?x div 65536 div 2"
    by (simp_all flip: zdiv_zmult2_eq)
  moreover have "(a * 256 + b) div 64 = a * 4 + b div 64" "(a * 256 + b) div 2 = a * 128 + b div 2"
    using div_mult_self4 [of 64 "a * 4" b] div_mult_self4 [of 2 "a * 128" b] by simp_all
  ultimately show "uint (ofOctets a b c d) div 268435456 = a div 16"
    "uint (ofOctets a b c d) div 4194304 = a * 4 + b div 64"
    "uint (ofOctets a b c d) div 131072 = a * 128 + b div 2"
    by (simp_all only: x q)
qed

lemma prefix10:
  assumes o: "octet a" "octet b" "octet c" "octet d"
  shows "a * 4 + b div 64 = 401 \<longleftrightarrow> a = 100 \<and> 64 \<le> b \<and> b \<le> 127"
proof -
  have "0 \<le> b" "b < 256" using o by (simp_all add: octet_def)
  then have "0 \<le> b div 64" "b div 64 < 4" by presburger+
  then show ?thesis
    using digit_iff [of "b div 64" 4 1 a 100] div_iff_bounds [of 64 b 1] by auto
qed

lemma prefix15:
  assumes o: "octet a" "octet b" "octet c" "octet d"
  shows "a * 128 + b div 2 = 25353 \<longleftrightarrow> a = 198 \<and> (b = 18 \<or> b = 19)"
proof -
  have "0 \<le> b" "b < 256" using o by (simp_all add: octet_def)
  then have "0 \<le> b div 2" "b div 2 < 128" by presburger+
  then show ?thesis
    using digit_iff [of "b div 2" 128 9 a 198] div_iff_bounds [of 2 b 9] by auto
qed

lemma prefix4:
  assumes o: "octet a" "octet b" "octet c" "octet d"
  shows "a div 16 = 15 \<longleftrightarrow> 240 \<le> a"
  using o div_iff_bounds [of 16 a 15] by (simp add: octet_def)

lemma prefix24:
  assumes o: "octet a" "octet b" "octet c" "octet d"
  shows "a * 65536 + b * 256 + c = 12582912 \<longleftrightarrow> a = 192 \<and> b = 0 \<and> c = 0"
  "a * 65536 + b * 256 + c = 12582914 \<longleftrightarrow> a = 192 \<and> b = 0 \<and> c = 2"
  "a * 65536 + b * 256 + c = 12605539 \<longleftrightarrow> a = 192 \<and> b = 88 \<and> c = 99"
  "a * 65536 + b * 256 + c = 12989284 \<longleftrightarrow> a = 198 \<and> b = 51 \<and> c = 100"
  "a * 65536 + b * 256 + c = 13303921 \<longleftrightarrow> a = 203 \<and> b = 0 \<and> c = 113"
  using o by (intro three_octets; simp add: octet_def)+

lemma prefix32:
  assumes o: "octet a" "octet b" "octet c" "octet d"
  shows "uint (ofOctets a b c d) = 3221225481 \<longleftrightarrow> a = 192 \<and> b = 0 \<and> c = 0 \<and> d = 9"
  "uint (ofOctets a b c d) = 3221225482 \<longleftrightarrow> a = 192 \<and> b = 0 \<and> c = 0 \<and> d = 10"
  using ofOctets_eq_iff [OF o, of 3221225481] ofOctets_eq_iff [OF o, of 3221225482]
  by (simp_all add: word_uint_eq_iff uint_v4 uint_v4 [unfolded One_nat_def])

lemma rules4:
  assumes o: "octet a" "octet b" "octet c" "octet d"
  shows "prefixContains (Prefix4 0 8) (IP4 (ofOctets a b c d)) \<longleftrightarrow> a = 0"
  "prefixContains (Prefix4 0x64400000 10) (IP4 (ofOctets a b c d)) \<longleftrightarrow> a = 100 \<and> 64 \<le> b \<and> b \<le> 127"
  "prefixContains (Prefix4 0xC0000000 24) (IP4 (ofOctets a b c d)) \<longleftrightarrow> a = 192 \<and> b = 0 \<and> c = 0"
  "prefixContains (Prefix4 0xC0000009 32) (IP4 (ofOctets a b c d)) \<longleftrightarrow> a = 192 \<and> b = 0 \<and> c = 0 \<and> d = 9"
  "prefixContains (Prefix4 0xC000000A 32) (IP4 (ofOctets a b c d)) \<longleftrightarrow> a = 192 \<and> b = 0 \<and> c = 0 \<and> d = 10"
  "prefixContains (Prefix4 0xC0000200 24) (IP4 (ofOctets a b c d)) \<longleftrightarrow> a = 192 \<and> b = 0 \<and> c = 2"
  "prefixContains (Prefix4 0xC0586300 24) (IP4 (ofOctets a b c d)) \<longleftrightarrow> a = 192 \<and> b = 88 \<and> c = 99"
  "prefixContains (Prefix4 0xC6120000 15) (IP4 (ofOctets a b c d)) \<longleftrightarrow> a = 198 \<and> (b = 18 \<or> b = 19)"
  "prefixContains (Prefix4 0xC6336400 24) (IP4 (ofOctets a b c d)) \<longleftrightarrow> a = 198 \<and> b = 51 \<and> c = 100"
  "prefixContains (Prefix4 0xCB007100 24) (IP4 (ofOctets a b c d)) \<longleftrightarrow> a = 203 \<and> b = 0 \<and> c = 113"
  "prefixContains (Prefix4 0xF0000000 4) (IP4 (ofOctets a b c d)) \<longleftrightarrow> 240 \<le> a"
  by (simp_all add: prefix4_div uint_div [OF o] prefix10 [OF o] prefix15 [OF o] prefix4 [OF o] prefix24 [OF o] prefix32 [OF o]
      del: prefixContains.simps)

text \<open>A rule is skipped or taken according to the length of the match so far.\<close>

lemma table4:
  assumes "octet a" "octet b" "octet c" "octet d"
  shows "fst (longestMatch (IP4 (ofOctets a b c d)) specialPurposePrefixes) \<longleftrightarrow>
     a = 0 \<or> 240 \<le> a \<or> a = 100 \<and> 64 \<le> b \<and> b \<le> 127 \<or>
     a = 192 \<and> (b = 0 \<and> c = 0 \<and> d \<noteq> 9 \<and> d \<noteq> 10 \<or> b = 0 \<and> c = 2 \<or> b = 88 \<and> c = 99) \<or>
     a = 198 \<and> (b = 18 \<or> b = 19 \<or> b = 51 \<and> c = 100) \<or> a = 203 \<and> b = 0 \<and> c = 113"
proof -
  note m = specialPurposePrefixes_eval longestMatch_def rules4 octet_def
  consider "a = 192" | "a = 198" | "a \<noteq> 192" "a \<noteq> 198" by blast
  then show ?thesis
  proof cases
    case 1
    consider "b = 0" | "b = 88" | "b \<noteq> 0" "b \<noteq> 88" by blast
    then show ?thesis
      using 1 assms by cases (simp_all add: m del: prefixContains.simps(1))
  next
    case 2
    then show ?thesis using assms by (simp add: m del: prefixContains.simps(1))
  next
    case 3
    consider "a = 0" | "a = 100" | "a = 203" | "a \<noteq> 0" "a \<noteq> 100" "a \<noteq> 203" by blast
    then show ?thesis
      using 3 assms by cases (simp_all add: m del: prefixContains.simps(1))
  qed
qed

lemma restricted4:
  assumes o: "octet a" "octet b" "octet c" "octet d"
  shows "IsRestrictedAddr (IP4 (ofOctets a b c d)) = restrictedOctets a b c d"
proof -
  have "0 \<le> a" "a < 256" "0 \<le> b" "b < 256" "0 \<le> c" "c < 256" "0 \<le> d" "d < 256"
    using o by (simp_all add: octet_def)
  moreover have "a div 16 = 14 \<longleftrightarrow> 224 \<le> a \<and> a < 240" "b div 16 = 1 \<longleftrightarrow> 16 \<le> b \<and> b < 32"
    using div_iff_bounds [of 16 a 14] div_iff_bounds [of 16 b 1] by auto
  moreover from calculation
  have "a * 16777216 + b * 65536 + c * 256 + d = 0 \<Longrightarrow> a = 0"
    "a * 16777216 + b * 65536 + c * 256 + d = 4294967295 \<Longrightarrow> 240 \<le> a"
    by linarith+
  moreover have "a < 240 \<longleftrightarrow> \<not> 240 \<le> a" "240 \<le> a \<Longrightarrow> 224 \<le> a" "b < 32 \<longleftrightarrow> b \<le> 31"
    by linarith+
  moreover have "IsRestrictedAddr (IP4 (ofOctets a b c d)) \<longleftrightarrow>
      \<not> isGlobalUnicast (IP4 (ofOctets a b c d)) \<or> isPrivate4 (ofOctets a b c d) \<or>
      fst (longestMatch (IP4 (ofOctets a b c d)) specialPurposePrefixes)"
    by (subst IsRestrictedAddr.simps) (auto simp: embeddedIP4_def Let_def)
  ultimately show ?thesis
    unfolding restrictedOctets_def global4 [OF o] private4 [OF o] table4 [OF o] by argo
qed

section \<open>Encodings of an IPv4 address\<close>

text \<open>The address in \<open>hi * 2 ^ 32\<close> and its last 32 bits: \<open>::ffff:w\<close> and \<open>64:ff9b::w\<close>.\<close>

definition overIP4 :: "int \<Rightarrow> ip4addr \<Rightarrow> ip6addr" where
  "overIP4 hi w = word_of_int (hi * 2 ^ 32 + uint w)"

definition mappedIP4 :: "ip4addr \<Rightarrow> ip6addr" where
  "mappedIP4 = overIP4 65535"

definition translatedIP4 :: "ip4addr \<Rightarrow> ip6addr" where
  "translatedIP4 = overIP4 (0x64FF9B * 2 ^ 64)"

lemma uint_ip4: "0 \<le> uint w" "uint w < 4294967296" for w :: ip4addr
  using uint_bounded [of w] by simp_all

lemma uint_overIP4: "0 \<le> hi \<Longrightarrow> hi < 2 ^ 96 \<Longrightarrow> uint (overIP4 hi w) = hi * 4294967296 + uint w"
  using uint_ip4 [of w] by (simp only: overIP4_def uint_word_of_int) simp

lemma lastIP4_over: "0 \<le> hi \<Longrightarrow> hi < 2 ^ 96 \<Longrightarrow> lastIP4 (overIP4 hi w) = w"
proof -
  assume "0 \<le> hi" "hi < 2 ^ 96"
  then have "uint (lastIP4 (overIP4 hi w)) = (hi * 4294967296 + uint w) mod 4294967296"
    by (simp add: lastIP4_def unsigned_ucast_eq uint_overIP4 take_bit_eq_mod)
  also have "\<dots> = uint w"
    using uint_ip4 [of w] by (intro int_mod_pos_eq) auto
  finally show ?thesis by (simp add: word_uint_eq_iff)
qed

lemma drop_over: "0 \<le> hi \<Longrightarrow> hi < 2 ^ 96 \<Longrightarrow> drop_bit 32 (overIP4 hi w) = word_of_int hi"
proof -
  assume hi: "0 \<le> hi" "hi < 2 ^ 96"
  have "(hi * 4294967296 + uint w) div 4294967296 = hi"
    using uint_ip4 [of w] by (intro int_div_pos_eq) auto
  then show ?thesis
    using hi by (simp only: word_uint_eq_iff uint_drop_word uint_word_of_int uint_overIP4) simp
qed

lemma embedded_policy:
  "IsRestrictedAddr (IP6 (mappedIP4 w) z) = IsRestrictedAddr (IP4 w)"
  "IsRestrictedAddr (IP6 (translatedIP4 w) z) = IsRestrictedAddr (IP4 w)"
proof -
  show "IsRestrictedAddr (IP6 (mappedIP4 w) z) = IsRestrictedAddr (IP4 w)"
    by (subst (1 2) IsRestrictedAddr.simps) (simp add: mappedIP4_def is4In6_def drop_over lastIP4_over)
  let ?t = "translatedIP4 w"
  have d: "drop_bit 32 ?t = word_of_int (0x64FF9B * 2 ^ 64)" and l: "lastIP4 ?t = w"
    and u: "uint ?t = 0x64FF9B * 2 ^ 96 + uint w"
    by (simp_all only: translatedIP4_def) (simp_all add: drop_over lastIP4_over uint_overIP4)
  have h: "drop_bit 112 ?t = 0x64" "drop_bit 120 ?t = 0"
    unfolding word_uint_eq_iff uint_drop_word u using uint_ip4 [of w]
    by (auto intro!: int_div_pos_eq [where q = 100 and r = "0xFF9B * 2 ^ 96 + uint w"]
        int_div_pos_eq [where q = 0 and r = "0x64FF9B * 2 ^ 96 + uint w"])
  have n: "\<not> is4In6 ?t"
    by (simp add: is4In6_def d)
  have g: "isGlobalUnicast (IP6 ?t [])" "\<not> isPrivate (IP6 ?t [])"
    using h by (auto simp: isGlobalUnicast_def n v6_def v6u16_def)
  have e: "embeddedIP4 (IP6 ?t []) = Some w"
    by (simp add: embeddedIP4_def nat64_eval d l)
  show "IsRestrictedAddr (IP6 ?t z) = IsRestrictedAddr (IP4 w)"
    by (subst IsRestrictedAddr.simps) (simp add: n g e del: isPrivate.simps)
qed

section \<open>The other IPv6 addresses\<close>

text \<open>The restricted networks of IPv6, for an address as a number \<open>x\<close> of 128 bits: link-local, unique
  local and multicast addresses, and the table: \<open>::/96\<close>, \<open>64:ff9b:1::/48\<close>, \<open>100::/64\<close>, \<open>100:0:0:1::/64\<close>,
  \<open>2001::/23\<close> with its exceptions, \<open>2001:db8::/32\<close>, \<open>2002::/16\<close>, \<open>3fff::/20\<close>, \<open>5f00::/16\<close> and \<open>fec0::/10\<close>.\<close>

definition exceptions6 :: "int \<Rightarrow> bool" where
  "exceptions6 x \<longleftrightarrow> x \<in> {0x20010001000000000000000000000001, 0x20010001000000000000000000000002,
       0x20010001000000000000000000000003} \<or>
     x div 2 ^ 96 = 0x20010003 \<or> x div 2 ^ 80 = 0x200100040112 \<or> x div 2 ^ 100 = 0x2001002 \<or> x div 2 ^ 100 = 0x2001003"

definition reserved6 :: "int \<Rightarrow> bool" where
  "reserved6 x \<longleftrightarrow> x div 2 ^ 32 = 0 \<or> x div 2 ^ 80 = 0x0064FF9B0001 \<or> x div 2 ^ 64 = 0x0100000000000000 \<or>
     x div 2 ^ 64 = 0x0100000000000001 \<or> x div 2 ^ 96 = 0x20010DB8 \<or> x div 2 ^ 112 = 0x2002 \<or>
     x div 2 ^ 108 = 0x3FFF0 \<or> x div 2 ^ 112 = 0x5F00 \<or> x div 2 ^ 118 = 0x3FB"

definition restricted6 :: "int \<Rightarrow> bool" where
  "restricted6 x \<longleftrightarrow> x div 2 ^ 118 = 0x3FA \<or> x div 2 ^ 121 = 0x7E \<or> x div 2 ^ 120 = 0xFF \<or>
     reserved6 x \<or> x div 2 ^ 105 = 0x100080 \<and> \<not> exceptions6 x"

text \<open>A table whose matching rules all restrict, and one in which a single rule restricts and longer ones
  except.\<close>

lemma matchStep_restricts:
  assumes "\<And>p r. (p, r) \<in> set rules \<Longrightarrow> prefixContains p addr \<Longrightarrow> r" and "b \<or> l = - 1"
  shows "fst (foldl (\<lambda>(restricted, longest) (p, r). if longest < prefixBits p \<and> prefixContains p addr
      then (r, prefixBits p) else (restricted, longest)) (b, l) rules) \<longleftrightarrow>
    b \<or> (\<exists>(p, r) \<in> set rules. prefixContains p addr)"
  using assms
proof (induction rules arbitrary: b l rule: list.induct)
  case (Cons rule rules)
  obtain p r where rule: "rule = (p, r)" by (cases rule)
  have rest: "\<And>q s. (q, s) \<in> set rules \<Longrightarrow> prefixContains q addr \<Longrightarrow> s" and r: "prefixContains p addr \<Longrightarrow> r"
    using Cons.prems(1) by (auto simp: rule)
  have "- 1 < prefixBits p" by (cases p) simp_all
  then show ?case
    using Cons.IH [OF rest, where b = b and l = l] Cons.IH [OF rest, where b = True and l = "prefixBits p"] Cons.prems(2) r
    by (cases "prefixContains p addr"; cases "l < prefixBits p") (simp_all add: rule)
qed simp

lemma matchStep_excepts:
  assumes "\<And>p r. (p, r) \<in> set rules \<Longrightarrow> prefixContains p addr \<Longrightarrow> \<not> r \<and> k < prefixBits p" and "b \<longrightarrow> l = k"
  shows "fst (foldl (\<lambda>(restricted, longest) (p, r). if longest < prefixBits p \<and> prefixContains p addr
      then (r, prefixBits p) else (restricted, longest)) (b, l) rules) \<longleftrightarrow>
    b \<and> \<not> (\<exists>(p, r) \<in> set rules. prefixContains p addr)"
  using assms
proof (induction rules arbitrary: b l rule: list.induct)
  case (Cons rule rules)
  obtain p r where rule: "rule = (p, r)" by (cases rule)
  have rest: "\<And>q s. (q, s) \<in> set rules \<Longrightarrow> prefixContains q addr \<Longrightarrow> \<not> s \<and> k < prefixBits q"
    and r: "prefixContains p addr \<Longrightarrow> \<not> r \<and> k < prefixBits p"
    using Cons.prems(1) by (auto simp: rule)
  show ?case
    using Cons.IH [OF rest, where b = b and l = l] Cons.IH [OF rest, where b = False and l = "prefixBits p"] Cons.prems(2) r
    by (cases "prefixContains p addr"; cases "l < prefixBits p") (simp_all add: rule)
qed simp

lemma longestMatch_restricts:
  assumes "list_all (\<lambda>(p, r). prefixContains p addr \<longrightarrow> r) rules"
  shows "fst (longestMatch addr rules) \<longleftrightarrow> list_ex (\<lambda>(p, r). prefixContains p addr) rules"
  using matchStep_restricts [of rules addr False "- 1"] assms
  unfolding longestMatch_def list_all_iff list_ex_iff by fastforce

lemma longestMatch_excepts:
  assumes "list_all (\<lambda>(p, r). \<not> prefixContains p addr) before" and "prefixContains p addr"
    and "list_all (\<lambda>(q, r). prefixContains q addr \<longrightarrow> \<not> r \<and> prefixBits p < prefixBits q) after"
  shows "fst (longestMatch addr (before @ (p, True) # after)) \<longleftrightarrow> \<not> list_ex (\<lambda>(q, r). prefixContains q addr) after"
proof -
  have skip: "foldl (\<lambda>(restricted, longest) (p, r). if longest < prefixBits p \<and> prefixContains p addr
      then (r, prefixBits p) else (restricted, longest)) s before = s" for s
    using assms(1) by (induction before arbitrary: s) (auto split: prod.splits)
  have "- 1 < prefixBits p" by (cases p) simp_all
  moreover have "\<And>q r. (q, r) \<in> set after \<Longrightarrow> prefixContains q addr \<Longrightarrow> \<not> r \<and> prefixBits p < prefixBits q"
    using assms(3) by (auto simp: list_all_iff)
  then have "fst (foldl (\<lambda>(restricted, longest) (p, r). if longest < prefixBits p \<and> prefixContains p addr
      then (r, prefixBits p) else (restricted, longest)) (True, prefixBits p) after) \<longleftrightarrow>
      \<not> (\<exists>(q, r) \<in> set after. prefixContains q addr)"
    by (subst matchStep_excepts) blast+
  ultimately show ?thesis
    unfolding longestMatch_def foldl_append skip list_ex_iff using assms(2) by simp
qed

text \<open>A network is an interval of numbers.\<close>

lemma net_bounds: "x div 2 ^ k = c \<longleftrightarrow> c * 2 ^ k \<le> x \<and> x < c * 2 ^ k + 2 ^ k" for x c :: int
  by (rule div_iff_bounds) simp

lemma exceptions_inside: "exceptions6 x \<Longrightarrow> x div 2 ^ 105 = 0x100080"
  unfolding exceptions6_def net_bounds by (elim disjE insertE emptyE; simp)

lemma reserved_outside: "reserved6 x \<Longrightarrow> x div 2 ^ 105 \<noteq> 0x100080"
  unfolding reserved6_def net_bounds by (elim disjE; simp)

text \<open>The classes of \<open>net/netip\<close> in numbers.\<close>

lemma and_block: "0 \<le> n \<Longrightarrow> n < 2 ^ (j + m) \<Longrightarrow> n AND push_bit j (mask m) = 2 ^ j * (n div 2 ^ j)" for n :: int
proof -
  assume n: "0 \<le> n" "n < 2 ^ (j + m)"
  have "2 ^ j * (n div 2 ^ j) = push_bit j (drop_bit j n)"
    by (simp add: push_bit_eq_mult drop_bit_eq_div mult.commute)
  moreover have "take_bit (j + m) n = n"
    using n by (simp add: take_bit_int_eq_self)
  then have "bit n k \<Longrightarrow> k < j + m" for k
    by (metis bit_take_bit_iff)
  then have "bit n k \<Longrightarrow> j \<le> k \<Longrightarrow> k - j < m" for k
    by (simp add: less_diff_conv2 add.commute)
  then have "n AND push_bit j (mask m) = push_bit j (drop_bit j n)"
    by (intro bit_eqI) (auto simp: bit_and_iff bit_push_bit_iff bit_drop_bit_eq bit_mask_iff)
  ultimately show ?thesis by simp
qed

lemma and_254: "0 \<le> n \<Longrightarrow> n < 256 \<Longrightarrow> n AND 254 = 2 * (n div 2)" for n :: int
  using and_block [of n 1 7] by (simp add: mask_eq_exp_minus_1 push_bit_eq_mult)

lemma and_65472: "0 \<le> n \<Longrightarrow> n < 65536 \<Longrightarrow> n AND 65472 = 64 * (n div 64)" for n :: int
  using and_block [of n 6 10] by (simp add: mask_eq_exp_minus_1 push_bit_eq_mult)

lemma uint_ip6: "0 \<le> uint a" "uint a < 2 ^ 128" for a :: ip6addr
  using uint_bounded [of a] by simp_all

lemma uint_v6: "uint (v6 a 0) = uint a div 2 ^ 120" "uint (v6u16 a 0) = uint a div 2 ^ 112"
  and v6_range: "0 \<le> uint a div 2 ^ 120" "uint a div 2 ^ 120 < 256" "0 \<le> uint a div 2 ^ 112" "uint a div 2 ^ 112 < 65536"
proof -
  show r: "0 \<le> uint a div 2 ^ 120" "uint a div 2 ^ 120 < 256" "0 \<le> uint a div 2 ^ 112" "uint a div 2 ^ 112 < 65536"
    using uint_ip6 [of a] by (simp_all add: div_less_iff_less_mult pos_imp_zdiv_nonneg_iff)
  have "uint (v6 a 0) = uint a div 2 ^ 120 AND 255"
    unfolding v6_def uint_and uint_drop_word by simp
  also have "\<dots> = uint a div 2 ^ 120"
    using r and_block [of "uint a div 2 ^ 120" 0 8] by (simp add: mask_eq_exp_minus_1)
  finally show "uint (v6 a 0) = uint a div 2 ^ 120" .
  have "uint (v6u16 a 0) = uint a div 2 ^ 112 AND 65535"
    unfolding v6u16_def uint_and uint_drop_word by simp
  also have "\<dots> = uint a div 2 ^ 112"
    using r and_block [of "uint a div 2 ^ 112" 0 16] by (simp add: mask_eq_exp_minus_1)
  finally show "uint (v6u16 a 0) = uint a div 2 ^ 112" .
qed

lemma classes6:
  assumes "\<not> is4In6 a"
  shows "isGlobalUnicast (IP6 a []) \<longleftrightarrow>
      uint a \<noteq> 0 \<and> uint a \<noteq> 1 \<and> uint a div 2 ^ 120 \<noteq> 0xFF \<and> uint a div 2 ^ 118 \<noteq> 0x3FA"
    and "isPrivate (IP6 a []) \<longleftrightarrow> uint a div 2 ^ 121 = 0x7E"
proof -
  have "v6 a 0 = 255 \<longleftrightarrow> uint a div 2 ^ 120 = 0xFF"
    by (simp add: word_uint_eq_iff uint_v6)
  moreover have "v6u16 a 0 AND 65472 = 65152 \<longleftrightarrow> uint a div 2 ^ 118 = 0x3FA"
  proof -
    have "uint a div 2 ^ 118 = uint a div 2 ^ 112 div 64"
      by (simp flip: zdiv_zmult2_eq)
    then show ?thesis
      using v6_range [of a] by (simp add: word_uint_eq_iff uint_and uint_v6 and_65472)
  qed
  ultimately show "isGlobalUnicast (IP6 a []) \<longleftrightarrow>
      uint a \<noteq> 0 \<and> uint a \<noteq> 1 \<and> uint a div 2 ^ 120 \<noteq> 0xFF \<and> uint a div 2 ^ 118 \<noteq> 0x3FA"
    using assms by (auto simp: isGlobalUnicast_def word_uint_eq_iff [of a 0] word_uint_eq_iff [of a 1])
  have "uint a div 2 ^ 121 = uint a div 2 ^ 120 div 2"
    by (simp flip: zdiv_zmult2_eq)
  then show "isPrivate (IP6 a []) \<longleftrightarrow> uint a div 2 ^ 121 = 0x7E"
    using v6_range [of a] assms by (simp add: word_uint_eq_iff [of "v6 a 0 AND 254"] uint_and uint_v6 and_254)
qed

text \<open>The rules of the table in numbers.\<close>

lemma prefix6_div:
  "prefixContains (Prefix6 p n) (IP6 a []) \<longleftrightarrow> uint a div 2 ^ (128 - n) = uint p div 2 ^ (128 - n)"
  by (simp only: prefixContains.simps word_div_eq eq_commute simp_thms)

lemma rules6:
  "prefixContains (Prefix6 0 96) (IP6 a []) \<longleftrightarrow> uint a div 2 ^ 32 = 0"
  "prefixContains (Prefix6 0x0064FF9B000100000000000000000000 48) (IP6 a []) \<longleftrightarrow> uint a div 2 ^ 80 = 0x0064FF9B0001"
  "prefixContains (Prefix6 0x01000000000000000000000000000000 64) (IP6 a []) \<longleftrightarrow> uint a div 2 ^ 64 = 0x0100000000000000"
  "prefixContains (Prefix6 0x01000000000000010000000000000000 64) (IP6 a []) \<longleftrightarrow> uint a div 2 ^ 64 = 0x0100000000000001"
  "prefixContains (Prefix6 0x20010000000000000000000000000000 23) (IP6 a []) \<longleftrightarrow> uint a div 2 ^ 105 = 0x100080"
  "prefixContains (Prefix6 0x20010001000000000000000000000001 128) (IP6 a []) \<longleftrightarrow> uint a = 0x20010001000000000000000000000001"
  "prefixContains (Prefix6 0x20010001000000000000000000000002 128) (IP6 a []) \<longleftrightarrow> uint a = 0x20010001000000000000000000000002"
  "prefixContains (Prefix6 0x20010001000000000000000000000003 128) (IP6 a []) \<longleftrightarrow> uint a = 0x20010001000000000000000000000003"
  "prefixContains (Prefix6 0x20010003000000000000000000000000 32) (IP6 a []) \<longleftrightarrow> uint a div 2 ^ 96 = 0x20010003"
  "prefixContains (Prefix6 0x20010004011200000000000000000000 48) (IP6 a []) \<longleftrightarrow> uint a div 2 ^ 80 = 0x200100040112"
  "prefixContains (Prefix6 0x20010020000000000000000000000000 28) (IP6 a []) \<longleftrightarrow> uint a div 2 ^ 100 = 0x2001002"
  "prefixContains (Prefix6 0x20010030000000000000000000000000 28) (IP6 a []) \<longleftrightarrow> uint a div 2 ^ 100 = 0x2001003"
  "prefixContains (Prefix6 0x20010DB8000000000000000000000000 32) (IP6 a []) \<longleftrightarrow> uint a div 2 ^ 96 = 0x20010DB8"
  "prefixContains (Prefix6 0x20020000000000000000000000000000 16) (IP6 a []) \<longleftrightarrow> uint a div 2 ^ 112 = 0x2002"
  "prefixContains (Prefix6 0x3FFF0000000000000000000000000000 20) (IP6 a []) \<longleftrightarrow> uint a div 2 ^ 108 = 0x3FFF0"
  "prefixContains (Prefix6 0x5F000000000000000000000000000000 16) (IP6 a []) \<longleftrightarrow> uint a div 2 ^ 112 = 0x5F00"
  "prefixContains (Prefix6 0xFEC00000000000000000000000000000 10) (IP6 a []) \<longleftrightarrow> uint a div 2 ^ 118 = 0x3FB"
  "prefixContains (Prefix4 p n) (IP6 a []) = False"
  unfolding prefix6_div by simp_all

lemma table6:
  "fst (longestMatch (IP6 a []) specialPurposePrefixes) \<longleftrightarrow>
     reserved6 (uint a) \<or> uint a div 2 ^ 105 = 0x100080 \<and> \<not> exceptions6 (uint a)"
proof (cases "uint a div 2 ^ 105 = 0x100080")
  case True
  then have reserved: "\<not> reserved6 (uint a)" using reserved_outside by blast
  let ?before = "take 15 specialPurposePrefixes" and ?after = "drop 16 specialPurposePrefixes"
  let ?p = "Prefix6 0x20010000000000000000000000000000 23"
  have split: "specialPurposePrefixes = ?before @ (?p, True) # ?after"
    by (simp add: specialPurposePrefixes_eval)
  have "fst (longestMatch (IP6 a []) (?before @ (?p, True) # ?after)) \<longleftrightarrow>
      \<not> list_ex (\<lambda>(q, r). prefixContains q (IP6 a [])) ?after"
  proof (rule longestMatch_excepts)
    show "prefixContains ?p (IP6 a [])" using True by (simp only: rules6)
    show "list_all (\<lambda>(p, r). \<not> prefixContains p (IP6 a [])) ?before"
      using reserved by (simp add: specialPurposePrefixes_eval rules6 reserved6_def del: prefixContains.simps)
    show "list_all (\<lambda>(q, r). prefixContains q (IP6 a []) \<longrightarrow> \<not> r \<and> prefixBits ?p < prefixBits q) ?after"
      using reserved by (simp add: specialPurposePrefixes_eval rules6 reserved6_def del: prefixContains.simps)
  qed
  moreover have "list_ex (\<lambda>(q, r). prefixContains q (IP6 a [])) ?after \<longleftrightarrow> exceptions6 (uint a)"
    using reserved
    by (simp add: specialPurposePrefixes_eval rules6 reserved6_def exceptions6_def del: prefixContains.simps)
  ultimately show ?thesis
    using True reserved by (simp only: split [symmetric]) simp
next
  case False
  then have exceptions: "\<not> exceptions6 (uint a)" using exceptions_inside by blast
  then have "list_all (\<lambda>(p, r). prefixContains p (IP6 a []) \<longrightarrow> r) specialPurposePrefixes"
    by (simp add: specialPurposePrefixes_eval rules6 exceptions6_def del: prefixContains.simps)
  then show ?thesis
    using False exceptions
    by (simp add: longestMatch_restricts)
      (simp add: specialPurposePrefixes_eval rules6 reserved6_def exceptions6_def del: prefixContains.simps)
qed

lemma over_lastIP4: "overIP4 (uint a div 2 ^ 32) (lastIP4 a) = a"
proof -
  have "uint (lastIP4 a) = uint a mod 2 ^ 32"
    by (simp add: lastIP4_def unsigned_ucast_eq take_bit_eq_mod)
  then have "uint a div 2 ^ 32 * 2 ^ 32 + uint (lastIP4 a) = uint a"
    by (simp only: div_mult_mod_eq)
  then show ?thesis by (simp only: overIP4_def word_of_int_uint)
qed

lemma embedded6:
  assumes "uint a div 2 ^ 32 \<in> {0xFFFF, 0x64FF9B0000000000000000}"
  shows "IsRestrictedAddr (IP6 a z) = IsRestrictedAddr (IP4 (lastIP4 a))"
  using embedded_policy [of "lastIP4 a" z] over_lastIP4 [of a] assms
  by (auto simp: mappedIP4_def translatedIP4_def)

lemma plain6:
  assumes "uint a div 2 ^ 32 \<notin> {0xFFFF, 0x64FF9B0000000000000000}"
  shows "IsRestrictedAddr (IP6 a z) = restricted6 (uint a)"
proof -
  have n: "\<not> is4In6 a"
    using assms by (simp add: is4In6_def word_uint_eq_iff uint_drop_word)
  have e: "embeddedIP4 (IP6 a []) = None"
    using assms by (simp add: embeddedIP4_def nat64_eval prefix6_div del: prefixContains.simps)
  have "IsRestrictedAddr (IP6 a z) \<longleftrightarrow> \<not> isGlobalUnicast (IP6 a []) \<or> isPrivate (IP6 a []) \<or>
      fst (longestMatch (IP6 a []) specialPurposePrefixes)"
    by (subst IsRestrictedAddr.simps) (simp add: n e Let_def del: isPrivate.simps)
  moreover have "uint a = 0 \<or> uint a = 1 \<Longrightarrow> reserved6 (uint a)"
    by (auto simp: reserved6_def)
  ultimately show ?thesis
    unfolding classes6 [OF n] table6 restricted6_def by blast
qed

text \<open>
  C17. The default address policy in closed form. For IPv4, octet by octet: this network, loopback, private,
  shared, link-local, documentation, benchmarking, relay and protocol addresses and everything from 224
  on are restricted, except the two anycast addresses. For IPv6, with or without a zone: an IPv4-mapped address
  \<open>::ffff:w\<close> and a translated address \<open>64:ff9b::w\<close> are restricted exactly if the IPv4 address \<open>w\<close> is; of the others
  exactly the link-local, unique local and multicast addresses and the reserved networks are restricted, the
  other ways to embed an IPv4 address (\<open>::w\<close>, 6to4, Teredo and local-use translation) among them whatever
  the IPv4 address.
\<close>

theorem restricted_addresses:
  "IsRestrictedAddr (IP4 w) =
     restrictedOctets (uint (v4 w 0)) (uint (v4 w 1)) (uint (v4 w 2)) (uint (v4 w 3)) \<and>
   IsRestrictedAddr (IP6 a z) =
     (if uint a div 2 ^ 32 \<in> {0xFFFF, 0x64FF9B0000000000000000} then IsRestrictedAddr (IP4 (word_of_int (uint a)))
      else restricted6 (uint a))"
  using restricted4 [OF octet_v4 octet_v4 octet_v4 octet_v4, of w 0 w 1 w 2 w 3, unfolded ofOctets_v4]
    embedded6 [of a z] plain6 [of a z]
  by (simp only: lastIP4_def ucast_eq split: if_split) blast

text \<open>The address 8.8.8.8 is allowed, also as a mapped or translated one, but not as an IPv4-compatible
  or a 6to4 address.\<close>

theorem restricted_addresses_witness:
  "\<not> IsRestrictedAddr (IP4 0x08080808) \<and> \<not> IsRestrictedAddr (IP6 0xFFFF08080808 ''eth0'') \<and>
   \<not> IsRestrictedAddr (IP6 0x0064FF9B000000000000000008080808 ''eth0'') \<and>
   IsRestrictedAddr (IP6 0x08080808 ''eth0'') \<and> IsRestrictedAddr (IP6 0x20020808080800000000000000000000 ''eth0'')"
proof -
  have v4: "\<not> IsRestrictedAddr (IP4 0x08080808)"
    using restricted_addresses [of "0x08080808"] by (simp add: uint_v4 uint_v4 [unfolded One_nat_def] restrictedOctets_def)
  then show ?thesis
    using restricted_addresses [of _ "0xFFFF08080808" "''eth0''"] restricted_addresses [of _ "0x0064FF9B000000000000000008080808" "''eth0''"]
      restricted_addresses [of _ "0x08080808" "''eth0''"] restricted_addresses [of _ "0x20020808080800000000000000000000" "''eth0''"]
    by (simp add: restricted6_def reserved6_def uint_v4 uint_v4 [unfolded One_nat_def] restrictedOctets_def)
qed

section \<open>A guarded dial\<close>

text \<open>The resolver and the dialer, with a record of the names looked up and the addresses dialed.\<close>

definition loggedLookup ::
    "(string \<Rightarrow> ('s, netAddr list) netop) \<Rightarrow> string \<Rightarrow> ('s \<times> string list \<times> netAddr list, netAddr list) netop" where
  "loggedLookup resolver host = (\<lambda>(s, hosts, dialed).
     case resolver host s of (r, s') \<Rightarrow> (r, s', hosts @ [host], dialed))"

definition loggedDial ::
    "(string \<Rightarrow> netAddr \<Rightarrow> string \<Rightarrow> ('s, 'conn) netop) \<Rightarrow>
     string \<Rightarrow> netAddr \<Rightarrow> string \<Rightarrow> ('s \<times> string list \<times> netAddr list, 'conn) netop" where
  "loggedDial dial network addr port = (\<lambda>(s, hosts, dialed).
     case dial network addr port s of (r, s') \<Rightarrow> (r, s', hosts, dialed @ [addr]))"

lemma dialAny_log:
  "\<exists>r s' more. dialAny (loggedDial dial) network port addrs errors (s, hosts, dialed) =
     (r, s', hosts, dialed @ more) \<and> set more \<subseteq> set addrs"
proof (induction addrs arbitrary: errors s dialed)
  case (Cons a addrs)
  show ?case
  proof (cases "networkSupportsAddr network a")
    case True
    obtain r s' where d: "dial network a port s = (r, s')"
      by (cases "dial network a port s")
    have step: "loggedDial dial network a port (s, hosts, dialed) = (r, s', hosts, dialed @ [a])"
      by (simp add: loggedDial_def d)
    show ?thesis
    proof (cases r)
      case (Inl e)
      obtain r' s'' more where
        "dialAny (loggedDial dial) network port addrs (errors @ [ErrWrapped ''dial %s: '' e]) (s', hosts, dialed @ [a]) =
          (r', s'', hosts, (dialed @ [a]) @ more)" "set more \<subseteq> set addrs"
        using Cons.IH by blast
      then show ?thesis
        using True step Inl by (intro exI [of _ r'] exI [of _ s''] exI [of _ "a # more"]) auto
    next
      case (Inr c)
      then show ?thesis
        using True step by (intro exI [of _ "Inr c"] exI [of _ s'] exI [of _ "[a]"]) auto
    qed
  next
    case False
    obtain r' s'' more where
      "dialAny (loggedDial dial) network port addrs errors (s, hosts, dialed) = (r', s'', hosts, dialed @ more)"
      "set more \<subseteq> set addrs"
      using Cons.IH by blast
    then show ?thesis
      using False by (intro exI [of _ r'] exI [of _ s''] exI [of _ more]) auto
  qed
qed simp

lemma addressesForDial_log:
  "addressesForDial (loggedLookup resolver) host (s, [], []) =
     (case addressesForDial resolver host s of
        (r, s') \<Rightarrow> (r, s', (if ParseAddr host = None then [host] else []), []))"
  by (auto simp: addressesForDial_def loggedLookup_def split: option.splits prod.splits sum.splits)

lemma restricted_unmap [simp]: "IsRestrictedAddr (unmapAddr a) = IsRestrictedAddr a"
proof -
  have "unmapAddr (unmapAddr a) = unmapAddr a"
    by (cases a) auto
  then show ?thesis
    by (subst (1 2) IsRestrictedAddr.simps) simp
qed

lemma guardedDial_logged:
  assumes "guardedDial (loggedLookup resolver) (loggedDial dial) (Some (\<lambda>a. \<not> IsRestrictedAddr a)) network
      address (s, [], []) = (r, s', hosts, dialed)"
  shows "length hosts \<le> 1 \<and>
    (dialed = [] \<or>
     (\<exists>host port answer s1. splitHostPort address = Some (host, port) \<and>
        addressesForDial resolver host s = (Inr answer, s1) \<and>
        set dialed \<subseteq> set answer \<and> list_all (\<lambda>a. \<not> IsRestrictedAddr a) answer))"
proof (cases "splitHostPort address")
  case None
  then show ?thesis using assms by (simp add: guardedDial_def)
next
  case (Some hp)
  then obtain host port where hp: "splitHostPort address = Some (host, port)" by (cases hp) auto
  obtain r1 s1 where a: "addressesForDial resolver host s = (r1, s1)"
    by (cases "addressesForDial resolver host s")
  let ?hosts = "if ParseAddr host = None then [host] else []"
  have log: "addressesForDial (loggedLookup resolver) host (s, [], []) = (r1, s1, ?hosts, [])"
    by (simp add: addressesForDial_log a)
  show ?thesis
  proof (cases r1)
    case (Inl e)
    then show ?thesis using assms hp log by (auto simp: guardedDial_def)
  next
    case (Inr answer)
    show ?thesis
    proof (cases "answer = [] \<or> list_ex IsRestrictedAddr answer")
      case True
      then show ?thesis
        using assms hp log Inr by (auto simp: guardedDial_def split: if_splits)
    next
      case False
      obtain r2 s2 more where d: "dialAny (loggedDial dial) network port answer [] (s1, ?hosts, []) =
          (r2, s2, ?hosts, [] @ more)" "set more \<subseteq> set answer"
        using dialAny_log [of dial network port answer "[]" s1 ?hosts "[]"] by auto
      have "hosts = ?hosts \<and> dialed = more"
        using assms hp log Inr False d(1)
        by (auto simp: guardedDial_def split: sum.splits list.splits if_splits)
      moreover have "list_all (\<lambda>a. \<not> IsRestrictedAddr a) answer"
        using False by (auto simp: list_all_iff list_ex_iff)
      ultimately show ?thesis
        using hp a Inr d(2) by auto
    qed
  qed
qed

text \<open>
  C16. One dial looks the host up at most once (not at all if it is an address), and dials only addresses
  of that one answer, and only if no address of the answer is restricted: a second lookup cannot
  replace a checked address.
\<close>

theorem guarded_dial:
  "case guardedDial (loggedLookup resolver) (loggedDial dial) (Some (\<lambda>a. \<not> IsRestrictedAddr a)) network
      address (s, [], []) of
    (r, s', hosts, dialed) \<Rightarrow>
      length hosts \<le> 1 \<and>
      (dialed = [] \<or>
       (\<exists>host port answer s1. splitHostPort address = Some (host, port) \<and>
          addressesForDial resolver host s = (Inr answer, s1) \<and>
          set dialed \<subseteq> set answer \<and> list_all (\<lambda>a. \<not> IsRestrictedAddr a) answer))"
proof -
  obtain r s' hosts dialed where e:
    "guardedDial (loggedLookup resolver) (loggedDial dial) (Some (\<lambda>a. \<not> IsRestrictedAddr a)) network
      address (s, [], []) = (r, s', hosts, dialed)"
    by (cases "guardedDial (loggedLookup resolver) (loggedDial dial) (Some (\<lambda>a. \<not> IsRestrictedAddr a)) network
      address (s, [], [])")
  show ?thesis
    unfolding e prod.case by (rule guardedDial_logged [OF e])
qed

end
