(* ===== verification/GitLab_Metadata.thy ===== *)
theory GitLab_Metadata
  imports Provider_Contract
begin

text \<open>
  The ownership metadata that the GitLab provider keeps in the description of a variable
  (\<open>internal/providers/gitlab/project_variables.go\<close>): how a description is written within GitLab's limit
  of 255 bytes, how it is read back, and when it says that a variable belongs to a request. The digest
  function is an argument (\<open>sha\<close>, SHA-256 as raw bytes).
\<close>

definition variableDescriptionMaxBytes :: nat where "variableDescriptionMaxBytes = 255"

definition metadataDescriptionPrefix :: string where "metadataDescriptionPrefix = ''OpenBao sync: ''"
definition metadataDescriptionCompactedPath :: string where "metadataDescriptionCompactedPath = ''path#''"
definition metadataDescriptionCompactedObject :: string where "metadataDescriptionCompactedObject = ''object#''"
definition metadataDescriptionCompactedVersion :: string where "metadataDescriptionCompactedVersion = ''v''"

record variableMetadata =
  vm_AssociationID :: string
  vm_SourcePath :: string
  vm_SourcePathHash :: string
  vm_ObjectID :: string
  vm_ObjectIDHash :: string
  vm_MountUUID :: string
  vm_MountUUIDHash :: string
  vm_RestoreEpoch :: string
  vm_RestoreEpochHash :: string
  vm_SourceVersion :: int
  vm_PayloadSHA256 :: string
  vm_PayloadFormat :: string

definition zeroVariableMetadata :: variableMetadata where
  "zeroVariableMetadata = \<lparr> vm_AssociationID = [], vm_SourcePath = [], vm_SourcePathHash = [], vm_ObjectID = [],
     vm_ObjectIDHash = [], vm_MountUUID = [], vm_MountUUIDHash = [], vm_RestoreEpoch = [],
     vm_RestoreEpochHash = [], vm_SourceVersion = 0, vm_PayloadSHA256 = [], vm_PayloadFormat = [] \<rparr>"

section \<open>Hashes of identities\<close>

text \<open>\<open>base64.RawURLEncoding\<close>: the URL alphabet, no padding.\<close>

definition rawURLBase64 :: "string \<Rightarrow> string" where
  "rawURLBase64 s = map (\<lambda>c. if c = CHR ''+'' then CHR ''-'' else if c = CHR ''/'' then CHR ''_'' else c)
     (filter (\<lambda>c. c \<noteq> CHR ''='') (base64 s))"

definition metadataIdentityHash :: "(string \<Rightarrow> string) \<Rightarrow> string \<Rightarrow> string" where
  "metadataIdentityHash sha v = rawURLBase64 (take 16 (sha v))"

text \<open>\<open>compactWireIdentity\<close> on the pair of a value and its hash; the last component is what it returns.\<close>

definition compactWireIdentity :: "(string \<Rightarrow> string) \<Rightarrow> string \<Rightarrow> string \<Rightarrow> string \<times> string \<times> bool" where
  "compactWireIdentity sha v hash =
     (if v = [] then (v, hash, False)
      else (let compact = metadataIdentityHash sha v
            in if length v \<le> length compact then (v, hash, False) else ([], compact, True)))"

section \<open>Writing a description\<close>

definition escapeMetadataRune :: "string \<Rightarrow> string" where
  "escapeMetadataRune r =
     (if r = [bsl] then [bsl, bsl]
      else if r = '';'' then [bsl, CHR '';'']
      else if r = [CHR 0x0A] then [bsl, CHR ''n'']
      else if r = [CHR 0x0D] then [bsl, CHR ''r'']
      else r)"

definition escapeMetadataDescriptionValue :: "string \<Rightarrow> string" where
  "escapeMetadataDescriptionValue v = concat (map escapeMetadataRune (runes v))"

definition escapeSummaryRune :: "string \<Rightarrow> string" where
  "escapeSummaryRune r = (if r = '' '' then [bsl, CHR ''s''] else escapeMetadataRune r)"

definition escapeMetadataDescriptionSummaryValue :: "string \<Rightarrow> string" where
  "escapeMetadataDescriptionSummaryValue v = concat (map escapeSummaryRune (runes v))"

definition metadataDescriptionSummary :: "variableMetadata \<Rightarrow> string" where
  "metadataDescriptionSummary wire =
     (let source = (if vm_SourcePath wire = [] \<and> vm_SourcePathHash wire \<noteq> []
                    then metadataDescriptionCompactedPath @ vm_SourcePathHash wire else vm_SourcePath wire);
          object = (if vm_ObjectID wire = [] \<and> vm_ObjectIDHash wire \<noteq> []
                    then metadataDescriptionCompactedObject @ vm_ObjectIDHash wire else vm_ObjectID wire)
      in escapeMetadataDescriptionSummaryValue source @ '' '' @
         escapeMetadataDescriptionSummaryValue object @ '' '' @
         metadataDescriptionCompactedVersion @ itoa (vm_SourceVersion wire))"

definition metadataDescriptionFields :: "variableMetadata \<Rightarrow> bool \<Rightarrow> (string \<times> string) list" where
  "metadataDescriptionFields wire compact =
     (if compact
      then [(''a'', vm_AssociationID wire), (''h'', vm_PayloadSHA256 wire), (''f'', vm_PayloadFormat wire),
            (''m'', vm_MountUUID wire), (''mh'', vm_MountUUIDHash wire), (''r'', vm_RestoreEpoch wire),
            (''rh'', vm_RestoreEpochHash wire)]
      else [(''assoc'', vm_AssociationID wire), (''sha'', vm_PayloadSHA256 wire), (''fmt'', vm_PayloadFormat wire),
            (''mount'', vm_MountUUID wire), (''mount_hash'', vm_MountUUIDHash wire), (''epoch'', vm_RestoreEpoch wire),
            (''epoch_hash'', vm_RestoreEpochHash wire)])"

text \<open>\<open>strings.Join(parts, "; ")\<close>.\<close>

fun joinParts :: "string list \<Rightarrow> string" where
  "joinParts [] = []"
| "joinParts [p] = p"
| "joinParts (p # ps) = p @ ''; '' @ joinParts ps"

definition humanMetadataDescription :: "variableMetadata \<Rightarrow> bool \<Rightarrow> string" where
  "humanMetadataDescription wire compact =
     metadataDescriptionPrefix @ metadataDescriptionSummary wire @ ''; '' @
     joinParts (map (\<lambda>(key, v). key @ ''='' @ escapeMetadataDescriptionValue v)
       (filter (\<lambda>(key, v). v \<noteq> []) (metadataDescriptionFields wire compact)))"

definition compactMount :: "(string \<Rightarrow> string) \<Rightarrow> variableMetadata \<Rightarrow> variableMetadata" where
  "compactMount sha m = (case compactWireIdentity sha (vm_MountUUID m) (vm_MountUUIDHash m) of
      (v, hash, _) \<Rightarrow> m \<lparr> vm_MountUUID := v, vm_MountUUIDHash := hash \<rparr>)"

definition compactEpoch :: "(string \<Rightarrow> string) \<Rightarrow> variableMetadata \<Rightarrow> variableMetadata" where
  "compactEpoch sha m = (case compactWireIdentity sha (vm_RestoreEpoch m) (vm_RestoreEpochHash m) of
      (v, hash, _) \<Rightarrow> m \<lparr> vm_RestoreEpoch := v, vm_RestoreEpochHash := hash \<rparr>)"

definition compactObject :: "(string \<Rightarrow> string) \<Rightarrow> variableMetadata \<Rightarrow> variableMetadata \<times> bool" where
  "compactObject sha m = (case compactWireIdentity sha (vm_ObjectID m) (vm_ObjectIDHash m) of
      (v, hash, done') \<Rightarrow> (m \<lparr> vm_ObjectID := v, vm_ObjectIDHash := hash \<rparr>, done'))"

definition compactPath :: "(string \<Rightarrow> string) \<Rightarrow> variableMetadata \<Rightarrow> variableMetadata \<times> bool" where
  "compactPath sha m = (case compactWireIdentity sha (vm_SourcePath m) (vm_SourcePathHash m) of
      (v, hash, done') \<Rightarrow> (m \<lparr> vm_SourcePath := v, vm_SourcePathHash := hash \<rparr>, done'))"

definition metadataDescription :: "(string \<Rightarrow> string) \<Rightarrow> variableMetadata \<Rightarrow> string" where
  "metadataDescription sha metadata =
     (let wire = compactEpoch sha (compactMount sha metadata);
          payload = humanMetadataDescription wire False
      in if length payload \<le> variableDescriptionMaxBytes then payload
         else (case compactObject sha wire of (wire, objectCompacted) \<Rightarrow>
                 (let payload = humanMetadataDescription wire False
                  in if objectCompacted \<and> length payload \<le> variableDescriptionMaxBytes then payload
                     else (case compactPath sha wire of (wire, pathCompacted) \<Rightarrow>
                             (let payload = humanMetadataDescription wire False
                              in if pathCompacted \<and> length payload \<le> variableDescriptionMaxBytes then payload
                                 else humanMetadataDescription wire True)))))"

section \<open>Reading a description\<close>

definition cutPrefix :: "string \<Rightarrow> string \<Rightarrow> string option" where
  "cutPrefix s pre = (if prefix pre s then Some (drop (length pre) s) else None)"

text \<open>
  Up to the first semicolon that is not escaped. No byte of a rune outside ASCII is a semicolon or a
  backslash, so the scan can go byte by byte.
\<close>

fun cutEscaped :: "string \<Rightarrow> bool \<Rightarrow> (string \<times> string) option" where
  "cutEscaped [] escaped = None"
| "cutEscaped (c # s) escaped =
     (if escaped then map_option (\<lambda>(a, b). (c # a, b)) (cutEscaped s False)
      else if c = bsl then map_option (\<lambda>(a, b). (c # a, b)) (cutEscaped s True)
      else if c = CHR '';'' then Some ([], s)
      else map_option (\<lambda>(a, b). (c # a, b)) (cutEscaped s False))"

definition cutEscapedDescriptionSummary :: "string \<Rightarrow> (string \<times> string) option" where
  "cutEscapedDescriptionSummary payload = cutEscaped payload False"

text \<open>Splitting at a separator that is not escaped; the escapes are kept.\<close>

fun splitEscaped :: "char \<Rightarrow> string list \<Rightarrow> string \<Rightarrow> bool \<Rightarrow> string list" where
  "splitEscaped sep [] builder escaped = [if escaped then builder @ [bsl] else builder]"
| "splitEscaped sep (r # rs) builder escaped =
     (if escaped then splitEscaped sep rs (builder @ bsl # r) False
      else if r = [bsl] then splitEscaped sep rs builder True
      else if r = [sep] then builder # splitEscaped sep rs [] False
      else splitEscaped sep rs (builder @ r) False)"

definition splitEscapedSummaryFields :: "string \<Rightarrow> string list" where
  "splitEscapedSummaryFields payload = splitEscaped (CHR '' '') (runes payload) [] False"

definition splitEscapedDescriptionFields :: "string \<Rightarrow> string list" where
  "splitEscapedDescriptionFields payload = splitEscaped (CHR '';'') (runes payload) [] False"

fun unescapeRunes :: "string list \<Rightarrow> string \<Rightarrow> bool \<Rightarrow> string option" where
  "unescapeRunes [] builder escaped = (if escaped then None else Some builder)"
| "unescapeRunes (r # rs) builder escaped =
     (if escaped
      then (if r = [bsl] \<or> r = '';'' then unescapeRunes rs (builder @ r) False
            else if r = ''s'' then unescapeRunes rs (builder @ '' '') False
            else if r = ''n'' then unescapeRunes rs (builder @ [CHR 0x0A]) False
            else if r = ''r'' then unescapeRunes rs (builder @ [CHR 0x0D]) False
            else None)
      else if r = [bsl] then unescapeRunes rs builder True
      else unescapeRunes rs (builder @ r) False)"

definition unescapeMetadataDescriptionValue :: "string \<Rightarrow> string option" where
  "unescapeMetadataDescriptionValue v = unescapeRunes (runes v) [] False"

text \<open>A parsed value, as a value or as the hash it was compacted to.\<close>

definition valueOrHash :: "string \<Rightarrow> string \<Rightarrow> string \<times> string" where
  "valueOrHash pre v = (case cutPrefix v pre of Some hash \<Rightarrow> ([], hash) | None \<Rightarrow> (v, []))"

definition parseMetadataDescriptionSummary :: "string \<Rightarrow> (variableMetadata \<times> string) option" where
  "parseMetadataDescriptionSummary payload =
     (case cutEscapedDescriptionSummary payload of
        None \<Rightarrow> None
      | Some (summary, rest) \<Rightarrow>
          (case splitEscapedSummaryFields summary of
             [p0, p1, p2] \<Rightarrow>
               (case (unescapeMetadataDescriptionValue p0, unescapeMetadataDescriptionValue p1,
                      cutPrefix p2 metadataDescriptionCompactedVersion) of
                  (Some path, Some object, Some version) \<Rightarrow>
                    (case atoi version of
                       None \<Rightarrow> None
                     | Some v \<Rightarrow>
                         (case (valueOrHash metadataDescriptionCompactedPath path,
                                valueOrHash metadataDescriptionCompactedObject object) of
                            ((sourcePath, sourcePathHash), (objectID, objectIDHash)) \<Rightarrow>
                              Some (zeroVariableMetadata \<lparr> vm_SourcePath := sourcePath,
                                      vm_SourcePathHash := sourcePathHash, vm_ObjectID := objectID,
                                      vm_ObjectIDHash := objectIDHash, vm_SourceVersion := v \<rparr>,
                                    trimLeft (CHR '' '') rest)))
                | _ \<Rightarrow> None)
           | _ \<Rightarrow> None))"

text \<open>The fields as a map, the last one of a key first.\<close>

fun parseFields :: "string list \<Rightarrow> (string \<times> string) list \<Rightarrow> (string \<times> string) list option" where
  "parseFields [] m = Some m"
| "parseFields (field # fs) m =
     (case cutAt (CHR ''='') (trimLeft (CHR '' '') field) of
        None \<Rightarrow> None
      | Some (key, v) \<Rightarrow>
          if trimSpace key = [] then None
          else (case unescapeMetadataDescriptionValue v of
                  None \<Rightarrow> None
                | Some decoded \<Rightarrow> parseFields fs ((trimSpace key, decoded) # m)))"

definition parseMetadataDescriptionFields :: "string \<Rightarrow> (string \<times> string) list option" where
  "parseMetadataDescriptionFields payload = parseFields (splitEscapedDescriptionFields payload) []"

definition metadataDescriptionFieldValue :: "(string \<times> string) list \<Rightarrow> string list \<Rightarrow> string" where
  "metadataDescriptionFieldValue m keys =
     (case find (\<lambda>key. mapGet m key \<noteq> []) keys of Some key \<Rightarrow> mapGet m key | None \<Rightarrow> [])"

text \<open>The second component tells whether the description is the plugin's and could be read.\<close>

definition humanOwnershipMetadata :: "string \<Rightarrow> (variableMetadata \<times> bool) option" where
  "humanOwnershipMetadata description =
     (case cutPrefix description metadataDescriptionPrefix of
        None \<Rightarrow> None
      | Some payload \<Rightarrow>
          (case parseMetadataDescriptionSummary payload of
             None \<Rightarrow> Some (zeroVariableMetadata, False)
           | Some (summary, rest) \<Rightarrow>
               (case parseMetadataDescriptionFields rest of
                  None \<Rightarrow> Some (zeroVariableMetadata, False)
                | Some m \<Rightarrow>
                    Some (summary \<lparr> vm_AssociationID := metadataDescriptionFieldValue m [''assoc'', ''a''],
                      vm_MountUUID := metadataDescriptionFieldValue m [''mount'', ''m''],
                      vm_MountUUIDHash := metadataDescriptionFieldValue m [''mount_hash'', ''mh''],
                      vm_RestoreEpoch := metadataDescriptionFieldValue m [''epoch'', ''r''],
                      vm_RestoreEpochHash := metadataDescriptionFieldValue m [''epoch_hash'', ''rh''],
                      vm_PayloadSHA256 := metadataDescriptionFieldValue m [''sha'', ''h''],
                      vm_PayloadFormat := metadataDescriptionFieldValue m [''fmt'', ''f''] \<rparr>, True))))"

definition ownershipMetadata :: "string \<Rightarrow> variableMetadata \<times> bool" where
  "ownershipMetadata description =
     (case humanOwnershipMetadata description of Some r \<Rightarrow> r | None \<Rightarrow> (zeroVariableMetadata, False))"

section \<open>Ownership\<close>

definition metadataIdentityHashMatches :: "(string \<Rightarrow> string) \<Rightarrow> string \<Rightarrow> string \<Rightarrow> bool" where
  "metadataIdentityHashMatches sha actualHash v \<longleftrightarrow> actualHash = metadataIdentityHash sha v"

definition runtimeMetadataValueMatches :: "(string \<Rightarrow> string) \<Rightarrow> string \<Rightarrow> string \<Rightarrow> string \<Rightarrow> bool" where
  "runtimeMetadataValueMatches sha actual actualHash expected \<longleftrightarrow>
     expected \<noteq> [] \<and>
     (actual = expected \<or> (actualHash \<noteq> [] \<and> metadataIdentityHashMatches sha actualHash expected))"

definition ownedByRequest :: "(string \<Rightarrow> string) \<Rightarrow> variableMetadata \<Rightarrow> bool \<Rightarrow> requestIdentity \<Rightarrow> bool" where
  "ownedByRequest sha m metadataOwned i \<longleftrightarrow>
     metadataOwned \<and>
     vm_AssociationID m = id_AssociationID i \<and>
     (vm_SourcePath m = id_SourcePath i \<or>
        (vm_SourcePathHash m \<noteq> [] \<and> metadataIdentityHashMatches sha (vm_SourcePathHash m) (id_SourcePath i))) \<and>
     (vm_ObjectID m = id_ObjectID i \<or>
        (vm_ObjectIDHash m \<noteq> [] \<and> metadataIdentityHashMatches sha (vm_ObjectIDHash m) (id_ObjectID i))) \<and>
     runtimeMetadataValueMatches sha (vm_MountUUID m) (vm_MountUUIDHash m) (id_MountUUID i) \<and>
     runtimeMetadataValueMatches sha (vm_RestoreEpoch m) (vm_RestoreEpochHash m) (id_RestoreEpoch i) \<and>
     id_AssociationID i \<noteq> [] \<and> id_SourcePath i \<noteq> [] \<and> id_ObjectID i \<noteq> []"

definition remoteSourceVersionNewer :: "variableMetadata \<Rightarrow> int \<Rightarrow> bool" where
  "remoteSourceVersionNewer m sourceVersion \<longleftrightarrow> 0 < sourceVersion \<and> sourceVersion < vm_SourceVersion m"

end
