(* ===== verification/Provider_Endpoints.thy ===== *)
theory Provider_Endpoints
  imports Provider_Contract Endpoint_Guard
begin

text \<open>
  What the remote providers share about their connections: the parts of a URL they look at (the parser of
  \<open>net/url\<close> is an argument of theirs), the check of the addresses a host resolves to, and the class of a
  transport error (\<open>internal/providers/transport_error.go\<close>).
\<close>

section \<open>URLs\<close>

text \<open>What a provider reads of a parsed URL; \<open>pu_User\<close> tells whether it has user information.\<close>

record parsedURL =
  pu_Scheme :: string
  pu_User :: bool
  pu_Host :: string
  pu_Hostname :: string
  pu_RawQuery :: string
  pu_Fragment :: string

type_synonym 's resolver = "string \<Rightarrow> ('s, netAddr list) netop"

text \<open>
  Each provider looks a configured host up and checks every address; the texts are the provider's own.
\<close>

definition checkResolution ::
    "'s resolver \<Rightarrow> (netAddr \<Rightarrow> bool) \<Rightarrow> string \<Rightarrow> string \<Rightarrow> string \<Rightarrow> string \<Rightarrow> 's \<Rightarrow>
     (providerError + unit) \<times> 's" where
  "checkResolution resolver allowed failed none refused host s =
     (case resolver host s of
        (Inl e, s) \<Rightarrow> (Inl (ProviderError ErrorClassUnavailable failed), s)
      | (Inr addrs, s) \<Rightarrow>
          if addrs = [] then (Inl (ProviderError ErrorClassUnavailable none), s)
          else if list_ex (\<lambda>addr. \<not> allowed addr) addrs then (Inl (validationError refused), s)
          else (Inr (), s))"

section \<open>Versions\<close>

text \<open>
  The value that \<open>strconv.Atoi\<close> returns beside an error: 0 for a text that is no number, the nearest
  64-bit integer for a number out of range.
\<close>

definition atoiValue :: "string \<Rightarrow> int" where
  "atoiValue s =
     (let n = (case s of
          [] \<Rightarrow> None
        | c # r \<Rightarrow>
            if c = CHR ''-'' then map_option uminus (parseDigits r)
            else if c = CHR ''+'' then parseDigits r
            else parseDigits s)
      in case n of Some i \<Rightarrow> max (- (2 ^ 63)) (min (2 ^ 63 - 1) i) | None \<Rightarrow> 0)"

lemma atoiValue_atoi: "atoi s = Some i \<Longrightarrow> atoiValue s = i"
  by (auto simp: atoi_def atoiValue_def inInt64_def Let_def split: option.splits if_splits list.splits)

section \<open>Transport errors\<close>

text \<open>
  An error is the chain of errors it wraps, outermost first. Of each link the providers ask for its identity
  (\<open>errors.Is\<close>), what its \<open>Timeout\<close> method answers if it has one, whether it is a DNS or a URL error, and
  what the API of the service says (\<open>errors.As\<close>).
\<close>

record 'a errorLink =
  el_sentinel :: string
  el_timeout :: "bool option"
  el_DNSError :: bool
  el_URLError :: bool
  el_api :: "'a option"

definition transportSentinels :: "string list" where
  "transportSentinels = [''net.ErrClosed'', ''ECONNABORTED'', ''ECONNREFUSED'', ''ECONNRESET'', ''EHOSTUNREACH'',
     ''ENETUNREACH'', ''ETIMEDOUT'']"

text \<open>\<open>errors.AsType\<close>: the first link of the chain with the wanted part.\<close>

definition firstLink :: "('l \<Rightarrow> 'b option) \<Rightarrow> 'l list \<Rightarrow> 'b option" where
  "firstLink part chain = (case List.map_filter part chain of [] \<Rightarrow> None | x # _ \<Rightarrow> Some x)"

definition classifyTransportChain :: "'a errorLink list \<Rightarrow> string option" where
  "classifyTransportChain chain =
     (if list_ex (\<lambda>l. el_sentinel l = ''context.DeadlineExceeded'') chain then Some ErrorClassUnavailable
      else if list_ex (\<lambda>l. el_sentinel l \<in> set transportSentinels) chain then Some ErrorClassUnavailable
      else if firstLink el_timeout chain = Some True then Some ErrorClassUnavailable
      else if list_ex el_DNSError chain then Some ErrorClassUnavailable
      else if list_ex el_URLError chain then Some ErrorClassUnavailable
      else None)"

text \<open>An error that the API of the service reports.\<close>

definition apiError :: "'a \<Rightarrow> 'a errorLink" where
  "apiError a = \<lparr> el_sentinel = [], el_timeout = None, el_DNSError = False, el_URLError = False, el_api = Some a \<rparr>"

lemma classify_api [simp]: "classifyTransportChain [apiError a] = None"
  by (simp add: classifyTransportChain_def apiError_def firstLink_def transportSentinels_def map_filter_def)

end
