(* ===== verification/GitLab_Options.thy ===== *)
theory GitLab_Options
  imports GitLab_Metadata Provider_Endpoints
begin

text \<open>
  Configuration of the GitLab provider (\<open>internal/providers/gitlab/project_variables.go\<close>): options of a
  destination and of an association, the policy for the base URL, and the rules for variable keys and
  masked values. The URL parser of package \<open>net/url\<close> is an argument (\<open>parseURL\<close>).
\<close>

definition gitlabProviderType :: string where "gitlabProviderType = ''gitlab''"

definition ConfigKeyBaseURL :: string where "ConfigKeyBaseURL = ''base_url''"
definition ConfigKeyProjectID :: string where "ConfigKeyProjectID = ''project_id''"
definition ConfigKeyEnvironmentScope :: string where "ConfigKeyEnvironmentScope = ''environment_scope''"
definition ConfigKeyProtected :: string where "ConfigKeyProtected = ''protected''"
definition ConfigKeyMasked :: string where "ConfigKeyMasked = ''masked''"
definition ConfigKeyHidden :: string where "ConfigKeyHidden = ''hidden''"
definition ConfigKeyVariableRaw :: string where "ConfigKeyVariableRaw = ''variable_raw''"
definition ConfigKeyVariableType :: string where "ConfigKeyVariableType = ''variable_type''"
definition ConfigKeyAllowInsecureHTTP :: string where "ConfigKeyAllowInsecureHTTP = ''allow_insecure_http''"
definition ConfigKeyAllowPrivateNetwork :: string where "ConfigKeyAllowPrivateNetwork = ''allow_private_network''"
definition ConfigKeyToken :: string where "ConfigKeyToken = ''token''"

definition VariableTypeEnvVar :: string where "VariableTypeEnvVar = ''env_var''"
definition VariableTypeFile :: string where "VariableTypeFile = ''file''"

definition defaultBaseURL :: string where "defaultBaseURL = ''https://gitlab.com''"
definition defaultEnvironmentScope :: string where "defaultEnvironmentScope = ''*''"
definition defaultVariableType :: string where "defaultVariableType = VariableTypeEnvVar"

definition variableValueMaxBytes :: int where "variableValueMaxBytes = 10000"
definition variableKeyMaxBytes :: int where "variableKeyMaxBytes = 255"
definition maskedVariableMinChars :: int where "maskedVariableMinChars = 8"

lemmas gitlab_config_keys =
  ConfigKeyBaseURL_def ConfigKeyProjectID_def ConfigKeyEnvironmentScope_def ConfigKeyProtected_def
  ConfigKeyMasked_def ConfigKeyHidden_def ConfigKeyVariableRaw_def ConfigKeyVariableType_def
  ConfigKeyAllowInsecureHTTP_def ConfigKeyAllowPrivateNetwork_def ConfigKeyToken_def

definition gitlabCapabilities :: capabilities where
  "gitlabCapabilities = \<lparr> cp_SupportsValueReadback = True, cp_SupportsMetadataReadback = True,
     cp_SupportsPayloadHashMetadata = True, cp_SupportsUpdateIfOwned = True, cp_SupportsDeleteIfOwned = True,
     cp_SupportsSecretPath = True, cp_SupportsSecretKey = True, cp_SupportsDataMap = False,
     cp_MaxPayloadBytes = variableValueMaxBytes \<rparr>"

section \<open>The base URL\<close>

definition validateBaseURL ::
    "(string \<Rightarrow> parsedURL option) \<Rightarrow> string \<Rightarrow> bool \<Rightarrow> bool \<Rightarrow> providerError + unit" where
  "validateBaseURL parseURL rawBaseURL allowInsecureHTTP allowPrivateNetwork =
     (case parseURL rawBaseURL of
        None \<Rightarrow> Inl (validationError ''gitlab base_url must be a valid URL'')
      | Some parsed \<Rightarrow>
          if pu_Host parsed = [] \<or> pu_User parsed \<or> pu_RawQuery parsed \<noteq> [] \<or> pu_Fragment parsed \<noteq> []
          then Inl (validationError ''gitlab base_url must include a host and no userinfo, query, or fragment'')
          else (let host = NormalizeHost (pu_Hostname parsed)
                in if host = [] then Inl (validationError ''gitlab base_url must include a host'')
                   else if \<not> allowPrivateNetwork \<and> IsRestrictedHost host
                   then Inl (validationError (''gitlab base_url requires allow_private_network=true for localhost '' @
                          ''or restricted network addresses''))
                   else if pu_Scheme parsed = ''https'' then Inr ()
                   else if pu_Scheme parsed = ''http''
                   then (if IsLocalHost host \<or> allowInsecureHTTP then Inr ()
                         else Inl (validationError (''gitlab http base_url requires allow_insecure_http=true '' @
                                ''unless it targets localhost'')))
                   else Inl (validationError ''gitlab base_url must use http or https'')))"

section \<open>Options\<close>

record gitlabDestinationOptions =
  gd_baseURL :: string
  gd_projectID :: string
  gd_allowInsecureHTTP :: bool
  gd_allowPrivateNet :: bool
  gd_token :: string

record gitlabAssociationOptions =
  ga_environmentScope :: string
  ga_protected :: bool
  ga_masked :: bool
  ga_hidden :: bool
  ga_variableRaw :: bool
  ga_variableType :: string

record gitlabVariableOptions =
  go_destination :: gitlabDestinationOptions
  go_association :: gitlabAssociationOptions

definition unsupportedKey :: "string \<Rightarrow> string list \<Rightarrow> (string \<times> string) list \<Rightarrow> providerError + unit" where
  "unsupportedKey what supported config =
     (case find (\<lambda>(key, v). key \<notin> set supported) config of
        None \<Rightarrow> Inr ()
      | Some (key, v) \<Rightarrow> Inl (validationError (what @ '' configuration does not support '' @ key)))"

definition gitlabDestinationKeys :: "string list" where
  "gitlabDestinationKeys = [ConfigKeyBaseURL, ConfigKeyProjectID, ConfigKeyAllowInsecureHTTP,
     ConfigKeyAllowPrivateNetwork, ConfigKeyToken]"

definition gitlabDestinationOptionsFromConfig ::
    "(string \<Rightarrow> parsedURL option) \<Rightarrow> (string \<times> string) list \<Rightarrow> providerError + gitlabDestinationOptions" where
  "gitlabDestinationOptionsFromConfig parseURL config =
     andThen (unsupportedKey ''gitlab destination'' gitlabDestinationKeys config) (\<lambda>_.
     andThen (boolConfigValue gitlabProviderType config ConfigKeyAllowInsecureHTTP False) (\<lambda>allowInsecureHTTP.
     andThen (boolConfigValue gitlabProviderType config ConfigKeyAllowPrivateNetwork False) (\<lambda>allowPrivateNet.
       let options = \<lparr> gd_baseURL = stringDefault (configValue config ConfigKeyBaseURL) defaultBaseURL,
             gd_projectID = configValue config ConfigKeyProjectID, gd_allowInsecureHTTP = allowInsecureHTTP,
             gd_allowPrivateNet = allowPrivateNet, gd_token = configValue config ConfigKeyToken \<rparr>
       in andThen (validateBaseURL parseURL (gd_baseURL options) allowInsecureHTTP allowPrivateNet) (\<lambda>_.
            if gd_projectID options = [] then Inl (validationError ''gitlab project_id must not be empty'')
            else if gd_token options = [] then Inl (validationError ''gitlab token must not be empty'')
            else Inr options))))"

definition gitlabAssociationKeys :: "string list" where
  "gitlabAssociationKeys = [ConfigKeyEnvironmentScope, ConfigKeyProtected, ConfigKeyMasked, ConfigKeyHidden,
     ConfigKeyVariableRaw, ConfigKeyVariableType]"

definition gitlabAssociationOptionsFromConfig ::
    "(string \<times> string) list \<Rightarrow> providerError + gitlabAssociationOptions" where
  "gitlabAssociationOptionsFromConfig config =
     andThen (unsupportedKey ''gitlab association'' gitlabAssociationKeys config) (\<lambda>_.
     andThen (boolConfigValue gitlabProviderType config ConfigKeyProtected False) (\<lambda>protected.
     andThen (boolConfigValue gitlabProviderType config ConfigKeyMasked False) (\<lambda>masked.
     andThen (boolConfigValue gitlabProviderType config ConfigKeyHidden False) (\<lambda>hidden.
     andThen (boolConfigValue gitlabProviderType config ConfigKeyVariableRaw True) (\<lambda>variableRaw.
       let options = \<lparr>
             ga_environmentScope = stringDefault (trimSpace (mapGet config ConfigKeyEnvironmentScope)) defaultEnvironmentScope,
             ga_protected = protected, ga_masked = masked \<or> hidden, ga_hidden = hidden, ga_variableRaw = variableRaw,
             ga_variableType = stringDefault (trimSpace (mapGet config ConfigKeyVariableType)) defaultVariableType \<rparr>
       in if ga_environmentScope options = []
          then Inl (validationError ''gitlab environment_scope must not be empty'')
          else if ga_variableType options \<noteq> VariableTypeEnvVar \<and> ga_variableType options \<noteq> VariableTypeFile
          then Inl (validationError ''gitlab variable_type must be env_var or file'')
          else Inr options)))))"

definition gitlabOptionsConfig :: "gitlabAssociationOptions \<Rightarrow> (string \<times> string) list" where
  "gitlabOptionsConfig options =
     [(ConfigKeyEnvironmentScope, ga_environmentScope options),
      (ConfigKeyProtected, formatBool (ga_protected options)),
      (ConfigKeyMasked, formatBool (ga_masked options)),
      (ConfigKeyHidden, formatBool (ga_hidden options)),
      (ConfigKeyVariableRaw, formatBool (ga_variableRaw options)),
      (ConfigKeyVariableType, ga_variableType options)]"

definition gitlabValidateConfig ::
    "(string \<Rightarrow> parsedURL option) \<Rightarrow> providerDestinationConfig \<Rightarrow> providerError + unit" where
  "gitlabValidateConfig parseURL cfg =
     (if trimSpace (dc_Name cfg) = [] then Inl (validationError ''gitlab destination name must not be empty'')
      else andThen (gitlabDestinationOptionsFromConfig parseURL (dc_Config cfg)) (\<lambda>_. Inr ()))"

definition gitlabNormalizeAssociationConfig :: "associationConfig \<Rightarrow> providerError + associationConfig" where
  "gitlabNormalizeAssociationConfig cfg =
     andThen (gitlabAssociationOptionsFromConfig (ac_Config cfg)) (\<lambda>options.
       Inr \<lparr> ac_Config = gitlabOptionsConfig options, ac_Identity = ga_environmentScope options \<rparr>)"

section \<open>Opening a destination\<close>

text \<open>The addresses of the base URL, asked of the resolver when the runtime is opened.\<close>

definition validateBaseURLResolution ::
    "(string \<Rightarrow> parsedURL option) \<Rightarrow> 's resolver \<Rightarrow> gitlabDestinationOptions \<Rightarrow>
     's \<Rightarrow> (providerError + unit) \<times> 's" where
  "validateBaseURLResolution parseURL resolver options s =
     (if gd_allowPrivateNet options then (Inr (), s)
      else (case parseURL (gd_baseURL options) of
          None \<Rightarrow> (Inl (validationError ''gitlab base_url must be a valid URL''), s)
        | Some parsed \<Rightarrow>
            (let host = NormalizeHost (pu_Hostname parsed)
             in if host = [] then (Inl (validationError ''gitlab base_url must include a host''), s)
                else if ParseAddr host \<noteq> None then (Inr (), s)
                else checkResolution resolver (\<lambda>addr. \<not> IsRestrictedAddr addr)
                  ''gitlab base_url DNS lookup failed'' ''gitlab base_url DNS lookup returned no addresses''
                  (''gitlab base_url DNS resolves to a restricted network address; '' @
                   ''requires allow_private_network=true'') host s)))"

text \<open>Which addresses the HTTP client of these options may dial; \<open>None\<close> is the default transport.\<close>

definition gitLabDialPolicy :: "gitlabDestinationOptions \<Rightarrow> (netAddr \<Rightarrow> bool) option" where
  "gitLabDialPolicy options =
     (if gd_allowPrivateNet options then None else Some (\<lambda>addr. \<not> IsRestrictedAddr addr))"

definition gitlabDefaultClientFactory ::
    "(string \<Rightarrow> parsedURL option) \<Rightarrow> 's resolver \<Rightarrow> (string \<times> string) list \<Rightarrow>
     's \<Rightarrow> (providerError + (netAddr \<Rightarrow> bool) option) \<times> 's" where
  "gitlabDefaultClientFactory parseURL resolver config s =
     (case gitlabDestinationOptionsFromConfig parseURL config of
        Inl e \<Rightarrow> (Inl e, s)
      | Inr options \<Rightarrow>
          (case validateBaseURLResolution parseURL resolver options s of
             (Inl e, s) \<Rightarrow> (Inl e, s)
           | (Inr _, s) \<Rightarrow> (Inr (gitLabDialPolicy options), s)))"

text \<open>\<open>OpenDestination\<close>: the factory makes the client of the runtime.\<close>

definition gitlabOpenDestination ::
    "(string \<Rightarrow> parsedURL option) \<Rightarrow> ((string \<times> string) list \<Rightarrow> 's \<Rightarrow> (providerError + 'client) \<times> 's) \<Rightarrow>
     providerDestinationConfig \<Rightarrow> 's \<Rightarrow> (providerError + 'client \<times> gitlabDestinationOptions) \<times> 's" where
  "gitlabOpenDestination parseURL factory cfg s =
     (case gitlabDestinationOptionsFromConfig parseURL (dc_Config cfg) of
        Inl e \<Rightarrow> (Inl e, s)
      | Inr options \<Rightarrow>
          (case factory (dc_Config cfg) s of
             (Inl e, s) \<Rightarrow> (Inl (requestFailed gitlabProviderType (setupErrorClass e)), s)
           | (Inr client, s) \<Rightarrow> (Inr (client, options), s)))"

section \<open>Keys and masked values\<close>

text \<open>A rune loop accepts every rune in a class of ASCII characters iff every byte is in it.\<close>

definition isVariableKeyChar :: "char \<Rightarrow> bool" where
  "isVariableKeyChar c \<longleftrightarrow>
     (let n = (of_char c :: nat)
      in (65 \<le> n \<and> n \<le> 90) \<or> (97 \<le> n \<and> n \<le> 122) \<or> (48 \<le> n \<and> n \<le> 57) \<or> c = CHR ''_'')"

definition validateVariableKey :: "string \<Rightarrow> providerError + unit" where
  "validateVariableKey key =
     (if key = [] then Inl (validationError ''gitlab variable key must not be empty'')
      else if variableKeyMaxBytes < int (length key)
      then Inl (validationError ''gitlab variable key exceeds 255 characters'')
      else if \<not> list_all isVariableKeyChar key
      then Inl (validationError ''gitlab variable key may contain only letters, digits, and underscore'')
      else Inr ())"

definition validateMaskedPayloadForPlan :: "gitlabAssociationOptions \<Rightarrow> planRequest \<Rightarrow> providerError + unit" where
  "validateMaskedPayloadForPlan options req =
     (if \<not> ga_masked options then Inr ()
      else if pq_PayloadBytes req < maskedVariableMinChars
      then Inl (validationError ''gitlab masked variable value must be at least 8 characters'')
      else if \<not> ga_variableRaw options \<and> pq_Format req \<noteq> ''raw''
      then Inl (validationError ''gitlab masked variables with variable_raw=false require raw payload format'')
      else Inr ())"

definition invalidExpandedMaskedVariableChar :: "string \<Rightarrow> bool" where
  "invalidExpandedMaskedVariableChar r =
     (case r of
        [c] \<Rightarrow> (let n = (of_char c :: nat)
               in \<not> ((65 \<le> n \<and> n \<le> 90) \<or> (97 \<le> n \<and> n \<le> 122) \<or> (48 \<le> n \<and> n \<le> 57) \<or> c \<in> set ''_:@-+.~=/''))
      | _ \<Rightarrow> True)"

definition validateMaskedPayloadForUpsert :: "gitlabAssociationOptions \<Rightarrow> upsertRequest \<Rightarrow> providerError + unit" where
  "validateMaskedPayloadForUpsert options req =
     (if \<not> ga_masked options then Inr ()
      else if \<not> validUTF8 (ur_Payload req)
      then Inl (validationError ''gitlab masked variable value must be valid UTF-8'')
      else if runeCount (ur_Payload req) < maskedVariableMinChars
      then Inl (validationError ''gitlab masked variable value must be at least 8 characters'')
      else if containsSpace (ur_Payload req)
      then Inl (validationError ''gitlab masked variable value must be a single line with no spaces'')
      else if \<not> ga_variableRaw options \<and> ur_Format req \<noteq> ''raw''
      then Inl (validationError ''gitlab masked variables with variable_raw=false require raw payload format'')
      else if \<not> ga_variableRaw options \<and> list_ex invalidExpandedMaskedVariableChar (runes (ur_Payload req))
      then Inl (validationError ''gitlab masked variable value contains characters incompatible with variable_raw=false'')
      else Inr ())"

end
