(* ===== verification/GitLab_Provider.thy ===== *)
theory GitLab_Provider
  imports GitLab_Options "HOL-Library.AList"
begin

text \<open>
  The operations of the GitLab provider on project variables
  (\<open>internal/providers/gitlab/project_variables.go\<close>). The operations go through an interface,
  \<open>projectVariableClient\<close>; its implementation over HTTP is the second half of this theory. Sending a
  request is an argument; an operation may change the state (the server) in any way before it fails.
\<close>

record gitlabVariable =
  gv_Key :: string
  gv_Value :: string
  gv_EnvironmentScope :: string
  gv_Protected :: bool
  gv_Masked :: bool
  gv_Hidden :: bool
  gv_VariableRaw :: bool
  gv_VariableType :: string
  gv_Description :: string
  gv_valueUnavailable :: bool

record gitlabVariableInput =
  gi_Key :: string
  gi_Value :: string
  gi_EnvironmentScope :: string
  gi_Protected :: bool
  gi_Masked :: bool
  gi_Hidden :: bool
  gi_VariableRaw :: bool
  gi_VariableType :: string
  gi_Description :: string

section \<open>Errors\<close>

datatype gitlabError =
    GitLabHTTPError int
  | GitLabRequestError string
  | GitLabProviderError providerError

definition isGitLabNotFound :: "gitlabError \<Rightarrow> bool" where
  "isGitLabNotFound e = (case e of GitLabHTTPError code \<Rightarrow> code = 404 | _ \<Rightarrow> False)"

definition classifyStatus :: "int \<Rightarrow> string" where
  "classifyStatus code =
     (if code = 429 then ErrorClassRateLimit
      else if code = 401 then ErrorClassAuthn
      else if code = 403 then ErrorClassAuthz
      else if code = 409 then ErrorClassCollision
      else if code = 413 then ErrorClassCapacity
      else if code = 400 \<or> code = 404 \<or> code = 422 then ErrorClassValidation
      else if 500 \<le> code \<or> code = 408 then ErrorClassUnavailable
      else ErrorClassInternal)"

fun classifyGitLabError :: "gitlabError \<Rightarrow> string" where
  "classifyGitLabError (GitLabProviderError e) = setupErrorClass e"
| "classifyGitLabError (GitLabRequestError _) = ErrorClassUnavailable"
| "classifyGitLabError (GitLabHTTPError code) = classifyStatus code"

section \<open>The client interface\<close>

record 's gitlabClient =
  gc_GetProject :: "gitlabDestinationOptions \<Rightarrow> 's \<Rightarrow> (gitlabError + unit) \<times> 's"
  gc_GetVariable :: "gitlabVariableOptions \<Rightarrow> string \<Rightarrow> 's \<Rightarrow> (gitlabError + gitlabVariable) \<times> 's"
  gc_CreateVariable :: "gitlabVariableOptions \<Rightarrow> gitlabVariableInput \<Rightarrow> 's \<Rightarrow> (gitlabError + gitlabVariable) \<times> 's"
  gc_UpdateVariable :: "gitlabVariableOptions \<Rightarrow> string \<Rightarrow> gitlabVariableInput \<Rightarrow> 's \<Rightarrow> (gitlabError + gitlabVariable) \<times> 's"
  gc_DeleteVariable :: "gitlabVariableOptions \<Rightarrow> string \<Rightarrow> 's \<Rightarrow> (gitlabError + unit) \<times> 's"

section \<open>Comparing a variable with a request\<close>

definition validateHiddenUpdate :: "gitlabAssociationOptions \<Rightarrow> gitlabVariable \<Rightarrow> providerError + unit" where
  "validateHiddenUpdate options variable =
     (if ga_hidden options \<and> \<not> gv_Hidden variable
      then Inl (validationError ''gitlab hidden variables can only be hidden when they are created'')
      else Inr ())"

definition variableMatchesAssociationOptions :: "gitlabVariable \<Rightarrow> gitlabAssociationOptions \<Rightarrow> bool" where
  "variableMatchesAssociationOptions v options \<longleftrightarrow>
     gv_Protected v = ga_protected options \<and> gv_Masked v = ga_masked options \<and>
     gv_VariableRaw v = ga_variableRaw options \<and> gv_VariableType v = ga_variableType options"

definition variableMatchesInput :: "gitlabVariable \<Rightarrow> gitlabVariableInput \<Rightarrow> bool" where
  "variableMatchesInput v input \<longleftrightarrow>
     (gv_Value v = gi_Value input \<or> (gv_Hidden v \<and> gv_valueUnavailable v)) \<and>
     gv_Protected v = gi_Protected input \<and> gv_Masked v = gi_Masked input \<and>
     gv_VariableRaw v = gi_VariableRaw input \<and> gv_VariableType v = gi_VariableType input \<and>
     gv_Description v = gi_Description input"

definition requestMetadata ::
    "runtimeIdentity \<Rightarrow> string \<Rightarrow> string \<Rightarrow> string \<Rightarrow> int \<Rightarrow> string \<Rightarrow> string \<Rightarrow> variableMetadata" where
  "requestMetadata runtime associationID sourcePath objectID sourceVersion hash format =
     zeroVariableMetadata \<lparr> vm_AssociationID := associationID, vm_SourcePath := sourcePath,
       vm_ObjectID := objectID, vm_MountUUID := ri_MountUUID runtime, vm_RestoreEpoch := ri_RestoreEpoch runtime,
       vm_SourceVersion := sourceVersion, vm_PayloadSHA256 := hash, vm_PayloadFormat := format \<rparr>"

definition upsertMetadata :: "upsertRequest \<Rightarrow> variableMetadata" where
  "upsertMetadata req = requestMetadata (ur_Runtime req) (ur_AssociationID req) (ur_SourcePath req)
     (ur_ObjectID req) (ur_SourceVersion req) (ur_PayloadSHA256 req) (ur_Format req)"

definition variableInputFromUpsert ::
    "(string \<Rightarrow> string) \<Rightarrow> gitlabAssociationOptions \<Rightarrow> upsertRequest \<Rightarrow> gitlabVariableInput" where
  "variableInputFromUpsert sha options req =
     \<lparr> gi_Key = ur_ResolvedName req, gi_Value = ur_Payload req, gi_EnvironmentScope = ga_environmentScope options,
       gi_Protected = ga_protected options, gi_Masked = ga_masked options, gi_Hidden = ga_hidden options,
       gi_VariableRaw = ga_variableRaw options, gi_VariableType = ga_variableType options,
       gi_Description = metadataDescription sha (upsertMetadata req) \<rparr>"

definition variableDescriptionFromPlan :: "(string \<Rightarrow> string) \<Rightarrow> planRequest \<Rightarrow> string" where
  "variableDescriptionFromPlan sha req =
     metadataDescription sha (requestMetadata (pq_Runtime req) (pq_AssociationID req) (pq_SourcePath req)
       (pq_ObjectID req) (pq_SourceVersion req) (pq_PayloadSHA256 req) (pq_Format req))"

definition gitlabPayloadSHA256 :: "(string \<Rightarrow> string) \<Rightarrow> string \<Rightarrow> string" where
  "gitlabPayloadSHA256 sha payload = ''sha256:'' @ hexEncode (sha payload)"

definition gitlabRemoteVersion :: "(string \<Rightarrow> string) \<Rightarrow> gitlabVariable \<Rightarrow> string" where
  "gitlabRemoteVersion sha v =
     (case ownershipMetadata (gv_Description v) of (metadata, owned) \<Rightarrow>
        if owned \<and> vm_PayloadSHA256 metadata \<noteq> [] then vm_PayloadSHA256 metadata
        else ''sha256:'' @ hexEncode (sha (gv_Key v @ '':'' @ gv_EnvironmentScope v @ '':'' @ gv_Description v)))"

text \<open>The hash of the value, or of the metadata where a hidden value cannot be read.\<close>

definition variableReadback ::
    "(string \<Rightarrow> string) \<Rightarrow> gitlabVariable \<Rightarrow> variableMetadata \<Rightarrow> providerError + (string \<times> string)" where
  "variableReadback sha v metadata =
     (if gv_valueUnavailable v
      then (if \<not> gv_Hidden v then Inl (requestFailed gitlabProviderType ErrorClassUnavailable)
            else Inr (vm_PayloadSHA256 metadata, RemoteStateVerificationMetadata))
      else Inr (gitlabPayloadSHA256 sha (gv_Value v), RemoteStateVerificationValue))"

definition blockedValidationPlan :: "string \<Rightarrow> planResult" where
  "blockedValidationPlan message =
     \<lparr> pr_Action = PlanActionBlocked, pr_Message = message, pr_ErrorClass = ErrorClassValidation \<rparr>"

definition gitlabVariableOptionsFor ::
    "gitlabDestinationOptions \<Rightarrow> associationConfig \<Rightarrow> providerError + gitlabVariableOptions" where
  "gitlabVariableOptionsFor destination cfg =
     andThen (gitlabAssociationOptionsFromConfig (ac_Config cfg)) (\<lambda>association.
       Inr \<lparr> go_destination = destination, go_association = association \<rparr>)"

section \<open>The operations\<close>

definition gitlabHealth ::
    "'s gitlabClient \<Rightarrow> gitlabDestinationOptions \<Rightarrow> 's \<Rightarrow> healthResult \<times> 's" where
  "gitlabHealth C destination s =
     (case gc_GetProject C destination s of
        (Inl e, s) \<Rightarrow> (\<lparr> hr_Healthy = False, hr_Message = ''gitlab health check failed'',
                        hr_ErrorClass = classifyGitLabError e \<rparr>, s)
      | (Inr _, s) \<Rightarrow> (\<lparr> hr_Healthy = True, hr_Message = [], hr_ErrorClass = [] \<rparr>, s))"

text \<open>What a plan does with a variable that exists.\<close>

definition gitlabPlanExisting ::
    "(string \<Rightarrow> string) \<Rightarrow> gitlabAssociationOptions \<Rightarrow> planRequest \<Rightarrow> gitlabVariable \<Rightarrow> planResult" where
  "gitlabPlanExisting sha options req v =
     (case ownershipMetadata (gv_Description v) of (metadata, owned) \<Rightarrow>
        if \<not> ownedByRequest sha metadata owned (planIdentity req)
        then \<lparr> pr_Action = PlanActionConflict,
               pr_Message = ''gitlab variable exists but is not owned by this association'',
               pr_ErrorClass = ErrorClassCollision \<rparr>
        else if remoteSourceVersionNewer metadata (pq_SourceVersion req)
        then \<lparr> pr_Action = PlanActionBlocked, pr_Message = ''gitlab variable has newer managed source version'',
               pr_ErrorClass = ErrorClassDrift \<rparr>
        else (case validateHiddenUpdate options v of
                Inl e \<Rightarrow> blockedValidationPlan (providerErrorText e)
              | Inr _ \<Rightarrow>
                  (case validateMaskedPayloadForPlan options req of
                     Inl e \<Rightarrow> blockedValidationPlan (providerErrorText e)
                   | Inr _ \<Rightarrow>
                       (case variableReadback sha v metadata of
                          Inl e \<Rightarrow> providerBlockedPlan gitlabProviderType ErrorClassUnavailable
                        | Inr (payloadHash, _) \<Rightarrow>
                            if vm_PayloadSHA256 metadata = pq_PayloadSHA256 req \<and>
                               payloadHash = pq_PayloadSHA256 req \<and>
                               variableMatchesAssociationOptions v options \<and>
                               gv_Description v = variableDescriptionFromPlan sha req
                            then actionPlan PlanActionNoop
                            else actionPlan PlanActionUpdate))))"

definition gitlabPlan ::
    "(string \<Rightarrow> string) \<Rightarrow> 's gitlabClient \<Rightarrow> gitlabDestinationOptions \<Rightarrow> planRequest \<Rightarrow> 's \<Rightarrow> planResult \<times> 's" where
  "gitlabPlan sha C destination req s =
     (case validateVariableKey (pq_ResolvedName req) of
        Inl e \<Rightarrow> (providerBlockedPlan gitlabProviderType ErrorClassValidation, s)
      | Inr _ \<Rightarrow>
          (case gitlabVariableOptionsFor destination (pq_Association req) of
             Inl e \<Rightarrow> (blockedValidationPlan (providerErrorText e), s)
           | Inr options \<Rightarrow>
               (case gc_GetVariable C options (pq_ResolvedName req) s of
                  (Inl e, s) \<Rightarrow>
                    if isGitLabNotFound e
                    then (case validateMaskedPayloadForPlan (go_association options) req of
                            Inl e \<Rightarrow> (blockedValidationPlan (providerErrorText e), s)
                          | Inr _ \<Rightarrow> (actionPlan PlanActionCreate, s))
                    else (providerBlockedPlan gitlabProviderType (classifyGitLabError e), s)
                | (Inr v, s) \<Rightarrow> (gitlabPlanExisting sha (go_association options) req v, s))))"

definition validateGitLabUpsertRequest :: "upsertRequest \<Rightarrow> providerError + unit" where
  "validateGitLabUpsertRequest req =
     andThen (validateVariableKey (ur_ResolvedName req)) (\<lambda>_.
       if variableValueMaxBytes < int (length (ur_Payload req))
       then Inl (requestFailed gitlabProviderType ErrorClassCapacity)
       else Inr ())"

text \<open>The checks of an upsert on a variable that exists.\<close>

definition gitlabUpsertAllowed ::
    "(string \<Rightarrow> string) \<Rightarrow> gitlabAssociationOptions \<Rightarrow> upsertRequest \<Rightarrow> gitlabVariable \<Rightarrow>
     providerError + variableMetadata" where
  "gitlabUpsertAllowed sha options req v =
     (case ownershipMetadata (gv_Description v) of (metadata, owned) \<Rightarrow>
        if \<not> ownedByRequest sha metadata owned (upsertIdentity req)
        then Inl (requestFailed gitlabProviderType ErrorClassOwnership)
        else if remoteSourceVersionNewer metadata (ur_SourceVersion req)
        then Inl (requestFailed gitlabProviderType ErrorClassDrift)
        else andThen (validateHiddenUpdate options v) (\<lambda>_.
             andThen (validateMaskedPayloadForUpsert options req) (\<lambda>_.
             andThen (variableReadback sha v metadata) (\<lambda>_. Inr metadata))))"

definition gitlabUpsert ::
    "(string \<Rightarrow> string) \<Rightarrow> 's gitlabClient \<Rightarrow> gitlabDestinationOptions \<Rightarrow> upsertRequest \<Rightarrow> 's \<Rightarrow>
     (providerError + syncResult) \<times> 's" where
  "gitlabUpsert sha C destination req s =
     (case andThen (validateGitLabUpsertRequest req) (\<lambda>_. gitlabVariableOptionsFor destination (ur_Association req)) of
        Inl e \<Rightarrow> (Inl e, s)
      | Inr options \<Rightarrow>
          (let input = variableInputFromUpsert sha (go_association options) req
           in case gc_GetVariable C options (ur_ResolvedName req) s of
                (Inl e, s) \<Rightarrow>
                  if isGitLabNotFound e
                  then (case validateMaskedPayloadForUpsert (go_association options) req of
                          Inl e \<Rightarrow> (Inl e, s)
                        | Inr _ \<Rightarrow>
                            (case gc_CreateVariable C options input s of
                               (Inl e, s) \<Rightarrow> (Inl (requestFailed gitlabProviderType (classifyGitLabError e)), s)
                             | (Inr created, s) \<Rightarrow> (Inr \<lparr> sr_RemoteVersion = gitlabRemoteVersion sha created \<rparr>, s)))
                  else (Inl (requestFailed gitlabProviderType (classifyGitLabError e)), s)
              | (Inr v, s) \<Rightarrow>
                  (case gitlabUpsertAllowed sha (go_association options) req v of
                     Inl e \<Rightarrow> (Inl e, s)
                   | Inr metadata \<Rightarrow>
                       if vm_PayloadSHA256 metadata = ur_PayloadSHA256 req \<and> variableMatchesInput v input
                       then (Inr \<lparr> sr_RemoteVersion = gitlabRemoteVersion sha v \<rparr>, s)
                       else (case gc_UpdateVariable C options (ur_ResolvedName req) input s of
                               (Inl e, s) \<Rightarrow> (Inl (requestFailed gitlabProviderType (classifyGitLabError e)), s)
                             | (Inr updated, s) \<Rightarrow>
                                 (Inr \<lparr> sr_RemoteVersion = gitlabRemoteVersion sha updated \<rparr>, s)))))"

definition gitlabDelete ::
    "(string \<Rightarrow> string) \<Rightarrow> 's gitlabClient \<Rightarrow> gitlabDestinationOptions \<Rightarrow> deleteRequest \<Rightarrow> 's \<Rightarrow>
     (providerError + syncResult) \<times> 's" where
  "gitlabDelete sha C destination req s =
     (case andThen (validateVariableKey (dr_ResolvedName req))
             (\<lambda>_. gitlabVariableOptionsFor destination (dr_Association req)) of
        Inl e \<Rightarrow> (Inl e, s)
      | Inr options \<Rightarrow>
          (case gc_GetVariable C options (dr_ResolvedName req) s of
             (Inl e, s) \<Rightarrow>
               if isGitLabNotFound e then (Inr \<lparr> sr_RemoteVersion = ''missing'' \<rparr>, s)
               else (Inl (requestFailed gitlabProviderType (classifyGitLabError e)), s)
           | (Inr v, s) \<Rightarrow>
               (case ownershipMetadata (gv_Description v) of (metadata, owned) \<Rightarrow>
                  if \<not> ownedByRequest sha metadata owned (deleteIdentity req)
                  then (Inl (requestFailed gitlabProviderType ErrorClassOwnership), s)
                  else if remoteSourceVersionNewer metadata (dr_SourceVersion req)
                  then (Inl (requestFailed gitlabProviderType ErrorClassDrift), s)
                  else (case gc_DeleteVariable C options (dr_ResolvedName req) s of
                          (Inl e, s) \<Rightarrow> (Inl (requestFailed gitlabProviderType (classifyGitLabError e)), s)
                        | (Inr _, s) \<Rightarrow> (Inr \<lparr> sr_RemoteVersion = gitlabRemoteVersion sha v \<rparr>, s)))))"

definition gitlabReadState ::
    "(string \<Rightarrow> string) \<Rightarrow> 's gitlabClient \<Rightarrow> gitlabDestinationOptions \<Rightarrow> readStateRequest \<Rightarrow> 's \<Rightarrow>
     (providerError + remoteState) \<times> 's" where
  "gitlabReadState sha C destination req s =
     (case andThen (validateVariableKey (rr_ResolvedName req))
             (\<lambda>_. gitlabVariableOptionsFor destination (rr_Association req)) of
        Inl e \<Rightarrow> (Inl e, s)
      | Inr options \<Rightarrow>
          (case gc_GetVariable C options (rr_ResolvedName req) s of
             (Inl e, s) \<Rightarrow>
               if isGitLabNotFound e then (Inr zeroRemoteState, s)
               else (Inl (requestFailed gitlabProviderType (classifyGitLabError e)), s)
           | (Inr v, s) \<Rightarrow>
               (case ownershipMetadata (gv_Description v) of (metadata, metadataOwned) \<Rightarrow>
                  (let owned = ownedByRequest sha metadata metadataOwned (readStateIdentity req);
                       state = \<lparr> rs_Exists = True, rs_OwnershipKnown = True, rs_Owned = owned,
                         rs_PayloadSHA256 = [], rs_SourceVersion = vm_SourceVersion metadata,
                         rs_RemoteVersion = gitlabRemoteVersion sha v,
                         rs_Verification = RemoteStateVerificationMetadata \<rparr>
                   in case variableReadback sha v metadata of
                        Inl e \<Rightarrow> if owned then (Inl e, s) else (Inr state, s)
                      | Inr (payloadHash, verification) \<Rightarrow>
                          (Inr (state \<lparr> rs_PayloadSHA256 := payloadHash, rs_Verification := verification \<rparr>), s)))))"

section \<open>The client over HTTP\<close>

text \<open>
  \<open>url.PathEscape\<close>: unreserved characters and \<open>$ & + = : @\<close> are kept in a path segment.
\<close>

definition upperHex :: "nat \<Rightarrow> char" where
  "upperHex d = (if d < 10 then char_of (48 + d) else char_of (55 + d))"

definition pathEscapeChar :: "char \<Rightarrow> string" where
  "pathEscapeChar c =
     (let n = (of_char c :: nat)
      in if (65 \<le> n \<and> n \<le> 90) \<or> (97 \<le> n \<and> n \<le> 122) \<or> (48 \<le> n \<and> n \<le> 57) \<or> c \<in> set ''-_.~$&+=:@'' then [c]
         else [CHR ''%'', upperHex (n div 16), upperHex (n mod 16)])"

definition pathEscape :: "string \<Rightarrow> string" where
  "pathEscape s = concat (map pathEscapeChar s)"

definition variablesPath :: "string \<Rightarrow> string" where
  "variablesPath projectID = ''/projects/'' @ pathEscape projectID @ ''/variables''"

definition variablePath :: "string \<Rightarrow> string \<Rightarrow> string" where
  "variablePath projectID key = variablesPath projectID @ ''/'' @ pathEscape key"

definition environmentScopeQuery :: "gitlabVariableOptions \<Rightarrow> (string \<times> string) list" where
  "environmentScopeQuery options =
     [(''filter[environment_scope]'', ga_environmentScope (go_association options))]"

definition gitlabForm :: "gitlabVariableInput \<Rightarrow> (string \<times> string) list" where
  "gitlabForm input =
     [(''key'', gi_Key input), (''value'', gi_Value input), (''environment_scope'', gi_EnvironmentScope input),
      (''protected'', formatBool (gi_Protected input)), (''masked'', formatBool (gi_Masked input)),
      (''raw'', formatBool (gi_VariableRaw input)), (''variable_type'', gi_VariableType input),
      (''description'', gi_Description input)]"

definition gitlabCreateForm :: "gitlabVariableInput \<Rightarrow> (string \<times> string) list" where
  "gitlabCreateForm input =
     (if gi_Hidden input
      then AList.update ''masked_and_hidden'' ''true'' (AList.update ''masked'' ''true'' (gitlabForm input))
      else gitlabForm input)"

definition gitlabUpdateForm :: "gitlabVariableInput \<Rightarrow> (string \<times> string) list" where
  "gitlabUpdateForm input = gitlabForm input"

text \<open>
  A request: its URL is the base URL with \<open>/api/v4\<close>, the escaped path and the query appended. A reply has
  a status and, where one is expected, the decoded body: the variable and its \<open>value\<close> member, which
  may be null; \<open>None\<close> is a body that is not such a JSON object.
\<close>

record gitlabRequest =
  gq_method :: string
  gq_baseURL :: string
  gq_apiPath :: string
  gq_query :: "(string \<times> string) list"
  gq_form :: "(string \<times> string) list option"
  gq_token :: string

record gitlabReply =
  gy_status :: int
  gy_body :: "(gitlabVariable \<times> string option) option"

text \<open>\<open>UnmarshalJSON\<close>: a null or missing value is unavailable.\<close>

definition unmarshalVariable :: "gitlabVariable \<times> string option \<Rightarrow> gitlabVariable" where
  "unmarshalVariable decoded =
     (case decoded of (plain, v) \<Rightarrow>
        plain \<lparr> gv_Value := (case v of None \<Rightarrow> gv_Value plain | Some x \<Rightarrow> x), gv_valueUnavailable := (v = None) \<rparr>)"

definition gitlabNewRequest ::
    "gitlabDestinationOptions \<Rightarrow> string \<Rightarrow> string \<Rightarrow> (string \<times> string) list \<Rightarrow>
     (string \<times> string) list option \<Rightarrow> gitlabRequest" where
  "gitlabNewRequest options method apiPath query form =
     \<lparr> gq_method = method, gq_baseURL = gd_baseURL options, gq_apiPath = apiPath, gq_query = query,
       gq_form = form, gq_token = gd_token options \<rparr>"

type_synonym 's send = "gitlabRequest \<Rightarrow> 's \<Rightarrow> (string + gitlabReply) \<times> 's"

definition gitlabDo :: "'s send \<Rightarrow> gitlabRequest \<Rightarrow> 's \<Rightarrow> (gitlabError + gitlabReply) \<times> 's" where
  "gitlabDo send req s =
     (case send req s of
        (Inl message, s) \<Rightarrow> (Inl (GitLabRequestError message), s)
      | (Inr reply, s) \<Rightarrow>
          if gy_status reply < 200 \<or> 300 \<le> gy_status reply then (Inl (GitLabHTTPError (gy_status reply)), s)
          else (Inr reply, s))"

definition gitlabDoVariable :: "'s send \<Rightarrow> gitlabRequest \<Rightarrow> 's \<Rightarrow> (gitlabError + gitlabVariable) \<times> 's" where
  "gitlabDoVariable send req s =
     (case gitlabDo send req s of
        (Inl e, s) \<Rightarrow> (Inl e, s)
      | (Inr reply, s) \<Rightarrow>
          (case gy_body reply of
             None \<Rightarrow> (Inl (GitLabRequestError ''invalid response''), s)
           | Some decoded \<Rightarrow> (Inr (unmarshalVariable decoded), s)))"

definition gitlabDoUnit :: "'s send \<Rightarrow> gitlabRequest \<Rightarrow> 's \<Rightarrow> (gitlabError + unit) \<times> 's" where
  "gitlabDoUnit send req s =
     (case gitlabDo send req s of (Inl e, s) \<Rightarrow> (Inl e, s) | (Inr _, s) \<Rightarrow> (Inr (), s))"

definition httpProjectVariableClient :: "'s send \<Rightarrow> 's gitlabClient" where
  "httpProjectVariableClient send =
     \<lparr> gc_GetProject = (\<lambda>d. gitlabDoUnit send
         (gitlabNewRequest d ''GET'' (''/projects/'' @ pathEscape (gd_projectID d)) [] None)),
       gc_GetVariable = (\<lambda>options key. gitlabDoVariable send
         (gitlabNewRequest (go_destination options) ''GET''
            (variablePath (gd_projectID (go_destination options)) key) (environmentScopeQuery options) None)),
       gc_CreateVariable = (\<lambda>options input. gitlabDoVariable send
         (gitlabNewRequest (go_destination options) ''POST''
            (variablesPath (gd_projectID (go_destination options))) [] (Some (gitlabCreateForm input)))),
       gc_UpdateVariable = (\<lambda>options key input. gitlabDoVariable send
         (gitlabNewRequest (go_destination options) ''PUT''
            (variablePath (gd_projectID (go_destination options)) key) (environmentScopeQuery options)
            (Some (gitlabUpdateForm input)))),
       gc_DeleteVariable = (\<lambda>options key. gitlabDoUnit send
         (gitlabNewRequest (go_destination options) ''DELETE''
            (variablePath (gd_projectID (go_destination options)) key) (environmentScopeQuery options) None)) \<rparr>"

end
