(* ===== verification/Go_Trim.thy ===== *)
theory Go_Trim
  imports Go_Strings
begin

text \<open>
  Laws of \<open>strings.TrimSpace\<close>: it is idempotent, and it changes nothing between two characters that begin
  and end no space.
\<close>

lemma trimRunes_none: "find (\<lambda>r. r \<noteq> [] \<and> prefix r (trimRunes rs s)) rs = None"
proof (induction rs s rule: trimRunes.induct)
  case (1 rs s)
  then show ?case by (subst trimRunes.simps) (auto split: option.splits)
qed

lemma trimRunes_fix: "find (\<lambda>r. r \<noteq> [] \<and> prefix r s) rs = None \<Longrightarrow> trimRunes rs s = s"
  by (subst trimRunes.simps) simp

lemma trimRunes_suffix: "suffix (trimRunes rs s) s"
proof (induction rs s rule: trimRunes.induct)
  case (1 rs s)
  then show ?case
    by (subst trimRunes.simps) (auto split: option.splits intro: suffix_order.trans suffix_drop)
qed

lemma trimSpace_idem: "trimSpace (trimSpace s) = trimSpace s"
proof -
  let ?t = "trimRunes spaceRunes s"
  let ?u = "trimRunes (map rev spaceRunes) (rev ?t)"
  have "prefix (rev ?u) ?t"
    using trimRunes_suffix [of "map rev spaceRunes" "rev ?t"] by (simp add: suffix_to_prefix)
  then have "find (\<lambda>r. r \<noteq> [] \<and> prefix r (rev ?u)) spaceRunes = None"
    using trimRunes_none [of spaceRunes s] by (auto simp: find_None_iff dest: prefix_order.trans)
  then have "trimRunes spaceRunes (rev ?u) = rev ?u"
    by (rule trimRunes_fix)
  then show ?thesis
    using trimRunes_fix [OF trimRunes_none, of "map rev spaceRunes" "rev ?t"] by (simp add: trimSpace_def)
qed

text \<open>A character at which no space begins or ends.\<close>

definition solidChar :: "char \<Rightarrow> bool" where
  "solidChar c \<longleftrightarrow> list_all (\<lambda>r. r = [] \<or> hd r \<noteq> c \<and> last r \<noteq> c) spaceRunes"

lemma trimRunes_solid:
  assumes "list_all (\<lambda>r. r = [] \<or> hd r \<noteq> c) rs"
  shows "trimRunes rs (c # s) = c # s"
proof (rule trimRunes_fix)
  show "find (\<lambda>r. r \<noteq> [] \<and> prefix r (c # s)) rs = None"
    using assms by (auto simp: find_None_iff list_all_iff prefix_Cons)
qed

lemma trimSpace_solid:
  assumes "solidChar c" and "solidChar d"
  shows "trimSpace (c # s @ [d]) = c # s @ [d]"
proof -
  have "list_all (\<lambda>r. r = [] \<or> hd r \<noteq> c) spaceRunes"
    using assms(1) by (auto simp: solidChar_def list_all_iff)
  moreover have "list_all (\<lambda>r. r = [] \<or> hd r \<noteq> d) (map rev spaceRunes)"
    using assms(2) by (auto simp: solidChar_def list_all_iff hd_rev)
  ultimately show ?thesis
    by (simp add: trimSpace_def trimRunes_solid)
qed

text \<open>Printable ASCII characters are solid, so a text between two of them is left as it is.\<close>

lemma solid_printable:
  assumes "(of_char c :: nat) \<in> {33..126}"
  shows "solidChar c"
proof -
  have "list_all (\<lambda>r. r = [] \<or> of_char (hd r) \<notin> {33..126 :: nat} \<and> of_char (last r) \<notin> {33..126 :: nat}) spaceRunes"
    by (simp add: spaceRunes_def)
  then show ?thesis
    using assms by (auto simp: solidChar_def list_all_iff)
qed

lemma trimSpace_Nil: "trimSpace [] = []"
  by (simp add: trimSpace_def trimRunes_fix find_None_iff)

lemma trimSpace_printable:
  assumes "s \<noteq> []" and "(of_char (hd s) :: nat) \<in> {33..126}" and "(of_char (last s) :: nat) \<in> {33..126}"
  shows "trimSpace s = s"
proof (cases "tl s = []")
  case True
  then obtain c where s: "s = [c]" using assms(1) by (cases s) auto
  then have "solidChar c" using assms(2) by (simp add: solid_printable)
  then have "list_all (\<lambda>r. r = [] \<or> hd r \<noteq> c) spaceRunes" "list_all (\<lambda>r. r = [] \<or> hd r \<noteq> c) (map rev spaceRunes)"
    by (auto simp: solidChar_def list_all_iff hd_rev)
  then show ?thesis by (simp add: s trimSpace_def trimRunes_solid)
next
  case False
  then have s: "s = hd s # butlast (tl s) @ [last s]"
    using assms(1) by (cases s) (auto simp: last_tl)
  have "trimSpace (hd s # butlast (tl s) @ [last s]) = hd s # butlast (tl s) @ [last s]"
    using assms(2,3) by (intro trimSpace_solid solid_printable)
  then show ?thesis using s by simp
qed

end
