(* ===== verification/GitLab_Laws.thy ===== *)
theory GitLab_Laws
  imports GitLab_Metadata Go_Trim
begin

text \<open>
  Reading a description gives back what was written: lemmas on the escapes, on the splitting of the
  summary and of the fields, and on the compaction of long identities.
\<close>

section \<open>Runes of escaped text\<close>

lemma isRune_replacement: "isRune replacementRune"
  by (simp add: isRune_def replacementRune_def runeLength_def inByteRange_def)

lemma isRune_runes: "r \<in> set (runes s) \<Longrightarrow> isRune r"
proof (induction s rule: runes.induct)
  case (2 c s)
  show ?case
  proof (cases "runeLength (c # s)")
    case 0
    then show ?thesis
      using 2 isRune_replacement by (auto simp: runes.simps)
  next
    case (Suc k)
    then show ?thesis
      using 2 runeLength_take [OF Suc] by (auto simp: runes.simps)
  qed
qed (simp add: runes.simps)

lemma runes_ascii: "(\<forall>c \<in> set s. (of_char c :: nat) < 128) \<Longrightarrow> runes s = map (\<lambda>c. [c]) s"
  using runes_concat [of "map (\<lambda>c. [c]) s"] isRune_ascii
  by (auto simp: list_all_iff)

lemma valid_ascii: "(\<forall>c \<in> set s. (of_char c :: nat) < 128) \<Longrightarrow> concat (runes s) = s"
  by (simp add: runes_ascii)

text \<open>The escape of a rune as runes.\<close>

definition escRunes :: "string \<Rightarrow> string list" where
  "escRunes r = (if r = [bsl] \<or> r = '';'' then [[bsl], r] else if r = [CHR 0x0A] then [[bsl], ''n'']
     else if r = [CHR 0x0D] then [[bsl], ''r''] else [r])"

definition escSummaryRunes :: "string \<Rightarrow> string list" where
  "escSummaryRunes r = (if r = '' '' then [[bsl], ''s''] else escRunes r)"

lemma concat_escRunes:
  "concat (escRunes r) = escapeMetadataRune r"
  "concat (escSummaryRunes r) = escapeSummaryRune r"
  by (simp_all add: escRunes_def escSummaryRunes_def escapeMetadataRune_def escapeSummaryRune_def)

lemma ascii_consts [simp]: "(of_char bsl :: nat) = 92"
  by (simp add: bsl_char)

lemma concat_concat_map: "concat (concat (map f xs)) = concat (map (\<lambda>x. concat (f x)) xs)"
  by (induction xs) simp_all

lemma isRune_consts [simp]: "isRune [bsl]" "isRune '';''" "isRune ''n''" "isRune ''r''" "isRune ''s''" "isRune '' ''"
  by (simp_all add: isRune_ascii)

lemma isRune_escRunes: "isRune r \<Longrightarrow> list_all isRune (escRunes r)" "isRune r \<Longrightarrow> list_all isRune (escSummaryRunes r)"
  by (auto simp: escRunes_def escSummaryRunes_def)

text \<open>Facts about both escapes, as a sequence of runes in general.\<close>

locale rune_escape =
  fixes esc :: "string \<Rightarrow> string list" and sep :: char
  assumes esc_runes: "isRune r \<Longrightarrow> list_all isRune (esc r)"
    and esc_cases: "isRune r \<Longrightarrow> (esc r = [r] \<and> bsl \<notin> set r \<and> CHR '';'' \<notin> set r \<and> r \<noteq> [sep]) \<or>
      (\<exists>c. esc r = [[bsl], [c]] \<and> (\<forall>rs b. unescapeRunes ([c] # rs) b True = unescapeRunes rs (b @ r) False))"
begin

definition escaped :: "string \<Rightarrow> string" where
  "escaped v = concat (concat (map esc (runes v)))"

lemma runes_escaped: "runes (escaped v @ s) = concat (map esc (runes v)) @ runes s"
proof -
  have "list_all isRune (concat (map esc (runes v)))"
    using isRune_runes esc_runes by (fastforce simp: list_all_iff)
  then show ?thesis
    unfolding escaped_def by (rule runes_append)
qed

lemma split_escaped:
  "list_all isRune rs \<Longrightarrow>
   splitEscaped sep (concat (map esc rs) @ post) builder False =
     splitEscaped sep post (builder @ concat (concat (map esc rs))) False"
proof (induction rs arbitrary: builder)
  case (Cons r rs)
  then have r: "isRune r" and IH: "\<And>b. splitEscaped sep (concat (map esc rs) @ post) b False =
      splitEscaped sep post (b @ concat (concat (map esc rs))) False"
    by simp_all
  from esc_cases [OF r] show ?case
  proof (elim disjE conjE exE)
    assume "esc r = [r]" "bsl \<notin> set r" "r \<noteq> [sep]"
    moreover from this have "r \<noteq> [bsl]" by auto
    ultimately show ?thesis by (simp add: IH)
  next
    fix c assume "esc r = [[bsl], [c]]"
    then show ?thesis by (simp add: IH)
  qed
qed simp

lemma unescape_escaped_runes:
  "list_all isRune rs \<Longrightarrow> unescapeRunes (concat (map esc rs)) b False = Some (b @ concat rs)"
proof (induction rs arbitrary: b)
  case (Cons r rs)
  then have r: "isRune r" and IH: "\<And>b. unescapeRunes (concat (map esc rs)) b False = Some (b @ concat rs)"
    by simp_all
  from esc_cases [OF r] show ?case
  proof (elim disjE conjE exE)
    assume "esc r = [r]" "bsl \<notin> set r"
    moreover from this have "r \<noteq> [bsl]" by auto
    ultimately show ?thesis by (simp add: IH)
  next
    fix c
    assume "esc r = [[bsl], [c]]"
      and "\<forall>rs b. unescapeRunes ([c] # rs) b True = unescapeRunes rs (b @ r) False"
    then show ?thesis by (simp add: IH del: unescapeRunes.simps(2)) (simp add: IH)
  qed
qed simp

lemma unescape_escaped: "unescapeMetadataDescriptionValue (escaped v) = Some (concat (runes v))"
proof -
  have "list_all isRune (runes v)"
    by (auto simp: list_all_iff intro: isRune_runes)
  then show ?thesis
    using runes_escaped [of v "[]"] unescape_escaped_runes
    by (simp add: unescapeMetadataDescriptionValue_def runes.simps)
qed

lemma cutEscaped_plain:
  "bsl \<notin> set r \<Longrightarrow> CHR '';'' \<notin> set r \<Longrightarrow>
   cutEscaped (r @ s) False = map_option (\<lambda>(a, b). (r @ a, b)) (cutEscaped s False)"
  by (induction r) (auto simp: option.map_comp comp_def case_prod_unfold option.map_ident [unfolded id_def])

lemma cutEscaped_runes:
  "list_all isRune rs \<Longrightarrow>
   cutEscaped (concat (concat (map esc rs)) @ s) False =
     map_option (\<lambda>(a, b). (concat (concat (map esc rs)) @ a, b)) (cutEscaped s False)"
proof (induction rs)
  case (Cons r rs)
  then have r: "isRune r" by simp
  from esc_cases [OF r] show ?case
  proof (elim disjE conjE exE)
    assume "esc r = [r]" "bsl \<notin> set r" "CHR '';'' \<notin> set r"
    then show ?thesis
      using Cons by (simp add: cutEscaped_plain option.map_comp comp_def case_prod_unfold)
  next
    fix c assume "esc r = [[bsl], [c]]"
    then show ?thesis
      using Cons by (simp add: option.map_comp comp_def case_prod_unfold)
  qed
qed (simp add: option.map_id [unfolded id_def] case_prod_unfold)

lemma cutEscaped_escaped:
  "cutEscaped (escaped v @ s) False = map_option (\<lambda>(a, b). (escaped v @ a, b)) (cutEscaped s False)"
  unfolding escaped_def
  by (rule cutEscaped_runes) (auto simp: list_all_iff intro: isRune_runes)

end

lemma isRune_no:
  "isRune r \<Longrightarrow> r \<noteq> [bsl] \<Longrightarrow> bsl \<notin> set r"
  "isRune r \<Longrightarrow> r \<noteq> '';'' \<Longrightarrow> CHR '';'' \<notin> set r"
  using isRune_ascii_only [of r bsl] isRune_ascii_only [of r "CHR '';''"] by auto

interpretation fieldEsc: rune_escape escRunes "CHR '';''"
proof
  fix r assume "isRune r"
  then show "list_all isRune (escRunes r)" by (rule isRune_escRunes)
  show "(escRunes r = [r] \<and> bsl \<notin> set r \<and> CHR '';'' \<notin> set r \<and> r \<noteq> '';'') \<or>
      (\<exists>c. escRunes r = [[bsl], [c]] \<and> (\<forall>rs b. unescapeRunes ([c] # rs) b True = unescapeRunes rs (b @ r) False))"
    using isRune_no [OF \<open>isRune r\<close>]
    by (cases "r = [bsl]"; cases "r = '';''"; cases "r = [CHR 0x0A]"; cases "r = [CHR 0x0D]")
      (auto simp: escRunes_def bsl_char)
qed

interpretation summaryEsc: rune_escape escSummaryRunes "CHR '' ''"
proof
  fix r assume "isRune r"
  then show "list_all isRune (escSummaryRunes r)" by (rule isRune_escRunes)
  show "(escSummaryRunes r = [r] \<and> bsl \<notin> set r \<and> CHR '';'' \<notin> set r \<and> r \<noteq> '' '') \<or>
      (\<exists>c. escSummaryRunes r = [[bsl], [c]] \<and> (\<forall>rs b. unescapeRunes ([c] # rs) b True = unescapeRunes rs (b @ r) False))"
    using isRune_no [OF \<open>isRune r\<close>]
    by (cases "r = [bsl]"; cases "r = '';''"; cases "r = [CHR 0x0A]"; cases "r = [CHR 0x0D]"; cases "r = '' ''")
      (auto simp: escSummaryRunes_def escRunes_def bsl_char)
qed

lemma escaped_value: "fieldEsc.escaped v = escapeMetadataDescriptionValue v"
  by (simp add: fieldEsc.escaped_def escapeMetadataDescriptionValue_def concat_concat_map concat_escRunes)

lemma escaped_summary: "summaryEsc.escaped v = escapeMetadataDescriptionSummaryValue v"
  by (simp add: summaryEsc.escaped_def escapeMetadataDescriptionSummaryValue_def concat_concat_map concat_escRunes)

section \<open>The summary\<close>

lemma char_ascii_digit: "isDigit c \<Longrightarrow> (of_char c :: nat) < 128"
  by (simp add: isDigit_def)

lemma itoa_chars: "c \<in> set (itoa i) \<Longrightarrow> isDigit c \<or> c = CHR ''-''"
  using natDigits_digits [of "nat i"] natDigits_digits [of "nat (- i)"]
  by (auto simp: itoa_def list_all_iff split: if_splits)

lemma version_text:
  assumes "c \<in> set (''v'' @ itoa i)"
  shows "(of_char c :: nat) < 128" "c \<noteq> bsl" "c \<noteq> CHR '';''" "c \<noteq> CHR '' ''"
  using assms itoa_chars [of c i] by (auto simp: char_ascii_digit bsl_char isDigit_def)

lemma cutEscaped_none_special:
  "bsl \<notin> set r \<Longrightarrow> CHR '';'' \<notin> set r \<Longrightarrow> cutEscaped (r @ CHR '';'' # s) False = Some (r, s)"
  using fieldEsc.cutEscaped_plain [of r "CHR '';'' # s"] by (simp add: bsl_char)

lemma splitEscaped_plain:
  "\<forall>c \<in> set s. c \<noteq> bsl \<and> c \<noteq> sep \<Longrightarrow> splitEscaped sep (map (\<lambda>c. [c]) s) b False = [b @ s]"
  by (induction s arbitrary: b) auto

lemma splitEscaped_escaped_runes:
  "splitEscaped (CHR '' '') (concat (map escSummaryRunes (runes v)) @ post) b False =
     splitEscaped (CHR '' '') post (b @ escapeMetadataDescriptionSummaryValue v) False"
  "splitEscaped (CHR '';'') (concat (map escRunes (runes v)) @ post) b False =
     splitEscaped (CHR '';'') post (b @ escapeMetadataDescriptionValue v) False"
  using summaryEsc.split_escaped [of "runes v" post b] fieldEsc.split_escaped [of "runes v" post b]
  by (simp_all add: list_all_iff isRune_runes flip: escaped_summary escaped_value
      add: summaryEsc.escaped_def fieldEsc.escaped_def)

lemma runes_ascii_Cons: "(of_char c :: nat) < 128 \<Longrightarrow> runes (c # s) = [c] # runes s"
  using runes_Cons_rune [OF isRune_ascii, of c s] by simp

text \<open>The text of a summary of an escaped path, an escaped object and a version.\<close>

definition summaryText :: "string \<Rightarrow> string \<Rightarrow> int \<Rightarrow> string" where
  "summaryText source object v = escapeMetadataDescriptionSummaryValue source @ '' '' @
     escapeMetadataDescriptionSummaryValue object @ '' '' @ ''v'' @ itoa v"

lemma cut_summaryText:
  "cutEscapedDescriptionSummary (summaryText source object v @ '';'' @ s) = Some (summaryText source object v, s)"
proof -
  have "cutEscaped ((''v'' @ itoa v) @ CHR '';'' # s) False = Some (''v'' @ itoa v, s)"
    using version_text [of _ v] by (intro cutEscaped_none_special) blast+
  then show ?thesis
    by (simp add: cutEscapedDescriptionSummary_def summaryText_def summaryEsc.cutEscaped_escaped bsl_char
        flip: escaped_summary)
qed

lemma split_summaryText:
  "splitEscapedSummaryFields (summaryText source object v) =
     [escapeMetadataDescriptionSummaryValue source, escapeMetadataDescriptionSummaryValue object, ''v'' @ itoa v]"
proof -
  have r: "runes (escapeMetadataDescriptionSummaryValue x @ s) = concat (map escSummaryRunes (runes x)) @ runes s" for x s
    using summaryEsc.runes_escaped [of x s] by (simp add: escaped_summary)
  have space: "runes ('' '' @ s) = '' '' # runes s" for s
    by (simp add: runes_ascii_Cons)
  have v: "runes (''v'' @ itoa v) = map (\<lambda>c. [c]) (''v'' @ itoa v)"
    using version_text(1) [of _ v] by (intro runes_ascii) blast
  have split: "splitEscaped (CHR '' '') (map (\<lambda>c. [c]) (''v'' @ itoa v)) [] False = [''v'' @ itoa v]"
    using version_text(2,4) [of _ v] splitEscaped_plain [of "''v'' @ itoa v" "CHR '' ''" "[]"] by auto
  show ?thesis
    unfolding splitEscapedSummaryFields_def summaryText_def
    using split by (simp add: r v space splitEscaped_escaped_runes bsl_char del: append_Cons map_append)
qed

definition wireText :: "variableMetadata \<Rightarrow> string \<times> string" where
  "wireText wire =
     (if vm_SourcePath wire = [] \<and> vm_SourcePathHash wire \<noteq> [] then ''path#'' @ vm_SourcePathHash wire else vm_SourcePath wire,
      if vm_ObjectID wire = [] \<and> vm_ObjectIDHash wire \<noteq> [] then ''object#'' @ vm_ObjectIDHash wire else vm_ObjectID wire)"

text \<open>A value that is not compacted has no hash, and cannot be mistaken for one.\<close>

definition exclusive :: "string \<Rightarrow> string \<Rightarrow> bool" where
  "exclusive v hash \<longleftrightarrow> v = [] \<or> hash = []"

definition readable :: "variableMetadata \<Rightarrow> bool" where
  "readable wire \<longleftrightarrow>
     exclusive (vm_SourcePath wire) (vm_SourcePathHash wire) \<and> exclusive (vm_ObjectID wire) (vm_ObjectIDHash wire) \<and>
     \<not> prefix ''path#'' (vm_SourcePath wire) \<and> \<not> prefix ''object#'' (vm_ObjectID wire) \<and>
     validUTF8 (vm_SourcePath wire) \<and> validUTF8 (vm_SourcePathHash wire) \<and>
     validUTF8 (vm_ObjectID wire) \<and> validUTF8 (vm_ObjectIDHash wire) \<and>
     validUTF8 (vm_AssociationID wire) \<and> vm_AssociationID wire \<noteq> [] \<and> inInt64 (vm_SourceVersion wire) \<and>
     validUTF8 (vm_MountUUID wire) \<and> validUTF8 (vm_MountUUIDHash wire) \<and>
     validUTF8 (vm_RestoreEpoch wire) \<and> validUTF8 (vm_RestoreEpochHash wire) \<and>
     validUTF8 (vm_PayloadSHA256 wire) \<and> validUTF8 (vm_PayloadFormat wire)"

lemma unescape_summary: "validUTF8 v \<Longrightarrow>
    unescapeMetadataDescriptionValue (escapeMetadataDescriptionSummaryValue v) = Some v"
  using summaryEsc.unescape_escaped [of v] valid_runes [of v] by (simp add: escaped_summary)

lemma unescape_value: "validUTF8 v \<Longrightarrow>
    unescapeMetadataDescriptionValue (escapeMetadataDescriptionValue v) = Some v"
  using fieldEsc.unescape_escaped [of v] valid_runes [of v] by (simp add: escaped_value)

lemma validUTF8_ascii [simp]: "(of_char c :: nat) < 128 \<Longrightarrow> validUTF8 (c # s) = validUTF8 s"
  by (simp add: validUTF8.simps runeLength_def inByteRange_def)

lemma parse_summaryText:
  assumes "readable wire" and "s = [] \<or> hd s \<noteq> CHR '' ''"
  shows "parseMetadataDescriptionSummary (metadataDescriptionSummary wire @ ''; '' @ s) =
     Some (zeroVariableMetadata \<lparr> vm_SourcePath := vm_SourcePath wire, vm_SourcePathHash := vm_SourcePathHash wire,
       vm_ObjectID := vm_ObjectID wire, vm_ObjectIDHash := vm_ObjectIDHash wire,
       vm_SourceVersion := vm_SourceVersion wire \<rparr>, s)"
proof -
  obtain source object where so: "wireText wire = (source, object)"
    by (cases "wireText wire")
  have wtext: "metadataDescriptionSummary wire = summaryText source object (vm_SourceVersion wire)"
    using so by (auto simp: wireText_def metadataDescriptionSummary_def summaryText_def Let_def
        metadataDescriptionCompactedPath_def metadataDescriptionCompactedObject_def
        metadataDescriptionCompactedVersion_def)
  have valid: "validUTF8 source" "validUTF8 object"
    using so assms(1) by (auto simp: wireText_def readable_def split: if_splits)
  have hashes: "valueOrHash metadataDescriptionCompactedPath source = (vm_SourcePath wire, vm_SourcePathHash wire)"
    "valueOrHash metadataDescriptionCompactedObject object = (vm_ObjectID wire, vm_ObjectIDHash wire)"
    using so assms(1)
    by (auto simp: wireText_def readable_def exclusive_def valueOrHash_def cutPrefix_def
        metadataDescriptionCompactedPath_def metadataDescriptionCompactedObject_def split: if_splits)
  have vtext: "cutPrefix (''v'' @ itoa (vm_SourceVersion wire)) metadataDescriptionCompactedVersion =
      Some (itoa (vm_SourceVersion wire))"
    by (simp add: cutPrefix_def metadataDescriptionCompactedVersion_def)
  have trimmed: "trimLeft (CHR '' '') ('' '' @ s) = s"
    using assms(2) by (cases s) (auto simp: trimLeft_def)
  have vint: "atoi (itoa (vm_SourceVersion wire)) = Some (vm_SourceVersion wire)"
    using assms(1) by (simp add: atoi_itoa readable_def)
  have cutS: "cutEscapedDescriptionSummary (summaryText source object (vm_SourceVersion wire) @ ''; '' @ s) =
      Some (summaryText source object (vm_SourceVersion wire), '' '' @ s)"
    using cut_summaryText [of source object "vm_SourceVersion wire" "'' '' @ s"] by simp
  show ?thesis
    unfolding parseMetadataDescriptionSummary_def wtext cutS option.case prod.case split_summaryText list.case
      unescape_summary [OF valid(1)] unescape_summary [OF valid(2)] vtext vint hashes trimmed ..
qed

section \<open>The fields\<close>

definition fieldText :: "string \<times> string \<Rightarrow> string" where
  "fieldText kv = fst kv @ ''='' @ escapeMetadataDescriptionValue (snd kv)"

definition plainKey :: "string \<Rightarrow> bool" where
  "plainKey k \<longleftrightarrow> k \<noteq> [] \<and> trimSpace k = k \<and>
     list_all (\<lambda>c. (of_char c :: nat) < 128 \<and> c \<noteq> bsl \<and> c \<noteq> CHR '';'' \<and> c \<noteq> CHR ''='' \<and> c \<noteq> CHR '' '') k"

lemma split_plain_prefix:
  "\<forall>c \<in> set k. (of_char c :: nat) < 128 \<and> c \<noteq> bsl \<and> c \<noteq> sep \<Longrightarrow>
   splitEscaped sep (runes (k @ s)) b False = splitEscaped sep (runes s) (b @ k) False"
  by (induction k arbitrary: b) (auto simp: runes_ascii_Cons)

lemma split_fieldText:
  assumes "plainKey (fst kv)"
  shows "splitEscaped (CHR '';'') (runes (fieldText kv @ s)) b False =
     splitEscaped (CHR '';'') (runes s) (b @ fieldText kv) False"
proof -
  have "splitEscaped (CHR '';'') (runes ((fst kv @ ''='') @ escapeMetadataDescriptionValue (snd kv) @ s)) b False =
      splitEscaped (CHR '';'') (runes (escapeMetadataDescriptionValue (snd kv) @ s)) (b @ fst kv @ ''='') False"
    using assms by (intro split_plain_prefix) (auto simp: plainKey_def list_all_iff bsl_char)
  moreover have "runes (escapeMetadataDescriptionValue (snd kv) @ s) =
      concat (map escRunes (runes (snd kv))) @ runes s"
    using fieldEsc.runes_escaped [of "snd kv" s] by (simp add: escaped_value)
  ultimately show ?thesis
    by (simp add: fieldText_def splitEscaped_escaped_runes)
qed

lemma split_fields:
  "list_all (\<lambda>kv. plainKey (fst kv)) (kv # kvs) \<Longrightarrow>
   splitEscaped (CHR '';'') (runes (joinParts (map fieldText (kv # kvs)))) b False =
     (b @ fieldText kv) # map (\<lambda>x. '' '' @ fieldText x) kvs"
proof (induction kvs arbitrary: kv b)
  case Nil
  then show ?case
    using split_fieldText [of kv "[]" b] by (simp add: runes.simps(1))
next
  case (Cons kv' kvs)
  have "splitEscaped (CHR '';'') (runes (''; '' @ s)) b False = b # splitEscaped (CHR '';'') (runes s) '' '' False" for b s
    by (simp add: runes_ascii_Cons bsl_char)
  then show ?case
    using Cons.prems Cons.IH [of kv' "'' ''"] split_fieldText [of kv "''; '' @ joinParts (map fieldText (kv' # kvs))" b]
    by simp
qed

lemma parse_field:
  assumes k: "plainKey (fst kv)" and v: "validUTF8 (snd kv)"
  shows "cutAt (CHR ''='') (trimLeft (CHR '' '') (fieldText kv)) = Some (fst kv, escapeMetadataDescriptionValue (snd kv))"
    and "cutAt (CHR ''='') (trimLeft (CHR '' '') ('' '' @ fieldText kv)) = Some (fst kv, escapeMetadataDescriptionValue (snd kv))"
proof -
  have "trimLeft (CHR '' '') (fieldText kv) = fieldText kv"
    using k by (cases "fst kv") (auto simp: fieldText_def trimLeft_def plainKey_def)
  moreover have "CHR ''='' \<notin> set (fst kv)"
    using k by (auto simp: plainKey_def list_all_iff)
  ultimately show "cutAt (CHR ''='') (trimLeft (CHR '' '') (fieldText kv)) = Some (fst kv, escapeMetadataDescriptionValue (snd kv))"
    by (simp add: fieldText_def cutAt_append)
  then show "cutAt (CHR ''='') (trimLeft (CHR '' '') ('' '' @ fieldText kv)) = Some (fst kv, escapeMetadataDescriptionValue (snd kv))"
    by (simp add: trimLeft_def)
qed

lemma parse_fields_rest:
  "list_all (\<lambda>kv. plainKey (fst kv) \<and> validUTF8 (snd kv)) kvs \<Longrightarrow>
   parseFields (map (\<lambda>x. '' '' @ fieldText x) kvs) m = Some (rev kvs @ m)"
proof (induction kvs arbitrary: m)
  case (Cons kv kvs)
  then show ?case
    using parse_field(2) [of kv] by (cases kv) (simp add: plainKey_def unescape_value del: append_Cons)
qed simp

lemma parse_fieldTexts:
  assumes "kvs \<noteq> []" and "list_all (\<lambda>kv. plainKey (fst kv) \<and> validUTF8 (snd kv)) kvs"
  shows "parseMetadataDescriptionFields (joinParts (map fieldText kvs)) = Some (rev kvs)"
proof -
  obtain kv rest where kvs: "kvs = kv # rest"
    using assms(1) by (cases kvs) auto
  have "splitEscapedDescriptionFields (joinParts (map fieldText kvs)) =
      fieldText kv # map (\<lambda>x. '' '' @ fieldText x) rest"
    unfolding splitEscapedDescriptionFields_def kvs
    using assms(2) kvs by (subst split_fields) (auto simp: list_all_iff)
  then show ?thesis
    using assms(2) parse_field(1) [of kv] parse_fields_rest [of rest "[kv]"] kvs
    by (cases kv) (simp add: parseMetadataDescriptionFields_def plainKey_def unescape_value)
qed

lemma mapGet_notin: "k \<notin> fst ` set m \<Longrightarrow> mapGet m k = []"
  by (simp add: mapGet_def map_of_eq_None_iff [THEN iffD2])

lemma mapGet_filter:
  "distinct (map fst kvs) \<Longrightarrow> mapGet (filter (\<lambda>kv. snd kv \<noteq> []) kvs) k = mapGet kvs k"
proof (induction kvs)
  case (Cons kv kvs)
  then show ?case
    using mapGet_notin [of k kvs] by (cases kv) auto
qed simp

lemma mapGet_rev: "distinct (map fst kvs) \<Longrightarrow> mapGet (rev kvs) k = mapGet kvs k"
  using map_of_inject_set [of "rev kvs" kvs] by (simp add: mapGet_def rev_map [symmetric])

lemma hd_joinParts: "p \<noteq> [] \<Longrightarrow> hd (joinParts (p # ps)) = hd p"
  by (cases ps) auto

lemma fieldValue_kept:
  assumes "distinct (map fst kvs)"
  shows "metadataDescriptionFieldValue (rev (filter (\<lambda>kv. snd kv \<noteq> []) kvs)) keys =
    metadataDescriptionFieldValue kvs keys"
proof -
  have "mapGet (rev (filter (\<lambda>kv. snd kv \<noteq> []) kvs)) = mapGet kvs"
    using assms by (simp add: mapGet_rev mapGet_filter distinct_map_filter fun_eq_iff)
  then show ?thesis by (simp only: metadataDescriptionFieldValue_def)
qed

lemma plain_keys:
  "list_all (\<lambda>kv. plainKey (fst kv)) (metadataDescriptionFields wire compact)"
  "distinct (map fst (metadataDescriptionFields wire compact))"
proof -
  have "list_all (\<lambda>k. trimSpace k = k) [''a'', ''h'', ''f'', ''m'', ''mh'', ''r'', ''rh'', ''assoc'', ''sha'',
      ''fmt'', ''mount'', ''mount_hash'', ''epoch'', ''epoch_hash'']"
    by (simp add: trimSpace_printable trimSpace_Nil)
  then have "list_all plainKey [''a'', ''h'', ''f'', ''m'', ''mh'', ''r'', ''rh'', ''assoc'', ''sha'', ''fmt'',
      ''mount'', ''mount_hash'', ''epoch'', ''epoch_hash'']"
    by (simp add: plainKey_def bsl_char)
  then show "list_all (\<lambda>kv. plainKey (fst kv)) (metadataDescriptionFields wire compact)"
    by (simp add: metadataDescriptionFields_def)
qed (simp add: metadataDescriptionFields_def)

lemma field_lookups:
  "metadataDescriptionFieldValue (metadataDescriptionFields wire compact) [''assoc'', ''a''] = vm_AssociationID wire"
  "metadataDescriptionFieldValue (metadataDescriptionFields wire compact) [''mount'', ''m''] = vm_MountUUID wire"
  "metadataDescriptionFieldValue (metadataDescriptionFields wire compact) [''mount_hash'', ''mh''] = vm_MountUUIDHash wire"
  "metadataDescriptionFieldValue (metadataDescriptionFields wire compact) [''epoch'', ''r''] = vm_RestoreEpoch wire"
  "metadataDescriptionFieldValue (metadataDescriptionFields wire compact) [''epoch_hash'', ''rh''] = vm_RestoreEpochHash wire"
  "metadataDescriptionFieldValue (metadataDescriptionFields wire compact) [''sha'', ''h''] = vm_PayloadSHA256 wire"
  "metadataDescriptionFieldValue (metadataDescriptionFields wire compact) [''fmt'', ''f''] = vm_PayloadFormat wire"
  by (simp_all add: metadataDescriptionFieldValue_def metadataDescriptionFields_def)

text \<open>Every field that a description has is read back.\<close>

lemma decode_human:
  assumes "readable wire"
  shows "humanOwnershipMetadata (humanMetadataDescription wire compact) = Some (wire, True)"
proof -
  let ?all = "metadataDescriptionFields wire compact"
  let ?kept = "filter (\<lambda>kv. snd kv \<noteq> []) ?all"
  have parts: "map (\<lambda>(key, v). key @ ''='' @ escapeMetadataDescriptionValue v) (filter (\<lambda>(key, v). v \<noteq> []) ?all) =
      map fieldText ?kept"
    by (simp add: fieldText_def case_prod_unfold)
  have ne: "?kept \<noteq> []"
    using assms by (simp add: metadataDescriptionFields_def readable_def)
  have ok: "list_all (\<lambda>kv. plainKey (fst kv) \<and> validUTF8 (snd kv)) ?kept"
  proof -
    have "list_all (\<lambda>kv. validUTF8 (snd kv)) ?all"
      using assms by (simp add: metadataDescriptionFields_def readable_def)
    then show ?thesis
      using plain_keys(1) [of wire compact] by (auto simp: list_all_iff)
  qed
  have "hd (joinParts (map fieldText ?kept)) \<noteq> CHR '' ''"
    using assms
    by (cases compact) (simp_all add: metadataDescriptionFields_def readable_def fieldText_def hd_joinParts
        del: joinParts.simps)
  then have "parseMetadataDescriptionSummary (metadataDescriptionSummary wire @ ''; '' @ joinParts (map fieldText ?kept)) =
     Some (zeroVariableMetadata \<lparr> vm_SourcePath := vm_SourcePath wire, vm_SourcePathHash := vm_SourcePathHash wire,
       vm_ObjectID := vm_ObjectID wire, vm_ObjectIDHash := vm_ObjectIDHash wire,
       vm_SourceVersion := vm_SourceVersion wire \<rparr>, joinParts (map fieldText ?kept))"
    by (intro parse_summaryText [OF assms] disjI2)
  moreover have "cutPrefix (humanMetadataDescription wire compact) metadataDescriptionPrefix =
      Some (metadataDescriptionSummary wire @ ''; '' @ joinParts (map fieldText ?kept))"
    unfolding humanMetadataDescription_def parts by (simp add: cutPrefix_def)
  ultimately show ?thesis
    unfolding humanOwnershipMetadata_def
    by (simp add: parse_fieldTexts [OF ne ok] fieldValue_kept [OF plain_keys(2)] field_lookups
        zeroVariableMetadata_def del: filter.simps)
qed

section \<open>Compaction\<close>

lemma base64Char_ascii: "(of_char (base64Char n) :: nat) < 128" "base64Char n \<noteq> CHR ''=''"
proof -
  have code: "(of_char (char_of k :: char) :: nat) = k" if "k < 128" for k
    using that by (simp add: of_char_of)
  have ascii: "(of_char (base64Char n) :: nat) < 128 \<and> (of_char (base64Char n) :: nat) \<noteq> 61"
    by (auto simp: base64Char_def code)
  then show "(of_char (base64Char n) :: nat) < 128" by simp
  show "base64Char n \<noteq> CHR ''=''"
  proof
    assume "base64Char n = CHR ''=''"
    then have "(of_char (base64Char n) :: nat) = of_char (CHR ''='')" by simp
    with ascii show False by simp
  qed
qed

lemma base64_ascii: "c \<in> set (base64 s) \<Longrightarrow> (of_char c :: nat) < 128"
  by (induction s rule: base64.induct) (auto simp: base64Char_ascii)

lemma base64_hd: "s \<noteq> [] \<Longrightarrow> \<exists>n r. base64 s = base64Char n # r"
  by (cases s rule: base64.cases) auto

lemma validUTF8_all_ascii: "\<forall>c \<in> set s. (of_char c :: nat) < 128 \<Longrightarrow> validUTF8 s"
  by (induction s) (auto simp: validUTF8.simps(1))

lemma identityHash_valid: "validUTF8 (metadataIdentityHash sha v)"
  by (rule validUTF8_all_ascii) (auto simp: metadataIdentityHash_def rawURLBase64_def base64_ascii)

lemma identityHash_nonempty:
  assumes "\<forall>v. length (sha v) = 32"
  shows "metadataIdentityHash sha v \<noteq> []"
proof -
  have "sha v \<noteq> []"
    using assms by (metis list.size(3) zero_neq_numeral)
  then have "take 16 (sha v) \<noteq> []"
    by simp
  then obtain n r where "base64 (take 16 (sha v)) = base64Char n # r"
    using base64_hd by blast
  then show ?thesis
    by (simp add: metadataIdentityHash_def rawURLBase64_def base64Char_ascii)
qed

definition keptOrHashed :: "(string \<Rightarrow> string) \<Rightarrow> string \<Rightarrow> string \<Rightarrow> string \<Rightarrow> bool" where
  "keptOrHashed sha v v' hash \<longleftrightarrow> (v' = v \<and> hash = []) \<or> (v' = [] \<and> hash = metadataIdentityHash sha v)"

definition compactedFrom :: "(string \<Rightarrow> string) \<Rightarrow> variableMetadata \<Rightarrow> variableMetadata \<Rightarrow> bool" where
  "compactedFrom sha m wire \<longleftrightarrow>
     vm_AssociationID wire = vm_AssociationID m \<and> vm_SourceVersion wire = vm_SourceVersion m \<and>
     vm_PayloadSHA256 wire = vm_PayloadSHA256 m \<and> vm_PayloadFormat wire = vm_PayloadFormat m \<and>
     keptOrHashed sha (vm_SourcePath m) (vm_SourcePath wire) (vm_SourcePathHash wire) \<and>
     keptOrHashed sha (vm_ObjectID m) (vm_ObjectID wire) (vm_ObjectIDHash wire) \<and>
     keptOrHashed sha (vm_MountUUID m) (vm_MountUUID wire) (vm_MountUUIDHash wire) \<and>
     keptOrHashed sha (vm_RestoreEpoch m) (vm_RestoreEpoch wire) (vm_RestoreEpochHash wire)"

definition unhashed :: "variableMetadata \<Rightarrow> bool" where
  "unhashed m \<longleftrightarrow> vm_SourcePathHash m = [] \<and> vm_ObjectIDHash m = [] \<and> vm_MountUUIDHash m = [] \<and> vm_RestoreEpochHash m = []"

lemma compactWire_kept:
  assumes "keptOrHashed sha v0 v hash" and "compactWireIdentity sha v hash = (v', hash', b)"
  shows "keptOrHashed sha v0 v' hash'"
  using assms by (auto simp: compactWireIdentity_def keptOrHashed_def Let_def split: if_splits)

lemma compact_steps:
  assumes "compactedFrom sha m wire"
  shows "compactedFrom sha m (compactMount sha wire)" "compactedFrom sha m (compactEpoch sha wire)"
    "compactedFrom sha m (fst (compactObject sha wire))" "compactedFrom sha m (fst (compactPath sha wire))"
  using assms
  by (auto simp: compactedFrom_def compactMount_def compactEpoch_def compactObject_def compactPath_def
      split: prod.splits intro: compactWire_kept)

lemma compactedFrom_refl: "unhashed m \<Longrightarrow> compactedFrom sha m m"
  by (simp add: compactedFrom_def keptOrHashed_def unhashed_def)

lemma description_wire:
  assumes "unhashed m"
  shows "\<exists>wire compact. metadataDescription sha m = humanMetadataDescription wire compact \<and> compactedFrom sha m wire"
proof -
  let ?w = "compactEpoch sha (compactMount sha m)"
  let ?o = "fst (compactObject sha ?w)"
  let ?p = "fst (compactPath sha ?o)"
  have w: "compactedFrom sha m ?w" "compactedFrom sha m ?o" "compactedFrom sha m ?p"
    using compactedFrom_refl [OF assms, of sha] by (simp_all only: compact_steps)
  show ?thesis
    unfolding metadataDescription_def Let_def case_prod_unfold
    by (auto intro: w)
qed

text \<open>Metadata that can be written and read back: nothing in it looks like a compacted value.\<close>

definition writable :: "variableMetadata \<Rightarrow> bool" where
  "writable m \<longleftrightarrow> readable m \<and> unhashed m"

lemma kept_readable:
  assumes "keptOrHashed sha v v' hash" and "validUTF8 v"
  shows "validUTF8 v'" "validUTF8 hash" "exclusive v' hash" "p \<noteq> [] \<Longrightarrow> \<not> prefix p v \<Longrightarrow> \<not> prefix p v'"
  using assms by (auto simp: keptOrHashed_def exclusive_def identityHash_valid validUTF8.simps(1))

lemma readable_compacted:
  assumes "writable m" and "compactedFrom sha m wire"
  shows "readable wire"
proof -
  have m: "readable m" using assms(1) by (simp add: writable_def)
  then have valid: "validUTF8 (vm_SourcePath m)" "validUTF8 (vm_ObjectID m)" "validUTF8 (vm_MountUUID m)"
      "validUTF8 (vm_RestoreEpoch m)"
    by (simp_all add: readable_def)
  have kept: "keptOrHashed sha (vm_SourcePath m) (vm_SourcePath wire) (vm_SourcePathHash wire)"
    "keptOrHashed sha (vm_ObjectID m) (vm_ObjectID wire) (vm_ObjectIDHash wire)"
    "keptOrHashed sha (vm_MountUUID m) (vm_MountUUID wire) (vm_MountUUIDHash wire)"
    "keptOrHashed sha (vm_RestoreEpoch m) (vm_RestoreEpoch wire) (vm_RestoreEpochHash wire)"
    using assms(2) by (simp_all add: compactedFrom_def)
  have same: "vm_AssociationID wire = vm_AssociationID m" "vm_SourceVersion wire = vm_SourceVersion m"
    "vm_PayloadSHA256 wire = vm_PayloadSHA256 m" "vm_PayloadFormat wire = vm_PayloadFormat m"
    using assms(2) by (simp_all add: compactedFrom_def)
  show ?thesis
    unfolding readable_def same
    using m [unfolded readable_def] kept_readable [OF kept(1) valid(1)] kept_readable [OF kept(2) valid(2)]
      kept_readable [OF kept(3) valid(3)] kept_readable [OF kept(4) valid(4)]
    by blast
qed

lemma kept_matches:
  assumes "\<forall>v. length (sha v) = 32" and "keptOrHashed sha v v' hash"
  shows "v' = v \<or> (hash \<noteq> [] \<and> metadataIdentityHashMatches sha hash v)"
  using assms(2) identityHash_nonempty [OF assms(1)]
  by (auto simp: keptOrHashed_def metadataIdentityHashMatches_def)

lemma owned_compacted:
  assumes sha: "\<forall>v. length (sha v) = 32" and c: "compactedFrom sha m wire" and "identityComplete i"
    and "vm_AssociationID m = id_AssociationID i" "vm_SourcePath m = id_SourcePath i" "vm_ObjectID m = id_ObjectID i"
    and "vm_MountUUID m = id_MountUUID i" "vm_RestoreEpoch m = id_RestoreEpoch i"
  shows "ownedByRequest sha wire True i"
proof -
  have kept: "keptOrHashed sha (id_SourcePath i) (vm_SourcePath wire) (vm_SourcePathHash wire)"
    "keptOrHashed sha (id_ObjectID i) (vm_ObjectID wire) (vm_ObjectIDHash wire)"
    "keptOrHashed sha (id_MountUUID i) (vm_MountUUID wire) (vm_MountUUIDHash wire)"
    "keptOrHashed sha (id_RestoreEpoch i) (vm_RestoreEpoch wire) (vm_RestoreEpochHash wire)"
    and "vm_AssociationID wire = id_AssociationID i"
    using c assms(4-) by (simp_all add: compactedFrom_def)
  then show ?thesis
    unfolding ownedByRequest_def runtimeMetadataValueMatches_def
    using assms(3) [unfolded identityComplete_def] kept_matches [OF sha kept(1)] kept_matches [OF sha kept(2)]
      kept_matches [OF sha kept(3)] kept_matches [OF sha kept(4)]
    by blast
qed

text \<open>A description that the plugin wrote is recognised as written for that identity.\<close>

lemma written_description:
  assumes "\<forall>v. length (sha v) = 32" and "writable m" and "identityComplete i"
    and "vm_AssociationID m = id_AssociationID i" "vm_SourcePath m = id_SourcePath i" "vm_ObjectID m = id_ObjectID i"
    and "vm_MountUUID m = id_MountUUID i" "vm_RestoreEpoch m = id_RestoreEpoch i"
  shows "\<exists>wire. ownershipMetadata (metadataDescription sha m) = (wire, True) \<and> ownedByRequest sha wire True i \<and>
     vm_SourceVersion wire = vm_SourceVersion m \<and> vm_PayloadSHA256 wire = vm_PayloadSHA256 m \<and>
     vm_PayloadFormat wire = vm_PayloadFormat m"
proof -
  obtain wire compact where d: "metadataDescription sha m = humanMetadataDescription wire compact"
    and c: "compactedFrom sha m wire"
    using description_wire [of m sha] assms(2) unfolding writable_def by blast
  have "ownershipMetadata (metadataDescription sha m) = (wire, True)"
    using decode_human [OF readable_compacted [OF assms(2) c]] by (simp add: ownershipMetadata_def d)
  moreover have "ownedByRequest sha wire True i"
    using assms c by (intro owned_compacted)
  ultimately show ?thesis
    using c by (auto simp: compactedFrom_def)
qed

lemma trim_literals:
  "trimSpace ''true'' = ''true''" "trimSpace ''false'' = ''false''" "trimSpace ''*'' = ''*''"
  "trimSpace ''env_var'' = ''env_var''" "trimSpace ''file'' = ''file''"
proof -
  have "list_all (\<lambda>k. trimSpace k = k) [''true'', ''false'', ''*'', ''env_var'', ''file'']"
    by (simp add: trimSpace_printable trimSpace_Nil)
  then show "trimSpace ''true'' = ''true''" "trimSpace ''false'' = ''false''" "trimSpace ''*'' = ''*''"
    "trimSpace ''env_var'' = ''env_var''" "trimSpace ''file'' = ''file''"
    by simp_all
qed

end
