(* ===== verification/GitLab_Server.thy ===== *)
theory GitLab_Server
  imports GitLab_Provider GitLab_Laws
begin

text \<open>
  What the GitLab provider relies on of a server: a store of variables by project, scope and key. The laws
  are stated for the client interface; a server in memory, reached through the provider's own HTTP client,
  satisfies them.
\<close>

text \<open>A stored variable shows what was sent; the value of a hidden one may be withheld.\<close>

definition reflects :: "gitlabVariable \<Rightarrow> gitlabVariableInput \<Rightarrow> bool" where
  "reflects v i \<longleftrightarrow> gv_Description v = gi_Description i \<and>
     (if gv_valueUnavailable v then gv_Hidden v else gv_Value v = gi_Value i)"

locale variable_store =
  fixes C :: "'s gitlabClient"
    and vars :: "'s \<Rightarrow> gitlabVariableOptions \<Rightarrow> string \<Rightarrow> gitlabVariable option"
  assumes get_same: "gc_GetVariable C opts k s = (r, s') \<Longrightarrow> vars s' = vars s"
    and get_found: "gc_GetVariable C opts k s = (Inr v, s') \<Longrightarrow> vars s opts k = Some v"
    and get_missing: "gc_GetVariable C opts k s = (Inl e, s') \<Longrightarrow> isGitLabNotFound e \<Longrightarrow> vars s opts k = None"
    and create_stores: "gc_CreateVariable C opts i s = (Inr v, s') \<Longrightarrow>
      gi_EnvironmentScope i = ga_environmentScope (go_association opts) \<Longrightarrow> vars s' opts (gi_Key i) = Some v \<and> reflects v i"
    and update_stores: "gc_UpdateVariable C opts k i s = (Inr v, s') \<Longrightarrow> k = gi_Key i \<Longrightarrow>
      vars s' opts k = Some v \<and> reflects v i"
    and delete_removes: "gc_DeleteVariable C opts k s = (Inr u, s') \<Longrightarrow> vars s' opts k = None"
begin

text \<open>A successful upsert leaves a variable that reflects the request's input.\<close>

lemma upsert_stores:
  assumes up: "gitlabUpsert sha C d req s = (Inr result, s')"
    and opts: "gitlabVariableOptionsFor d (ur_Association req) = Inr opts"
  shows "\<exists>v. vars s' opts (ur_ResolvedName req) = Some v \<and>
      reflects v (variableInputFromUpsert sha (go_association opts) req)"
proof -
  let ?i = "variableInputFromUpsert sha (go_association opts) req"
  have key: "gi_Key ?i = ur_ResolvedName req"
    and scope: "gi_EnvironmentScope ?i = ga_environmentScope (go_association opts)"
    by (simp_all add: variableInputFromUpsert_def)
  obtain r s1 where g: "gc_GetVariable C opts (ur_ResolvedName req) s = (r, s1)"
    by (cases "gc_GetVariable C opts (ur_ResolvedName req) s")
  have valid: "validateGitLabUpsertRequest req = Inr ()"
    using up by (cases "validateGitLabUpsertRequest req") (auto simp: gitlabUpsert_def)
  show ?thesis
  proof (cases r)
    case (Inl e)
    then obtain v where "gc_CreateVariable C opts ?i s1 = (Inr v, s')"
      using up g valid opts
      by (auto simp: gitlabUpsert_def Let_def split: if_splits sum.splits prod.splits)
    then show ?thesis using create_stores key scope by metis
  next
    case (Inr v)
    have stored: "vars s1 opts (ur_ResolvedName req) = Some v"
      using get_same [OF g] get_found [of opts "ur_ResolvedName req" s v s1] g Inr by simp
    obtain metadata where allowed: "gitlabUpsertAllowed sha (go_association opts) req v = Inr metadata"
      using up g valid opts Inr
      by (cases "gitlabUpsertAllowed sha (go_association opts) req v") (auto simp: gitlabUpsert_def)
    show ?thesis
    proof (cases "vm_PayloadSHA256 metadata = ur_PayloadSHA256 req \<and> variableMatchesInput v ?i")
      case True
      have "gv_valueUnavailable v \<Longrightarrow> gv_Hidden v"
        using allowed by (auto simp: gitlabUpsertAllowed_def variableReadback_def andThen_Inr split: prod.splits if_splits)
      then have "reflects v ?i"
        using True by (auto simp: reflects_def variableMatchesInput_def)
      moreover have "s' = s1"
        using up g valid opts Inr allowed True by (auto simp: gitlabUpsert_def Let_def)
      ultimately show ?thesis using stored by blast
    next
      case False
      then obtain w where "gc_UpdateVariable C opts (ur_ResolvedName req) ?i s1 = (Inr w, s')"
        using up g valid opts Inr allowed
        by (auto simp: gitlabUpsert_def Let_def split: if_splits sum.splits prod.splits)
      then show ?thesis using update_stores key by metis
    qed
  qed
qed

end

section \<open>A server in memory\<close>

text \<open>Variables by their escaped path and their scope. The value of a hidden variable is never sent.\<close>

type_synonym memGitLab = "((string \<times> string) \<times> gitlabVariable) list"

definition variableOfForm :: "(string \<times> string) list \<Rightarrow> gitlabVariable" where
  "variableOfForm form = \<lparr> gv_Key = mapGet form ''key'', gv_Value = mapGet form ''value'',
     gv_EnvironmentScope = mapGet form ''environment_scope'', gv_Protected = (mapGet form ''protected'' = ''true''),
     gv_Masked = (mapGet form ''masked'' = ''true''), gv_Hidden = (mapGet form ''masked_and_hidden'' = ''true''),
     gv_VariableRaw = (mapGet form ''raw'' = ''true''), gv_VariableType = mapGet form ''variable_type'',
     gv_Description = mapGet form ''description'', gv_valueUnavailable = False \<rparr>"

definition replyVariable :: "int \<Rightarrow> gitlabVariable \<Rightarrow> gitlabReply" where
  "replyVariable status v = \<lparr> gy_status = status,
     gy_body = Some (v \<lparr> gv_Value := [] \<rparr>, if gv_Hidden v then None else Some (gv_Value v)) \<rparr>"

definition replyStatus :: "int \<Rightarrow> gitlabReply" where
  "replyStatus status = \<lparr> gy_status = status, gy_body = None \<rparr>"

definition memGitLabSend :: "memGitLab send" where
  "memGitLabSend req s =
     (let scope = mapGet (gq_query req) ''filter[environment_scope]'';
          form = (case gq_form req of None \<Rightarrow> [] | Some f \<Rightarrow> f);
          at = (gq_apiPath req, scope)
      in if gq_method req = ''GET''
         then (Inr (case map_of s at of None \<Rightarrow> replyStatus 404 | Some v \<Rightarrow> replyVariable 200 v), s)
         else if gq_method req = ''POST''
         then (let v = variableOfForm form;
                   at = (gq_apiPath req @ ''/'' @ pathEscape (gv_Key v), gv_EnvironmentScope v)
               in if map_of s at \<noteq> None then (Inr (replyStatus 400), s)
                  else (Inr (replyVariable 201 v), AList.update at v s))
         else if gq_method req = ''PUT''
         then (case map_of s at of
                 None \<Rightarrow> (Inr (replyStatus 404), s)
               | Some old \<Rightarrow>
                   (let v = variableOfForm form \<lparr> gv_Hidden := gv_Hidden old \<rparr>
                    in (Inr (replyVariable 200 v), AList.update at v s)))
         else (case map_of s at of
                 None \<Rightarrow> (Inr (replyStatus 404), s)
               | Some old \<Rightarrow> (Inr (replyStatus 204), AList.delete at s)))"

definition memGitLabVars :: "memGitLab \<Rightarrow> gitlabVariableOptions \<Rightarrow> string \<Rightarrow> gitlabVariable option" where
  "memGitLabVars s opts k =
     map_option (\<lambda>v. v \<lparr> gv_Value := (if gv_Hidden v then [] else gv_Value v), gv_valueUnavailable := gv_Hidden v \<rparr>)
       (map_of s (variablePath (gd_projectID (go_destination opts)) k, ga_environmentScope (go_association opts)))"

lemma formBool [simp]: "(formatBool b = ''true'') = b"
  by (simp add: formatBool_def)

lemmas gitlab_http =
  httpProjectVariableClient_def gitlabDoVariable_def gitlabDoUnit_def gitlabDo_def gitlabNewRequest_def
  memGitLabSend_def environmentScopeQuery_def replyVariable_def replyStatus_def unmarshalVariable_def
  memGitLabVars_def Let_def

interpretation memGitLab: variable_store "httpProjectVariableClient memGitLabSend" memGitLabVars
proof
  fix opts k s r s'
  assume "gc_GetVariable (httpProjectVariableClient memGitLabSend) opts k s = (r, s')"
  then show "memGitLabVars s' = memGitLabVars s"
    by (auto simp: gitlab_http split: option.splits if_splits)
next
  fix opts k s v s'
  assume "gc_GetVariable (httpProjectVariableClient memGitLabSend) opts k s = (Inr v, s')"
  then show "memGitLabVars s opts k = Some v"
    by (auto simp: gitlab_http split: option.splits if_splits)
next
  fix opts k s e s'
  assume "gc_GetVariable (httpProjectVariableClient memGitLabSend) opts k s = (Inl e, s')" "isGitLabNotFound e"
  then show "memGitLabVars s opts k = None"
    by (auto simp: gitlab_http isGitLabNotFound_def split: option.splits if_splits)
next
  fix opts i s v s'
  assume "gc_CreateVariable (httpProjectVariableClient memGitLabSend) opts i s = (Inr v, s')"
    and "gi_EnvironmentScope i = ga_environmentScope (go_association opts)"
  then show "memGitLabVars s' opts (gi_Key i) = Some v \<and> reflects v i"
    by (cases "gi_Hidden i") (auto simp: gitlab_http gitlabCreateForm_def gitlabForm_def variableOfForm_def reflects_def
        update_conv' variablePath_def split: option.splits if_splits)
next
  fix opts k i s v s'
  assume "gc_UpdateVariable (httpProjectVariableClient memGitLabSend) opts k i s = (Inr v, s')" "k = gi_Key i"
  then show "memGitLabVars s' opts k = Some v \<and> reflects v i"
    by (auto simp: gitlab_http gitlabUpdateForm_def gitlabForm_def variableOfForm_def reflects_def update_conv'
        split: option.splits if_splits)
next
  fix opts k s u s'
  assume "gc_DeleteVariable (httpProjectVariableClient memGitLabSend) opts k s = (Inr u, s')"
  then show "memGitLabVars s' opts k = None"
    by (auto simp: gitlab_http delete_conv' split: option.splits if_splits)
qed

end
