(* ===== verification/Provider_Requests.thy ===== *)
theory Provider_Requests
  imports Provider_Contract
begin

text \<open>
  The requests that belong together: the plan, the deletion and the state read of an upsert. With them the
  properties of the providers relate what one operation writes to what another one sees.
\<close>

text \<open>The plan, delete and read requests that go with an upsert request.\<close>

definition planFor :: "upsertRequest \<Rightarrow> planRequest" where
  "planFor req = \<lparr> pq_Runtime = ur_Runtime req, pq_Association = ur_Association req,
     pq_ResolvedName = ur_ResolvedName req, pq_Format = ur_Format req, pq_PayloadSHA256 = ur_PayloadSHA256 req,
     pq_PayloadBytes = int (length (ur_Payload req)), pq_DataMap = (ur_DataMap req \<noteq> []),
     pq_DataMapKeys = map fst (ur_DataMap req), pq_SourcePath = ur_SourcePath req,
     pq_SourceVersion = ur_SourceVersion req, pq_AssociationID = ur_AssociationID req, pq_ObjectID = ur_ObjectID req \<rparr>"

definition deleteFor :: "upsertRequest \<Rightarrow> deleteRequest" where
  "deleteFor req = \<lparr> dr_Runtime = ur_Runtime req, dr_Association = ur_Association req,
     dr_ResolvedName = ur_ResolvedName req, dr_IdempotencyKey = ur_IdempotencyKey req, dr_DataMap = (ur_DataMap req \<noteq> []),
     dr_SourcePath = ur_SourcePath req, dr_SourceVersion = ur_SourceVersion req,
     dr_AssociationID = ur_AssociationID req, dr_ObjectID = ur_ObjectID req \<rparr>"

definition readFor :: "upsertRequest \<Rightarrow> readStateRequest" where
  "readFor req = \<lparr> rr_Runtime = ur_Runtime req, rr_Association = ur_Association req,
     rr_ResolvedName = ur_ResolvedName req, rr_PayloadSHA256 = ur_PayloadSHA256 req, rr_DataMap = (ur_DataMap req \<noteq> []),
     rr_SourcePath = ur_SourcePath req, rr_SourceVersion = ur_SourceVersion req,
     rr_AssociationID = ur_AssociationID req, rr_ObjectID = ur_ObjectID req \<rparr>"

lemma identities_for [simp]:
  "planIdentity (planFor req) = upsertIdentity req"
  "deleteIdentity (deleteFor req) = upsertIdentity req"
  "readStateIdentity (readFor req) = upsertIdentity req"
  by (simp_all add: planFor_def deleteFor_def readFor_def identity_defs)

definition flatSha :: "string \<Rightarrow> string" where
  "flatSha v = replicate 32 (CHR ''x'')"

lemma sha_flat: "\<forall>v. length (flatSha v) = 32"
  by (simp add: flatSha_def)

end
