(* ===== verification/GitLab_Properties.thy ===== *)
theory GitLab_Properties
  imports GitLab_Server Provider_Requests Go_Trim
begin

text \<open>
  Properties of the GitLab provider: a description says whose variable it is, variables of others and newer
  variables are not touched, a successful upsert is seen as synced, and normalized options are a fixed
  point.
\<close>

section \<open>Descriptions\<close>

definition sampleUpsert :: upsertRequest where
  "sampleUpsert = \<lparr> ur_Runtime = \<lparr> ri_MountUUID = ''mount-0123456789-0123456789'', ri_RestoreEpoch = ''epoch-1'' \<rparr>,
     ur_Association = \<lparr> ac_Config = [], ac_Identity = ''*'' \<rparr>, ur_ResolvedName = ''DB_PASSWORD'', ur_Format = ''json'',
     ur_Payload = ''payload'', ur_PayloadSHA256 = gitlabPayloadSHA256 flatSha ''payload'', ur_IdempotencyKey = ''op-1'',
     ur_DataMap = [], ur_SourcePath = ''app; db'', ur_SourceVersion = 3, ur_AssociationID = ''assoc-1'',
     ur_ObjectID = ''secret-path'' \<rparr>"

lemma writable_sample: "writable (upsertMetadata sampleUpsert)"
  by code_simp

lemma identity_sample: "identityComplete (upsertIdentity sampleUpsert)"
  by (simp add: identityComplete_def upsertIdentity_def requestIdentityOf_def sampleUpsert_def)

text \<open>
  C18. Round trip of the ownership metadata: the description written for a request, compacted or not, is
  read back as owned by the identity of that request, with its version and its payload hash. The path must
  not start with \<open>path#\<close> nor the object id with \<open>object#\<close>, which are read as compacted values.
\<close>

theorem gitlab_description_roundtrip:
  assumes "\<forall>v. length (sha v) = 32" and "writable (upsertMetadata req)" and "identityComplete (upsertIdentity req)"
  shows "case ownershipMetadata (metadataDescription sha (upsertMetadata req)) of (metadata, owned) \<Rightarrow>
     ownedByRequest sha metadata owned (upsertIdentity req) \<and>
     vm_SourceVersion metadata = ur_SourceVersion req \<and> vm_PayloadSHA256 metadata = ur_PayloadSHA256 req \<and>
     vm_PayloadFormat metadata = ur_Format req"
proof -
  obtain wire where "ownershipMetadata (metadataDescription sha (upsertMetadata req)) = (wire, True)"
    "ownedByRequest sha wire True (upsertIdentity req)"
    "vm_SourceVersion wire = ur_SourceVersion req" "vm_PayloadSHA256 wire = ur_PayloadSHA256 req"
    "vm_PayloadFormat wire = ur_Format req"
    using written_description [OF assms]
    by (auto simp: upsertMetadata_def requestMetadata_def identity_defs)
  then show ?thesis by simp
qed

theorem gitlab_description_roundtrip_witness:
  "case ownershipMetadata (metadataDescription flatSha (upsertMetadata sampleUpsert)) of (metadata, owned) \<Rightarrow>
     ownedByRequest flatSha metadata owned (upsertIdentity sampleUpsert) \<and>
     vm_SourceVersion metadata = ur_SourceVersion sampleUpsert \<and>
     vm_PayloadSHA256 metadata = ur_PayloadSHA256 sampleUpsert \<and> vm_PayloadFormat metadata = ur_Format sampleUpsert"
  by (rule gitlab_description_roundtrip [OF sha_flat writable_sample identity_sample])

text \<open>Why \<open>writable\<close> excludes source paths that begin with \<open>path#\<close>: the description of such a path is the
  one of a compacted path, and it is read back as a hash.\<close>

lemma hash_prefix_ambiguous:
  "h \<noteq> [] \<Longrightarrow> metadataDescriptionSummary (wire \<lparr> vm_SourcePath := ''path#'' @ h, vm_SourcePathHash := [] \<rparr>) =
     metadataDescriptionSummary (wire \<lparr> vm_SourcePath := [], vm_SourcePathHash := h \<rparr>)"
  by (simp add: metadataDescriptionSummary_def metadataDescriptionCompactedPath_def Let_def)

section \<open>Variables of others\<close>

text \<open>
  C19. A variable whose description is not that of the request's owner, or has a newer source version, is
  refused by an upsert and by a delete alike: after reading it, neither makes another call to the
  server, and both fail with class ownership or drift; the plan reports a conflict or is blocked.
\<close>

theorem gitlab_foreign_untouched:
  assumes read: "gc_GetVariable C opts (ur_ResolvedName req) s = (Inr v, s1)"
    and meta: "ownershipMetadata (gv_Description v) = (metadata, owned)"
    and foreign: "ownedByRequest sha metadata owned (upsertIdentity req) \<Longrightarrow>
      remoteSourceVersionNewer metadata (ur_SourceVersion req)"
    and valid: "validateGitLabUpsertRequest req = Inr ()"
    and opts: "gitlabVariableOptionsFor d (ur_Association req) = Inr opts"
  shows "let mine = ownedByRequest sha metadata owned (upsertIdentity req);
           refused = requestFailed gitlabProviderType (if mine then ErrorClassDrift else ErrorClassOwnership)
       in gitlabUpsert sha C d req s = (Inl refused, s1) \<and>
          gitlabDelete sha C d (deleteFor req) s = (Inl refused, s1) \<and>
          snd (gitlabPlan sha C d (planFor req) s) = s1 \<and>
          pr_Action (fst (gitlabPlan sha C d (planFor req) s)) = (if mine then PlanActionBlocked else PlanActionConflict)"
proof -
  have key: "validateVariableKey (ur_ResolvedName req) = Inr ()"
    using valid by (cases "validateVariableKey (ur_ResolvedName req)") (auto simp: validateGitLabUpsertRequest_def)
  have up: "gitlabUpsertAllowed sha (go_association opts) req v =
      Inl (requestFailed gitlabProviderType
        (if ownedByRequest sha metadata owned (upsertIdentity req) then ErrorClassDrift else ErrorClassOwnership))"
    using foreign by (simp add: gitlabUpsertAllowed_def meta)
  have fields: "dr_ResolvedName (deleteFor req) = ur_ResolvedName req"
    "dr_Association (deleteFor req) = ur_Association req" "dr_SourceVersion (deleteFor req) = ur_SourceVersion req"
    "pq_ResolvedName (planFor req) = ur_ResolvedName req" "pq_Association (planFor req) = ur_Association req"
    "pq_SourceVersion (planFor req) = ur_SourceVersion req"
    by (simp_all add: deleteFor_def planFor_def)
  show ?thesis
    using foreign
    by (simp add: Let_def gitlabUpsert_def gitlabDelete_def gitlabPlan_def gitlabPlanExisting_def valid key opts read
        up meta fields)
qed

text \<open>A variable made by hand in a server in memory.\<close>

definition foreignServer :: memGitLab where
  "foreignServer = [((''/projects/7/variables/DB_PASSWORD'', ''*''),
     \<lparr> gv_Key = ''DB_PASSWORD'', gv_Value = ''by hand'', gv_EnvironmentScope = ''*'', gv_Protected = False,
       gv_Masked = False, gv_Hidden = False, gv_VariableRaw = True, gv_VariableType = ''env_var'',
       gv_Description = ''created by hand'', gv_valueUnavailable = False \<rparr>)]"

definition sampleProject :: gitlabDestinationOptions where
  "sampleProject = \<lparr> gd_baseURL = ''https://gitlab.com'', gd_projectID = ''7'', gd_allowInsecureHTTP = False,
     gd_allowPrivateNet = False, gd_token = ''t'' \<rparr>"

definition sampleOptions :: gitlabVariableOptions where
  "sampleOptions = \<lparr> go_destination = sampleProject, go_association = \<lparr> ga_environmentScope = ''*'',
     ga_protected = False, ga_masked = False, ga_hidden = False, ga_variableRaw = True, ga_variableType = ''env_var'' \<rparr> \<rparr>"

lemma sample_checks:
  "validateGitLabUpsertRequest sampleUpsert = Inr ()"
  "gitlabVariableOptionsFor sampleProject (ur_Association sampleUpsert) = Inr sampleOptions"
  "gc_GetVariable (httpProjectVariableClient memGitLabSend) sampleOptions (ur_ResolvedName sampleUpsert) foreignServer =
     (Inr (snd (hd foreignServer)), foreignServer)"
  "ownershipMetadata (gv_Description (snd (hd foreignServer))) = (zeroVariableMetadata, False)"
proof -
  show "validateGitLabUpsertRequest sampleUpsert = Inr ()"
    by (simp add: validateGitLabUpsertRequest_def validateVariableKey_def sampleUpsert_def isVariableKeyChar_def
        variableKeyMaxBytes_def variableValueMaxBytes_def)
  show "gitlabVariableOptionsFor sampleProject (ur_Association sampleUpsert) = Inr sampleOptions"
    by (simp add: gitlabVariableOptionsFor_def gitlabAssociationOptionsFromConfig_def sampleUpsert_def unsupportedKey_def
        boolConfigValue_def configValue_def trimSpace_Nil stringDefault_def sampleOptions_def Let_def
        defaultEnvironmentScope_def defaultVariableType_def VariableTypeEnvVar_def)
  show "gc_GetVariable (httpProjectVariableClient memGitLabSend) sampleOptions (ur_ResolvedName sampleUpsert) foreignServer =
     (Inr (snd (hd foreignServer)), foreignServer)"
    by (simp add: gitlab_http sampleOptions_def sampleUpsert_def foreignServer_def variablePath_def variablesPath_def
        sampleProject_def pathEscape_def pathEscapeChar_def)
  show "ownershipMetadata (gv_Description (snd (hd foreignServer))) = (zeroVariableMetadata, False)"
    by (simp add: foreignServer_def ownershipMetadata_def humanOwnershipMetadata_def cutPrefix_def
        metadataDescriptionPrefix_def)
qed

theorem gitlab_foreign_untouched_witness:
  "gitlabUpsert flatSha (httpProjectVariableClient memGitLabSend) sampleProject sampleUpsert foreignServer =
     (Inl (requestFailed gitlabProviderType ErrorClassOwnership), foreignServer)"
  using gitlab_foreign_untouched [OF sample_checks(3,4), of flatSha sampleProject] sample_checks(1,2)
  by (simp add: ownedByRequest_def Let_def)

section \<open>A successful upsert\<close>

lemma readState_reflects:
  assumes store: "variable_store C vars" and sha: "\<forall>v. length (sha v) = 32"
    and req: "writable (upsertMetadata req)" "identityComplete (upsertIdentity req)"
    and hash: "ur_PayloadSHA256 req = gitlabPayloadSHA256 sha (ur_Payload req)"
    and v: "reflects v (variableInputFromUpsert sha association req)"
  shows "\<exists>metadata verification. ownershipMetadata (gv_Description v) = (metadata, True) \<and>
     ownedByRequest sha metadata True (upsertIdentity req) \<and> vm_SourceVersion metadata = ur_SourceVersion req \<and>
     variableReadback sha v metadata = Inr (ur_PayloadSHA256 req, verification)"
proof -
  have d: "gv_Description v = metadataDescription sha (upsertMetadata req)"
    using v by (simp add: reflects_def variableInputFromUpsert_def)
  obtain wire where w: "ownershipMetadata (gv_Description v) = (wire, True)"
    "ownedByRequest sha wire True (upsertIdentity req)"
    "vm_SourceVersion wire = ur_SourceVersion req" "vm_PayloadSHA256 wire = ur_PayloadSHA256 req"
    using written_description [OF sha req] unfolding d
    by (auto simp: upsertMetadata_def requestMetadata_def identity_defs)
  moreover have "\<exists>verification. variableReadback sha v wire = Inr (ur_PayloadSHA256 req, verification)"
    using v hash w(4) by (auto simp: variableReadback_def reflects_def variableInputFromUpsert_def)
  ultimately show ?thesis by blast
qed

text \<open>
  C20. After a successful upsert the provider sees its own object: a state read then finds the variable,
  owned, with the request's source version and payload hash, on any server that keeps what it is sent
  (hidden values may be withheld); it can only fail if the read itself fails.
\<close>

theorem gitlab_upsert_synced:
  assumes store: "variable_store C vars" and sha: "\<forall>v. length (sha v) = 32"
    and req: "writable (upsertMetadata req)" "identityComplete (upsertIdentity req)"
    and hash: "ur_PayloadSHA256 req = gitlabPayloadSHA256 sha (ur_Payload req)"
    and up: "gitlabUpsert sha C d req s = (Inr result, s')"
  shows "case fst (gitlabReadState sha C d (readFor req) s') of
       Inl e \<Rightarrow> (\<exists>opts ge s2. gc_GetVariable C opts (ur_ResolvedName req) s' = (Inl ge, s2) \<and> \<not> isGitLabNotFound ge)
     | Inr state \<Rightarrow> rs_Exists state \<and> rs_OwnershipKnown state \<and> rs_Owned state \<and>
         rs_PayloadSHA256 state = ur_PayloadSHA256 req \<and> rs_SourceVersion state = ur_SourceVersion req"
proof -
  obtain opts where opts: "gitlabVariableOptionsFor d (ur_Association req) = Inr opts"
    and valid: "validateGitLabUpsertRequest req = Inr ()"
    using up by (cases "validateGitLabUpsertRequest req"; cases "gitlabVariableOptionsFor d (ur_Association req)")
      (auto simp: gitlabUpsert_def)
  have key: "validateVariableKey (ur_ResolvedName req) = Inr ()"
    using valid by (cases "validateVariableKey (ur_ResolvedName req)") (auto simp: validateGitLabUpsertRequest_def)
  obtain v where v: "vars s' opts (ur_ResolvedName req) = Some v"
    and r: "reflects v (variableInputFromUpsert sha (go_association opts) req)"
    using variable_store.upsert_stores [OF store up opts] by blast
  obtain metadata verification where m: "ownershipMetadata (gv_Description v) = (metadata, True)"
    "ownedByRequest sha metadata True (upsertIdentity req)" "vm_SourceVersion metadata = ur_SourceVersion req"
    "variableReadback sha v metadata = Inr (ur_PayloadSHA256 req, verification)"
    using readState_reflects [OF store sha req hash r] by blast
  have fields: "rr_ResolvedName (readFor req) = ur_ResolvedName req" "rr_Association (readFor req) = ur_Association req"
    by (simp_all add: readFor_def)
  obtain g s2 where g: "gc_GetVariable C opts (ur_ResolvedName req) s' = (g, s2)"
    by (cases "gc_GetVariable C opts (ur_ResolvedName req) s'")
  show ?thesis
  proof (cases g)
    case (Inl e)
    then have "\<not> isGitLabNotFound e"
      using variable_store.get_missing [OF store] g v by force
    then show ?thesis
      using g Inl by (auto simp: gitlabReadState_def fields key opts)
  next
    case (Inr w)
    then have "w = v"
      using variable_store.get_found [OF store] g v by force
    then show ?thesis
      using g Inr m by (simp add: gitlabReadState_def fields key opts)
  qed
qed

lemma sample_upsert:
  "\<exists>result s'. gitlabUpsert flatSha (httpProjectVariableClient memGitLabSend) sampleProject sampleUpsert [] =
     (Inr result, s')"
  by (simp add: gitlabUpsert_def sample_checks gitlab_http isGitLabNotFound_def validateMaskedPayloadForUpsert_def
      sampleOptions_def)

theorem gitlab_upsert_synced_witness:
  "\<exists>result s'. gitlabUpsert flatSha (httpProjectVariableClient memGitLabSend) sampleProject sampleUpsert [] =
       (Inr result, s') \<and>
     (case fst (gitlabReadState flatSha (httpProjectVariableClient memGitLabSend) sampleProject (readFor sampleUpsert) s') of
       Inl e \<Rightarrow> (\<exists>opts ge s2. gc_GetVariable (httpProjectVariableClient memGitLabSend) opts (ur_ResolvedName sampleUpsert) s' =
         (Inl ge, s2) \<and> \<not> isGitLabNotFound ge)
     | Inr state \<Rightarrow> rs_Exists state \<and> rs_OwnershipKnown state \<and> rs_Owned state \<and>
         rs_PayloadSHA256 state = ur_PayloadSHA256 sampleUpsert \<and> rs_SourceVersion state = ur_SourceVersion sampleUpsert)"
proof -
  obtain result s' where up: "gitlabUpsert flatSha (httpProjectVariableClient memGitLabSend) sampleProject sampleUpsert [] =
     (Inr result, s')"
    using sample_upsert by blast
  have "ur_PayloadSHA256 sampleUpsert = gitlabPayloadSHA256 flatSha (ur_Payload sampleUpsert)"
    by (simp add: sampleUpsert_def)
  from gitlab_upsert_synced [OF memGitLab.variable_store_axioms sha_flat writable_sample identity_sample this up] up
  show ?thesis by blast
qed

section \<open>Association options\<close>

lemma boolConfigValue_formatted:
  "mapGet config k = formatBool b \<Longrightarrow> boolConfigValue pre config k fallback = Inr b"
proof -
  have "trimSpace (formatBool b) = formatBool b" "formatBool b \<noteq> []"
    by (simp_all add: formatBool_def trim_literals)
  then show "mapGet config k = formatBool b \<Longrightarrow> boolConfigValue pre config k fallback = Inr b"
    by (simp add: boolConfigValue_def configValue_def)
qed

text \<open>
  C38. The normalized configuration of an association is a fixed point: normalizing it again accepts it
  and changes nothing, so that a stored association keeps its provider identity. A hidden variable is
  masked, and the variable type is one of the two supported ones.
\<close>

theorem gitlab_normalized_fixpoint:
  assumes "gitlabNormalizeAssociationConfig cfg = Inr normal"
  shows "gitlabNormalizeAssociationConfig normal = Inr normal \<and>
    ac_Identity normal = mapGet (ac_Config normal) ConfigKeyEnvironmentScope \<and> ac_Identity normal \<noteq> [] \<and>
    (mapGet (ac_Config normal) ConfigKeyHidden = ''true'' \<longrightarrow> mapGet (ac_Config normal) ConfigKeyMasked = ''true'') \<and>
    mapGet (ac_Config normal) ConfigKeyVariableType \<in> {VariableTypeEnvVar, VariableTypeFile}"
proof -
  obtain options where o: "gitlabAssociationOptionsFromConfig (ac_Config cfg) = Inr options"
    and normal: "normal = \<lparr> ac_Config = gitlabOptionsConfig options, ac_Identity = ga_environmentScope options \<rparr>"
    using assms by (auto simp: gitlabNormalizeAssociationConfig_def andThen_Inr)
  have trimmed: "trimSpace (stringDefault (trimSpace x) y) = stringDefault (trimSpace x) y" if "trimSpace y = y" for x y
    using that by (simp add: stringDefault_def trimSpace_idem)
  have dflts: "trimSpace defaultEnvironmentScope = defaultEnvironmentScope" "trimSpace defaultVariableType = defaultVariableType"
    "trimSpace VariableTypeEnvVar = VariableTypeEnvVar" "trimSpace VariableTypeFile = VariableTypeFile"
    by (simp_all add: defaultEnvironmentScope_def defaultVariableType_def VariableTypeEnvVar_def VariableTypeFile_def
        trim_literals)
  have f: "ga_environmentScope options \<noteq> []" "trimSpace (ga_environmentScope options) = ga_environmentScope options"
    "trimSpace (ga_variableType options) = ga_variableType options"
    "ga_variableType options = VariableTypeEnvVar \<or> ga_variableType options = VariableTypeFile"
    "ga_hidden options \<longrightarrow> ga_masked options"
    using o trimmed [OF dflts(1)] trimmed [OF dflts(2)] dflts(3,4)
    by (auto simp: gitlabAssociationOptionsFromConfig_def andThen_Inr Let_def split: if_splits)
  have again: "gitlabAssociationOptionsFromConfig (gitlabOptionsConfig options) = Inr options"
  proof -
    have get: "mapGet (gitlabOptionsConfig options) ConfigKeyEnvironmentScope = ga_environmentScope options"
      "mapGet (gitlabOptionsConfig options) ConfigKeyVariableType = ga_variableType options"
      "mapGet (gitlabOptionsConfig options) ConfigKeyProtected = formatBool (ga_protected options)"
      "mapGet (gitlabOptionsConfig options) ConfigKeyMasked = formatBool (ga_masked options)"
      "mapGet (gitlabOptionsConfig options) ConfigKeyHidden = formatBool (ga_hidden options)"
      "mapGet (gitlabOptionsConfig options) ConfigKeyVariableRaw = formatBool (ga_variableRaw options)"
      by (simp_all add: gitlabOptionsConfig_def gitlab_config_keys)
    have keys: "unsupportedKey what gitlabAssociationKeys (gitlabOptionsConfig options) = Inr ()" for what
      by (simp add: unsupportedKey_def gitlabOptionsConfig_def gitlabAssociationKeys_def)
    have "ga_variableType options \<noteq> []"
      using f(4) by (auto simp: VariableTypeEnvVar_def VariableTypeFile_def)
    then show ?thesis
      unfolding gitlabAssociationOptionsFromConfig_def keys
        boolConfigValue_formatted [OF get(3)] boolConfigValue_formatted [OF get(4)]
        boolConfigValue_formatted [OF get(5)] boolConfigValue_formatted [OF get(6)] andThen_simps get Let_def
      using f by (cases options) (auto simp: stringDefault_def)
  qed
  have fixpoint: "gitlabNormalizeAssociationConfig normal = Inr normal"
    by (simp only: normal gitlabNormalizeAssociationConfig_def associationConfig.simps again andThen_simps)
  show ?thesis
    unfolding fixpoint
    using f by (simp add: normal gitlabOptionsConfig_def gitlab_config_keys formatBool_def)
qed

theorem gitlab_normalized_fixpoint_witness:
  "let normal = \<lparr> ac_Config = gitlabOptionsConfig (go_association sampleOptions), ac_Identity = ''*'' \<rparr>
   in gitlabNormalizeAssociationConfig \<lparr> ac_Config = [], ac_Identity = [] \<rparr> = Inr normal \<and>
      gitlabNormalizeAssociationConfig normal = Inr normal"
proof -
  have "gitlabAssociationOptionsFromConfig [] = Inr (go_association sampleOptions)"
    using sample_checks(2) by (auto simp: gitlabVariableOptionsFor_def sampleUpsert_def andThen_Inr sampleOptions_def)
  then have n: "gitlabNormalizeAssociationConfig \<lparr> ac_Config = [], ac_Identity = [] \<rparr> =
      Inr \<lparr> ac_Config = gitlabOptionsConfig (go_association sampleOptions), ac_Identity = ''*'' \<rparr>"
    by (simp add: gitlabNormalizeAssociationConfig_def) (simp add: sampleOptions_def)
  then show ?thesis
    using gitlab_normalized_fixpoint [OF n] n unfolding Let_def by blast
qed

end
