(* ===== verification/Kubernetes_Options.thy ===== *)
theory Kubernetes_Options
  imports Provider_Endpoints
begin

text \<open>
  Configuration of the Kubernetes provider (\<open>internal/providers/kubernetessecrets/provider.go\<close>): the three
  ways to authenticate, the policy for the API server, and the names it accepts. The URL parser, the
  name validators of \<open>k8s.io/apimachinery\<close> and the PEM reader of \<open>crypto/x509\<close> are arguments.
\<close>

definition k8sProviderType :: string where "k8sProviderType = ''k8s''"

definition k8sConfigKeyNamespace :: string where "k8sConfigKeyNamespace = ''namespace''"
definition k8sConfigKeyAuthMode :: string where "k8sConfigKeyAuthMode = ''auth_mode''"
definition k8sConfigKeyKubeconfigPath :: string where "k8sConfigKeyKubeconfigPath = ''kubeconfig_path''"
definition k8sConfigKeyKubeContext :: string where "k8sConfigKeyKubeContext = ''context''"
definition k8sConfigKeyAPIServer :: string where "k8sConfigKeyAPIServer = ''api_server''"
definition k8sConfigKeyAllowPrivateAPIServer :: string where
  "k8sConfigKeyAllowPrivateAPIServer = ''allow_private_api_server''"
definition k8sConfigKeyToken :: string where "k8sConfigKeyToken = ''token''"
definition k8sConfigKeyCACertPEM :: string where "k8sConfigKeyCACertPEM = ''ca_cert_pem''"
definition k8sConfigKeyTLSServerName :: string where "k8sConfigKeyTLSServerName = ''tls_server_name''"

definition AuthModeInCluster :: string where "AuthModeInCluster = ''in_cluster''"
definition AuthModeKubeconfig :: string where "AuthModeKubeconfig = ''kubeconfig''"
definition AuthModeToken :: string where "AuthModeToken = ''token''"

definition secretMaxBytes :: int where "secretMaxBytes = 1024 * 1024"
definition dataKeyPayload :: string where "dataKeyPayload = ''payload''"
definition healthCheckSecretName :: string where "healthCheckSecretName = ''openbao-secret-sync-health-check''"

lemmas k8s_config_keys =
  k8sConfigKeyNamespace_def k8sConfigKeyAuthMode_def k8sConfigKeyKubeconfigPath_def k8sConfigKeyKubeContext_def
  k8sConfigKeyAPIServer_def k8sConfigKeyAllowPrivateAPIServer_def k8sConfigKeyToken_def k8sConfigKeyCACertPEM_def
  k8sConfigKeyTLSServerName_def

definition k8sCapabilities :: capabilities where
  "k8sCapabilities = \<lparr> cp_SupportsValueReadback = True, cp_SupportsMetadataReadback = True,
     cp_SupportsPayloadHashMetadata = True, cp_SupportsUpdateIfOwned = True, cp_SupportsDeleteIfOwned = True,
     cp_SupportsSecretPath = True, cp_SupportsSecretKey = False, cp_SupportsDataMap = True,
     cp_MaxPayloadBytes = secretMaxBytes \<rparr>"

section \<open>Names\<close>

text \<open>Each validator answers with its complaints; \<open>kv_AppendCerts\<close> tells whether a PEM text has a certificate.\<close>

record k8sLibrary =
  kv_ParseURL :: "string \<Rightarrow> parsedURL option"
  kv_IsDNS1123Label :: "string \<Rightarrow> string list"
  kv_IsDNS1123Subdomain :: "string \<Rightarrow> string list"
  kv_IsConfigMapKey :: "string \<Rightarrow> string list"
  kv_AppendCerts :: "string \<Rightarrow> bool"

definition validateNamespace :: "k8sLibrary \<Rightarrow> string \<Rightarrow> providerError + unit" where
  "validateNamespace L namespace =
     (if namespace = [] then Inl (validationError ''k8s namespace must not be empty'')
      else (let errs = kv_IsDNS1123Label L namespace
            in if errs \<noteq> [] then Inl (validationError (''k8s namespace is invalid: '' @ joinStrings ''; '' errs))
               else Inr ()))"

definition validateSecretName :: "k8sLibrary \<Rightarrow> string \<Rightarrow> providerError + unit" where
  "validateSecretName L name =
     (if name = [] then Inl (validationError ''k8s resolved secret name must not be empty'')
      else (let errs = kv_IsDNS1123Subdomain L name
            in if errs \<noteq> []
               then Inl (validationError (''k8s resolved secret name is invalid: '' @ joinStrings ''; '' errs))
               else Inr ()))"

text \<open>The first invalid key is reported; its \<open>%q\<close> form is left as the key itself.\<close>

fun validateDataMapKeys :: "k8sLibrary \<Rightarrow> string list \<Rightarrow> providerError + unit" where
  "validateDataMapKeys L [] = Inr ()"
| "validateDataMapKeys L (key # keys) =
     (let errs = kv_IsConfigMapKey L key
      in if errs \<noteq> []
         then Inl (validationError (''k8s data key '' @ key @ '' is invalid: '' @ joinStrings ''; '' errs))
         else validateDataMapKeys L keys)"

lemma validateDataMapKeys_Inr:
  "validateDataMapKeys L keys = Inr () \<longleftrightarrow> (\<forall>key \<in> set keys. kv_IsConfigMapKey L key = [])"
  by (induction keys) (simp_all add: Let_def)

section \<open>Options of a destination\<close>

record k8sDestinationOptions =
  kd_namespace :: string
  kd_authMode :: string
  kd_kubeconfigPath :: string
  kd_kubeContext :: string
  kd_apiServer :: string
  kd_allowPrivateAPI :: bool
  kd_allowPrivateSet :: bool
  kd_token :: string
  kd_caCertPEM :: string
  kd_tlsServerName :: string

definition k8sNormalizedAuthMode :: "(string \<times> string) list \<Rightarrow> string" where
  "k8sNormalizedAuthMode config =
     (let authMode = configValue config k8sConfigKeyAuthMode
      in if authMode \<noteq> [] then authMode
         else if configValue config k8sConfigKeyAPIServer \<noteq> [] \<or> configValue config k8sConfigKeyToken \<noteq> []
         then AuthModeToken
         else if configValue config k8sConfigKeyKubeconfigPath \<noteq> [] then AuthModeKubeconfig
         else AuthModeInCluster)"

definition hasTokenAuthConfig :: "k8sDestinationOptions \<Rightarrow> bool" where
  "hasTokenAuthConfig options \<longleftrightarrow> kd_apiServer options \<noteq> [] \<or> kd_allowPrivateSet options \<or>
     kd_token options \<noteq> [] \<or> kd_caCertPEM options \<noteq> [] \<or> kd_tlsServerName options \<noteq> []"

definition validateAPIServer ::
    "(string \<Rightarrow> parsedURL option) \<Rightarrow> string \<Rightarrow> bool \<Rightarrow> providerError + unit" where
  "validateAPIServer parseURL apiServer allowPrivateAPI =
     (case parseURL apiServer of
        None \<Rightarrow> Inl (validationError ''k8s api_server must be an absolute URL'')
      | Some parsed \<Rightarrow>
          if pu_Scheme parsed = [] \<or> pu_Host parsed = []
          then Inl (validationError ''k8s api_server must be an absolute URL'')
          else if pu_Scheme parsed \<noteq> ''https'' then Inl (validationError ''k8s api_server must use https'')
          else (let host = NormalizeHost (pu_Hostname parsed)
                in if host = [] then Inl (validationError ''k8s api_server must include a host'')
                   else if \<not> allowPrivateAPI \<and> IsRestrictedHost host
                   then Inl (validationError (''k8s api_server requires allow_private_api_server=true '' @
                          ''for localhost or restricted network addresses''))
                   else Inr ()))"

definition validateCACertPEM :: "(string \<Rightarrow> bool) \<Rightarrow> string \<Rightarrow> providerError + unit" where
  "validateCACertPEM appendCerts caCertPEM =
     (if caCertPEM = [] then Inr ()
      else if \<not> appendCerts caCertPEM
      then Inl (validationError ''k8s ca_cert_pem must contain at least one PEM certificate'')
      else Inr ())"

definition validateInClusterAuth :: "k8sDestinationOptions \<Rightarrow> providerError + unit" where
  "validateInClusterAuth options =
     (if kd_kubeconfigPath options \<noteq> [] \<or> kd_kubeContext options \<noteq> [] \<or> hasTokenAuthConfig options
      then Inl (validationError ''k8s kubeconfig or token fields require matching auth_mode'')
      else Inr ())"

definition validateKubeconfigAuth :: "k8sDestinationOptions \<Rightarrow> providerError + unit" where
  "validateKubeconfigAuth options =
     (if kd_kubeconfigPath options = []
      then Inl (validationError ''k8s auth_mode kubeconfig requires kubeconfig_path'')
      else if hasTokenAuthConfig options
      then Inl (validationError ''k8s token fields require auth_mode token'')
      else Inr ())"

definition validateTokenAuth :: "k8sLibrary \<Rightarrow> k8sDestinationOptions \<Rightarrow> providerError + unit" where
  "validateTokenAuth L options =
     (if kd_kubeconfigPath options \<noteq> [] \<or> kd_kubeContext options \<noteq> []
      then Inl (validationError ''k8s kubeconfig fields require auth_mode kubeconfig'')
      else if kd_apiServer options = []
      then Inl (validationError ''k8s auth_mode token requires api_server'')
      else andThen (validateAPIServer (kv_ParseURL L) (kd_apiServer options) (kd_allowPrivateAPI options)) (\<lambda>_.
           if kd_token options = [] then Inl (validationError ''k8s auth_mode token requires token'')
           else validateCACertPEM (kv_AppendCerts L) (kd_caCertPEM options)))"

definition k8sUnknownAuthMode :: providerError where
  "k8sUnknownAuthMode = validationError ''k8s auth_mode must be in_cluster, kubeconfig, or token''"

definition validateAuthMode :: "k8sLibrary \<Rightarrow> k8sDestinationOptions \<Rightarrow> providerError + unit" where
  "validateAuthMode L options =
     (if kd_authMode options = AuthModeInCluster then validateInClusterAuth options
      else if kd_authMode options = AuthModeKubeconfig then validateKubeconfigAuth options
      else if kd_authMode options = AuthModeToken then validateTokenAuth L options
      else Inl k8sUnknownAuthMode)"

definition k8sDestinationOptionsFromConfig ::
    "k8sLibrary \<Rightarrow> providerDestinationConfig \<Rightarrow> providerError + k8sDestinationOptions" where
  "k8sDestinationOptionsFromConfig L cfg =
     (let config = dc_Config cfg
      in andThen (boolConfigValue k8sProviderType config k8sConfigKeyAllowPrivateAPIServer False) (\<lambda>allowPrivateAPI.
         let options = \<lparr> kd_namespace = configValue config k8sConfigKeyNamespace,
               kd_authMode = k8sNormalizedAuthMode config,
               kd_kubeconfigPath = configValue config k8sConfigKeyKubeconfigPath,
               kd_kubeContext = configValue config k8sConfigKeyKubeContext,
               kd_apiServer = configValue config k8sConfigKeyAPIServer,
               kd_allowPrivateAPI = allowPrivateAPI,
               kd_allowPrivateSet = (configValue config k8sConfigKeyAllowPrivateAPIServer \<noteq> []),
               kd_token = configValue config k8sConfigKeyToken,
               kd_caCertPEM = configValue config k8sConfigKeyCACertPEM,
               kd_tlsServerName = configValue config k8sConfigKeyTLSServerName \<rparr>
         in if dc_Name cfg = [] then Inl (validationError ''k8s destination name must not be empty'')
            else andThen (validateNamespace L (kd_namespace options)) (\<lambda>_.
                 andThen (validateAuthMode L options) (\<lambda>_. Inr options))))"

definition k8sValidateConfig :: "k8sLibrary \<Rightarrow> providerDestinationConfig \<Rightarrow> providerError + unit" where
  "k8sValidateConfig L cfg = andThen (k8sDestinationOptionsFromConfig L cfg) (\<lambda>_. Inr ())"

definition k8sNormalizeAssociationConfig :: "associationConfig \<Rightarrow> providerError + associationConfig" where
  "k8sNormalizeAssociationConfig cfg =
     (if ac_Config cfg \<noteq> [] then Inl (validationError ''k8s does not support association configuration'')
      else Inr \<lparr> ac_Config = [], ac_Identity = [] \<rparr>)"

section \<open>Opening a destination\<close>

definition validateAPIServerResolution ::
    "k8sLibrary \<Rightarrow> 's resolver \<Rightarrow> k8sDestinationOptions \<Rightarrow> 's \<Rightarrow> (providerError + unit) \<times> 's" where
  "validateAPIServerResolution L resolver options s =
     (if kd_authMode options \<noteq> AuthModeToken \<or> kd_allowPrivateAPI options then (Inr (), s)
      else (case kv_ParseURL L (kd_apiServer options) of
          None \<Rightarrow> (Inl (validationError ''k8s api_server must be an absolute URL''), s)
        | Some parsed \<Rightarrow>
            (let host = NormalizeHost (pu_Hostname parsed)
             in if host = [] then (Inl (validationError ''k8s api_server must include a host''), s)
                else if ParseAddr host \<noteq> None then (Inr (), s)
                else checkResolution resolver (\<lambda>addr. \<not> IsRestrictedAddr addr)
                  ''k8s api_server DNS lookup failed'' ''k8s api_server DNS lookup returned no addresses''
                  (''k8s api_server DNS resolves to a restricted network address; '' @
                   ''requires allow_private_api_server=true'') host s)))"

text \<open>
  What the provider sets in the configuration of a REST client: where it connects, with which token and
  certificates, the timeout in seconds, which addresses it may dial (\<open>None\<close> is the client's own dialer),
  and whether a proxy is ruled out.
\<close>

record restConfig =
  rc_Host :: string
  rc_BearerToken :: string
  rc_CAData :: string
  rc_ServerName :: string
  rc_Timeout :: int
  rc_Dial :: "(netAddr \<Rightarrow> bool) option"
  rc_NoProxy :: bool

definition restConfigForToken :: "k8sDestinationOptions \<Rightarrow> restConfig" where
  "restConfigForToken options =
     \<lparr> rc_Host = kd_apiServer options, rc_BearerToken = kd_token options, rc_CAData = kd_caCertPEM options,
       rc_ServerName = kd_tlsServerName options, rc_Timeout = 0, rc_Dial = None, rc_NoProxy = False \<rparr>"

definition defaultRequestTimeout :: int where "defaultRequestTimeout = 30"

definition hardenRESTConfig :: "restConfig \<Rightarrow> k8sDestinationOptions \<Rightarrow> restConfig" where
  "hardenRESTConfig rest options =
     (let rest = (if rc_Timeout rest \<le> 0 then rest \<lparr> rc_Timeout := defaultRequestTimeout \<rparr> else rest)
      in if kd_authMode options \<noteq> AuthModeToken \<or> kd_allowPrivateAPI options then rest
         else rest \<lparr> rc_Dial := Some (\<lambda>addr. \<not> IsRestrictedAddr addr), rc_NoProxy := True \<rparr>)"

text \<open>
  The configuration of the client of a destination; \<open>inCluster\<close> and \<open>kubeconfig\<close> are what the client
  library loads from the pod and from a kubeconfig file.
\<close>

definition k8sDefaultClientFactory ::
    "k8sLibrary \<Rightarrow> 's resolver \<Rightarrow> (providerError + restConfig) \<Rightarrow>
     (string \<Rightarrow> string \<Rightarrow> providerError + restConfig) \<Rightarrow> providerDestinationConfig \<Rightarrow> 's \<Rightarrow>
     (providerError + restConfig) \<times> 's" where
  "k8sDefaultClientFactory L resolver inCluster kubeconfig cfg s =
     (case k8sDestinationOptionsFromConfig L cfg of
        Inl e \<Rightarrow> (Inl e, s)
      | Inr options \<Rightarrow>
          (let harden = (\<lambda>rest. andThen rest (\<lambda>rest. Inr (hardenRESTConfig rest options)))
           in if kd_authMode options = AuthModeInCluster then (harden inCluster, s)
              else if kd_authMode options = AuthModeKubeconfig
              then (harden (kubeconfig (kd_kubeconfigPath options) (kd_kubeContext options)), s)
              else if kd_authMode options = AuthModeToken
              then (case validateAPIServerResolution L resolver options s of
                      (Inl e, s) \<Rightarrow> (Inl e, s)
                    | (Inr _, s) \<Rightarrow> (harden (Inr (restConfigForToken options)), s))
              else (Inl k8sUnknownAuthMode, s)))"

text \<open>\<open>OpenDestination\<close>: the factory makes the client of the runtime.\<close>

definition k8sOpenDestination ::
    "k8sLibrary \<Rightarrow> (providerDestinationConfig \<Rightarrow> 's \<Rightarrow> (providerError + 'client) \<times> 's) \<Rightarrow>
     providerDestinationConfig \<Rightarrow> 's \<Rightarrow> (providerError + 'client \<times> k8sDestinationOptions) \<times> 's" where
  "k8sOpenDestination L factory cfg s =
     (case k8sDestinationOptionsFromConfig L cfg of
        Inl e \<Rightarrow> (Inl e, s)
      | Inr options \<Rightarrow>
          (case factory cfg s of
             (Inl e, s) \<Rightarrow> (Inl (requestFailed k8sProviderType (setupErrorClass e)), s)
           | (Inr client, s) \<Rightarrow> (Inr (client, options), s)))"

end
