(* ===== verification/Kubernetes_Secret.thy ===== *)
theory Kubernetes_Secret
  imports Kubernetes_Options Go_JSON "HOL-Library.AList"
begin

text \<open>
  A Kubernetes Secret as the provider sees it, the labels and annotations that say whose it is, and its data
  (\<open>internal/providers/kubernetessecrets/provider.go\<close>). The maps of a secret are association lists; a nil
  map is an empty one. Fields the provider copies but never looks at are left out.
\<close>

definition metadataKeyPrefix :: string where "metadataKeyPrefix = ''openbao.org/secrets-sync-''"
definition labelManaged :: string where "labelManaged = metadataKeyPrefix @ ''managed''"
definition annotationAssociationID :: string where "annotationAssociationID = metadataKeyPrefix @ ''association-id''"
definition annotationSourcePath :: string where "annotationSourcePath = metadataKeyPrefix @ ''source-path''"
definition annotationSourceVersion :: string where "annotationSourceVersion = metadataKeyPrefix @ ''source-version''"
definition annotationObjectID :: string where "annotationObjectID = metadataKeyPrefix @ ''object-id''"
definition annotationPayloadSHA256 :: string where "annotationPayloadSHA256 = metadataKeyPrefix @ ''payload-sha256''"
definition annotationFormat :: string where "annotationFormat = metadataKeyPrefix @ ''format''"
definition annotationDataKeys :: string where "annotationDataKeys = metadataKeyPrefix @ ''data-keys''"
definition annotationMountUUID :: string where "annotationMountUUID = metadataKeyPrefix @ ''mount-uuid''"
definition annotationRestoreEpoch :: string where "annotationRestoreEpoch = metadataKeyPrefix @ ''restore-epoch''"

lemmas k8s_annotations =
  metadataKeyPrefix_def labelManaged_def annotationAssociationID_def annotationSourcePath_def
  annotationSourceVersion_def annotationObjectID_def annotationPayloadSHA256_def annotationFormat_def
  annotationDataKeys_def annotationMountUUID_def annotationRestoreEpoch_def

definition SecretTypeOpaque :: string where "SecretTypeOpaque = ''Opaque''"

record k8sSecret =
  ks_Name :: string
  ks_Namespace :: string
  ks_UID :: string
  ks_ResourceVersion :: string
  ks_Labels :: "(string \<times> string) list"
  ks_Annotations :: "(string \<times> string) list"
  ks_Type :: string
  ks_Data :: "(string \<times> string) list"
  ks_Immutable :: "bool option"

definition newSecret :: "string \<Rightarrow> string \<Rightarrow> (string \<times> string) list \<Rightarrow> k8sSecret" where
  "newSecret namespace name data =
     \<lparr> ks_Name = name, ks_Namespace = namespace, ks_UID = [], ks_ResourceVersion = [], ks_Labels = [],
       ks_Annotations = [], ks_Type = SecretTypeOpaque, ks_Data = data, ks_Immutable = None \<rparr>"

definition isImmutable :: "k8sSecret \<Rightarrow> bool" where
  "isImmutable secret \<longleftrightarrow> ks_Immutable secret = Some True"

section \<open>Ownership metadata\<close>

definition annotationValue :: "(string \<times> string) list \<Rightarrow> string \<Rightarrow> string" where
  "annotationValue annotations key = mapGet annotations key"

definition updateNonempty :: "string \<Rightarrow> string \<Rightarrow> (string \<times> string) list \<Rightarrow> (string \<times> string) list" where
  "updateNonempty key v m = (if v \<noteq> [] then AList.update key v m else m)"

definition ownershipAnnotations ::
    "requestIdentity \<Rightarrow> int \<Rightarrow> string \<Rightarrow> string \<Rightarrow> (string \<times> string) list \<Rightarrow> (string \<times> string) list" where
  "ownershipAnnotations identity sourceVersion hash format annotations =
     updateNonempty annotationRestoreEpoch (id_RestoreEpoch identity)
     (updateNonempty annotationMountUUID (id_MountUUID identity)
     (AList.update annotationFormat format
     (AList.update annotationPayloadSHA256 hash
     (AList.update annotationObjectID (id_ObjectID identity)
     (AList.update annotationSourceVersion (itoa sourceVersion)
     (AList.update annotationSourcePath (id_SourcePath identity)
     (AList.update annotationAssociationID (id_AssociationID identity) annotations)))))))"

definition applyOwnershipMetadata ::
    "requestIdentity \<Rightarrow> int \<Rightarrow> string \<Rightarrow> string \<Rightarrow> k8sSecret \<Rightarrow> k8sSecret" where
  "applyOwnershipMetadata identity sourceVersion hash format secret =
     secret \<lparr> ks_Labels := AList.update labelManaged ''true'' (ks_Labels secret),
       ks_Annotations := ownershipAnnotations identity sourceVersion hash format (ks_Annotations secret) \<rparr>"

definition applyDataMapMetadata :: "string list \<Rightarrow> k8sSecret \<Rightarrow> k8sSecret" where
  "applyDataMapMetadata dataKeys secret =
     secret \<lparr> ks_Annotations := AList.update annotationDataKeys (marshalStrings dataKeys) (ks_Annotations secret) \<rparr>"

definition removeDataMapMetadata :: "k8sSecret \<Rightarrow> k8sSecret" where
  "removeDataMapMetadata secret =
     secret \<lparr> ks_Annotations := AList.delete annotationDataKeys (ks_Annotations secret) \<rparr>"

definition ownershipKeys :: "string list" where
  "ownershipKeys = [annotationAssociationID, annotationSourcePath, annotationSourceVersion, annotationObjectID,
     annotationPayloadSHA256, annotationFormat, annotationDataKeys, annotationMountUUID, annotationRestoreEpoch]"

definition removeOwnershipMetadata :: "k8sSecret \<Rightarrow> k8sSecret" where
  "removeOwnershipMetadata secret =
     secret \<lparr> ks_Annotations := foldl (\<lambda>m key. AList.delete key m) (ks_Annotations secret) ownershipKeys,
       ks_Labels := AList.delete labelManaged (ks_Labels secret) \<rparr>"

definition requiredAnnotationMatches :: "(string \<times> string) list \<Rightarrow> string \<Rightarrow> string \<Rightarrow> bool" where
  "requiredAnnotationMatches annotations key expected \<longleftrightarrow>
     expected \<noteq> [] \<and> annotationValue annotations key = expected"

definition runtimeAnnotationMatches :: "(string \<times> string) list \<Rightarrow> string \<Rightarrow> string \<Rightarrow> bool" where
  "runtimeAnnotationMatches annotations key expected \<longleftrightarrow>
     expected \<noteq> [] \<and> annotationValue annotations key = expected"

definition k8sOwnedByRequest :: "k8sSecret \<Rightarrow> requestIdentity \<Rightarrow> bool" where
  "k8sOwnedByRequest secret identity \<longleftrightarrow>
     mapGet (ks_Labels secret) labelManaged = ''true'' \<and>
     requiredAnnotationMatches (ks_Annotations secret) annotationAssociationID (id_AssociationID identity) \<and>
     requiredAnnotationMatches (ks_Annotations secret) annotationSourcePath (id_SourcePath identity) \<and>
     requiredAnnotationMatches (ks_Annotations secret) annotationObjectID (id_ObjectID identity) \<and>
     runtimeAnnotationMatches (ks_Annotations secret) annotationMountUUID (id_MountUUID identity) \<and>
     runtimeAnnotationMatches (ks_Annotations secret) annotationRestoreEpoch (id_RestoreEpoch identity)"

definition k8sRemoteSourceVersionNewer :: "(string \<times> string) list \<Rightarrow> int \<Rightarrow> bool" where
  "k8sRemoteSourceVersionNewer annotations sourceVersion =
     (if sourceVersion \<le> 0 then False
      else (case atoi (annotationValue annotations annotationSourceVersion) of
              None \<Rightarrow> False
            | Some remoteVersion \<Rightarrow> sourceVersion < remoteVersion))"

section \<open>Data keys\<close>

definition copyDataMap :: "(string \<times> string) list \<Rightarrow> (string \<times> string) list" where
  "copyDataMap input = input"

definition k8sDataMapKeys :: "(string \<times> string) list \<Rightarrow> string list" where
  "k8sDataMapKeys data = sort (map fst data)"

definition managedDataKeys :: "k8sSecret \<Rightarrow> string list option" where
  "managedDataKeys secret =
     (let v = annotationValue (ks_Annotations secret) annotationDataKeys
      in if v = [] then Some [] else map_option sort (unmarshalStrings v))"

text \<open>Without usable metadata nothing may be taken for managed, except the payload of the raw formats.\<close>

definition managedDataKeysForMutation :: "k8sSecret \<Rightarrow> string list option" where
  "managedDataKeysForMutation secret =
     (case managedDataKeys secret of
        None \<Rightarrow> None
      | Some (key # keys) \<Rightarrow> Some (key # keys)
      | Some [] \<Rightarrow>
          if annotationValue (ks_Annotations secret) annotationFormat = FormatDataMap then None
          else if map_of (ks_Data secret) dataKeyPayload \<noteq> None then Some [dataKeyPayload]
          else Some [])"

definition unmanagedDataKeyConflicts :: "k8sSecret \<Rightarrow> string list \<Rightarrow> string list \<Rightarrow> string list" where
  "unmanagedDataKeyConflicts secret managedKeys desiredKeys =
     filter (\<lambda>key. map_of (ks_Data secret) key \<noteq> None \<and> key \<notin> set managedKeys) desiredKeys"

definition mergedDataMap ::
    "(string \<times> string) list \<Rightarrow> string list \<Rightarrow> (string \<times> string) list \<Rightarrow> (string \<times> string) list" where
  "mergedDataMap existing managedKeys desired =
     foldl (\<lambda>m (key, v). AList.update key v m)
       (foldl (\<lambda>m key. AList.delete key m) (copyDataMap existing) managedKeys) desired"

definition validateDataMap :: "k8sLibrary \<Rightarrow> (string \<times> string) list \<Rightarrow> providerError + unit" where
  "validateDataMap L data =
     (if data = [] then Inl (validationError ''k8s data-map payload must contain at least one key'')
      else validateDataMapKeys L (k8sDataMapKeys data))"

section \<open>Hashes\<close>

definition payloadSHA256Bytes :: "(string \<Rightarrow> string) \<Rightarrow> string \<Rightarrow> string" where
  "payloadSHA256Bytes sha payload = ''sha256:'' @ hexEncode (sha payload)"

definition dataMapHash :: "(string \<Rightarrow> string) \<Rightarrow> (string \<times> string) list \<Rightarrow> string" where
  "dataMapHash sha data = (case BuildDataMap (\<lambda>_ _. []) sha data of Inl _ \<Rightarrow> [] | Inr p \<Rightarrow> pl_SHA256 p)"

definition k8sPayloadSHA256 :: "(string \<Rightarrow> string) \<Rightarrow> k8sSecret \<Rightarrow> string" where
  "k8sPayloadSHA256 sha secret =
     (if ks_Data secret = [] then []
      else (case map_of (ks_Data secret) dataKeyPayload of
              Some payload \<Rightarrow>
                if length (ks_Data secret) = 1 then payloadSHA256Bytes sha payload
                else dataMapHash sha (ks_Data secret)
            | None \<Rightarrow> dataMapHash sha (ks_Data secret)))"

text \<open>The entries of the listed keys, each once.\<close>

definition selectData :: "(string \<times> string) list \<Rightarrow> string list \<Rightarrow> (string \<times> string) list" where
  "selectData data keys =
     List.map_filter (\<lambda>key. map_option (Pair key) (map_of data key)) (remdups keys)"

definition dataMapPayloadSHA256 :: "(string \<Rightarrow> string) \<Rightarrow> k8sSecret \<Rightarrow> string" where
  "dataMapPayloadSHA256 sha secret =
     (case managedDataKeys secret of
        None \<Rightarrow> []
      | Some keys \<Rightarrow>
          (let data = selectData (ks_Data secret) keys
           in if keys = [] then [] else if data = [] then [] else dataMapHash sha data))"

definition payloadSHA256ForMode :: "(string \<Rightarrow> string) \<Rightarrow> k8sSecret \<Rightarrow> bool \<Rightarrow> string" where
  "payloadSHA256ForMode sha secret dataMap =
     (if dataMap then dataMapPayloadSHA256 sha secret else k8sPayloadSHA256 sha secret)"

definition k8sPayloadMatchesRequest :: "(string \<Rightarrow> string) \<Rightarrow> k8sSecret \<Rightarrow> bool \<Rightarrow> string \<Rightarrow> bool" where
  "k8sPayloadMatchesRequest sha secret dataMap hash =
     (if payloadSHA256ForMode sha secret dataMap \<noteq> hash then False
      else if dataMap then True
      else length (ks_Data secret) = 1)"

definition managedMetadataMatches ::
    "k8sSecret \<Rightarrow> int \<Rightarrow> string \<Rightarrow> string \<Rightarrow> bool \<Rightarrow> string list \<Rightarrow> bool" where
  "managedMetadataMatches secret sourceVersion hash format dataMap desiredDataKeys =
     (if ks_Type secret \<noteq> SecretTypeOpaque \<or>
         annotationValue (ks_Annotations secret) annotationSourceVersion \<noteq> itoa sourceVersion \<or>
         annotationValue (ks_Annotations secret) annotationPayloadSHA256 \<noteq> hash \<or>
         annotationValue (ks_Annotations secret) annotationFormat \<noteq> format then False
      else if \<not> dataMap then annotationValue (ks_Annotations secret) annotationDataKeys = []
      else managedDataKeys secret = Some (sort desiredDataKeys))"

end
