(* ===== verification/Kubernetes_Provider.thy ===== *)
theory Kubernetes_Provider
  imports Kubernetes_Secret
begin

text \<open>
  The operations of the Kubernetes provider (\<open>internal/providers/kubernetessecrets/provider.go\<close>) over the
  client for secrets, which is an argument: an operation of the client changes the state (the cluster) in any
  way and answers with a secret or an error.
\<close>

section \<open>Errors\<close>

text \<open>
  The predicates of \<open>k8s.io/apimachinery/pkg/api/errors\<close> that the provider asks, and an error: the chain
  it wraps and which of the predicates hold of it.
\<close>

datatype k8sErrorKind =
    TooManyRequests | Unauthorized | Forbidden | ServerTimeout | RequestTimeout | ServiceUnavailable
  | AlreadyExists | Conflict | Invalid | BadRequest | NotFound | RequestEntityTooLarge

record k8sError =
  ke_chain :: "unit errorLink list"
  ke_kinds :: "k8sErrorKind list"

definition k8sIs :: "k8sErrorKind \<Rightarrow> k8sError \<Rightarrow> bool" where
  "k8sIs kind e \<longleftrightarrow> kind \<in> set (ke_kinds e)"

definition classifyKubernetesError :: "k8sError \<Rightarrow> string" where
  "classifyKubernetesError e =
     (case classifyTransportChain (ke_chain e) of
        Some errorClass \<Rightarrow> errorClass
      | None \<Rightarrow>
          if k8sIs TooManyRequests e then ErrorClassRateLimit
          else if k8sIs Unauthorized e then ErrorClassAuthn
          else if k8sIs Forbidden e then ErrorClassAuthz
          else if k8sIs ServerTimeout e \<or> k8sIs RequestTimeout e \<or> k8sIs ServiceUnavailable e
          then ErrorClassUnavailable
          else if k8sIs AlreadyExists e then ErrorClassCollision
          else if k8sIs Conflict e then ErrorClassDrift
          else if k8sIs Invalid e \<or> k8sIs BadRequest e \<or> k8sIs NotFound e then ErrorClassValidation
          else if k8sIs RequestEntityTooLarge e then ErrorClassCapacity
          else ErrorClassInternal)"

definition k8sFailed :: "string \<Rightarrow> providerError" where
  "k8sFailed errorClass = requestFailed k8sProviderType errorClass"

section \<open>The client\<close>

record deleteOptions =
  do_UID :: "string option"
  do_ResourceVersion :: "string option"

definition deleteOptionsForSecret :: "k8sSecret \<Rightarrow> deleteOptions" where
  "deleteOptionsForSecret secret =
     \<lparr> do_UID = (if ks_UID secret \<noteq> [] then Some (ks_UID secret) else None),
       do_ResourceVersion = (if ks_ResourceVersion secret \<noteq> [] then Some (ks_ResourceVersion secret) else None) \<rparr>"

record 's k8sClient =
  kc_Get :: "string \<Rightarrow> string \<Rightarrow> 's \<Rightarrow> (k8sError + k8sSecret) \<times> 's"
  kc_Create :: "string \<Rightarrow> k8sSecret \<Rightarrow> 's \<Rightarrow> (k8sError + k8sSecret) \<times> 's"
  kc_Update :: "string \<Rightarrow> k8sSecret \<Rightarrow> 's \<Rightarrow> (k8sError + k8sSecret) \<times> 's"
  kc_Delete :: "string \<Rightarrow> string \<Rightarrow> deleteOptions \<Rightarrow> 's \<Rightarrow> (k8sError + unit) \<times> 's"

text \<open>The answer of a write: the resource version the cluster gave it.\<close>

fun k8sWritten :: "(k8sError + k8sSecret) \<times> 's \<Rightarrow> (providerError + syncResult) \<times> 's" where
  "k8sWritten (Inl e, s) = (Inl (k8sFailed (classifyKubernetesError e)), s)"
| "k8sWritten (Inr secret, s) = (Inr \<lparr> sr_RemoteVersion = ks_ResourceVersion secret \<rparr>, s)"

section \<open>Health and plan\<close>

definition k8sHealth :: "'s k8sClient \<Rightarrow> k8sDestinationOptions \<Rightarrow> 's \<Rightarrow> healthResult \<times> 's" where
  "k8sHealth C options s =
     (case kc_Get C (kd_namespace options) healthCheckSecretName s of
        (Inl e, s) \<Rightarrow>
          (if \<not> k8sIs NotFound e
           then \<lparr> hr_Healthy = False, hr_Message = ''k8s health check failed'', hr_ErrorClass = classifyKubernetesError e \<rparr>
           else \<lparr> hr_Healthy = True, hr_Message = [], hr_ErrorClass = [] \<rparr>, s)
      | (Inr _, s) \<Rightarrow> (\<lparr> hr_Healthy = True, hr_Message = [], hr_ErrorClass = [] \<rparr>, s))"

text \<open>What a plan does with a secret that exists.\<close>

definition k8sPlanMatching :: "(string \<Rightarrow> string) \<Rightarrow> planRequest \<Rightarrow> k8sSecret \<Rightarrow> planResult" where
  "k8sPlanMatching sha req secret =
     (let payloadMatches = k8sPayloadMatchesRequest sha secret (pq_DataMap req) (pq_PayloadSHA256 req)
      in if payloadMatches \<and> managedMetadataMatches secret (pq_SourceVersion req) (pq_PayloadSHA256 req)
              (pq_Format req) (pq_DataMap req) (pq_DataMapKeys req)
         then actionPlan PlanActionNoop
         else if \<not> payloadMatches \<and> isImmutable secret
         then \<lparr> pr_Action = PlanActionBlocked, pr_Message = ''k8s secret is immutable'',
                pr_ErrorClass = ErrorClassValidation \<rparr>
         else actionPlan PlanActionUpdate)"

definition k8sPlanExisting :: "(string \<Rightarrow> string) \<Rightarrow> planRequest \<Rightarrow> k8sSecret \<Rightarrow> planResult" where
  "k8sPlanExisting sha req secret =
     (if \<not> k8sOwnedByRequest secret (planIdentity req)
      then \<lparr> pr_Action = PlanActionConflict, pr_Message = ''k8s secret exists but is not owned by this association'',
             pr_ErrorClass = ErrorClassCollision \<rparr>
      else if k8sRemoteSourceVersionNewer (ks_Annotations secret) (pq_SourceVersion req)
      then \<lparr> pr_Action = PlanActionBlocked, pr_Message = ''k8s secret has newer managed source version'',
             pr_ErrorClass = ErrorClassDrift \<rparr>
      else if pq_DataMap req
      then (case managedDataKeysForMutation secret of
              None \<Rightarrow> \<lparr> pr_Action = PlanActionBlocked, pr_Message = ''k8s data key metadata is invalid'',
                        pr_ErrorClass = ErrorClassDrift \<rparr>
            | Some managedKeys \<Rightarrow>
                if unmanagedDataKeyConflicts secret managedKeys (pq_DataMapKeys req) \<noteq> []
                then \<lparr> pr_Action = PlanActionConflict,
                       pr_Message = ''k8s data key exists but is not owned by this association'',
                       pr_ErrorClass = ErrorClassOwnership \<rparr>
                else k8sPlanMatching sha req secret)
      else k8sPlanMatching sha req secret)"

definition k8sPlan ::
    "k8sLibrary \<Rightarrow> (string \<Rightarrow> string) \<Rightarrow> 's k8sClient \<Rightarrow> k8sDestinationOptions \<Rightarrow> planRequest \<Rightarrow> 's \<Rightarrow>
     planResult \<times> 's" where
  "k8sPlan L sha C options req s =
     (case validateSecretName L (pq_ResolvedName req) of
        Inl e \<Rightarrow> (providerBlockedPlan k8sProviderType ErrorClassValidation, s)
      | Inr _ \<Rightarrow>
          (case validateDataMapKeys L (pq_DataMapKeys req) of
             Inl e \<Rightarrow> (\<lparr> pr_Action = PlanActionBlocked, pr_Message = providerErrorText e,
                          pr_ErrorClass = ErrorClassValidation \<rparr>, s)
           | Inr _ \<Rightarrow>
               (case kc_Get C (kd_namespace options) (pq_ResolvedName req) s of
                  (Inl e, s) \<Rightarrow>
                    (if k8sIs NotFound e then actionPlan PlanActionCreate
                     else providerBlockedPlan k8sProviderType (classifyKubernetesError e), s)
                | (Inr secret, s) \<Rightarrow> (k8sPlanExisting sha req secret, s))))"

section \<open>Upsert\<close>

definition k8sCreateSecret ::
    "'s k8sClient \<Rightarrow> string \<Rightarrow> upsertRequest \<Rightarrow> 's \<Rightarrow> (providerError + syncResult) \<times> 's" where
  "k8sCreateSecret C namespace req s =
     k8sWritten (kc_Create C namespace
       (applyOwnershipMetadata (upsertIdentity req) (ur_SourceVersion req) (ur_PayloadSHA256 req) (ur_Format req)
         (newSecret namespace (ur_ResolvedName req) [(dataKeyPayload, ur_Payload req)])) s)"

definition createDataMapSecret ::
    "'s k8sClient \<Rightarrow> string \<Rightarrow> upsertRequest \<Rightarrow> 's \<Rightarrow> (providerError + syncResult) \<times> 's" where
  "createDataMapSecret C namespace req s =
     k8sWritten (kc_Create C namespace
       (applyDataMapMetadata (k8sDataMapKeys (ur_DataMap req))
         (applyOwnershipMetadata (upsertIdentity req) (ur_SourceVersion req) (ur_PayloadSHA256 req) (ur_Format req)
           (newSecret namespace (ur_ResolvedName req) (copyDataMap (ur_DataMap req))))) s)"

text \<open>The secret that an upsert of the data map makes of an existing one, or the class of its refusal.\<close>

definition dataMapUpdate :: "upsertRequest \<Rightarrow> k8sSecret \<Rightarrow> string + k8sSecret" where
  "dataMapUpdate req secret =
     (case managedDataKeysForMutation secret of
        None \<Rightarrow> Inl ErrorClassDrift
      | Some managedKeys \<Rightarrow>
          if unmanagedDataKeyConflicts secret managedKeys (k8sDataMapKeys (ur_DataMap req)) \<noteq> []
          then Inl ErrorClassOwnership
          else Inr (applyDataMapMetadata (k8sDataMapKeys (ur_DataMap req))
                 (applyOwnershipMetadata (upsertIdentity req) (ur_SourceVersion req) (ur_PayloadSHA256 req)
                   (ur_Format req)
                   (secret \<lparr> ks_Type := SecretTypeOpaque,
                      ks_Data := mergedDataMap (ks_Data secret) managedKeys (ur_DataMap req) \<rparr>))))"

definition upsertDataMap ::
    "k8sLibrary \<Rightarrow> (string \<Rightarrow> string) \<Rightarrow> 's k8sClient \<Rightarrow> k8sDestinationOptions \<Rightarrow> upsertRequest \<Rightarrow> 's \<Rightarrow>
     (providerError + syncResult) \<times> 's" where
  "upsertDataMap L sha C options req s =
     (case validateDataMap L (ur_DataMap req) of
        Inl e \<Rightarrow> (Inl e, s)
      | Inr _ \<Rightarrow>
          (case kc_Get C (kd_namespace options) (ur_ResolvedName req) s of
             (Inl e, s) \<Rightarrow>
               if k8sIs NotFound e then createDataMapSecret C (kd_namespace options) req s
               else (Inl (k8sFailed (classifyKubernetesError e)), s)
           | (Inr secret, s) \<Rightarrow>
               if \<not> k8sOwnedByRequest secret (upsertIdentity req) then (Inl (k8sFailed ErrorClassOwnership), s)
               else if k8sRemoteSourceVersionNewer (ks_Annotations secret) (ur_SourceVersion req)
               then (Inl (k8sFailed ErrorClassDrift), s)
               else (let desiredKeys = k8sDataMapKeys (ur_DataMap req);
                         payloadMatches = k8sPayloadMatchesRequest sha secret True (ur_PayloadSHA256 req)
                     in if payloadMatches \<and> managedMetadataMatches secret (ur_SourceVersion req)
                             (ur_PayloadSHA256 req) (ur_Format req) True desiredKeys
                        then (Inr \<lparr> sr_RemoteVersion = ks_ResourceVersion secret \<rparr>, s)
                        else if \<not> payloadMatches \<and> isImmutable secret
                        then (Inl (k8sFailed ErrorClassValidation), s)
                        else (case dataMapUpdate req secret of
                                Inl errorClass \<Rightarrow> (Inl (k8sFailed errorClass), s)
                              | Inr updated \<Rightarrow> k8sWritten (kc_Update C (kd_namespace options) updated s)))))"

text \<open>The secret that an upsert of the whole payload makes of an existing one.\<close>

definition payloadUpdate :: "upsertRequest \<Rightarrow> bool \<Rightarrow> k8sSecret \<Rightarrow> k8sSecret" where
  "payloadUpdate req payloadMatches secret =
     removeDataMapMetadata
       (applyOwnershipMetadata (upsertIdentity req) (ur_SourceVersion req) (ur_PayloadSHA256 req) (ur_Format req)
         (if payloadMatches then secret
          else secret \<lparr> ks_Type := SecretTypeOpaque, ks_Data := [(dataKeyPayload, ur_Payload req)] \<rparr>))"

definition k8sUpsert ::
    "k8sLibrary \<Rightarrow> (string \<Rightarrow> string) \<Rightarrow> 's k8sClient \<Rightarrow> k8sDestinationOptions \<Rightarrow> upsertRequest \<Rightarrow> 's \<Rightarrow>
     (providerError + syncResult) \<times> 's" where
  "k8sUpsert L sha C options req s =
     (case validateSecretName L (ur_ResolvedName req) of
        Inl e \<Rightarrow> (Inl e, s)
      | Inr _ \<Rightarrow>
          if secretMaxBytes < int (length (ur_Payload req)) then (Inl (k8sFailed ErrorClassCapacity), s)
          else if ur_DataMap req \<noteq> [] then upsertDataMap L sha C options req s
          else (case kc_Get C (kd_namespace options) (ur_ResolvedName req) s of
                  (Inl e, s) \<Rightarrow>
                    if k8sIs NotFound e then k8sCreateSecret C (kd_namespace options) req s
                    else (Inl (k8sFailed (classifyKubernetesError e)), s)
                | (Inr secret, s) \<Rightarrow>
                    if \<not> k8sOwnedByRequest secret (upsertIdentity req)
                    then (Inl (k8sFailed ErrorClassOwnership), s)
                    else if k8sRemoteSourceVersionNewer (ks_Annotations secret) (ur_SourceVersion req)
                    then (Inl (k8sFailed ErrorClassDrift), s)
                    else (let payloadMatches = k8sPayloadMatchesRequest sha secret False (ur_PayloadSHA256 req)
                          in if payloadMatches \<and> managedMetadataMatches secret (ur_SourceVersion req)
                                  (ur_PayloadSHA256 req) (ur_Format req) False []
                             then (Inr \<lparr> sr_RemoteVersion = ks_ResourceVersion secret \<rparr>, s)
                             else if \<not> payloadMatches \<and> isImmutable secret
                             then (Inl (k8sFailed ErrorClassValidation), s)
                             else k8sWritten (kc_Update C (kd_namespace options)
                                    (payloadUpdate req payloadMatches secret) s))))"

section \<open>Delete and state\<close>

definition k8sDeleteOwned ::
    "'s k8sClient \<Rightarrow> k8sDestinationOptions \<Rightarrow> k8sSecret \<Rightarrow> deleteRequest \<Rightarrow> 's \<Rightarrow>
     (providerError + syncResult) \<times> 's" where
  "k8sDeleteOwned C options secret req s =
     (case kc_Delete C (kd_namespace options) (dr_ResolvedName req) (deleteOptionsForSecret secret) s of
        (Inl e, s) \<Rightarrow> (Inl (k8sFailed (classifyKubernetesError e)), s)
      | (Inr _, s) \<Rightarrow> (Inr \<lparr> sr_RemoteVersion = ks_ResourceVersion secret \<rparr>, s))"

definition deleteDataMap ::
    "'s k8sClient \<Rightarrow> k8sDestinationOptions \<Rightarrow> k8sSecret \<Rightarrow> deleteRequest \<Rightarrow> 's \<Rightarrow>
     (providerError + syncResult) \<times> 's" where
  "deleteDataMap C options secret req s =
     (case managedDataKeysForMutation secret of
        None \<Rightarrow> (Inl (k8sFailed ErrorClassDrift), s)
      | Some managedKeys \<Rightarrow>
          (let updatedData = mergedDataMap (ks_Data secret) managedKeys []
           in if updatedData = [] then k8sDeleteOwned C options secret req s
              else k8sWritten (kc_Update C (kd_namespace options)
                     (removeOwnershipMetadata (secret \<lparr> ks_Data := updatedData \<rparr>)) s)))"

definition k8sDelete ::
    "k8sLibrary \<Rightarrow> 's k8sClient \<Rightarrow> k8sDestinationOptions \<Rightarrow> deleteRequest \<Rightarrow> 's \<Rightarrow>
     (providerError + syncResult) \<times> 's" where
  "k8sDelete L C options req s =
     (case validateSecretName L (dr_ResolvedName req) of
        Inl e \<Rightarrow> (Inl e, s)
      | Inr _ \<Rightarrow>
          (case kc_Get C (kd_namespace options) (dr_ResolvedName req) s of
             (Inl e, s) \<Rightarrow>
               if k8sIs NotFound e then (Inr \<lparr> sr_RemoteVersion = ''missing'' \<rparr>, s)
               else (Inl (k8sFailed (classifyKubernetesError e)), s)
           | (Inr secret, s) \<Rightarrow>
               if \<not> k8sOwnedByRequest secret (deleteIdentity req) then (Inl (k8sFailed ErrorClassOwnership), s)
               else if k8sRemoteSourceVersionNewer (ks_Annotations secret) (dr_SourceVersion req)
               then (Inl (k8sFailed ErrorClassDrift), s)
               else if dr_DataMap req then deleteDataMap C options secret req s
               else k8sDeleteOwned C options secret req s))"

definition k8sReadState ::
    "k8sLibrary \<Rightarrow> (string \<Rightarrow> string) \<Rightarrow> 's k8sClient \<Rightarrow> k8sDestinationOptions \<Rightarrow> readStateRequest \<Rightarrow> 's \<Rightarrow>
     (providerError + remoteState) \<times> 's" where
  "k8sReadState L sha C options req s =
     (case validateSecretName L (rr_ResolvedName req) of
        Inl e \<Rightarrow> (Inl e, s)
      | Inr _ \<Rightarrow>
          (case kc_Get C (kd_namespace options) (rr_ResolvedName req) s of
             (Inl e, s) \<Rightarrow>
               if k8sIs NotFound e then (Inr zeroRemoteState, s)
               else (Inl (k8sFailed (classifyKubernetesError e)), s)
           | (Inr secret, s) \<Rightarrow>
               (Inr \<lparr> rs_Exists = True, rs_OwnershipKnown = identityComplete (readStateIdentity req),
                  rs_Owned = k8sOwnedByRequest secret (readStateIdentity req),
                  rs_PayloadSHA256 = payloadSHA256ForMode sha secret (rr_DataMap req),
                  rs_SourceVersion = atoiValue (annotationValue (ks_Annotations secret) annotationSourceVersion),
                  rs_RemoteVersion = ks_ResourceVersion secret,
                  rs_Verification = RemoteStateVerificationValue \<rparr>, s)))"

end
