(* ===== verification/Kubernetes_Laws.thy ===== *)
theory Kubernetes_Laws
  imports Kubernetes_Provider Provider_Requests
begin

text \<open>
  Facts about the metadata and the data of a secret, and what the provider relies on of a cluster: a store of
  secrets by namespace and name, in which a failed write may or may not have taken effect.
\<close>

section \<open>Metadata\<close>

lemma mapGet_update [simp]: "mapGet (AList.update k v m) k' = (if k' = k then v else mapGet m k')"
  by (simp add: mapGet_def update_conv')

lemma mapGet_updateNonempty [simp]:
  "mapGet (updateNonempty k v m) k' = (if k' = k \<and> v \<noteq> [] then v else mapGet m k')"
  by (simp add: updateNonempty_def)

lemma mapGet_delete_other: "k' \<noteq> k \<Longrightarrow> mapGet (AList.delete k m) k' = mapGet m k'"
  by (simp add: mapGet_def delete_conv')

lemma annotation_keys_distinct: "distinct ownershipKeys"
  by (simp add: ownershipKeys_def k8s_annotations)

lemma annotation_keys [simp]:
  "annotationDataKeys \<noteq> annotationFormat" "annotationDataKeys \<noteq> annotationPayloadSHA256"
  "annotationDataKeys \<noteq> annotationSourceVersion" "annotationDataKeys \<noteq> annotationSourcePath"
  "annotationDataKeys \<noteq> annotationObjectID" "annotationDataKeys \<noteq> annotationAssociationID"
  "annotationDataKeys \<noteq> annotationMountUUID" "annotationDataKeys \<noteq> annotationRestoreEpoch"
  "annotationFormat \<noteq> annotationDataKeys" "annotationPayloadSHA256 \<noteq> annotationDataKeys"
  "annotationSourceVersion \<noteq> annotationDataKeys" "annotationSourcePath \<noteq> annotationDataKeys"
  "annotationObjectID \<noteq> annotationDataKeys" "annotationAssociationID \<noteq> annotationDataKeys"
  "annotationMountUUID \<noteq> annotationDataKeys" "annotationRestoreEpoch \<noteq> annotationDataKeys"
  by (simp_all add: k8s_annotations)

text \<open>The annotations written for a request say whose the secret is, and of which version.\<close>

definition marked :: "requestIdentity \<Rightarrow> int \<Rightarrow> k8sSecret \<Rightarrow> bool" where
  "marked identity version secret \<longleftrightarrow> k8sOwnedByRequest secret identity \<and>
     annotationValue (ks_Annotations secret) annotationSourceVersion = itoa version"

lemma marked_ownership:
  assumes "identityComplete identity"
  shows "marked identity version (applyOwnershipMetadata identity version hash format secret)"
  using assms
  by (simp add: marked_def k8sOwnedByRequest_def applyOwnershipMetadata_def ownershipAnnotations_def
      requiredAnnotationMatches_def runtimeAnnotationMatches_def annotationValue_def identityComplete_def
      k8s_annotations)

lemma marked_cong:
  assumes "ks_Labels secret' = ks_Labels secret"
    and "\<And>k. k \<noteq> annotationDataKeys \<Longrightarrow> mapGet (ks_Annotations secret') k = mapGet (ks_Annotations secret) k"
  shows "marked identity version secret' = marked identity version secret"
  using assms
  by (simp add: marked_def k8sOwnedByRequest_def requiredAnnotationMatches_def runtimeAnnotationMatches_def
      annotationValue_def)

lemma marked_dataMap [simp]:
  "marked identity version (applyDataMapMetadata keys secret) = marked identity version secret"
  "marked identity version (removeDataMapMetadata secret) = marked identity version secret"
  by (rule marked_cong, simp_all add: applyDataMapMetadata_def removeDataMapMetadata_def mapGet_delete_other)+

lemma metadata_data [simp]:
  "ks_Data (applyOwnershipMetadata i v h f secret) = ks_Data secret"
  "ks_Data (applyDataMapMetadata keys secret) = ks_Data secret"
  "ks_Data (removeDataMapMetadata secret) = ks_Data secret"
  "ks_Data (removeOwnershipMetadata secret) = ks_Data secret"
  "ks_Name (applyOwnershipMetadata i v h f secret) = ks_Name secret"
  "ks_Name (applyDataMapMetadata keys secret) = ks_Name secret"
  "ks_Name (removeDataMapMetadata secret) = ks_Name secret"
  "ks_Name (removeOwnershipMetadata secret) = ks_Name secret"
  by (simp_all add: applyOwnershipMetadata_def applyDataMapMetadata_def removeDataMapMetadata_def
      removeOwnershipMetadata_def)

section \<open>Data\<close>

lemma k8sPayloadSHA256_cong:
  "ks_Data a = ks_Data b \<Longrightarrow> k8sPayloadSHA256 sha a = k8sPayloadSHA256 sha b"
  by (simp add: k8sPayloadSHA256_def split: option.splits)

lemma map_of_foldl_update:
  "map_of (foldl (\<lambda>m (key, v). AList.update key v m) m kvs) = map_of m ++ map_of (rev kvs)"
proof (induction kvs arbitrary: m)
  case (Cons kv kvs)
  obtain k v where kv: "kv = (k, v)" by (cases kv)
  show ?case
    by (simp add: Cons kv update_conv' fun_eq_iff map_add_def split: option.splits)
qed simp

lemma map_of_foldl_delete:
  "map_of (foldl (\<lambda>m key. AList.delete key m) m keys) = (map_of m) |` (- set keys)"
proof (induction keys arbitrary: m)
  case (Cons k keys)
  then show ?case
    by (simp add: delete_conv' fun_eq_iff restrict_map_def)
qed (simp add: restrict_map_def)

lemma map_of_rev_distinct: "distinct (map fst kvs) \<Longrightarrow> map_of (rev kvs) = map_of kvs"
  by (rule map_of_inject_set [THEN iffD2]) (simp_all add: rev_map [symmetric])

lemma map_of_merged:
  assumes "distinct (map fst desired)"
  shows "map_of (mergedDataMap existing managedKeys desired) =
    (map_of existing) |` (- set managedKeys) ++ map_of desired"
  using assms
  by (simp add: mergedDataMap_def copyDataMap_def map_of_foldl_update map_of_foldl_delete map_of_rev_distinct)

lemma no_conflicts:
  assumes "unmanagedDataKeyConflicts secret managedKeys (k8sDataMapKeys desired) = []"
    and "map_of desired k = Some v" and "map_of (ks_Data secret) k = Some v'"
  shows "k \<in> set managedKeys"
proof -
  have "k \<in> set (k8sDataMapKeys desired)"
    using assms(2) by (force simp: k8sDataMapKeys_def dest: map_of_SomeD)
  then show ?thesis
    using assms by (auto simp: unmanagedDataKeyConflicts_def filter_empty_conv)
qed

text \<open>The hash of a data map does not depend on the order of its entries.\<close>

lemma dataMapHash_perm:
  assumes "mset data = mset data'" and "distinct (map fst data)"
  shows "dataMapHash sha data = dataMapHash sha data'"
proof -
  let ?f = "\<lambda>(k, v). (k, JBytes v)" and ?g = "\<lambda>(k, v). (k, encodeJSON (\<lambda>_ _. []) v)"
  have keys: "map fst (map ?g (map ?f d)) = map fst d" for d :: "(string \<times> string) list"
    by (induction d) auto
  have "mset (map ?g (map ?f data)) = mset (map ?g (map ?f data'))"
    using assms(1) by simp
  moreover have "distinct (map fst (map ?g (map ?f data)))"
    using assms(2) by (simp only: keys)
  ultimately have "sort_key fst (map ?g (map ?f data)) = sort_key fst (map ?g (map ?f data'))"
    by (rule sort_key_mset_cong)
  then have "encodeObject (map ?g (map ?f data)) = encodeObject (map ?g (map ?f data'))"
    by (simp only: encodeObject_def)
  moreover have "data = [] \<longleftrightarrow> data' = []"
    using assms(1) by (metis mset_zero_iff)
  ultimately show ?thesis
    by (auto simp: dataMapHash_def BuildDataMap_def canonicalJSON_encode bindE_def split: sum.splits)
qed

lemma sort_sort [simp]: "sort (sort xs) = sort (xs :: string list)"
  by (rule sorted_sort_id [OF sorted_sort])

lemma selectData_all:
  assumes "distinct (map fst data)"
    and "\<And>k. k \<in> set (map fst data) \<Longrightarrow> map_of store k = map_of data k"
  shows "mset (selectData store (sort (map fst data))) = mset data"
proof -
  let ?ks = "sort (map fst data)"
  have lookup: "map_of store k = Some (the (map_of data k))" if "k \<in> set ?ks" for k
  proof -
    have "map_of data k \<noteq> None"
      using that by (simp add: map_of_eq_None_iff)
    then show ?thesis using that assms(2) [of k] by auto
  qed
  have "List.map_filter (\<lambda>key. map_option (Pair key) (map_of store key)) ks = map (\<lambda>k. (k, the (map_of data k))) ks"
    if "set ks \<subseteq> set ?ks" for ks
    using that by (induction ks) (simp_all add: map_filter_simps lookup)
  then have "selectData store ?ks = map (\<lambda>k. (k, the (map_of data k))) ?ks"
    using assms(1) by (simp add: selectData_def remdups_id_iff_distinct [THEN iffD2] distinct_sort)
  moreover have "map (\<lambda>k. (k, the (map_of data k))) (map fst data) = data"
    using assms(1) by (auto simp: comp_def intro!: map_idI)
  then have "image_mset (\<lambda>k. (k, the (map_of data k))) (mset (map fst data)) = mset data"
    by (metis mset_map)
  ultimately show ?thesis by (simp del: mset_map add: mset_map [of _ ?ks])
qed

text \<open>A secret that carries a data map: its data has the entries, and its annotation names the keys.\<close>

definition carries :: "(string \<times> string) list \<Rightarrow> k8sSecret \<Rightarrow> bool" where
  "carries data secret \<longleftrightarrow> (\<forall>k \<in> set (map fst data). map_of (ks_Data secret) k = map_of data k) \<and>
     annotationValue (ks_Annotations secret) annotationDataKeys = marshalStrings (k8sDataMapKeys data)"

lemma carries_hash:
  assumes "carries data secret" and "distinct (map fst data)" and "data \<noteq> []"
    and plain: "list_all (list_all plainChar) (map fst data)"
  shows "dataMapPayloadSHA256 sha secret = dataMapHash sha data"
proof -
  have nonempty: "marshalStrings (k8sDataMapKeys data) \<noteq> []"
    by (simp add: marshalStrings_def)
  have "list_all (list_all plainChar) (k8sDataMapKeys data)"
    using plain by (simp add: k8sDataMapKeys_def list_all_iff)
  then have keys: "managedDataKeys secret = Some (sort (map fst data))"
    using assms(1) nonempty unmarshal_marshal [of "k8sDataMapKeys data"]
    by (simp add: managedDataKeys_def carries_def k8sDataMapKeys_def)
  have sel: "mset (selectData (ks_Data secret) (sort (map fst data))) = mset data"
    using assms(1,2) by (intro selectData_all) (auto simp: carries_def)
  then have "selectData (ks_Data secret) (sort (map fst data)) \<noteq> []"
    using assms(3) by (metis mset_zero_iff)
  moreover have "sort (map fst data) \<noteq> []"
    using assms(3) by (metis mset.simps(1) mset_sort mset_zero_iff map_is_Nil_conv)
  moreover have "dataMapHash sha (selectData (ks_Data secret) (sort (map fst data))) = dataMapHash sha data"
    using dataMapHash_perm [OF sel [symmetric] assms(2)] by simp
  ultimately show ?thesis
    by (simp add: dataMapPayloadSHA256_def keys Let_def)
qed

end
