(* ===== verification/Kubernetes_Server.thy ===== *)
theory Kubernetes_Server
  imports Kubernetes_Laws
begin

text \<open>
  What the Kubernetes provider relies on of a cluster, as the laws of its client: secrets are found by
  namespace and name, a write stores what it is given under a resource version of the cluster's choice, and a
  failed write has taken effect or not. A cluster in memory that checks versions satisfies them.
\<close>

text \<open>A stored secret shows what was written; version, UID and namespace are the cluster's.\<close>

definition stores :: "k8sSecret \<Rightarrow> k8sSecret \<Rightarrow> bool" where
  "stores v secret \<longleftrightarrow> ks_Labels v = ks_Labels secret \<and> ks_Annotations v = ks_Annotations secret \<and>
     ks_Data v = ks_Data secret"

definition writes ::
    "string \<times> string \<Rightarrow> k8sSecret \<Rightarrow> (string \<times> string \<Rightarrow> k8sSecret option) \<Rightarrow>
     (string \<times> string \<Rightarrow> k8sSecret option) \<Rightarrow> bool" where
  "writes at secret m m' \<longleftrightarrow> (\<exists>v. stores v secret \<and> m' = m(at \<mapsto> v))"

locale secret_store =
  fixes C :: "'s k8sClient"
    and secrets :: "'s \<Rightarrow> string \<times> string \<Rightarrow> k8sSecret option"
  assumes named: "secrets s (ns, n) = Some v \<Longrightarrow> ks_Name v = n"
    and get_same: "kc_Get C ns n s = (r, s') \<Longrightarrow> secrets s' = secrets s"
    and get_found: "kc_Get C ns n s = (Inr v, s') \<Longrightarrow> secrets s (ns, n) = Some v"
    and get_missing: "kc_Get C ns n s = (Inl e, s') \<Longrightarrow> k8sIs NotFound e \<Longrightarrow> secrets s (ns, n) = None"
    and create_effect: "kc_Create C ns v s = (Inl e, s') \<Longrightarrow>
      secrets s' = secrets s \<or> secrets s (ns, ks_Name v) = None \<and> writes (ns, ks_Name v) v (secrets s) (secrets s')"
    and create_done: "kc_Create C ns v s = (Inr w, s') \<Longrightarrow>
      secrets s (ns, ks_Name v) = None \<and> writes (ns, ks_Name v) v (secrets s) (secrets s')"
    and update_effect: "kc_Update C ns v s = (Inl e, s') \<Longrightarrow>
      secrets s' = secrets s \<or> writes (ns, ks_Name v) v (secrets s) (secrets s')"
    and update_done: "kc_Update C ns v s = (Inr w, s') \<Longrightarrow> writes (ns, ks_Name v) v (secrets s) (secrets s')"
    and delete_effect: "kc_Delete C ns n opts s = (d, s') \<Longrightarrow>
      secrets s' = secrets s \<or> secrets s' = (secrets s)((ns, n) := None)"
begin

text \<open>What a write can leave, whether it succeeds or fails.\<close>

lemma written_effect:
  assumes "k8sWritten (kc_Update C ns v s) = (r, s')"
  shows "secrets s' = secrets s \<or> writes (ns, ks_Name v) v (secrets s) (secrets s')"
    and "r = Inr result \<Longrightarrow> writes (ns, ks_Name v) v (secrets s) (secrets s')"
proof -
  obtain q t where u: "kc_Update C ns v s = (q, t)" by (cases "kc_Update C ns v s")
  show "secrets s' = secrets s \<or> writes (ns, ks_Name v) v (secrets s) (secrets s')"
    using assms u update_effect update_done by (cases q) auto
  show "r = Inr result \<Longrightarrow> writes (ns, ks_Name v) v (secrets s) (secrets s')"
    using assms u update_done by (cases q) auto
qed

lemma created_effect:
  assumes "k8sWritten (kc_Create C ns v s) = (r, s')"
  shows "secrets s' = secrets s \<or> secrets s (ns, ks_Name v) = None \<and> writes (ns, ks_Name v) v (secrets s) (secrets s')"
    and "r = Inr result \<Longrightarrow> writes (ns, ks_Name v) v (secrets s) (secrets s')"
proof -
  obtain q t where u: "kc_Create C ns v s = (q, t)" by (cases "kc_Create C ns v s")
  show "secrets s' = secrets s \<or> secrets s (ns, ks_Name v) = None \<and> writes (ns, ks_Name v) v (secrets s) (secrets s')"
    using assms u create_effect create_done by (cases q) auto
  show "r = Inr result \<Longrightarrow> writes (ns, ks_Name v) v (secrets s) (secrets s')"
    using assms u create_done by (cases q) auto
qed

text \<open>
  The outcomes of a data-map upsert: it changed nothing, created the secret, or wrote \<open>dataMapUpdate\<close> of the
  secret that was there.
\<close>

lemma upsertDataMap_cases:
  assumes up: "upsertDataMap L sha C options req s = (r, s')"
  obtains (same) "secrets s' = secrets s" "r = Inr result \<Longrightarrow> \<exists>v. secrets s (kd_namespace options, ur_ResolvedName req) = Some v \<and>
      k8sOwnedByRequest v (upsertIdentity req) \<and>
      payloadSHA256ForMode sha v True = ur_PayloadSHA256 req \<and>
      annotationValue (ks_Annotations v) annotationSourceVersion = itoa (ur_SourceVersion req)"
  | (created) v where "secrets s (kd_namespace options, ur_ResolvedName req) = None"
      "writes (kd_namespace options, ur_ResolvedName req) v (secrets s) (secrets s')"
      "v = applyDataMapMetadata (k8sDataMapKeys (ur_DataMap req))
         (applyOwnershipMetadata (upsertIdentity req) (ur_SourceVersion req) (ur_PayloadSHA256 req) (ur_Format req)
           (newSecret (kd_namespace options) (ur_ResolvedName req) (ur_DataMap req)))"
  | (updated) old v where "secrets s (kd_namespace options, ur_ResolvedName req) = Some old"
      "dataMapUpdate req old = Inr v"
      "writes (kd_namespace options, ur_ResolvedName req) v (secrets s) (secrets s')"
proof -
  let ?ns = "kd_namespace options" and ?n = "ur_ResolvedName req"
  show thesis
  proof (cases "validateDataMap L (ur_DataMap req)")
    case (Inl e)
    then show thesis using up by (intro same) (simp_all add: upsertDataMap_def)
  next
    case (Inr u)
    obtain g t where g: "kc_Get C ?ns ?n s = (g, t)" by (cases "kc_Get C ?ns ?n s")
    have t: "secrets t = secrets s" using get_same [OF g] .
    show thesis
    proof (cases g)
      case (Inl e)
      show thesis
      proof (cases "k8sIs NotFound e")
        case False
        then show thesis using up g Inl Inr t by (intro same) (simp_all add: upsertDataMap_def)
      next
        case True
        then have none: "secrets s (?ns, ?n) = None"
          using get_missing g Inl by blast
        let ?v = "applyDataMapMetadata (k8sDataMapKeys (ur_DataMap req))
           (applyOwnershipMetadata (upsertIdentity req) (ur_SourceVersion req) (ur_PayloadSHA256 req) (ur_Format req)
             (newSecret ?ns ?n (ur_DataMap req)))"
        have w: "k8sWritten (kc_Create C ?ns ?v t) = (r, s')"
          using up g Inl Inr True by (simp add: upsertDataMap_def createDataMapSecret_def copyDataMap_def)
        have name: "ks_Name ?v = ?n" by (simp add: newSecret_def)
        consider "secrets s' = secrets s" "\<And>x. r \<noteq> Inr x" | "writes (?ns, ?n) ?v (secrets s) (secrets s')"
          using created_effect [OF w] unfolding t name by blast
        then show thesis
          using same created none by cases blast+
      qed
    next
      case old: (Inr old)
      have some: "secrets s (?ns, ?n) = Some old" using get_found g old by blast
      show thesis
      proof (cases "\<exists>v. dataMapUpdate req old = Inr v \<and> k8sWritten (kc_Update C ?ns v t) = (r, s')")
        case True
        then obtain v where v: "dataMapUpdate req old = Inr v" and w: "k8sWritten (kc_Update C ?ns v t) = (r, s')"
          by blast
        have "ks_Name v = ks_Name old"
          using v by (auto simp: dataMapUpdate_def split: option.splits if_splits)
        then have name: "ks_Name v = ?n" using named [OF some] by simp
        consider "secrets s' = secrets s" "\<And>x. r \<noteq> Inr x" | "writes (?ns, ?n) v (secrets s) (secrets s')"
          using written_effect [OF w] unfolding t name by blast
        then show thesis
          using same updated some v by cases blast+
      next
        case False
        then have "s' = t \<and> (\<forall>x. r = Inr x \<longrightarrow> k8sOwnedByRequest old (upsertIdentity req) \<and>
            payloadSHA256ForMode sha old True = ur_PayloadSHA256 req \<and>
            annotationValue (ks_Annotations old) annotationSourceVersion = itoa (ur_SourceVersion req))"
          using up g old Inr
          by (auto simp: upsertDataMap_def Let_def k8sPayloadMatchesRequest_def managedMetadataMatches_def
              split: if_splits sum.splits)
        then show thesis using same some t by blast
      qed
    qed
  qed
qed

text \<open>The outcomes of an upsert of the whole payload.\<close>

lemma upsertPayload_cases:
  assumes up: "k8sUpsert L sha C options req s = (Inr result, s')" and raw: "ur_DataMap req = []"
  obtains (same) v where "secrets s' (kd_namespace options, ur_ResolvedName req) = Some v"
      "k8sOwnedByRequest v (upsertIdentity req)" "k8sPayloadSHA256 sha v = ur_PayloadSHA256 req"
      "annotationValue (ks_Annotations v) annotationSourceVersion = itoa (ur_SourceVersion req)"
  | (written) v w where "secrets s' (kd_namespace options, ur_ResolvedName req) = Some w" "stores w v"
      "marked (upsertIdentity req) (ur_SourceVersion req) v \<or> \<not> identityComplete (upsertIdentity req)"
      "ks_Data v = [(dataKeyPayload, ur_Payload req)] \<or> k8sPayloadSHA256 sha v = ur_PayloadSHA256 req"
proof -
  let ?ns = "kd_namespace options" and ?n = "ur_ResolvedName req"
  have ok: "validateSecretName L ?n = Inr ()" "\<not> secretMaxBytes < int (length (ur_Payload req))"
    using up by (cases "validateSecretName L ?n"; auto simp: k8sUpsert_def split: if_splits)+
  obtain g t where g: "kc_Get C ?ns ?n s = (g, t)" by (cases "kc_Get C ?ns ?n s")
  have t: "secrets t = secrets s" using get_same [OF g] .
  show thesis
  proof (cases g)
    case (Inl e)
    let ?v = "applyOwnershipMetadata (upsertIdentity req) (ur_SourceVersion req) (ur_PayloadSHA256 req) (ur_Format req)
        (newSecret ?ns ?n [(dataKeyPayload, ur_Payload req)])"
    have w: "k8sWritten (kc_Create C ?ns ?v t) = (Inr result, s')"
      using up ok raw g Inl by (auto simp: k8sUpsert_def k8sCreateSecret_def split: if_splits)
    have "ks_Name ?v = ?n" by (simp add: newSecret_def)
    then obtain x where "stores x ?v" "secrets s' (?ns, ?n) = Some x"
      using created_effect(2) [OF w refl] by (auto simp: writes_def)
    moreover have "ks_Data ?v = [(dataKeyPayload, ur_Payload req)]" by (simp add: newSecret_def)
    ultimately show thesis
      using written marked_ownership by blast
  next
    case (Inr old)
    have some: "secrets s (?ns, ?n) = Some old" using get_found g Inr by blast
    let ?m = "k8sPayloadMatchesRequest sha old False (ur_PayloadSHA256 req)"
    let ?v = "payloadUpdate req ?m old"
    consider (noop) "s' = t" "?m" "managedMetadataMatches old (ur_SourceVersion req) (ur_PayloadSHA256 req) (ur_Format req) False []"
        "k8sOwnedByRequest old (upsertIdentity req)"
      | (update) "k8sWritten (kc_Update C ?ns ?v t) = (Inr result, s')"
      using up ok raw g Inr by (auto simp: k8sUpsert_def Let_def split: if_splits)
    then show thesis
    proof cases
      case noop
      then show thesis
        using some t by (intro same [of old])
          (auto simp: k8sPayloadMatchesRequest_def payloadSHA256ForMode_def managedMetadataMatches_def split: if_splits)
    next
      case update
      have "ks_Name ?v = ?n" using named [OF some] by (simp add: payloadUpdate_def)
      then obtain x where "stores x ?v" "secrets s' (?ns, ?n) = Some x"
        using written_effect(2) [OF update refl] by (auto simp: writes_def)
      moreover have "ks_Data ?v = [(dataKeyPayload, ur_Payload req)] \<or> k8sPayloadSHA256 sha ?v = ur_PayloadSHA256 req"
      proof (cases ?m)
        case True
        then have "ks_Data ?v = ks_Data old" "k8sPayloadSHA256 sha old = ur_PayloadSHA256 req"
          by (auto simp: payloadUpdate_def k8sPayloadMatchesRequest_def payloadSHA256ForMode_def split: if_splits)
        then show ?thesis using k8sPayloadSHA256_cong [of ?v old] by simp
      next
        case False
        then show ?thesis by (simp add: payloadUpdate_def)
      qed
      moreover have "marked (upsertIdentity req) (ur_SourceVersion req) ?v \<or> \<not> identityComplete (upsertIdentity req)"
        using marked_ownership by (auto simp: payloadUpdate_def)
      ultimately show thesis using written by blast
    qed
  qed
qed

text \<open>The outcomes of a delete: nothing, the secret removed, or the data without the managed keys.\<close>

lemma delete_cases:
  assumes del: "k8sDelete L C options req s = (r, s')" and map: "dr_DataMap req"
  obtains (same) "secrets s' = secrets s"
  | (removed) old managedKeys where "secrets s (kd_namespace options, dr_ResolvedName req) = Some old"
      "managedDataKeysForMutation old = Some managedKeys" "mergedDataMap (ks_Data old) managedKeys [] = []"
      "secrets s' = (secrets s)((kd_namespace options, dr_ResolvedName req) := None)"
  | (kept) old managedKeys v where "secrets s (kd_namespace options, dr_ResolvedName req) = Some old"
      "managedDataKeysForMutation old = Some managedKeys"
      "ks_Data v = mergedDataMap (ks_Data old) managedKeys []"
      "writes (kd_namespace options, dr_ResolvedName req) v (secrets s) (secrets s')"
proof -
  let ?ns = "kd_namespace options" and ?n = "dr_ResolvedName req"
  show thesis
  proof (cases "validateSecretName L ?n")
    case (Inl e)
    then show thesis using del by (intro same) (simp add: k8sDelete_def)
  next
    case (Inr u)
    obtain g t where g: "kc_Get C ?ns ?n s = (g, t)" by (cases "kc_Get C ?ns ?n s")
    have t: "secrets t = secrets s" using get_same [OF g] .
    show thesis
    proof (cases g)
      case (Inl e)
      then show thesis using del g Inr t by (intro same) (auto simp: k8sDelete_def split: if_splits)
    next
      case old: (Inr old)
      have some: "secrets s (?ns, ?n) = Some old" using get_found g old by blast
      consider "s' = t" | "deleteDataMap C options old req t = (r, s')"
        using del map g Inr old by (auto simp: k8sDelete_def split: if_splits)
      then show thesis
      proof cases
        case 1
        then show thesis using t same by simp
      next
        case 2
        show thesis
        proof (cases "managedDataKeysForMutation old")
          case None
          then show thesis using 2 t by (intro same) (simp add: deleteDataMap_def)
        next
          case (Some managedKeys)
          let ?data = "mergedDataMap (ks_Data old) managedKeys []"
          show thesis
          proof (cases "?data = []")
            case True
            obtain q x where d: "kc_Delete C ?ns ?n (deleteOptionsForSecret old) t = (q, x)"
              by (cases "kc_Delete C ?ns ?n (deleteOptionsForSecret old) t")
            then have "s' = x"
              using 2 Some True by (cases q) (auto simp: deleteDataMap_def k8sDeleteOwned_def)
            then show thesis
              using delete_effect [OF d] t same removed [OF some Some True] by auto
          next
            case False
            let ?v = "removeOwnershipMetadata (old \<lparr> ks_Data := ?data \<rparr>)"
            have w: "k8sWritten (kc_Update C ?ns ?v t) = (r, s')"
              using 2 Some False by (simp add: deleteDataMap_def Let_def)
            have name: "ks_Name ?v = ?n" using named [OF some] by simp
            have data: "ks_Data ?v = ?data" by simp
            show thesis
              using written_effect(1) [OF w] unfolding t name using same kept [OF some Some data] by blast
          qed
        qed
      qed
    qed
  qed
qed

end

section \<open>A cluster in memory\<close>

text \<open>The state: the next resource version, and the secrets by namespace and name.\<close>

record memCluster =
  mc_next :: nat
  mc_secrets :: "((string \<times> string) \<times> k8sSecret) list"

definition clusterError :: "k8sErrorKind \<Rightarrow> k8sError" where
  "clusterError kind = \<lparr> ke_chain = [], ke_kinds = [kind] \<rparr>"

definition memSecrets :: "memCluster \<Rightarrow> string \<times> string \<Rightarrow> k8sSecret option" where
  "memSecrets s at = map_option (\<lambda>v. v \<lparr> ks_Name := snd at \<rparr>) (map_of (mc_secrets s) at)"

definition storeSecret :: "string \<times> string \<Rightarrow> k8sSecret \<Rightarrow> memCluster \<Rightarrow> (k8sError + k8sSecret) \<times> memCluster" where
  "storeSecret at v s =
     (let v = v \<lparr> ks_Name := snd at, ks_Namespace := fst at, ks_ResourceVersion := itoa (int (mc_next s)) \<rparr>
      in (Inr v, \<lparr> mc_next = Suc (mc_next s), mc_secrets = AList.update at v (mc_secrets s) \<rparr>))"

text \<open>A write to a version that is not the current one is a conflict.\<close>

definition staleVersion :: "string option \<Rightarrow> k8sSecret \<Rightarrow> bool" where
  "staleVersion expected v \<longleftrightarrow> (case expected of None \<Rightarrow> False | Some rv \<Rightarrow> ks_ResourceVersion v \<noteq> rv)"

definition memClient :: "memCluster k8sClient" where
  "memClient = \<lparr>
     kc_Get = (\<lambda>ns n s. (case memSecrets s (ns, n) of
         None \<Rightarrow> (Inl (clusterError NotFound), s)
       | Some v \<Rightarrow> (Inr v, s))),
     kc_Create = (\<lambda>ns v s.
       if memSecrets s (ns, ks_Name v) \<noteq> None then (Inl (clusterError AlreadyExists), s)
       else storeSecret (ns, ks_Name v) v s),
     kc_Update = (\<lambda>ns v s. (case memSecrets s (ns, ks_Name v) of
         None \<Rightarrow> (Inl (clusterError NotFound), s)
       | Some old \<Rightarrow>
           if staleVersion (if ks_ResourceVersion v = [] then None else Some (ks_ResourceVersion v)) old
           then (Inl (clusterError Conflict), s)
           else if isImmutable old \<and> ks_Data v \<noteq> ks_Data old then (Inl (clusterError Invalid), s)
           else storeSecret (ns, ks_Name v) v s)),
     kc_Delete = (\<lambda>ns n opts s. (case memSecrets s (ns, n) of
         None \<Rightarrow> (Inl (clusterError NotFound), s)
       | Some old \<Rightarrow>
           if staleVersion (do_ResourceVersion opts) old then (Inl (clusterError Conflict), s)
           else (Inr (), s \<lparr> mc_secrets := AList.delete (ns, n) (mc_secrets s) \<rparr>))) \<rparr>"

lemma memSecrets_store:
  assumes "storeSecret (ns, ks_Name v) v s = (r, s')"
  shows "writes (ns, ks_Name v) v (memSecrets s) (memSecrets s')"
proof -
  let ?w = "v \<lparr> ks_Namespace := ns, ks_ResourceVersion := itoa (int (mc_next s)) \<rparr>"
  have "memSecrets s' = (memSecrets s)((ns, ks_Name v) \<mapsto> ?w)"
    using assms by (auto simp: storeSecret_def memSecrets_def update_conv' fun_eq_iff Let_def)
  moreover have "stores ?w v" by (simp add: stores_def)
  ultimately show ?thesis unfolding writes_def by blast
qed

interpretation memCluster: secret_store memClient memSecrets
proof
  fix s ns n v
  assume "memSecrets s (ns, n) = Some v"
  then show "ks_Name v = n" by (auto simp: memSecrets_def)
next
  fix ns n s r s'
  assume "kc_Get memClient ns n s = (r, s')"
  then show "memSecrets s' = memSecrets s" by (auto simp: memClient_def split: option.splits)
next
  fix ns n s v s'
  assume "kc_Get memClient ns n s = (Inr v, s')"
  then show "memSecrets s (ns, n) = Some v" by (auto simp: memClient_def split: option.splits)
next
  fix ns n s e s'
  assume "kc_Get memClient ns n s = (Inl e, s')" "k8sIs NotFound e"
  then show "memSecrets s (ns, n) = None" by (auto simp: memClient_def split: option.splits)
next
  fix ns v s e s'
  assume "kc_Create memClient ns v s = (Inl e, s')"
  then show "memSecrets s' = memSecrets s \<or>
      memSecrets s (ns, ks_Name v) = None \<and> writes (ns, ks_Name v) v (memSecrets s) (memSecrets s')"
    by (auto simp: memClient_def storeSecret_def Let_def split: if_splits)
next
  fix ns v s w s'
  assume "kc_Create memClient ns v s = (Inr w, s')"
  then show "memSecrets s (ns, ks_Name v) = None \<and> writes (ns, ks_Name v) v (memSecrets s) (memSecrets s')"
    by (auto simp: memClient_def split: if_splits dest: memSecrets_store)
next
  fix ns v s e s'
  assume "kc_Update memClient ns v s = (Inl e, s')"
  then show "memSecrets s' = memSecrets s \<or> writes (ns, ks_Name v) v (memSecrets s) (memSecrets s')"
    by (auto simp: memClient_def storeSecret_def Let_def split: if_splits option.splits)
next
  fix ns v s w s'
  assume "kc_Update memClient ns v s = (Inr w, s')"
  then show "writes (ns, ks_Name v) v (memSecrets s) (memSecrets s')"
    by (auto simp: memClient_def split: if_splits option.splits dest: memSecrets_store)
next
  fix ns n opts s r s'
  assume "kc_Delete memClient ns n opts s = (r, s')"
  then show "memSecrets s' = memSecrets s \<or> memSecrets s' = (memSecrets s)((ns, n) := None)"
    by (auto simp: memClient_def memSecrets_def delete_conv' fun_eq_iff split: if_splits option.splits)
qed

end
