(* ===== verification/Kubernetes_Properties.thy ===== *)
theory Kubernetes_Properties
  imports Kubernetes_Server Go_Trim
begin

text \<open>
  Properties of the Kubernetes provider: secrets of others and newer secrets are not touched, a shared secret
  keeps the keys the provider does not manage, a successful upsert is seen as synced, and accepted options
  describe one way to authenticate and an allowed API server.
\<close>

section \<open>Samples\<close>

definition sampleLibrary :: k8sLibrary where
  "sampleLibrary = \<lparr> kv_ParseURL = (\<lambda>_. None), kv_IsDNS1123Label = (\<lambda>_. []), kv_IsDNS1123Subdomain = (\<lambda>_. []),
     kv_IsConfigMapKey = (\<lambda>key. if list_all plainChar key then [] else [''invalid'']), kv_AppendCerts = (\<lambda>_. True) \<rparr>"

definition sampleCluster :: k8sDestinationOptions where
  "sampleCluster = \<lparr> kd_namespace = ''apps'', kd_authMode = AuthModeInCluster, kd_kubeconfigPath = [],
     kd_kubeContext = [], kd_apiServer = [], kd_allowPrivateAPI = False, kd_allowPrivateSet = False, kd_token = [],
     kd_caCertPEM = [], kd_tlsServerName = [] \<rparr>"

definition sampleMapUpsert :: upsertRequest where
  "sampleMapUpsert = \<lparr> ur_Runtime = \<lparr> ri_MountUUID = ''mount-1'', ri_RestoreEpoch = ''epoch-1'' \<rparr>,
     ur_Association = \<lparr> ac_Config = [], ac_Identity = [] \<rparr>, ur_ResolvedName = ''db'', ur_Format = FormatDataMap,
     ur_Payload = ''{}'', ur_PayloadSHA256 = dataMapHash flatSha [(''user'', ''app''), (''pass'', ''x'')],
     ur_IdempotencyKey = ''op-1'', ur_DataMap = [(''user'', ''app''), (''pass'', ''x'')], ur_SourcePath = ''app/db'',
     ur_SourceVersion = 3, ur_AssociationID = ''assoc-1'', ur_ObjectID = ''secret-path'' \<rparr>"

text \<open>A secret of the association that also has a key somebody else put there.\<close>

definition sharedSecret :: k8sSecret where
  "sharedSecret = applyDataMapMetadata [''user'']
     (applyOwnershipMetadata (upsertIdentity sampleMapUpsert) 2 ''sha256:old'' FormatDataMap
       (newSecret ''apps'' ''db'' [(''user'', ''old''), (''extra'', ''theirs'')]))"

definition sharedCluster :: memCluster where
  "sharedCluster = \<lparr> mc_next = 7, mc_secrets = [((''apps'', ''db''), sharedSecret)] \<rparr>"

definition foreignSecret :: k8sSecret where
  "foreignSecret = newSecret ''apps'' ''db'' [(''user'', ''theirs'')]"

definition foreignCluster :: memCluster where
  "foreignCluster = \<lparr> mc_next = 1, mc_secrets = [((''apps'', ''db''), foreignSecret)] \<rparr>"

lemma sample_names [simp]:
  "ur_ResolvedName sampleMapUpsert = ''db''" "kd_namespace sampleCluster = ''apps''"
  by (simp_all add: sampleMapUpsert_def sampleCluster_def)

lemma sample_identity: "identityComplete (upsertIdentity sampleMapUpsert)"
  by (simp add: sampleMapUpsert_def identity_defs identityComplete_def)

section \<open>Secrets of others\<close>

text \<open>
  C21. A secret that is not the request owner's, or has a newer source version, is refused by an upsert and by
  a delete alike, in both payload modes: after reading it neither makes another call to the cluster, and both
  fail with class ownership or drift; the plan reports a conflict or is blocked.
\<close>

theorem k8s_foreign_untouched:
  assumes read: "kc_Get C (kd_namespace options) (ur_ResolvedName req) s = (Inr v, s1)"
    and foreign: "k8sOwnedByRequest v (upsertIdentity req) \<Longrightarrow>
      k8sRemoteSourceVersionNewer (ks_Annotations v) (ur_SourceVersion req)"
    and valid: "validateSecretName L (ur_ResolvedName req) = Inr ()"
      "int (length (ur_Payload req)) \<le> secretMaxBytes"
      "validateDataMapKeys L (map fst (ur_DataMap req)) = Inr ()"
  shows "let mine = k8sOwnedByRequest v (upsertIdentity req);
           refused = k8sFailed (if mine then ErrorClassDrift else ErrorClassOwnership)
       in k8sUpsert L sha C options req s = (Inl refused, s1) \<and>
          k8sDelete L C options (deleteFor req) s = (Inl refused, s1) \<and>
          snd (k8sPlan L sha C options (planFor req) s) = s1 \<and>
          pr_Action (fst (k8sPlan L sha C options (planFor req) s)) = (if mine then PlanActionBlocked else PlanActionConflict)"
proof -
  have fields: "dr_ResolvedName (deleteFor req) = ur_ResolvedName req" "dr_SourceVersion (deleteFor req) = ur_SourceVersion req"
    "pq_ResolvedName (planFor req) = ur_ResolvedName req" "pq_SourceVersion (planFor req) = ur_SourceVersion req"
    "pq_DataMapKeys (planFor req) = map fst (ur_DataMap req)"
    by (simp_all add: deleteFor_def planFor_def)
  have keys: "ur_DataMap req \<noteq> [] \<Longrightarrow> validateDataMap L (ur_DataMap req) = Inr ()"
    using valid(3) by (simp add: validateDataMap_def validateDataMapKeys_Inr k8sDataMapKeys_def)
  show ?thesis
    using foreign valid keys
    by (auto simp: k8sUpsert_def upsertDataMap_def k8sDelete_def k8sPlan_def k8sPlanExisting_def fields read Let_def)
qed

lemma sample_valid:
  "validateSecretName sampleLibrary (ur_ResolvedName sampleMapUpsert) = Inr ()"
  "int (length (ur_Payload sampleMapUpsert)) \<le> secretMaxBytes"
  "validateDataMapKeys sampleLibrary (map fst (ur_DataMap sampleMapUpsert)) = Inr ()"
proof -
  have "list_all (list_all plainChar) [''user'', ''pass'']"
    by (simp add: plainChar_def bsl_def dquote_char char_of_def bit_0)
  then show "validateDataMapKeys sampleLibrary (map fst (ur_DataMap sampleMapUpsert)) = Inr ()"
    by (simp add: validateDataMapKeys_Inr sampleLibrary_def sampleMapUpsert_def)
qed (simp_all add: validateSecretName_def sampleLibrary_def sampleMapUpsert_def secretMaxBytes_def)

theorem k8s_foreign_untouched_witness:
  "k8sUpsert sampleLibrary flatSha memClient sampleCluster sampleMapUpsert foreignCluster =
     (Inl (k8sFailed ErrorClassOwnership), foreignCluster)"
proof -
  have read: "kc_Get memClient (kd_namespace sampleCluster) (ur_ResolvedName sampleMapUpsert) foreignCluster =
      (Inr foreignSecret, foreignCluster)"
    by (simp add: memClient_def memSecrets_def foreignCluster_def foreignSecret_def newSecret_def)
  have foreign: "\<not> k8sOwnedByRequest foreignSecret (upsertIdentity sampleMapUpsert)"
    by (simp add: k8sOwnedByRequest_def foreignSecret_def newSecret_def)
  then show ?thesis
    using k8s_foreign_untouched [OF read _ sample_valid, of flatSha] by (simp add: Let_def)
qed

section \<open>Shared secrets\<close>

text \<open>The keys of a secret that the provider may replace or remove; none if their record is unusable.\<close>

definition managedKeysOf :: "k8sSecret \<Rightarrow> string set" where
  "managedKeysOf secret = (case managedDataKeysForMutation secret of None \<Rightarrow> {} | Some keys \<Rightarrow> set keys)"

definition keepsUnmanaged :: "k8sSecret \<Rightarrow> k8sSecret option \<Rightarrow> bool" where
  "keepsUnmanaged old after = (\<forall>k v. map_of (ks_Data old) k = Some v \<longrightarrow> k \<notin> managedKeysOf old \<longrightarrow>
     (case after of None \<Rightarrow> False | Some new \<Rightarrow> map_of (ks_Data new) k = Some v))"

lemma keepsUnmanaged_same: "keepsUnmanaged old (Some old)"
  by (simp add: keepsUnmanaged_def)

lemma writes_lookup: "writes at v m m' \<Longrightarrow> \<exists>w. stores w v \<and> m' at = Some w"
  by (auto simp: writes_def)

lemma writes_other: "writes at v m m' \<Longrightarrow> at' \<noteq> at \<Longrightarrow> m' at' = m at'"
  by (auto simp: writes_def)

text \<open>
  C22. A shared secret keeps what is not the provider's. Whatever a data-map upsert or delete does, whether it
  succeeds or fails, and whether or not a failed write took effect in the cluster: every key of the secret
  that the provider does not manage keeps its value (so the secret is not deleted either while there is such
  a key), and every other secret of the cluster stays as it is.
\<close>

theorem k8s_unmanaged_kept:
  assumes store: "secret_store C secrets"
    and old: "secrets s (kd_namespace options, ur_ResolvedName req) = Some old"
    and map: "ur_DataMap req \<noteq> []" "distinct (map fst (ur_DataMap req))"
  shows "let after = secrets (snd (k8sUpsert L sha C options req s));
      gone = secrets (snd (k8sDelete L C options (deleteFor req) s));
      at = (kd_namespace options, ur_ResolvedName req)
    in keepsUnmanaged old (after at) \<and> keepsUnmanaged old (gone at) \<and>
       (\<forall>at'. at' \<noteq> at \<longrightarrow> after at' = secrets s at' \<and> gone at' = secrets s at')"
proof -
  let ?at = "(kd_namespace options, ur_ResolvedName req)"
  obtain r s' where up: "k8sUpsert L sha C options req s = (r, s')"
    by (cases "k8sUpsert L sha C options req s")
  obtain q t where del: "k8sDelete L C options (deleteFor req) s = (q, t)"
    by (cases "k8sDelete L C options (deleteFor req) s")
  have fields: "dr_ResolvedName (deleteFor req) = ur_ResolvedName req" "dr_DataMap (deleteFor req)"
    using map by (simp_all add: deleteFor_def)
  have "keepsUnmanaged old (secrets s' ?at) \<and> (\<forall>at'. at' \<noteq> ?at \<longrightarrow> secrets s' at' = secrets s at')"
  proof (cases "secrets s' = secrets s")
    case True
    then show ?thesis using old keepsUnmanaged_same by simp
  next
    case False
    have "upsertDataMap L sha C options req s = (r, s')"
      using up map False by (auto simp: k8sUpsert_def split: sum.splits if_splits)
    then have "\<exists>new. dataMapUpdate req old = Inr new \<and> writes ?at new (secrets s) (secrets s')"
      by (cases rule: secret_store.upsertDataMap_cases [OF store]) (use False old in auto)
    then obtain new where upd: "dataMapUpdate req old = Inr new" and w: "writes ?at new (secrets s) (secrets s')"
      by blast
    obtain managed where m: "managedDataKeysForMutation old = Some managed"
      and c: "unmanagedDataKeyConflicts old managed (k8sDataMapKeys (ur_DataMap req)) = []"
      and d: "ks_Data new = mergedDataMap (ks_Data old) managed (ur_DataMap req)"
      using upd by (auto simp: dataMapUpdate_def split: option.splits if_splits)
    obtain x where x: "stores x new" "secrets s' ?at = Some x" using writes_lookup [OF w] by blast
    have "map_of (ks_Data x) k = Some v" if k: "map_of (ks_Data old) k = Some v" "k \<notin> set managed" for k v
      using no_conflicts [OF c _ k(1)] k x(1) d map_of_merged [OF map(2)]
      by (cases "map_of (ur_DataMap req) k") (auto simp: stores_def map_add_def restrict_map_def)
    then show ?thesis
      using x(2) m writes_other [OF w] by (auto simp: keepsUnmanaged_def managedKeysOf_def)
  qed
  moreover have "keepsUnmanaged old (secrets t ?at) \<and> (\<forall>at'. at' \<noteq> ?at \<longrightarrow> secrets t at' = secrets s at')"
  proof (cases rule: secret_store.delete_cases [OF store del fields(2)])
    case 1
    then show ?thesis using old keepsUnmanaged_same by simp
  next
    case removed: (2 old' managed)
    then have m: "managedDataKeysForMutation old = Some managed" "mergedDataMap (ks_Data old) managed [] = []"
      using old by (simp_all add: fields)
    have none: "((map_of (ks_Data old)) |` (- set managed)) k = None" for k
      using map_of_merged [of "[]" "ks_Data old" managed] m(2) by (simp add: fun_eq_iff)
    have "k \<in> set managed" if "map_of (ks_Data old) k = Some v" for k v
      using none [of k] that by (auto simp: restrict_map_def split: if_splits)
    then show ?thesis
      using removed m by (auto simp: keepsUnmanaged_def managedKeysOf_def fields)
  next
    case kept: (3 old' managed new)
    then have m: "managedDataKeysForMutation old = Some managed" "ks_Data new = mergedDataMap (ks_Data old) managed []"
      and w: "writes ?at new (secrets s) (secrets t)"
      using old by (simp_all add: fields)
    obtain x where "stores x new" "secrets t ?at = Some x" using writes_lookup [OF w] by blast
    then show ?thesis
      using m writes_other [OF w] map_of_merged [of "[]" "ks_Data old" managed]
      by (auto simp: keepsUnmanaged_def managedKeysOf_def stores_def restrict_map_def)
  qed
  ultimately show ?thesis by (simp add: up del Let_def)
qed

theorem k8s_unmanaged_kept_witness:
  "case memSecrets (snd (k8sUpsert sampleLibrary flatSha memClient sampleCluster sampleMapUpsert sharedCluster)) (''apps'', ''db'') of
     None \<Rightarrow> False | Some new \<Rightarrow> map_of (ks_Data new) ''extra'' = Some ''theirs''"
proof -
  have old: "memSecrets sharedCluster (kd_namespace sampleCluster, ur_ResolvedName sampleMapUpsert) = Some sharedSecret"
    by (simp add: memSecrets_def sharedCluster_def sharedSecret_def newSecret_def applyDataMapMetadata_def
        applyOwnershipMetadata_def)
  have map: "ur_DataMap sampleMapUpsert \<noteq> []" "distinct (map fst (ur_DataMap sampleMapUpsert))"
    by (simp_all add: sampleMapUpsert_def)
  have data: "map_of (ks_Data sharedSecret) ''extra'' = Some ''theirs''"
    by (simp add: sharedSecret_def newSecret_def)
  have "annotationValue (ks_Annotations sharedSecret) annotationDataKeys = marshalStrings [''user'']"
    by (simp add: sharedSecret_def applyDataMapMetadata_def annotationValue_def)
  moreover have "list_all (list_all plainChar) [''user'']"
    by (simp add: plainChar_def bsl_def dquote_char char_of_def bit_0)
  ultimately have "managedDataKeys sharedSecret = Some [''user'']"
    using unmarshal_marshal [of "[''user'']"] by (simp add: managedDataKeys_def marshalStrings_def)
  then have "''extra'' \<notin> managedKeysOf sharedSecret"
    by (simp add: managedKeysOf_def managedDataKeysForMutation_def)
  then show ?thesis
    using k8s_unmanaged_kept [OF memCluster.secret_store_axioms old map, of sampleLibrary flatSha] data
    by (auto simp: keepsUnmanaged_def Let_def split: option.splits)
qed

section \<open>A successful upsert\<close>

lemma sample_synced:
  "\<exists>result s'. k8sUpsert sampleLibrary flatSha memClient sampleCluster sampleMapUpsert \<lparr> mc_next = 0, mc_secrets = [] \<rparr> =
     (Inr result, s')"
proof -
  have "ur_DataMap sampleMapUpsert \<noteq> []" "validateDataMap sampleLibrary (ur_DataMap sampleMapUpsert) = Inr ()"
    using sample_valid(3)
    by (simp_all add: sampleMapUpsert_def validateDataMap_def validateDataMapKeys_Inr k8sDataMapKeys_def
        del: validateDataMapKeys.simps)
  then show ?thesis
    using sample_valid(1,2)
    by (simp add: k8sUpsert_def upsertDataMap_def memClient_def memSecrets_def clusterError_def k8sIs_def
        createDataMapSecret_def storeSecret_def Let_def)
qed

lemma carries_update:
  assumes "stores w v" "dataMapUpdate req old = Inr v" "distinct (map fst (ur_DataMap req))"
  shows "carries (ur_DataMap req) w"
proof -
  obtain managed where "ks_Data v = mergedDataMap (ks_Data old) managed (ur_DataMap req)"
    and "annotationValue (ks_Annotations v) annotationDataKeys = marshalStrings (k8sDataMapKeys (ur_DataMap req))"
    using assms(2) by (auto simp: dataMapUpdate_def applyDataMapMetadata_def annotationValue_def split: option.splits if_splits)
  moreover have "map_of (mergedDataMap e managed (ur_DataMap req)) k = map_of (ur_DataMap req) k"
    if "k \<in> set (map fst (ur_DataMap req))" for e k
    using that by (auto simp: map_of_merged [OF assms(3)] map_add_def map_of_eq_None_iff split: option.splits)
  ultimately show ?thesis
    using assms(1) by (auto simp: carries_def stores_def)
qed

text \<open>A stored secret is read back with the mark and the hash it was written with.\<close>

lemma marked_stores: "stores w v \<Longrightarrow> marked i version w = marked i version v"
  by (rule marked_cong) (simp_all add: stores_def)

lemma upsert_leaves:
  assumes store: "secret_store C secrets" and id: "identityComplete (upsertIdentity req)"
    and lib: "\<forall>key. kv_IsConfigMapKey L key = [] \<longrightarrow> list_all plainChar key"
    and map: "distinct (map fst (ur_DataMap req))"
    and hash: "ur_PayloadSHA256 req = (if ur_DataMap req = [] then payloadSHA256Bytes sha (ur_Payload req)
      else dataMapHash sha (ur_DataMap req))"
    and up: "k8sUpsert L sha C options req s = (Inr result, s')"
  shows "\<exists>v. secrets s' (kd_namespace options, ur_ResolvedName req) = Some v \<and>
     marked (upsertIdentity req) (ur_SourceVersion req) v \<and>
     payloadSHA256ForMode sha v (ur_DataMap req \<noteq> []) = ur_PayloadSHA256 req"
proof (cases "ur_DataMap req = []")
  case True
  show ?thesis
  proof (cases rule: secret_store.upsertPayload_cases [OF store up True])
    case (1 v)
    then show ?thesis using True by (auto simp: marked_def payloadSHA256ForMode_def)
  next
    case (2 v w)
    have "k8sPayloadSHA256 sha w = k8sPayloadSHA256 sha v"
      using 2(2) by (intro k8sPayloadSHA256_cong) (simp add: stores_def)
    moreover have "ks_Data v = [(dataKeyPayload, ur_Payload req)] \<Longrightarrow>
        k8sPayloadSHA256 sha v = payloadSHA256Bytes sha (ur_Payload req)"
      by (simp add: k8sPayloadSHA256_def)
    ultimately show ?thesis
      using 2 True hash id marked_stores [OF 2(2)] by (auto simp: payloadSHA256ForMode_def)
  qed
next
  case False
  have ok: "validateSecretName L (ur_ResolvedName req) = Inr ()"
    using up by (cases "validateSecretName L (ur_ResolvedName req)") (auto simp: k8sUpsert_def)
  have map_up: "upsertDataMap L sha C options req s = (Inr result, s')"
    using up False ok by (auto simp: k8sUpsert_def split: if_splits)
  have "validateDataMap L (ur_DataMap req) = Inr ()"
    using map_up by (cases "validateDataMap L (ur_DataMap req)") (auto simp: upsertDataMap_def)
  then have plain: "list_all (list_all plainChar) (map fst (ur_DataMap req))"
    using lib False by (auto simp: validateDataMap_def validateDataMapKeys_Inr k8sDataMapKeys_def list_all_iff)
  have hashed: "payloadSHA256ForMode sha w True = ur_PayloadSHA256 req" if "carries (ur_DataMap req) w" for w
    using carries_hash [OF that map False plain] hash False by (simp add: payloadSHA256ForMode_def)
  show ?thesis
  proof (cases rule: secret_store.upsertDataMap_cases [OF store map_up, where result = result])
    case 1
    then show ?thesis using 1(2) [OF refl] False by (auto simp: marked_def)
  next
    case (2 v)
    then obtain w where w: "stores w v" "secrets s' (kd_namespace options, ur_ResolvedName req) = Some w"
      using writes_lookup by blast
    moreover have "carries (ur_DataMap req) w"
      using w(1) 2(3) by (simp add: carries_def stores_def newSecret_def applyDataMapMetadata_def annotationValue_def
          applyOwnershipMetadata_def)
    moreover have "marked (upsertIdentity req) (ur_SourceVersion req) w"
      using marked_stores [OF w(1)] 2(3) marked_ownership [OF id] by simp
    ultimately show ?thesis using hashed False by auto
  next
    case (3 old v)
    then obtain w where w: "stores w v" "secrets s' (kd_namespace options, ur_ResolvedName req) = Some w"
      using writes_lookup by blast
    moreover have "marked (upsertIdentity req) (ur_SourceVersion req) v"
      using 3(2) marked_ownership [OF id] by (auto simp: dataMapUpdate_def split: option.splits if_splits)
    ultimately show ?thesis
      using hashed [OF carries_update [OF w(1) 3(2) map]] marked_stores [OF w(1)] False by auto
  qed
qed

text \<open>
  C23. After a successful upsert, of the whole payload or of a data map, the provider sees its own object: a
  state read finds the secret, owned, with the request's source version and hash, on any cluster that stores
  what it is sent; it can only fail if the read itself fails. (Valid data keys are printable and unescaped in
  JSON, which the validator of the Kubernetes library guarantees.)
\<close>

theorem k8s_upsert_synced:
  assumes store: "secret_store C secrets" and id: "identityComplete (upsertIdentity req)"
    and lib: "\<forall>key. kv_IsConfigMapKey L key = [] \<longrightarrow> list_all plainChar key"
    and map: "distinct (map fst (ur_DataMap req))" and version: "inInt64 (ur_SourceVersion req)"
    and hash: "ur_PayloadSHA256 req = (if ur_DataMap req = [] then payloadSHA256Bytes sha (ur_Payload req)
      else dataMapHash sha (ur_DataMap req))"
    and up: "k8sUpsert L sha C options req s = (Inr result, s')"
  shows "case fst (k8sReadState L sha C options (readFor req) s') of
       Inl e \<Rightarrow> (\<exists>ke s2. kc_Get C (kd_namespace options) (ur_ResolvedName req) s' = (Inl ke, s2) \<and> \<not> k8sIs NotFound ke)
     | Inr state \<Rightarrow> rs_Exists state \<and> rs_OwnershipKnown state \<and> rs_Owned state \<and>
         rs_PayloadSHA256 state = ur_PayloadSHA256 req \<and> rs_SourceVersion state = ur_SourceVersion req"
proof -
  obtain v where v: "secrets s' (kd_namespace options, ur_ResolvedName req) = Some v"
    and m: "marked (upsertIdentity req) (ur_SourceVersion req) v"
    and h: "payloadSHA256ForMode sha v (ur_DataMap req \<noteq> []) = ur_PayloadSHA256 req"
    using upsert_leaves [OF store id lib map hash up] by blast
  have ok: "validateSecretName L (ur_ResolvedName req) = Inr ()"
    using up by (cases "validateSecretName L (ur_ResolvedName req)") (auto simp: k8sUpsert_def)
  have fields: "rr_ResolvedName (readFor req) = ur_ResolvedName req" "rr_DataMap (readFor req) = (ur_DataMap req \<noteq> [])"
    by (simp_all add: readFor_def)
  have number: "atoiValue (itoa (ur_SourceVersion req)) = ur_SourceVersion req"
    using version by (intro atoiValue_atoi atoi_itoa)
  obtain g t where g: "kc_Get C (kd_namespace options) (ur_ResolvedName req) s' = (g, t)"
    by (cases "kc_Get C (kd_namespace options) (ur_ResolvedName req) s'")
  show ?thesis
  proof (cases g)
    case (Inl e)
    then have "\<not> k8sIs NotFound e"
      using secret_store.get_missing [OF store] g v by force
    then show ?thesis using g Inl by (simp add: k8sReadState_def fields ok)
  next
    case (Inr w)
    then have "w = v" using secret_store.get_found [OF store] g v by force
    then show ?thesis
      using g Inr m h id by (simp add: k8sReadState_def fields ok marked_def number)
  qed
qed

theorem k8s_upsert_synced_witness:
  "\<exists>result s'. k8sUpsert sampleLibrary flatSha memClient sampleCluster sampleMapUpsert \<lparr> mc_next = 0, mc_secrets = [] \<rparr> =
       (Inr result, s') \<and>
     (case fst (k8sReadState sampleLibrary flatSha memClient sampleCluster (readFor sampleMapUpsert) s') of
       Inl e \<Rightarrow> (\<exists>ke s2. kc_Get memClient ''apps'' ''db'' s' = (Inl ke, s2) \<and> \<not> k8sIs NotFound ke)
     | Inr state \<Rightarrow> rs_Exists state \<and> rs_OwnershipKnown state \<and> rs_Owned state \<and>
         rs_PayloadSHA256 state = ur_PayloadSHA256 sampleMapUpsert \<and> rs_SourceVersion state = ur_SourceVersion sampleMapUpsert)"
proof -
  obtain result s' where up: "k8sUpsert sampleLibrary flatSha memClient sampleCluster sampleMapUpsert
      \<lparr> mc_next = 0, mc_secrets = [] \<rparr> = (Inr result, s')"
    using sample_synced by blast
  have lib: "\<forall>key. kv_IsConfigMapKey sampleLibrary key = [] \<longrightarrow> list_all plainChar key"
    by (simp add: sampleLibrary_def)
  have map: "distinct (map fst (ur_DataMap sampleMapUpsert))" "inInt64 (ur_SourceVersion sampleMapUpsert)"
    and hash: "ur_PayloadSHA256 sampleMapUpsert = (if ur_DataMap sampleMapUpsert = []
      then payloadSHA256Bytes flatSha (ur_Payload sampleMapUpsert) else dataMapHash flatSha (ur_DataMap sampleMapUpsert))"
    by (simp_all add: sampleMapUpsert_def inInt64_def)
  from k8s_upsert_synced [OF memCluster.secret_store_axioms sample_identity lib map hash up] up
  show ?thesis unfolding sample_names by blast
qed

section \<open>Accepted options\<close>

text \<open>
  C28. The options that are accepted are well-formed: the authentication mode is one of three, and only the
  fields of that mode are set. With a token, the API server is reached over HTTPS under a host name that is
  not restricted, unless private servers are allowed; and the client that is built for it then dials only
  unrestricted addresses and uses no proxy.
\<close>

theorem k8s_options_wellformed:
  assumes "k8sDestinationOptionsFromConfig L cfg = Inr options"
  shows "kd_namespace options \<noteq> [] \<and> kv_IsDNS1123Label L (kd_namespace options) = [] \<and>
    (kd_authMode options = AuthModeInCluster \<and> kd_kubeconfigPath options = [] \<and> kd_kubeContext options = [] \<and>
       \<not> hasTokenAuthConfig options \<or>
     kd_authMode options = AuthModeKubeconfig \<and> kd_kubeconfigPath options \<noteq> [] \<and> \<not> hasTokenAuthConfig options \<or>
     kd_authMode options = AuthModeToken \<and> kd_kubeconfigPath options = [] \<and> kd_kubeContext options = [] \<and>
       kd_token options \<noteq> [] \<and>
       (\<exists>u. kv_ParseURL L (kd_apiServer options) = Some u \<and> pu_Scheme u = ''https'' \<and>
          NormalizeHost (pu_Hostname u) \<noteq> [] \<and>
          (IsRestrictedHost (NormalizeHost (pu_Hostname u)) \<longrightarrow> kd_allowPrivateAPI options)) \<and>
       (\<forall>resolver inCluster kubeconfig s rest. fst (k8sDefaultClientFactory L resolver inCluster kubeconfig cfg s) = Inr rest \<longrightarrow>
          rc_Host rest = kd_apiServer options \<and>
          (kd_allowPrivateAPI options \<or> rc_NoProxy rest \<and> rc_Dial rest = Some (\<lambda>addr. \<not> IsRestrictedAddr addr))))"
proof -
  have valid: "validateNamespace L (kd_namespace options) = Inr ()" "validateAuthMode L options = Inr ()"
    using assms by (auto simp: k8sDestinationOptionsFromConfig_def andThen_Inr Let_def split: if_splits)
  have ns: "kd_namespace options \<noteq> []" "kv_IsDNS1123Label L (kd_namespace options) = []"
    using valid(1) by (auto simp: validateNamespace_def Let_def split: if_splits)
  have modes: "AuthModeInCluster \<noteq> AuthModeToken" "AuthModeKubeconfig \<noteq> AuthModeToken"
    by (simp_all add: AuthModeInCluster_def AuthModeKubeconfig_def AuthModeToken_def)
  consider (pod) "kd_authMode options = AuthModeInCluster" | (conf) "kd_authMode options = AuthModeKubeconfig"
    | (tok) "kd_authMode options = AuthModeToken" "validateTokenAuth L options = Inr ()"
    using valid(2) by (auto simp: validateAuthMode_def split: if_splits)
  then show ?thesis
  proof cases
    case pod
    then show ?thesis
      using valid(2) ns by (auto simp: validateAuthMode_def validateInClusterAuth_def split: if_splits)
  next
    case conf
    then show ?thesis
      using valid(2) ns
      by (auto simp: validateAuthMode_def validateKubeconfigAuth_def AuthModeInCluster_def AuthModeKubeconfig_def split: if_splits)
  next
    case tok
    then have fields: "kd_kubeconfigPath options = []" "kd_kubeContext options = []" "kd_token options \<noteq> []"
      and server: "validateAPIServer (kv_ParseURL L) (kd_apiServer options) (kd_allowPrivateAPI options) = Inr ()"
      by (auto simp: validateTokenAuth_def andThen_Inr split: if_splits)
    have url: "\<exists>u. kv_ParseURL L (kd_apiServer options) = Some u \<and> pu_Scheme u = ''https'' \<and>
        NormalizeHost (pu_Hostname u) \<noteq> [] \<and>
        (IsRestrictedHost (NormalizeHost (pu_Hostname u)) \<longrightarrow> kd_allowPrivateAPI options)"
      using server by (auto simp: validateAPIServer_def Let_def split: option.splits if_splits)
    have client: "rc_Host rest = kd_apiServer options \<and>
        (kd_allowPrivateAPI options \<or> rc_NoProxy rest \<and> rc_Dial rest = Some (\<lambda>addr. \<not> IsRestrictedAddr addr))"
      if "fst (k8sDefaultClientFactory L resolver inCluster kubeconfig cfg s) = Inr rest"
      for resolver :: "'a resolver" and inCluster kubeconfig s rest
    proof -
      have "rest = hardenRESTConfig (restConfigForToken options) options"
        using that tok(1) modes
        by (auto simp: k8sDefaultClientFactory_def assms Let_def split: prod.splits sum.splits if_splits)
      then show ?thesis
        using tok(1) by (auto simp: hardenRESTConfig_def restConfigForToken_def Let_def)
    qed
    show ?thesis
      using ns tok(1) fields url client by blast
  qed
qed

definition sampleTokenConfig :: providerDestinationConfig where
  "sampleTokenConfig = \<lparr> dc_Name = ''prod'', dc_Config = [(''namespace'', ''apps''), (''auth_mode'', ''in_cluster'')] \<rparr>"

lemma sample_options: "\<exists>options. k8sDestinationOptionsFromConfig sampleLibrary sampleTokenConfig = Inr options"
proof -
  have "trimSpace [] = []" "trimSpace ''apps'' = ''apps''" "trimSpace ''in_cluster'' = ''in_cluster''"
    by (simp_all add: trimSpace_printable trimSpace_Nil)
  then show ?thesis
    by (simp add: k8sDestinationOptionsFromConfig_def sampleTokenConfig_def k8sNormalizedAuthMode_def configValue_def
        boolConfigValue_def k8s_config_keys validateNamespace_def sampleLibrary_def validateAuthMode_def
        AuthModeInCluster_def validateInClusterAuth_def hasTokenAuthConfig_def)
qed

theorem k8s_options_wellformed_witness:
  "\<exists>options. k8sDestinationOptionsFromConfig sampleLibrary sampleTokenConfig = Inr options \<and> kd_namespace options \<noteq> []"
  using sample_options k8s_options_wellformed by blast

end
