(* ===== verification/AWS_Options.thy ===== *)
theory AWS_Options
  imports Provider_Endpoints
begin

text \<open>
  Configuration of the AWS Secrets Manager provider (\<open>internal/providers/awssecretsmanager/provider.go\<close>): the
  ways to authenticate, the policies for a custom endpoint, and the recovery window of a deletion. The URL
  parser is an argument.
\<close>

definition awsProviderType :: string where "awsProviderType = ''aws-sm''"

definition awsConfigKeyRegion :: string where "awsConfigKeyRegion = ''region''"
definition ConfigKeyEndpointURL :: string where "ConfigKeyEndpointURL = ''endpoint_url''"
definition ConfigKeyEndpointPolicy :: string where "ConfigKeyEndpointPolicy = ''endpoint_policy''"
definition awsConfigKeyAuthMode :: string where "awsConfigKeyAuthMode = ''auth_mode''"
definition ConfigKeyRoleARN :: string where "ConfigKeyRoleARN = ''role_arn''"
definition ConfigKeyExternalID :: string where "ConfigKeyExternalID = ''external_id''"
definition ConfigKeySessionName :: string where "ConfigKeySessionName = ''session_name''"
definition ConfigKeyWebIdentityTokenFile :: string where "ConfigKeyWebIdentityTokenFile = ''web_identity_token_file''"
definition ConfigKeyDeleteRecoveryWindowDays :: string where
  "ConfigKeyDeleteRecoveryWindowDays = ''delete_recovery_window_days''"
definition ConfigKeyValueDriftDetection :: string where "ConfigKeyValueDriftDetection = ''value_drift_detection''"

lemmas aws_config_keys =
  awsConfigKeyRegion_def ConfigKeyEndpointURL_def ConfigKeyEndpointPolicy_def awsConfigKeyAuthMode_def
  ConfigKeyRoleARN_def ConfigKeyExternalID_def ConfigKeySessionName_def ConfigKeyWebIdentityTokenFile_def
  ConfigKeyDeleteRecoveryWindowDays_def ConfigKeyValueDriftDetection_def

definition AuthModeDefault :: string where "AuthModeDefault = ''default''"
definition AuthModeAssumeRole :: string where "AuthModeAssumeRole = ''assume_role''"
definition AuthModeWebIdentity :: string where "AuthModeWebIdentity = ''web_identity''"

definition EndpointPolicyLocal :: string where "EndpointPolicyLocal = ''local''"
definition EndpointPolicyPrivate :: string where "EndpointPolicyPrivate = ''private''"

definition secretValueMaxBytes :: int where "secretValueMaxBytes = 65536"
definition defaultDeleteRecoveryWindowDays :: int where "defaultDeleteRecoveryWindowDays = 7"
definition minDeleteRecoveryWindowDays :: int where "minDeleteRecoveryWindowDays = 7"
definition maxDeleteRecoveryWindowDays :: int where "maxDeleteRecoveryWindowDays = 30"

definition awsCapabilities :: capabilities where
  "awsCapabilities = \<lparr> cp_SupportsValueReadback = True, cp_SupportsMetadataReadback = True,
     cp_SupportsPayloadHashMetadata = True, cp_SupportsUpdateIfOwned = True, cp_SupportsDeleteIfOwned = True,
     cp_SupportsSecretPath = True, cp_SupportsSecretKey = False, cp_SupportsDataMap = False,
     cp_MaxPayloadBytes = secretValueMaxBytes \<rparr>"

section \<open>Endpoints\<close>

definition isLocalEndpointHost :: "string \<Rightarrow> bool" where
  "isLocalEndpointHost host = (if NormalizeHost host = ''localstack'' then True else IsLocalHost host)"

definition isPrivateEndpointAddr :: "netAddr \<Rightarrow> bool" where
  "isPrivateEndpointAddr addr = isPrivate (unmapAddr addr)"

definition validateLocalEndpointURL :: "string \<Rightarrow> string \<Rightarrow> providerError + unit" where
  "validateLocalEndpointURL scheme host =
     (if scheme \<noteq> ''https'' \<and> scheme \<noteq> ''http''
      then Inl (validationError ''aws-sm local endpoint_url must use http or https'')
      else if \<not> isLocalEndpointHost host
      then Inl (validationError ''aws-sm local endpoint_url host must be localhost, loopback, or localstack'')
      else Inr ())"

definition validatePrivateEndpointURL :: "string \<Rightarrow> string \<Rightarrow> providerError + unit" where
  "validatePrivateEndpointURL scheme host =
     (if scheme \<noteq> ''https'' then Inl (validationError ''aws-sm private endpoint_url must use https'')
      else if isLocalEndpointHost host
      then Inl (validationError ''aws-sm private endpoint_url must not target local development hosts'')
      else if (case ParseAddr host of None \<Rightarrow> False | Some addr \<Rightarrow> \<not> isPrivateEndpointAddr addr)
      then Inl (validationError ''aws-sm private endpoint_url must target a private address'')
      else Inr ())"

definition validateEndpointURL ::
    "(string \<Rightarrow> parsedURL option) \<Rightarrow> string \<Rightarrow> string \<Rightarrow> providerError + unit" where
  "validateEndpointURL parseURL rawEndpoint endpointPolicy =
     (case parseURL rawEndpoint of
        None \<Rightarrow> Inl (validationError ''aws-sm endpoint_url must be a valid URL'')
      | Some parsed \<Rightarrow>
          if pu_Host parsed = [] \<or> pu_User parsed \<or> pu_RawQuery parsed \<noteq> [] \<or> pu_Fragment parsed \<noteq> []
          then Inl (validationError ''aws-sm endpoint_url must include a host and no userinfo, query, or fragment'')
          else (let host = NormalizeHost (pu_Hostname parsed)
                in if host = [] then Inl (validationError ''aws-sm endpoint_url must include a host'')
                   else if endpointPolicy = EndpointPolicyLocal
                   then validateLocalEndpointURL (pu_Scheme parsed) host
                   else if endpointPolicy = EndpointPolicyPrivate
                   then validatePrivateEndpointURL (pu_Scheme parsed) host
                   else Inl (validationError ''aws-sm endpoint_policy must be local or private'')))"

section \<open>Options of a destination\<close>

record awsDestinationOptions =
  ad_region :: string
  ad_endpointURL :: string
  ad_endpointPolicy :: string
  ad_authMode :: string
  ad_roleARN :: string
  ad_externalID :: string
  ad_sessionName :: string
  ad_webIdentityTokenFile :: string
  ad_valueDriftDetection :: bool

text \<open>\<open>strings.SplitN\<close>: the last part holds the rest.\<close>

definition splitN :: "char \<Rightarrow> nat \<Rightarrow> string \<Rightarrow> string list" where
  "splitN c n s =
     (let parts = splitOn c s
      in if length parts \<le> n then parts else take (n - 1) parts @ [joinWith c (drop (n - 1) parts)])"

definition isLikelyRoleARN :: "string \<Rightarrow> bool" where
  "isLikelyRoleARN roleARN =
     (let parts = splitN (CHR '':'') 6 roleARN
      in if length parts \<noteq> 6 then False
         else prefix ''arn:'' roleARN \<and> parts ! 2 = ''iam'' \<and> parts ! 4 \<noteq> [] \<and> prefix ''role/'' (parts ! 5))"

definition validateEndpointOptions ::
    "(string \<Rightarrow> parsedURL option) \<Rightarrow> awsDestinationOptions \<Rightarrow> providerError + unit" where
  "validateEndpointOptions parseURL options =
     (if ad_endpointURL options \<noteq> []
      then (if ad_endpointPolicy options = []
            then Inl (validationError ''aws-sm endpoint_url requires endpoint_policy'')
            else validateEndpointURL parseURL (ad_endpointURL options) (ad_endpointPolicy options))
      else if ad_endpointPolicy options \<noteq> []
      then Inl (validationError ''aws-sm endpoint_policy requires endpoint_url'')
      else Inr ())"

definition validateDefaultAuthOptions :: "awsDestinationOptions \<Rightarrow> providerError + unit" where
  "validateDefaultAuthOptions options =
     (if ad_roleARN options \<noteq> [] \<or> ad_externalID options \<noteq> [] \<or> ad_sessionName options \<noteq> [] \<or>
         ad_webIdentityTokenFile options \<noteq> []
      then Inl (validationError ''aws-sm auth fields require auth_mode assume_role or web_identity'')
      else Inr ())"

definition validateAssumeRoleAuthOptions :: "awsDestinationOptions \<Rightarrow> providerError + unit" where
  "validateAssumeRoleAuthOptions options =
     (if ad_roleARN options = [] then Inl (validationError ''aws-sm auth_mode assume_role requires role_arn'')
      else if \<not> isLikelyRoleARN (ad_roleARN options)
      then Inl (validationError ''aws-sm role_arn must be an IAM role ARN'')
      else if ad_webIdentityTokenFile options \<noteq> []
      then Inl (validationError ''aws-sm web_identity_token_file requires auth_mode web_identity'')
      else Inr ())"

text \<open>\<open>filepath.IsAbs\<close> on Unix.\<close>

definition isAbsPath :: "string \<Rightarrow> bool" where
  "isAbsPath path = prefix ''/'' path"

definition validateWebIdentityAuthOptions :: "awsDestinationOptions \<Rightarrow> providerError + unit" where
  "validateWebIdentityAuthOptions options =
     (if ad_roleARN options = [] then Inl (validationError ''aws-sm auth_mode web_identity requires role_arn'')
      else if \<not> isLikelyRoleARN (ad_roleARN options)
      then Inl (validationError ''aws-sm role_arn must be an IAM role ARN'')
      else if ad_webIdentityTokenFile options = []
      then Inl (validationError ''aws-sm auth_mode web_identity requires web_identity_token_file'')
      else if \<not> isAbsPath (ad_webIdentityTokenFile options)
      then Inl (validationError ''aws-sm web_identity_token_file must be an absolute path'')
      else if ad_externalID options \<noteq> []
      then Inl (validationError ''aws-sm external_id is only supported with auth_mode assume_role'')
      else Inr ())"

definition validateAuthOptions :: "awsDestinationOptions \<Rightarrow> providerError + unit" where
  "validateAuthOptions options =
     (if ad_authMode options = AuthModeDefault then validateDefaultAuthOptions options
      else if ad_authMode options = AuthModeAssumeRole then validateAssumeRoleAuthOptions options
      else if ad_authMode options = AuthModeWebIdentity then validateWebIdentityAuthOptions options
      else Inl (validationError ''aws-sm auth_mode must be default, assume_role, or web_identity''))"

definition awsNormalizedAuthMode :: "(string \<times> string) list \<Rightarrow> string" where
  "awsNormalizedAuthMode config =
     (let authMode = configValue config awsConfigKeyAuthMode
      in if authMode = [] then AuthModeDefault else authMode)"

text \<open>A key that the provider does not know is refused; which one is named depends on the map's order.\<close>

definition awsUnsupportedKey :: "string \<Rightarrow> string list \<Rightarrow> (string \<times> string) list \<Rightarrow> providerError + unit" where
  "awsUnsupportedKey what supported config =
     (case find (\<lambda>(key, v). key \<notin> set supported) config of
        None \<Rightarrow> Inr ()
      | Some (key, v) \<Rightarrow>
          Inl (validationError (''aws-sm '' @ what @ '' configuration does not support '' @ key)))"

definition awsDestinationKeys :: "string list" where
  "awsDestinationKeys = [awsConfigKeyRegion, ConfigKeyEndpointURL, ConfigKeyEndpointPolicy, awsConfigKeyAuthMode,
     ConfigKeyRoleARN, ConfigKeyExternalID, ConfigKeySessionName, ConfigKeyWebIdentityTokenFile,
     ConfigKeyValueDriftDetection]"

definition awsDestinationOptionsFromConfig ::
    "(string \<Rightarrow> parsedURL option) \<Rightarrow> (string \<times> string) list \<Rightarrow> providerError + awsDestinationOptions" where
  "awsDestinationOptionsFromConfig parseURL config =
     andThen (awsUnsupportedKey ''destination'' awsDestinationKeys config) (\<lambda>_.
     andThen (boolConfigValue awsProviderType config ConfigKeyValueDriftDetection False) (\<lambda>valueDriftDetection.
       let options = \<lparr> ad_region = configValue config awsConfigKeyRegion,
             ad_endpointURL = configValue config ConfigKeyEndpointURL,
             ad_endpointPolicy = configValue config ConfigKeyEndpointPolicy,
             ad_authMode = awsNormalizedAuthMode config,
             ad_roleARN = configValue config ConfigKeyRoleARN,
             ad_externalID = configValue config ConfigKeyExternalID,
             ad_sessionName = configValue config ConfigKeySessionName,
             ad_webIdentityTokenFile = configValue config ConfigKeyWebIdentityTokenFile,
             ad_valueDriftDetection = valueDriftDetection \<rparr>
       in andThen (validateEndpointOptions parseURL options) (\<lambda>_.
          andThen (validateAuthOptions options) (\<lambda>_. Inr options))))"

definition awsValidateConfig ::
    "(string \<Rightarrow> parsedURL option) \<Rightarrow> providerDestinationConfig \<Rightarrow> providerError + unit" where
  "awsValidateConfig parseURL cfg =
     (if trimSpace (dc_Name cfg) = [] then Inl (validationError ''aws-sm destination name must not be empty'')
      else andThen (awsDestinationOptionsFromConfig parseURL (dc_Config cfg)) (\<lambda>_. Inr ()))"

section \<open>Options of an association\<close>

text \<open>The only option: the recovery window in days.\<close>

definition awsAssociationOptionsFromConfig :: "(string \<times> string) list \<Rightarrow> providerError + int" where
  "awsAssociationOptionsFromConfig config =
     andThen (awsUnsupportedKey ''association'' [ConfigKeyDeleteRecoveryWindowDays] config) (\<lambda>_.
       let v = trimSpace (mapGet config ConfigKeyDeleteRecoveryWindowDays)
       in if v = [] then Inr defaultDeleteRecoveryWindowDays
          else (case atoi v of
                  None \<Rightarrow> Inl (validationError ''aws-sm delete_recovery_window_days must be an integer'')
                | Some days \<Rightarrow>
                    if days < minDeleteRecoveryWindowDays \<or> maxDeleteRecoveryWindowDays < days
                    then Inl (validationError ''aws-sm delete_recovery_window_days must be between 7 and 30'')
                    else Inr days))"

definition awsOptionsConfig :: "int \<Rightarrow> (string \<times> string) list" where
  "awsOptionsConfig days = [(ConfigKeyDeleteRecoveryWindowDays, itoa days)]"

definition awsNormalizeAssociationConfig :: "associationConfig \<Rightarrow> providerError + associationConfig" where
  "awsNormalizeAssociationConfig cfg =
     andThen (awsAssociationOptionsFromConfig (ac_Config cfg)) (\<lambda>days.
       Inr \<lparr> ac_Config = awsOptionsConfig days, ac_Identity = [] \<rparr>)"

section \<open>Opening a destination\<close>

definition validateEndpointResolution ::
    "(string \<Rightarrow> parsedURL option) \<Rightarrow> 's resolver \<Rightarrow> awsDestinationOptions \<Rightarrow> 's \<Rightarrow>
     (providerError + unit) \<times> 's" where
  "validateEndpointResolution parseURL resolver options s =
     (if ad_endpointURL options = [] \<or> ad_endpointPolicy options \<noteq> EndpointPolicyPrivate then (Inr (), s)
      else (case parseURL (ad_endpointURL options) of
          None \<Rightarrow> (Inl (validationError ''aws-sm endpoint_url must be a valid URL''), s)
        | Some parsed \<Rightarrow>
            (let host = NormalizeHost (pu_Hostname parsed);
                 refused = ''aws-sm private endpoint_url must resolve only to private addresses''
             in if host = [] then (Inl (validationError ''aws-sm endpoint_url must include a host''), s)
                else (case ParseAddr host of
                    Some addr \<Rightarrow>
                      (if \<not> isPrivateEndpointAddr addr then Inl (validationError refused) else Inr (), s)
                  | None \<Rightarrow> checkResolution resolver isPrivateEndpointAddr
                      ''aws-sm private endpoint_url DNS lookup failed''
                      ''aws-sm private endpoint_url DNS lookup returned no addresses'' refused host s))))"

text \<open>Which addresses the client of a destination may dial; \<open>None\<close> is the default transport.\<close>

definition awsDialPolicy :: "awsDestinationOptions \<Rightarrow> (netAddr \<Rightarrow> bool) option" where
  "awsDialPolicy options =
     (if ad_endpointURL options = [] then None
      else if ad_endpointPolicy options = EndpointPolicyLocal
      then Some (\<lambda>addr. isLoopback (unmapAddr addr) \<or> isPrivate (unmapAddr addr))
      else if ad_endpointPolicy options = EndpointPolicyPrivate then Some isPrivateEndpointAddr
      else None)"

text \<open>
  The client that is built: its credentials, the endpoint it talks to if it is not the default one, and its
  dial policy. Loading the default configuration of a region is an argument.
\<close>

datatype awsCredentials =
    DefaultCredentials
  | AssumeRole string "string option" "string option"
  | WebIdentity string string "string option"

record awsClientConfig =
  cc_Credentials :: awsCredentials
  cc_BaseEndpoint :: "string option"
  cc_Dial :: "(netAddr \<Rightarrow> bool) option"

definition nonempty :: "string \<Rightarrow> string option" where
  "nonempty s = (if s \<noteq> [] then Some s else None)"

definition awsClientConfigFor :: "awsDestinationOptions \<Rightarrow> awsClientConfig" where
  "awsClientConfigFor options =
     \<lparr> cc_Credentials =
         (if ad_authMode options = AuthModeAssumeRole
          then AssumeRole (ad_roleARN options) (nonempty (ad_externalID options)) (nonempty (ad_sessionName options))
          else if ad_authMode options = AuthModeWebIdentity
          then WebIdentity (ad_roleARN options) (ad_webIdentityTokenFile options) (nonempty (ad_sessionName options))
          else DefaultCredentials),
       cc_BaseEndpoint = nonempty (ad_endpointURL options), cc_Dial = awsDialPolicy options \<rparr>"

definition awsDefaultClientFactory ::
    "(string \<Rightarrow> parsedURL option) \<Rightarrow> 's resolver \<Rightarrow> (string option \<Rightarrow> ('s, unit) netop) \<Rightarrow>
     (string \<times> string) list \<Rightarrow> 's \<Rightarrow> (providerError + awsClientConfig) \<times> 's" where
  "awsDefaultClientFactory parseURL resolver load config s =
     (case awsDestinationOptionsFromConfig parseURL config of
        Inl e \<Rightarrow> (Inl e, s)
      | Inr options \<Rightarrow>
          (case validateEndpointResolution parseURL resolver options s of
             (Inl e, s) \<Rightarrow> (Inl e, s)
           | (Inr _, s) \<Rightarrow>
               (case load (nonempty (ad_region options)) s of
                  (Inl e, s) \<Rightarrow> (Inl (PlainError ''load configuration''), s)
                | (Inr _, s) \<Rightarrow> (Inr (awsClientConfigFor options), s))))"

text \<open>\<open>OpenDestination\<close>: the factory makes the client of the runtime.\<close>

definition awsOpenDestination ::
    "(string \<Rightarrow> parsedURL option) \<Rightarrow> ((string \<times> string) list \<Rightarrow> 's \<Rightarrow> (providerError + 'client) \<times> 's) \<Rightarrow>
     providerDestinationConfig \<Rightarrow> 's \<Rightarrow> (providerError + 'client \<times> awsDestinationOptions) \<times> 's" where
  "awsOpenDestination parseURL factory cfg s =
     (case awsDestinationOptionsFromConfig parseURL (dc_Config cfg) of
        Inl e \<Rightarrow> (Inl e, s)
      | Inr options \<Rightarrow>
          (case factory (dc_Config cfg) s of
             (Inl e, s) \<Rightarrow> (Inl (requestFailed awsProviderType (setupErrorClass e)), s)
           | (Inr client, s) \<Rightarrow> (Inr (client, options), s)))"

end
