(* ===== verification/AWS_Provider.thy ===== *)
theory AWS_Provider
  imports AWS_Options
begin

text \<open>
  The operations of the AWS Secrets Manager provider
  (\<open>internal/providers/awssecretsmanager/provider.go\<close>) over the interface \<open>secretsManagerClient\<close>, which is
  an argument: an operation of the client changes the state (the account) in any way before it answers.
\<close>

definition tagManaged :: string where "tagManaged = ''openbao-sync''"
definition tagAssociationID :: string where "tagAssociationID = ''openbao-sync-association''"
definition tagSourcePath :: string where "tagSourcePath = ''openbao-sync-path''"
definition tagSourceVersion :: string where "tagSourceVersion = ''openbao-sync-version''"
definition tagObjectID :: string where "tagObjectID = ''openbao-sync-object''"
definition tagPayloadSHA256 :: string where "tagPayloadSHA256 = ''openbao-sync-payload-sha256''"
definition tagMountUUID :: string where "tagMountUUID = ''openbao-sync-mount-uuid''"
definition tagRestoreEpoch :: string where "tagRestoreEpoch = ''openbao-sync-restore-epoch''"

lemmas aws_tags =
  tagManaged_def tagAssociationID_def tagSourcePath_def tagSourceVersion_def tagObjectID_def
  tagPayloadSHA256_def tagMountUUID_def tagRestoreEpoch_def

section \<open>Errors\<close>

text \<open>An error is its chain; the service reports an error code.\<close>

type_synonym awsError = "string errorLink list"

definition awsErrorCode :: "awsError \<Rightarrow> string option" where
  "awsErrorCode e = firstLink el_api e"

definition isResourceNotFound :: "awsError \<Rightarrow> bool" where
  "isResourceNotFound e \<longleftrightarrow> awsErrorCode e = Some ''ResourceNotFoundException''"

definition classifyAWSCode :: "string \<Rightarrow> string" where
  "classifyAWSCode code =
     (if code \<in> set [''ThrottlingException'', ''TooManyRequestsException'', ''LimitExceededException'']
      then ErrorClassRateLimit
      else if code \<in> set [''InternalServiceError'', ''ServiceUnavailableException'', ''RequestTimeout'',
                         ''RequestTimeoutException'']
      then ErrorClassUnavailable
      else if code \<in> set [''UnrecognizedClientException'', ''InvalidSignatureException''] then ErrorClassAuthn
      else if code = ''AccessDeniedException'' then ErrorClassAuthz
      else if code \<in> set [''InvalidParameterException'', ''InvalidRequestException'',
                         ''MalformedPolicyDocumentException'', ''PreconditionNotMetException'',
                         ''ResourceNotFoundException'']
      then ErrorClassValidation
      else if code = ''ResourceExistsException'' then ErrorClassCollision
      else ErrorClassInternal)"

definition classifyAWSError :: "awsError \<Rightarrow> string" where
  "classifyAWSError e =
     (case classifyTransportChain e of
        Some errorClass \<Rightarrow> errorClass
      | None \<Rightarrow> (case awsErrorCode e of None \<Rightarrow> ErrorClassInternal | Some code \<Rightarrow> classifyAWSCode code))"

definition awsFailed :: "string \<Rightarrow> providerError" where
  "awsFailed errorClass = requestFailed awsProviderType errorClass"

section \<open>The client\<close>

text \<open>A nil string of the SDK is the empty one; \<open>de_Deleted\<close> tells whether a deletion date is set.\<close>

record describeSecretOutput =
  de_ARN :: string
  de_Deleted :: bool
  de_Tags :: "(string \<times> string) list"
  de_VersionIdsToStages :: "(string \<times> string list) list"

record getSecretValueOutput =
  gs_SecretString :: "string option"
  gs_SecretBinary :: string

record createSecretInput =
  ci_Name :: string
  ci_SecretString :: string
  ci_ClientRequestToken :: string
  ci_Tags :: "(string \<times> string) list"

record putSecretValueInput =
  pi_SecretId :: string
  pi_SecretString :: string
  pi_ClientRequestToken :: string

record 's secretsManagerClient =
  sm_DescribeSecret :: "string \<Rightarrow> 's \<Rightarrow> (awsError + describeSecretOutput) \<times> 's"
  sm_GetSecretValue :: "string \<Rightarrow> 's \<Rightarrow> (awsError + getSecretValueOutput) \<times> 's"
  sm_CreateSecret :: "createSecretInput \<Rightarrow> 's \<Rightarrow> (awsError + string) \<times> 's"
  sm_PutSecretValue :: "putSecretValueInput \<Rightarrow> 's \<Rightarrow> (awsError + string) \<times> 's"
  sm_DeleteSecret :: "string \<Rightarrow> int \<Rightarrow> 's \<Rightarrow> (awsError + string) \<times> 's"
  sm_RestoreSecret :: "string \<Rightarrow> 's \<Rightarrow> (awsError + unit) \<times> 's"
  sm_TagResource :: "string \<Rightarrow> (string \<times> string) list \<Rightarrow> 's \<Rightarrow> (awsError + unit) \<times> 's"
  sm_ListSecrets :: "int \<Rightarrow> 's \<Rightarrow> (awsError + unit) \<times> 's"

text \<open>An SDK call whose failure is the failure of the operation.\<close>

definition awsCall ::
    "('s \<Rightarrow> (awsError + 'a) \<times> 's) \<Rightarrow> ('a \<Rightarrow> 's \<Rightarrow> (providerError + 'b) \<times> 's) \<Rightarrow> 's \<Rightarrow>
     (providerError + 'b) \<times> 's" where
  "awsCall f k s =
     (case f s of (Inl e, s) \<Rightarrow> (Inl (awsFailed (classifyAWSError e)), s) | (Inr a, s) \<Rightarrow> k a s)"

section \<open>Tags\<close>

fun tagValue :: "(string \<times> string) list \<Rightarrow> string \<Rightarrow> string" where
  "tagValue [] key = []"
| "tagValue ((k, v) # tags) key = (if k = key then v else tagValue tags key)"

definition ownershipTagsFromUpsert :: "upsertRequest \<Rightarrow> (string \<times> string) list" where
  "ownershipTagsFromUpsert req =
     [(tagManaged, ''true''), (tagAssociationID, ur_AssociationID req), (tagSourcePath, ur_SourcePath req),
      (tagSourceVersion, itoa (ur_SourceVersion req)), (tagObjectID, ur_ObjectID req),
      (tagPayloadSHA256, ur_PayloadSHA256 req)] @
     (if ri_MountUUID (ur_Runtime req) \<noteq> [] then [(tagMountUUID, ri_MountUUID (ur_Runtime req))] else []) @
     (if ri_RestoreEpoch (ur_Runtime req) \<noteq> [] then [(tagRestoreEpoch, ri_RestoreEpoch (ur_Runtime req))] else [])"

definition requiredTagMatches :: "(string \<times> string) list \<Rightarrow> string \<Rightarrow> string \<Rightarrow> bool" where
  "requiredTagMatches tags key expected \<longleftrightarrow> expected \<noteq> [] \<and> tagValue tags key = expected"

definition runtimeTagMatches :: "(string \<times> string) list \<Rightarrow> string \<Rightarrow> string \<Rightarrow> bool" where
  "runtimeTagMatches tags key expected \<longleftrightarrow> expected \<noteq> [] \<and> tagValue tags key = expected"

definition awsOwnedByRequest :: "(string \<times> string) list \<Rightarrow> requestIdentity \<Rightarrow> bool" where
  "awsOwnedByRequest tags identity \<longleftrightarrow>
     tagValue tags tagManaged = ''true'' \<and>
     requiredTagMatches tags tagAssociationID (id_AssociationID identity) \<and>
     requiredTagMatches tags tagSourcePath (id_SourcePath identity) \<and>
     requiredTagMatches tags tagObjectID (id_ObjectID identity) \<and>
     runtimeTagMatches tags tagMountUUID (id_MountUUID identity) \<and>
     runtimeTagMatches tags tagRestoreEpoch (id_RestoreEpoch identity)"

definition remoteSourceVersion :: "(string \<times> string) list \<Rightarrow> int option" where
  "remoteSourceVersion tags = atoi (tagValue tags tagSourceVersion)"

definition awsRemoteSourceVersionNewer :: "(string \<times> string) list \<Rightarrow> int \<Rightarrow> bool" where
  "awsRemoteSourceVersionNewer tags sourceVersion =
     (if sourceVersion \<le> 0 then False
      else (case remoteSourceVersion tags of None \<Rightarrow> False | Some v \<Rightarrow> sourceVersion < v))"

definition remoteSourceVersionMatches :: "(string \<times> string) list \<Rightarrow> int \<Rightarrow> bool" where
  "remoteSourceVersionMatches tags sourceVersion =
     (if sourceVersion \<le> 0 then True else remoteSourceVersion tags = Some sourceVersion)"

section \<open>Values, versions and tokens\<close>

definition awsPayloadSHA256 :: "(string \<Rightarrow> string) \<Rightarrow> string \<Rightarrow> string" where
  "awsPayloadSHA256 sha payload = ''sha256:'' @ hexEncode (sha payload)"

definition secretValuePayloadSHA256 :: "(string \<Rightarrow> string) \<Rightarrow> getSecretValueOutput \<Rightarrow> string" where
  "secretValuePayloadSHA256 sha v =
     (case gs_SecretString v of
        Some s \<Rightarrow> awsPayloadSHA256 sha s
      | None \<Rightarrow> awsPayloadSHA256 sha (gs_SecretBinary v))"

definition remotePayloadSHA256 ::
    "(string \<Rightarrow> string) \<Rightarrow> 's secretsManagerClient \<Rightarrow> string \<Rightarrow> 's \<Rightarrow> (awsError + string) \<times> 's" where
  "remotePayloadSHA256 sha C secretID s =
     (case sm_GetSecretValue C secretID s of
        (Inl e, s) \<Rightarrow> (Inl e, s)
      | (Inr v, s) \<Rightarrow> (Inr (secretValuePayloadSHA256 sha v), s))"

definition awsPayloadMatchesRequest ::
    "(string \<Rightarrow> string) \<Rightarrow> 's secretsManagerClient \<Rightarrow> awsDestinationOptions \<Rightarrow> (string \<times> string) list \<Rightarrow>
     string \<Rightarrow> string \<Rightarrow> 's \<Rightarrow> (awsError + bool) \<times> 's" where
  "awsPayloadMatchesRequest sha C options tags secretID hash s =
     (if \<not> ad_valueDriftDetection options then (Inr (tagValue tags tagPayloadSHA256 = hash), s)
      else (case remotePayloadSHA256 sha C secretID s of
              (Inl e, s) \<Rightarrow> (Inl e, s)
            | (Inr live, s) \<Rightarrow> (Inr (live = hash), s)))"

definition describedSecretID :: "describeSecretOutput \<Rightarrow> providerError + string" where
  "describedSecretID describe =
     (let secretID = trimSpace (de_ARN describe)
      in if secretID = [] then Inl (awsFailed ErrorClassInternal) else Inr secretID)"

definition currentVersionID :: "describeSecretOutput \<Rightarrow> string" where
  "currentVersionID describe =
     (case find (\<lambda>(versionID, stages). ''AWSCURRENT'' \<in> set stages) (de_VersionIdsToStages describe) of
        Some (versionID, stages) \<Rightarrow> versionID
      | None \<Rightarrow> [])"

definition idempotencyToken :: "(string \<Rightarrow> string) \<Rightarrow> string list \<Rightarrow> string" where
  "idempotencyToken sha parts = hexEncode (take 16 (sha (joinStrings '':'' parts)))"

definition mutationIdempotencyToken :: "(string \<Rightarrow> string) \<Rightarrow> string \<Rightarrow> upsertRequest \<Rightarrow> string" where
  "mutationIdempotencyToken sha operation req =
     (if ur_IdempotencyKey req \<noteq> []
      then idempotencyToken sha [operation, ur_ResolvedName req, ur_IdempotencyKey req]
      else idempotencyToken sha [operation, ur_ResolvedName req, ur_PayloadSHA256 req])"

section \<open>Health and plan\<close>

definition awsHealth :: "'s secretsManagerClient \<Rightarrow> 's \<Rightarrow> healthResult \<times> 's" where
  "awsHealth C s =
     (case sm_ListSecrets C 1 s of
        (Inl e, s) \<Rightarrow> (\<lparr> hr_Healthy = False, hr_Message = ''aws-sm health check failed'',
                        hr_ErrorClass = classifyAWSError e \<rparr>, s)
      | (Inr _, s) \<Rightarrow> (\<lparr> hr_Healthy = True, hr_Message = [], hr_ErrorClass = [] \<rparr>, s))"

definition messagePlan :: "string \<Rightarrow> string \<Rightarrow> planResult" where
  "messagePlan action message = \<lparr> pr_Action = action, pr_Message = message, pr_ErrorClass = [] \<rparr>"

definition awsPlanMatching :: "planRequest \<Rightarrow> describeSecretOutput \<Rightarrow> bool \<Rightarrow> planResult" where
  "awsPlanMatching req describe payloadMatches =
     (if payloadMatches
      then (if tagValue (de_Tags describe) tagPayloadSHA256 = pq_PayloadSHA256 req \<and>
               remoteSourceVersionMatches (de_Tags describe) (pq_SourceVersion req)
            then messagePlan PlanActionNoop ''aws-sm secret already matches desired payload and metadata''
            else messagePlan PlanActionUpdate ''aws-sm secret metadata differs and will be refreshed'')
      else messagePlan PlanActionUpdate ''aws-sm secret payload differs and will be updated'')"

definition awsPlanExisting ::
    "(string \<Rightarrow> string) \<Rightarrow> 's secretsManagerClient \<Rightarrow> awsDestinationOptions \<Rightarrow> planRequest \<Rightarrow>
     describeSecretOutput \<Rightarrow> 's \<Rightarrow> planResult \<times> 's" where
  "awsPlanExisting sha C options req describe s =
     (let tags = de_Tags describe
      in if \<not> awsOwnedByRequest tags (planIdentity req)
         then (\<lparr> pr_Action = PlanActionConflict,
                 pr_Message = (if de_Deleted describe
                   then ''aws-sm secret is scheduled for deletion but is not owned by this association''
                   else ''aws-sm secret exists but is not owned by this association''),
                 pr_ErrorClass = ErrorClassCollision \<rparr>, s)
         else if awsRemoteSourceVersionNewer tags (pq_SourceVersion req)
         then (\<lparr> pr_Action = PlanActionBlocked, pr_Message = ''aws-sm secret has newer managed source version'',
                 pr_ErrorClass = ErrorClassDrift \<rparr>, s)
         else if de_Deleted describe
         then (messagePlan PlanActionUpdate
                 ''aws-sm secret is scheduled for deletion and will be restored before upsert'', s)
         else (case if ad_valueDriftDetection options then describedSecretID describe
                    else Inr (pq_ResolvedName req) of
                 Inl e \<Rightarrow> (providerBlockedPlan awsProviderType ErrorClassInternal, s)
               | Inr secretID \<Rightarrow>
                   (case awsPayloadMatchesRequest sha C options tags secretID (pq_PayloadSHA256 req) s of
                      (Inl e, s) \<Rightarrow> (providerBlockedPlan awsProviderType (classifyAWSError e), s)
                    | (Inr payloadMatches, s) \<Rightarrow> (awsPlanMatching req describe payloadMatches, s))))"

definition awsPlan ::
    "(string \<Rightarrow> string) \<Rightarrow> 's secretsManagerClient \<Rightarrow> awsDestinationOptions \<Rightarrow> planRequest \<Rightarrow> 's \<Rightarrow>
     planResult \<times> 's" where
  "awsPlan sha C options req s =
     (case sm_DescribeSecret C (pq_ResolvedName req) s of
        (Inl e, s) \<Rightarrow>
          (if isResourceNotFound e
           then messagePlan PlanActionCreate ''aws-sm secret is missing and will be created''
           else providerBlockedPlan awsProviderType (classifyAWSError e), s)
      | (Inr describe, s) \<Rightarrow> awsPlanExisting sha C options req describe s)"

section \<open>Upsert\<close>

definition awsCreateSecret ::
    "(string \<Rightarrow> string) \<Rightarrow> 's secretsManagerClient \<Rightarrow> upsertRequest \<Rightarrow> 's \<Rightarrow>
     (providerError + syncResult) \<times> 's" where
  "awsCreateSecret sha C req =
     awsCall (sm_CreateSecret C \<lparr> ci_Name = ur_ResolvedName req, ci_SecretString = ur_Payload req,
         ci_ClientRequestToken = mutationIdempotencyToken sha ''create'' req, ci_Tags = ownershipTagsFromUpsert req \<rparr>)
       (\<lambda>version s. (Inr \<lparr> sr_RemoteVersion = version \<rparr>, s))"

definition restoreSecretIfScheduled ::
    "'s secretsManagerClient \<Rightarrow> describeSecretOutput \<Rightarrow> string \<Rightarrow> 's \<Rightarrow> (providerError + unit) \<times> 's" where
  "restoreSecretIfScheduled C describe secretID s =
     (if \<not> de_Deleted describe then (Inr (), s)
      else awsCall (sm_RestoreSecret C secretID) (\<lambda>_ s. (Inr (), s)) s)"

text \<open>What an upsert does once the secret is known to be the request's and restored.\<close>

definition awsRefreshTags ::
    "'s secretsManagerClient \<Rightarrow> upsertRequest \<Rightarrow> describeSecretOutput \<Rightarrow> string \<Rightarrow> 's \<Rightarrow>
     (providerError + syncResult) \<times> 's" where
  "awsRefreshTags C req describe secretID s =
     (let unchanged = \<lparr> sr_RemoteVersion = currentVersionID describe \<rparr>
      in if tagValue (de_Tags describe) tagPayloadSHA256 \<noteq> ur_PayloadSHA256 req \<or>
            \<not> remoteSourceVersionMatches (de_Tags describe) (ur_SourceVersion req)
         then awsCall (sm_TagResource C secretID (ownershipTagsFromUpsert req)) (\<lambda>_ s. (Inr unchanged, s)) s
         else (Inr unchanged, s))"

definition awsPutPayload ::
    "(string \<Rightarrow> string) \<Rightarrow> 's secretsManagerClient \<Rightarrow> upsertRequest \<Rightarrow> string \<Rightarrow> 's \<Rightarrow>
     (providerError + syncResult) \<times> 's" where
  "awsPutPayload sha C req secretID =
     awsCall (sm_PutSecretValue C \<lparr> pi_SecretId = secretID, pi_SecretString = ur_Payload req,
         pi_ClientRequestToken = mutationIdempotencyToken sha ''put'' req \<rparr>)
       (\<lambda>version. awsCall (sm_TagResource C secretID (ownershipTagsFromUpsert req))
         (\<lambda>_ s. (Inr \<lparr> sr_RemoteVersion = version \<rparr>, s)))"

definition awsUpsertExisting ::
    "(string \<Rightarrow> string) \<Rightarrow> 's secretsManagerClient \<Rightarrow> awsDestinationOptions \<Rightarrow> upsertRequest \<Rightarrow>
     describeSecretOutput \<Rightarrow> 's \<Rightarrow> (providerError + syncResult) \<times> 's" where
  "awsUpsertExisting sha C options req describe s =
     (let tags = de_Tags describe
      in if \<not> awsOwnedByRequest tags (upsertIdentity req) then (Inl (awsFailed ErrorClassOwnership), s)
         else if awsRemoteSourceVersionNewer tags (ur_SourceVersion req)
         then (Inl (awsFailed ErrorClassDrift), s)
         else (case describedSecretID describe of
                 Inl e \<Rightarrow> (Inl e, s)
               | Inr secretID \<Rightarrow>
                   (case restoreSecretIfScheduled C describe secretID s of
                      (Inl e, s) \<Rightarrow> (Inl e, s)
                    | (Inr _, s) \<Rightarrow>
                        awsCall (awsPayloadMatchesRequest sha C options tags secretID (ur_PayloadSHA256 req))
                          (\<lambda>valueMatches. if valueMatches then awsRefreshTags C req describe secretID
                             else awsPutPayload sha C req secretID) s)))"

definition awsUpsert ::
    "(string \<Rightarrow> string) \<Rightarrow> 's secretsManagerClient \<Rightarrow> awsDestinationOptions \<Rightarrow> upsertRequest \<Rightarrow> 's \<Rightarrow>
     (providerError + syncResult) \<times> 's" where
  "awsUpsert sha C options req s =
     (if secretValueMaxBytes < int (length (ur_Payload req)) then (Inl (awsFailed ErrorClassCapacity), s)
      else (case sm_DescribeSecret C (ur_ResolvedName req) s of
              (Inl e, s) \<Rightarrow>
                if isResourceNotFound e then awsCreateSecret sha C req s
                else (Inl (awsFailed (classifyAWSError e)), s)
            | (Inr describe, s) \<Rightarrow> awsUpsertExisting sha C options req describe s))"

section \<open>Delete and state\<close>

definition awsDelete ::
    "'s secretsManagerClient \<Rightarrow> deleteRequest \<Rightarrow> 's \<Rightarrow> (providerError + syncResult) \<times> 's" where
  "awsDelete C req s =
     (case awsAssociationOptionsFromConfig (ac_Config (dr_Association req)) of
        Inl e \<Rightarrow> (Inl e, s)
      | Inr days \<Rightarrow>
          (case sm_DescribeSecret C (dr_ResolvedName req) s of
             (Inl e, s) \<Rightarrow>
               if isResourceNotFound e then (Inr \<lparr> sr_RemoteVersion = ''missing'' \<rparr>, s)
               else (Inl (awsFailed (classifyAWSError e)), s)
           | (Inr describe, s) \<Rightarrow>
               if \<not> awsOwnedByRequest (de_Tags describe) (deleteIdentity req)
               then (Inl (awsFailed ErrorClassOwnership), s)
               else if de_Deleted describe then (Inr \<lparr> sr_RemoteVersion = ''scheduled'' \<rparr>, s)
               else if awsRemoteSourceVersionNewer (de_Tags describe) (dr_SourceVersion req)
               then (Inl (awsFailed ErrorClassDrift), s)
               else (case describedSecretID describe of
                       Inl e \<Rightarrow> (Inl e, s)
                     | Inr secretID \<Rightarrow>
                         awsCall (sm_DeleteSecret C secretID days)
                           (\<lambda>arn s. (Inr \<lparr> sr_RemoteVersion = arn \<rparr>, s)) s)))"

definition awsReadState ::
    "(string \<Rightarrow> string) \<Rightarrow> 's secretsManagerClient \<Rightarrow> awsDestinationOptions \<Rightarrow> readStateRequest \<Rightarrow> 's \<Rightarrow>
     (providerError + remoteState) \<times> 's" where
  "awsReadState sha C options req s =
     (case sm_DescribeSecret C (rr_ResolvedName req) s of
        (Inl e, s) \<Rightarrow>
          if isResourceNotFound e then (Inr zeroRemoteState, s)
          else (Inl (awsFailed (classifyAWSError e)), s)
      | (Inr describe, s) \<Rightarrow>
          if de_Deleted describe then (Inr zeroRemoteState, s)
          else (let tags = de_Tags describe;
                    owned = awsOwnedByRequest tags (readStateIdentity req);
                    state = \<lparr> rs_Exists = True, rs_OwnershipKnown = identityComplete (readStateIdentity req),
                      rs_Owned = owned, rs_PayloadSHA256 = tagValue tags tagPayloadSHA256,
                      rs_SourceVersion = atoiValue (tagValue tags tagSourceVersion),
                      rs_RemoteVersion = currentVersionID describe,
                      rs_Verification = RemoteStateVerificationMetadata \<rparr>
                in if owned \<and> ad_valueDriftDetection options
                   then (case describedSecretID describe of
                           Inl e \<Rightarrow> (Inl e, s)
                         | Inr secretID \<Rightarrow>
                             awsCall (remotePayloadSHA256 sha C secretID)
                               (\<lambda>hash s. (Inr (state \<lparr> rs_PayloadSHA256 := hash,
                                    rs_Verification := RemoteStateVerificationValue \<rparr>), s)) s)
                   else (Inr state, s)))"

end
