(* ===== verification/AWS_Server.thy ===== *)
theory AWS_Server
  imports AWS_Provider Provider_Requests Go_Trim "HOL-Library.AList"
begin

text \<open>
  What the AWS provider relies on of Secrets Manager, as the laws of its client: secrets are described by
  name and changed by ARN, a new value keeps the tags, tagging replaces the values of the given keys, and a
  restored secret is as it was before its deletion was scheduled. An account in memory satisfies them.
\<close>

record awsSecret =
  as_Tags :: "(string \<times> string) list"
  as_Value :: string
  as_Deleted :: bool

text \<open>What a secret must have for a state read of a request to find it synced.\<close>

definition synced ::
    "(string \<Rightarrow> string) \<Rightarrow> bool \<Rightarrow> upsertRequest \<Rightarrow> awsSecret \<Rightarrow> bool" where
  "synced sha byValue req v \<longleftrightarrow> \<not> as_Deleted v \<and> awsOwnedByRequest (as_Tags v) (upsertIdentity req) \<and>
     tagValue (as_Tags v) tagPayloadSHA256 = ur_PayloadSHA256 req \<and>
     remoteSourceVersion (as_Tags v) = Some (ur_SourceVersion req) \<and>
     (if byValue then awsPayloadSHA256 sha (as_Value v) = ur_PayloadSHA256 req else True)"

lemma synced_tags:
  assumes "identityComplete (upsertIdentity req)" and "inInt64 (ur_SourceVersion req)"
    and "tagValue (as_Tags v) = tagValue (ownershipTagsFromUpsert req @ ts)" and "\<not> as_Deleted v"
    and "if byValue then awsPayloadSHA256 sha (as_Value v) = ur_PayloadSHA256 req else True"
  shows "synced sha byValue req v"
  using assms
  by (simp add: synced_def awsOwnedByRequest_def requiredTagMatches_def runtimeTagMatches_def
      remoteSourceVersion_def ownershipTagsFromUpsert_def aws_tags identityComplete_def identity_defs atoi_itoa)

locale secrets_account =
  fixes C :: "'s secretsManagerClient"
    and arn :: "string \<Rightarrow> string"
    and account :: "'s \<Rightarrow> string \<Rightarrow> awsSecret option"
  assumes arn_trim: "trimSpace (arn n) = arn n"
    and arn_nonempty: "arn n \<noteq> []"
    and describe_same: "sm_DescribeSecret C n s = (rd, s') \<Longrightarrow> account s' = account s"
    and describe_found: "sm_DescribeSecret C n s = (Inr d, s') \<Longrightarrow> \<exists>v. account s n = Some v \<and>
      de_ARN d = arn n \<and> de_Tags d = as_Tags v \<and> de_Deleted d = as_Deleted v"
    and describe_missing: "sm_DescribeSecret C n s = (Inl e, s') \<Longrightarrow> isResourceNotFound e \<Longrightarrow> account s n = None"
    and value_same: "sm_GetSecretValue C i s = (rv, s') \<Longrightarrow> account s' = account s"
    and value_found: "sm_GetSecretValue C (arn n) s = (Inr out, s') \<Longrightarrow> account s n = Some x \<Longrightarrow>
      gs_SecretString out = Some (as_Value x) \<or> gs_SecretString out = None \<and> gs_SecretBinary out = as_Value x"
    and create_done: "sm_CreateSecret C ci s = (Inr ver, s') \<Longrightarrow> \<exists>v. account s' (ci_Name ci) = Some v \<and>
      tagValue (as_Tags v) = tagValue (ci_Tags ci) \<and> as_Value v = ci_SecretString ci \<and> \<not> as_Deleted v"
    and put_done: "sm_PutSecretValue C pi s = (Inr ver, s') \<Longrightarrow> pi_SecretId pi = arn n \<Longrightarrow> account s n = Some v \<Longrightarrow>
      account s' n = Some (v \<lparr> as_Value := pi_SecretString pi \<rparr>)"
    and restore_done: "sm_RestoreSecret C (arn n) s = (Inr u, s') \<Longrightarrow> account s n = Some v \<Longrightarrow>
      account s' n = Some (v \<lparr> as_Deleted := False \<rparr>)"
    and tag_done: "sm_TagResource C (arn n) ts s = (Inr u, s') \<Longrightarrow> account s n = Some v \<Longrightarrow>
      \<exists>w. account s' n = Some w \<and> as_Value w = as_Value v \<and> as_Deleted w = as_Deleted v \<and>
        tagValue (as_Tags w) = tagValue (ts @ as_Tags v)"
begin

lemma described_id:
  assumes "sm_DescribeSecret C n s = (Inr d, s')"
  shows "describedSecretID d = Inr (arn n)"
  using describe_found [OF assms] by (auto simp: describedSecretID_def arn_trim arn_nonempty)

lemma matches_value:
  assumes "awsPayloadMatchesRequest sha C options tags (arn n) hash s = (Inr b, s')" and "account s n = Some x"
  shows "account s' = account s" and "b \<Longrightarrow> ad_valueDriftDetection options \<Longrightarrow> awsPayloadSHA256 sha (as_Value x) = hash"
    and "\<not> ad_valueDriftDetection options \<Longrightarrow> b \<longleftrightarrow> tagValue tags tagPayloadSHA256 = hash"
proof -
  obtain q t where g: "sm_GetSecretValue C (arn n) s = (q, t)" by (cases "sm_GetSecretValue C (arn n) s")
  show "account s' = account s"
    using assms(1) g value_same [OF g]
    by (cases q) (auto simp: awsPayloadMatchesRequest_def remotePayloadSHA256_def split: if_splits)
  show "b \<Longrightarrow> ad_valueDriftDetection options \<Longrightarrow> awsPayloadSHA256 sha (as_Value x) = hash"
    using assms g value_found [of n s _ t x]
    by (cases q) (auto simp: awsPayloadMatchesRequest_def remotePayloadSHA256_def secretValuePayloadSHA256_def
        split: option.splits)
  show "\<not> ad_valueDriftDetection options \<Longrightarrow> b \<longleftrightarrow> tagValue tags tagPayloadSHA256 = hash"
    using assms(1) by (auto simp: awsPayloadMatchesRequest_def)
qed

lemma restored:
  assumes "restoreSecretIfScheduled C d (arn n) s = (Inr u, s')" and "account s n = Some v" and "de_Deleted d = as_Deleted v"
  shows "account s' n = Some (v \<lparr> as_Deleted := False \<rparr>)"
proof (cases "de_Deleted d")
  case True
  obtain q t where r: "sm_RestoreSecret C (arn n) s = (q, t)" by (cases "sm_RestoreSecret C (arn n) s")
  show ?thesis
    using assms True r restore_done [of n s _ t v]
    by (cases q) (auto simp: restoreSecretIfScheduled_def awsCall_def)
next
  case False
  then show ?thesis using assms by (simp add: restoreSecretIfScheduled_def)
qed

text \<open>A successful upsert of an existing secret leaves it synced.\<close>

lemma upsert_existing:
  assumes id: "identityComplete (upsertIdentity req)" and version: "0 < ur_SourceVersion req" "inInt64 (ur_SourceVersion req)"
    and hash: "ur_PayloadSHA256 req = awsPayloadSHA256 sha (ur_Payload req)"
    and d: "account s (ur_ResolvedName req) = Some v" "de_Tags d = as_Tags v" "de_Deleted d = as_Deleted v"
      "describedSecretID d = Inr (arn (ur_ResolvedName req))"
    and up: "awsUpsertExisting sha C options req d s = (Inr result, s')"
  shows "\<exists>w. account s' (ur_ResolvedName req) = Some w \<and> synced sha (ad_valueDriftDetection options) req w"
proof -
  let ?n = "ur_ResolvedName req"
  have owned: "awsOwnedByRequest (as_Tags v) (upsertIdentity req)"
    using up d by (auto simp: awsUpsertExisting_def Let_def split: if_splits)
  obtain r1 s1 where rest: "restoreSecretIfScheduled C d (arn ?n) s = (r1, s1)"
    by (cases "restoreSecretIfScheduled C d (arn ?n) s")
  obtain u where u: "r1 = Inr u"
    using up d rest by (cases r1) (auto simp: awsUpsertExisting_def Let_def split: if_splits)
  let ?v = "v \<lparr> as_Deleted := False \<rparr>"
  have v1: "account s1 ?n = Some ?v"
    using restored [of d ?n s u s1 v] rest u d by simp
  obtain m s2 where match: "awsPayloadMatchesRequest sha C options (as_Tags v) (arn ?n) (ur_PayloadSHA256 req) s1 = (m, s2)"
    by (cases "awsPayloadMatchesRequest sha C options (as_Tags v) (arn ?n) (ur_PayloadSHA256 req) s1")
  obtain b where b: "m = Inr b"
    using up d rest u match by (cases m) (auto simp: awsUpsertExisting_def awsCall_def Let_def split: if_splits)
  have v2: "account s2 ?n = Some ?v"
    using matches_value(1) [OF match [unfolded b] v1] v1 by simp
  have val: "b \<Longrightarrow> if ad_valueDriftDetection options then awsPayloadSHA256 sha (as_Value v) = ur_PayloadSHA256 req else True"
    using matches_value(2) [OF match [unfolded b] v1] by simp
  have rest_up: "(if b then awsRefreshTags C req d (arn ?n) else awsPutPayload sha C req (arn ?n)) s2 = (Inr result, s')"
    using up d rest u match b by (auto simp: awsUpsertExisting_def awsCall_def Let_def split: if_splits)
  have tagged: "\<exists>w. account t' ?n = Some w \<and> synced sha (ad_valueDriftDetection options) req w"
    if tag: "sm_TagResource C (arn ?n) (ownershipTagsFromUpsert req) t = (Inr x, t')" and w: "account t ?n = Some w"
      "\<not> as_Deleted w" "if ad_valueDriftDetection options then awsPayloadSHA256 sha (as_Value w) = ur_PayloadSHA256 req else True"
    for t x t' w
    using tag_done [OF tag w(1)] w synced_tags [OF id version(2)] by metis
  show ?thesis
  proof (cases b)
    case True
    show ?thesis
    proof (cases "tagValue (as_Tags v) tagPayloadSHA256 \<noteq> ur_PayloadSHA256 req \<or>
        \<not> remoteSourceVersionMatches (as_Tags v) (ur_SourceVersion req)")
      case refresh: True
      then obtain x where "sm_TagResource C (arn ?n) (ownershipTagsFromUpsert req) s2 = (Inr x, s')"
        using rest_up True d by (auto simp: awsRefreshTags_def awsCall_def Let_def split: prod.splits sum.splits)
      then show ?thesis using tagged [of s2 x s' ?v] v2 val True by simp
    next
      case False
      then have "s' = s2"
        using rest_up True d by (auto simp: awsRefreshTags_def Let_def)
      moreover have "remoteSourceVersion (as_Tags v) = Some (ur_SourceVersion req)"
        using False version by (auto simp: remoteSourceVersionMatches_def)
      ultimately show ?thesis
        using v2 False owned val True by (auto simp: synced_def)
    qed
  next
    case False
    then obtain ver t x where put: "sm_PutSecretValue C \<lparr> pi_SecretId = arn ?n, pi_SecretString = ur_Payload req,
         pi_ClientRequestToken = mutationIdempotencyToken sha ''put'' req \<rparr> s2 = (Inr ver, t)"
      and tag: "sm_TagResource C (arn ?n) (ownershipTagsFromUpsert req) t = (Inr x, s')"
      using rest_up by (auto simp: awsPutPayload_def awsCall_def split: prod.splits sum.splits)
    have "account t ?n = Some (?v \<lparr> as_Value := ur_Payload req \<rparr>)"
      using put_done [OF put _ v2] by simp
    then show ?thesis
      using tagged [OF tag] hash by simp
  qed
qed

end

section \<open>An account in memory\<close>

type_synonym memAccount = "(string \<times> awsSecret) list"

definition memArn :: "string \<Rightarrow> string" where
  "memArn n = CHR ''a'' # n @ '':''"

definition serviceError :: "string \<Rightarrow> awsError" where
  "serviceError code = [apiError code]"

definition withAwsSecret ::
    "string \<Rightarrow> memAccount \<Rightarrow> (awsSecret \<Rightarrow> (awsError + 'a) \<times> memAccount) \<Rightarrow> (awsError + 'a) \<times> memAccount" where
  "withAwsSecret i s f =
     (case map_of s i of None \<Rightarrow> (Inl (serviceError ''ResourceNotFoundException''), s) | Some v \<Rightarrow> f v)"

definition memAWS :: "memAccount secretsManagerClient" where
  "memAWS = \<lparr>
     sm_DescribeSecret = (\<lambda>n s. withAwsSecret (memArn n) s (\<lambda>v. (Inr \<lparr> de_ARN = memArn n, de_Deleted = as_Deleted v,
       de_Tags = as_Tags v, de_VersionIdsToStages = [(''v1'', [''AWSCURRENT''])] \<rparr>, s))),
     sm_GetSecretValue = (\<lambda>i s. withAwsSecret i s (\<lambda>v.
       (Inr \<lparr> gs_SecretString = Some (as_Value v), gs_SecretBinary = [] \<rparr>, s))),
     sm_CreateSecret = (\<lambda>ci s.
       if map_of s (memArn (ci_Name ci)) \<noteq> None then (Inl (serviceError ''ResourceExistsException''), s)
       else (Inr ''v1'', AList.update (memArn (ci_Name ci))
               \<lparr> as_Tags = ci_Tags ci, as_Value = ci_SecretString ci, as_Deleted = False \<rparr> s)),
     sm_PutSecretValue = (\<lambda>pi s. withAwsSecret (pi_SecretId pi) s (\<lambda>v.
       if as_Deleted v then (Inl (serviceError ''InvalidRequestException''), s)
       else (Inr ''v2'', AList.update (pi_SecretId pi) (v \<lparr> as_Value := pi_SecretString pi \<rparr>) s))),
     sm_DeleteSecret = (\<lambda>i days s. withAwsSecret i s (\<lambda>v.
       (Inr i, AList.update i (v \<lparr> as_Deleted := True \<rparr>) s))),
     sm_RestoreSecret = (\<lambda>i s. withAwsSecret i s (\<lambda>v. (Inr (), AList.update i (v \<lparr> as_Deleted := False \<rparr>) s))),
     sm_TagResource = (\<lambda>i ts s. withAwsSecret i s (\<lambda>v.
       (Inr (), AList.update i (v \<lparr> as_Tags := ts @ as_Tags v \<rparr>) s))),
     sm_ListSecrets = (\<lambda>_ s. (Inr (), s)) \<rparr>"

lemma memArn_inj [simp]: "memArn a = memArn b \<longleftrightarrow> a = b"
  by (simp add: memArn_def)

lemma memArn_trim: "trimSpace (memArn n) = memArn n"
proof -
  have "solidChar (CHR ''a'')" "solidChar (CHR '':'')" by (simp_all add: solid_printable)
  then show ?thesis
    using trimSpace_solid [of "CHR ''a''" "CHR '':''" n] by (simp add: memArn_def)
qed

lemmas mem_aws = memAWS_def withAwsSecret_def serviceError_def update_conv'

interpretation memAWS: secrets_account memAWS memArn "\<lambda>s n. map_of s (memArn n)"
  by unfold_locales
    (auto simp: mem_aws memArn_trim isResourceNotFound_def awsErrorCode_def firstLink_def map_filter_def fun_eq_iff
      split: option.splits if_splits, simp_all add: memArn_def)

end
