(* ===== verification/AWS_Properties.thy ===== *)
theory AWS_Properties
  imports AWS_Server
begin

text \<open>
  Properties of the AWS Secrets Manager provider: secrets of others and newer secrets are not touched, the
  service only sees values and recovery windows within its bounds, a successful upsert is seen as synced,
  and a custom endpoint stays within its policy.
\<close>

section \<open>Samples\<close>

definition sampleAWS :: awsDestinationOptions where
  "sampleAWS = \<lparr> ad_region = ''eu-central-1'', ad_endpointURL = [], ad_endpointPolicy = [], ad_authMode = AuthModeDefault,
     ad_roleARN = [], ad_externalID = [], ad_sessionName = [], ad_webIdentityTokenFile = [],
     ad_valueDriftDetection = True \<rparr>"

definition sampleAWSUpsert :: upsertRequest where
  "sampleAWSUpsert = \<lparr> ur_Runtime = \<lparr> ri_MountUUID = ''mount-1'', ri_RestoreEpoch = ''epoch-1'' \<rparr>,
     ur_Association = \<lparr> ac_Config = [], ac_Identity = [] \<rparr>, ur_ResolvedName = ''app-db'', ur_Format = FormatJSON,
     ur_Payload = ''{}'', ur_PayloadSHA256 = awsPayloadSHA256 flatSha ''{}'', ur_IdempotencyKey = ''op-1'',
     ur_DataMap = [], ur_SourcePath = ''app/db'', ur_SourceVersion = 3, ur_AssociationID = ''assoc-1'',
     ur_ObjectID = ''secret-path'' \<rparr>"

definition foreignAccount :: memAccount where
  "foreignAccount = [(memArn ''app-db'', \<lparr> as_Tags = [(tagManaged, ''true'')], as_Value = ''theirs'', as_Deleted = False \<rparr>)]"

text \<open>Our secret, of an older version and scheduled for deletion.\<close>

definition scheduledAccount :: memAccount where
  "scheduledAccount = [(memArn ''app-db'', \<lparr> as_Tags = ownershipTagsFromUpsert (sampleAWSUpsert \<lparr> ur_SourceVersion := 2 \<rparr>),
     as_Value = ''old'', as_Deleted = True \<rparr>)]"

section \<open>Secrets of others\<close>

text \<open>
  C24. A secret that is not the request owner's, or has a newer source version, is refused by an upsert and by
  a delete alike: after describing it neither makes another call to the service, and both fail with class
  ownership or drift (except that deleting an own secret that is already scheduled for deletion succeeds);
  the plan reports a conflict or is blocked.
\<close>

theorem aws_foreign_untouched:
  assumes read: "sm_DescribeSecret C (ur_ResolvedName req) s = (Inr d, s1)"
    and foreign: "awsOwnedByRequest (de_Tags d) (upsertIdentity req) \<Longrightarrow>
      awsRemoteSourceVersionNewer (de_Tags d) (ur_SourceVersion req)"
    and valid: "int (length (ur_Payload req)) \<le> secretValueMaxBytes"
      "awsAssociationOptionsFromConfig (ac_Config (ur_Association req)) = Inr days"
  shows "let mine = awsOwnedByRequest (de_Tags d) (upsertIdentity req);
           refused = Inl (awsFailed (if mine then ErrorClassDrift else ErrorClassOwnership))
       in awsUpsert sha C options req s = (refused, s1) \<and>
          awsDelete C (deleteFor req) s =
            (if mine \<and> de_Deleted d then Inr \<lparr> sr_RemoteVersion = ''scheduled'' \<rparr> else refused, s1) \<and>
          snd (awsPlan sha C options (planFor req) s) = s1 \<and>
          pr_Action (fst (awsPlan sha C options (planFor req) s)) = (if mine then PlanActionBlocked else PlanActionConflict)"
proof -
  have fields: "dr_ResolvedName (deleteFor req) = ur_ResolvedName req" "dr_SourceVersion (deleteFor req) = ur_SourceVersion req"
    "dr_Association (deleteFor req) = ur_Association req"
    "pq_ResolvedName (planFor req) = ur_ResolvedName req" "pq_SourceVersion (planFor req) = ur_SourceVersion req"
    by (simp_all add: deleteFor_def planFor_def)
  show ?thesis
    using foreign valid
    by (auto simp: awsUpsert_def awsUpsertExisting_def awsDelete_def awsPlan_def awsPlanExisting_def fields read Let_def)
qed

lemma sample_window: "awsAssociationOptionsFromConfig (ac_Config (ur_Association sampleAWSUpsert)) = Inr 7"
proof -
  show ?thesis
    by (simp add: trimSpace_Nil awsAssociationOptionsFromConfig_def awsUnsupportedKey_def sampleAWSUpsert_def
        defaultDeleteRecoveryWindowDays_def)
qed

theorem aws_foreign_untouched_witness:
  "awsUpsert flatSha memAWS sampleAWS sampleAWSUpsert foreignAccount = (Inl (awsFailed ErrorClassOwnership), foreignAccount)"
proof -
  let ?d = "\<lparr> de_ARN = memArn ''app-db'', de_Deleted = False, de_Tags = [(tagManaged, ''true'')],
      de_VersionIdsToStages = [(''v1'', [''AWSCURRENT''])] \<rparr>"
  have read: "sm_DescribeSecret memAWS (ur_ResolvedName sampleAWSUpsert) foreignAccount = (Inr ?d, foreignAccount)"
    by (simp add: mem_aws sampleAWSUpsert_def foreignAccount_def)
  have foreign: "\<not> awsOwnedByRequest (de_Tags ?d) (upsertIdentity sampleAWSUpsert)"
    by (simp add: awsOwnedByRequest_def requiredTagMatches_def aws_tags)
  have "int (length (ur_Payload sampleAWSUpsert)) \<le> secretValueMaxBytes"
    by (simp add: sampleAWSUpsert_def secretValueMaxBytes_def)
  from aws_foreign_untouched [OF read _ this sample_window, of flatSha sampleAWS] foreign
  show ?thesis by (simp add: Let_def)
qed

section \<open>Bounds\<close>

text \<open>Two clients that agree on the calls within the limits of the service.\<close>

definition agreeWithinLimits :: "'s secretsManagerClient \<Rightarrow> 's secretsManagerClient \<Rightarrow> bool" where
  "agreeWithinLimits C D \<longleftrightarrow> sm_DescribeSecret C = sm_DescribeSecret D \<and> sm_GetSecretValue C = sm_GetSecretValue D \<and>
     sm_RestoreSecret C = sm_RestoreSecret D \<and> sm_TagResource C = sm_TagResource D \<and>
     (\<forall>i. int (length (ci_SecretString i)) \<le> 65536 \<longrightarrow> sm_CreateSecret C i = sm_CreateSecret D i) \<and>
     (\<forall>i. int (length (pi_SecretString i)) \<le> 65536 \<longrightarrow> sm_PutSecretValue C i = sm_PutSecretValue D i) \<and>
     (\<forall>i days. 7 \<le> days \<longrightarrow> days \<le> 30 \<longrightarrow> sm_DeleteSecret C i days = sm_DeleteSecret D i days)"

lemma window_bounds:
  "awsAssociationOptionsFromConfig config = Inr days \<Longrightarrow> 7 \<le> days \<and> days \<le> 30"
  by (auto simp: awsAssociationOptionsFromConfig_def andThen_Inr Let_def minDeleteRecoveryWindowDays_def
      maxDeleteRecoveryWindowDays_def defaultDeleteRecoveryWindowDays_def split: if_splits option.splits)

text \<open>
  C26. The service is only ever asked for what it accepts: no value of more than 65536 bytes is created or
  put, and no deletion asks for a recovery window outside 7 to 30 days. How a client treats other calls makes
  no difference to an upsert or a delete, whatever the request and its configuration.
\<close>

theorem aws_within_limits:
  assumes "agreeWithinLimits C D"
  shows "awsUpsert sha C options req s = awsUpsert sha D options req s \<and> awsDelete C dreq s = awsDelete D dreq s"
proof
  note agree = assms [unfolded agreeWithinLimits_def]
  show "awsUpsert sha C options req s = awsUpsert sha D options req s"
  proof (cases "int (length (ur_Payload req)) \<le> 65536")
    case True
    have create: "awsCreateSecret sha C req = awsCreateSecret sha D req"
      using agree True by (simp add: awsCreateSecret_def)
    have put: "awsPutPayload sha C req i = awsPutPayload sha D req i" for i
      using agree True by (simp add: awsPutPayload_def)
    have same: "awsPayloadMatchesRequest sha C options = awsPayloadMatchesRequest sha D options"
      "restoreSecretIfScheduled C = restoreSecretIfScheduled D" "awsRefreshTags C req = awsRefreshTags D req"
      using agree by (intro ext, simp add: awsPayloadMatchesRequest_def remotePayloadSHA256_def restoreSecretIfScheduled_def
          awsRefreshTags_def Let_def)+
    have existing: "awsUpsertExisting sha C options req d t = awsUpsertExisting sha D options req d t" for d t
      unfolding awsUpsertExisting_def put same ..
    have "sm_DescribeSecret C = sm_DescribeSecret D" using agree by blast
    then show ?thesis
      unfolding awsUpsert_def create existing by simp
  qed (simp add: awsUpsert_def secretValueMaxBytes_def)
  show "awsDelete C dreq s = awsDelete D dreq s"
  proof (cases "awsAssociationOptionsFromConfig (ac_Config (dr_Association dreq))")
    case (Inr days)
    then have delete: "sm_DeleteSecret C i days = sm_DeleteSecret D i days" for i
      using agree window_bounds by blast
    have "sm_DescribeSecret C = sm_DescribeSecret D" using agree by blast
    then show ?thesis
      unfolding awsDelete_def Inr sum.case delete by simp
  qed (simp add: awsDelete_def)
qed

text \<open>A client that refuses what the service refuses.\<close>

definition strictAWS :: "memAccount secretsManagerClient" where
  "strictAWS = memAWS \<lparr> sm_DeleteSecret := (\<lambda>i days s.
     if days < 7 \<or> 30 < days then (Inl (serviceError ''InvalidParameterException''), s) else sm_DeleteSecret memAWS i days s) \<rparr>"

theorem aws_within_limits_witness:
  "awsDelete strictAWS (deleteFor sampleAWSUpsert) scheduledAccount = awsDelete memAWS (deleteFor sampleAWSUpsert) scheduledAccount"
proof -
  have "agreeWithinLimits strictAWS memAWS"
    by (auto simp: agreeWithinLimits_def strictAWS_def fun_eq_iff)
  from aws_within_limits [OF this] show ?thesis by blast
qed

section \<open>A successful upsert\<close>

text \<open>
  C25. After a successful upsert the provider sees its own object, whether the secret was missing, of an older
  version, or scheduled for deletion: a state read then finds it, owned, with the request's source version
  and payload hash (the hash of the stored value where value drift detection is on); it can only fail if
  the read itself fails.
\<close>

theorem aws_upsert_synced:
  assumes store: "secrets_account C arn account" and id: "identityComplete (upsertIdentity req)"
    and version: "0 < ur_SourceVersion req" "inInt64 (ur_SourceVersion req)"
    and hash: "ur_PayloadSHA256 req = awsPayloadSHA256 sha (ur_Payload req)"
    and up: "awsUpsert sha C options req s = (Inr result, s')"
  shows "case fst (awsReadState sha C options (readFor req) s') of
       Inl e \<Rightarrow> (\<exists>ae t. sm_DescribeSecret C (ur_ResolvedName req) s' = (Inl ae, t) \<and> \<not> isResourceNotFound ae) \<or>
         (\<exists>i t ae t'. sm_GetSecretValue C i t = (Inl ae, t'))
     | Inr state \<Rightarrow> rs_Exists state \<and> rs_OwnershipKnown state \<and> rs_Owned state \<and>
         rs_PayloadSHA256 state = ur_PayloadSHA256 req \<and> rs_SourceVersion state = ur_SourceVersion req"
proof -
  let ?n = "ur_ResolvedName req" and ?byValue = "ad_valueDriftDetection options"
  obtain r s1 where desc: "sm_DescribeSecret C ?n s = (r, s1)" by (cases "sm_DescribeSecret C ?n s")
  have same: "account s1 = account s" by (rule secrets_account.describe_same [OF store desc])
  have "\<exists>w. account s' ?n = Some w \<and> synced sha ?byValue req w"
  proof (cases r)
    case (Inr d)
    obtain v where v: "account s ?n = Some v" "de_Tags d = as_Tags v" "de_Deleted d = as_Deleted v"
      using secrets_account.describe_found [OF store desc [unfolded Inr]] by blast
    have "awsUpsertExisting sha C options req d s1 = (Inr result, s')"
      using up desc Inr by (simp add: awsUpsert_def split: if_splits)
    then show ?thesis
      using secrets_account.upsert_existing [OF store id version hash _ v(2,3)] v(1) same
        secrets_account.described_id [OF store desc [unfolded Inr]] by metis
  next
    case (Inl e)
    then obtain ver where c: "sm_CreateSecret C \<lparr> ci_Name = ?n, ci_SecretString = ur_Payload req,
         ci_ClientRequestToken = mutationIdempotencyToken sha ''create'' req, ci_Tags = ownershipTagsFromUpsert req \<rparr> s1 =
         (Inr ver, s')"
      using up desc by (auto simp: awsUpsert_def awsCreateSecret_def awsCall_def split: if_splits prod.splits sum.splits)
    obtain w where "account s' ?n = Some w" "tagValue (as_Tags w) = tagValue (ownershipTagsFromUpsert req @ [])"
      "as_Value w = ur_Payload req" "\<not> as_Deleted w"
      using secrets_account.create_done [OF store c] by auto
    then show ?thesis
      using synced_tags [OF id version(2)] hash by metis
  qed
  then obtain w where w: "account s' ?n = Some w" "synced sha ?byValue req w" by blast
  have owned: "awsOwnedByRequest (as_Tags w) (upsertIdentity req)" and live: "\<not> as_Deleted w"
    and tags: "tagValue (as_Tags w) tagPayloadSHA256 = ur_PayloadSHA256 req"
      "atoiValue (tagValue (as_Tags w) tagSourceVersion) = ur_SourceVersion req"
    and val: "?byValue \<Longrightarrow> awsPayloadSHA256 sha (as_Value w) = ur_PayloadSHA256 req"
    using w(2) by (auto simp: synced_def remoteSourceVersion_def atoiValue_atoi)
  have name: "rr_ResolvedName (readFor req) = ?n" by (simp add: readFor_def)
  obtain g t where g: "sm_DescribeSecret C ?n s' = (g, t)" by (cases "sm_DescribeSecret C ?n s'")
  show ?thesis
  proof (cases g)
    case (Inl e)
    then have "\<not> isResourceNotFound e"
      using secrets_account.describe_missing [OF store] g w(1) by force
    then show ?thesis using g Inl by (simp add: awsReadState_def name)
  next
    case (Inr d)
    have d: "de_Tags d = as_Tags w" "\<not> de_Deleted d" "describedSecretID d = Inr (arn ?n)" "account t ?n = Some w"
      using secrets_account.describe_found [OF store g [unfolded Inr]] secrets_account.describe_same [OF store g]
        secrets_account.described_id [OF store g [unfolded Inr]] w(1) live by auto
    obtain q t' where v: "sm_GetSecretValue C (arn ?n) t = (q, t')" by (cases "sm_GetSecretValue C (arn ?n) t")
    have read: "q = Inr out \<Longrightarrow> ?byValue \<Longrightarrow> secretValuePayloadSHA256 sha out = ur_PayloadSHA256 req" for out
      using secrets_account.value_found [OF store, of ?n t out t' w] v d(4) val
      by (auto simp: secretValuePayloadSHA256_def)
    show ?thesis
      using g Inr d owned tags id v read
      by (cases ?byValue; cases q) (auto simp: awsReadState_def name Let_def awsCall_def remotePayloadSHA256_def)
  qed
qed

lemma sample_scheduled:
  "\<exists>result s'. awsUpsert flatSha memAWS sampleAWS sampleAWSUpsert scheduledAccount = (Inr result, s')"
proof -
  have "identityComplete (upsertIdentity sampleAWSUpsert)"
    by (simp add: sampleAWSUpsert_def identity_defs identityComplete_def)
  then have "awsOwnedByRequest (ownershipTagsFromUpsert (sampleAWSUpsert \<lparr> ur_SourceVersion := 2 \<rparr>)) (upsertIdentity sampleAWSUpsert)"
    by (simp add: awsOwnedByRequest_def requiredTagMatches_def runtimeTagMatches_def ownershipTagsFromUpsert_def aws_tags
        identityComplete_def identity_defs)
  moreover have "\<not> awsRemoteSourceVersionNewer (ownershipTagsFromUpsert (sampleAWSUpsert \<lparr> ur_SourceVersion := 2 \<rparr>))
      (ur_SourceVersion sampleAWSUpsert)"
    by (simp add: awsRemoteSourceVersionNewer_def remoteSourceVersion_def ownershipTagsFromUpsert_def aws_tags
        atoi_itoa inInt64_def) (simp add: sampleAWSUpsert_def)
  moreover have "memArn ''app-db'' \<noteq> []" by (simp add: memArn_def)
  moreover have "ur_ResolvedName sampleAWSUpsert = ''app-db''" "\<not> secretValueMaxBytes < int (length (ur_Payload sampleAWSUpsert))"
    by (simp_all add: sampleAWSUpsert_def secretValueMaxBytes_def)
  ultimately show ?thesis
    by (simp add: awsUpsert_def awsUpsertExisting_def mem_aws scheduledAccount_def describedSecretID_def memArn_trim
        restoreSecretIfScheduled_def awsCall_def awsPayloadMatchesRequest_def remotePayloadSHA256_def sampleAWS_def
        awsRefreshTags_def awsPutPayload_def Let_def)
qed

theorem aws_upsert_synced_witness:
  "\<exists>result s'. awsUpsert flatSha memAWS sampleAWS sampleAWSUpsert scheduledAccount = (Inr result, s') \<and>
     (case fst (awsReadState flatSha memAWS sampleAWS (readFor sampleAWSUpsert) s') of
       Inl e \<Rightarrow> (\<exists>ae t. sm_DescribeSecret memAWS (ur_ResolvedName sampleAWSUpsert) s' = (Inl ae, t) \<and> \<not> isResourceNotFound ae) \<or>
         (\<exists>i t ae t'. sm_GetSecretValue memAWS i t = (Inl ae, t'))
     | Inr state \<Rightarrow> rs_Exists state \<and> rs_OwnershipKnown state \<and> rs_Owned state \<and>
         rs_PayloadSHA256 state = ur_PayloadSHA256 sampleAWSUpsert \<and> rs_SourceVersion state = ur_SourceVersion sampleAWSUpsert)"
proof -
  obtain result s' where up: "awsUpsert flatSha memAWS sampleAWS sampleAWSUpsert scheduledAccount = (Inr result, s')"
    using sample_scheduled by blast
  have id: "identityComplete (upsertIdentity sampleAWSUpsert)"
    and version: "0 < ur_SourceVersion sampleAWSUpsert" "inInt64 (ur_SourceVersion sampleAWSUpsert)"
    and hash: "ur_PayloadSHA256 sampleAWSUpsert = awsPayloadSHA256 flatSha (ur_Payload sampleAWSUpsert)"
    by (simp_all add: sampleAWSUpsert_def identity_defs identityComplete_def inInt64_def)
  from aws_upsert_synced [OF memAWS.secrets_account_axioms id version hash up] up
  show ?thesis by blast
qed

section \<open>Custom endpoints\<close>

text \<open>
  C27. A custom endpoint stays within its policy: if a client is built for it, the endpoint has a URL without
  credentials, a local one names a local host, a private one uses HTTPS and names no local host and no public
  address; and the client dials private addresses only (a local one loopback as well). Without a custom
  endpoint there is no policy.
\<close>

theorem aws_endpoint_policy:
  assumes "fst (awsDefaultClientFactory parseURL resolver load config s) = Inr client"
  shows "case cc_BaseEndpoint client of
      None \<Rightarrow> cc_Dial client = None
    | Some endpoint \<Rightarrow> (\<exists>u ok. parseURL endpoint = Some u \<and> \<not> pu_User u \<and> cc_Dial client = Some ok \<and>
        (let host = NormalizeHost (pu_Hostname u) in
           (isLocalEndpointHost host \<and> (\<forall>addr. ok addr \<longrightarrow> isLoopback (unmapAddr addr) \<or> isPrivate (unmapAddr addr)) \<or>
            pu_Scheme u = ''https'' \<and> \<not> isLocalEndpointHost host \<and>
            (\<forall>addr. ParseAddr host = Some addr \<longrightarrow> isPrivateEndpointAddr addr) \<and>
            (\<forall>addr. ok addr \<longrightarrow> isPrivate (unmapAddr addr)))))"
proof -
  obtain options where o: "awsDestinationOptionsFromConfig parseURL config = Inr options"
    and client: "client = awsClientConfigFor options"
    using assms by (auto simp: awsDefaultClientFactory_def split: sum.splits prod.splits)
  have valid: "validateEndpointOptions parseURL options = Inr ()"
    using o by (auto simp: awsDestinationOptionsFromConfig_def andThen_Inr Let_def)
  show ?thesis
  proof (cases "ad_endpointURL options = []")
    case True
    then show ?thesis by (simp add: client awsClientConfigFor_def nonempty_def awsDialPolicy_def)
  next
    case False
    then have url: "validateEndpointURL parseURL (ad_endpointURL options) (ad_endpointPolicy options) = Inr ()"
      using valid by (auto simp: validateEndpointOptions_def split: if_splits)
    have policies: "EndpointPolicyLocal \<noteq> EndpointPolicyPrivate"
      by (simp add: EndpointPolicyLocal_def EndpointPolicyPrivate_def)
    obtain u where u: "parseURL (ad_endpointURL options) = Some u" "\<not> pu_User u"
      and kind: "ad_endpointPolicy options = EndpointPolicyLocal \<and>
          validateLocalEndpointURL (pu_Scheme u) (NormalizeHost (pu_Hostname u)) = Inr () \<or>
        ad_endpointPolicy options = EndpointPolicyPrivate \<and>
          validatePrivateEndpointURL (pu_Scheme u) (NormalizeHost (pu_Hostname u)) = Inr ()"
      using url by (auto simp: validateEndpointURL_def Let_def split: option.splits if_splits)
    have endpoint: "cc_BaseEndpoint client = Some (ad_endpointURL options)" "cc_Dial client = awsDialPolicy options"
      using False by (simp_all add: client awsClientConfigFor_def nonempty_def)
    from kind show ?thesis
    proof
      assume "ad_endpointPolicy options = EndpointPolicyLocal \<and>
          validateLocalEndpointURL (pu_Scheme u) (NormalizeHost (pu_Hostname u)) = Inr ()"
      then show ?thesis
        using u endpoint False by (auto simp: awsDialPolicy_def validateLocalEndpointURL_def Let_def split: if_splits)
    next
      assume "ad_endpointPolicy options = EndpointPolicyPrivate \<and>
          validatePrivateEndpointURL (pu_Scheme u) (NormalizeHost (pu_Hostname u)) = Inr ()"
      then show ?thesis
        using u endpoint False policies
        by (auto simp: awsDialPolicy_def validatePrivateEndpointURL_def isPrivateEndpointAddr_def Let_def
            split: if_splits option.splits)
    qed
  qed
qed

definition localConfig :: "(string \<times> string) list" where
  "localConfig = [(ConfigKeyEndpointURL, ''http://localstack''), (ConfigKeyEndpointPolicy, ''local'')]"

definition localURL :: parsedURL where
  "localURL = \<lparr> pu_Scheme = ''http'', pu_User = False, pu_Host = ''localstack'', pu_Hostname = ''localstack'',
     pu_RawQuery = [], pu_Fragment = [] \<rparr>"

lemma local_client:
  "fst (awsDefaultClientFactory (\<lambda>_. Some localURL) (\<lambda>_ s. (Inr [], s)) (\<lambda>_ s. (Inr (), s)) localConfig ()) =
     Inr \<lparr> cc_Credentials = DefaultCredentials, cc_BaseEndpoint = Some ''http://localstack'',
           cc_Dial = Some (\<lambda>addr. isLoopback (unmapAddr addr) \<or> isPrivate (unmapAddr addr)) \<rparr>"
proof -
  have trim: "trimSpace [] = []" "trimSpace ''http://localstack'' = ''http://localstack''" "trimSpace ''local'' = ''local''"
    by (simp_all add: trimSpace_printable trimSpace_Nil)
  have host: "NormalizeHost ''localstack'' = ''localstack''"
    by (simp add: NormalizeHost_def trimSpace_printable Let_def trimSuffix_def suffix_to_prefix)
  show ?thesis
    by (simp add: awsDefaultClientFactory_def awsDestinationOptionsFromConfig_def awsUnsupportedKey_def localConfig_def
        awsDestinationKeys_def configValue_def boolConfigValue_def aws_config_keys trim host localURL_def
        awsNormalizedAuthMode_def validateEndpointOptions_def validateEndpointURL_def EndpointPolicyLocal_def
        EndpointPolicyPrivate_def validateLocalEndpointURL_def isLocalEndpointHost_def validateAuthOptions_def
        validateDefaultAuthOptions_def AuthModeDefault_def AuthModeAssumeRole_def AuthModeWebIdentity_def
        validateEndpointResolution_def awsClientConfigFor_def nonempty_def awsDialPolicy_def)
qed

theorem aws_endpoint_policy_witness:
  "\<exists>u. isLocalEndpointHost (NormalizeHost (pu_Hostname u)) \<and> \<not> pu_User u \<and> u = localURL"
proof -
  have "EndpointPolicyLocal = ''local''" by (simp add: EndpointPolicyLocal_def)
  show ?thesis
    using aws_endpoint_policy [OF local_client] by (auto simp: Let_def localURL_def)
qed

end
