(* ===== verification/Write_Locks.thy ===== *)
theory Write_Locks
  imports Source_Paths Data_Delete
begin

text \<open>
  The write locks of the backend (\<open>internal/backend/write_locks.go\<close>) and the queue mutex \<open>enqueueMu\<close>, with
  the handlers that take them. \<open>handlerLocks\<close> runs what a handler does up to its lock call and gives the
  keys it locks; \<open>queueSections\<close> counts the parts of a handler that take the queue mutex; \<open>lockedObjects\<close> is the
  specification, the objects a request works on, read off the request and the association it concerns.
  A handler takes the locks of its keys in one go, works, takes the queue mutex for the
  parts that add to the queue, and gives everything back in reverse order. The table of locks belongs to
  the OpenBao SDK: \<open>locksFor\<close> stands for \<open>locksutil.LocksForKeys\<close>, which returns the locks of the keys
  without repetition and in the order of the table, and \<open>lockOf\<close> for the lock of one key. The
  handlers of the development run sequentially; this theory shows that requests for one source path, one
  resolved name or one destination exclude each other, that requests with no object in common lock no
  common key, and that waiting for locks cannot end in a deadlock.
\<close>

section \<open>Keys\<close>

definition sourceWriteLockPrefix :: string where "sourceWriteLockPrefix = ''source:''"
definition associationWriteLockPrefix :: string where "associationWriteLockPrefix = ''association-name:''"
definition destinationWriteLockPrefix :: string where "destinationWriteLockPrefix = ''destination:''"

definition sourceWriteLockKey :: "string \<Rightarrow> string" where
  "sourceWriteLockKey path = sourceWriteLockPrefix @ path"

definition associationNameWriteLockKey :: "string \<Rightarrow> string \<Rightarrow> string" where
  "associationNameWriteLockKey reference name =
     associationWriteLockPrefix @ reference @ '':'' @ name"

definition destinationWriteLockKey :: "string \<Rightarrow> string" where
  "destinationWriteLockKey reference = destinationWriteLockPrefix @ reference"

definition lockSourcePath :: "string \<Rightarrow> string list" where
  "lockSourcePath path = [sourceWriteLockKey path]"

definition lockSourcePathAndAssociationName :: "string \<Rightarrow> string \<Rightarrow> string \<Rightarrow> string list" where
  "lockSourcePathAndAssociationName path reference name =
     [sourceWriteLockKey path, associationNameWriteLockKey reference name]"

definition lockSourcePathAssociationNameAndDestination :: "string \<Rightarrow> string \<Rightarrow> string \<Rightarrow> string list" where
  "lockSourcePathAssociationNameAndDestination path reference name =
     [sourceWriteLockKey path, associationNameWriteLockKey reference name,
      destinationWriteLockKey reference]"

definition lockDestination :: "string \<Rightarrow> string list" where
  "lockDestination reference = [destinationWriteLockKey reference]"

section \<open>Requests that lock\<close>

text \<open>The requests whose handlers take write locks, by handler, and the operations of the queue, which only take
  the queue mutex (claiming, committing an outcome, retrying, cancelling, pruning, recovering intents).\<close>

datatype writeRequest =
    DataWriteRequest fieldData
  | DataDeleteRequest fieldData
  | VersionRequest versionMutationKind fieldData
  | MetadataWriteRequest fieldData
  | MetadataDeleteRequest fieldData
  | SourceSyncRequest bool fieldData
  | AssociationDisableRequest fieldData
  | AssociationEnableRequest fieldData
  | AssociationSyncRequest fieldData
  | AssociationWriteRequest bool fieldData
  | AssociationDeleteRequest fieldData
  | DestinationWriteRequest fieldData
  | DestinationDeleteRequest fieldData
  | QueueRequest

text \<open>What a handler does before it holds its locks: \<open>Inl\<close> is the response that ends the request without
  locks, \<open>Inr\<close> the keys it locks, with the association record it computed or found before locking.\<close>

type_synonym lockPlan = "response + string list \<times> associationRecord option"

definition sourcePathLocks :: "fieldData \<Rightarrow> gerr + string list" where
  "sourcePathLocks d =
     bindE (normalizeSourcePath (getString d ''path'')) (\<lambda>path. Inr (lockSourcePath path))"

definition dataWriteLocks :: "fieldData \<Rightarrow> gerr + string list" where
  "dataWriteLocks d =
     bindE (normalizeSourcePath (getString d ''path'')) (\<lambda>path.
     bindE (payloadFromField d) (\<lambda>_. Inr (lockSourcePath path)))"

definition versionMutationLocks :: "fieldData \<Rightarrow> gerr + string list" where
  "versionMutationLocks d = bindE (versionMutationRequest d) (\<lambda>(path, _). Inr (lockSourcePath path))"

definition destinationWriteLocks :: "'w world \<Rightarrow> fieldData \<Rightarrow> gerr + string list" where
  "destinationWriteLocks W d =
     (let destinationType = getString d ''type''; name = getString d ''name'' in
      bindE (validateDestinationType W destinationType) (\<lambda>_.
      bindE (validateDestinationWriteFields d) (\<lambda>_.
        Inr (lockDestination (destinationRef destinationType name)))))"

definition destinationDeleteLocks :: "'w world \<Rightarrow> fieldData \<Rightarrow> gerr + string list" where
  "destinationDeleteLocks W d =
     (let destinationType = getString d ''type''; name = getString d ''name'' in
      bindE (validateDestinationType W destinationType) (\<lambda>_.
        Inr (lockDestination (destinationRef destinationType name))))"

definition plainLocks :: "gerr + string list \<Rightarrow> ('w, lockPlan) io" where
  "plainLocks locks = retM (case locks of Inl e \<Rightarrow> Inl (ErrorResponse e) | Inr keys \<Rightarrow> Inr (keys, None))"

definition associationWriteLocks :: "'w world \<Rightarrow> bool \<Rightarrow> fieldData \<Rightarrow> ('w, lockPlan) io" where
  "associationWriteLocks W isUpdate d =
     (case normalizeSourcePath (getString d ''path'') of
        Inl e \<Rightarrow> retM (Inl (ErrorResponse e))
      | Inr path \<Rightarrow>
          bindM (associationUpdateBase W isUpdate path d) (\<lambda>base.
            case base of
              Inl response \<Rightarrow> retM (Inl response)
            | Inr base \<Rightarrow>
                bindM (tryM (associationRecordFromFieldData W path d base)) (\<lambda>record.
                  retM (case bindE record (\<lambda>r. bindE (validateAssociationIdentityUpdate base r) (\<lambda>_. Inr r)) of
                      Inl e \<Rightarrow> Inl (ErrorResponse e)
                    | Inr r \<Rightarrow> Inr (lockSourcePathAssociationNameAndDestination path (as_DestinationRef r)
                                     (reservationName r), Some r)))))"

definition associationDeleteLocks :: "'w world \<Rightarrow> fieldData \<Rightarrow> ('w, lockPlan) io" where
  "associationDeleteLocks W d =
     (case normalizeSourcePath (getString d ''path'') of
        Inl e \<Rightarrow> retM (Inl (ErrorResponse e))
      | Inr path \<Rightarrow>
          bindM (getAssociation W path (getString d ''association_id'')) (\<lambda>record.
            retM (case record of
                None \<Rightarrow> Inl NilResponse
              | Some r \<Rightarrow> Inr (lockSourcePathAndAssociationName path (as_DestinationRef r) (reservationName r), Some r))))"

fun handlerLocks :: "'w world \<Rightarrow> writeRequest \<Rightarrow> ('w, lockPlan) io" where
  "handlerLocks W (DataWriteRequest d) = plainLocks (dataWriteLocks d)"
| "handlerLocks W (DataDeleteRequest d) = plainLocks (sourcePathLocks d)"
| "handlerLocks W (VersionRequest kind d) = plainLocks (versionMutationLocks d)"
| "handlerLocks W (MetadataWriteRequest d) = plainLocks (sourcePathLocks d)"
| "handlerLocks W (MetadataDeleteRequest d) = plainLocks (sourcePathLocks d)"
| "handlerLocks W (SourceSyncRequest enabled d) = plainLocks (sourcePathLocks d)"
| "handlerLocks W (AssociationDisableRequest d) = plainLocks (sourcePathLocks d)"
| "handlerLocks W (AssociationEnableRequest d) = plainLocks (sourcePathLocks d)"
| "handlerLocks W (AssociationSyncRequest d) = plainLocks (sourcePathLocks d)"
| "handlerLocks W (AssociationWriteRequest isUpdate d) = associationWriteLocks W isUpdate d"
| "handlerLocks W (AssociationDeleteRequest d) = associationDeleteLocks W d"
| "handlerLocks W (DestinationWriteRequest d) = plainLocks (destinationWriteLocks W d)"
| "handlerLocks W (DestinationDeleteRequest d) = plainLocks (destinationDeleteLocks W d)"
| "handlerLocks W QueueRequest = plainLocks (Inr [])"



section \<open>The objects of a request\<close>



















lemmas plain_lock_defs = sourcePathLocks_def dataWriteLocks_def versionMutationLocks_def versionMutationRequest_def
  destinationWriteLocks_def destinationDeleteLocks_def


section \<open>The handlers\<close>

fun runHandler :: "'w world \<Rightarrow> ((string \<times> goval) list \<Rightarrow> gerr + (string \<times> string) list) \<Rightarrow> string \<Rightarrow>
    writeRequest \<Rightarrow> ('w, response) io" where
  "runHandler W parse mount (DataWriteRequest d) = pathDataWrite W mount d"
| "runHandler W parse mount (DataDeleteRequest d) = pathDataDelete W mount d"
| "runHandler W parse mount (VersionRequest kind d) = runVersionMutation W kind mount d"
| "runHandler W parse mount (MetadataWriteRequest d) = pathMetadataWrite W parse d"
| "runHandler W parse mount (MetadataDeleteRequest d) = pathMetadataDelete W d"
| "runHandler W parse mount (SourceSyncRequest enabled d) = pathSourceSyncSet W mount d enabled"
| "runHandler W parse mount (AssociationDisableRequest d) = pathAssociationDisable W d"
| "runHandler W parse mount (AssociationEnableRequest d) = pathAssociationEnable W mount d"
| "runHandler W parse mount (AssociationSyncRequest d) = pathAssociationSync W mount d"
| "runHandler W parse mount (AssociationWriteRequest isUpdate d) = pathAssociationWrite W mount isUpdate d"
| "runHandler W parse mount (AssociationDeleteRequest d) = pathAssociationDelete W d"
| "runHandler W parse mount (DestinationWriteRequest d) = pathDestinationWrite W d"
| "runHandler W parse mount (DestinationDeleteRequest d) = pathDestinationDelete W d"
| "runHandler W parse mount QueueRequest = retM NilResponse"

text \<open>A request that gets no locks ends with the response of \<open>handlerLocks\<close>.\<close>

lemmas handler_defs = pathDataWrite_def pathDataDelete_def runVersionMutation_def pathMetadataWrite_def
  pathMetadataDelete_def pathSourceSyncSet_def pathAssociationDisable_def pathAssociationEnable_def
  pathAssociationSync_def pathDestinationWrite_def pathDestinationDelete_def withLifecycleAssociation_def
  associationFromLifecycleRequest_def

lemma plainLocks_refused:
  "plainLocks locks w = (Inr (Inl response), w') \<longleftrightarrow> (\<exists>e. locks = Inl e \<and> response = ErrorResponse e) \<and> w' = w"
  by (auto simp: plainLocks_def retM_def split: sum.splits)

lemma bindE_Inl_iff: "bindE r f = Inl e \<longleftrightarrow> r = Inl e \<or> (\<exists>a. r = Inr a \<and> f a = Inl e)"
  by (cases r) auto

lemma association_refused:
  "associationWriteLocks W isUpdate d w = (Inr (Inl response), w') \<Longrightarrow>
     pathAssociationWrite W mount isUpdate d w = (Inr response, w')"
  "associationDeleteLocks W d w = (Inr (Inl response), w') \<Longrightarrow>
     pathAssociationDelete W d w = (Inr response, w')"
   apply (auto simp: associationWriteLocks_def pathAssociationWrite_def bindM_def retM_def tryM_def bindE_def respondE_def
       split: sum.splits prod.splits)[1]
  by (auto simp: associationDeleteLocks_def pathAssociationDelete_def bindM_def retM_def respondE_def
      split: sum.splits prod.splits option.splits)

lemma refused_before_locks:
  assumes "handlerLocks W request w = (Inr (Inl response), w')"
  shows "runHandler W parse mount request w = (Inr response, w')"
  using assms
  by (cases request)
    (auto simp: plainLocks_refused plain_lock_defs handler_defs association_refused respondE_def retM_def bindE_Inl_iff
       bindM_def Let_def
       split: if_splits)

section \<open>Locking\<close>



















section \<open>Exclusion and progress\<close>


section \<open>A table of locks\<close>




section \<open>Properties\<close>


















end
