(* ===== verification/Contract_Checks.thy ===== *)
theory Contract_Checks
  imports Provider_Contract
begin

text \<open>
  The provider contract as the repository states it: the conformance checks of
  \<open>internal/providers/providertest\<close>, which every provider has to pass. A check is a program over the
  provider's own state and the list of failed subtests; \<open>t.Fatalf\<close> ends the subtest it is called in, and the
  checks after it go on. An operation returns a result and an error, either of which may be nil. A nil map
  and an empty one are the same list, and so are a nil payload and an empty one.
\<close>

section \<open>Providers and runtimes\<close>

type_synonym ('s, 'r) call = "'s \<Rightarrow> ('r option \<times> providerError option) \<times> 's"

record 's providerRuntime =
  rt_Health :: "('s, healthResult) call"
  rt_Plan :: "planRequest \<Rightarrow> ('s, planResult) call"
  rt_Upsert :: "upsertRequest \<Rightarrow> ('s, syncResult) call"
  rt_Delete :: "deleteRequest \<Rightarrow> ('s, syncResult) call"
  rt_ReadState :: "readStateRequest \<Rightarrow> ('s, remoteState) call"

record 's contractProvider =
  tp_Type :: string
  tp_Capabilities :: capabilities
  tp_ValidateConfig :: "providerDestinationConfig \<Rightarrow> 's \<Rightarrow> providerError option \<times> 's"
  tp_NormalizeAssociationConfig ::
    "providerDestinationConfig \<Rightarrow> associationConfig \<Rightarrow> ('s, associationConfig) call"
  tp_OpenDestination :: "providerDestinationConfig \<Rightarrow> ('s, 's providerRuntime) call"

section \<open>Cases\<close>

record CapabilityExpectations =
  ce_ValueReadback :: bool
  ce_MetadataReadback :: bool
  ce_SecretPath :: bool
  ce_SecretKey :: bool
  ce_DataMap :: bool
  ce_UpdateIfOwned :: bool
  ce_DeleteIfOwned :: bool
  ce_PayloadHashMetadata :: bool
  ce_MinPayloadBytes :: int

record ValidationErrorCase =
  vc_Destination :: providerDestinationConfig
  vc_ErrorClass :: string

record HealthCase =
  hc_Destination :: providerDestinationConfig
  hc_Healthy :: bool
  hc_ErrorClass :: string

record PlanCase =
  pc_Name :: string
  pc_Destination :: providerDestinationConfig
  pc_Request :: planRequest
  pc_Action :: string
  pc_ErrorClass :: string

record UpsertCase =
  uc_Destination :: providerDestinationConfig
  uc_Request :: upsertRequest
  uc_RemoteVersion :: string

record DeleteCase =
  dl_Destination :: providerDestinationConfig
  dl_Request :: deleteRequest
  dl_RemoteVersion :: string

record ReadStateCase =
  rc_Destination :: providerDestinationConfig
  rc_Request :: readStateRequest
  rc_Exists :: bool
  rc_OwnershipKnown :: bool
  rc_Owned :: bool
  rc_PayloadSHA256 :: string
  rc_SourceVersion :: int
  rc_RemoteVersion :: string

record 's IdempotencyCase =
  ic_Name :: string
  ic_Provider :: "'s contractProvider option"
  ic_Destination :: providerDestinationConfig
  ic_UpsertRequest :: upsertRequest
  ic_StateAfterUpsert :: "ReadStateCase option"
  ic_DeleteRequest :: deleteRequest
  ic_StateAfterDelete :: "ReadStateCase option"
  ic_ExpectMutationResult :: bool

record LifecycleCase =
  lc_Name :: string
  lc_CreatePlan :: PlanCase
  lc_Create :: UpsertCase
  lc_StateAfterCreate :: ReadStateCase
  lc_NoopPlan :: PlanCase
  lc_UpdatePlan :: PlanCase
  lc_Update :: UpsertCase
  lc_StateAfterUpdate :: ReadStateCase
  lc_Delete :: DeleteCase
  lc_StateAfterDelete :: ReadStateCase
  lc_ExpectRemoteVersions :: bool

record UpsertErrorCase =
  ue_Name :: string
  ue_Request :: upsertRequest
  ue_ErrorClass :: string

record DeleteErrorCase =
  de_Name :: string
  de_Request :: deleteRequest
  de_ErrorClass :: string

definition OperationPlan :: string where "OperationPlan = ''plan''"
definition OperationUpsert :: string where "OperationUpsert = ''upsert''"
definition OperationDelete :: string where "OperationDelete = ''delete''"
definition OperationReadState :: string where "OperationReadState = ''read-state''"
definition OperationHealth :: string where "OperationHealth = ''health''"

definition PartialSuccessAtomic :: string where "PartialSuccessAtomic = ''atomic''"
definition PartialSuccessClassifiedFailure :: string where
  "PartialSuccessClassifiedFailure = ''classified_failure''"

record 's MaturityCase =
  mc_Name :: string
  mc_Provider :: "'s contractProvider option"
  mc_Destination :: providerDestinationConfig
  mc_Operation :: string
  mc_PlanRequest :: planRequest
  mc_UpsertRequest :: upsertRequest
  mc_DeleteRequest :: deleteRequest
  mc_ReadStateRequest :: readStateRequest
  mc_HealthDestination :: providerDestinationConfig
  mc_PlanAction :: string
  mc_ErrorClass :: string
  mc_RemoteVersion :: string
  mc_ReadState :: "ReadStateCase option"
  mc_NoResultOnError :: bool

record 's PartialSuccessCase =
  ps_Name :: string
  ps_Mode :: string
  ps_Case :: "'s MaturityCase"

record 's MaturityMatrix =
  mm_OwnershipLoss :: "'s MaturityCase list"
  mm_AuthFailure :: "'s MaturityCase"
  mm_Throttling :: "'s MaturityCase"
  mm_PayloadLimit :: "'s MaturityCase"
  mm_PartialSuccess :: "'s PartialSuccessCase"
  mm_StaleRemoteState :: "'s MaturityCase"
  mm_DeleteSemantics :: "'s MaturityCase list"

record 's Harness =
  hn_Provider :: "'s contractProvider option"
  hn_ValidDestination :: providerDestinationConfig
  hn_RequiredCapabilities :: CapabilityExpectations
  hn_ValidationError :: "ValidationErrorCase option"
  hn_HealthCase :: "HealthCase option"
  hn_PlanCases :: "PlanCase list"
  hn_Lifecycle :: "LifecycleCase option"
  hn_Maturity :: "'s MaturityMatrix option"
  hn_Idempotency :: "'s IdempotencyCase option"
  hn_UpsertSuccess :: "UpsertCase option"
  hn_DeleteSuccess :: "DeleteCase option"
  hn_ReadStateCase :: "ReadStateCase option"
  hn_UpsertErrors :: "UpsertErrorCase list"
  hn_DeleteErrors :: "DeleteErrorCase list"

section \<open>The test monad\<close>

record 's testRun =
  tr_state :: 's
  tr_failures :: "(string \<times> gerr) list"

type_synonym ('s, 'a) check = "('s testRun, 'a) io"

definition fatalf :: "string \<Rightarrow> string list \<Rightarrow> ('s, 'a) check" where
  "fatalf f args = failM (Errorf f args)"

definition fatalUnless :: "bool \<Rightarrow> string \<Rightarrow> string list \<Rightarrow> ('s, unit) check" where
  "fatalUnless ok f args = (if ok then retM () else fatalf f args)"

text \<open>\<open>t.Run\<close>: a subtest that fails is noted, and the test goes on.\<close>

definition subtest :: "string \<Rightarrow> ('s, unit) check \<Rightarrow> ('s, unit) check" where
  "subtest name body =
     bindM (tryM body) (\<lambda>outcome t.
       (Inr (), case outcome of
          Inl e \<Rightarrow> t \<lparr> tr_failures := tr_failures t @ [(name, e)] \<rparr>
        | Inr _ \<Rightarrow> t))"

definition callProvider :: "('s, 'r) call \<Rightarrow> ('s, 'r option \<times> providerError option) check" where
  "callProvider c t = (case c (tr_state t) of (r, s) \<Rightarrow> (Inr r, t \<lparr> tr_state := s \<rparr>))"

definition noError :: "string \<Rightarrow> providerError option \<Rightarrow> ('s, unit) check" where
  "noError f err = (case err of None \<Rightarrow> retM () | Some e \<Rightarrow> fatalf f [providerErrorText e])"

text \<open>The non-nil result of a call that must succeed.\<close>

definition mustReturn ::
    "('s, 'r) call \<Rightarrow> string \<Rightarrow> string \<Rightarrow> ('s, 'r) check" where
  "mustReturn c errorMessage nilMessage =
     bindM (callProvider c) (\<lambda>(result, err).
     bindM (noError errorMessage err) (\<lambda>_.
       case result of None \<Rightarrow> fatalf nilMessage [] | Some r \<Rightarrow> retM r))"

section \<open>Assertions\<close>

definition assertCapabilities :: "capabilities \<Rightarrow> CapabilityExpectations \<Rightarrow> ('s, unit) check" where
  "assertCapabilities c expected =
     bindM (eachM
       [(''value readback'', ce_ValueReadback expected, cp_SupportsValueReadback c),
        (''metadata readback'', ce_MetadataReadback expected, cp_SupportsMetadataReadback c),
        (''secret-path granularity'', ce_SecretPath expected, cp_SupportsSecretPath c),
        (''secret-key granularity'', ce_SecretKey expected, cp_SupportsSecretKey c),
        (''data-map payloads'', ce_DataMap expected, cp_SupportsDataMap c),
        (''owned updates'', ce_UpdateIfOwned expected, cp_SupportsUpdateIfOwned c),
        (''owned deletes'', ce_DeleteIfOwned expected, cp_SupportsDeleteIfOwned c),
        (''payload hash metadata'', ce_PayloadHashMetadata expected, cp_SupportsPayloadHashMetadata c)]
       (\<lambda>(name, required, actual).
          if required \<and> \<not> actual then fatalf ''provider must support %s'' [name] else retM ())) (\<lambda>_.
     if cp_MaxPayloadBytes c < ce_MinPayloadBytes expected
     then fatalf ''max payload bytes = %d, want at least %d''
            [itoa (cp_MaxPayloadBytes c), itoa (ce_MinPayloadBytes expected)]
     else retM ())"

definition assertProviderErrorClass :: "providerError option \<Rightarrow> string \<Rightarrow> ('s, unit) check" where
  "assertProviderErrorClass err expected =
     (if expected = []
      then (case err of None \<Rightarrow> retM () | Some e \<Rightarrow> fatalf ''error = %v, want nil'' [providerErrorText e])
      else (case err of
              None \<Rightarrow> fatalf ''error = nil, want class %s'' [expected]
            | Some (ProviderError class _) \<Rightarrow>
                fatalUnless (class = expected) ''error class = %s, want %s'' [class, expected]
            | Some e \<Rightarrow> fatalf ''error = %T, want *providers.Error'' [providerErrorText e]))"

definition assertRemoteVersion :: "syncResult option \<Rightarrow> string \<Rightarrow> ('s, unit) check" where
  "assertRemoteVersion result expected =
     (case result of
        None \<Rightarrow> fatalf ''sync result must not be nil'' []
      | Some r \<Rightarrow> fatalUnless (sr_RemoteVersion r = expected) ''remote version = %q, want %q''
          [sr_RemoteVersion r, expected])"

definition assertMutationOutcome ::
    "syncResult option \<Rightarrow> providerError option \<Rightarrow> 's MaturityCase \<Rightarrow> ('s, unit) check" where
  "assertMutationOutcome result err c =
     (if mc_ErrorClass c \<noteq> []
      then bindM (assertProviderErrorClass err (mc_ErrorClass c)) (\<lambda>_.
           fatalUnless (\<not> (mc_NoResultOnError c \<and> result \<noteq> None)) ''sync result = %#v, want nil on error'' [])
      else (case err of
              Some e \<Rightarrow> fatalf ''%s: %v'' [mc_Operation c, providerErrorText e]
            | None \<Rightarrow> assertRemoteVersion result (mc_RemoteVersion c)))"

definition assertRemoteState :: "remoteState option \<Rightarrow> ReadStateCase \<Rightarrow> ('s, unit) check" where
  "assertRemoteState state c =
     (case state of
        None \<Rightarrow> fatalf ''remote state must not be nil'' []
      | Some s \<Rightarrow>
          if rs_Exists s \<noteq> rc_Exists c then fatalf ''remote state exists = %v, want %v'' [formatBool (rs_Exists s), formatBool (rc_Exists c)]
          else if rs_OwnershipKnown s \<noteq> rc_OwnershipKnown c
          then fatalf ''remote state ownership known = %v, want %v'' [formatBool (rs_OwnershipKnown s), formatBool (rc_OwnershipKnown c)]
          else if rs_Owned s \<noteq> rc_Owned c then fatalf ''remote state owned = %v, want %v'' [formatBool (rs_Owned s), formatBool (rc_Owned c)]
          else if rs_PayloadSHA256 s \<noteq> rc_PayloadSHA256 c
          then fatalf ''remote state payload sha = %q, want %q'' [rs_PayloadSHA256 s, rc_PayloadSHA256 c]
          else if rs_SourceVersion s \<noteq> rc_SourceVersion c
          then fatalf ''remote state source version = %d, want %d''
                 [itoa (rs_SourceVersion s), itoa (rc_SourceVersion c)]
          else fatalUnless (rs_RemoteVersion s = rc_RemoteVersion c) ''remote state version = %q, want %q''
                 [rs_RemoteVersion s, rc_RemoteVersion c])"

text \<open>The identity a request of a case must have.\<close>

definition assertPlanRequestWellFormed :: "planRequest \<Rightarrow> ('s, unit) check" where
  "assertPlanRequestWellFormed r =
     (if pq_ResolvedName r = [] \<or> pq_SourcePath r = [] \<or> pq_SourceVersion r \<le> 0 \<or> pq_AssociationID r = [] \<or>
         pq_ObjectID r = []
      then fatalf ''plan maturity request missing identity fields: %#v'' [] else retM ())"

definition assertUpsertRequestWellFormed :: "upsertRequest \<Rightarrow> ('s, unit) check" where
  "assertUpsertRequestWellFormed r =
     (if ur_ResolvedName r = [] \<or> ur_SourcePath r = [] \<or> ur_SourceVersion r \<le> 0 \<or> ur_AssociationID r = [] \<or>
         ur_ObjectID r = [] \<or> ur_PayloadSHA256 r = [] \<or> ur_Payload r = []
      then fatalf ''upsert maturity request missing identity or payload fields: %#v'' [] else retM ())"

definition assertDeleteRequestWellFormed :: "deleteRequest \<Rightarrow> ('s, unit) check" where
  "assertDeleteRequestWellFormed r =
     (if dr_ResolvedName r = [] \<or> dr_SourcePath r = [] \<or> dr_SourceVersion r \<le> 0 \<or> dr_AssociationID r = [] \<or>
         dr_ObjectID r = []
      then fatalf ''delete maturity request missing identity fields: %#v'' [] else retM ())"

definition assertReadStateRequestWellFormed :: "readStateRequest \<Rightarrow> ('s, unit) check" where
  "assertReadStateRequestWellFormed r =
     (if rr_ResolvedName r = [] \<or> rr_SourcePath r = [] \<or> rr_SourceVersion r \<le> 0 \<or> rr_AssociationID r = [] \<or>
         rr_ObjectID r = []
      then fatalf ''read-state maturity request missing identity fields: %#v'' [] else retM ())"

definition assertMutationExpectationWellFormed :: "'s MaturityCase \<Rightarrow> ('s, unit) check" where
  "assertMutationExpectationWellFormed c =
     (if mc_ErrorClass c \<noteq> []
      then fatalUnless (mc_NoResultOnError c) ''mutation error maturity case must require no result on error'' []
      else fatalUnless (mc_RemoteVersion c \<noteq> [])
             ''successful mutation maturity case requires expected remote version'' [])"

section \<open>Checks\<close>

definition openRuntime ::
    "'s contractProvider \<Rightarrow> providerDestinationConfig \<Rightarrow> ('s, 's providerRuntime) check" where
  "openRuntime provider destination =
     mustReturn (tp_OpenDestination provider destination)
       ''open destination runtime: %v'' ''destination runtime must not be nil''"

definition destinationOrDefault ::
    "providerDestinationConfig \<Rightarrow> providerDestinationConfig \<Rightarrow> providerDestinationConfig" where
  "destinationOrDefault destination fallback =
     (if dc_Name destination = [] \<and> dc_Config destination = [] then fallback else destination)"

definition runTypeCheck :: "'s contractProvider \<Rightarrow> ('s, unit) check" where
  "runTypeCheck provider =
     subtest ''type'' (fatalUnless (tp_Type provider \<noteq> []) ''provider type must not be empty'' [])"

definition runCapabilityCheck :: "'s contractProvider \<Rightarrow> CapabilityExpectations \<Rightarrow> ('s, unit) check" where
  "runCapabilityCheck provider expected =
     subtest ''capabilities'' (assertCapabilities (tp_Capabilities provider) expected)"

definition callValidate ::
    "'s contractProvider \<Rightarrow> providerDestinationConfig \<Rightarrow> ('s, providerError option) check" where
  "callValidate provider destination t =
     (case tp_ValidateConfig provider destination (tr_state t) of (err, s) \<Rightarrow> (Inr err, t \<lparr> tr_state := s \<rparr>))"

definition runValidationCheck ::
    "'s contractProvider \<Rightarrow> providerDestinationConfig \<Rightarrow> ValidationErrorCase option \<Rightarrow> ('s, unit) check" where
  "runValidationCheck provider valid errorCase =
     subtest ''validate''
       (bindM (callValidate provider valid) (\<lambda>err.
        bindM (noError ''validate valid destination: %v'' err) (\<lambda>_.
          case errorCase of
            None \<Rightarrow> retM ()
          | Some c \<Rightarrow> bindM (callValidate provider (vc_Destination c)) (\<lambda>err.
              assertProviderErrorClass err (vc_ErrorClass c)))))"

definition runAssociationValidationCheck ::
    "'s contractProvider \<Rightarrow> providerDestinationConfig \<Rightarrow> ('s, unit) check" where
  "runAssociationValidationCheck provider valid =
     subtest ''normalize-association''
       (bindM (callProvider (tp_NormalizeAssociationConfig provider valid \<lparr> ac_Config = [], ac_Identity = [] \<rparr>))
         (\<lambda>(_, err). noError ''normalize valid association: %v'' err))"

definition runHealthCheck :: "'s contractProvider \<Rightarrow> HealthCase \<Rightarrow> ('s, unit) check" where
  "runHealthCheck provider c =
     subtest ''health''
       (bindM (openRuntime provider (hc_Destination c)) (\<lambda>rt.
        bindM (mustReturn (rt_Health rt) ''health: %v'' ''health result must not be nil'') (\<lambda>health.
        bindM (fatalUnless (hr_Healthy health = hc_Healthy c) ''health healthy = %v, want %v''
                 [formatBool (hr_Healthy health), formatBool (hc_Healthy c)]) (\<lambda>_.
          fatalUnless (hr_ErrorClass health = hc_ErrorClass c) ''health error class = %s, want %s''
            [hr_ErrorClass health, hc_ErrorClass c]))))"

text \<open>The checks of a plan, in \<open>runPlanCheck\<close> and in \<open>runMaturityPlanCase\<close>.\<close>

definition planOutcome ::
    "'s providerRuntime \<Rightarrow> planRequest \<Rightarrow> string \<Rightarrow> string \<Rightarrow> ('s, unit) check" where
  "planOutcome rt request action errorClass =
     bindM (mustReturn (rt_Plan rt request) ''plan: %v'' ''plan result must not be nil'') (\<lambda>result.
     bindM (fatalUnless (pr_Action result = action) ''plan action = %s, want %s'' [pr_Action result, action]) (\<lambda>_.
       fatalUnless (pr_ErrorClass result = errorClass) ''plan error class = %s, want %s''
         [pr_ErrorClass result, errorClass]))"

definition runPlanCheck ::
    "'s contractProvider \<Rightarrow> providerDestinationConfig \<Rightarrow> PlanCase \<Rightarrow> ('s, unit) check" where
  "runPlanCheck provider fallback c =
     subtest (''plan/'' @ pc_Name c)
       (bindM (openRuntime provider (destinationOrDefault (pc_Destination c) fallback)) (\<lambda>rt.
          planOutcome rt (pc_Request c) (pc_Action c) (pc_ErrorClass c)))"

definition runUpsertSuccessCheck ::
    "'s contractProvider \<Rightarrow> providerDestinationConfig \<Rightarrow> UpsertCase \<Rightarrow> ('s, unit) check" where
  "runUpsertSuccessCheck provider fallback c =
     subtest ''upsert''
       (bindM (openRuntime provider (destinationOrDefault (uc_Destination c) fallback)) (\<lambda>rt.
        bindM (callProvider (rt_Upsert rt (uc_Request c))) (\<lambda>(result, err).
        bindM (noError ''upsert: %v'' err) (\<lambda>_. assertRemoteVersion result (uc_RemoteVersion c)))))"

definition runDeleteSuccessCheck ::
    "'s contractProvider \<Rightarrow> providerDestinationConfig \<Rightarrow> DeleteCase \<Rightarrow> ('s, unit) check" where
  "runDeleteSuccessCheck provider fallback c =
     subtest ''delete''
       (bindM (openRuntime provider (destinationOrDefault (dl_Destination c) fallback)) (\<lambda>rt.
        bindM (callProvider (rt_Delete rt (dl_Request c))) (\<lambda>(result, err).
        bindM (noError ''delete: %v'' err) (\<lambda>_. assertRemoteVersion result (dl_RemoteVersion c)))))"

definition runReadStateCheck ::
    "'s contractProvider \<Rightarrow> providerDestinationConfig \<Rightarrow> ReadStateCase \<Rightarrow> ('s, unit) check" where
  "runReadStateCheck provider fallback c =
     subtest ''read-state''
       (bindM (openRuntime provider (destinationOrDefault (rc_Destination c) fallback)) (\<lambda>rt.
        bindM (mustReturn (rt_ReadState rt (rc_Request c)) ''read state: %v'' ''remote state must not be nil'')
          (\<lambda>state. assertRemoteState (Some state) c)))"

definition runUpsertErrorCheck ::
    "'s contractProvider \<Rightarrow> providerDestinationConfig \<Rightarrow> UpsertErrorCase \<Rightarrow> ('s, unit) check" where
  "runUpsertErrorCheck provider fallback c =
     subtest (''upsert-error/'' @ ue_Name c)
       (bindM (openRuntime provider fallback) (\<lambda>rt.
        bindM (callProvider (rt_Upsert rt (ue_Request c))) (\<lambda>(_, err).
          assertProviderErrorClass err (ue_ErrorClass c))))"

definition runDeleteErrorCheck ::
    "'s contractProvider \<Rightarrow> providerDestinationConfig \<Rightarrow> DeleteErrorCase \<Rightarrow> ('s, unit) check" where
  "runDeleteErrorCheck provider fallback c =
     subtest (''delete-error/'' @ de_Name c)
       (bindM (openRuntime provider fallback) (\<lambda>rt.
        bindM (callProvider (rt_Delete rt (de_Request c))) (\<lambda>(_, err).
          assertProviderErrorClass err (de_ErrorClass c))))"

section \<open>Idempotency and life cycle\<close>

text \<open>The loop \<open>for attempt := 1; attempt <= 2; attempt++\<close>.\<close>

definition assertIdempotentUpsert :: "'s providerRuntime \<Rightarrow> upsertRequest \<Rightarrow> bool \<Rightarrow> ('s, unit) check" where
  "assertIdempotentUpsert rt request expectResult =
     eachM [1, 2 :: int] (\<lambda>attempt.
       bindM (callProvider (rt_Upsert rt request)) (\<lambda>(result, err).
         case err of
           Some e \<Rightarrow> fatalf ''idempotent upsert attempt %d: %v'' [itoa attempt, providerErrorText e]
         | None \<Rightarrow> fatalUnless (\<not> (expectResult \<and> result = None))
             ''idempotent upsert attempt %d result must not be nil'' [itoa attempt]))"

definition assertIdempotentDelete :: "'s providerRuntime \<Rightarrow> deleteRequest \<Rightarrow> bool \<Rightarrow> ('s, unit) check" where
  "assertIdempotentDelete rt request expectResult =
     eachM [1, 2 :: int] (\<lambda>attempt.
       bindM (callProvider (rt_Delete rt request)) (\<lambda>(result, err).
         case err of
           Some e \<Rightarrow> fatalf ''idempotent delete attempt %d: %v'' [itoa attempt, providerErrorText e]
         | None \<Rightarrow> fatalUnless (\<not> (expectResult \<and> result = None))
             ''idempotent delete attempt %d result must not be nil'' [itoa attempt]))"

definition nameOrDefault :: "string \<Rightarrow> string \<Rightarrow> string" where
  "nameOrDefault name fallback = (if name = [] then fallback else name)"

definition stateAfter ::
    "'s providerRuntime \<Rightarrow> string \<Rightarrow> ReadStateCase option \<Rightarrow> ('s, unit) check" where
  "stateAfter rt message c =
     (case c of
        None \<Rightarrow> retM ()
      | Some c \<Rightarrow>
          bindM (callProvider (rt_ReadState rt (rc_Request c))) (\<lambda>(state, err).
          bindM (noError message err) (\<lambda>_. assertRemoteState state c)))"

definition optionalReadState :: "ReadStateCase option \<Rightarrow> ('s, unit) check" where
  "optionalReadState c =
     (case c of None \<Rightarrow> retM () | Some c \<Rightarrow> assertReadStateRequestWellFormed (rc_Request c))"

definition runIdempotencyCheck ::
    "'s contractProvider \<Rightarrow> providerDestinationConfig \<Rightarrow> 's IdempotencyCase \<Rightarrow> ('s, unit) check" where
  "runIdempotencyCheck provider fallback c =
     subtest (''idempotency/'' @ nameOrDefault (ic_Name c) ''default'')
       (bindM (assertUpsertRequestWellFormed (ic_UpsertRequest c)) (\<lambda>_.
        bindM (whenM (dr_ResolvedName (ic_DeleteRequest c) \<noteq> [])
                 (assertDeleteRequestWellFormed (ic_DeleteRequest c))) (\<lambda>_.
        bindM (optionalReadState (ic_StateAfterUpsert c)) (\<lambda>_.
        bindM (optionalReadState (ic_StateAfterDelete c)) (\<lambda>_.
        bindM (openRuntime (case ic_Provider c of Some p \<Rightarrow> p | None \<Rightarrow> provider)
                 (destinationOrDefault (ic_Destination c) fallback)) (\<lambda>rt.
        bindM (assertIdempotentUpsert rt (ic_UpsertRequest c) (ic_ExpectMutationResult c)) (\<lambda>_.
        bindM (stateAfter rt ''read state after repeated upsert: %v'' (ic_StateAfterUpsert c)) (\<lambda>_.
          if dr_ResolvedName (ic_DeleteRequest c) = [] then retM ()
          else
            bindM (assertIdempotentDelete rt (ic_DeleteRequest c) (ic_ExpectMutationResult c)) (\<lambda>_.
              stateAfter rt ''read state after repeated delete: %v'' (ic_StateAfterDelete c))))))))))"

definition runLifecycleCheck ::
    "'s contractProvider \<Rightarrow> providerDestinationConfig \<Rightarrow> LifecycleCase \<Rightarrow> ('s, unit) check" where
  "runLifecycleCheck provider fallback c =
     subtest (''lifecycle/'' @ nameOrDefault (lc_Name c) ''default'')
       (bindM (runPlanCheck provider fallback (lc_CreatePlan c)) (\<lambda>_.
        bindM (runUpsertSuccessCheck provider fallback (lc_Create c)) (\<lambda>_.
        bindM (runReadStateCheck provider fallback (lc_StateAfterCreate c)) (\<lambda>_.
        bindM (runPlanCheck provider fallback (lc_NoopPlan c)) (\<lambda>_.
        bindM (runPlanCheck provider fallback (lc_UpdatePlan c)) (\<lambda>_.
        bindM (runUpsertSuccessCheck provider fallback (lc_Update c)) (\<lambda>_.
        bindM (runReadStateCheck provider fallback (lc_StateAfterUpdate c)) (\<lambda>_.
        bindM (runDeleteSuccessCheck provider fallback (lc_Delete c)) (\<lambda>_.
          runReadStateCheck provider fallback (lc_StateAfterDelete c))))))))))"

section \<open>Maturity\<close>

definition assertMaturityCaseWellFormed :: "'s MaturityCase \<Rightarrow> ('s, unit) check" where
  "assertMaturityCaseWellFormed c =
     (if mc_Operation c = OperationPlan
      then bindM (assertPlanRequestWellFormed (mc_PlanRequest c)) (\<lambda>_.
           fatalUnless (mc_PlanAction c \<noteq> []) ''plan maturity case requires expected plan action'' [])
      else if mc_Operation c = OperationUpsert
      then bindM (assertUpsertRequestWellFormed (mc_UpsertRequest c)) (\<lambda>_. assertMutationExpectationWellFormed c)
      else if mc_Operation c = OperationDelete
      then bindM (assertDeleteRequestWellFormed (mc_DeleteRequest c)) (\<lambda>_. assertMutationExpectationWellFormed c)
      else if mc_Operation c = OperationReadState
      then bindM (assertReadStateRequestWellFormed (mc_ReadStateRequest c)) (\<lambda>_.
           if mc_ErrorClass c = [] then optionalReadState (mc_ReadState c) else retM ())
      else if mc_Operation c = OperationHealth
      then fatalUnless (dc_Name (mc_HealthDestination c) \<noteq> []) ''health maturity case requires destination name'' []
      else retM ())"

definition runMaturityPlanCase ::
    "'s contractProvider \<Rightarrow> providerDestinationConfig \<Rightarrow> 's MaturityCase \<Rightarrow> ('s, unit) check" where
  "runMaturityPlanCase provider destination c =
     bindM (openRuntime provider destination) (\<lambda>rt.
       planOutcome rt (mc_PlanRequest c) (mc_PlanAction c) (mc_ErrorClass c))"

definition runMaturityUpsertCase ::
    "'s contractProvider \<Rightarrow> providerDestinationConfig \<Rightarrow> 's MaturityCase \<Rightarrow> ('s, unit) check" where
  "runMaturityUpsertCase provider destination c =
     bindM (openRuntime provider destination) (\<lambda>rt.
     bindM (callProvider (rt_Upsert rt (mc_UpsertRequest c))) (\<lambda>(result, err).
       assertMutationOutcome result err c))"

definition runMaturityDeleteCase ::
    "'s contractProvider \<Rightarrow> providerDestinationConfig \<Rightarrow> 's MaturityCase \<Rightarrow> ('s, unit) check" where
  "runMaturityDeleteCase provider destination c =
     bindM (openRuntime provider destination) (\<lambda>rt.
     bindM (callProvider (rt_Delete rt (mc_DeleteRequest c))) (\<lambda>(result, err).
       assertMutationOutcome result err c))"

definition runMaturityReadStateCase ::
    "'s contractProvider \<Rightarrow> providerDestinationConfig \<Rightarrow> 's MaturityCase \<Rightarrow> ('s, unit) check" where
  "runMaturityReadStateCase provider destination c =
     bindM (openRuntime provider destination) (\<lambda>rt.
     bindM (callProvider (rt_ReadState rt (mc_ReadStateRequest c))) (\<lambda>(state, err).
       if mc_ErrorClass c \<noteq> [] then assertProviderErrorClass err (mc_ErrorClass c)
       else bindM (noError ''read state: %v'' err) (\<lambda>_.
            case mc_ReadState c of None \<Rightarrow> retM () | Some expected \<Rightarrow> assertRemoteState state expected)))"

definition runMaturityHealthCase :: "'s contractProvider \<Rightarrow> 's MaturityCase \<Rightarrow> ('s, unit) check" where
  "runMaturityHealthCase provider c =
     bindM (openRuntime provider (mc_HealthDestination c)) (\<lambda>rt.
     bindM (mustReturn (rt_Health rt) ''health: %v'' ''health result must not be nil'') (\<lambda>health.
       fatalUnless (hr_ErrorClass health = mc_ErrorClass c) ''health error class = %s, want %s''
         [hr_ErrorClass health, mc_ErrorClass c]))"

definition runMaturityCase ::
    "'s contractProvider \<Rightarrow> providerDestinationConfig \<Rightarrow> 's MaturityCase \<Rightarrow> ('s, unit) check" where
  "runMaturityCase fallbackProvider fallback c =
     bindM (assertMaturityCaseWellFormed c) (\<lambda>_.
     let provider = (case mc_Provider c of Some p \<Rightarrow> p | None \<Rightarrow> fallbackProvider);
         destination = destinationOrDefault (mc_Destination c) fallback
     in if mc_Operation c = OperationPlan then runMaturityPlanCase provider destination c
        else if mc_Operation c = OperationUpsert then runMaturityUpsertCase provider destination c
        else if mc_Operation c = OperationDelete then runMaturityDeleteCase provider destination c
        else if mc_Operation c = OperationReadState then runMaturityReadStateCase provider destination c
        else if mc_Operation c = OperationHealth then runMaturityHealthCase provider c
        else fatalf ''unknown maturity operation %q'' [mc_Operation c])"

definition runRequiredMaturityCase ::
    "'s contractProvider \<Rightarrow> providerDestinationConfig \<Rightarrow> string \<Rightarrow> 's MaturityCase \<Rightarrow> ('s, unit) check" where
  "runRequiredMaturityCase fallbackProvider fallback area c =
     bindM (fatalUnless (mc_Operation c \<noteq> []) ''maturity/%s requires an operation'' [area]) (\<lambda>_.
       subtest (area @ ''/'' @ nameOrDefault (mc_Name c) (mc_Operation c))
         (runMaturityCase fallbackProvider fallback c))"

definition runMaturityGroup ::
    "'s contractProvider \<Rightarrow> providerDestinationConfig \<Rightarrow> string \<Rightarrow> 's MaturityCase list \<Rightarrow> ('s, unit) check" where
  "runMaturityGroup provider fallback name cases =
     bindM (fatalUnless (cases \<noteq> []) ''maturity/%s requires at least one case'' [name]) (\<lambda>_.
       eachM cases (runRequiredMaturityCase provider fallback name))"

definition runPartialSuccessCase ::
    "'s contractProvider \<Rightarrow> providerDestinationConfig \<Rightarrow> 's PartialSuccessCase \<Rightarrow> ('s, unit) check" where
  "runPartialSuccessCase provider fallback c =
     bindM (fatalUnless (ps_Mode c \<noteq> []) ''maturity/partial-success requires a mode'' []) (\<lambda>_.
       subtest (''partial-success/'' @ nameOrDefault (ps_Name c) (ps_Mode c))
         (if ps_Mode c = PartialSuccessAtomic
          then bindM (fatalUnless (mc_ErrorClass (ps_Case c) = [])
                 ''atomic partial-success case must not expect an error class'' []) (\<lambda>_.
               whenM (mc_Operation (ps_Case c) \<noteq> []) (runMaturityCase provider fallback (ps_Case c)))
          else if ps_Mode c = PartialSuccessClassifiedFailure
          then bindM (fatalUnless (mc_Operation (ps_Case c) \<noteq> [])
                 ''classified partial-success requires an operation case'' []) (\<lambda>_.
               bindM (fatalUnless (mc_ErrorClass (ps_Case c) \<noteq> [])
                 ''classified partial-success requires an expected error class'' []) (\<lambda>_.
               runMaturityCase provider fallback (ps_Case c)))
          else fatalf ''unknown partial-success mode %q'' [ps_Mode c]))"

definition runMaturityMatrix ::
    "'s contractProvider \<Rightarrow> providerDestinationConfig \<Rightarrow> 's MaturityMatrix \<Rightarrow> ('s, unit) check" where
  "runMaturityMatrix provider fallback m =
     subtest ''maturity''
       (bindM (runMaturityGroup provider fallback ''ownership-loss'' (mm_OwnershipLoss m)) (\<lambda>_.
        bindM (runRequiredMaturityCase provider fallback ''auth-failure'' (mm_AuthFailure m)) (\<lambda>_.
        bindM (runRequiredMaturityCase provider fallback ''throttling'' (mm_Throttling m)) (\<lambda>_.
        bindM (runRequiredMaturityCase provider fallback ''payload-limit'' (mm_PayloadLimit m)) (\<lambda>_.
        bindM (runPartialSuccessCase provider fallback (mm_PartialSuccess m)) (\<lambda>_.
        bindM (runRequiredMaturityCase provider fallback ''stale-remote-state'' (mm_StaleRemoteState m)) (\<lambda>_.
          runMaturityGroup provider fallback ''delete-semantics'' (mm_DeleteSemantics m))))))))"

section \<open>The harness\<close>

definition optionalCheck :: "'a option \<Rightarrow> ('a \<Rightarrow> ('s, unit) check) \<Rightarrow> ('s, unit) check" where
  "optionalCheck c check = (case c of None \<Rightarrow> retM () | Some x \<Rightarrow> check x)"

definition Run :: "'s Harness \<Rightarrow> ('s, unit) check" where
  "Run h =
     (case hn_Provider h of
        None \<Rightarrow> fatalf ''provider must not be nil'' []
      | Some provider \<Rightarrow>
          (let valid = hn_ValidDestination h in
           bindM (runTypeCheck provider) (\<lambda>_.
           bindM (runCapabilityCheck provider (hn_RequiredCapabilities h)) (\<lambda>_.
           bindM (runValidationCheck provider valid (hn_ValidationError h)) (\<lambda>_.
           bindM (runAssociationValidationCheck provider valid) (\<lambda>_.
           bindM (optionalCheck (hn_HealthCase h) (runHealthCheck provider)) (\<lambda>_.
           bindM (eachM (hn_PlanCases h) (runPlanCheck provider valid)) (\<lambda>_.
           bindM (optionalCheck (hn_Lifecycle h) (runLifecycleCheck provider valid)) (\<lambda>_.
           bindM (optionalCheck (hn_Maturity h) (runMaturityMatrix provider valid)) (\<lambda>_.
           bindM (optionalCheck (hn_Idempotency h) (runIdempotencyCheck provider valid)) (\<lambda>_.
           bindM (optionalCheck (hn_UpsertSuccess h) (runUpsertSuccessCheck provider valid)) (\<lambda>_.
           bindM (optionalCheck (hn_DeleteSuccess h) (runDeleteSuccessCheck provider valid)) (\<lambda>_.
           bindM (optionalCheck (hn_ReadStateCase h) (runReadStateCheck provider valid)) (\<lambda>_.
           bindM (eachM (hn_UpsertErrors h) (runUpsertErrorCheck provider valid)) (\<lambda>_.
             eachM (hn_DeleteErrors h) (runDeleteErrorCheck provider valid))))))))))))))))"

section \<open>What the checks establish\<close>

text \<open>A run without failures: no subtest failed, and the test itself did not end early.\<close>

definition passes :: "('s, unit) check \<Rightarrow> 's \<Rightarrow> bool" where
  "passes check s \<longleftrightarrow>
     (case check \<lparr> tr_state = s, tr_failures = [] \<rparr> of
        (Inl _, _) \<Rightarrow> False
      | (Inr _, t) \<Rightarrow> tr_failures t = [])"

text \<open>A provider without state, as the fake one is.\<close>

definition returnCall :: "providerError + 'r \<Rightarrow> (unit, 'r) call" where
  "returnCall r s = ((case r of Inl e \<Rightarrow> (None, Some e) | Inr v \<Rightarrow> (Some v, None)), s)"

definition fakeRuntime :: "string \<Rightarrow> unit providerRuntime" where
  "fakeRuntime name = \<lparr> rt_Health = returnCall (Inr (fakeHealth name)), rt_Plan = (\<lambda>r. returnCall (Inr (fakePlan r))),
     rt_Upsert = (\<lambda>r. returnCall (fakeUpsert r)), rt_Delete = (\<lambda>r. returnCall (fakeDelete r)),
     rt_ReadState = (\<lambda>r. returnCall (fakeReadState r)) \<rparr>"

definition fakeProvider :: "unit contractProvider" where
  "fakeProvider = \<lparr> tp_Type = ''fake'', tp_Capabilities = fakeCapabilities,
     tp_ValidateConfig = (\<lambda>cfg s. (case fakeValidateConfig cfg of Inl e \<Rightarrow> Some e | Inr _ \<Rightarrow> None, s)),
     tp_NormalizeAssociationConfig = (\<lambda>_ a. returnCall (fakeNormalizeAssociationConfig a)),
     tp_OpenDestination = (\<lambda>cfg. returnCall (map_sum id fakeRuntime (fakeOpenDestination cfg))) \<rparr>"

lemma fatalUnless_run [simp]:
  "fatalUnless ok f args t = (if ok then Inr () else Inl (Errorf f args), t)"
  by (simp add: fatalUnless_def fatalf_def retM_def failM_def)

lemmas check_run_defs = passes_def subtest_def bindM_def tryM_def retM_def failM_def fatalf_def
  callProvider_def noError_def mustReturn_def openRuntime_def returnCall_def

text \<open>The checks separate a provider that keeps the contract from one that does not: an upsert check passes
  just when the provider opens the destination and answers with the expected version and no error, and
  an error check just when it answers with an error of the expected class.\<close>

lemma passes_upsert:
  assumes "tp_OpenDestination provider (destinationOrDefault (uc_Destination c) fallback) s = ((Some rt, None), s1)"
  shows "passes (runUpsertSuccessCheck provider fallback c) s \<longleftrightarrow>
    (\<exists>r. fst (rt_Upsert rt (uc_Request c) s1) = (Some r, None) \<and> sr_RemoteVersion r = uc_RemoteVersion c)"
  using assms
  by (cases "rt_Upsert rt (uc_Request c) s1")
    (auto simp: check_run_defs runUpsertSuccessCheck_def assertRemoteVersion_def split: option.splits if_splits)

lemma passes_upsert_error:
  assumes "tp_OpenDestination provider fallback s = ((Some rt, None), s1)" and "ue_ErrorClass c \<noteq> []"
  shows "passes (runUpsertErrorCheck provider fallback c) s \<longleftrightarrow>
    (\<exists>m. snd (fst (rt_Upsert rt (ue_Request c) s1)) = Some (ProviderError (ue_ErrorClass c) m))"
  using assms
  by (cases "rt_Upsert rt (ue_Request c) s1")
    (auto simp: check_run_defs runUpsertErrorCheck_def assertProviderErrorClass_def
      split: option.splits providerError.splits if_splits)

text \<open>The fake provider passes: whatever the name, a mutation either succeeds or fails with its class.\<close>

lemma fake_upsert_conforms:
  assumes "fakeValidateConfig fallback = Inr ()"
  shows "passes (runUpsertErrorCheck fakeProvider fallback
      \<lparr> ue_Name = n, ue_Request = r, ue_ErrorClass = class \<rparr>) () \<longleftrightarrow>
    (class = [] \<and> (\<exists>v. fakeUpsert r = Inr v)) \<or> (class \<noteq> [] \<and> (\<exists>m. fakeUpsert r = Inl (ProviderError class m)))"
  using assms
  by (cases "fakeUpsert r")
    (auto simp: check_run_defs runUpsertErrorCheck_def assertProviderErrorClass_def fakeProvider_def
      fakeOpenDestination_def fakeRuntime_def split: option.splits providerError.splits if_splits)

end
