(* ===== verification/Provider_Registry.thy ===== *)
theory Provider_Registry
  imports Contract_Checks "HOL-Library.AList"
begin

text \<open>
  The registry of providers (\<open>internal/providers/registry.go\<close>): one provider per type, looked up by type
  and listed in the order of the types. A registry is the Go map of it; a nil registry is \<open>None\<close>, and a
  panic of \<open>MustNewRegistry\<close> is \<open>None\<close> too.
\<close>

type_synonym 's registry = "(string \<times> 's contractProvider) list"

definition registerProvider :: "'s registry \<Rightarrow> 's contractProvider option \<Rightarrow> gerr + 's registry" where
  "registerProvider r provider =
     (case provider of
        None \<Rightarrow> Inl (Errorf ''provider registry contains nil provider'' [])
      | Some p \<Rightarrow>
          if tp_Type p = [] then Inl (Errorf ''provider registry contains provider with empty type'' [])
          else if map_of r (tp_Type p) \<noteq> None
          then Inl (Errorf ''provider type %q registered more than once'' [tp_Type p])
          else Inr (AList.update (tp_Type p) p r))"

definition NewRegistry :: "'s contractProvider option list \<Rightarrow> gerr + 's registry" where
  "NewRegistry providerList = foldE registerProvider [] providerList"

definition MustNewRegistry :: "'s contractProvider option list \<Rightarrow> 's registry option" where
  "MustNewRegistry providerList = (case NewRegistry providerList of Inl _ \<Rightarrow> None | Inr r \<Rightarrow> Some r)"

definition GetProvider :: "'s registry option \<Rightarrow> string \<Rightarrow> 's contractProvider option" where
  "GetProvider r providerType = (case r of None \<Rightarrow> None | Some m \<Rightarrow> map_of m providerType)"

definition MustGetProvider :: "'s registry option \<Rightarrow> string \<Rightarrow> gerr + 's contractProvider" where
  "MustGetProvider r providerType =
     (case GetProvider r providerType of
        None \<Rightarrow> Inl (Errorf ''unsupported destination type %q'' [providerType])
      | Some p \<Rightarrow> Inr p)"

definition RegisteredProviders :: "'s registry option \<Rightarrow> 's contractProvider list" where
  "RegisteredProviders r =
     (case r of None \<Rightarrow> [] | Some m \<Rightarrow> List.map_filter (map_of m) (sort (map fst m)))"

section \<open>Laws\<close>

definition registryOf :: "'s contractProvider list \<Rightarrow> 's registry \<Rightarrow> bool" where
  "registryOf ps m \<longleftrightarrow> distinct (map tp_Type ps) \<and> [] \<notin> tp_Type ` set ps \<and>
     distinct (map fst m) \<and> set m = (\<lambda>p. (tp_Type p, p)) ` set ps"

lemma registryOf_lookup:
  assumes "registryOf ps m"
  shows "map_of m t = Some p \<longleftrightarrow> p \<in> set ps \<and> tp_Type p = t"
  using assms by (auto simp: registryOf_def map_of_eq_Some_iff image_iff)

lemma registerProvider_Inr:
  assumes "registryOf ps m" and "registerProvider m provider = Inr m'"
  shows "\<exists>p. provider = Some p \<and> registryOf (ps @ [p]) m'"
proof -
  obtain p where p: "provider = Some p" "tp_Type p \<noteq> []" "map_of m (tp_Type p) = None"
      "m' = AList.update (tp_Type p) p m"
    using assms(2) by (auto simp: registerProvider_def split: option.splits if_splits)
  have new: "tp_Type p \<notin> fst ` set m" using p(3) by (simp add: map_of_eq_None_iff)
  then have "m' = m @ [(tp_Type p, p)]" unfolding p(4) by (induction m) auto
  moreover have "fst ` set m = tp_Type ` set ps"
    using assms(1) by (simp add: registryOf_def image_image)
  ultimately have "registryOf (ps @ [p]) m'"
    using assms(1) p(2) new by (simp add: registryOf_def image_Un)
  then show ?thesis using p(1) by blast
qed

lemma NewRegistry_Inr:
  assumes "NewRegistry providerList = Inr m"
  shows "\<exists>ps. providerList = map Some ps \<and> registryOf ps m"
proof -
  have "\<exists>ps. providerList = map Some ps \<and> registryOf (qs @ ps) m'"
    if "registryOf qs m0" "foldE registerProvider m0 providerList = Inr m'" for qs m0 m'
    using that
  proof (induction providerList arbitrary: qs m0)
    case (Cons x xs)
    then obtain m1 where m1: "registerProvider m0 x = Inr m1" "foldE registerProvider m1 xs = Inr m'"
      by (auto split: sum.splits)
    from registerProvider_Inr [OF Cons.prems(1) m1(1)] obtain p where p: "x = Some p" "registryOf (qs @ [p]) m1"
      by blast
    from Cons.IH [OF p(2) m1(2)] show ?case using p(1) by (metis append.assoc append_Cons append_Nil list.simps(9))
  qed simp
  from this [of "[]" "[]" m] show ?thesis using assms by (simp add: NewRegistry_def registryOf_def)
qed

text \<open>A registry that is built has every provider under its own type and no other, and lists them by type.\<close>

lemma registry_lookup:
  assumes "NewRegistry (map Some ps) = Inr m"
  shows "GetProvider (Some m) t = Some p \<longleftrightarrow> p \<in> set ps \<and> tp_Type p = t"
proof -
  obtain qs where "map Some ps = map Some qs" "registryOf qs m" using NewRegistry_Inr [OF assms] by blast
  moreover have "inj Some" by simp
  ultimately show ?thesis using registryOf_lookup [of qs m t p] by (simp add: GetProvider_def inj_map_eq_map)
qed

lemma registry_listing:
  assumes "NewRegistry (map Some ps) = Inr m"
  shows "sorted (map tp_Type (RegisteredProviders (Some m)))" and "set (RegisteredProviders (Some m)) = set ps"
proof -
  obtain qs where qs: "map Some ps = map Some qs" "registryOf qs m" using NewRegistry_Inr [OF assms] by blast
  then have ps: "qs = ps" by (simp add: inj_map_eq_map)
  note look = registryOf_lookup [OF qs(2), unfolded ps]
  have types: "map tp_Type (List.map_filter (map_of m) ks) = filter (\<lambda>k. map_of m k \<noteq> None) ks" for ks
  proof (induction ks)
    case (Cons k ks)
    show ?case
    proof (cases "map_of m k")
      case (Some p)
      then have "tp_Type p = k" using look [of k p] by simp
      then show ?thesis using Some Cons by (simp add: List.map_filter_simps)
    qed (use Cons in \<open>simp add: List.map_filter_simps\<close>)
  qed (simp add: List.map_filter_simps)
  show "sorted (map tp_Type (RegisteredProviders (Some m)))"
    by (simp add: RegisteredProviders_def types sorted_filter [of "\<lambda>k. k", simplified])
  show "set (RegisteredProviders (Some m)) = set ps"
  proof (rule set_eqI)
    fix p :: "'a contractProvider"
    have found: "p \<in> set (List.map_filter f xs) \<longleftrightarrow> (\<exists>t \<in> set xs. f t = Some p)"
      for f and xs :: "string list"
      by (induction xs) (auto simp: List.map_filter_simps split: option.splits)
    have "p \<in> set (RegisteredProviders (Some m)) \<longleftrightarrow> (\<exists>t \<in> fst ` set m. map_of m t = Some p)"
      by (simp add: RegisteredProviders_def found)
    also have "\<dots> \<longleftrightarrow> (\<exists>t. map_of m t = Some p)"
      using map_of_eq_None_iff [of m] by (metis option.distinct(1))
    also have "\<dots> \<longleftrightarrow> p \<in> set ps" by (simp add: look)
    finally show "p \<in> set (RegisteredProviders (Some m)) \<longleftrightarrow> p \<in> set ps" .
  qed
qed

end
