(* ===== verification/Observability.thy ===== *)
theory Observability
  imports Queue_Paths Reconcile
begin

text \<open>
  The metrics of the plugin (\<open>internal/observability/observability.go\<close>, \<open>internal/backend/metrics.go\<close> and the
  \<open>record\<close> functions of the dispatcher, the queue and the reconciliation). A recorder maps an event to
  measurements: the instrument, the value and the attributes. The instruments themselves belong to
  OpenTelemetry; what they are given is a list here. No metric influences the rest of the plugin, so the
  handlers of the other theories leave them out. A utilization is the float \<open>m * 2 ^ e\<close> of the summary, and a duration is
  in nanoseconds.
\<close>

section \<open>Names\<close>

definition MetricQueueDepth :: string where "MetricQueueDepth = ''openbao.secret_sync.queue.depth''"
definition MetricOperations :: string where "MetricOperations = ''openbao.secret_sync.operations''"
definition MetricProviderRequests :: string where
  "MetricProviderRequests = ''openbao.secret_sync.provider.requests''"
definition MetricProviderRequestDuration :: string where
  "MetricProviderRequestDuration = ''openbao.secret_sync.provider.request.duration''"
definition MetricReadinessChecks :: string where "MetricReadinessChecks = ''openbao.secret_sync.readiness.checks''"
definition MetricRemoteMutationBlocked :: string where
  "MetricRemoteMutationBlocked = ''openbao.secret_sync.remote_mutation.blocked''"
definition MetricReconcileRuns :: string where "MetricReconcileRuns = ''openbao.secret_sync.reconcile.runs''"
definition MetricDriftRepairs :: string where "MetricDriftRepairs = ''openbao.secret_sync.drift.repairs''"
definition MetricQueueCapacity :: string where "MetricQueueCapacity = ''openbao.secret_sync.queue.capacity''"
definition MetricQueueUtilization :: string where
  "MetricQueueUtilization = ''openbao.secret_sync.queue.utilization''"
definition MetricRestoreGuardActive :: string where
  "MetricRestoreGuardActive = ''openbao.secret_sync.restore_guard.active''"

definition AttributeProvider :: string where "AttributeProvider = ''provider''"
definition AttributeDestinationType :: string where "AttributeDestinationType = ''destination_type''"
definition AttributeOperation :: string where "AttributeOperation = ''operation''"
definition AttributeState :: string where "AttributeState = ''state''"
definition AttributeResult :: string where "AttributeResult = ''result''"
definition AttributeErrorClass :: string where "AttributeErrorClass = ''error_class''"
definition AttributeGranularity :: string where "AttributeGranularity = ''granularity''"
definition AttributeCheck :: string where "AttributeCheck = ''check''"
definition AttributeBlocker :: string where "AttributeBlocker = ''blocker''"
definition AttributeReason :: string where "AttributeReason = ''reason''"

definition ValueNone :: string where "ValueNone = ''none''"
definition ValueUnknown :: string where "ValueUnknown = ''unknown''"

definition ResultSuccess :: string where "ResultSuccess = ''success''"
definition ResultRetry :: string where "ResultRetry = ''retry''"
definition ResultFailure :: string where "ResultFailure = ''failure''"
definition ResultSkipped :: string where "ResultSkipped = ''skipped''"

definition OperationHealthMetric :: string where "OperationHealthMetric = ''health''"

section \<open>Events\<close>

record OperationEvent =
  oe_Operation :: string
  oe_Result :: string
  oe_ErrorClass :: string
  oe_DestinationType :: string
  oe_Granularity :: string

record ProviderRequestEvent =
  pe_Provider :: string
  pe_Operation :: string
  pe_Result :: string
  pe_ErrorClass :: string
  pe_Duration :: duration

record ReadinessCheckEvent =
  re_Check :: string
  re_Result :: string
  re_Blocker :: string
  re_DestinationType :: string

record RemoteMutationBlockedEvent =
  rb_Operation :: string
  rb_Reason :: string

record ReconcileRunEvent =
  rn_Result :: string
  rn_ErrorClass :: string
  rn_DestinationType :: string
  rn_Granularity :: string

record DriftRepairEvent =
  dp_Result :: string
  dp_ErrorClass :: string
  dp_DestinationType :: string
  dp_Granularity :: string

record QueueCapacityEvent =
  qc_Capacity :: int
  qc_Utilization :: "int \<times> int"

section \<open>Measurements\<close>

datatype measured = Whole int | FloatValue "int \<times> int" | Seconds duration

type_synonym measurement = "string \<times> measured \<times> (string \<times> string) list"

definition normalizeAttribute :: "string \<Rightarrow> string" where
  "normalizeAttribute v = (if v = [] then ValueUnknown else v)"

definition normalizeNone :: "string \<Rightarrow> string" where
  "normalizeNone v = (if v = [] then ValueNone else v)"

definition operationAttributes :: "OperationEvent \<Rightarrow> (string \<times> string) list" where
  "operationAttributes e =
     [(AttributeOperation, normalizeAttribute (oe_Operation e)), (AttributeResult, normalizeAttribute (oe_Result e)),
      (AttributeErrorClass, normalizeNone (oe_ErrorClass e)),
      (AttributeDestinationType, normalizeAttribute (oe_DestinationType e)),
      (AttributeGranularity, normalizeAttribute (oe_Granularity e))]"

definition providerRequestAttributes :: "ProviderRequestEvent \<Rightarrow> (string \<times> string) list" where
  "providerRequestAttributes e =
     [(AttributeProvider, normalizeAttribute (pe_Provider e)),
      (AttributeOperation, normalizeAttribute (pe_Operation e)), (AttributeResult, normalizeAttribute (pe_Result e)),
      (AttributeErrorClass, normalizeNone (pe_ErrorClass e))]"

definition readinessCheckAttributes :: "ReadinessCheckEvent \<Rightarrow> (string \<times> string) list" where
  "readinessCheckAttributes e =
     [(AttributeCheck, normalizeAttribute (re_Check e)), (AttributeResult, normalizeAttribute (re_Result e)),
      (AttributeBlocker, normalizeNone (re_Blocker e)),
      (AttributeDestinationType, normalizeAttribute (re_DestinationType e))]"

definition remoteMutationBlockedAttributes :: "RemoteMutationBlockedEvent \<Rightarrow> (string \<times> string) list" where
  "remoteMutationBlockedAttributes e =
     [(AttributeOperation, normalizeAttribute (rb_Operation e)), (AttributeReason, normalizeAttribute (rb_Reason e))]"

definition reconcileRunAttributes :: "ReconcileRunEvent \<Rightarrow> (string \<times> string) list" where
  "reconcileRunAttributes e =
     [(AttributeResult, normalizeAttribute (rn_Result e)), (AttributeErrorClass, normalizeNone (rn_ErrorClass e)),
      (AttributeDestinationType, normalizeAttribute (rn_DestinationType e)),
      (AttributeGranularity, normalizeAttribute (rn_Granularity e))]"

definition driftRepairAttributes :: "DriftRepairEvent \<Rightarrow> (string \<times> string) list" where
  "driftRepairAttributes e =
     [(AttributeResult, normalizeAttribute (dp_Result e)), (AttributeErrorClass, normalizeNone (dp_ErrorClass e)),
      (AttributeDestinationType, normalizeAttribute (dp_DestinationType e)),
      (AttributeGranularity, normalizeAttribute (dp_Granularity e))]"

section \<open>The recorder\<close>

definition QueueDepth :: "string \<Rightarrow> int \<Rightarrow> measurement list" where
  "QueueDepth state depth = [(MetricQueueDepth, Whole depth, [(AttributeState, normalizeAttribute state)])]"

definition Operation :: "OperationEvent \<Rightarrow> measurement list" where
  "Operation e = [(MetricOperations, Whole 1, operationAttributes e)]"

definition ProviderRequest :: "ProviderRequestEvent \<Rightarrow> measurement list" where
  "ProviderRequest e =
     [(MetricProviderRequests, Whole 1, providerRequestAttributes e),
      (MetricProviderRequestDuration, Seconds (pe_Duration e), providerRequestAttributes e)]"

definition ReadinessCheck :: "ReadinessCheckEvent \<Rightarrow> measurement list" where
  "ReadinessCheck e = [(MetricReadinessChecks, Whole 1, readinessCheckAttributes e)]"

definition RemoteMutationBlocked :: "RemoteMutationBlockedEvent \<Rightarrow> measurement list" where
  "RemoteMutationBlocked e = [(MetricRemoteMutationBlocked, Whole 1, remoteMutationBlockedAttributes e)]"

definition ReconcileRun :: "ReconcileRunEvent \<Rightarrow> measurement list" where
  "ReconcileRun e = [(MetricReconcileRuns, Whole 1, reconcileRunAttributes e)]"

definition DriftRepair :: "DriftRepairEvent \<Rightarrow> measurement list" where
  "DriftRepair e = [(MetricDriftRepairs, Whole 1, driftRepairAttributes e)]"

definition QueueCapacity :: "QueueCapacityEvent \<Rightarrow> measurement list" where
  "QueueCapacity e =
     [(MetricQueueCapacity, Whole (qc_Capacity e), []), (MetricQueueUtilization, FloatValue (qc_Utilization e), [])]"

definition RestoreGuardActive :: "bool \<Rightarrow> measurement list" where
  "RestoreGuardActive active = [(MetricRestoreGuardActive, Whole (if active then 1 else 0), [])]"

section \<open>What the backend records\<close>

definition destinationTypeFromRef :: "string \<Rightarrow> string" where
  "destinationTypeFromRef reference =
     (case cutAt slash reference of None \<Rightarrow> reference | Some (destinationType, _) \<Rightarrow> destinationType)"

definition operationGranularity :: "outboxRecord \<Rightarrow> string" where
  "operationGranularity r =
     (if ob_ObjectID r = [] then ValueUnknown
      else if ob_ObjectID r = syncObjectIDSecretPath then syncGranularitySecretPath
      else syncGranularitySecretKey)"

definition observabilityOperation :: "string \<Rightarrow> string" where
  "observabilityOperation operationType =
     (if operationType = OperationTypeUpsert then ''upsert''
      else if operationType = OperationTypeDelete then ''delete''
      else operationType)"

definition recordDriftRepair :: "outboxRecord \<Rightarrow> string \<Rightarrow> string \<Rightarrow> measurement list" where
  "recordDriftRepair r result errorClass =
     DriftRepair \<lparr> dp_Result = result, dp_ErrorClass = errorClass,
       dp_DestinationType = destinationTypeFromRef (ob_DestinationRef r), dp_Granularity = operationGranularity r \<rparr>"

definition recordOperationSuccess :: "outboxRecord \<Rightarrow> measurement list" where
  "recordOperationSuccess r =
     Operation \<lparr> oe_Operation = observabilityOperation (ob_Type r), oe_Result = ResultSuccess, oe_ErrorClass = [],
       oe_DestinationType = destinationTypeFromRef (ob_DestinationRef r), oe_Granularity = operationGranularity r \<rparr> @
     (if outboxTrigger r = outboxTriggerDriftRepair then recordDriftRepair r ResultSuccess [] else [])"

definition recordOperationFailure :: "outboxRecord \<Rightarrow> string \<Rightarrow> measurement list" where
  "recordOperationFailure r errorClass =
     (let result = (if shouldRetryAutomatically errorClass (ob_Attempts r + 1) then ResultRetry else ResultFailure)
      in Operation \<lparr> oe_Operation = observabilityOperation (ob_Type r), oe_Result = result,
           oe_ErrorClass = errorClass, oe_DestinationType = destinationTypeFromRef (ob_DestinationRef r),
           oe_Granularity = operationGranularity r \<rparr> @
         (if outboxTrigger r = outboxTriggerDriftRepair then recordDriftRepair r result errorClass else []))"

definition recordProviderRequest :: "string \<Rightarrow> string \<Rightarrow> gerr option \<Rightarrow> duration \<Rightarrow> measurement list" where
  "recordProviderRequest providerType operation err duration =
     ProviderRequest \<lparr> pe_Provider = providerType, pe_Operation = operation,
       pe_Result = (case err of None \<Rightarrow> ResultSuccess | Some _ \<Rightarrow> ResultFailure),
       pe_ErrorClass = (case err of None \<Rightarrow> [] | Some e \<Rightarrow> providerErrorClass e), pe_Duration = duration \<rparr>"

definition recordProviderHealthRequest ::
    "string \<Rightarrow> gerr + healthResult option \<Rightarrow> duration \<Rightarrow> measurement list" where
  "recordProviderHealthRequest providerType outcome duration =
     (let (result, errorClass) =
        (case outcome of
           Inl e \<Rightarrow> (ResultFailure, providerErrorClass e)
         | Inr None \<Rightarrow> (ResultFailure, ErrorClassInternal)
         | Inr (Some h) \<Rightarrow> if \<not> hr_Healthy h then (ResultFailure, hr_ErrorClass h) else (ResultSuccess, []))
      in ProviderRequest \<lparr> pe_Provider = providerType, pe_Operation = OperationHealthMetric, pe_Result = result,
           pe_ErrorClass = errorClass, pe_Duration = duration \<rparr>)"

definition recordReadinessCheck :: "string \<Rightarrow> string \<Rightarrow> string list \<Rightarrow> measurement list" where
  "recordReadinessCheck check destinationType blockers =
     ReadinessCheck \<lparr> re_Check = check, re_Result = (if blockers \<noteq> [] then ResultFailure else ResultSuccess),
       re_Blocker = (case blockers of [] \<Rightarrow> [] | b # _ \<Rightarrow> b), re_DestinationType = destinationType \<rparr>"

definition recordRemoteMutationBlocked :: "string \<Rightarrow> string \<Rightarrow> measurement list" where
  "recordRemoteMutationBlocked operation reason =
     RemoteMutationBlocked \<lparr> rb_Operation = operation, rb_Reason = reason \<rparr>"

definition recordQueueSummary :: "queueSummary \<Rightarrow> measurement list" where
  "recordQueueSummary s =
     QueueDepth outboxStatePending (qs_Pending s) @ QueueDepth outboxStateRetryWait (qs_RetryWait s) @
     QueueDepth outboxStateFailedTerminal (qs_Terminal s) @
     QueueCapacity \<lparr> qc_Capacity = qs_Capacity s, qc_Utilization = qs_Utilization s \<rparr>"

definition reconcileObservabilityResult :: "reconcileObjectResult \<Rightarrow> string" where
  "reconcileObservabilityResult r =
     (if ro_state r = SyncStateSynced then ResultSuccess
      else if ro_state r = SyncStateDisabled then ResultSkipped
      else ResultFailure)"

definition recordReconcileRun :: "reconcileObjectResult \<Rightarrow> measurement list" where
  "recordReconcileRun r =
     ReconcileRun \<lparr> rn_Result = reconcileObservabilityResult r, rn_ErrorClass = ro_errorClass r,
       rn_DestinationType = as_DestinationType (ro_association r),
       rn_Granularity = as_Granularity (ro_association r) \<rparr>"

section \<open>Low cardinality\<close>

text \<open>The values the attributes of an operation may have: the names of this theory, the kinds of operation and
  granularity, the destination type, and the error class. No path, name, identifier or version of the
  operation is among them, and two operations that differ only in those are not told apart.\<close>

definition operationValues :: "outboxRecord \<Rightarrow> string \<Rightarrow> string set" where
  "operationValues r errorClass =
     {ResultSuccess, ResultRetry, ResultFailure, ValueNone, ValueUnknown, syncGranularitySecretPath,
      syncGranularitySecretKey, ob_Type r, ''upsert'', ''delete'', destinationTypeFromRef (ob_DestinationRef r), errorClass}"

lemma attribute_values:
  assumes "ValueNone \<in> A" "ValueUnknown \<in> A"
  shows "{oe_Operation e, oe_Result e, oe_DestinationType e, oe_Granularity e} \<subseteq> A \<Longrightarrow> oe_ErrorClass e \<in> insert [] A \<Longrightarrow>
      snd ` set (operationAttributes e) \<subseteq> A"
    and "{dp_Result d, dp_DestinationType d, dp_Granularity d} \<subseteq> A \<Longrightarrow> dp_ErrorClass d \<in> insert [] A \<Longrightarrow>
      snd ` set (driftRepairAttributes d) \<subseteq> A"
  using assms
  by (simp_all add: operationAttributes_def driftRepairAttributes_def normalizeAttribute_def normalizeNone_def) auto

lemma operationValues_members [simp]:
  "ValueNone \<in> operationValues r c" "ValueUnknown \<in> operationValues r c" "ResultSuccess \<in> operationValues r c"
  "ResultRetry \<in> operationValues r c" "ResultFailure \<in> operationValues r c" "c \<in> operationValues r c"
  "destinationTypeFromRef (ob_DestinationRef r) \<in> operationValues r c"
  "operationGranularity r \<in> operationValues r c" "observabilityOperation (ob_Type r) \<in> operationValues r c"
  by (simp_all add: operationValues_def operationGranularity_def observabilityOperation_def)

lemma operation_attributes:
  assumes "(name, value, attributes) \<in> set (recordOperationFailure r errorClass) \<union> set (recordOperationSuccess r)"
  shows "snd ` set attributes \<subseteq> operationValues r errorClass"
proof -
  define P where "P a \<longleftrightarrow> snd ` set a \<subseteq> operationValues r errorClass" for a :: "(string \<times> string) list"
  note P = attribute_values [of "operationValues r errorClass", folded P_def, simplified]
  have "P attributes"
    using assms
    unfolding recordOperationSuccess_def recordOperationFailure_def recordDriftRepair_def Operation_def DriftRepair_def Let_def
    by (auto split: if_splits intro!: P)
  then show ?thesis by (simp add: P_def)
qed

lemma operation_measurements_cong:
  assumes "ob_Type r = ob_Type q" and "ob_DestinationRef r = ob_DestinationRef q"
    and "operationGranularity r = operationGranularity q" and "outboxTrigger r = outboxTrigger q"
    and "ob_Attempts r = ob_Attempts q"
  shows "recordOperationSuccess r = recordOperationSuccess q"
    and "recordOperationFailure r errorClass = recordOperationFailure q errorClass"
  using assms by (simp_all add: recordOperationSuccess_def recordOperationFailure_def recordDriftRepair_def)

end
