(* ===== verification/Spec2Isabelle.thy ===== *)
theory Spec2Isabelle
  imports Storage_Properties Record_Properties Failure_Properties Destination_Properties Data_Delete Background
    Source_Paths Cache_Properties Endpoint_Properties GitLab_Properties Kubernetes_Properties AWS_Properties
    Write_Locks Provider_Registry Observability
begin

text \<open>
  Verification development for the OpenBao secrets-sync plugin.

  The plugin keeps versioned secrets under source paths and copies the current version of each to
  destinations: GitLab project variables, Kubernetes secrets, and AWS Secrets Manager. A write to a source
  path stores the new version and adds an operation to a durable queue for every association of the path. A
  dispatcher, woken by a signal, a timer or the periodic function, claims due operations under a lease,
  calls the destination provider, and commits the outcome if it still holds the claim. Reconciliation
  compares remote objects with the current version. A restore guard and a global switch stop all remote
  changes. Everything is kept in \<open>logical.Storage\<close>, any call of which may fail.

  The language. A Go function that works on storage is a program \<open>('w, 'a) io\<close>: it gives an error or a value, and
  the world it leaves behind (theory Prelude, with the rules of \<open>wp\<close>; a postcondition for success and one
  for errors). A pure fallible function gives a sum. Errors are values of \<open>gerr\<close>, with a constructor
  for each sentinel error that callers test; \<open>Errorf\<close> keeps the format and the arguments. Structs are records
  with the fields of the source, strings are byte strings, maps are association lists, and a nil map or
  slice is the empty list. The parts of the Go library that the plugin uses are modelled: strings, numerals
  and sorting (Prelude, Go_Strings), times and their RFC 3339 text (Go_Time), durations (Go_Duration), runes and UTF-8
  (Go_Runes), white space (Go_Trim), and the JSON of payloads and string lists (Payload, Go_JSON). Go code is named by
  file and function in the opening text of each theory; PROJECT.json maps every definition to its lines.

  The world. \<open>'w world\<close> (theory World) holds what the code does not own: storage, transactions, the clock,
  randomness, SHA-256 and the providers. The locale \<open>bao_storage\<close> states the laws the code relies on: a read
  returns the contents, a write changes one key or fails before or after doing so, listings are
  complete. \<open>transactional_storage\<close> (theory Transactions) adds that a rolled back transaction leaves no trace,
  \<open>clocked_storage\<close> (theory Clock) that the clock does not go back. All are interpreted by an executable memory with a schedule of faults (theory Mem_World); witnesses run the code in it.

  The core.
    \<^item> Storage_Records, Storage_Outbox, Storage_Status, Storage_Source, Storage_Association: records, keys, and
      the storage operations of \<open>internal/backend/storage_*.go\<close>. Outbox_Store shows that the
      queue operations refine a map from ids to records (locale \<open>queue_store\<close>) under \<open>outbox_inv\<close>, Association_Store the same
      for associations (\<open>association_store\<close>), Outbox_Queries that the listings by due time, state and path are exact, and
      Outbox_Cancel that cancelling takes no operation from a worker.
      Storage_Properties and Record_Properties state the results.
    \<^item> Config and Config_Laws: the global configuration, the restore guard and the runtime state of a mount; what a
      configuration write leaves, with the restore epoch it drew.
    \<^item> Granularity, Diagnostics, Payload: association policy, error texts, statuses, and payloads, with the encoder of
      \<open>encoding/json\<close> and its settings written out.
    \<^item> Enqueue, Data_Write, Data_Delete, Source_Paths: source versions and the operations they queue, with the
      enqueue intents that recovery completes after a crash.
    \<^item> Retry, Dispatcher, Dispatcher_Laws, Frames: claims, outcomes and the retry schedule. Dispatch_Properties shows that
      claims exclude each other and that every outcome is fenced, Failure_Properties what a failed attempt
      leaves and that retries end.
    \<^item> Queue_Paths, Reconcile, Background: the queue endpoints, reconciliation and drift repair, initialization, the periodic
      function and the event dispatcher, a step relation whose runs of the dispatcher are single steps.
    \<^item> Association_Fields, Association_Paths, Association_Plan, Destination_Fields, Destination_Paths: the endpoints of
      associations and destinations. Destination_Properties shows that a failed write never mixes an old record with new
      secrets, and that a read shows none.
    \<^item> Runtime_Cache, Runtime_Runs, Cache_Properties: the cache of provider runtimes under concurrent requests and
      invalidations, as a step relation with history variables; no run publishes a stale
      runtime or leaks one.
    \<^item> Write_Locks: what each handler does up to its lock call and the keys it locks, and the locks as a step relation over
      a table of locks (locale \<open>lock_table\<close>). Requests that work on a common source path, remote name or destination
      exclude each other, others share no key, and there is no deadlock. A request that gets no locks ends with
      the response of its handler (\<open>refused_before_locks\<close>). This is why the handlers of the other theories run one at a time.
    \<^item> Observability: what each event adds to which metric, and that no metric names a path or an object.

  The providers.
    \<^item> Provider_Contract, Contract_Checks, Provider_Registry, Provider_Requests, Provider_Endpoints: the interface, the fake
      provider, the conformance checks of the repository, the registry, the requests that belong together,
      and the errors and addresses of connections.
    \<^item> Endpoint_Guard and Endpoint_Properties: which addresses an operator's endpoint may reach, on 32-bit and
      128-bit words; the policy equals a closed form for IPv4 and IPv6, and a guarded dial reaches no restricted address.
    \<^item> GitLab_Metadata, GitLab_Options, GitLab_Provider, GitLab_Laws, GitLab_Server, GitLab_Properties; Kubernetes_Options, Kubernetes_Secret, Kubernetes_Provider,
      Kubernetes_Laws, Kubernetes_Server, Kubernetes_Properties; AWS_Options, AWS_Provider, AWS_Server, AWS_Properties: for each provider its
      configuration, its operations over the client interface of the source, the laws of the server as a locale
      (\<open>variable_store\<close>, \<open>secret_store\<close>, \<open>secrets_account\<close>), a server in memory that satisfies them, and the properties:
      objects of others are not touched, and a successful upsert is seen as synced. The two escapes of a GitLab
      description share the locale \<open>rune_escape\<close>.

  Kinds of lemmas. Invariants and refinements hold for any storage, whichever of its calls fail; the second
  postcondition of a property says what survives a failure. Witnesses apply a property in the
  memory worlds. Samples holds the worlds they share.

  Bounds. \<open>eventPasses n\<close> cuts a run of the event dispatcher off after \<open>n\<close> passes, and \<open>eventPasses_mono\<close> shows that
  more fuel changes no finished run; the loop ends when a pass stays below its limit. The parser
  of durations takes the length of the text as fuel, and each round consumes a byte (\<open>durationTerms_fuel\<close>); those of
  JSON and escapes recurse on a shorter rest. Integers are kept at 64
  bits where they can overflow (\<open>wrap64\<close> in Retry and in durations, hashes, and the epochs of the cache, whose properties
  assume fewer than \<open>2 ^ 64\<close> invalidations); version numbers and counters of records are unbounded.

  Not modelled: field schemas, paths and help texts of the framework (the framework parses requests, theory Requests); the
  construction of SDK and HTTP clients beyond their policy, the transport of requests, and the URL, form and JSON
  encoding of GitLab requests; the parsers of \<open>net/url\<close>, X.509 and the validators of apimachinery, which are
  arguments; logging and the OpenTelemetry instruments; the plugin's main function; the release and CI tools
  under \<open>hack/tools\<close>. Simplifications: the texts of errors about floats, durations and \<open>%q\<close> of Kubernetes keys are
  abbreviated; lower case is ASCII; lookup timeouts never fire; a signal that arrives during a run of
  the event dispatcher counts as one after it.
\<close>

end
